(* ===== verification/Prelude.thy ===== *)
theory Prelude
  imports Main "HOL-Library.Word" "HOL-Library.Finite_Map" "HOL-Library.Multiset"
begin

text \<open>
  Shared ground of the development: Go errors as values, the zero value a Go map read
  yields, list facts, and the state-and-error programs in which every operation of the
  controller that talks to an API server is written. A program takes the state and gives
  back an error or a value, together with the state it leaves; an error keeps the state
  reached so far, as a Go function that returns early does. The Hoare triples at the end
  carry the invariant proofs of the component theories.
\<close>

named_theorems prog_simps \<open>how programs run\<close>
named_theorems wp \<open>rules for triples\<close>

section \<open>Errors\<close>

text \<open>
  \<open>ErrNotFound\<close>, \<open>ErrNoMatch\<close> and \<open>ErrExists\<close> are the API-server answers the program
  tells apart; \<open>ErrNoClaim\<close> is \<open>errFeaturesClaimNotFound\<close>; \<open>ErrText\<close> is any other error; \<open>ErrWrap\<close> is \<open>fmt.Errorf\<close> with \<open>%w\<close>;
  \<open>ErrJoin\<close> is \<open>errors.Join\<close>; \<open>GoPanic\<close> is a run-time panic of the program (a nil
  dereference, a write to a nil map), which the controller runtime recovers into an error
  of the reconcile; \<open>GoExit\<close> is \<open>klog.Fatalln\<close>, which ends the process there and then.
\<close>

datatype gerr =
    ErrNotFound
  | ErrNoMatch
  | ErrExists
  | ErrNoClaim
  | ErrText string
  | ErrWrap string gerr
  | ErrJoin "gerr list"
  | GoPanic string
  | GoExit string

text \<open>\<open>errors.IsNotFound\<close> looks through wrapped and joined errors.\<close>

fun is_not_found :: "gerr \<Rightarrow> bool" where
  "is_not_found ErrNotFound = True"
| "is_not_found (ErrWrap s e) = is_not_found e"
| "is_not_found (ErrJoin es) = list_ex is_not_found es"
| "is_not_found ErrNoMatch = False"
| "is_not_found ErrExists = False"
| "is_not_found ErrNoClaim = False"
| "is_not_found (ErrText s) = False"
| "is_not_found (GoPanic s) = False"
| "is_not_found (GoExit s) = False"

text \<open>\<open>errors.Join\<close> drops nil errors and is nil when none is left.\<close>

definition errors_join :: "gerr option list \<Rightarrow> gerr option" where
  "errors_join es =
     (case List.map_filter id es of [] \<Rightarrow> None | e # es' \<Rightarrow> Some (ErrJoin (e # es')))"

section \<open>Go maps from strings\<close>

type_synonym strmap = "string \<rightharpoonup> string"

text \<open>Reading a missing key of a \<open>map[string]string\<close> yields the empty string.\<close>

definition zstr :: "string option \<Rightarrow> string" where
  "zstr v = (case v of None \<Rightarrow> '''' | Some s \<Rightarrow> s)"

lemma zstr_simps [simp]: "zstr None = ''''" "zstr (Some s) = s"
  by (simp_all add: zstr_def)

section \<open>Lists\<close>

lemma find_Some_iff_first:
  "List.find P xs = Some x \<longleftrightarrow>
     (\<exists>ys zs. xs = ys @ x # zs \<and> P x \<and> (\<forall>y \<in> set ys. \<not> P y))"
proof (induction xs)
  case Nil
  then show ?case by simp
next
  case (Cons a xs)
  show ?case
  proof (cases "P a")
    case True
    have "\<exists>ys zs. a # xs = ys @ x # zs \<and> P x \<and> (\<forall>y \<in> set ys. \<not> P y) \<Longrightarrow> a = x"
      by (metis True append_Cons hd_append2 list.sel(1) list.set_sel(1) self_append_conv2)
    with True show ?thesis by (auto intro: exI [of _ "[]"])
  next
    case False
    show ?thesis
    proof
      assume "List.find P (a # xs) = Some x"
      with False Cons.IH obtain ys zs
        where "xs = ys @ x # zs" "P x" "\<forall>y \<in> set ys. \<not> P y" by auto
      with False have "a # xs = (a # ys) @ x # zs \<and> P x \<and> (\<forall>y \<in> set (a # ys). \<not> P y)" by simp
      then show "\<exists>ys zs. a # xs = ys @ x # zs \<and> P x \<and> (\<forall>y \<in> set ys. \<not> P y)" by blast
    next
      assume "\<exists>ys zs. a # xs = ys @ x # zs \<and> P x \<and> (\<forall>y \<in> set ys. \<not> P y)"
      then obtain ys zs where
        *: "a # xs = ys @ x # zs" "P x" "\<forall>y \<in> set ys. \<not> P y" by blast
      with False have "ys \<noteq> []" by auto
      with * obtain ys' where "ys = a # ys'" by (cases ys) auto
      with * have "xs = ys' @ x # zs \<and> P x \<and> (\<forall>y \<in> set ys'. \<not> P y)" by simp
      with Cons.IH False show "List.find P (a # xs) = Some x" by auto
    qed
  qed
qed

lemma find_None_iff_all: "List.find P xs = None \<longleftrightarrow> (\<forall>x \<in> set xs. \<not> P x)"
  by (induction xs) auto

lemma find_SomeD: "List.find P xs = Some x \<Longrightarrow> x \<in> set xs \<and> P x"
  by (induction xs) (auto split: if_splits)

lemma find_append:
  "List.find P (xs @ ys) = (case List.find P xs of None \<Rightarrow> List.find P ys | Some x \<Rightarrow> Some x)"
  by (induction xs) auto

section \<open>Ranges over maps\<close>

text \<open>
  The entries of a map in the order \<open>p\<close> of their positions. An order that is no permutation,
  and a list that names a key twice, which is no map, are left as they are.
\<close>

definition visit :: "nat list \<Rightarrow> ('k \<times> 'v) list \<Rightarrow> ('k \<times> 'v) list" where
  "visit p m = (if sort p = [0..<length m] \<and> distinct (map fst m) then map ((!) m) p else m)"

lemma mset_visit [simp]: "mset (visit p m) = mset m"
proof (cases "sort p = [0..<length m] \<and> distinct (map fst m)")
  case True
  then have "mset p = mset [0..<length m]" by (metis mset_sort)
  then have "mset (map ((!) m) p) = mset (map ((!) m) [0..<length m])" by (simp only: mset_map)
  with True show ?thesis by (simp add: visit_def map_nth)
next
  case False
  then show ?thesis unfolding visit_def by (simp only: if_False)
qed

lemma visit_simps [simp]:
  "set (visit p m) = set m" "length (visit p m) = length m" "distinct (map g (visit p m)) \<longleftrightarrow> distinct (map g m)"
  "visit [] m = m"
proof -
  show "set (visit p m) = set m" by (rule mset_eq_setD) simp
  show "length (visit p m) = length m" by (rule mset_eq_length) simp
  have "mset (map g (visit p m)) = mset (map g m)" by simp
  then show "distinct (map g (visit p m)) \<longleftrightarrow> distinct (map g m)" by (rule mset_eq_imp_distinct_iff)
  show "visit [] m = m" by (cases m) (auto simp: visit_def)
qed

lemma map_of_visit [simp]: "map_of (visit p m) = map_of m"
proof (cases "distinct (map fst m)")
  case True
  show ?thesis
  proof
    fix k
    have "map_of (visit p m) k = Some v \<longleftrightarrow> map_of m k = Some v" for v
      using True by (simp add: map_of_eq_Some_iff)
    then show "map_of (visit p m) k = map_of m k" by (metis option.exhaust)
  qed
next
  case False
  then show ?thesis unfolding visit_def by (simp only: simp_thms if_False)
qed

section \<open>Programs\<close>

type_synonym ('w, 'a) prog = "'w \<Rightarrow> (gerr + 'a) \<times> 'w"

definition ret :: "'a \<Rightarrow> ('w, 'a) prog" where
  "ret x = (\<lambda>w. (Inr x, w))"

definition raise :: "gerr \<Rightarrow> ('w, 'a) prog" where
  "raise e = (\<lambda>w. (Inl e, w))"

definition bindM :: "('w, 'a) prog \<Rightarrow> ('a \<Rightarrow> ('w, 'b) prog) \<Rightarrow> ('w, 'b) prog" where
  "bindM m f = (\<lambda>w. case m w of (Inl e, w') \<Rightarrow> (Inl e, w') | (Inr x, w') \<Rightarrow> f x w')"

text \<open>\<open>tryM m h\<close>: the Go idiom that looks at the error itself before going on.\<close>

definition tryM :: "('w, 'a) prog \<Rightarrow> (gerr + 'a \<Rightarrow> ('w, 'b) prog) \<Rightarrow> ('w, 'b) prog" where
  "tryM m h = (\<lambda>w. case m w of (r, w') \<Rightarrow> h r w')"

text \<open>A pure fallible computation, and a read of the state.\<close>

definition liftM :: "gerr + 'a \<Rightarrow> ('w, 'a) prog" where
  "liftM r = (\<lambda>w. (r, w))"

definition getsM :: "('w \<Rightarrow> 'a) \<Rightarrow> ('w, 'a) prog" where
  "getsM f = (\<lambda>w. (Inr (f w), w))"

text \<open>A Go loop with a loop-carried value; the first error leaves the loop.\<close>

fun foldM :: "('s \<Rightarrow> 'a \<Rightarrow> ('w, 's) prog) \<Rightarrow> 's \<Rightarrow> 'a list \<Rightarrow> ('w, 's) prog" where
  "foldM f s [] = ret s"
| "foldM f s (x # xs) = bindM (f s x) (\<lambda>s'. foldM f s' xs)"

text \<open>Sequencing of pure fallible computations.\<close>

definition bindE :: "gerr + 'a \<Rightarrow> ('a \<Rightarrow> gerr + 'b) \<Rightarrow> gerr + 'b" where
  "bindE r f = (case r of Inl e \<Rightarrow> Inl e | Inr x \<Rightarrow> f x)"

lemma bindE_simps [simp]: "bindE (Inl e) f = Inl e" "bindE (Inr x) f = f x"
  by (simp_all add: bindE_def)

lemma bindE_Inr_iff: "bindE r f = Inr y \<longleftrightarrow> (\<exists>x. r = Inr x \<and> f x = Inr y)"
  by (cases r) auto

lemma ret_run [prog_simps]: "ret x w = (Inr x, w)" by (simp add: ret_def)
lemma raise_run [prog_simps]: "raise e w = (Inl e, w)" by (simp add: raise_def)
lemma liftM_run [prog_simps]: "liftM r w = (r, w)" by (simp add: liftM_def)
lemma getsM_run [prog_simps]: "getsM f w = (Inr (f w), w)" by (simp add: getsM_def)
lemma bindM_run [prog_simps]:
  "bindM m f w = (case m w of (Inl e, w') \<Rightarrow> (Inl e, w') | (Inr x, w') \<Rightarrow> f x w')"
  by (simp add: bindM_def)
lemma tryM_run [prog_simps]: "tryM m h w = h (fst (m w)) (snd (m w))"
  by (simp add: tryM_def split: prod.splits)

lemma bindM_Inr_iff:
  "bindM m f w = (Inr y, w'') \<longleftrightarrow> (\<exists>x w'. m w = (Inr x, w') \<and> f x w' = (Inr y, w''))"
  by (auto simp: bindM_def split: prod.splits sum.splits)

lemma bindM_Inl_iff:
  "bindM m f w = (Inl e, w'') \<longleftrightarrow>
     m w = (Inl e, w'') \<or> (\<exists>x w'. m w = (Inr x, w') \<and> f x w' = (Inl e, w''))"
  by (auto simp: bindM_def split: prod.splits sum.splits)

lemma bindM_assoc: "bindM (bindM m f) g = bindM m (\<lambda>x. bindM (f x) g)"
  by (auto simp: bindM_def fun_eq_iff split: prod.splits sum.splits)

lemma bindM_ret [simp]: "bindM m ret = m" "bindM (ret x) f = f x"
  by (auto simp: bindM_def ret_def fun_eq_iff split: prod.splits sum.splits)

lemma foldM_append: "foldM f s (xs @ ys) = bindM (foldM f s xs) (\<lambda>s'. foldM f s' ys)"
  by (induction xs arbitrary: s) (simp_all add: bindM_assoc)

section \<open>Triples\<close>

text \<open>
  \<open>triple P m Q E\<close>: started where \<open>P\<close> holds, \<open>m\<close> ends either with a value and a state in
  \<open>Q\<close>, or with an error and a state in \<open>E\<close>.
\<close>

definition triple ::
  "('w \<Rightarrow> bool) \<Rightarrow> ('w, 'a) prog \<Rightarrow> ('a \<Rightarrow> 'w \<Rightarrow> bool) \<Rightarrow> (gerr \<Rightarrow> 'w \<Rightarrow> bool) \<Rightarrow> bool" where
  "triple P m Q E \<longleftrightarrow>
     (\<forall>w. P w \<longrightarrow> (case m w of (Inr x, w') \<Rightarrow> Q x w' | (Inl e, w') \<Rightarrow> E e w'))"

text \<open>An invariant of the state, kept on success and on error alike.\<close>

abbreviation keeps :: "('w \<Rightarrow> bool) \<Rightarrow> ('w, 'a) prog \<Rightarrow> bool" where
  "keeps I m \<equiv> triple I m (\<lambda>_. I) (\<lambda>_. I)"

lemma triple_ret [wp]: "(\<And>w. P w \<Longrightarrow> Q x w) \<Longrightarrow> triple P (ret x) Q E"
  by (simp add: triple_def ret_def)

lemma triple_raise [wp]: "(\<And>w. P w \<Longrightarrow> E e w) \<Longrightarrow> triple P (raise e) Q E"
  by (simp add: triple_def raise_def)

lemma triple_liftM [wp]:
  "(\<And>x w. P w \<Longrightarrow> r = Inr x \<Longrightarrow> Q x w) \<Longrightarrow> (\<And>e w. P w \<Longrightarrow> r = Inl e \<Longrightarrow> E e w)
    \<Longrightarrow> triple P (liftM r) Q E"
  by (cases r) (simp_all add: triple_def liftM_def)

lemma triple_getsM [wp]: "(\<And>w. P w \<Longrightarrow> Q (f w) w) \<Longrightarrow> triple P (getsM f) Q E"
  by (simp add: triple_def getsM_def)

lemma triple_bindM [wp]:
  "triple P m R E \<Longrightarrow> (\<And>x. triple (R x) (f x) Q E) \<Longrightarrow> triple P (bindM m f) Q E"
  by (fastforce simp: triple_def bindM_def split: prod.splits sum.splits)

lemma triple_tryM [wp]:
  assumes "triple P m (\<lambda>x. R (Inr x)) (\<lambda>e. R (Inl e))" and "\<And>r. triple (R r) (h r) Q E"
  shows "triple P (tryM m h) Q E"
  unfolding triple_def
proof (intro allI impI)
  fix w
  assume "P w"
  obtain r w' where m: "m w = (r, w')" by (cases "m w")
  with assms(1) \<open>P w\<close> have "R r w'"
    by (cases r) (auto simp: triple_def split: prod.splits sum.splits)
  with assms(2) [of r] m show "case tryM m h w of (Inl e, w') \<Rightarrow> E e w' | (Inr x, w') \<Rightarrow> Q x w'"
    by (simp add: triple_def tryM_def)
qed

lemma triple_conseq:
  "triple P' m Q' E' \<Longrightarrow> (\<And>w. P w \<Longrightarrow> P' w) \<Longrightarrow> (\<And>x w. Q' x w \<Longrightarrow> Q x w)
    \<Longrightarrow> (\<And>e w. E' e w \<Longrightarrow> E e w) \<Longrightarrow> triple P m Q E"
  by (fastforce simp: triple_def split: prod.splits sum.splits)

lemma triple_foldM:
  "(\<And>x s. x \<in> set xs \<Longrightarrow> triple (I s) (f s x) I E) \<Longrightarrow> triple (I s) (foldM f s xs) I E"
proof (induction xs arbitrary: s)
  case Nil
  then show ?case by (auto intro: wp)
next
  case (Cons x xs)
  have "triple (I s) (f s x) I E" by (rule Cons.prems) simp
  moreover have "triple (I s') (foldM f s' xs) I E" for s'
    by (rule Cons.IH) (simp add: Cons.prems)
  ultimately show ?case by (auto intro: triple_bindM)
qed

lemma tripleD_Inr: "triple P m Q E \<Longrightarrow> P w \<Longrightarrow> m w = (Inr x, w') \<Longrightarrow> Q x w'"
  by (fastforce simp: triple_def)

lemma tripleD_Inl: "triple P m Q E \<Longrightarrow> P w \<Longrightarrow> m w = (Inl e, w') \<Longrightarrow> E e w'"
  by (fastforce simp: triple_def)

lemma keepsD: "keeps I m \<Longrightarrow> I w \<Longrightarrow> I (snd (m w))"
  by (cases "m w") (fastforce simp: triple_def split: sum.splits)

end
