(* ===== verification/JsonText.thy ===== *)
theory JsonText
  imports Prelude
begin

text \<open>
  JSON text as Go's \<open>encoding/json\<close> writes it and \<open>sigs.k8s.io/json\<close> reads it back. The
  upgrader persists its targets in an annotation, a string, between two reconciles, so the
  text itself is part of the program's state. A document is a tree with its members in
  textual order; a number is its literal. \<open>print_doc\<close> is the compact form of
  \<open>json.Marshal\<close> (with its escapes), \<open>parse_doc\<close> a recursive-descent reader with fuel;
  \<open>parse_print\<close> is the round trip, and \<open>parse_doc_fuel\<close> shows that any larger fuel reads the same, so the fuel is enough on
  every text.
\<close>

section \<open>Documents\<close>

datatype jdoc =
    DNull
  | DBool bool
  | DNum string
  | DStr string
  | DArr "jdoc list"
  | DObj "(string \<times> jdoc) list"

section \<open>Decimal numbers\<close>

definition digit_char :: "nat \<Rightarrow> char" where
  "digit_char d = char_of (48 + d)"

definition is_digit :: "char \<Rightarrow> bool" where
  "is_digit c = (48 \<le> (of_char c :: nat) \<and> (of_char c :: nat) \<le> 57)"

definition digit_val :: "char \<Rightarrow> nat" where
  "digit_val c = of_char c - 48"

fun show_nat :: "nat \<Rightarrow> string" where
  "show_nat n = (if n < 10 then [digit_char n] else show_nat (n div 10) @ [digit_char (n mod 10)])"

declare show_nat.simps [simp del]

definition show_int :: "int \<Rightarrow> string" where
  "show_int i = (if i < 0 then CHR ''-'' # show_nat (nat (- i)) else show_nat (nat i))"

fun nat_of_digits :: "nat \<Rightarrow> string \<Rightarrow> nat" where
  "nat_of_digits acc [] = acc"
| "nat_of_digits acc (c # cs) = nat_of_digits (10 * acc + digit_val c) cs"

definition split_sign :: "string \<Rightarrow> bool \<times> string" where
  "split_sign s = (case s of [] \<Rightarrow> (False, []) | c # cs \<Rightarrow> if c = CHR ''-'' then (True, cs) else (False, s))"

text \<open>\<open>strconv.ParseInt(s, 10, 64)\<close> on a number literal.\<close>

definition parse_int64 :: "string \<Rightarrow> int option" where
  "parse_int64 s =
     (let ds = snd (split_sign s);
          n = int (nat_of_digits 0 ds);
          v = (if fst (split_sign s) then - n else n)
      in if ds \<noteq> [] \<and> list_all is_digit ds \<and> - (2 ^ 63) \<le> v \<and> v < 2 ^ 63 then Some v else None)"

lemma digit_char_props [simp]:
  "d < 10 \<Longrightarrow> is_digit (digit_char d)" "d < 10 \<Longrightarrow> digit_val (digit_char d) = d"
  by (simp_all add: is_digit_def digit_val_def digit_char_def of_char_of)

lemma show_nat_digits: "list_all is_digit (show_nat n) \<and> show_nat n \<noteq> []"
proof (induction n rule: show_nat.induct)
  case (1 n)
  show ?case
  proof (cases "n < 10")
    case True
    then show ?thesis by (simp add: show_nat.simps [of n])
  next
    case False
    with 1 show ?thesis by (simp add: show_nat.simps [of n])
  qed
qed

lemma nat_of_digits_append:
  "nat_of_digits acc (xs @ ys) = nat_of_digits (nat_of_digits acc xs) ys"
  by (induction xs arbitrary: acc) auto

lemma nat_of_digits_show_nat: "nat_of_digits 0 (show_nat n) = n"
proof (induction n rule: show_nat.induct)
  case (1 n)
  show ?case
  proof (cases "n < 10")
    case True
    then show ?thesis by (subst show_nat.simps) simp
  next
    case False
    with 1 show ?thesis by (subst show_nat.simps) (simp add: nat_of_digits_append)
  qed
qed

lemma split_sign_digits: "list_all is_digit s \<Longrightarrow> split_sign s = (False, s)"
  by (cases s) (auto simp: split_sign_def is_digit_def)

lemma split_sign_minus [simp]: "split_sign (CHR ''-'' # ds) = (True, ds)"
  by (simp add: split_sign_def)

lemma parse_show_int:
  assumes "- (2 ^ 63) \<le> i" and "i < 2 ^ 63"
  shows "parse_int64 (show_int i) = Some i"
proof (cases "i < 0")
  case True
  with assms show_nat_digits [of "nat (- i)"] show ?thesis
    by (simp add: parse_int64_def show_int_def nat_of_digits_show_nat)
next
  case False
  with assms show_nat_digits [of "nat i"] show ?thesis
    by (simp add: parse_int64_def show_int_def nat_of_digits_show_nat split_sign_digits)
qed

section \<open>Strings\<close>

definition hex_char :: "nat \<Rightarrow> char" where
  "hex_char d = (if d < 10 then char_of (48 + d) else char_of (87 + d))"

definition hex_val :: "char \<Rightarrow> nat option" where
  "hex_val c = (let v = of_char c :: nat in
     if 48 \<le> v \<and> v \<le> 57 then Some (v - 48)
     else if 97 \<le> v \<and> v \<le> 102 then Some (v - 87)
     else if 65 \<le> v \<and> v \<le> 70 then Some (v - 55)
     else None)"

definition hex4 :: "char \<Rightarrow> char \<Rightarrow> char \<Rightarrow> char \<Rightarrow> nat option" where
  "hex4 a b c d =
     (case (hex_val a, hex_val b, hex_val c, hex_val d) of
        (Some x, Some y, Some z, Some w) \<Rightarrow> Some (4096 * x + 256 * y + 16 * z + w)
      | _ \<Rightarrow> None)"

text \<open>The bytes of a code point, as \<open>utf8.EncodeRune\<close> writes them.\<close>

definition utf8_enc :: "nat \<Rightarrow> string" where
  "utf8_enc n =
     (if n < 128 then [char_of n]
      else if n < 2048 then [char_of (192 + n div 64), char_of (128 + n mod 64)]
      else if n < 65536 then
        [char_of (224 + n div 4096), char_of (128 + n div 64 mod 64), char_of (128 + n mod 64)]
      else
        [char_of (240 + n div 262144), char_of (128 + n div 4096 mod 64),
         char_of (128 + n div 64 mod 64), char_of (128 + n mod 64)])"

text \<open>
  \<open>appendString\<close> with HTML escaping on, the default of \<open>json.Marshal\<close>: quotes, backslashes,
  control characters, the three HTML characters and U+2028 / U+2029 are escaped, everything
  else (DEL and valid UTF-8 included) is copied.
\<close>

definition esc_char :: "char \<Rightarrow> string" where
  "esc_char c =
     (if c = CHR 0x22 then [CHR 0x5C, CHR 0x22]
      else if c = CHR 0x5C then [CHR 0x5C, CHR 0x5C]
      else if c = CHR 0x08 then [CHR 0x5C, CHR ''b'']
      else if c = CHR 0x0C then [CHR 0x5C, CHR ''f'']
      else if c = CHR 0x0A then [CHR 0x5C, CHR ''n'']
      else if c = CHR 0x0D then [CHR 0x5C, CHR ''r'']
      else if c = CHR 0x09 then [CHR 0x5C, CHR ''t'']
      else if of_char c < (32 :: nat) \<or> c = CHR ''<'' \<or> c = CHR ''>'' \<or> c = CHR 0x26 then
        [CHR 0x5C, CHR ''u'', CHR ''0'', CHR ''0'',
         hex_char (of_char c div 16), hex_char (of_char c mod 16)]
      else [c])"

fun esc :: "string \<Rightarrow> string" where
  "esc [] = []"
| "esc [a] = esc_char a"
| "esc [a, b] = esc_char a @ esc_char b"
| "esc (a # b # c # cs) =
     (if a = CHR 0xE2 \<and> b = CHR 0x80 \<and> c = CHR 0xA8 then [CHR 0x5C, CHR ''u'', CHR ''2'', CHR ''0'', CHR ''2'', CHR ''8''] @ esc cs
      else if a = CHR 0xE2 \<and> b = CHR 0x80 \<and> c = CHR 0xA9 then [CHR 0x5C, CHR ''u'', CHR ''2'', CHR ''0'', CHR ''2'', CHR ''9''] @ esc cs
      else esc_char a @ esc (b # c # cs))"

text \<open>The two-character escapes a reader knows.\<close>

definition unesc_char :: "char \<Rightarrow> char option" where
  "unesc_char e =
     (if e = CHR 0x22 \<or> e = CHR 0x5C \<or> e = CHR 0x2F then Some e
      else if e = CHR ''b'' then Some (CHR 0x08)
      else if e = CHR ''f'' then Some (CHR 0x0C)
      else if e = CHR ''n'' then Some (CHR 0x0A)
      else if e = CHR ''r'' then Some (CHR 0x0D)
      else if e = CHR ''t'' then Some (CHR 0x09)
      else None)"

definition cons_res :: "string \<Rightarrow> (string \<times> string) option \<Rightarrow> (string \<times> string) option" where
  "cons_res p r = (case r of None \<Rightarrow> None | Some (s, rest) \<Rightarrow> Some (p @ s, rest))"

lemma cons_res_simps [simp]:
  "cons_res p (Some (s, rest)) = Some (p @ s, rest)" "cons_res p None = None"
  by (simp_all add: cons_res_def)

text \<open>
  Reading a string after its opening quote. A surrogate pair is one code point; a lone
  surrogate becomes U+FFFD, as in \<open>unquoteBytes\<close>.
\<close>

function (sequential) p_str :: "string \<Rightarrow> (string \<times> string) option" where
  "p_str [] = None"
| "p_str (c # cs) =
     (if c = CHR 0x22 then Some ([], cs)
      else if c = CHR 0x5C then
        (case cs of
           [] \<Rightarrow> None
         | e # r \<Rightarrow>
             if e = CHR ''u'' then
               (case r of
                  h1 # h2 # h3 # h4 # r1 \<Rightarrow>
                    (case hex4 h1 h2 h3 h4 of
                       None \<Rightarrow> None
                     | Some n \<Rightarrow>
                         if 55296 \<le> n \<and> n < 56320 then
                           (case r1 of
                              b # u # g1 # g2 # g3 # g4 # r2 \<Rightarrow>
                                (case hex4 g1 g2 g3 g4 of
                                   Some m \<Rightarrow>
                                     if b = CHR 0x5C \<and> u = CHR ''u'' \<and> 56320 \<le> m \<and> m < 57344 then
                                       cons_res (utf8_enc (65536 + (n - 55296) * 1024 + (m - 56320))) (p_str r2)
                                     else cons_res (utf8_enc 65533) (p_str r1)
                                 | None \<Rightarrow> cons_res (utf8_enc 65533) (p_str r1))
                            | _ \<Rightarrow> cons_res (utf8_enc 65533) (p_str r1))
                         else if 56320 \<le> n \<and> n < 57344 then cons_res (utf8_enc 65533) (p_str r1)
                         else cons_res (utf8_enc n) (p_str r1))
                | _ \<Rightarrow> None)
             else (case unesc_char e of None \<Rightarrow> None | Some x \<Rightarrow> cons_res [x] (p_str r)))
      else if of_char c < (32 :: nat) then None
      else cons_res [c] (p_str cs))"
  by pat_completeness auto
termination by (relation "measure length") auto

declare p_str.simps [simp del]

lemma hex_val_char [simp]: "d < 16 \<Longrightarrow> hex_val (hex_char d) = Some d"
  by (auto simp: hex_val_def hex_char_def of_char_of Let_def)

lemma hex4_byte:
  assumes "n < 256"
  shows "hex4 (CHR ''0'') (CHR ''0'') (hex_char (n div 16)) (hex_char (n mod 16)) = Some n"
proof -
  have "hex_val (CHR ''0'') = Some 0" by (simp add: hex_val_def)
  moreover have "n div 16 < 16" using assms by simp
  ultimately show ?thesis by (simp add: hex4_def)
qed

lemma esc_char_plain: "esc_char c = [c] \<Longrightarrow> c \<noteq> CHR 0x22 \<and> c \<noteq> CHR 0x5C \<and> \<not> of_char c < (32 :: nat)"
  by (auto simp: esc_char_def split: if_splits)

lemma p_str_plain:
  "c \<noteq> CHR 0x22 \<Longrightarrow> c \<noteq> CHR 0x5C \<Longrightarrow> \<not> of_char c < (32 :: nat) \<Longrightarrow>
     p_str (c # cs) = cons_res [c] (p_str cs)"
  by (simp add: p_str.simps)

lemma p_str_esc2: "unesc_char e = Some x \<Longrightarrow> p_str (CHR 0x5C # e # r) = cons_res [x] (p_str r)"
  by (subst p_str.simps) (auto simp: unesc_char_def split: if_splits)

lemma p_str_esc6:
  assumes "hex4 a b c d = Some n" and "n < 55296 \<or> 57344 \<le> n"
  shows "p_str (CHR 0x5C # CHR ''u'' # a # b # c # d # r) = cons_res (utf8_enc n) (p_str r)"
  using assms by (subst p_str.simps) auto

lemma esc_char_cases:
  "(\<exists>e. esc_char c = [CHR 0x5C, e] \<and> unesc_char e = Some c) \<or>
   (esc_char c = [CHR 0x5C, CHR ''u'', CHR ''0'', CHR ''0'',
      hex_char (of_char c div 16), hex_char (of_char c mod 16)] \<and> (of_char c :: nat) < 128) \<or>
   esc_char c = [c]"
  unfolding esc_char_def by (auto simp: unesc_char_def)

lemma p_str_esc_char: "p_str (esc_char c @ rest) = cons_res [c] (p_str rest)"
proof -
  from esc_char_cases [of c] consider
      (two) e where "esc_char c = [CHR 0x5C, e]" "unesc_char e = Some c"
    | (six) "esc_char c = [CHR 0x5C, CHR ''u'', CHR ''0'', CHR ''0'',
         hex_char (of_char c div 16), hex_char (of_char c mod 16)]" "(of_char c :: nat) < 128"
    | (plain) "esc_char c = [c]"
    by blast
  then show ?thesis
  proof cases
    case two
    then show ?thesis by (simp add: p_str_esc2)
  next
    case six
    have "p_str (esc_char c @ rest) = cons_res (utf8_enc (of_char c)) (p_str rest)"
      unfolding six(1) using p_str_esc6 [OF hex4_byte] six(2) by simp
    with six(2) show ?thesis by (simp add: utf8_enc_def)
  next
    case plain
    with esc_char_plain [OF plain] show ?thesis by (simp add: p_str_plain)
  qed
qed

lemma p_str_2028:
  "p_str (CHR 0x5C # CHR ''u'' # CHR ''2'' # CHR ''0'' # CHR ''2'' # CHR ''8'' # r)
     = cons_res [CHR 0xE2, CHR 0x80, CHR 0xA8] (p_str r)"
  "p_str (CHR 0x5C # CHR ''u'' # CHR ''2'' # CHR ''0'' # CHR ''2'' # CHR ''9'' # r)
     = cons_res [CHR 0xE2, CHR 0x80, CHR 0xA9] (p_str r)"
proof -
  have hex: "hex4 (CHR ''2'') (CHR ''0'') (CHR ''2'') (CHR ''8'') = Some 8232"
    "hex4 (CHR ''2'') (CHR ''0'') (CHR ''2'') (CHR ''9'') = Some 8233"
    by (simp_all add: hex4_def hex_val_def)
  have utf: "utf8_enc 8232 = [CHR 0xE2, CHR 0x80, CHR 0xA8]" "utf8_enc 8233 = [CHR 0xE2, CHR 0x80, CHR 0xA9]"
    by (simp_all add: utf8_enc_def char_of_def bit_Suc_0_iff)
  show "p_str (CHR 0x5C # CHR ''u'' # CHR ''2'' # CHR ''0'' # CHR ''2'' # CHR ''8'' # r)
     = cons_res [CHR 0xE2, CHR 0x80, CHR 0xA8] (p_str r)"
    using p_str_esc6 [OF hex(1)] utf by simp
  show "p_str (CHR 0x5C # CHR ''u'' # CHR ''2'' # CHR ''0'' # CHR ''2'' # CHR ''9'' # r)
     = cons_res [CHR 0xE2, CHR 0x80, CHR 0xA9] (p_str r)"
    using p_str_esc6 [OF hex(2)] utf by simp
qed

lemma p_str_esc: "p_str (esc s @ CHR 0x22 # rest) = Some (s, rest)"
proof (induction s rule: esc.induct)
  case 1
  show ?case by (simp add: p_str.simps)
next
  case (2 a)
  show ?case by (simp add: p_str_esc_char p_str.simps(2) [of "CHR 0x22" rest])
next
  case (3 a b)
  show ?case by (simp add: p_str_esc_char p_str.simps(2) [of "CHR 0x22" rest])
next
  case (4 a b c cs)
  then show ?case by (auto simp: p_str_esc_char p_str_2028 simp del: esc.simps(2,3) split: if_splits)
qed

section \<open>Number literals\<close>

definition take_digits :: "string \<Rightarrow> (string \<times> string) option" where
  "take_digits s =
     (if takeWhile is_digit s = [] then None else Some (takeWhile is_digit s, dropWhile is_digit s))"

definition num_int :: "string \<Rightarrow> (string \<times> string) option" where
  "num_int s =
     (case take_digits s of
        None \<Rightarrow> None
      | Some (ds, r) \<Rightarrow> if hd ds = CHR ''0'' \<and> tl ds \<noteq> [] then None else Some (ds, r))"

definition num_frac :: "string \<Rightarrow> (string \<times> string) option" where
  "num_frac s =
     (case s of
        [] \<Rightarrow> Some ([], [])
      | c # r \<Rightarrow> if c = CHR ''.'' then cons_res [c] (take_digits r) else Some ([], s))"

definition num_exp :: "string \<Rightarrow> (string \<times> string) option" where
  "num_exp s =
     (case s of
        [] \<Rightarrow> Some ([], [])
      | c # r \<Rightarrow>
          if c = CHR ''e'' \<or> c = CHR ''E'' then
            (case r of
               [] \<Rightarrow> None
             | g # r' \<Rightarrow> if g = CHR ''+'' \<or> g = CHR ''-'' then cons_res [c, g] (take_digits r')
                        else cons_res [c] (take_digits r))
          else Some ([], s))"

definition then_res :: "(string \<times> string) option \<Rightarrow> (string \<Rightarrow> (string \<times> string) option) \<Rightarrow> (string \<times> string) option" where
  "then_res r f = (case r of None \<Rightarrow> None | Some (a, rest) \<Rightarrow> cons_res a (f rest))"

definition p_num :: "string \<Rightarrow> (string \<times> string) option" where
  "p_num s =
     (let body = (\<lambda>r. then_res (num_int r) (\<lambda>r1. then_res (num_frac r1) num_exp))
      in case s of
           [] \<Rightarrow> None
         | c # r \<Rightarrow> if c = CHR ''-'' then cons_res [c] (body r) else body s)"

text \<open>What may follow a literal without extending it.\<close>

definition num_stop :: "string \<Rightarrow> bool" where
  "num_stop rest =
     (case rest of
        [] \<Rightarrow> True
      | c # _ \<Rightarrow> \<not> is_digit c \<and> c \<noteq> CHR ''.'' \<and> c \<noteq> CHR ''e'' \<and> c \<noteq> CHR ''E'')"

text \<open>
  A reader of a prefix \<open>f\<close> is stable if appending text that cannot extend a literal does
  not change what it reads, and exact if it splits its input.
\<close>

definition stable_reader :: "(string \<Rightarrow> (string \<times> string) option) \<Rightarrow> bool" where
  "stable_reader f \<longleftrightarrow>
     (\<forall>s a r rest. f s = Some (a, r) \<longrightarrow> num_stop rest \<longrightarrow> f (s @ rest) = Some (a, r @ rest))"

definition splits :: "(string \<Rightarrow> (string \<times> string) option) \<Rightarrow> bool" where
  "splits f \<longleftrightarrow> (\<forall>s a r. f s = Some (a, r) \<longrightarrow> s = a @ r)"

lemma stable_readerD: "stable_reader f \<Longrightarrow> f s = Some (a, r) \<Longrightarrow> num_stop rest \<Longrightarrow> f (s @ rest) = Some (a, r @ rest)"
  by (simp add: stable_reader_def)

lemma take_digits_append:
  "take_digits s = Some (a, r) \<Longrightarrow> num_stop rest \<Longrightarrow> take_digits (s @ rest) = Some (a, r @ rest)"
proof -
  assume "take_digits s = Some (a, r)" "num_stop rest"
  then have *: "takeWhile is_digit s = a" "dropWhile is_digit s = r" "a \<noteq> []"
    by (auto simp: take_digits_def split: if_splits)
  have "takeWhile is_digit (s @ rest) = a \<and> dropWhile is_digit (s @ rest) = r @ rest"
  proof (cases "\<forall>c \<in> set s. is_digit c")
    case True
    with * have "a = s" "r = []" by auto
    moreover have "takeWhile is_digit rest = []" "dropWhile is_digit rest = rest"
      using \<open>num_stop rest\<close> by (cases rest; simp add: num_stop_def)+
    ultimately show ?thesis using True by simp
  next
    case False
    with * show ?thesis by (auto simp: takeWhile_append dropWhile_append)
  qed
  with * show ?thesis by (simp add: take_digits_def)
qed

lemma stable_take_digits: "stable_reader take_digits"
  by (simp add: stable_reader_def take_digits_append)

lemma cons_res_Some_iff: "cons_res p x = Some (a, r) \<longleftrightarrow> (\<exists>b. x = Some (b, r) \<and> a = p @ b)"
  by (cases x) auto

lemma stable_num_int: "stable_reader num_int"
  unfolding stable_reader_def num_int_def
  by (auto split: option.splits if_splits dest: take_digits_append)

lemma num_frac_stop: "num_stop rest \<Longrightarrow> num_frac rest = Some ([], rest)"
  by (cases rest) (auto simp: num_frac_def num_stop_def)

lemma num_exp_stop: "num_stop rest \<Longrightarrow> num_exp rest = Some ([], rest)"
  by (cases rest) (auto simp: num_exp_def num_stop_def)

lemma num_frac_Cons:
  "num_frac (c # r) = (if c = CHR ''.'' then cons_res [c] (take_digits r) else Some ([], c # r))"
  by (simp add: num_frac_def)

lemma num_exp_Cons2:
  "num_exp (c # g # r) =
     (if c = CHR ''e'' \<or> c = CHR ''E'' then
        (if g = CHR ''+'' \<or> g = CHR ''-'' then cons_res [c, g] (take_digits r)
         else cons_res [c] (take_digits (g # r)))
      else Some ([], c # g # r))"
  by (simp add: num_exp_def)

lemma stable_num_frac: "stable_reader num_frac"
  unfolding stable_reader_def
proof (intro allI impI)
  fix s a r rest
  assume read: "num_frac s = Some (a, r)" and stop: "num_stop rest"
  show "num_frac (s @ rest) = Some (a, r @ rest)"
  proof (cases s)
    case Nil
    with read stop num_frac_stop show ?thesis by (auto simp: num_frac_def [of "[]"])
  next
    case (Cons c s')
    with read take_digits_append [OF _ stop] show ?thesis
      by (auto simp: num_frac_Cons cons_res_Some_iff split: if_splits)
  qed
qed

lemma stable_num_exp: "stable_reader num_exp"
  unfolding stable_reader_def
proof (intro allI impI)
  fix s a r rest
  assume read: "num_exp s = Some (a, r)" and stop: "num_stop rest"
  consider "s = []" | c where "s = [c]" | c g s' where "s = c # g # s'" by (cases s rule: remdups_adj.cases) auto
  then show "num_exp (s @ rest) = Some (a, r @ rest)"
  proof cases
    case 1
    with read stop num_exp_stop show ?thesis by (auto simp: num_exp_def [of "[]"])
  next
    case 2
    with read show ?thesis by (auto simp: num_exp_def split: if_splits)
  next
    case (3 c g s')
    show ?thesis
    proof (cases "(c = CHR ''e'' \<or> c = CHR ''E'') \<and> \<not> (g = CHR ''+'' \<or> g = CHR ''-'')")
      case True
      with read 3 obtain b where "take_digits (g # s') = Some (b, r)" "a = [c] @ b"
        by (auto simp: num_exp_Cons2 cons_res_Some_iff)
      with take_digits_append [OF _ stop] have "take_digits (g # s' @ rest) = Some (b, r @ rest)"
        by (metis append_Cons)
      with True 3 \<open>a = [c] @ b\<close> show ?thesis by (auto simp: num_exp_Cons2)
    next
      case False
      with read 3 take_digits_append [OF _ stop] show ?thesis
        by (auto simp: num_exp_Cons2 cons_res_Some_iff split: if_splits)
    qed
  qed
qed

lemma stable_then_res:
  assumes f: "stable_reader f" and g: "stable_reader g"
  shows "stable_reader (\<lambda>s. then_res (f s) g)"
  unfolding stable_reader_def
proof (intro allI impI)
  fix s a r rest
  assume read: "then_res (f s) g = Some (a, r)" and stop: "num_stop rest"
  then obtain a1 r1 a2 where "f s = Some (a1, r1)" "g r1 = Some (a2, r)" "a = a1 @ a2"
    by (auto simp: then_res_def cons_res_Some_iff split: option.splits)
  with f g stop show "then_res (f (s @ rest)) g = Some (a, r @ rest)"
    by (simp add: then_res_def stable_reader_def)
qed

lemma p_num_stable:
  assumes "p_num s = Some (s, [])" and "num_stop rest"
  shows "p_num (s @ rest) = Some (s, rest)"
proof -
  let ?body = "\<lambda>r. then_res (num_int r) (\<lambda>r1. then_res (num_frac r1) num_exp)"
  have body: "stable_reader ?body"
    by (rule stable_then_res [OF stable_num_int stable_then_res [OF stable_num_frac stable_num_exp]])
  from assms(1) obtain c r where s: "s = c # r" by (cases s) (auto simp: p_num_def)
  show ?thesis
  proof (cases "c = CHR ''-''")
    case True
    with assms(1) s have "?body r = Some (r, [])"
      by (auto simp: p_num_def Let_def cons_res_Some_iff)
    from stable_readerD [OF body this assms(2)] s True show ?thesis by (simp add: p_num_def Let_def)
  next
    case False
    with assms(1) s have "?body s = Some (s, [])" by (simp add: p_num_def Let_def)
    from stable_readerD [OF body this assms(2)] s False show ?thesis by (simp add: p_num_def Let_def)
  qed
qed

text \<open>The literals the program writes are numbers.\<close>

lemma show_nat_no_leading_zero: "hd (show_nat n) = CHR ''0'' \<Longrightarrow> tl (show_nat n) = []"
proof (induction n rule: show_nat.induct)
  case (1 n)
  show ?case
  proof (cases "n < 10")
    case True
    then show ?thesis by (simp add: show_nat.simps [of n])
  next
    case False
    define m where "m = n div 10"
    have ne: "show_nat m \<noteq> []" using show_nat_digits by simp
    have n: "show_nat n = show_nat m @ [digit_char (n mod 10)]"
      using False by (subst show_nat.simps) (simp add: m_def)
    with "1.prems" ne have "hd (show_nat m) = CHR ''0''" by simp
    with "1.IH" False have "tl (show_nat m) = []" by (simp add: m_def)
    with ne \<open>hd (show_nat m) = _\<close> have "show_nat m = [CHR ''0'']" by (cases "show_nat m") auto
    then have "m = 0" using nat_of_digits_show_nat [of m] by (simp add: digit_val_def)
    with False show ?thesis by (simp add: m_def)
  qed
qed

lemma take_digits_all: "list_all is_digit s \<Longrightarrow> s \<noteq> [] \<Longrightarrow> take_digits s = Some (s, [])"
proof -
  assume "list_all is_digit s" "s \<noteq> []"
  then have "takeWhile is_digit s = s" by (simp add: list_all_iff)
  moreover from \<open>list_all is_digit s\<close> have "dropWhile is_digit s = []" by (simp add: list_all_iff)
  ultimately show ?thesis using \<open>s \<noteq> []\<close> by (simp only: take_digits_def) simp
qed

lemma num_int_show_nat: "num_int (show_nat n) = Some (show_nat n, [])"
  using show_nat_digits [of n] show_nat_no_leading_zero [of n]
  by (simp add: num_int_def take_digits_all)

lemma p_num_show_int: "p_num (show_int i) = Some (show_int i, [])"
proof -
  have body: "then_res (num_int (show_nat n)) (\<lambda>r1. then_res (num_frac r1) num_exp) = Some (show_nat n, [])" for n
    by (simp add: num_int_show_nat then_res_def num_frac_def num_exp_def)
  have "\<exists>c r. show_nat n = c # r \<and> c \<noteq> CHR ''-''" for n
    using show_nat_digits [of n] by (cases "show_nat n") (auto simp: is_digit_def)
  then obtain c r where "show_nat (nat i) = c # r" "c \<noteq> CHR ''-''" by metis
  with body [of "nat i"] body [of "nat (- i)"] show ?thesis
    by (auto simp: show_int_def p_num_def Let_def)
qed

section \<open>Printing and reading documents\<close>

fun print_doc :: "jdoc \<Rightarrow> string"
  and print_tail :: "jdoc list \<Rightarrow> string"
  and print_mtail :: "(string \<times> jdoc) list \<Rightarrow> string"
where
  "print_doc DNull = ''null''"
| "print_doc (DBool b) = (if b then ''true'' else ''false'')"
| "print_doc (DNum s) = s"
| "print_doc (DStr s) = CHR 0x22 # esc s @ [CHR 0x22]"
| "print_doc (DArr []) = ''[]''"
| "print_doc (DArr (d # ds)) = CHR ''['' # print_doc d @ print_tail ds"
| "print_doc (DObj []) = ''{}''"
| "print_doc (DObj ((k, d) # ms)) =
     CHR ''{'' # CHR 0x22 # esc k @ CHR 0x22 # CHR '':'' # print_doc d @ print_mtail ms"
| "print_tail [] = '']''"
| "print_tail (d # ds) = CHR '','' # print_doc d @ print_tail ds"
| "print_mtail [] = ''}''"
| "print_mtail ((k, d) # ms) =
     CHR '','' # CHR 0x22 # esc k @ CHR 0x22 # CHR '':'' # print_doc d @ print_mtail ms"

definition is_ws :: "char \<Rightarrow> bool" where
  "is_ws c = (c = CHR 0x20 \<or> c = CHR 0x09 \<or> c = CHR 0x0A \<or> c = CHR 0x0D)"

definition skip_ws :: "string \<Rightarrow> string" where
  "skip_ws s = dropWhile is_ws s"

definition p_lit :: "string \<Rightarrow> jdoc \<Rightarrow> string \<Rightarrow> (jdoc \<times> string) option" where
  "p_lit w d s = (if take (length w) s = w then Some (d, drop (length w) s) else None)"

text \<open>The key of a member with its colon; the text starts at the opening quote.\<close>

definition p_key :: "string \<Rightarrow> (string \<times> string) option" where
  "p_key s =
     (case s of
        [] \<Rightarrow> None
      | c # r \<Rightarrow>
          if c = CHR 0x22 then
            (case p_str r of
               None \<Rightarrow> None
             | Some (k, r1) \<Rightarrow>
                 (case skip_ws r1 of
                    [] \<Rightarrow> None
                  | c1 # r2 \<Rightarrow> if c1 = CHR '':'' then Some (k, r2) else None))
          else None)"

fun p_value :: "nat \<Rightarrow> string \<Rightarrow> (jdoc \<times> string) option"
  and p_tail :: "nat \<Rightarrow> string \<Rightarrow> (jdoc list \<times> string) option"
  and p_mtail :: "nat \<Rightarrow> string \<Rightarrow> ((string \<times> jdoc) list \<times> string) option"
where
  "p_value 0 s = None"
| "p_value (Suc n) s =
     (case skip_ws s of
        [] \<Rightarrow> None
      | c # cs \<Rightarrow>
          if c = CHR 0x22 then map_option (apfst DStr) (p_str cs)
          else if c = CHR ''['' then
            (if take 1 (skip_ws cs) = '']'' then Some (DArr [], tl (skip_ws cs))
             else case p_value n cs of
                    None \<Rightarrow> None
                  | Some (d, r) \<Rightarrow> map_option (apfst (\<lambda>ds. DArr (d # ds))) (p_tail n r))
          else if c = CHR ''{'' then
            (if take 1 (skip_ws cs) = ''}'' then Some (DObj [], tl (skip_ws cs))
             else case p_key (skip_ws cs) of
                    None \<Rightarrow> None
                  | Some (k, r) \<Rightarrow>
                      (case p_value n r of
                         None \<Rightarrow> None
                       | Some (d, r1) \<Rightarrow> map_option (apfst (\<lambda>ms. DObj ((k, d) # ms))) (p_mtail n r1)))
          else if c = CHR ''n'' then p_lit ''null'' DNull (c # cs)
          else if c = CHR ''t'' then p_lit ''true'' (DBool True) (c # cs)
          else if c = CHR ''f'' then p_lit ''false'' (DBool False) (c # cs)
          else map_option (apfst DNum) (p_num (c # cs)))"
| "p_tail 0 s = None"
| "p_tail (Suc n) s =
     (case skip_ws s of
        [] \<Rightarrow> None
      | c # cs \<Rightarrow>
          if c = CHR '']'' then Some ([], cs)
          else if c = CHR '','' then
            (case p_value n cs of
               None \<Rightarrow> None
             | Some (d, r) \<Rightarrow> map_option (apfst (\<lambda>ds. d # ds)) (p_tail n r))
          else None)"
| "p_mtail 0 s = None"
| "p_mtail (Suc n) s =
     (case skip_ws s of
        [] \<Rightarrow> None
      | c # cs \<Rightarrow>
          if c = CHR ''}'' then Some ([], cs)
          else if c = CHR '','' then
            (case p_key (skip_ws cs) of
               None \<Rightarrow> None
             | Some (k, r) \<Rightarrow>
                 (case p_value n r of
                    None \<Rightarrow> None
                  | Some (d, r1) \<Rightarrow> map_option (apfst (\<lambda>ms. (k, d) # ms)) (p_mtail n r1)))
          else None)"

declare p_value.simps [simp del] p_tail.simps [simp del] p_mtail.simps [simp del]

text \<open>A whole text: one value, then nothing but blanks.\<close>

definition parse_doc :: "string \<Rightarrow> jdoc option" where
  "parse_doc s =
     (case p_value (Suc (length s)) s of
        None \<Rightarrow> None
      | Some (d, r) \<Rightarrow> if skip_ws r = [] then Some d else None)"

section \<open>The round trip\<close>

text \<open>A document whose numbers are number literals.\<close>

fun doc_ok :: "jdoc \<Rightarrow> bool" where
  "doc_ok (DNum s) = (p_num s = Some (s, []))"
| "doc_ok (DArr ds) = (\<forall>d \<in> set ds. doc_ok d)"
| "doc_ok (DObj ms) = (\<forall>m \<in> set ms. doc_ok (snd m))"
| "doc_ok DNull = True"
| "doc_ok (DBool b) = True"
| "doc_ok (DStr s) = True"

lemma p_num_head: "p_num s = Some (a, r) \<Longrightarrow> \<exists>c cs. s = c # cs \<and> (is_digit c \<or> c = CHR ''-'')"
  by (cases s) (auto simp: p_num_def num_int_def take_digits_def then_res_def Let_def
      split: if_splits option.splits)

lemma print_doc_head:
  "doc_ok d \<Longrightarrow> \<exists>c cs. print_doc d = c # cs \<and> \<not> is_ws c \<and> c \<noteq> CHR '']'' \<and> c \<noteq> CHR ''}''"
  by (cases d rule: print_doc.cases) (auto simp: is_ws_def is_digit_def dest!: p_num_head)

lemma skip_ws_print: "doc_ok d \<Longrightarrow> skip_ws (print_doc d @ rest) = print_doc d @ rest"
  using print_doc_head [of d] by (auto simp: skip_ws_def)

lemma skip_ws_Cons [simp]: "\<not> is_ws c \<Longrightarrow> skip_ws (c # cs) = c # cs"
  by (simp add: skip_ws_def)

lemma p_key_esc: "p_key (CHR 0x22 # esc k @ CHR 0x22 # CHR '':'' # rest) = Some (k, rest)"
  by (simp add: p_key_def p_str_esc is_ws_def)

lemma num_stop_simps [simp]:
  "num_stop []" "num_stop (CHR '']'' # r)" "num_stop (CHR ''}'' # r)" "num_stop (CHR '','' # r)"
  by (simp_all add: num_stop_def is_digit_def)

lemma num_stop_tails [simp]: "num_stop (print_tail ds @ rest)" "num_stop (print_mtail ms @ rest)"
  by (cases ds; simp) (cases ms rule: print_mtail.cases; simp)

lemma is_ws_simps [simp]:
  "\<not> is_ws (CHR 0x22)" "\<not> is_ws (CHR ''['')" "\<not> is_ws (CHR '']'')" "\<not> is_ws (CHR ''{'')"
  "\<not> is_ws (CHR ''}'')" "\<not> is_ws (CHR '','')" "\<not> is_ws (CHR ''n'')" "\<not> is_ws (CHR ''t'')"
  "\<not> is_ws (CHR ''f'')"
  by (simp_all add: is_ws_def)

lemma p_value_num:
  assumes "p_num s = Some (s, [])" and "num_stop rest"
  shows "p_value (Suc n) (s @ rest) = Some (DNum s, rest)"
proof -
  from p_num_head [OF assms(1)] obtain c cs where s: "s = c # cs" and c: "is_digit c \<or> c = CHR ''-''" by blast
  from c have "\<not> is_ws c" and "c \<notin> {CHR 0x22, CHR ''['', CHR ''{'', CHR ''n'', CHR ''t'', CHR ''f''}"
    by (auto simp: is_ws_def is_digit_def)
  with s p_num_stable [OF assms] show ?thesis by (simp add: p_value.simps)
qed

lemma take_1_print: "doc_ok d \<Longrightarrow> take 1 (skip_ws (print_doc d @ rest)) \<noteq> '']''"
  using print_doc_head [of d] by (auto simp: skip_ws_print)

lemma parse_print_fuel:
  "doc_ok d \<Longrightarrow> num_stop rest \<Longrightarrow> length (print_doc d) < n \<Longrightarrow>
     p_value n (print_doc d @ rest) = Some (d, rest)"
  "\<forall>d \<in> set ds. doc_ok d \<Longrightarrow> length (print_tail ds) < n \<Longrightarrow>
     p_tail n (print_tail ds @ rest) = Some (ds, rest)"
  "\<forall>m \<in> set ms. doc_ok (snd m) \<Longrightarrow> length (print_mtail ms) < n \<Longrightarrow>
     p_mtail n (print_mtail ms @ rest) = Some (ms, rest)"
proof (induction d and ds and ms arbitrary: n rest and n rest and n rest rule: print_doc_print_tail_print_mtail.induct)
  case 1
  then show ?case by (cases n) (auto simp: p_value.simps p_lit_def)
next
  case (2 b)
  then show ?case by (cases n) (auto simp: p_value.simps p_lit_def)
next
  case (3 s)
  then show ?case by (cases n) (auto simp: p_value_num)
next
  case (4 s)
  then show ?case by (cases n) (auto simp: p_value.simps p_str_esc)
next
  case 5
  then show ?case by (cases n) (auto simp: p_value.simps)
next
  case (6 d ds)
  then obtain m where n: "n = Suc m" by (cases n) auto
  with 6 have "p_value m (print_doc d @ print_tail ds @ rest) = Some (d, print_tail ds @ rest)"
    and "p_tail m (print_tail ds @ rest) = Some (ds, rest)" by auto
  with 6 n take_1_print [of d "print_tail ds @ rest"] show ?case by (simp add: p_value.simps)
next
  case 7
  then show ?case by (cases n) (auto simp: p_value.simps)
next
  case (8 k d ms)
  then obtain m where n: "n = Suc m" by (cases n) auto
  with 8 have "p_value m (print_doc d @ print_mtail ms @ rest) = Some (d, print_mtail ms @ rest)"
    and "p_mtail m (print_mtail ms @ rest) = Some (ms, rest)" by auto
  with n show ?case by (simp add: p_value.simps p_key_esc)
next
  case 9
  then show ?case by (cases n) (auto simp: p_tail.simps)
next
  case (10 d ds)
  then obtain m where n: "n = Suc m" by (cases n) auto
  with 10 have "p_value m (print_doc d @ print_tail ds @ rest) = Some (d, print_tail ds @ rest)"
    and "p_tail m (print_tail ds @ rest) = Some (ds, rest)" by auto
  with n show ?case by (simp add: p_tail.simps)
next
  case 11
  then show ?case by (cases n) (auto simp: p_mtail.simps)
next
  case (12 k d ms)
  then obtain m where n: "n = Suc m" by (cases n) auto
  with 12 have "p_value m (print_doc d @ print_mtail ms @ rest) = Some (d, print_mtail ms @ rest)"
    and "p_mtail m (print_mtail ms @ rest) = Some (ms, rest)" by auto
  with n show ?case by (simp add: p_mtail.simps p_key_esc)
qed

lemma parse_print: "doc_ok d \<Longrightarrow> parse_doc (print_doc d) = Some d"
  using parse_print_fuel(1) [of d "[]" "Suc (length (print_doc d))"]
  by (simp add: parse_doc_def skip_ws_def)

section \<open>Fuel\<close>

text \<open>
  Every call of the reader that spends fuel has consumed a character, so the length of the
  text bounds the fuel: with more than that the result does not depend on the fuel, and
  \<open>parse_doc\<close> never fails for lack of it.
\<close>

lemma skip_ws_length: "length (skip_ws s) \<le> length s"
  by (simp add: skip_ws_def length_dropWhile_le)

lemma skip_ws_ConsD: "skip_ws s = c # cs \<Longrightarrow> length cs < length s"
  using skip_ws_length [of s] by simp

lemma cons_res_length: "cons_res p x = Some (a, r) \<Longrightarrow> (\<And>b. x = Some (b, r) \<Longrightarrow> length r < n) \<Longrightarrow> length r < n"
  by (auto simp: cons_res_Some_iff)

lemma p_str_length: "p_str s = Some (a, r) \<Longrightarrow> length r < length s"
proof (induction s arbitrary: a r rule: length_induct)
  case (1 s)
  show ?case
  proof (cases s)
    case Nil
    with "1.prems" show ?thesis by (simp add: p_str.simps)
  next
    case (Cons c cs)
    have IH: "p_str t = Some (b, r') \<Longrightarrow> length t < length s \<Longrightarrow> length r' < length s" for t b r'
      using "1.IH" less_trans by blast
    from "1.prems" show ?thesis
      unfolding Cons p_str.simps(2)
      by (auto simp: cons_res_Some_iff Cons split: if_splits list.splits option.splits dest!: IH)
  qed
qed

lemma take_digits_length: "take_digits s = Some (a, r) \<Longrightarrow> length r < length s"
proof -
  assume "take_digits s = Some (a, r)"
  then have "a \<noteq> []" "a = takeWhile is_digit s" "r = dropWhile is_digit s"
    by (auto simp: take_digits_def split: if_splits)
  moreover have "length s = length (takeWhile is_digit s) + length (dropWhile is_digit s)"
    by (metis length_append takeWhile_dropWhile_id)
  ultimately show ?thesis by simp
qed

lemma num_frac_length: "num_frac s = Some (a, r) \<Longrightarrow> length r \<le> length s"
  by (cases s) (auto simp: num_frac_def cons_res_Some_iff dest!: take_digits_length split: if_splits)

lemma num_exp_length: "num_exp s = Some (a, r) \<Longrightarrow> length r \<le> length s"
  by (auto simp: num_exp_def cons_res_Some_iff dest!: take_digits_length split: if_splits list.splits)

lemma num_body_length:
  "then_res (num_int s) (\<lambda>r1. then_res (num_frac r1) num_exp) = Some (a, r) \<Longrightarrow> length r < length s"
  by (auto simp: then_res_def num_int_def cons_res_Some_iff split: option.splits if_splits
      dest!: take_digits_length num_frac_length num_exp_length)

lemma p_num_length: "p_num s = Some (a, r) \<Longrightarrow> length r < length s"
  by (auto simp: p_num_def Let_def cons_res_Some_iff split: list.splits if_splits dest!: num_body_length)

lemma p_lit_length: "p_lit w d s = Some (x, r) \<Longrightarrow> w \<noteq> [] \<Longrightarrow> length r < length s"
  by (auto simp: p_lit_def split: if_splits)
    (metis append_take_drop_id diff_less length_greater_0_conv take_Nil)

lemma p_key_length: "p_key s = Some (k, r) \<Longrightarrow> length r < length s"
  by (auto simp: p_key_def split: list.splits if_splits option.splits dest!: p_str_length skip_ws_ConsD)

lemma tl_skip_ws_length: "length (tl (skip_ws cs)) \<le> length cs"
  using skip_ws_length [of cs] by simp

lemma reader_length:
  "(p_value n s = Some (d, r) \<longrightarrow> length r < length s) \<and>
   (p_tail n s = Some (ds, r) \<longrightarrow> length r < length s) \<and>
   (p_mtail n s = Some (ms, r) \<longrightarrow> length r < length s)"
proof (induction n arbitrary: s d ds ms r)
  case 0
  then show ?case by (simp add: p_value.simps p_tail.simps p_mtail.simps)
next
  case (Suc n)
  have V: "p_value n t = Some (d', r') \<Longrightarrow> length t < k \<Longrightarrow> length r' < k" for t d' r' k
    using Suc.IH by (blast intro: less_trans)
  have T: "p_tail n t = Some (ds', r') \<Longrightarrow> length t < k \<Longrightarrow> length r' < k" for t ds' r' k
    using Suc.IH by (blast intro: less_trans)
  have M: "p_mtail n t = Some (ms', r') \<Longrightarrow> length t < k \<Longrightarrow> length r' < k" for t ms' r' k
    using Suc.IH by (blast intro: less_trans)
  have K0: "p_key (skip_ws t) = Some (x, r') \<Longrightarrow> length r' < length t" for t x r'
    using p_key_length skip_ws_length less_le_trans by blast
  show ?case
  proof (cases "skip_ws s")
    case Nil
    then show ?thesis by (simp add: p_value.simps p_tail.simps p_mtail.simps)
  next
    case (Cons c cs)
    then have cs: "length cs < length s" and ccs: "length (c # cs) \<le> length s"
      using skip_ws_ConsD skip_ws_length [of s] by auto
    have K: "p_key (skip_ws cs) = Some (x, r') \<Longrightarrow> length r' < length s" for x r'
      using K0 cs by (blast intro: less_trans)
    have VM: "p_value n t = Some (d', r1) \<Longrightarrow> p_mtail n r1 = Some (ms', r2) \<Longrightarrow> length t < length s \<Longrightarrow> length r2 < length s"
      for t d' r1 ms' r2 using M V by blast
    have VT: "p_value n t = Some (d', r1) \<Longrightarrow> p_tail n r1 = Some (ds', r2) \<Longrightarrow> length t < length s \<Longrightarrow> length r2 < length s"
      for t d' r1 ds' r2 using T V by blast
    have "p_value (Suc n) s = Some (d, r) \<Longrightarrow> length r < length s"
      using cs ccs tl_skip_ws_length [of cs] unfolding p_value.simps Cons list.case
      by (auto split: if_splits option.splits
          dest!: p_str_length p_num_length p_lit_length K) (metis VM VT less_le_trans)+
    moreover have "p_tail (Suc n) s = Some (ds, r) \<Longrightarrow> length r < length s"
      using cs unfolding p_tail.simps Cons list.case
      by (auto split: if_splits option.splits) (metis VT)
    moreover have "p_mtail (Suc n) s = Some (ms, r) \<Longrightarrow> length r < length s"
      using cs unfolding p_mtail.simps Cons list.case
      by (auto split: if_splits option.splits dest!: K) (metis VM)
    ultimately show ?thesis by blast
  qed
qed

lemma fuel_irrelevant:
  "length s < n \<Longrightarrow> length s < m \<Longrightarrow>
     p_value n s = p_value m s \<and> p_tail n s = p_tail m s \<and> p_mtail n s = p_mtail m s"
proof (induction n arbitrary: m s)
  case 0
  then show ?case by simp
next
  case (Suc n)
  then obtain k where m: "m = Suc k" by (cases m) auto
  have IH: "length t < length s \<Longrightarrow> p_value n t = p_value k t" "length t < length s \<Longrightarrow> p_tail n t = p_tail k t"
    "length t < length s \<Longrightarrow> p_mtail n t = p_mtail k t" for t
    using Suc.IH [of t k] Suc.prems m by auto
  have V: "p_value k t = Some (d, r) \<Longrightarrow> length t < length s \<Longrightarrow> length r < length s" for t d r
    using reader_length by (blast intro: less_trans)
  have K: "p_key (skip_ws t) = Some (x, r') \<Longrightarrow> length t < length s \<Longrightarrow> length r' < length s" for t x r'
    using p_key_length skip_ws_length by (meson less_le_trans less_trans)
  show ?case
  proof (cases "skip_ws s")
    case Nil
    then show ?thesis by (simp add: m p_value.simps p_tail.simps p_mtail.simps)
  next
    case (Cons c cs)
    then have cs: "length cs < length s" by (rule skip_ws_ConsD)
    have KV: "p_key (skip_ws cs) = Some (x, r) \<Longrightarrow> p_value n r = p_value k r" for x r
      using K cs IH(1) by blast
    have KM: "p_key (skip_ws cs) = Some (x, r) \<Longrightarrow> p_value k r = Some (d, r') \<Longrightarrow> p_mtail n r' = p_mtail k r'" for x r d r'
      using K cs V IH(3) by blast
    from cs have CM: "p_value k cs = Some (d, r) \<Longrightarrow> p_tail n r = p_tail k r" for d r
      using V IH(2) by blast
    from cs have "p_value (Suc n) s = p_value (Suc k) s"
      unfolding p_value.simps Cons list.case by (auto simp: IH KV KM CM split: option.split)
    moreover from cs have "p_tail (Suc n) s = p_tail (Suc k) s"
      unfolding p_tail.simps Cons list.case by (auto simp: IH CM split: option.split)
    moreover from cs have "p_mtail (Suc n) s = p_mtail (Suc k) s"
      unfolding p_mtail.simps Cons list.case by (auto simp: IH KV KM split: option.split)
    ultimately show ?thesis by (simp add: m)
  qed
qed

lemma parse_doc_fuel:
  "length s < n \<Longrightarrow>
     parse_doc s = (case p_value n s of None \<Rightarrow> None | Some (d, r) \<Rightarrow> if skip_ws r = [] then Some d else None)"
  using fuel_irrelevant [of s n "Suc (length s)"] by (simp add: parse_doc_def)

end
