(* ===== verification/GoJson.thy ===== *)
theory GoJson
  imports Prelude "HOL-Library.Sublist"
begin

text \<open>
  Untyped JSON values as the program holds them (\<open>any\<close>, \<open>map[string]any\<close>, \<open>[]any\<close>) and
  the operations it runs on them: nested access and update
  (\<open>unstructured/helpers.go\<close>), the Helm value merge (\<open>lib-helm/pkg/values\<close>) and the null
  pruning of \<open>upgrader.go\<close>. An object is a finite map, so \<open>reflect.DeepEqual\<close> on decoded
  documents is equality of values and no result depends on Go's map iteration order.
  The interface \<open>path_tree\<close> is what the rest of the program uses of nested access.
\<close>

section \<open>Values and raw documents\<close>

text \<open>
  Numbers decode to \<open>int64\<close> where they fit and to \<open>float64\<close> otherwise
  (\<open>util/json\<close>); the program computes with neither, so a float is kept as its text.
\<close>

datatype json =
    JNull
  | JBool bool
  | JInt int
  | JFloat string
  | JStr string
  | JArr "json list"
  | JObj "(string, json) fmap"

type_synonym jmap = "(string, json) fmap"

text \<open>
  The bytes of a JSON document (\<open>RawExtension.Raw\<close>, \<open>apiextensionsv1.JSON.Raw\<close>), seen
  through what decoding them yields: \<open>Malformed\<close> bytes, or the text of a value.
\<close>

datatype raw = Malformed | Text json

definition is_obj :: "json \<Rightarrow> bool" where
  "is_obj v = (case v of JObj m \<Rightarrow> True | _ \<Rightarrow> False)"

text \<open>
  \<open>json.Unmarshal(raw, &m)\<close> for a variable \<open>m\<close> of type \<open>map[string]any\<close> (\<open>None\<close> is the nil
  map): an object is decoded into the map that is there, key by key; \<open>null\<close> sets the map to
  nil; anything else is an error and leaves the variable alone.
\<close>

fun unmarshal_map :: "raw \<Rightarrow> jmap option \<Rightarrow> gerr + jmap option" where
  "unmarshal_map Malformed m0 = Inl (ErrText ''unexpected end of JSON input'')"
| "unmarshal_map (Text (JObj m)) m0 =
     Inr (Some ((case m0 of None \<Rightarrow> fmempty | Some m' \<Rightarrow> m') ++\<^sub>f m))"
| "unmarshal_map (Text JNull) m0 = Inr None"
| "unmarshal_map (Text v) m0 = Inl (ErrText ''cannot unmarshal into map'')"

text \<open>A nil map reads and ranges like an empty one.\<close>

definition of_nil :: "jmap option \<Rightarrow> jmap" where
  "of_nil m = (case m of None \<Rightarrow> fmempty | Some m' \<Rightarrow> m')"

lemma of_nil_simps [simp]: "of_nil None = fmempty" "of_nil (Some m) = m"
  by (simp_all add: of_nil_def)

section \<open>Nested access\<close>

text \<open>\<open>NestedFieldNoCopy\<close>: \<open>Inr None\<close> is "not found", \<open>Inl\<close> the accessor error.\<close>

fun nested_from :: "json \<Rightarrow> string list \<Rightarrow> gerr + json option" where
  "nested_from v [] = Inr (Some v)"
| "nested_from v (f # fs) =
     (case v of
        JNull \<Rightarrow> Inr None
      | JObj m \<Rightarrow> (case fmlookup m f of None \<Rightarrow> Inr None | Some v' \<Rightarrow> nested_from v' fs)
      | _ \<Rightarrow> Inl (ErrText ''accessor error: expected map[string]interface{}''))"

definition NestedFieldNoCopy :: "jmap \<Rightarrow> string list \<Rightarrow> gerr + json option" where
  "NestedFieldNoCopy obj fields = nested_from (JObj obj) fields"

definition NestedString :: "jmap \<Rightarrow> string list \<Rightarrow> gerr + string option" where
  "NestedString obj fields =
     bindE (NestedFieldNoCopy obj fields)
       (\<lambda>v. case v of
              None \<Rightarrow> Inr None
            | Some (JStr s) \<Rightarrow> Inr (Some s)
            | Some _ \<Rightarrow> Inl (ErrText ''accessor error: expected string''))"

definition NestedMap :: "jmap \<Rightarrow> string list \<Rightarrow> gerr + jmap option" where
  "NestedMap obj fields =
     bindE (NestedFieldNoCopy obj fields)
       (\<lambda>v. case v of
              None \<Rightarrow> Inr None
            | Some (JObj m) \<Rightarrow> Inr (Some m)
            | Some _ \<Rightarrow> Inl (ErrText ''accessor error: expected map[string]interface{}''))"

text \<open>
  \<open>SetNestedField\<close>: missing levels are created, a level that is not a map is an error and
  nothing is written (a level below a created one is always a map).
\<close>

fun SetNestedField :: "jmap \<Rightarrow> json \<Rightarrow> string list \<Rightarrow> gerr + jmap" where
  "SetNestedField m v [] = Inl (GoPanic ''slice bounds out of range'')"
| "SetNestedField m v [f] = Inr (fmupd f v m)"
| "SetNestedField m v (f # g # gs) =
     (case fmlookup m f of
        None \<Rightarrow> bindE (SetNestedField fmempty v (g # gs)) (\<lambda>m'. Inr (fmupd f (JObj m') m))
      | Some (JObj m1) \<Rightarrow> bindE (SetNestedField m1 v (g # gs)) (\<lambda>m'. Inr (fmupd f (JObj m') m))
      | Some _ \<Rightarrow> Inl (ErrText ''value cannot be set: not a map[string]interface{}''))"

fun RemoveNestedField :: "jmap \<Rightarrow> string list \<Rightarrow> jmap" where
  "RemoveNestedField m [] = m"
| "RemoveNestedField m [f] = fmdrop f m"
| "RemoveNestedField m (f # g # gs) =
     (case fmlookup m f of
        Some (JObj m1) \<Rightarrow> fmupd f (JObj (RemoveNestedField m1 (g # gs))) m
      | _ \<Rightarrow> m)"

lemma nested_from_obj_Cons:
  "nested_from (JObj m) (f # fs) =
     (case fmlookup m f of None \<Rightarrow> Inr None | Some v' \<Rightarrow> nested_from v' fs)"
  by simp

lemma SetNestedField_deep_iff:
  "SetNestedField m v (f # g # gs) = Inr m' \<longleftrightarrow>
     (\<exists>m0 m1. (fmlookup m f = None \<and> m0 = fmempty \<or> fmlookup m f = Some (JObj m0)) \<and>
        SetNestedField m0 v (g # gs) = Inr m1 \<and> m' = fmupd f (JObj m1) m)"
  by (auto simp: bindE_Inr_iff split: option.splits json.splits)

lemma SetNestedField_get:
  "SetNestedField m v p = Inr m' \<Longrightarrow> NestedFieldNoCopy m' p = Inr (Some v)"
  unfolding NestedFieldNoCopy_def
proof (induction p arbitrary: m m')
  case Nil
  then show ?case by simp
next
  case (Cons f fs)
  show ?case
  proof (cases fs)
    case Nil
    with Cons.prems show ?thesis by auto
  next
    case (Cons g gs)
    from Cons.prems [unfolded Cons SetNestedField_deep_iff] obtain m0 m1
      where m1: "SetNestedField m0 v fs = Inr m1" and m': "m' = fmupd f (JObj m1) m"
      by (auto simp: Cons)
    from Cons.IH [OF m1] m' show ?thesis by simp
  qed
qed

lemma SetNestedField_other:
  "SetNestedField m v p = Inr m' \<Longrightarrow> p \<parallel> q \<Longrightarrow> NestedFieldNoCopy m' q = NestedFieldNoCopy m q"
  unfolding NestedFieldNoCopy_def
proof (induction p arbitrary: m m' q)
  case Nil
  then show ?case by simp
next
  case (Cons f fs)
  then obtain h q' where q: "q = h # q'" by (cases q) auto
  show ?case
  proof (cases "h = f")
    case False
    then show ?thesis
    proof (cases fs)
      case Nil
      with Cons.prems q False show ?thesis by auto
    next
      case (Cons g gs)
      with Cons.prems [unfolded Cons SetNestedField_deep_iff] q False show ?thesis by auto
    qed
  next
    case True
    with Cons.prems(2) q have par: "fs \<parallel> q'" by (auto simp: parallel_def)
    then obtain g gs where fs: "fs = g # gs" by (cases fs) auto
    from par obtain h' q'' where q': "q' = h' # q''" by (cases q') auto
    from Cons.prems(1) [unfolded fs SetNestedField_deep_iff] obtain m0 m1
      where m0: "fmlookup m f = None \<and> m0 = fmempty \<or> fmlookup m f = Some (JObj m0)"
        and m1: "SetNestedField m0 v fs = Inr m1" and m': "m' = fmupd f (JObj m1) m"
      by (auto simp: fs)
    from Cons.IH [OF m1 par] m0 m' q True show ?thesis by (auto simp: q')
  qed
qed

lemma RemoveNestedField_get:
  "p \<noteq> [] \<Longrightarrow> NestedFieldNoCopy m p = Inr r \<Longrightarrow> NestedFieldNoCopy (RemoveNestedField m p) p = Inr None"
  unfolding NestedFieldNoCopy_def
proof (induction m p arbitrary: r rule: RemoveNestedField.induct)
  case (3 m f g gs)
  show ?case
  proof (cases "fmlookup m f")
    case None
    then show ?thesis by simp
  next
    case (Some v0)
    with 3 show ?thesis by (cases v0) auto
  qed
qed auto

lemma RemoveNestedField_other:
  "p \<parallel> q \<Longrightarrow> NestedFieldNoCopy (RemoveNestedField m p) q = NestedFieldNoCopy m q"
  unfolding NestedFieldNoCopy_def
proof (induction m p arbitrary: q rule: RemoveNestedField.induct)
  case (2 m f)
  then obtain f' q' where q: "q = f' # q'" "f' \<noteq> f" by (cases q) (auto simp: parallel_def)
  then show ?case by simp
next
  case (3 m f g gs)
  then obtain f' q' where q: "q = f' # q'" by (cases q) (auto simp: parallel_def)
  show ?case
  proof (cases "f' = f")
    case True
    with 3(2) q have par: "(g # gs) \<parallel> q'" by (auto simp: parallel_def)
    show ?thesis using 3(1) par q True by (auto split: option.split json.split)
  qed (auto simp: q split: option.split json.split)
qed (auto simp: parallel_def)

subsection \<open>The interface: a tree read and written by path\<close>

text \<open>
  What the value-building code relies on: a write can be read back, and does not disturb
  a path that neither leads to it nor passes through it.
\<close>

locale path_tree =
  fixes get :: "'m \<Rightarrow> string list \<Rightarrow> gerr + 'v option"
    and put :: "'m \<Rightarrow> 'v \<Rightarrow> string list \<Rightarrow> gerr + 'm"
  assumes get_put: "put m v p = Inr m' \<Longrightarrow> get m' p = Inr (Some v)"
    and get_put_other: "put m v p = Inr m' \<Longrightarrow> p \<parallel> q \<Longrightarrow> get m' q = get m q"
begin

lemma put_twice_last:
  "put m v p = Inr m1 \<Longrightarrow> put m1 v' p = Inr m2 \<Longrightarrow> get m2 p = Inr (Some v')"
  by (rule get_put)

lemma put_two_first:
  assumes "put m v p = Inr m1" and "put m1 v' q = Inr m2" and "p \<parallel> q"
  shows "get m2 p = Inr (Some v)" and "get m2 q = Inr (Some v')"
proof -
  from assms(3) have "q \<parallel> p" by (auto simp: parallel_def)
  with get_put_other [OF assms(2)] get_put [OF assms(1)] show "get m2 p = Inr (Some v)" by simp
  from assms(2) show "get m2 q = Inr (Some v')" by (rule get_put)
qed

lemma put_two_other:
  "put m v p = Inr m1 \<Longrightarrow> put m1 v' q = Inr m2 \<Longrightarrow> p \<parallel> r \<Longrightarrow> q \<parallel> r \<Longrightarrow> get m2 r = get m r"
  by (simp add: get_put_other)

end

interpretation tree: path_tree NestedFieldNoCopy SetNestedField
  by unfold_locales (rule SetNestedField_get, assumption, rule SetNestedField_other, assumption+)

section \<open>Merging Helm values\<close>

text \<open>
  \<open>MergeMaps(a, b)\<close>: a copy of \<open>a\<close> overwritten by \<open>b\<close>, except that where both hold a map
  the two maps are merged. \<open>merge_over v cur\<close> is what the loop over \<open>b\<close> stores under a key
  whose value in \<open>b\<close> is \<open>v\<close> and whose value in the copy is \<open>cur\<close>.
\<close>

primrec merge_over :: "json \<Rightarrow> json option \<Rightarrow> json" where
  "merge_over JNull = (\<lambda>cur. JNull)"
| "merge_over (JBool x) = (\<lambda>cur. JBool x)"
| "merge_over (JInt x) = (\<lambda>cur. JInt x)"
| "merge_over (JFloat x) = (\<lambda>cur. JFloat x)"
| "merge_over (JStr x) = (\<lambda>cur. JStr x)"
| "merge_over (JArr x) = (\<lambda>cur. JArr x)"
| "merge_over (JObj b) =
     (\<lambda>cur. case cur of
         Some (JObj a) \<Rightarrow>
           JObj (a ++\<^sub>f fmmap_keys (\<lambda>k g. g (fmlookup a k)) (fmmap merge_over b))
       | _ \<Rightarrow> JObj b)"

definition MergeMaps :: "jmap \<Rightarrow> jmap \<Rightarrow> jmap" where
  "MergeMaps a b = a ++\<^sub>f fmmap_keys (\<lambda>k v. merge_over v (fmlookup a k)) b"

lemma merge_over_objs: "merge_over (JObj b) (Some (JObj a)) = JObj (MergeMaps a b)"
proof -
  have "fmmap_keys (\<lambda>k g. g (fmlookup a k)) (fmmap merge_over b)
      = fmmap_keys (\<lambda>k v. merge_over v (fmlookup a k)) b"
    by (rule fmap_ext) (simp add: option.map_comp comp_def)
  then show ?thesis by (simp add: MergeMaps_def)
qed

lemma merge_over_leaf: "\<not> is_obj v \<Longrightarrow> merge_over v cur = v"
  by (cases v) (auto simp: is_obj_def)

lemma merge_over_no_obj: "cur = None \<or> cur = Some w \<and> \<not> is_obj w \<Longrightarrow> merge_over v cur = v"
  by (cases v) (auto simp: is_obj_def split: option.splits json.splits)

lemma MergeMaps_lookup:
  "fmlookup (MergeMaps a b) k =
     (case fmlookup b k of
        None \<Rightarrow> fmlookup a k
      | Some v \<Rightarrow> Some (merge_over v (fmlookup a k)))"
  by (auto simp: MergeMaps_def fmlookup_add fmdom'_notD split: option.splits)

lemma MergeMaps_empty [simp]: "MergeMaps m fmempty = m" "MergeMaps fmempty m = m"
  by (auto simp: MergeMaps_lookup merge_over_no_obj intro!: fmap_ext split: option.splits)

lemma MergeMaps_dom: "fmdom' (MergeMaps a b) = fmdom' a \<union> fmdom' b"
  by (auto simp: MergeMaps_lookup fmdom'I fmlookup_dom'_iff split: option.splits)

text \<open>Looking a path up in the merge, level by level.\<close>

definition merge_opt :: "json option \<Rightarrow> json option \<Rightarrow> json option" where
  "merge_opt a b = (case b of None \<Rightarrow> a | Some v \<Rightarrow> Some (merge_over v a))"

lemma MergeMaps_lookup_opt:
  "fmlookup (MergeMaps a b) k = merge_opt (fmlookup a k) (fmlookup b k)"
  by (simp add: MergeMaps_lookup merge_opt_def)

text \<open>Merging a map over itself changes nothing.\<close>

lemma merge_over_self: "merge_over v (Some v) = v"
proof (induction v)
  case (JObj m)
  have "fmlookup (MergeMaps m m) k = fmlookup m k" for k
    using JObj by (auto simp: MergeMaps_lookup fmran'I split: option.splits)
  then have "MergeMaps m m = m" by (rule fmap_ext)
  then show ?case by (simp only: merge_over_objs)
qed simp_all

section \<open>Null pruning\<close>

text \<open>
  \<open>pruneNulls\<close> (\<open>upgrader.go\<close>): null-valued keys are deleted, every other child is pruned;
  the elements of a list are pruned in place, so a null element stays.
\<close>

primrec pruneNulls :: "json \<Rightarrow> json" where
  "pruneNulls JNull = JNull"
| "pruneNulls (JBool x) = JBool x"
| "pruneNulls (JInt x) = JInt x"
| "pruneNulls (JFloat x) = JFloat x"
| "pruneNulls (JStr x) = JStr x"
| "pruneNulls (JArr xs) = JArr (map pruneNulls xs)"
| "pruneNulls (JObj m) =
     JObj (fmfilter (\<lambda>k. fmlookup m k \<noteq> Some JNull) (fmmap pruneNulls m))"

text \<open>No map inside the value, at any depth, holds a null.\<close>

primrec null_free :: "json \<Rightarrow> bool" where
  "null_free JNull = True"
| "null_free (JBool x) = True"
| "null_free (JInt x) = True"
| "null_free (JFloat x) = True"
| "null_free (JStr x) = True"
| "null_free (JArr xs) = list_all id (map null_free xs)"
| "null_free (JObj m) = (JNull \<notin> fmran' m \<and> (\<forall>b \<in> fmran' (fmmap null_free m). b))"

lemma pruneNulls_JNull_iff [simp]: "pruneNulls v = JNull \<longleftrightarrow> v = JNull"
  by (cases v) simp_all

lemma pruneNulls_lookup:
  "pruneNulls (JObj m) = JObj m' \<Longrightarrow>
     fmlookup m' k =
       (case fmlookup m k of
          None \<Rightarrow> None
        | Some v \<Rightarrow> if v = JNull then None else Some (pruneNulls v))"
  by (auto split: option.splits)

lemma null_free_obj_iff:
  "null_free (JObj m) \<longleftrightarrow> (\<forall>k v. fmlookup m k = Some v \<longrightarrow> v \<noteq> JNull \<and> null_free v)"
  by (auto simp: fmlookup_ran'_iff)

lemma null_free_pruneNulls: "null_free (pruneNulls v)"
proof (induction v)
  case (JArr xs)
  then show ?case by (simp add: list_all_iff)
next
  case (JObj m)
  then have "null_free (pruneNulls v)" if "fmlookup m k = Some v" for k v
    using that by (auto intro: fmran'I)
  then show ?case
    unfolding pruneNulls.simps null_free_obj_iff by (auto split: if_splits)
qed simp_all

lemma pruneNulls_fixed: "null_free v \<Longrightarrow> pruneNulls v = v"
proof (induction v)
  case (JArr xs)
  then show ?case by (simp add: list_all_iff map_idI)
next
  case (JObj m)
  have "fmlookup (fmfilter (\<lambda>k. fmlookup m k \<noteq> Some JNull) (fmmap pruneNulls m)) k = fmlookup m k" for k
  proof (cases "fmlookup m k")
    case (Some u)
    then have "u \<in> fmran' m" by (rule fmran'I)
    with JObj Some show ?thesis by auto
  qed simp
  then show ?case by (auto intro: fmap_ext)
qed simp_all

lemma pruneNulls_idem [simp]: "pruneNulls (pruneNulls v) = pruneNulls v"
  by (rule pruneNulls_fixed) (rule null_free_pruneNulls)

end
