(* ===== verification/ProfileTypes.thy ===== *)
theory ProfileTypes
  imports GoJson
begin

text \<open>
  The API objects the controller reads and writes, as records with the fields the code
  under \<open>pkg/\<close> uses: the two kinds of \<open>apis/profile/v1alpha1\<close>, the ManifestWork with the
  status the work agent reports, the upgrader ConfigMap, and the ACE feature catalogue.
  Every kind extends \<open>objmeta\<close>, so that the store of \<open>HubApi\<close> is generic in the kind. A
  nil Go map or slice is the empty one: the code tells them apart nowhere it matters.
\<close>

section \<open>Object metadata\<close>

type_synonym gotime = int \<comment> \<open>nanoseconds since the Unix epoch\<close>

abbreviation second :: int where "second \<equiv> 1000000000"

text \<open>The zero \<open>time.Time\<close>: midnight, January 1st of year 1.\<close>

definition zero_time :: gotime where
  "zero_time = - 62135596800 * second"

record owner_ref =
  or_kind :: string
  or_name :: string

record objmeta =
  om_name :: string
  om_ns :: string
  om_labels :: strmap
  om_annots :: strmap
  om_owners :: "owner_ref list"
  om_created :: gotime

type_synonym objkey = "string \<times> string" \<comment> \<open>namespace and name\<close>

definition obj_key :: "'a objmeta_scheme \<Rightarrow> objkey" where
  "obj_key x = (om_ns x, om_name x)"

lemma obj_key_simps [simp]:
  "obj_key (om_labels_update f x) = obj_key x"
  "obj_key (om_annots_update g x) = obj_key x"
  "obj_key (om_owners_update h x) = obj_key x"
  "obj_key (om_created_update j x) = obj_key x"
  by (simp_all add: obj_key_def)

definition NewControllerRef :: "string \<Rightarrow> 'a objmeta_scheme \<Rightarrow> owner_ref" where
  "NewControllerRef kind x = \<lparr> or_kind = kind, or_name = om_name x \<rparr>"

section \<open>Features\<close>

record sourceref =
  sr_group :: string
  sr_kind :: string
  sr_name :: string
  sr_ns :: string

definition no_source :: sourceref where
  "no_source = \<lparr> sr_group = '''', sr_kind = '''', sr_name = '''', sr_ns = '''' \<rparr>"

record chartinfo =
  ch_name :: string
  ch_ns :: string
  ch_create_ns :: bool
  ch_version :: string
  ch_source :: sourceref

definition no_chart :: chartinfo where
  "no_chart =
     \<lparr> ch_name = '''', ch_ns = '''', ch_create_ns = False, ch_version = '''', ch_source = no_source \<rparr>"

record uivaluesref =
  uv_kind :: string
  uv_name :: string
  uv_key :: string
  uv_target :: string
  uv_optional :: bool

record fspec =
  fs_set :: string
  fs_chart :: chartinfo
  fs_values_from :: "uivaluesref list"
  fs_values :: "raw option"

definition zero_fspec :: fspec where
  "zero_fspec = \<lparr> fs_set = '''', fs_chart = no_chart, fs_values_from = [], fs_values = None \<rparr>"

text \<open>
  \<open>map[string]FeatureSpec\<close>, as an association list: its order stands for the order one
  \<open>range\<close> over the Go map visits it, and a read of a missing key yields the zero value.
\<close>

type_synonym fspecs = "(string \<times> fspec) list"

definition fspec_at :: "fspecs \<Rightarrow> string \<Rightarrow> fspec" where
  "fspec_at fs n = (case map_of fs n of None \<Rightarrow> zero_fspec | Some s \<Rightarrow> s)"

lemma fspec_at_simps:
  "map_of fs n = None \<Longrightarrow> fspec_at fs n = zero_fspec"
  "map_of fs n = Some s \<Longrightarrow> fspec_at fs n = s"
  by (simp_all add: fspec_at_def)

section \<open>Profile and binding\<close>

record profile = objmeta +
  pr_features :: fspecs

record capiinfo =
  ca_provider :: string
  ca_ns :: string
  ca_cluster :: string

text \<open>\<open>ClusterManagers\<close> is a slice that may be nil (\<open>None\<close>), which reads as empty and is written as null.\<close>

record clusterinfo =
  ci_uid :: string
  ci_name :: string
  ci_managers :: "string list option"
  ci_capi :: "capiinfo option"

definition managers :: "clusterinfo \<Rightarrow> string list" where
  "managers ci = (case ci_managers ci of None \<Rightarrow> [] | Some ms \<Rightarrow> ms)"

lemma managers_simps [simp]:
  "ci_managers ci = None \<Longrightarrow> managers ci = []" "ci_managers ci = Some ms \<Longrightarrow> managers ci = ms"
  by (simp_all add: managers_def)

definition zero_clusterinfo :: clusterinfo where
  "zero_clusterinfo = \<lparr> ci_uid = '''', ci_name = '''', ci_managers = None, ci_capi = None \<rparr>"

record bindspec =
  bs_profile :: string
  bs_cluster :: clusterinfo
  bs_version :: string
  bs_features :: fspecs

record bindstatus =
  st_version :: string
  st_upgraded :: gotime

definition zero_status :: bindstatus where
  "zero_status = \<lparr> st_version = '''', st_upgraded = zero_time \<rparr>"

record binding = objmeta +
  pb_spec :: bindspec
  pb_status :: bindstatus

section \<open>ManifestWork\<close>

text \<open>\<open>FeedbackValue\<close>: a name with an integer, a string, or neither (another type).\<close>

type_synonym int64 = "64 word"

record feedback =
  fv_name :: string
  fv_integer :: "int64 option"
  fv_string :: "string option"

record condition =
  cd_type :: string
  cd_status :: string

record manifest_status =
  mc_kind :: string
  mc_name :: string
  mc_ns :: string
  mc_values :: "feedback list"
  mc_conditions :: "condition list"

record feedback_rule =
  fr_type :: string
  fr_paths :: "(string \<times> string) list"

record manifest_config =
  rc_group :: string
  rc_resource :: string
  rc_name :: string
  rc_ns :: string
  rc_rules :: "feedback_rule list"

record manifestwork = objmeta +
  mw_manifests :: "raw list"
  mw_configs :: "manifest_config list"
  mw_status :: "manifest_status list"

section \<open>HelmRelease\<close>

text \<open>
  The fields of the typed HelmRelease the code reads or writes; \<open>*_rest\<close> stands for the
  fields it carries along. \<open>spec.chart\<close> and \<open>spec.install\<close> are pointers.
\<close>

record hrchart =
  hc_chart :: string
  hc_version :: string
  hc_source :: sourceref
  hc_rest :: json

record hrvaluesref =
  vr_kind :: string
  vr_name :: string
  vr_key :: string
  vr_target :: string
  vr_optional :: bool

record hrinstall =
  hi_create_ns :: bool
  hi_rest :: json

record hrspec =
  hs_chart :: "hrchart option"
  hs_values_from :: "hrvaluesref list"
  hs_values :: "raw option"
  hs_target_ns :: string
  hs_storage_ns :: string
  hs_install :: "hrinstall option"
  hs_depends :: "string list"
  hs_rest :: json

record helmrelease = objmeta +
  hr_spec :: hrspec

text \<open>
  The typed JSON codec of the HelmRelease (\<open>utils.Copy\<close> into and out of
  \<open>fluxhelm.HelmRelease\<close>) belongs to the Flux API package and is a parameter: decode a
  manifest, encode a release as a manifest, and a spec as a document.
\<close>

record hr_codec =
  hc_dec :: "raw \<Rightarrow> gerr + helmrelease"
  hc_enc :: "helmrelease \<Rightarrow> gerr + raw"
  hc_spec :: "hrspec \<Rightarrow> gerr + jmap"

section \<open>Other kinds\<close>

record configmap = objmeta +
  cm_data :: strmap

record claim =
  cl_name :: string
  cl_value :: string

record managedcluster = objmeta +
  mc_claims :: "claim list"

text \<open>A label selector: exact labels, and expressions as key, operator and values.\<close>

record label_selector =
  ls_labels :: "(string \<times> string) list"
  ls_exprs :: "(string \<times> string \<times> string list) list"

record managedclusterset = objmeta +
  cs_type :: string
  cs_selector :: "label_selector option"

record mwreplicaset = objmeta +
  rs_manifests :: "raw list"

record chartref =
  cr_name :: string
  cr_version :: string
  cr_source :: sourceref

record featureset = objmeta +
  fset_chart :: chartref

record readiness_gvk =
  gvk_group :: string
  gvk_version :: string
  gvk_kind :: string
  gvk_selector :: "(string \<times> string) list"

record feature = objmeta +
  ft_set :: string
  ft_exclusion :: string
  ft_requires :: "string list"
  ft_chart :: chartinfo
  ft_values :: "raw option"
  ft_resources :: "readiness_gvk list"
  ft_workloads :: "readiness_gvk list"
  ft_enabled :: "bool option"
  ft_managed :: "bool option"
  ft_ready :: "bool option"

section \<open>Constants of \<open>pkg/common\<close> and of the program\<close>

definition ClusterClaimClusterInfo :: string where
  "ClusterClaimClusterInfo = ''cluster.ace.info''"
definition ClusterClaimKeyFeatures :: string where
  "ClusterClaimKeyFeatures = ''features.ace.info''"
definition LabelAceFeatureSet :: string where
  "LabelAceFeatureSet = ''featureset.appscode.com/managed''"
definition ClusterProfileLabel :: string where
  "ClusterProfileLabel = ''cluster.appscode.com/profile''"
definition ACEUpgrader :: string where
  "ACEUpgrader = ''ace.cloud.com/upgrader''"
definition ACEUpgraderVersion :: string where
  "ACEUpgraderVersion = ''ace.cloud.com/version''"
definition UpgradeAnnotation :: string where
  "UpgradeAnnotation = ''ace.cloud.com/upgradeAt''"
definition UpgradeTargetsAnnotation :: string where
  "UpgradeTargetsAnnotation = ''profile.k8s.appscode.com/upgrade-targets''"
definition UpgradeStatusKey :: string where
  "UpgradeStatusKey = ''status''"
definition UpgradeStatusPending :: string where
  "UpgradeStatusPending = ''pending''"
definition UpgradeStatusCompleted :: string where
  "UpgradeStatusCompleted = ''completed''"
definition HelmReleaseReadyFeedback :: string where
  "HelmReleaseReadyFeedback = ''Ready''"
definition HelmReleaseGenerationFeedback :: string where
  "HelmReleaseGenerationFeedback = ''Generation''"
definition HelmReleaseObservedGenerationFeedback :: string where
  "HelmReleaseObservedGenerationFeedback = ''ObservedGeneration''"

text \<open>\<open>metav1.ConditionTrue\<close> and \<open>metav1.ConditionFalse\<close> as strings.\<close>

abbreviation ConditionTrue :: string where "ConditionTrue \<equiv> ''True''"
abbreviation ConditionFalse :: string where "ConditionFalse \<equiv> ''False''"

abbreviation ChartOpscenterFeatures :: string where "ChartOpscenterFeatures \<equiv> ''opscenter-features''"
abbreviation ChartFluxCD :: string where "ChartFluxCD \<equiv> ''flux2''"
abbreviation ClusterManagerOpenShift :: string where "ClusterManagerOpenShift \<equiv> ''OpenShift''"
abbreviation ChartLicenseProxyServer :: string where "ChartLicenseProxyServer \<equiv> ''license-proxyserver''"

lemma obj_key_fields [simp]:
  "obj_key (cm_data_update f c) = obj_key c"
  "obj_key (mw_manifests_update g m) = obj_key m"
  "obj_key (mw_configs_update h m) = obj_key m"
  "obj_key (pb_spec_update i b) = obj_key b"
  "obj_key (pb_status_update j b) = obj_key b"
  by (simp_all add: obj_key_def)

lemmas constants =
  ACEUpgrader_def ACEUpgraderVersion_def UpgradeAnnotation_def UpgradeTargetsAnnotation_def
  UpgradeStatusKey_def UpgradeStatusPending_def UpgradeStatusCompleted_def
  LabelAceFeatureSet_def ClusterProfileLabel_def
  HelmReleaseReadyFeedback_def HelmReleaseGenerationFeedback_def
  HelmReleaseObservedGenerationFeedback_def

lemma annotations_distinct [simp]:
  "UpgradeTargetsAnnotation \<noteq> UpgradeAnnotation" "UpgradeAnnotation \<noteq> UpgradeTargetsAnnotation"
  "ACEUpgrader \<noteq> ACEUpgraderVersion" "ACEUpgraderVersion \<noteq> ACEUpgrader"
  by (simp_all add: constants)

lemma statuses_distinct [simp]:
  "UpgradeStatusPending \<noteq> UpgradeStatusCompleted" "UpgradeStatusCompleted \<noteq> UpgradeStatusPending"
  "UpgradeStatusPending \<noteq> ConditionTrue" "UpgradeStatusPending \<noteq> ConditionFalse"
  by (simp_all add: constants)

end
