(* ===== verification/HubApi.thy ===== *)
theory HubApi
  imports ProfileTypes
begin

text \<open>
  The hub API server as the controllers see it: one store per kind, keyed by namespace and
  name, a clock, a supply of random name suffixes, and a script of faults that lets any
  call fail before it takes effect. The operations are those of the controller-runtime
  client (\<open>Get\<close>, \<open>List\<close>, \<open>Create\<close>, \<open>Patch\<close>, \<open>Delete\<close>, \<open>Status().Update\<close>) and
  \<open>CreateOrPatch\<close> of \<open>kmodules.xyz/client-go/client\<close>. The interface \<open>object_store\<close> says
  what a kind's store promises, and what its clients derive from it.
\<close>

section \<open>A store of objects\<close>

text \<open>The interface: a store implements a finite map from keys to objects.\<close>

locale object_store =
  fixes key :: "'o \<Rightarrow> 'k" and look :: "'k \<Rightarrow> 's \<Rightarrow> 'o option"
    and put :: "'o \<Rightarrow> 's \<Rightarrow> 's" and del :: "'k \<Rightarrow> 's \<Rightarrow> 's"
    and items :: "'s \<Rightarrow> 'o list" and inv :: "'s \<Rightarrow> bool"
  assumes look_put: "look k (put x s) = (if k = key x then Some x else look k s)"
    and look_del: "look k (del k' s) = (if k = k' then None else look k s)"
    and look_key: "look k s = Some x \<Longrightarrow> key x = k"
    and items_look: "inv s \<Longrightarrow> x \<in> set (items s) \<longleftrightarrow> look (key x) s = Some x"
    and inv_put: "inv s \<Longrightarrow> inv (put x s)"
    and inv_del: "inv s \<Longrightarrow> inv (del k s)"
begin

definition absmap :: "'s \<Rightarrow> 'k \<rightharpoonup> 'o" where
  "absmap s = (\<lambda>k. look k s)"

lemma absmap_put: "absmap (put x s) = (absmap s)(key x \<mapsto> x)"
  by (auto simp: absmap_def look_put)

lemma absmap_del: "absmap (del k s) = (absmap s)(k := None)"
  by (auto simp: absmap_def look_del)

lemma ran_absmap: "inv s \<Longrightarrow> ran (absmap s) = set (items s)"
  unfolding absmap_def ran_def by (auto simp: items_look) (metis look_key)

lemma items_put:
  "inv s \<Longrightarrow> x \<in> set (items (put y s)) \<longleftrightarrow> x = y \<or> x \<in> set (items s) \<and> key x \<noteq> key y"
  by (auto simp: items_look inv_put look_put)

lemma items_del: "inv s \<Longrightarrow> x \<in> set (items (del k s)) \<longleftrightarrow> x \<in> set (items s) \<and> key x \<noteq> k"
  by (auto simp: items_look inv_del look_del)

lemma items_inj: "inv s \<Longrightarrow> x \<in> set (items s) \<Longrightarrow> y \<in> set (items s) \<Longrightarrow> key x = key y \<Longrightarrow> x = y"
  by (simp add: items_look)

end

definition find_obj :: "objkey \<Rightarrow> 'a objmeta_scheme list \<Rightarrow> 'a objmeta_scheme option" where
  "find_obj k xs = List.find (\<lambda>x. obj_key x = k) xs"

definition put_obj :: "'a objmeta_scheme \<Rightarrow> 'a objmeta_scheme list \<Rightarrow> 'a objmeta_scheme list" where
  "put_obj x xs =
     (if find_obj (obj_key x) xs = None then xs @ [x]
      else map (\<lambda>y. if obj_key y = obj_key x then x else y) xs)"

definition del_obj :: "objkey \<Rightarrow> 'a objmeta_scheme list \<Rightarrow> 'a objmeta_scheme list" where
  "del_obj k xs = filter (\<lambda>x. obj_key x \<noteq> k) xs"

definition keys_distinct :: "'a objmeta_scheme list \<Rightarrow> bool" where
  "keys_distinct xs \<longleftrightarrow> distinct (map obj_key xs)"

lemma find_obj_Nil [simp]: "find_obj k [] = None" by (simp add: find_obj_def)
lemma find_obj_Cons [simp]: "find_obj k (x # xs) = (if obj_key x = k then Some x else find_obj k xs)"
  by (simp add: find_obj_def)

lemma find_obj_None: "find_obj k xs = None \<longleftrightarrow> k \<notin> obj_key ` set xs"
  by (induction xs) auto

lemma find_obj_key: "find_obj k xs = Some x \<Longrightarrow> x \<in> set xs \<and> obj_key x = k"
  by (induction xs) (auto split: if_splits)

lemma find_obj_append: "find_obj k (xs @ ys) = (case find_obj k xs of None \<Rightarrow> find_obj k ys | Some x \<Rightarrow> Some x)"
  by (induction xs) auto

lemma find_obj_replace:
  "find_obj k (map (\<lambda>y. if obj_key y = obj_key x then x else y) xs) =
     (if k = obj_key x \<and> find_obj k xs \<noteq> None then Some x else find_obj k xs)"
  by (induction xs) auto

lemma find_obj_distinct: "keys_distinct xs \<Longrightarrow> x \<in> set xs \<longleftrightarrow> find_obj (obj_key x) xs = Some x"
  by (induction xs) (auto simp: keys_distinct_def image_iff dest: find_obj_key)

lemma map_key_replace: "map obj_key (map (\<lambda>y. if obj_key y = obj_key x then x else y) xs) = map obj_key xs"
  by (induction xs) auto

interpretation kube: object_store obj_key find_obj put_obj del_obj "\<lambda>xs. xs" keys_distinct
proof
  fix k and x :: "'a objmeta_scheme" and xs
  show "find_obj k (put_obj x xs) = (if k = obj_key x then Some x else find_obj k xs)"
    by (auto simp: put_obj_def find_obj_append find_obj_replace split: option.splits)
next
  fix k k' and xs :: "'a objmeta_scheme list"
  show "find_obj k (del_obj k' xs) = (if k = k' then None else find_obj k xs)"
    by (induction xs) (auto simp: del_obj_def)
next
  fix k and x :: "'a objmeta_scheme" and xs
  show "find_obj k xs = Some x \<Longrightarrow> obj_key x = k" by (simp add: find_obj_key)
next
  fix x :: "'a objmeta_scheme" and xs
  show "keys_distinct xs \<Longrightarrow> x \<in> set xs \<longleftrightarrow> find_obj (obj_key x) xs = Some x"
    by (rule find_obj_distinct)
next
  fix x :: "'a objmeta_scheme" and xs
  show "keys_distinct xs \<Longrightarrow> keys_distinct (put_obj x xs)"
    unfolding keys_distinct_def put_obj_def
    by (simp add: find_obj_None map_key_replace del: map_map)
next
  fix k and xs :: "'a objmeta_scheme list"
  show "keys_distinct xs \<Longrightarrow> keys_distinct (del_obj k xs)"
    by (induction xs) (auto simp: keys_distinct_def del_obj_def)
qed

section \<open>The hub\<close>

record world =
  w_mws :: "manifestwork list"
  w_cms :: "configmap list"
  w_profiles :: "profile list"
  w_bindings :: "binding list"
  w_clusters :: "managedcluster list"
  w_features :: "feature list"
  w_mwrs :: "mwreplicaset list"
  w_sets :: "managedclusterset list"
  w_now :: gotime
  w_rand :: "string list"
  w_faults :: "gerr option list"

type_synonym 'a kc = "(world, 'a) prog"

text \<open>A kind is addressed by the selector and the update of its store.\<close>

type_synonym 'o kind = "(world \<Rightarrow> 'o list) \<times> (('o list \<Rightarrow> 'o list) \<Rightarrow> world \<Rightarrow> world)"

definition works :: "manifestwork kind" where "works = (w_mws, w_mws_update)"
definition cmaps :: "configmap kind" where "cmaps = (w_cms, w_cms_update)"
definition profiles :: "profile kind" where "profiles = (w_profiles, w_profiles_update)"
definition bindings :: "binding kind" where "bindings = (w_bindings, w_bindings_update)"
definition clusters :: "managedcluster kind" where "clusters = (w_clusters, w_clusters_update)"
definition features :: "feature kind" where "features = (w_features, w_features_update)"
definition replicasets :: "mwreplicaset kind" where "replicasets = (w_mwrs, w_mwrs_update)"
definition clustersets :: "managedclusterset kind" where "clustersets = (w_sets, w_sets_update)"

lemmas kinds = clustersets_def replicasets_def works_def cmaps_def profiles_def bindings_def clusters_def features_def

text \<open>One API call: the next entry of the fault script decides whether it runs.\<close>

definition api_call :: "'a kc \<Rightarrow> 'a kc" where
  "api_call m =
     (\<lambda>w. case w_faults w of
            [] \<Rightarrow> m w
          | None # fs \<Rightarrow> m (w\<lparr>w_faults := fs\<rparr>)
          | Some e # fs \<Rightarrow> (Inl e, w\<lparr>w_faults := fs\<rparr>))"

definition api_get :: "'a objmeta_scheme kind \<Rightarrow> objkey \<Rightarrow> 'a objmeta_scheme kc" where
  "api_get K k =
     api_call (\<lambda>w. case find_obj k (fst K w) of
                     None \<Rightarrow> (Inl ErrNotFound, w)
                   | Some x \<Rightarrow> (Inr x, w))"

text \<open>
  A list comes in the order of the store. A list out of the manager's cache has no order of its
  own; the code depends on it only where it takes the first item of several.
\<close>

definition api_list :: "'a objmeta_scheme kind \<Rightarrow> ('a objmeta_scheme \<Rightarrow> bool) \<Rightarrow> 'a objmeta_scheme list kc" where
  "api_list K P = api_call (\<lambda>w. (Inr (filter P (fst K w)), w))"

text \<open>The server stamps a new object with its clock, in whole seconds.\<close>

definition to_second :: "gotime \<Rightarrow> gotime" where
  "to_second t = t div second * second"

definition api_create :: "'a objmeta_scheme kind \<Rightarrow> 'a objmeta_scheme \<Rightarrow> 'a objmeta_scheme kc" where
  "api_create K x =
     api_call (\<lambda>w. if find_obj (obj_key x) (fst K w) \<noteq> None then (Inl ErrExists, w)
                   else (let y = x\<lparr>om_created := to_second (w_now w)\<rparr>
                         in (Inr y, snd K (put_obj y) w)))"

text \<open>A patch computed against the object just read writes the modified object.\<close>

definition api_patch :: "'a objmeta_scheme kind \<Rightarrow> 'a objmeta_scheme \<Rightarrow> 'a objmeta_scheme kc" where
  "api_patch K x =
     api_call (\<lambda>w. if find_obj (obj_key x) (fst K w) = None then (Inl ErrNotFound, w)
                   else (Inr x, snd K (put_obj x) w))"

definition api_delete :: "'a objmeta_scheme kind \<Rightarrow> objkey \<Rightarrow> unit kc" where
  "api_delete K k =
     api_call (\<lambda>w. if find_obj k (fst K w) = None then (Inl ErrNotFound, w)
                   else (Inr (), snd K (del_obj k) w))"

text \<open>
  \<open>CreateOrPatch\<close>: read, then create or patch what the transformation makes of it. The read sees
  what was written before; the client of the manager answers it from a cache, which may lag
  behind. The object is stored as the transformation leaves it; the patch the code sends for
  a kind of its own is a JSON merge patch, by which a null inside the values of a feature is
  a deletion. Manifests are items of a list, which a merge patch replaces as a whole.
\<close>

definition CreateOrPatch ::
  "'a objmeta_scheme kind \<Rightarrow> 'a objmeta_scheme \<Rightarrow> ('a objmeta_scheme \<Rightarrow> 'a objmeta_scheme)
     \<Rightarrow> 'a objmeta_scheme kc" where
  "CreateOrPatch K x tr =
     tryM (api_get K (obj_key x))
       (\<lambda>r. case r of
              Inr cur \<Rightarrow> api_patch K (tr cur)
            | Inl e \<Rightarrow> if is_not_found e then api_create K (tr x) else raise e)"

text \<open>\<open>client.IgnoreNotFound\<close>.\<close>

definition IgnoreNotFound :: "gerr \<Rightarrow> gerr option" where
  "IgnoreNotFound e = (if is_not_found e then None else Some e)"

definition raise_opt :: "gerr option \<Rightarrow> unit kc" where
  "raise_opt e = (case e of None \<Rightarrow> ret () | Some e' \<Rightarrow> raise e')"

definition now :: "gotime kc" where
  "now = getsM w_now"

text \<open>\<open>rand.String(10)\<close>: the next suffix of the supply.\<close>

definition rand_string :: "string kc" where
  "rand_string =
     (\<lambda>w. case w_rand w of [] \<Rightarrow> (Inr '''', w) | s # ss \<Rightarrow> (Inr s, w\<lparr>w_rand := ss\<rparr>))"

section \<open>Runs without faults\<close>

definition no_faults :: "world \<Rightarrow> bool" where
  "no_faults w \<longleftrightarrow> w_faults w = []"

lemma api_call_run [prog_simps]: "no_faults w \<Longrightarrow> api_call m w = m w"
  by (simp add: api_call_def no_faults_def)

lemma api_get_run [prog_simps]:
  "no_faults w \<Longrightarrow> api_get K k w =
     (case find_obj k (fst K w) of None \<Rightarrow> (Inl ErrNotFound, w) | Some x \<Rightarrow> (Inr x, w))"
  by (simp add: api_get_def api_call_run)

lemma api_list_run [prog_simps]: "no_faults w \<Longrightarrow> api_list K P w = (Inr (filter P (fst K w)), w)"
  by (simp add: api_list_def api_call_run)

lemma api_create_run [prog_simps]:
  "no_faults w \<Longrightarrow> api_create K x w =
     (if find_obj (obj_key x) (fst K w) \<noteq> None then (Inl ErrExists, w)
      else (Inr (x\<lparr>om_created := to_second (w_now w)\<rparr>),
            snd K (put_obj (x\<lparr>om_created := to_second (w_now w)\<rparr>)) w))"
  by (simp add: api_create_def api_call_run Let_def)

lemma api_patch_run [prog_simps]:
  "no_faults w \<Longrightarrow> api_patch K x w =
     (if find_obj (obj_key x) (fst K w) = None then (Inl ErrNotFound, w)
      else (Inr x, snd K (put_obj x) w))"
  by (simp add: api_patch_def api_call_run)

lemma api_delete_run [prog_simps]:
  "no_faults w \<Longrightarrow> api_delete K k w =
     (if find_obj k (fst K w) = None then (Inl ErrNotFound, w) else (Inr (), snd K (del_obj k) w))"
  by (simp add: api_delete_def api_call_run)

lemma no_faults_updates [simp]:
  "no_faults (w_mws_update f w) = no_faults w"
  "no_faults (w_cms_update g w) = no_faults w"
  "no_faults (w_bindings_update h w) = no_faults w"
  "no_faults (w_profiles_update i w) = no_faults w"
  "no_faults (w_rand_update j w) = no_faults w"
  by (simp_all add: no_faults_def)

text \<open>
  On an object that is there, \<open>CreateOrPatch\<close> stores the transformed current object; on a
  missing one it creates the transformed argument.
\<close>

lemma CreateOrPatch_run [prog_simps]:
  assumes "no_faults w"
  shows "CreateOrPatch K x tr w =
     (case find_obj (obj_key x) (fst K w) of
        Some cur \<Rightarrow> api_patch K (tr cur) w
      | None \<Rightarrow> api_create K (tr x) w)"
  using assms by (simp add: CreateOrPatch_def prog_simps split: option.split)

lemma CreateOrPatch_present:
  assumes "no_faults w" and "find_obj (obj_key x) (fst K w) = Some cur" and "obj_key (tr cur) = obj_key x"
  shows "CreateOrPatch K x tr w = (Inr (tr cur), snd K (put_obj (tr cur)) w)"
  using assms by (simp add: prog_simps)

section \<open>Invariants under any faults\<close>

text \<open>A property of the hub that does not look at the fault script.\<close>

definition steady :: "(world \<Rightarrow> bool) \<Rightarrow> bool" where
  "steady I \<longleftrightarrow> (\<forall>w fs. I w \<longrightarrow> I (w\<lparr>w_faults := fs\<rparr>))"

lemma steadyD: "steady I \<Longrightarrow> I w \<Longrightarrow> I (w\<lparr>w_faults := fs\<rparr>)"
  by (simp add: steady_def)

lemma triple_api_call:
  assumes "steady P" and "\<And>e. steady (E e)" and "triple P m Q E"
    and "\<And>e w. P w \<Longrightarrow> E e w"
  shows "triple P (api_call m) Q E"
  unfolding triple_def
proof (intro allI impI)
  fix w
  assume w: "P w"
  note m = assms(3) [unfolded triple_def, rule_format]
  consider "w_faults w = []" | fs where "w_faults w = None # fs" | e fs where "w_faults w = Some e # fs"
    by (metis option.exhaust list.exhaust)
  then show "case api_call m w of (Inl e, w') \<Rightarrow> E e w' | (Inr x, w') \<Rightarrow> Q x w'"
  proof cases
    case 1
    with m [OF w] show ?thesis by (simp add: api_call_def)
  next
    case (2 fs)
    with m [OF steadyD [OF assms(1) w]] show ?thesis by (simp add: api_call_def)
  next
    case (3 e fs)
    from assms(4) w have "E e w" .
    with 3 steadyD [OF assms(2)] show ?thesis by (simp add: api_call_def)
  qed
qed

lemma keeps_api_call: "steady I \<Longrightarrow> keeps I m \<Longrightarrow> keeps I (api_call m)"
  by (rule triple_api_call)

lemma triple_api_get:
  assumes "steady I"
  shows "triple I (api_get K k) (\<lambda>x w. I w \<and> obj_key x = k) (\<lambda>_. I)"
  unfolding api_get_def
  by (rule triple_api_call) (auto simp: triple_def assms dest: find_obj_key split: option.split)

lemma keeps_api_get [wp]: "steady I \<Longrightarrow> keeps I (api_get K k)"
  by (rule triple_conseq [OF triple_api_get]) auto

lemma keeps_api_list [wp]: "steady I \<Longrightarrow> keeps I (api_list K P)"
  unfolding api_list_def by (rule keeps_api_call) (simp_all add: triple_def)

lemma keeps_api_create:
  "steady I \<Longrightarrow> (\<And>w t. I w \<Longrightarrow> I (snd K (put_obj (x\<lparr>om_created := t\<rparr>)) w)) \<Longrightarrow> keeps I (api_create K x)"
  unfolding api_create_def by (rule keeps_api_call) (auto simp: triple_def Let_def)

lemma keeps_api_patch:
  "steady I \<Longrightarrow> (\<And>w. I w \<Longrightarrow> I (snd K (put_obj x) w)) \<Longrightarrow> keeps I (api_patch K x)"
  unfolding api_patch_def by (rule keeps_api_call) (auto simp: triple_def)

lemma keeps_api_delete:
  "steady I \<Longrightarrow> (\<And>w. I w \<Longrightarrow> I (snd K (del_obj k) w)) \<Longrightarrow> keeps I (api_delete K k)"
  unfolding api_delete_def by (rule keeps_api_call) (auto simp: triple_def)

lemma keeps_CreateOrPatch:
  fixes K :: "'a objmeta_scheme kind"
  assumes "steady I" and "\<And>w y. I w \<Longrightarrow> I (snd K (put_obj y) w)"
  shows "keeps I (CreateOrPatch K x tr)"
  unfolding CreateOrPatch_def
proof (rule triple_tryM)
  show "keeps I (api_get K (obj_key x))" using assms(1) by (rule keeps_api_get)
  fix r :: "gerr + 'a objmeta_scheme"
  show "keeps I (case r of Inl e \<Rightarrow> if is_not_found e then api_create K (tr x) else raise e
                         | Inr cur \<Rightarrow> api_patch K (tr cur))"
    using assms by (cases r) (auto intro!: keeps_api_create keeps_api_patch triple_raise)
qed

lemma steady_simps [intro]:
  "steady (\<lambda>w. P (w_mws w))" "steady (\<lambda>w. P' (w_cms w))" "steady (\<lambda>w. P'' (w_bindings w))"
  "steady (\<lambda>w. Q (w_profiles w))" "steady (\<lambda>w. Q' (w_clusters w))" "steady (\<lambda>w. Q'' (w_now w))"
  by (simp_all add: steady_def)

section \<open>One kind and the rest of the hub\<close>

text \<open>
  What the proofs need of a kind: its selector and update fit together, and neither sees the
  fault script, the clock or the random supply. Every call then leaves the hub as it was but
  for the fault script and, if it succeeds and writes, its own store.
\<close>

lemma api_call_cases:
  obtains (runs) fs where "api_call m w = m (w\<lparr>w_faults := fs\<rparr>)"
  | (failed) e fs where "api_call m w = (Inl e, w\<lparr>w_faults := fs\<rparr>)"
proof (cases "w_faults w")
  case Nil
  then have w: "w\<lparr>w_faults := []\<rparr> = w" by simp
  have "api_call m w = m (w\<lparr>w_faults := []\<rparr>)" unfolding w by (simp add: api_call_def Nil)
  then show thesis by (rule runs)
next
  case (Cons f fs)
  then show thesis using runs [of fs] failed by (cases f) (simp_all add: api_call_def)
qed

locale stored_kind =
  fixes K :: "'a objmeta_scheme kind"
  assumes sel_upd: "fst K (snd K f w) = f (fst K w)"
    and sel_faults: "fst K (w\<lparr>w_faults := fs\<rparr>) = fst K w"
    and upd_faults: "(snd K f w)\<lparr>w_faults := fs\<rparr> = snd K f (w\<lparr>w_faults := fs\<rparr>)"
    and faults_upd: "w_faults (snd K f w) = w_faults w"
    and now_upd: "w_now (snd K f w) = w_now w"
begin

lemma get_cases:
  obtains (found) x fs where "api_get K k w = (Inr x, w\<lparr>w_faults := fs\<rparr>)" "find_obj k (fst K w) = Some x"
  | (failed) e fs where "api_get K k w = (Inl e, w\<lparr>w_faults := fs\<rparr>)"
  unfolding api_get_def
  by (rule api_call_cases [of _ w]) (auto simp: sel_faults split: option.splits)

lemma list_cases:
  obtains (listed) fs where "api_list K P w = (Inr (filter P (fst K w)), w\<lparr>w_faults := fs\<rparr>)"
  | (failed) e fs where "api_list K P w = (Inl e, w\<lparr>w_faults := fs\<rparr>)"
  unfolding api_list_def by (rule api_call_cases [of _ w]) (auto simp: sel_faults)

lemma patch_cases:
  obtains (patched) fs where "api_patch K x w = (Inr x, snd K (put_obj x) (w\<lparr>w_faults := fs\<rparr>))"
      "find_obj (obj_key x) (fst K w) \<noteq> None"
  | (failed) e fs where "api_patch K x w = (Inl e, w\<lparr>w_faults := fs\<rparr>)"
  unfolding api_patch_def by (rule api_call_cases [of _ w]) (auto simp: sel_faults split: if_splits)

lemma create_cases:
  obtains (created) y fs where
      "y = x\<lparr>om_created := to_second (w_now w)\<rparr>"
      "api_create K x w = (Inr y, snd K (put_obj y) (w\<lparr>w_faults := fs\<rparr>))"
      "find_obj (obj_key x) (fst K w) = None"
  | (failed) e fs where "api_create K x w = (Inl e, w\<lparr>w_faults := fs\<rparr>)"
  unfolding api_create_def Let_def
  by (rule api_call_cases [of _ w]) (auto simp: sel_faults split: if_splits)

lemma delete_cases:
  obtains (deleted) fs where "api_delete K k w = (Inr (), snd K (del_obj k) (w\<lparr>w_faults := fs\<rparr>))"
      "find_obj k (fst K w) \<noteq> None"
  | (failed) e fs where "api_delete K k w = (Inl e, w\<lparr>w_faults := fs\<rparr>)"
  unfolding api_delete_def by (rule api_call_cases [of _ w]) (auto simp: sel_faults split: if_splits)

text \<open>
  \<open>CreateOrPatch\<close> either fails and changes nothing, or stores what it returns: the
  transformed current object, or the transformed argument stamped with the clock.
\<close>

lemma create_or_patch_cases:
  obtains (patched) cur fs where
      "CreateOrPatch K x tr w = (Inr (tr cur), snd K (put_obj (tr cur)) (w\<lparr>w_faults := fs\<rparr>))"
      "find_obj (obj_key x) (fst K w) = Some cur"
  | (created) y fs where
      "CreateOrPatch K x tr w = (Inr y, snd K (put_obj y) (w\<lparr>w_faults := fs\<rparr>))"
      "y = (tr x)\<lparr>om_created := to_second (w_now w)\<rparr>" "find_obj (obj_key (tr x)) (fst K w) = None"
  | (failed) e fs where "CreateOrPatch K x tr w = (Inl e, w\<lparr>w_faults := fs\<rparr>)"
proof (rule get_cases [of "obj_key x" w])
  fix cur fs
  assume g: "api_get K (obj_key x) w = (Inr cur, w\<lparr>w_faults := fs\<rparr>)" "find_obj (obj_key x) (fst K w) = Some cur"
  show thesis
    by (rule patch_cases [of "tr cur" "w\<lparr>w_faults := fs\<rparr>"])
      (use g patched failed in \<open>auto simp: CreateOrPatch_def prog_simps\<close>)
next
  fix e fs
  assume g: "api_get K (obj_key x) w = (Inl e, w\<lparr>w_faults := fs\<rparr>)"
  show thesis
  proof (cases "is_not_found e")
    case True
    show thesis
      by (rule create_cases [where x = "tr x" and w = "w\<lparr>w_faults := fs\<rparr>"])
        (use g True created failed in \<open>auto simp: CreateOrPatch_def prog_simps sel_faults\<close>)
  next
    case False
    with g show thesis using failed by (simp add: CreateOrPatch_def prog_simps)
  qed
qed

lemma stored:
  "CreateOrPatch K x tr w = (Inr y, w') \<Longrightarrow> find_obj (obj_key y) (fst K w') = Some y"
  by (rule create_or_patch_cases [of x tr w]) (auto simp: sel_upd kube.look_put)

end

interpretation mwk: stored_kind works by unfold_locales (simp_all add: works_def)
interpretation cmk: stored_kind cmaps by unfold_locales (simp_all add: cmaps_def)
interpretation prk: stored_kind profiles by unfold_locales (simp_all add: profiles_def)
interpretation bdk: stored_kind bindings by unfold_locales (simp_all add: bindings_def)
interpretation clk: stored_kind clusters by unfold_locales (simp_all add: clusters_def)
interpretation rsk: stored_kind replicasets by unfold_locales (simp_all add: replicasets_def)
interpretation csk: stored_kind clustersets by unfold_locales (simp_all add: clustersets_def)
interpretation ftk: stored_kind features by unfold_locales (simp_all add: features_def)

end
