(* ===== verification/GoTime.thy ===== *)
theory GoTime
  imports JsonText HubApi
begin

text \<open>
  \<open>time.Parse\<close> of Go with the layout \<open>time.RFC3339\<close>, which both the binding controller and
  its status step read the \<open>ace.cloud.com/upgradeAt\<close> annotation with. A time is the number
  of nanoseconds since the Unix epoch. As in Go, the hour may have one digit, a fraction of
  a second may follow the seconds (cut at nanoseconds), and a zone may be 24 hours or 60
  minutes away. \<open>metav1.Time\<close> is stored in whole seconds (\<open>to_second\<close> of the hub).
\<close>

section \<open>The calendar\<close>

definition leap :: "int \<Rightarrow> bool" where
  "leap y \<longleftrightarrow> y mod 4 = 0 \<and> (y mod 100 \<noteq> 0 \<or> y mod 400 = 0)"

definition days_in :: "int \<Rightarrow> int \<Rightarrow> int" where
  "days_in m y =
     (if m = 2 then if leap y then 29 else 28
      else if m \<in> {4, 6, 9, 11} then 30 else 31)"

text \<open>Days from the epoch to the first of January, and within the year to the month.\<close>

definition year_day :: "int \<Rightarrow> int" where
  "year_day y = 365 * (y - 1) + (y - 1) div 4 - (y - 1) div 100 + (y - 1) div 400 - 719162"

definition month_day :: "int \<Rightarrow> int \<Rightarrow> int" where
  "month_day m y = sum_list (map (\<lambda>i. days_in (int i) y) [1..<nat m])"

definition day_number :: "int \<Rightarrow> int \<Rightarrow> int \<Rightarrow> int" where
  "day_number y m d = year_day y + month_day m y + d - 1"

section \<open>Reading the parts\<close>

type_synonym 'a reading = "('a \<times> string) option"

text \<open>\<open>getnum\<close>: two digits, or one when the field is not fixed.\<close>

definition getnum :: "bool \<Rightarrow> string \<Rightarrow> int reading" where
  "getnum fixed s =
     (case s of
        c # d # r \<Rightarrow>
          if \<not> is_digit c then None
          else if is_digit d then Some (10 * int (digit_val c) + int (digit_val d), r)
          else if fixed then None else Some (int (digit_val c), d # r)
      | [c] \<Rightarrow> if is_digit c \<and> \<not> fixed then Some (int (digit_val c), []) else None
      | [] \<Rightarrow> None)"

definition getyear :: "string \<Rightarrow> int reading" where
  "getyear s =
     (if length (take 4 s) = 4 \<and> list_all is_digit (take 4 s)
      then Some (int (nat_of_digits 0 (take 4 s)), drop 4 s) else None)"

definition sep :: "char \<Rightarrow> string \<Rightarrow> string option" where
  "sep c s = (case s of [] \<Rightarrow> None | d # r \<Rightarrow> if d = c then Some r else None)"

text \<open>A fraction, when a comma or a period is followed by a digit; nine digits count.\<close>

definition getfrac :: "string \<Rightarrow> int \<times> string" where
  "getfrac s =
     (case s of
        p # d # r \<Rightarrow>
          if (p = CHR ''.'' \<or> p = CHR '','') \<and> is_digit d then
            (let ds = take 9 (takeWhile is_digit (d # r))
             in (int (nat_of_digits 0 ds) * 10 ^ (9 - length ds), dropWhile is_digit (d # r)))
          else (0, s)
      | _ \<Rightarrow> (0, s))"

text \<open>The zone in seconds east of Greenwich, which ends the text.\<close>

definition getzone :: "string \<Rightarrow> int option" where
  "getzone s =
     (if s = ''Z'' then Some 0
      else case s of
        [sign, h1, h2, colon, m1, m2] \<Rightarrow>
          (case (getnum True [h1, h2], getnum True [m1, m2]) of
             (Some (hr, _), Some (mm, _)) \<Rightarrow>
               if colon = CHR '':'' \<and> hr \<le> 24 \<and> mm \<le> 60 \<and> (sign = CHR ''+'' \<or> sign = CHR ''-'')
               then Some ((if sign = CHR ''-'' then - 1 else 1) * ((hr * 60 + mm) * 60)) else None
           | _ \<Rightarrow> None)
      | _ \<Rightarrow> None)"

definition getdate :: "string \<Rightarrow> (int \<times> int \<times> int) reading" where
  "getdate s =
     Option.bind (getyear s) (\<lambda>(y, s).
     Option.bind (sep CHR ''-'' s) (\<lambda>s.
     Option.bind (getnum True s) (\<lambda>(m, s).
     Option.bind (sep CHR ''-'' s) (\<lambda>s.
     Option.bind (getnum True s) (\<lambda>(d, s).
       if 1 \<le> m \<and> m \<le> 12 \<and> 1 \<le> d \<and> d \<le> days_in m y then Some ((y, m, d), s) else None)))))"

definition getclock :: "string \<Rightarrow> int reading" where
  "getclock s =
     Option.bind (getnum False s) (\<lambda>(h, s).
     Option.bind (sep CHR '':'' s) (\<lambda>s.
     Option.bind (getnum True s) (\<lambda>(m, s).
     Option.bind (sep CHR '':'' s) (\<lambda>s.
     Option.bind (getnum True s) (\<lambda>(sec, s).
       if h < 24 \<and> m < 60 \<and> sec < 60 then Some ((h * 60 + m) * 60 + sec, s) else None)))))"

definition parse_rfc3339 :: "string \<Rightarrow> gotime option" where
  "parse_rfc3339 s =
     Option.bind (getdate s) (\<lambda>((y, m, d), s).
     Option.bind (sep CHR ''T'' s) (\<lambda>s.
     Option.bind (getclock s) (\<lambda>(secs, s).
       (let (ns, s) = getfrac s in
        Option.bind (getzone s) (\<lambda>off.
          Some ((day_number y m d * 86400 + secs - off) * second + ns))))))"

text \<open>A \<open>metav1.Time\<close> comes back from the API server in whole seconds.\<close>

lemma to_second_idem [simp]: "to_second (to_second t) = to_second t"
  by (simp add: to_second_def)

lemma to_second_eq_iff: "to_second t = t \<longleftrightarrow> second dvd t"
  unfolding to_second_def by (metis dvd_def dvd_div_mult_self mult.commute)

lemma to_second_bounds: "to_second t \<le> t \<and> t < to_second t + second"
proof -
  have "t = to_second t + t mod second" unfolding to_second_def by simp
  moreover have "0 \<le> t mod second" "t mod second < second" by simp_all
  ultimately show ?thesis by linarith
qed

section \<open>What is read\<close>

lemma getnum_bounds: "getnum fx s = Some (n, r) \<Longrightarrow> 0 \<le> n \<and> n < 100"
  by (auto simp: getnum_def digit_val_def is_digit_def split: list.splits if_splits)

text \<open>Texts of Go's own tests and of the format's corners.\<close>

lemma parse_examples:
  "parse_rfc3339 ''1970-01-01T00:00:00Z'' = Some 0"
  "parse_rfc3339 ''2024-02-29T12:30:05.5+01:00'' = Some (1709206205 * second + 500000000)"
  "parse_rfc3339 ''2023-02-29T12:30:05Z'' = None"
  "parse_rfc3339 ''2024-01-01'' = None"
  "parse_rfc3339 ''0001-01-01T00:00:00Z'' = Some zero_time"
  by code_simp+

end
