(* ===== verification/Manifests.thy ===== *)
theory Manifests
  imports ProfileTypes
begin

text \<open>
  What the code reads out of the manifests of a ManifestWork: the identity of an object
  (\<open>GetKindNameNamespace\<close>, \<open>helpers.go\<close> of the feature installer), the HelmRelease feedback
  the work agent reports and the rules that make it report (\<open>upgrader_helper.go\<close>), and the
  readiness decision taken from it.
\<close>

section \<open>The identity of a manifest\<close>

text \<open>\<open>utils.Copy(m, &object)\<close> into a fresh \<open>map[string]any\<close>.\<close>

definition manifest_object :: "raw \<Rightarrow> gerr + jmap" where
  "manifest_object m = bindE (unmarshal_map m (Some fmempty)) (\<lambda>o1. Inr (of_nil o1))"

text \<open>A missing kind or name yields three empty strings and no error.\<close>

definition GetKindNameNamespace :: "jmap \<Rightarrow> gerr + string \<times> string \<times> string" where
  "GetKindNameNamespace item =
     bindE (NestedString item [''kind'']) (\<lambda>k. case k of
       None \<Rightarrow> Inr ('''', '''', '''')
     | Some kind \<Rightarrow>
         bindE (NestedString item [''metadata'', ''name'']) (\<lambda>n. case n of
           None \<Rightarrow> Inr ('''', '''', '''')
         | Some name \<Rightarrow>
             (case NestedString item [''metadata'', ''namespace''] of
                Inr (Some ns) \<Rightarrow> Inr (kind, name, ns)
              | _ \<Rightarrow> Inr (kind, name, ''''))))"

definition manifest_id :: "raw \<Rightarrow> gerr + string \<times> string \<times> string" where
  "manifest_id m = bindE (manifest_object m) GetKindNameNamespace"

section \<open>Status feedback\<close>

abbreviation HelmReleaseKind :: string where "HelmReleaseKind \<equiv> ''HelmRelease''"
abbreviation ManifestApplied :: string where "ManifestApplied \<equiv> ''Applied''"

text \<open>The first condition of the type decides.\<close>

fun IsStatusConditionTrue :: "condition list \<Rightarrow> string \<Rightarrow> bool" where
  "IsStatusConditionTrue [] t = False"
| "IsStatusConditionTrue (c # cs) t =
     (if cd_type c = t then cd_status c = ConditionTrue else IsStatusConditionTrue cs t)"

fun status_of :: "manifest_status list \<Rightarrow> string \<Rightarrow> string \<Rightarrow> feedback list \<times> bool" where
  "status_of [] hrNamespace hrName = ([], False)"
| "status_of (mc # mcs) hrNamespace hrName =
     (if mc_kind mc \<noteq> HelmReleaseKind \<or> mc_name mc \<noteq> hrName \<or> mc_ns mc \<noteq> hrNamespace
      then status_of mcs hrNamespace hrName
      else (mc_values mc, IsStatusConditionTrue (mc_conditions mc) ManifestApplied))"

definition helmReleaseFeedback :: "manifestwork \<Rightarrow> string \<Rightarrow> string \<Rightarrow> feedback list \<times> bool" where
  "helmReleaseFeedback mw hrNamespace hrName = status_of (mw_status mw) hrNamespace hrName"

fun feedbackInt :: "feedback list \<Rightarrow> string \<Rightarrow> int64 option" where
  "feedbackInt [] name = None"
| "feedbackInt (v # vs) name =
     (if fv_name v = name \<and> fv_integer v \<noteq> None then fv_integer v else feedbackInt vs name)"

fun feedbackString :: "feedback list \<Rightarrow> string \<Rightarrow> string option" where
  "feedbackString [] name = None"
| "feedbackString (v # vs) name =
     (if fv_name v = name \<and> fv_string v \<noteq> None then fv_string v else feedbackString vs name)"

definition helmReleaseGeneration :: "manifestwork \<Rightarrow> string \<Rightarrow> string \<Rightarrow> int64" where
  "helmReleaseGeneration mw hrNamespace hrName =
     (case feedbackInt (fst (helmReleaseFeedback mw hrNamespace hrName)) HelmReleaseGenerationFeedback of
        None \<Rightarrow> 0
      | Some g \<Rightarrow> g)"

section \<open>Readiness\<close>

record upgrade_target =
  ut_mw_ns :: string
  ut_mw_name :: string
  ut_hr_ns :: string
  ut_hr_name :: string
  ut_min_gen :: int64

definition helmReleaseReady :: "manifestwork \<Rightarrow> upgrade_target \<Rightarrow> bool" where
  "helmReleaseReady mw t =
     (let (values, applied) = helmReleaseFeedback mw (ut_hr_ns t) (ut_hr_name t) in
      if \<not> applied then False
      else case feedbackString values HelmReleaseReadyFeedback of
        None \<Rightarrow> False
      | Some ready \<Rightarrow>
          if ready \<noteq> ConditionTrue then False
          else case feedbackInt values HelmReleaseGenerationFeedback of
            None \<Rightarrow> False
          | Some generation \<Rightarrow>
              if generation <s ut_min_gen t then False
              else case feedbackInt values HelmReleaseObservedGenerationFeedback of
                None \<Rightarrow> False
              | Some observed \<Rightarrow> observed = generation)"

text \<open>The facts a report must carry, all at once.\<close>

lemma helmReleaseReady_iff:
  "helmReleaseReady mw t \<longleftrightarrow>
     (\<exists>values g. helmReleaseFeedback mw (ut_hr_ns t) (ut_hr_name t) = (values, True) \<and>
        feedbackString values HelmReleaseReadyFeedback = Some ConditionTrue \<and>
        feedbackInt values HelmReleaseGenerationFeedback = Some g \<and>
        feedbackInt values HelmReleaseObservedGenerationFeedback = Some g \<and>
        ut_min_gen t \<le>s g)"
  by (auto simp: helmReleaseReady_def not_le word_sless_alt word_sle_eq split: prod.splits option.splits)

lemma helmReleaseReady_generation:
  "helmReleaseReady mw t \<Longrightarrow> ut_min_gen t \<le>s helmReleaseGeneration mw (ut_hr_ns t) (ut_hr_name t)"
  by (auto simp: helmReleaseReady_iff helmReleaseGeneration_def)

lemma helmReleaseReady_antimono:
  "helmReleaseReady mw (t\<lparr>ut_min_gen := g\<rparr>) \<Longrightarrow> g' \<le>s g \<Longrightarrow> helmReleaseReady mw (t\<lparr>ut_min_gen := g'\<rparr>)"
  by (auto simp: helmReleaseReady_iff word_sle_eq)

section \<open>Feedback rules\<close>

abbreviation condition_path :: "string \<Rightarrow> string" where
  "condition_path t \<equiv> ''.status.conditions[?(@.type=='' @ CHR 0x22 # t @ CHR 0x22 # '')].status''"

text \<open>What the work agent is asked to report of a HelmRelease.\<close>

definition helm_release_rules :: "feedback_rule list" where
  "helm_release_rules =
     [\<lparr> fr_type = ''JSONPaths'',
        fr_paths =
          [(HelmReleaseReadyFeedback, condition_path ''Ready''),
           (''Released'', condition_path ''Released''),
           (HelmReleaseGenerationFeedback, ''.metadata.generation''),
           (HelmReleaseObservedGenerationFeedback, ''.status.observedGeneration'')] \<rparr>]"

definition is_release_config :: "string \<Rightarrow> string \<Rightarrow> manifest_config \<Rightarrow> bool" where
  "is_release_config hrNamespace hrName c \<longleftrightarrow>
     rc_resource c = ''helmreleases'' \<and> rc_name c = hrName \<and> rc_ns c = hrNamespace"

text \<open>The loop over the configs: the first match gets the rules and the function returns.\<close>

fun set_rules :: "string \<Rightarrow> string \<Rightarrow> manifest_config list \<Rightarrow> manifest_config list option" where
  "set_rules hrNamespace hrName [] = None"
| "set_rules hrNamespace hrName (c # cs) =
     (if is_release_config hrNamespace hrName c then Some (c\<lparr>rc_rules := helm_release_rules\<rparr> # cs)
      else map_option ((#) c) (set_rules hrNamespace hrName cs))"

definition release_config :: "string \<Rightarrow> string \<Rightarrow> manifest_config" where
  "release_config hrNamespace hrName =
     \<lparr> rc_group = ''helm.toolkit.fluxcd.io'', rc_resource = ''helmreleases'', rc_name = hrName,
       rc_ns = hrNamespace, rc_rules = helm_release_rules \<rparr>"

definition ensureHelmReleaseFeedbackRules :: "manifestwork \<Rightarrow> string \<Rightarrow> string \<Rightarrow> manifestwork" where
  "ensureHelmReleaseFeedbackRules mw hrNamespace hrName =
     (case set_rules hrNamespace hrName (mw_configs mw) of
        Some cs \<Rightarrow> mw\<lparr>mw_configs := cs\<rparr>
      | None \<Rightarrow> mw\<lparr>mw_configs := mw_configs mw @ [release_config hrNamespace hrName]\<rparr>)"

lemma set_rules_None: "set_rules ns n cs = None \<longleftrightarrow> (\<forall>c \<in> set cs. \<not> is_release_config ns n c)"
  by (induction cs) auto

lemma is_release_config_simps [simp]:
  "is_release_config ns n (c\<lparr>rc_rules := r\<rparr>) = is_release_config ns n c"
  "is_release_config ns n (release_config ns' n') \<longleftrightarrow> ns' = ns \<and> n' = n"
  by (auto simp: is_release_config_def release_config_def)

text \<open>The first config of the release carries the rules, so the work agent evaluates them.\<close>

definition rules_installed :: "manifestwork \<Rightarrow> string \<Rightarrow> string \<Rightarrow> bool" where
  "rules_installed mw hrNamespace hrName \<longleftrightarrow>
     (case List.find (is_release_config hrNamespace hrName) (mw_configs mw) of
        None \<Rightarrow> False
      | Some c \<Rightarrow> rc_rules c = helm_release_rules)"

lemma set_rules_find:
  "set_rules ns n cs = Some cs' \<Longrightarrow>
     (\<exists>c. List.find (is_release_config ns n) cs' = Some c \<and> rc_rules c = helm_release_rules)"
  by (induction cs arbitrary: cs') (auto split: if_splits)

lemma set_rules_twice: "set_rules ns n cs = Some cs' \<Longrightarrow> set_rules ns n cs' = Some cs'"
  by (induction cs arbitrary: cs') (auto split: if_splits)

lemma release_config_same: "release_config ns n\<lparr>rc_rules := helm_release_rules\<rparr> = release_config ns n"
  by (simp add: release_config_def)

lemma set_rules_append_new:
  "set_rules ns n cs = None \<Longrightarrow> set_rules ns n (cs @ [release_config ns n]) = Some (cs @ [release_config ns n])"
  by (induction cs) (auto simp: release_config_same split: if_splits)

lemma set_rules_find_other:
  "set_rules ns n cs = Some cs' \<Longrightarrow> (ns', n') \<noteq> (ns, n) \<Longrightarrow>
     List.find (is_release_config ns' n') cs' = List.find (is_release_config ns' n') cs"
  by (induction cs arbitrary: cs') (auto simp: is_release_config_def split: if_splits)

text \<open>\<open>in.Spec = mw.Spec\<close>, the transformation with which a ManifestWork is written.\<close>

definition with_spec :: "manifestwork \<Rightarrow> manifestwork \<Rightarrow> manifestwork" where
  "with_spec mw cur = cur\<lparr>mw_manifests := mw_manifests mw, mw_configs := mw_configs mw\<rparr>"

end
