(* ===== verification/FakeApi.thy ===== *)
theory FakeApi
  imports HubApi Manifests
begin

text \<open>
  The fake API server a reconcile renders charts on, and what the code does to it before it
  reads anything back: start it with the base manifests, register CRDs, build the override
  values of the opscenter-features chart and install it (\<open>helpers.go\<close>,
  \<open>opscenter_features.go\<close>, \<open>enable_featureset.go\<close>, \<open>helmrelease_create.go\<close> of the feature
  installer). The server itself, the Helm engine, the chart registry and the YAML codec of a
  CRD are not part of the program: they are the operations of a record \<open>fakeenv\<close>, over a
  server state of any type. Besides what the server does, the record has what may fail on the
  way to it (the listener, the clients of its configuration), the gob codec, and the order in
  which each \<open>range\<close> over a map visits the entries, which Go leaves open.
\<close>

section \<open>The server\<close>

record chart =
  chart_values :: jmap
  chart_crds :: "raw list"

record crd =
  crd_name :: string
  crd_group :: string
  crd_kind :: string
  crd_versions :: "string list"

text \<open>The options of a Helm deployment the program sets.\<close>

record deployopts =
  do_chart :: chartref
  do_values :: raw
  do_namespace :: string
  do_release :: string
  do_timeout :: int
  do_description :: string
  do_create_ns :: bool
  do_reuse_values :: bool
  do_no_validation :: bool

text \<open>The features claim of a managed cluster, as its YAML decodes.\<close>

record claimfeatures =
  cf_enabled :: "string list"
  cf_external :: "string list"
  cf_disabled :: "string list"

record 'f fakeenv =
  fe_codec :: hr_codec
  fe_boot_name :: string
  fe_boot_ns :: string
  fe_start :: "bool \<Rightarrow> string list \<Rightarrow> gerr + 'f"
  fe_http :: "'f \<Rightarrow> gerr + unit"
  fe_mapper :: "'f \<Rightarrow> gerr + unit"
  fe_client :: "'f \<Rightarrow> gerr + unit"
  fe_crd_client :: "'f \<Rightarrow> gerr + unit"
  fe_create :: "jmap \<Rightarrow> ('f, unit) prog"
  fe_repo :: "'f \<Rightarrow> sourceref"
  fe_register :: "crd list \<Rightarrow> ('f, unit) prog"
  fe_chart :: "'f \<Rightarrow> chartref \<Rightarrow> gerr + chart"
  fe_crd :: "raw \<Rightarrow> gerr + crd"
  fe_mapping :: "'f \<Rightarrow> string \<Rightarrow> string \<Rightarrow> string \<Rightarrow> gerr option"
  fe_raw_config :: "'f \<Rightarrow> gerr + unit"
  fe_helm_init :: "'f \<Rightarrow> string \<Rightarrow> string \<Rightarrow> gerr option"
  fe_deploy :: "deployopts \<Rightarrow> ('f, unit) prog"
  fe_feature :: "'f \<Rightarrow> string \<Rightarrow> gerr + feature"
  fe_featureset :: "'f \<Rightarrow> string \<Rightarrow> gerr + featureset"
  fe_features_in :: "'f \<Rightarrow> string \<Rightarrow> gerr + feature list"
  fe_releases :: "'f \<Rightarrow> string \<Rightarrow> string \<Rightarrow> gerr + nat"
  fe_resources :: "'f \<Rightarrow> readiness_gvk \<Rightarrow> gerr + nat"
  fe_release :: "'f \<Rightarrow> objkey \<Rightarrow> gerr + helmrelease"
  fe_put_release :: "helmrelease \<Rightarrow> ('f, unit) prog"
  fe_set_chart_info :: "'f \<Rightarrow> feature \<Rightarrow> string \<Rightarrow> jmap \<Rightarrow> gerr option \<times> jmap"
  fe_apply :: "chartref \<Rightarrow> jmap \<Rightarrow> ('f, unit) prog"
  fe_export :: "'f \<Rightarrow> jmap list"
  fe_checkpoint :: "'f \<Rightarrow> 'f"
  fe_claim :: "string \<Rightarrow> gerr + claimfeatures"
  fe_gob_enc :: "jmap option \<Rightarrow> gerr + string"
  fe_gob_dec :: "string \<Rightarrow> gerr + jmap"
  fe_order :: "nat \<Rightarrow> nat \<Rightarrow> nat list"

text \<open>
  The loops over maps, numbered in the order the code runs them: the features of the binding
  (0), of the profile (1), and the feature sets when the requirements are queued (2), the sets
  enabled (3) and the works pruned (4). \<open>fe_order\<close> gives each its own order.
\<close>

definition range_order :: "'f fakeenv \<Rightarrow> nat \<Rightarrow> ('k \<times> 'v) list \<Rightarrow> ('k \<times> 'v) list" where
  "range_order E loop m = visit (fe_order E loop (length m)) m"

lemma range_order_simps [simp]:
  "mset (range_order E i m) = mset m" "set (range_order E i m) = set m" "length (range_order E i m) = length m"
  "distinct (map g (range_order E i m)) \<longleftrightarrow> distinct (map g m)" "map_of (range_order E i m) = map_of m"
  by (simp_all add: range_order_def)

text \<open>A reconcile runs over the hub and the fake server it started.\<close>

type_synonym ('f, 'a) run = "(world \<times> 'f, 'a) prog"

definition onhub :: "'a kc \<Rightarrow> ('f, 'a) run" where
  "onhub m = (\<lambda>(w, f). case m w of (r, w') \<Rightarrow> (r, (w', f)))"

definition onfake :: "('f, 'a) prog \<Rightarrow> ('f, 'a) run" where
  "onfake m = (\<lambda>(w, f). case m f of (r, f') \<Rightarrow> (r, (w, f')))"

definition asks :: "('f \<Rightarrow> gerr + 'a) \<Rightarrow> ('f, 'a) run" where
  "asks q = (\<lambda>(w, f). (q f, (w, f)))"

lemma onhub_run [prog_simps]: "onhub m (w, f) = (fst (m w), (snd (m w), f))"
  by (simp add: onhub_def split: prod.split)

lemma onfake_run [prog_simps]: "onfake m (w, f) = (fst (m f), (w, snd (m f)))"
  by (simp add: onfake_def split: prod.split)

lemma asks_run [prog_simps]: "asks q (w, f) = (q f, (w, f))"
  by (simp add: asks_def)

section \<open>Copies by encoding, and clients\<close>

text \<open>A copy through gob, and one through JSON into a value that is there (\<open>pkg/utils/util.go\<close>).\<close>

definition DeepCopyMap :: "(jmap option \<Rightarrow> gerr + string) \<Rightarrow> (string \<Rightarrow> gerr + jmap) \<Rightarrow> jmap option \<Rightarrow> gerr + jmap" where
  "DeepCopyMap enc dec m = bindE (enc m) dec"

definition Copy :: "('a \<Rightarrow> gerr + string) \<Rightarrow> (string \<Rightarrow> 'b \<Rightarrow> gerr + 'b) \<Rightarrow> 'a \<Rightarrow> 'b \<Rightarrow> gerr + 'b" where
  "Copy marshal unmarshal src dst = bindE (marshal src) (\<lambda>jsonByte. unmarshal jsonByte dst)"

text \<open>The client of a configuration (\<open>pkg/utils/client.go\<close>); the scheme is the one its \<open>init\<close> built.\<close>

definition GetNewRuntimeClient ::
  "('cfg \<Rightarrow> gerr + 'hc) \<Rightarrow> ('cfg \<Rightarrow> 'hc \<Rightarrow> gerr + 'mapper) \<Rightarrow> ('cfg \<Rightarrow> 'mapper \<Rightarrow> gerr + 'client)
     \<Rightarrow> 'cfg \<Rightarrow> gerr + 'client" where
  "GetNewRuntimeClient http_client new_mapper new_client restConfig =
     bindE (http_client restConfig) (\<lambda>hc.
     bindE (new_mapper restConfig hc) (\<lambda>mapper.
       new_client restConfig mapper))"

section \<open>Starting the server\<close>

abbreviation mwrsNameNamespace :: string where "mwrsNameNamespace \<equiv> ''ace-namespace''"
abbreviation mwrsNameBootstrap :: string where "mwrsNameBootstrap \<equiv> ''ace-bootstrap''"
abbreviation addonNamespace :: string where "addonNamespace \<equiv> ''open-cluster-management-addon''"

text \<open>\<open>json.Unmarshal\<close> into an \<open>Unstructured\<close> needs an object with a kind.\<close>

definition unmarshal_unstructured :: "raw \<Rightarrow> gerr + jmap" where
  "unmarshal_unstructured m =
     bindE (manifest_object m) (\<lambda>obj.
       bindE (NestedString obj [''kind'']) (\<lambda>k. case k of
         None \<Rightarrow> Inl (ErrText ''Object 'Kind' is missing'')
       | Some kind \<Rightarrow> if kind = '''' then Inl (ErrText ''Object 'Kind' is missing'') else Inr obj))"

definition applyRawExtension :: "'f fakeenv \<Rightarrow> raw \<Rightarrow> ('f, unit) prog" where
  "applyRawExtension E m = bindM (liftM (unmarshal_unstructured m)) (fe_create E)"

fun applyManifests :: "'f fakeenv \<Rightarrow> raw list \<Rightarrow> ('f, unit) prog" where
  "applyManifests E [] = ret ()"
| "applyManifests E (m # ms) = bindM (applyRawExtension E m) (\<lambda>_. applyManifests E ms)"

definition applyManifestWorkReplicaSet :: "'f fakeenv \<Rightarrow> mwreplicaset \<Rightarrow> ('f, unit) prog" where
  "applyManifestWorkReplicaSet E mwrs = applyManifests E (rs_manifests mwrs)"

text \<open>The API groups the server serves although it has no CRD of them.\<close>

definition GetAPIGroups :: "string list" where
  "GetAPIGroups = [''helm.toolkit.fluxcd.io'', ''source.toolkit.fluxcd.io'']"

text \<open>A server that cannot listen, or whose configuration cannot be built, is \<open>klog.Fatalln\<close>.\<close>

definition initializeFakeServer :: "'f fakeenv \<Rightarrow> binding \<Rightarrow> ('f, unit) run" where
  "initializeFakeServer E pb =
     (\<lambda>(w, f). case fe_start E (ClusterManagerOpenShift \<in> set (managers (bs_cluster (pb_spec pb)))) GetAPIGroups of
        Inl e \<Rightarrow> (Inl (GoExit ''klog.Fatalln''), (w, f))
      | Inr f' \<Rightarrow> (Inr (), (w, f')))"

definition StartFakeApiServerAndApplyBaseManifestWorkReplicaSets ::
  "'f fakeenv \<Rightarrow> binding \<Rightarrow> ('f, unit) run" where
  "StartFakeApiServerAndApplyBaseManifestWorkReplicaSets E pb =
     bindM (initializeFakeServer E pb) (\<lambda>_.
     bindM (asks (GetNewRuntimeClient (fe_http E) (\<lambda>f _. fe_mapper E f) (\<lambda>f _. fe_client E f))) (\<lambda>_.
     bindM (onhub (api_get replicasets (addonNamespace, mwrsNameNamespace))) (\<lambda>mwrsNamespace.
     bindM (onfake (applyManifestWorkReplicaSet E mwrsNamespace)) (\<lambda>_.
     bindM (onhub (api_get replicasets (addonNamespace, mwrsNameBootstrap))) (\<lambda>mwrsBootstrap.
       onfake (applyManifestWorkReplicaSet E mwrsBootstrap))))))"

section \<open>CRDs\<close>

fun register_crds :: "'f fakeenv \<Rightarrow> raw list \<Rightarrow> ('f, unit) prog" where
  "register_crds E [] = ret ()"
| "register_crds E (d # ds) =
     bindM (liftM (fe_crd E d)) (\<lambda>crd.
       case crd_versions crd of
         [] \<Rightarrow> raise (GoPanic ''index out of range [0]'')
       | v # vs \<Rightarrow>
           bindM (getsM (\<lambda>f. fe_mapping E f (crd_group crd) (crd_kind crd) v)) (\<lambda>r.
             case r of
               None \<Rightarrow> register_crds E ds
             | Some ErrNoMatch \<Rightarrow> bindM (fe_register E [crd]) (\<lambda>_. register_crds E ds)
             | Some e \<Rightarrow> raise e))"

text \<open>The clients a chart with CRDs needs: the CRD clientset, the HTTP client, the REST mapper.\<close>

definition crd_clients :: "'f fakeenv \<Rightarrow> 'f \<Rightarrow> gerr + unit" where
  "crd_clients E f = bindE (fe_crd_client E f) (\<lambda>_. bindE (fe_http E f) (\<lambda>_. fe_mapper E f))"

definition applyCRDs :: "'f fakeenv \<Rightarrow> chartref \<Rightarrow> ('f, unit) prog" where
  "applyCRDs E chartRef =
     bindM (\<lambda>f. (fe_chart E f chartRef, f)) (\<lambda>chart.
       if chart_crds chart = [] then ret ()
       else bindM (\<lambda>f. (crd_clients E f, f)) (\<lambda>_. register_crds E (chart_crds chart)))"

definition fakeProjectCRD :: crd where
  "fakeProjectCRD =
     \<lparr> crd_name = ''projects.project.openshift.io'', crd_group = ''project.openshift.io'',
       crd_kind = ''Project'', crd_versions = [''v1''] \<rparr>"

definition appReleaseCRD :: crd where
  "appReleaseCRD =
     \<lparr> crd_name = ''appreleases.drivers.x-helm.dev'', crd_group = ''drivers.x-helm.dev'',
       crd_kind = ''AppRelease'', crd_versions = [''v1alpha1''] \<rparr>"

definition RegisterRequiredCRDs :: "'f fakeenv \<Rightarrow> binding \<Rightarrow> ('f, unit) prog" where
  "RegisterRequiredCRDs E pb =
     fe_register E
       (if map_of (bs_features (pb_spec pb)) ''aceshifter'' = None then [appReleaseCRD]
        else [appReleaseCRD, fakeProjectCRD])"

section \<open>Override values\<close>

text \<open>
  \<open>overrides\<close> is a Go map (\<open>None\<close> is nil, and writing to it panics); \<open>clusterMetadata\<close> a
  pointer. The line that sets \<open>clusterName\<close> writes the namespace, as the source does.
\<close>

definition set_nonempty :: "string \<Rightarrow> string \<Rightarrow> string list \<Rightarrow> jmap \<Rightarrow> gerr + jmap" where
  "set_nonempty guard v p m = (if guard = '''' then Inr m else SetNestedField m (JStr v) p)"

definition set_capi :: "capiinfo option \<Rightarrow> jmap \<Rightarrow> gerr + jmap" where
  "set_capi capi m =
     (case capi of
        None \<Rightarrow> Inr m
      | Some ca \<Rightarrow>
          bindE (set_nonempty (ca_provider ca) (ca_provider ca) [''clusterMetadata'', ''capi'', ''provider''] m) (\<lambda>m.
          bindE (set_nonempty (ca_ns ca) (ca_ns ca) [''clusterMetadata'', ''capi'', ''namespace''] m) (\<lambda>m.
            set_nonempty (ca_cluster ca) (ca_ns ca) [''clusterMetadata'', ''capi'', ''clusterName''] m)))"

definition set_managers :: "string list \<Rightarrow> jmap \<Rightarrow> gerr + jmap" where
  "set_managers ms m =
     bindE (if ms = [] then Inr m
            else SetNestedField m (JArr (map JStr ms)) [''clusterMetadata'', ''clusterManagers'']) (\<lambda>m.
       if ClusterManagerOpenShift \<in> set ms then
         bindE (SetNestedField m (JBool True) [''distro'', ''openshift'']) (\<lambda>m.
           SetNestedField m (JStr ''all'') [''distro'', ''ubi''])
       else Inr m)"

definition cluster_base :: "clusterinfo \<Rightarrow> json" where
  "cluster_base ci = JObj (fmap_of_list [(''uid'', JStr (ci_uid ci)), (''name'', JStr (ci_name ci))])"

definition GetOverrideValues :: "jmap option \<Rightarrow> clusterinfo option \<Rightarrow> gerr + jmap option" where
  "GetOverrideValues overrides clusterMetadata =
     (case clusterMetadata of
        None \<Rightarrow> Inr overrides
      | Some ci \<Rightarrow>
          (case overrides of
             None \<Rightarrow> Inl (GoPanic ''assignment to entry in nil map'')
           | Some m \<Rightarrow>
               bindE (set_capi (ci_capi ci) (fmupd ''clusterMetadata'' (cluster_base ci) m)) (\<lambda>m.
               bindE (set_managers (managers ci) m) (\<lambda>m. Inr (Some m)))))"

section \<open>Installing opscenter-features\<close>

definition deploy_options :: "'f fakeenv \<Rightarrow> raw \<Rightarrow> chartref \<Rightarrow> deployopts" where
  "deploy_options E overrideValues chartRef =
     \<lparr> do_chart = chartRef, do_values = overrideValues, do_namespace = fe_boot_ns E,
       do_release = ChartOpscenterFeatures, do_timeout = 10 * 60 * second,
       do_description = ''Required for Cluster UI, KubeDB UI, Grafana Server'', do_create_ns = False,
       do_reuse_values = True, do_no_validation = True \<rparr>"

text \<open>
  \<open>DeployRelease\<close>: a client getter for the server's configuration, the Helm configuration with
  its storage in secrets, then the run of the Helm engine.
\<close>

definition GetClientGetter :: "gerr + 'raw \<Rightarrow> ('raw \<Rightarrow> 'getter) \<Rightarrow> gerr + 'getter" where
  "GetClientGetter rawConfig new_getter = bindE rawConfig (\<lambda>c. Inr (new_getter c))"

definition DeployRelease :: "'f fakeenv \<Rightarrow> deployopts \<Rightarrow> ('f, unit) prog" where
  "DeployRelease E deployOpts =
     bindM (\<lambda>f. (GetClientGetter (fe_raw_config E f) id, f)) (\<lambda>clientGetter.
     bindM (getsM (\<lambda>f. fe_helm_init E f (fe_boot_ns E) ''secret'')) (\<lambda>r. case r of
       Some e \<Rightarrow> raise (ErrText ''helm config initialization'')
     | None \<Rightarrow> fe_deploy E deployOpts))"

definition InstallChart :: "'f fakeenv \<Rightarrow> chartref \<Rightarrow> deployopts \<Rightarrow> ('f, unit) prog" where
  "InstallChart E chartRef opts = bindM (applyCRDs E chartRef) (\<lambda>_. DeployRelease E opts)"

text \<open>The chart reference is a pointer; a nil one is dereferenced at once.\<close>

definition InstallOpscenterFeatures ::
  "'f fakeenv \<Rightarrow> raw \<Rightarrow> chartref option \<Rightarrow> ('f, unit) prog" where
  "InstallOpscenterFeatures E overrideValues chartRef =
     (case chartRef of
        None \<Rightarrow> raise (GoPanic ''nil pointer dereference'')
      | Some c \<Rightarrow> InstallChart E c (deploy_options E overrideValues c))"

text \<open>\<open>json.Marshal\<close> of a \<open>map[string]any\<close>.\<close>

definition marshal_map :: "jmap option \<Rightarrow> raw" where
  "marshal_map m = Text (case m of None \<Rightarrow> JNull | Some m' \<Rightarrow> JObj m')"

section \<open>Charts and feature sets\<close>

definition GetDefaultValues :: "'f fakeenv \<Rightarrow> 'f \<Rightarrow> chartref \<Rightarrow> gerr + jmap" where
  "GetDefaultValues E f chartRef = bindE (fe_chart E f chartRef) (\<lambda>c. Inr (chart_values c))"

definition GetFeatureSetChartValues :: "'f fakeenv \<Rightarrow> 'f \<Rightarrow> string \<Rightarrow> gerr + jmap" where
  "GetFeatureSetChartValues E f featureSet =
     bindE (fe_featureset E f featureSet) (\<lambda>fs.
     bindE (fe_chart E f (fset_chart fs)) (\<lambda>c. Inr (chart_values c)))"

text \<open>\<open>strings.ReplaceAll(feature, "-", "_")\<close> after the prefix.\<close>

definition getFeaturePathInValues :: "string \<Rightarrow> string" where
  "getFeaturePathInValues feature =
     ''helmToolkitFluxcdIoHelmRelease_'' @ map (\<lambda>c. if c = CHR ''-'' then CHR ''_'' else c) feature"

definition GetFeatureHelmReleaseValues :: "jmap \<Rightarrow> string \<Rightarrow> gerr + jmap option" where
  "GetFeatureHelmReleaseValues chartValues feature =
     NestedMap chartValues [''resources'', getFeaturePathInValues feature, ''spec'', ''values'']"

section \<open>Values references\<close>

text \<open>The four fields the code copies; the target path stays empty.\<close>

definition copy_ref :: "uivaluesref \<Rightarrow> hrvaluesref" where
  "copy_ref vf =
     \<lparr> vr_kind = uv_kind vf, vr_name = uv_name vf, vr_key = uv_key vf, vr_target = '''',
       vr_optional = uv_optional vf \<rparr>"

definition FeatureValuesFrom :: "string \<Rightarrow> profile \<Rightarrow> binding option \<Rightarrow> hrvaluesref list" where
  "FeatureValuesFrom featureName profile profileBinding =
     (let refs = fs_values_from (fspec_at (pr_features profile) featureName);
          refs' =
            (case profileBinding of
               None \<Rightarrow> refs
             | Some pb \<Rightarrow>
                 (case map_of (bs_features (pb_spec pb)) featureName of
                    None \<Rightarrow> refs
                  | Some spec \<Rightarrow> if fs_values_from spec \<noteq> [] then fs_values_from spec else refs))
      in map copy_ref refs')"

end
