(* ===== verification/TargetText.thy ===== *)
theory TargetText
  imports Manifests JsonText
begin

text \<open>
  The on-disk format of the upgrade targets: \<open>json.Marshal\<close> and \<open>json.Unmarshal\<close> of
  \<open>[]upgradeTarget\<close> (\<open>upgrader.go\<close>), down to the text kept in the annotation of the
  upgrader ConfigMap. Field names are case sensitive, unknown ones are ignored, \<open>null\<close>
  leaves a field alone, and a number must be an \<open>int64\<close> literal.
\<close>

definition target_doc :: "upgrade_target \<Rightarrow> jdoc" where
  "target_doc t =
     DObj [(''manifestWorkNamespace'', DStr (ut_mw_ns t)),
           (''manifestWorkName'', DStr (ut_mw_name t)),
           (''helmReleaseNamespace'', DStr (ut_hr_ns t)),
           (''helmReleaseName'', DStr (ut_hr_name t)),
           (''minGeneration'', DNum (show_int (sint (ut_min_gen t))))]"

text \<open>A nil slice is written as \<open>null\<close>.\<close>

definition marshal_targets :: "upgrade_target list \<Rightarrow> string" where
  "marshal_targets ts = print_doc (if ts = [] then DNull else DArr (map target_doc ts))"

definition zero_target :: upgrade_target where
  "zero_target =
     \<lparr> ut_mw_ns = '''', ut_mw_name = '''', ut_hr_ns = '''', ut_hr_name = '''', ut_min_gen = 0 \<rparr>"

definition put_string ::
  "jdoc \<Rightarrow> (string \<Rightarrow> upgrade_target) \<Rightarrow> upgrade_target \<Rightarrow> gerr + upgrade_target" where
  "put_string d wr t =
     (case d of
        DNull \<Rightarrow> Inr t
      | DStr s \<Rightarrow> Inr (wr s)
      | _ \<Rightarrow> Inl (ErrText ''json: cannot unmarshal into field of type string''))"

definition put_int64 ::
  "jdoc \<Rightarrow> (int64 \<Rightarrow> upgrade_target) \<Rightarrow> upgrade_target \<Rightarrow> gerr + upgrade_target" where
  "put_int64 d wr t =
     (case d of
        DNull \<Rightarrow> Inr t
      | DNum s \<Rightarrow>
          (case parse_int64 s of
             None \<Rightarrow> Inl (ErrText ''json: cannot unmarshal number into field of type int64'')
           | Some i \<Rightarrow> Inr (wr (word_of_int i)))
      | _ \<Rightarrow> Inl (ErrText ''json: cannot unmarshal into field of type int64''))"

definition put_member :: "upgrade_target \<Rightarrow> string \<times> jdoc \<Rightarrow> gerr + upgrade_target" where
  "put_member t m =
     (if fst m = ''manifestWorkNamespace'' then put_string (snd m) (\<lambda>s. t\<lparr>ut_mw_ns := s\<rparr>) t
      else if fst m = ''manifestWorkName'' then put_string (snd m) (\<lambda>s. t\<lparr>ut_mw_name := s\<rparr>) t
      else if fst m = ''helmReleaseNamespace'' then put_string (snd m) (\<lambda>s. t\<lparr>ut_hr_ns := s\<rparr>) t
      else if fst m = ''helmReleaseName'' then put_string (snd m) (\<lambda>s. t\<lparr>ut_hr_name := s\<rparr>) t
      else if fst m = ''minGeneration'' then put_int64 (snd m) (\<lambda>g. t\<lparr>ut_min_gen := g\<rparr>) t
      else Inr t)"

fun put_members :: "upgrade_target \<Rightarrow> (string \<times> jdoc) list \<Rightarrow> gerr + upgrade_target" where
  "put_members t [] = Inr t"
| "put_members t (m # ms) = bindE (put_member t m) (\<lambda>t'. put_members t' ms)"

definition doc_target :: "jdoc \<Rightarrow> gerr + upgrade_target" where
  "doc_target d =
     (case d of
        DNull \<Rightarrow> Inr zero_target
      | DObj ms \<Rightarrow> put_members zero_target ms
      | _ \<Rightarrow> Inl (ErrText ''json: cannot unmarshal into upgradeTarget''))"

fun doc_targets :: "jdoc list \<Rightarrow> gerr + upgrade_target list" where
  "doc_targets [] = Inr []"
| "doc_targets (d # ds) = bindE (doc_target d) (\<lambda>t. bindE (doc_targets ds) (\<lambda>ts. Inr (t # ts)))"

definition unmarshal_targets :: "string \<Rightarrow> gerr + upgrade_target list" where
  "unmarshal_targets s =
     (case parse_doc s of
        None \<Rightarrow> Inl (ErrText ''invalid JSON'')
      | Some DNull \<Rightarrow> Inr []
      | Some (DArr ds) \<Rightarrow> doc_targets ds
      | Some _ \<Rightarrow> Inl (ErrText ''json: cannot unmarshal into []upgradeTarget''))"

section \<open>The round trip\<close>

lemma parse_int64_sint: "parse_int64 (show_int (sint (g :: int64))) = Some (sint g)"
  using sint_range_size [of g] by (intro parse_show_int) (simp_all add: word_size)

lemma doc_target_doc: "doc_target (target_doc t) = Inr t"
  by (simp add: target_doc_def doc_target_def put_member_def put_string_def put_int64_def
      parse_int64_sint zero_target_def)

lemma doc_targets_docs: "doc_targets (map target_doc ts) = Inr ts"
  by (induction ts) (simp_all add: doc_target_doc)

lemma target_doc_ok: "doc_ok (target_doc t)"
  by (simp add: target_doc_def p_num_show_int)

lemma unmarshal_marshal: "unmarshal_targets (marshal_targets ts) = Inr ts"
proof (cases "ts = []")
  case True
  have "parse_doc (print_doc DNull) = Some DNull" by (rule parse_print) simp
  with True show ?thesis by (simp add: unmarshal_targets_def marshal_targets_def del: print_doc.simps)
next
  case False
  have "parse_doc (print_doc (DArr (map target_doc ts))) = Some (DArr (map target_doc ts))"
    by (rule parse_print) (simp add: target_doc_ok)
  with False show ?thesis
    by (simp add: unmarshal_targets_def marshal_targets_def doc_targets_docs del: print_doc.simps)
qed

end
