(* ===== verification/UpgradeRun.thy ===== *)
theory UpgradeRun
  imports HubApi TargetText
begin

text \<open>
  One upgrade run between two reconciles (\<open>pkg/cluster_upgrade\<close>): the upgrader ConfigMap
  that carries its state, how a run is found, recorded, observed and finished, and how the
  ConfigMap of a new run is created. \<open>observeUpgrade\<close> is the step a reconcile takes while the
  spoke converges.
\<close>

section \<open>Results of a reconcile\<close>

record ctrl_result =
  Requeue :: bool
  RequeueAfter :: int

definition Result_zero :: ctrl_result where
  "Result_zero = \<lparr> Requeue = False, RequeueAfter = 0 \<rparr>"

definition Result_after :: "int \<Rightarrow> ctrl_result" where
  "Result_after d = \<lparr> Requeue = False, RequeueAfter = d \<rparr>"

definition IsZero :: "ctrl_result \<Rightarrow> bool" where
  "IsZero r \<longleftrightarrow> \<not> Requeue r \<and> RequeueAfter r = 0"

definition helmReleaseReadyPollInterval :: int where
  "helmReleaseReadyPollInterval = 6 * second"

definition helmReleaseReadyTimeout :: int where
  "helmReleaseReadyTimeout = 30 * 60 * second"

lemma IsZero_simps [simp]:
  "IsZero Result_zero" "\<not> IsZero (Result_after helmReleaseReadyPollInterval)"
  by (simp_all add: IsZero_def Result_zero_def Result_after_def helmReleaseReadyPollInterval_def)

section \<open>Writing the upgrader ConfigMap\<close>

text \<open>
  The transformation of \<open>patchConfigMapData\<close>: the data is replaced, the annotations are
  merged, and the targets annotation goes when the caller no longer carries it.
\<close>

definition patch_config_map :: "configmap \<Rightarrow> configmap \<Rightarrow> configmap" where
  "patch_config_map configMap cur =
     cur\<lparr>cm_data := cm_data configMap,
         om_annots :=
           (if om_annots configMap UpgradeTargetsAnnotation = None
            then (om_annots cur ++ om_annots configMap)(UpgradeTargetsAnnotation := None)
            else om_annots cur ++ om_annots configMap)\<rparr>"

definition patchConfigMapData :: "configmap \<Rightarrow> configmap kc" where
  "patchConfigMapData configMap = CreateOrPatch cmaps configMap (patch_config_map configMap)"

lemma obj_key_patch_config_map [simp]: "obj_key (patch_config_map c cur) = obj_key cur"
  by (simp add: patch_config_map_def)

section \<open>Observing the targets\<close>

definition work_key :: "upgrade_target \<Rightarrow> objkey" where
  "work_key t = (ut_mw_ns t, ut_mw_name t)"

definition mark_ready :: "upgrade_target \<Rightarrow> configmap \<Rightarrow> configmap" where
  "mark_ready t configMap =
     configMap\<lparr>cm_data := (cm_data configMap)(ut_hr_name t \<mapsto> ConditionTrue)\<rparr>"

text \<open>The loop state: the pending targets, the ConfigMap in memory, and \<open>becameReady\<close>.\<close>

type_synonym watch = "upgrade_target list \<times> configmap \<times> bool"

definition evaluate_target :: "watch \<Rightarrow> upgrade_target \<Rightarrow> watch kc" where
  "evaluate_target st t =
     (case st of (pending, configMap, becameReady) \<Rightarrow>
        tryM (api_get works (work_key t))
          (\<lambda>r. case r of
                 Inl e \<Rightarrow> ret (pending @ [t], configMap, becameReady)
               | Inr mw \<Rightarrow>
                   if helmReleaseReady mw t then
                     (if zstr (cm_data configMap (ut_hr_name t)) \<noteq> ConditionTrue
                      then ret (pending, mark_ready t configMap, True)
                      else ret (pending, configMap, becameReady))
                   else ret (pending @ [t], configMap, becameReady)))"

definition evaluateTargets ::
  "upgrade_target list \<Rightarrow> configmap \<Rightarrow> (upgrade_target list \<times> configmap) kc" where
  "evaluateTargets targets configMap =
     bindM (foldM evaluate_target ([], configMap, False) targets)
       (\<lambda>(pending, configMap, becameReady).
          if becameReady then
            tryM (patchConfigMapData configMap)
              (\<lambda>r. case r of
                     Inl e \<Rightarrow> raise (ErrWrap ''failed to mark HelmRelease(s) ready in upgrader ConfigMap'' e)
                   | Inr configMap \<Rightarrow> ret (pending, configMap))
          else ret (pending, configMap))"

text \<open>\<open>strings.Join\<close> of \<open>namespace/name\<close>.\<close>

fun join_names :: "string list \<Rightarrow> string" where
  "join_names [] = ''''"
| "join_names [s] = s"
| "join_names (s # t # ss) = s @ '', '' @ join_names (t # ss)"

definition targetNames :: "upgrade_target list \<Rightarrow> string" where
  "targetNames ts = join_names (map (\<lambda>t. ut_hr_ns t @ ''/'' @ ut_hr_name t) ts)"

section \<open>Finding, recording and finishing a run\<close>

definition is_upgrader :: "string \<Rightarrow> configmap \<Rightarrow> bool" where
  "is_upgrader ns c \<longleftrightarrow> om_ns c = ns \<and> om_labels c ACEUpgrader = Some ''true''"

text \<open>The three checks of the loop of \<open>findPendingUpgrade\<close>.\<close>

definition run_matches :: "binding \<Rightarrow> configmap \<Rightarrow> bool" where
  "run_matches pb c \<longleftrightarrow>
     zstr (om_labels c ACEUpgraderVersion) = bs_version (pb_spec pb) \<and>
     zstr (cm_data c UpgradeStatusKey) = UpgradeStatusPending \<and>
     zstr (om_annots c UpgradeAnnotation) = zstr (om_annots pb UpgradeAnnotation)"

fun first_run :: "binding \<Rightarrow> configmap list \<Rightarrow> gerr + (configmap \<times> upgrade_target list) option" where
  "first_run pb [] = Inr None"
| "first_run pb (c # cs) =
     (if \<not> run_matches pb c then first_run pb cs
      else case om_annots c UpgradeTargetsAnnotation of
        None \<Rightarrow> first_run pb cs
      | Some raw \<Rightarrow>
          (case unmarshal_targets raw of
             Inl e \<Rightarrow> Inl (ErrWrap ''failed to read upgrade targets from ConfigMap'' e)
           | Inr targets \<Rightarrow> Inr (Some (c, targets))))"

definition findPendingUpgrade :: "binding \<Rightarrow> (configmap \<times> upgrade_target list) option kc" where
  "findPendingUpgrade pb =
     bindM (api_list cmaps (is_upgrader (om_ns pb))) (\<lambda>cs. liftM (first_run pb cs))"

definition record_annots :: "upgrade_target list \<Rightarrow> string \<Rightarrow> configmap \<Rightarrow> configmap" where
  "record_annots targets upgradeAt configMap =
     (let c = configMap\<lparr>om_annots := (om_annots configMap)(UpgradeTargetsAnnotation \<mapsto> marshal_targets targets)\<rparr>
      in if upgradeAt \<noteq> '''' then c\<lparr>om_annots := (om_annots c)(UpgradeAnnotation \<mapsto> upgradeAt)\<rparr> else c)"

definition recordPendingUpgrade :: "configmap \<Rightarrow> upgrade_target list \<Rightarrow> string \<Rightarrow> configmap kc" where
  "recordPendingUpgrade configMap targets upgradeAt =
     patchConfigMapData (record_annots targets upgradeAt configMap)"

definition finished :: "configmap \<Rightarrow> configmap" where
  "finished configMap =
     configMap\<lparr>cm_data := (cm_data configMap)(UpgradeStatusKey \<mapsto> UpgradeStatusCompleted),
               om_annots := (om_annots configMap)(UpgradeTargetsAnnotation := None)\<rparr>"

definition finishUpgrade :: "configmap \<Rightarrow> gerr option \<Rightarrow> unit kc" where
  "finishUpgrade configMap upgradeErr =
     tryM (patchConfigMapData (finished configMap))
       (\<lambda>r. raise_opt (errors_join [upgradeErr, case r of Inl e \<Rightarrow> Some e | Inr _ \<Rightarrow> None]))"

section \<open>One observation\<close>

definition timeout_error :: "upgrade_target list \<Rightarrow> gerr" where
  "timeout_error pending =
     ErrText (''timed out after 30m0s waiting for HelmRelease(s) to become ready: '' @ targetNames pending)"

definition observeUpgrade :: "configmap \<Rightarrow> upgrade_target list \<Rightarrow> ctrl_result kc" where
  "observeUpgrade configMap targets =
     bindM (evaluateTargets targets configMap) (\<lambda>(pending, configMap).
       if pending = [] then
         bindM (finishUpgrade configMap None) (\<lambda>_. ret Result_zero)
       else
         bindM now (\<lambda>t.
           if om_created configMap + helmReleaseReadyTimeout < t then
             bindM (finishUpgrade configMap (Some (timeout_error pending))) (\<lambda>_. ret Result_zero)
           else ret (Result_after helmReleaseReadyPollInterval)))"

section \<open>The ConfigMap of a new run\<close>

fun delete_all :: "configmap list \<Rightarrow> unit kc" where
  "delete_all [] = ret ()"
| "delete_all (c # cs) =
     tryM (api_delete cmaps (obj_key c))
       (\<lambda>r. case r of
              Inl e \<Rightarrow> if is_not_found e then delete_all cs else raise e
            | Inr _ \<Rightarrow> delete_all cs)"

definition deleteStaleUpgraderConfigMaps :: "string \<Rightarrow> unit kc" where
  "deleteStaleUpgraderConfigMaps clusterName =
     bindM (api_list cmaps (is_upgrader clusterName)) delete_all"

text \<open>The feature releases of one managed ManifestWork are listed as not ready.\<close>

fun mark_releases :: "hr_codec \<Rightarrow> strmap \<Rightarrow> raw list \<Rightarrow> gerr + strmap" where
  "mark_releases C cmData [] = Inr cmData"
| "mark_releases C cmData (m # ms) =
     bindE (manifest_id m) (\<lambda>(kind, name, ns).
       if kind \<noteq> HelmReleaseKind then mark_releases C cmData ms
       else bindE (hc_dec C m) (\<lambda>hr.
         if om_labels hr ''app.kubernetes.io/name'' \<noteq> Some ''featuresets.ui.k8s.appscode.com''
         then mark_releases C cmData ms
         else mark_releases C
                (if om_name hr \<noteq> ChartFluxCD \<and> om_name hr \<noteq> ChartOpscenterFeatures
                 then cmData(om_name hr \<mapsto> ConditionFalse) else cmData) ms))"

definition is_managed :: "manifestwork \<Rightarrow> bool" where
  "is_managed mw \<longleftrightarrow> om_labels mw LabelAceFeatureSet = Some ''true''"

fun mark_works :: "hr_codec \<Rightarrow> strmap \<Rightarrow> manifestwork list \<Rightarrow> gerr + strmap" where
  "mark_works C cmData [] = Inr cmData"
| "mark_works C cmData (mw # mws) =
     (if \<not> is_managed mw then mark_works C cmData mws
      else bindE (mark_releases C cmData (mw_manifests mw)) (\<lambda>d. mark_works C d mws))"

definition initial_data :: "string \<Rightarrow> strmap" where
  "initial_data ver =
     [''opscenter-features'' \<mapsto> ConditionFalse, ''version'' \<mapsto> ver, UpgradeStatusKey \<mapsto> UpgradeStatusPending]"

definition new_config_map :: "string \<Rightarrow> string \<Rightarrow> string \<Rightarrow> strmap \<Rightarrow> configmap" where
  "new_config_map sfx ver clusterName cmData =
     \<lparr> om_name = ''features-upgrader-'' @ sfx, om_ns = clusterName,
       om_labels = [ACEUpgrader \<mapsto> ''true'', ACEUpgraderVersion \<mapsto> ver], om_annots = Map.empty,
       om_owners = [], om_created = zero_time, cm_data = cmData \<rparr>"

definition createConfigMapInSpokeClusterNamespace ::
  "hr_codec \<Rightarrow> string \<Rightarrow> string \<Rightarrow> configmap kc" where
  "createConfigMapInSpokeClusterNamespace C ver clusterName =
     bindM (deleteStaleUpgraderConfigMaps clusterName) (\<lambda>_.
     bindM (api_list works (\<lambda>mw. om_ns mw = clusterName)) (\<lambda>mws.
     bindM (liftM (mark_works C (initial_data ver) mws)) (\<lambda>cmData.
     bindM rand_string (\<lambda>sfx.
       api_create cmaps (new_config_map sfx ver clusterName cmData)))))"

section \<open>Observation under any faults\<close>

text \<open>Ready in the hub: the ManifestWork is there and its report says so.\<close>

definition target_ready :: "world \<Rightarrow> upgrade_target \<Rightarrow> bool" where
  "target_ready w t =
     (case find_obj (work_key t) (w_mws w) of None \<Rightarrow> False | Some mw \<Rightarrow> helmReleaseReady mw t)"

lemma target_ready_faults [simp]: "target_ready (w\<lparr>w_faults := fs\<rparr>) t = target_ready w t"
  by (simp add: target_ready_def)

text \<open>What the data of the ConfigMap becomes: the releases of ready targets, and nothing else.\<close>

definition marks :: "world \<Rightarrow> upgrade_target list \<Rightarrow> strmap \<Rightarrow> strmap \<Rightarrow> bool" where
  "marks w ts d d' \<longleftrightarrow>
     (\<forall>k. d' k = d k \<or> d' k = Some ConditionTrue \<and> (\<exists>t \<in> set ts. ut_hr_name t = k \<and> target_ready w t))"

lemma marks_refl [simp]: "marks w ts d d"
  by (simp add: marks_def)

text \<open>One target: it stays pending, or it is ready and marked.\<close>

lemma evaluate_target_cases:
  obtains (kept) fs where
      "evaluate_target (pending, c, b) t w = (Inr (pending @ [t], c, b), w\<lparr>w_faults := fs\<rparr>)"
      "no_faults w \<Longrightarrow> \<not> target_ready w t" "no_faults w \<Longrightarrow> no_faults (w\<lparr>w_faults := fs\<rparr>)"
  | (ready) c' b' fs where
      "evaluate_target (pending, c, b) t w = (Inr (pending, c', b'), w\<lparr>w_faults := fs\<rparr>)"
      "target_ready w t" "c' = mark_ready t c \<and> b' \<or> c' = c \<and> b' = b"
      "cm_data c' (ut_hr_name t) = Some ConditionTrue" "no_faults w \<Longrightarrow> no_faults (w\<lparr>w_faults := fs\<rparr>)"
proof (cases rule: mwk.get_cases [of "work_key t" w])
  case (found mw fs)
  have nf: "no_faults (w\<lparr>w_faults := fs\<rparr>)" if "no_faults w"
    using found that by (auto simp: prog_simps split: option.splits)
  from found have f: "find_obj (work_key t) (w_mws w) = Some mw" by (simp add: works_def)
  show thesis
  proof (cases "helmReleaseReady mw t")
    case False
    with found f nf show thesis
      by (intro kept [of fs]) (simp_all add: evaluate_target_def prog_simps target_ready_def)
  next
    case True
    with f have r: "target_ready w t" by (simp add: target_ready_def)
    show thesis
    proof (cases "cm_data c (ut_hr_name t) = Some ConditionTrue")
      case True
      with found r nf \<open>helmReleaseReady mw t\<close> show thesis
        by (intro ready [of c b fs]) (simp_all add: evaluate_target_def prog_simps)
    next
      case False
      then have "zstr (cm_data c (ut_hr_name t)) \<noteq> ConditionTrue"
        by (cases "cm_data c (ut_hr_name t)") auto
      with found r nf \<open>helmReleaseReady mw t\<close> show thesis
        by (intro ready [of "mark_ready t c" True fs]) (simp_all add: evaluate_target_def prog_simps mark_ready_def)
    qed
  qed
next
  case (failed e fs)
  have nf: "no_faults (w\<lparr>w_faults := fs\<rparr>)" if "no_faults w"
    using failed that by (auto simp: prog_simps split: option.splits)
  have "\<not> target_ready w t" if "no_faults w"
    using failed that by (auto simp: prog_simps works_def target_ready_def split: option.splits)
  with failed nf show thesis
    by (intro kept [of fs]) (simp_all add: evaluate_target_def prog_simps)
qed

lemma mark_ready_data: "cm_data (mark_ready t c) = (cm_data c)(ut_hr_name t \<mapsto> ConditionTrue)"
  by (simp add: mark_ready_def)

text \<open>
  The whole loop. No fault makes it fail, and none lets a target leave the pending list
  unless its ManifestWork was read and found ready.
\<close>

lemma evaluate_loop:
  "\<exists>rest c' b' fs.
     foldM evaluate_target (pending, c, b) ts w = (Inr (pending @ rest, c', b'), w\<lparr>w_faults := fs\<rparr>) \<and>
     set rest \<subseteq> set ts \<and>
     (\<forall>t \<in> set ts. t \<in> set rest \<or> target_ready w t \<and> cm_data c' (ut_hr_name t) = Some ConditionTrue) \<and>
     marks w ts (cm_data c) (cm_data c') \<and> c' = c\<lparr>cm_data := cm_data c'\<rparr> \<and> (b' \<or> c' = c \<and> b' = b) \<and>
     (\<forall>k. cm_data c k = Some ConditionTrue \<longrightarrow> cm_data c' k = Some ConditionTrue) \<and>
     (no_faults w \<longrightarrow> rest = filter (\<lambda>t. \<not> target_ready w t) ts)"
proof (induction ts arbitrary: pending c b w)
  case Nil
  have "w = w\<lparr>w_faults := w_faults w\<rparr>" by simp
  then show ?case
    by (intro exI [of _ "[]"] exI [of _ c] exI [of _ b] exI [of _ "w_faults w"]) (simp add: ret_run)
next
  case (Cons t ts)
  show ?case
  proof (cases rule: evaluate_target_cases [of pending c b t w])
    case (kept fs)
    let ?w = "w\<lparr>w_faults := fs\<rparr>"
    from Cons.IH [of "pending @ [t]" c b ?w] obtain rest c' b' fs' where
      IH: "foldM evaluate_target (pending @ [t], c, b) ts ?w = (Inr ((pending @ [t]) @ rest, c', b'), ?w\<lparr>w_faults := fs'\<rparr>)"
        "set rest \<subseteq> set ts"
        "\<forall>t \<in> set ts. t \<in> set rest \<or> target_ready ?w t \<and> cm_data c' (ut_hr_name t) = Some ConditionTrue"
        "marks ?w ts (cm_data c) (cm_data c')" "c' = c\<lparr>cm_data := cm_data c'\<rparr>" "b' \<or> c' = c \<and> b' = b"
        "\<forall>k. cm_data c k = Some ConditionTrue \<longrightarrow> cm_data c' k = Some ConditionTrue"
        "no_faults ?w \<longrightarrow> rest = filter (\<lambda>t. \<not> target_ready ?w t) ts"
      by blast
    show ?thesis
      apply (intro exI [of _ "t # rest"] exI [of _ c'] exI [of _ b'] exI [of _ fs'] conjI)
      using IH kept by (auto simp: bindM_run marks_def)
  next
    case (ready c1 b1 fs)
    let ?w = "w\<lparr>w_faults := fs\<rparr>"
    from Cons.IH [of pending c1 b1 ?w] obtain rest c' b' fs' where
      IH: "foldM evaluate_target (pending, c1, b1) ts ?w = (Inr (pending @ rest, c', b'), ?w\<lparr>w_faults := fs'\<rparr>)"
        "set rest \<subseteq> set ts"
        "\<forall>t \<in> set ts. t \<in> set rest \<or> target_ready ?w t \<and> cm_data c' (ut_hr_name t) = Some ConditionTrue"
        "marks ?w ts (cm_data c1) (cm_data c')" "c' = c1\<lparr>cm_data := cm_data c'\<rparr>" "b' \<or> c' = c1 \<and> b' = b1"
        "\<forall>k. cm_data c1 k = Some ConditionTrue \<longrightarrow> cm_data c' k = Some ConditionTrue"
        "no_faults ?w \<longrightarrow> rest = filter (\<lambda>t. \<not> target_ready ?w t) ts"
      by blast
    have c1: "c1 = c\<lparr>cm_data := cm_data c1\<rparr>" "marks w (t # ts) (cm_data c) (cm_data c1)"
      "\<forall>k. cm_data c k = Some ConditionTrue \<longrightarrow> cm_data c1 k = Some ConditionTrue"
      using ready by (auto simp: mark_ready_def marks_def)
    show ?thesis
    proof (intro exI [of _ rest] exI [of _ c'] exI [of _ b'] exI [of _ fs'] conjI)
      show "foldM evaluate_target (pending, c, b) (t # ts) w = (Inr (pending @ rest, c', b'), w\<lparr>w_faults := fs'\<rparr>)"
        using IH(1) ready(1) by (simp add: bindM_run)
      show "marks w (t # ts) (cm_data c) (cm_data c')"
        using IH(4) c1(2) unfolding marks_def by (metis list.set_intros(2) target_ready_faults)
      show "c' = c\<lparr>cm_data := cm_data c'\<rparr>"
        by (subst IH(5), subst c1(1)) simp
      show "\<forall>t \<in> set (t # ts). t \<in> set rest \<or> target_ready w t \<and> cm_data c' (ut_hr_name t) = Some ConditionTrue"
        using IH(3,7) ready(2,4) by auto
      show "b' \<or> c' = c \<and> b' = b"
        using IH(6) ready(3) by auto
      show "\<forall>k. cm_data c k = Some ConditionTrue \<longrightarrow> cm_data c' k = Some ConditionTrue"
        using IH(7) c1(3) by blast
      show "no_faults w \<longrightarrow> rest = filter (\<lambda>t. \<not> target_ready w t) (t # ts)"
        using IH(8) ready(2,5) by simp
      show "set rest \<subseteq> set (t # ts)" using IH(2) by auto
    qed
  qed
qed

section \<open>What an observation stores\<close>

abbreviation cm_at :: "world \<Rightarrow> objkey \<rightharpoonup> configmap" where
  "cm_at w \<equiv> \<lambda>k. find_obj k (w_cms w)"

lemma cm_at_put:
  "(\<lambda>k. find_obj k (put_obj x cms)) = (\<lambda>k. find_obj k cms)(obj_key x \<mapsto> x)"
  using kube.absmap_put [of x cms] by (simp add: kube.absmap_def)

lemma patch_own_data [simp]: "patch_config_map (c\<lparr>cm_data := d\<rparr>) c = c\<lparr>cm_data := d\<rparr>"
  by (cases c) (auto simp: patch_config_map_def map_add_def fun_eq_iff split: option.split)

lemma patch_finished: "patch_config_map (finished c) (c\<lparr>cm_data := d\<rparr>) = finished c"
  by (cases c) (auto simp: patch_config_map_def finished_def map_add_def fun_eq_iff split: option.split)

lemma obj_key_finished [simp]: "obj_key (finished c) = obj_key c"
  by (simp add: finished_def)

text \<open>The data after one look at every target, when no call fails.\<close>

definition observed_data :: "world \<Rightarrow> upgrade_target list \<Rightarrow> strmap \<Rightarrow> strmap" where
  "observed_data w ts d =
     (\<lambda>k. if \<exists>t \<in> set ts. ut_hr_name t = k \<and> target_ready w t then Some ConditionTrue else d k)"

definition still_pending :: "world \<Rightarrow> upgrade_target list \<Rightarrow> upgrade_target list" where
  "still_pending w ts = filter (\<lambda>t. \<not> target_ready w t) ts"

lemma marks_observed:
  assumes "marks w ts d d'"
    and "\<forall>t \<in> set ts. t \<in> set (still_pending w ts) \<or> target_ready w t \<and> d' (ut_hr_name t) = Some ConditionTrue"
  shows "d' = observed_data w ts d"
proof
  fix k
  show "d' k = observed_data w ts d k"
  proof (cases "\<exists>t \<in> set ts. ut_hr_name t = k \<and> target_ready w t")
    case True
    then obtain t where "t \<in> set ts" "ut_hr_name t = k" "target_ready w t" by blast
    with assms(2) have "d' k = Some ConditionTrue" by (auto simp: still_pending_def)
    with True show ?thesis by (simp add: observed_data_def)
  next
    case False
    with assms(1) show ?thesis by (auto simp: marks_def observed_data_def)
  qed
qed

lemma no_faults_restore: "no_faults w \<Longrightarrow> no_faults (w\<lparr>w_faults := fs\<rparr>) \<Longrightarrow> w\<lparr>w_faults := fs\<rparr> = w"
  by (cases w) (simp add: no_faults_def)

lemma evaluate_target_no_faults:
  "no_faults w \<Longrightarrow> snd (evaluate_target st t w) = w"
  by (auto simp: evaluate_target_def prog_simps split: prod.split option.split)

lemma evaluate_loop_no_faults:
  "no_faults w \<Longrightarrow> snd (foldM evaluate_target st ts w) = w"
proof (induction ts arbitrary: st)
  case Nil
  then show ?case by (simp add: ret_run)
next
  case (Cons t ts)
  obtain r w1 where e: "evaluate_target st t w = (r, w1)" by (cases "evaluate_target st t w")
  with evaluate_target_no_faults [OF Cons.prems, of st t] have "w1 = w" by simp
  with e Cons show ?case by (cases r) (simp_all add: bindM_run)
qed

lemma evaluateTargets_no_faults:
  assumes nf: "no_faults w" and c: "cm_at w (obj_key c) = Some c"
  obtains w' where
    "evaluateTargets ts c w =
       (Inr (still_pending w ts, c\<lparr>cm_data := observed_data w ts (cm_data c)\<rparr>), w')"
    "cm_at w' = (cm_at w)(obj_key c \<mapsto> c\<lparr>cm_data := observed_data w ts (cm_data c)\<rparr>)"
    "w' = w\<lparr>w_cms := w_cms w'\<rparr>"
proof -
  let ?c = "c\<lparr>cm_data := observed_data w ts (cm_data c)\<rparr>"
  from evaluate_loop [of "[]" c False ts w] nf obtain c' b' fs where
    l: "foldM evaluate_target ([], c, False) ts w = (Inr (still_pending w ts, c', b'), w\<lparr>w_faults := fs\<rparr>)"
    and m: "\<forall>t \<in> set ts. t \<in> set (still_pending w ts) \<or> target_ready w t \<and> cm_data c' (ut_hr_name t) = Some ConditionTrue"
      "marks w ts (cm_data c) (cm_data c')" "c' = c\<lparr>cm_data := cm_data c'\<rparr>" and b: "b' \<or> c' = c"
    unfolding still_pending_def by auto
  from evaluate_loop_no_faults [OF nf, of "([], c, False)" ts] l have w: "w\<lparr>w_faults := fs\<rparr> = w" by simp
  from marks_observed [OF m(2,1)] m(3) have c': "c' = ?c" by simp
  show thesis
  proof (cases b')
    case True
    have "patchConfigMapData c' w = (Inr ?c, w_cms_update (put_obj ?c) w)"
      using nf c by (simp add: patchConfigMapData_def CreateOrPatch_present c' cmaps_def)
    with l True w show thesis
      by (intro that [of "w_cms_update (put_obj ?c) w"])
        (auto simp: evaluateTargets_def prog_simps cm_at_put kube.look_put)
  next
    case False
    with b have "c' = c" by simp
    with c' l w False c show thesis
      by (intro that [of w]) (auto simp: evaluateTargets_def prog_simps)
  qed
qed

lemma finishUpgrade_no_faults:
  assumes "no_faults w" and "cm_at w (obj_key c) = Some c"
  shows "finishUpgrade c err w =
     (case err of None \<Rightarrow> Inr () | Some e \<Rightarrow> Inl (ErrJoin [e]), w_cms_update (put_obj (finished c)) w)"
proof -
  have "patch_config_map (finished c) c = finished c"
    using patch_finished [of c "cm_data c"] by simp
  with assms have "patchConfigMapData (finished c) w = (Inr (finished c), w_cms_update (put_obj (finished c)) w)"
    by (simp add: patchConfigMapData_def CreateOrPatch_present cmaps_def)
  then show ?thesis
    by (cases err) (simp_all add: finishUpgrade_def prog_simps raise_opt_def errors_join_def List.map_filter_def)
qed

section \<open>Finding a run\<close>

definition resumable :: "binding \<Rightarrow> configmap \<Rightarrow> bool" where
  "resumable pb c \<longleftrightarrow> run_matches pb c \<and> om_annots c UpgradeTargetsAnnotation \<noteq> None"

lemma first_run_Cons_no: "\<not> resumable pb c \<Longrightarrow> first_run pb (c # cs) = first_run pb cs"
  by (auto simp: resumable_def)

lemma first_run_Cons_yes:
  "resumable pb c \<Longrightarrow> om_annots c UpgradeTargetsAnnotation = Some raw \<Longrightarrow>
     first_run pb (c # cs) =
       (case unmarshal_targets raw of
          Inl e \<Rightarrow> Inl (ErrWrap ''failed to read upgrade targets from ConfigMap'' e)
        | Inr ts \<Rightarrow> Inr (Some (c, ts)))"
  by (simp add: resumable_def)

lemma first_run_None: "first_run pb cs = Inr None \<longleftrightarrow> (\<forall>c \<in> set cs. \<not> resumable pb c)"
proof (induction cs)
  case Nil
  then show ?case by simp
next
  case (Cons c cs)
  then show ?case
    by (cases "resumable pb c") (auto simp: first_run_Cons_no resumable_def split: sum.splits)
qed

lemma first_run_find:
  "first_run pb cs =
     (case List.find (resumable pb) cs of
        None \<Rightarrow> Inr None
      | Some c \<Rightarrow>
          (case unmarshal_targets (zstr (om_annots c UpgradeTargetsAnnotation)) of
             Inl e \<Rightarrow> Inl (ErrWrap ''failed to read upgrade targets from ConfigMap'' e)
           | Inr ts \<Rightarrow> Inr (Some (c, ts))))"
proof (induction cs)
  case Nil
  then show ?case by simp
next
  case (Cons c cs)
  then show ?case
    by (cases "resumable pb c") (auto simp: first_run_Cons_no resumable_def)
qed

lemma first_run_single:
  assumes "c \<in> set cs" and "\<forall>x \<in> set cs. x = c" and "resumable pb c"
    and "om_annots c UpgradeTargetsAnnotation = Some (marshal_targets ts)"
  shows "first_run pb cs = Inr (Some (c, ts))"
proof -
  from assms(1,2) obtain cs' where "cs = c # cs'" by (cases cs) auto
  with assms(3,4) show ?thesis by (simp add: first_run_Cons_yes unmarshal_marshal del: first_run.simps)
qed

lemma finished_not_resumable: "\<not> resumable pb (finished c)"
  by (simp add: resumable_def finished_def)

lemma findPendingUpgrade_run:
  "no_faults w \<Longrightarrow> findPendingUpgrade pb w = (first_run pb (filter (is_upgrader (om_ns pb)) (w_cms w)), w)"
  by (simp add: findPendingUpgrade_def prog_simps cmaps_def)

section \<open>The ConfigMap of a new run\<close>

lemma delete_all_no_faults:
  "no_faults w \<Longrightarrow> delete_all cs w = (Inr (), w_cms_update (\<lambda>xs. filter (\<lambda>x. obj_key x \<notin> obj_key ` set cs) xs) w)"
proof (induction cs arbitrary: w)
  case Nil
  then show ?case by (simp add: ret_run)
next
  case (Cons c cs)
  have *: "filter (\<lambda>x. obj_key x \<notin> obj_key ` set cs) (del_obj (obj_key c) xs)
      = filter (\<lambda>x. obj_key x \<notin> obj_key ` set (c # cs)) xs" for xs :: "configmap list"
    by (auto simp: del_obj_def intro!: filter_cong)
  show ?case
  proof (cases "cm_at w (obj_key c)")
    case None
    then have "obj_key x \<noteq> obj_key c" if "x \<in> set (w_cms w)" for x
      using that by (metis find_obj_None imageI)
    then have "filter (\<lambda>x. obj_key x \<notin> obj_key ` set cs) (w_cms w)
        = filter (\<lambda>x. obj_key x \<notin> obj_key ` set (c # cs)) (w_cms w)"
      by (intro filter_cong) auto
    with Cons None show ?thesis by (cases w) (simp add: prog_simps cmaps_def)
  next
    case (Some x)
    with Cons * show ?thesis by (cases w) (simp add: prog_simps cmaps_def no_faults_def)
  qed
qed

lemma deleteStale_no_faults:
  assumes "no_faults w" and "keys_distinct (w_cms w)"
  shows "deleteStaleUpgraderConfigMaps ns w =
     (Inr (), w_cms_update (filter (\<lambda>x. \<not> is_upgrader ns x)) w)"
proof -
  have "obj_key x \<notin> obj_key ` set (filter (is_upgrader ns) (w_cms w)) \<longleftrightarrow> \<not> is_upgrader ns x"
    if "x \<in> set (w_cms w)" for x
    using that kube.items_inj [OF assms(2)] by auto
  then have "filter (\<lambda>x. obj_key x \<notin> obj_key ` set (filter (is_upgrader ns) (w_cms w))) (w_cms w)
      = filter (\<lambda>x. \<not> is_upgrader ns x) (w_cms w)"
    by (rule filter_cong [OF refl])
  with assms(1) show ?thesis
    by (cases w) (simp add: deleteStaleUpgraderConfigMaps_def prog_simps delete_all_no_faults cmaps_def)
qed

lemma mark_releases_data:
  "mark_releases C d ms = Inr d' \<Longrightarrow> d' k = d k \<or> d' k = Some ConditionFalse"
proof (induction ms arbitrary: d)
  case Nil
  then show ?case by simp
next
  case (Cons m ms)
  then show ?case
    by (fastforce simp: bindE_Inr_iff split: if_splits prod.splits)
qed

lemma mark_works_data:
  "mark_works C d mws = Inr d' \<Longrightarrow> d' k = d k \<or> d' k = Some ConditionFalse"
proof (induction mws arbitrary: d)
  case Nil
  then show ?case by simp
next
  case (Cons mw mws)
  show ?case
  proof (cases "is_managed mw")
    case True
    with Cons.prems obtain d1 where "mark_releases C d (mw_manifests mw) = Inr d1" "mark_works C d1 mws = Inr d'"
      by (auto simp: bindE_Inr_iff)
    with Cons.IH mark_releases_data show ?thesis by metis
  next
    case False
    with Cons show ?thesis by simp
  qed
qed

lemma is_upgrader_new_config_map [simp]:
  "is_upgrader ns ((new_config_map sfx ver ns d)\<lparr>om_created := t\<rparr>)"
  by (simp add: is_upgrader_def new_config_map_def)

lemma filter_put_new:
  "find_obj (obj_key x) xs = None \<Longrightarrow> P x \<Longrightarrow> filter P (put_obj x xs) = filter P xs @ [x]"
  by (simp add: put_obj_def)

lemma find_obj_filter_None: "find_obj k (filter P xs) = None \<longleftrightarrow> (\<forall>x \<in> set xs. P x \<longrightarrow> obj_key x \<noteq> k)"
  by (auto simp: find_obj_None)

text \<open>What a successful creation leaves: the shape of the new object and of the store.\<close>

lemma createConfigMap_Inr:
  assumes nf: "no_faults w" and kd: "keys_distinct (w_cms w)"
    and run: "createConfigMapInSpokeClusterNamespace C ver ns w = (Inr c, w')"
  obtains d sfx where
    "mark_works C (initial_data ver) (filter (\<lambda>mw. om_ns mw = ns) (w_mws w)) = Inr d"
    "c = (new_config_map sfx ver ns d)\<lparr>om_created := to_second (w_now w)\<rparr>"
    "w_cms w' = filter (\<lambda>x. \<not> is_upgrader ns x) (w_cms w) @ [c]"
    "keys_distinct (w_cms w')" "no_faults w'" "w_mws w' = w_mws w" "w_now w' = w_now w"
proof -
  let ?w1 = "w_cms_update (filter (\<lambda>x. \<not> is_upgrader ns x)) w"
  have nf1: "no_faults ?w1" using nf by simp
  from run deleteStale_no_faults [OF nf kd] nf1 obtain d where
    d: "mark_works C (initial_data ver) (filter (\<lambda>mw. om_ns mw = ns) (w_mws w)) = Inr d"
    by (auto simp: createConfigMapInSpokeClusterNamespace_def prog_simps works_def split: sum.splits)
  obtain sfx w2 where r: "rand_string ?w1 = (Inr sfx, w2)" and w2: "w2 = ?w1\<lparr>w_rand := w_rand w2\<rparr>"
    by (cases "w_rand w") (auto simp: rand_string_def)
  have nf2: "no_faults w2" using nf1 w2 by (metis no_faults_updates(5))
  let ?c = "(new_config_map sfx ver ns d)\<lparr>om_created := to_second (w_now w)\<rparr>"
  have now2: "w_now w2 = w_now w" and cms2: "w_cms w2 = w_cms ?w1" and mws2: "w_mws w2 = w_mws w"
    by (subst w2, simp)+
  from run deleteStale_no_faults [OF nf kd] nf1 d r nf2
  have c: "api_create cmaps (new_config_map sfx ver ns d) w2 = (Inr c, w')"
    by (auto simp: createConfigMapInSpokeClusterNamespace_def prog_simps works_def)
  with nf2 have fresh: "find_obj (obj_key (new_config_map sfx ver ns d)) (w_cms w2) = None"
    and cc: "c = ?c" and w': "w' = w_cms_update (put_obj ?c) w2"
    by (auto simp: prog_simps cmaps_def now2 split: if_splits)
  from fresh have put: "put_obj ?c (w_cms w2) = w_cms w2 @ [?c]"
    by (simp add: put_obj_def)
  have kd2: "keys_distinct (w_cms w2)"
    using kd unfolding cms2 by (simp add: keys_distinct_def distinct_map_filter)
  show thesis
  proof (rule that [OF d cc])
    show "w_cms w' = filter (\<lambda>x. \<not> is_upgrader ns x) (w_cms w) @ [c]"
      using put by (simp add: w' cc cms2)
    show "keys_distinct (w_cms w')" using kube.inv_put [OF kd2] by (simp add: w')
    show "no_faults w'" "w_mws w' = w_mws w" "w_now w' = w_now w" using nf2 by (simp_all add: w' mws2 now2)
  qed
qed

section \<open>A run to look at\<close>

definition ex_target :: upgrade_target where
  "ex_target =
     \<lparr> ut_mw_ns = ''c1'', ut_mw_name = ''opscenter-core'', ut_hr_ns = ''kubeops'',
       ut_hr_name = ''opscenter-features'', ut_min_gen = 2 \<rparr>"

text \<open>A ManifestWork whose HelmRelease is reported applied, ready and observed at \<open>g\<close>.\<close>

definition ex_work :: "int64 \<Rightarrow> manifestwork" where
  "ex_work g =
     \<lparr> om_name = ''opscenter-core'', om_ns = ''c1'', om_labels = [LabelAceFeatureSet \<mapsto> ''true''],
       om_annots = Map.empty, om_owners = [], om_created = 0, mw_manifests = [], mw_configs = [],
       mw_status =
         [\<lparr> mc_kind = HelmReleaseKind, mc_name = ''opscenter-features'', mc_ns = ''kubeops'',
            mc_values =
              [\<lparr> fv_name = HelmReleaseReadyFeedback, fv_integer = None, fv_string = Some ConditionTrue \<rparr>,
               \<lparr> fv_name = HelmReleaseGenerationFeedback, fv_integer = Some g, fv_string = None \<rparr>,
               \<lparr> fv_name = HelmReleaseObservedGenerationFeedback, fv_integer = Some g, fv_string = None \<rparr>],
            mc_conditions = [\<lparr> cd_type = ManifestApplied, cd_status = ConditionTrue \<rparr>] \<rparr>] \<rparr>"

definition ex_run :: configmap where
  "ex_run =
     (record_annots [ex_target] ''''
       (new_config_map ''abc'' ''v2'' ''c1'' (initial_data ''v2'')))\<lparr>om_created := 0\<rparr>"

definition ex_world :: "int64 \<Rightarrow> gotime \<Rightarrow> world" where
  "ex_world g t =
     \<lparr> w_mws = [ex_work g], w_cms = [ex_run], w_profiles = [], w_bindings = [], w_clusters = [],
       w_features = [], w_mwrs = [], w_sets = [], w_now = t, w_rand = [''xyz''], w_faults = [] \<rparr>"

definition ex_binding :: "string \<Rightarrow> binding" where
  "ex_binding ver =
     \<lparr> om_name = ''c1'', om_ns = ''c1'', om_labels = Map.empty, om_annots = Map.empty, om_owners = [],
       om_created = 0,
       pb_spec = \<lparr> bs_profile = ''p'', bs_cluster = zero_clusterinfo, bs_version = ver, bs_features = [] \<rparr>,
       pb_status = zero_status \<rparr>"

lemmas ex_defs = ex_target_def ex_work_def ex_run_def ex_world_def ex_binding_def new_config_map_def
  record_annots_def initial_data_def

lemma ex_world_ready:
  "no_faults (ex_world g t)" "cm_at (ex_world g t) (obj_key ex_run) = Some ex_run"
  "target_ready (ex_world g t) ex_target \<longleftrightarrow> 2 \<le>s g" "keys_distinct (w_cms (ex_world g t))"
  "om_created ex_run = 0" "w_now (ex_world g t) = t"
  by (simp_all add: ex_world_def no_faults_def target_ready_def work_key_def obj_key_def ex_target_def ex_work_def
      helmReleaseReady_def helmReleaseFeedback_def constants keys_distinct_def ex_run_def word_sless_alt word_sle_eq not_less)

text \<open>An observation that finds every target ready.\<close>

lemma observeUpgrade_ready:
  assumes "no_faults w" and "cm_at w (obj_key c) = Some c" and "still_pending w ts = []"
  obtains w' where "observeUpgrade c ts w = (Inr Result_zero, w')"
proof -
  let ?c = "c\<lparr>cm_data := observed_data w ts (cm_data c)\<rparr>"
  from assms(1,2) obtain w1 where
    e: "evaluateTargets ts c w = (Inr ([], ?c), w1)"
    and k: "cm_at w1 = (cm_at w)(obj_key c \<mapsto> ?c)" and w1: "w1 = w\<lparr>w_cms := w_cms w1\<rparr>"
    using assms(3) by (metis evaluateTargets_no_faults)
  have "no_faults w1" using assms(1) by (subst w1) (simp add: no_faults_def)
  moreover have "cm_at w1 (obj_key ?c) = Some ?c" using fun_cong [OF k, of "obj_key c"] by simp
  ultimately show thesis
    using e by (intro that) (simp add: observeUpgrade_def prog_simps finishUpgrade_no_faults)
qed

lemma createOrPatch_cmap_Inr:
  assumes "CreateOrPatch cmaps c tr w = (Inr y, w')" and "cm_at w (obj_key c) = Some cur"
    and "obj_key (tr cur) = obj_key c" and "obj_key (tr c) = obj_key c"
  obtains fs where "y = tr cur" "w' = w_cms_update (put_obj (tr cur)) (w\<lparr>w_faults := fs\<rparr>)"
  using cmk.create_or_patch_cases [of c tr w] assms by (auto simp: cmaps_def)

lemma evaluateTargets_Inr:
  assumes "evaluateTargets ts c w = (Inr (pending, c1), w1)"
  shows "\<exists>c0 b fs.
     (\<forall>t \<in> set ts. t \<in> set pending \<or> target_ready w t) \<and> c0 = c\<lparr>cm_data := cm_data c0\<rparr> \<and>
     (b \<or> c0 = c) \<and>
     (if b then patchConfigMapData c0 else ret c0) (w\<lparr>w_faults := fs\<rparr>) = (Inr c1, w1)"
proof -
  obtain rest c0 b fs where
    l0: "foldM evaluate_target ([], c, False) ts w = (Inr ([] @ rest, c0, b), w\<lparr>w_faults := fs\<rparr>)"
    and r0: "\<forall>t \<in> set ts. t \<in> set rest \<or> target_ready w t \<and> cm_data c0 (ut_hr_name t) = Some ConditionTrue"
    and c0: "c0 = c\<lparr>cm_data := cm_data c0\<rparr>" and b0: "b \<or> c0 = c \<and> b = False"
    using evaluate_loop [of "[]" c False ts w] by blast
  from l0 have l: "foldM evaluate_target ([], c, False) ts w = (Inr (rest, c0, b), w\<lparr>w_faults := fs\<rparr>)" by simp
  from r0 have r: "\<forall>t \<in> set ts. t \<in> set rest \<or> target_ready w t" by blast
  from b0 have b: "b \<or> c0 = c" by blast
  have "rest = pending \<and> (if b then patchConfigMapData c0 else ret c0) (w\<lparr>w_faults := fs\<rparr>) = (Inr c1, w1)"
  proof (cases b)
    case True
    with assms l show ?thesis
      by (cases "patchConfigMapData c0 (w\<lparr>w_faults := fs\<rparr>)")
        (auto simp: evaluateTargets_def bindM_run tryM_run raise_run ret_run split: sum.splits)
  next
    case False
    with assms l show ?thesis by (simp add: evaluateTargets_def bindM_run ret_run)
  qed
  with r c0 b show ?thesis by blast
qed

lemma finishUpgrade_None:
  "finishUpgrade c None w = (r, w') \<Longrightarrow>
     (case fst (patchConfigMapData (finished c) w) of
        Inl e \<Rightarrow> r = Inl (ErrJoin [e])
      | Inr c2 \<Rightarrow> r = Inr ()) \<and> w' = snd (patchConfigMapData (finished c) w)"
  by (cases "fst (patchConfigMapData (finished c) w)")
    (auto simp: finishUpgrade_def tryM_run prog_simps raise_opt_def errors_join_def List.map_filter_def)

lemma finishUpgrade_Some: "finishUpgrade c (Some e) w \<noteq> (Inr u, w')"
  by (cases "fst (patchConfigMapData (finished c) w)")
    (auto simp: finishUpgrade_def tryM_run prog_simps raise_opt_def errors_join_def List.map_filter_def)

text \<open>A codec that knows no release, for hubs without any.\<close>

definition ex_codec :: hr_codec where
  "ex_codec =
     \<lparr> hc_dec = (\<lambda>m. Inl (ErrText ''no release'')), hc_enc = (\<lambda>h. Inl (ErrText ''no release'')),
       hc_spec = (\<lambda>s. Inr fmempty) \<rparr>"

lemma ex_listed:
  "filter (is_upgrader ''c1'') (w_cms (ex_world g t)) = [ex_run]" "om_ns (ex_binding ver) = ''c1''"
  by (simp_all add: ex_defs is_upgrader_def)

lemma ex_create:
  obtains c w1 where "createConfigMapInSpokeClusterNamespace ex_codec ''v2'' ''c1'' (ex_world g t) = (Inr c, w1)"
  by (simp add: createConfigMapInSpokeClusterNamespace_def prog_simps deleteStale_no_faults ex_world_ready)
    (simp add: ex_world_def works_def cmaps_def ex_work_def is_managed_def rand_string_def ex_run_def is_upgrader_def
      new_config_map_def record_annots_def bindM_run api_create_def api_call_def Let_def)

lemma record_annots_simps:
  "om_annots (record_annots ts at c) UpgradeTargetsAnnotation = Some (marshal_targets ts)"
  "om_annots (record_annots ts at c) UpgradeAnnotation =
     (if at = '''' then om_annots c UpgradeAnnotation else Some at)"
  "obj_key (record_annots ts at c) = obj_key c"
  "cm_data (record_annots ts at c) = cm_data c"
  by (simp_all add: record_annots_def Let_def)

lemma patch_config_map_simps [simp]:
  "om_labels (patch_config_map c cur) = om_labels cur"
  "om_ns (patch_config_map c cur) = om_ns cur"
  "cm_data (patch_config_map c cur) = cm_data c"
  by (simp_all add: patch_config_map_def)

text \<open>
  What \<open>recordPendingUpgrade\<close> stores over a ConfigMap that is the only upgrader one of its
  namespace is what \<open>findPendingUpgrade\<close> gives back.
\<close>

lemma record_then_find:
  assumes nf: "no_faults w" and at: "cm_at w (obj_key c) = Some cur"
    and only: "\<forall>x \<in> set (w_cms w). is_upgrader (om_ns pb) x \<longrightarrow> obj_key x = obj_key c"
    and up: "is_upgrader (om_ns pb) cur" and kd: "keys_distinct (w_cms w)"
    and ver: "zstr (om_labels cur ACEUpgraderVersion) = bs_version (pb_spec pb)"
    and pend: "zstr (cm_data c UpgradeStatusKey) = UpgradeStatusPending"
    and annots: "om_annots c UpgradeAnnotation = None" "om_annots cur UpgradeAnnotation = None"
    and run: "recordPendingUpgrade c ts (zstr (om_annots pb UpgradeAnnotation)) w = (r, w')"
  shows "\<exists>c'. r = Inr c' \<and> findPendingUpgrade pb w' = (Inr (Some (c', ts)), w')"
proof -
  let ?at = "zstr (om_annots pb UpgradeAnnotation)"
  let ?c = "record_annots ts ?at c"
  let ?n = "patch_config_map ?c cur"
  have kc: "obj_key cur = obj_key c" using find_obj_key [OF at] by simp
  with nf at run have r: "r = Inr ?n" and w': "w' = w_cms_update (put_obj ?n) w"
    by (simp_all add: recordPendingUpgrade_def patchConfigMapData_def record_annots_simps CreateOrPatch_present cmaps_def)
  have T: "om_annots ?n UpgradeTargetsAnnotation = Some (marshal_targets ts)"
    by (simp add: patch_config_map_def record_annots_simps map_add_def)
  have A: "zstr (om_annots ?n UpgradeAnnotation) = ?at"
    using annots by (simp add: patch_config_map_def record_annots_simps map_add_def)
  have res: "resumable pb ?n"
    using ver pend A T by (simp add: resumable_def run_matches_def record_annots_simps)
  let ?cs = "filter (is_upgrader (om_ns pb)) (put_obj ?n (w_cms w))"
  have "?n \<in> set ?cs"
    using up kube.items_put [OF kd, of ?n ?n] by (simp add: is_upgrader_def)
  moreover have "\<forall>x \<in> set ?cs. x = ?n"
    using only kc kube.items_put [OF kd, of _ ?n] by auto
  ultimately have "first_run pb ?cs = Inr (Some (?n, ts))"
    using res T by (rule first_run_single)
  with nf r w' show ?thesis by (simp add: findPendingUpgrade_run)
qed

lemma finish_then_none:
  assumes "no_faults w" and "keys_distinct (w_cms w)" and "cm_at w (obj_key c) = Some c"
    and "\<forall>x \<in> set (w_cms w). is_upgrader (om_ns pb) x \<longrightarrow> obj_key x = obj_key c"
    and "finishUpgrade c err w = (r, w')"
  shows "findPendingUpgrade pb w' = (Inr None, w')"
proof -
  from finishUpgrade_no_faults [OF assms(1,3)] assms(5)
  have w': "w' = w_cms_update (put_obj (finished c)) w" by simp
  have "\<not> resumable pb x" if "x \<in> set (put_obj (finished c) (w_cms w))" "is_upgrader (om_ns pb) x" for x
  proof -
    from that(1) kube.items_put [OF assms(2)]
    consider "x = finished c" | "x \<in> set (w_cms w)" "obj_key x \<noteq> obj_key c" by auto
    then show ?thesis using that(2) assms(4) finished_not_resumable by cases auto
  qed
  with assms(1) w' show ?thesis by (simp add: findPendingUpgrade_run first_run_None)
qed

lemma ex_found:
  "findPendingUpgrade (ex_binding ''v2'') (ex_world 1 0) = (Inr (Some (ex_run, [ex_target])), ex_world 1 0)"
proof -
  have "om_annots ex_run UpgradeTargetsAnnotation = Some (marshal_targets [ex_target])"
    by (simp add: ex_run_def record_annots_simps)
  moreover have "run_matches (ex_binding ''v2'') ex_run"
    by (simp add: run_matches_def ex_defs)
  ultimately have "first_run (ex_binding ''v2'') [ex_run] = Inr (Some (ex_run, [ex_target]))"
    by (intro first_run_single) (simp_all add: resumable_def)
  then show ?thesis by (simp add: findPendingUpgrade_run ex_world_ready ex_listed del: first_run.simps)
qed

section \<open>Properties\<close>

lemma observeUpgrade_no_faults:
  assumes "no_faults w" and "cm_at w (obj_key c) = Some c"
  shows "\<exists>w' c'.
     observeUpgrade c ts w =
       ((if still_pending w ts = [] then Inr Result_zero
         else if om_created c + helmReleaseReadyTimeout < w_now w
         then Inl (ErrJoin [timeout_error (still_pending w ts)])
         else Inr (Result_after helmReleaseReadyPollInterval)), w') \<and>
     c' = c\<lparr>cm_data := observed_data w ts (cm_data c)\<rparr> \<and>
     cm_at w' = (cm_at w)(obj_key c \<mapsto>
       (if still_pending w ts = [] \<or> om_created c + helmReleaseReadyTimeout < w_now w
        then finished c' else c')) \<and>
     w' = w\<lparr>w_cms := w_cms w'\<rparr>"
proof -
  let ?c = "c\<lparr>cm_data := observed_data w ts (cm_data c)\<rparr>"
  from assms obtain w1 where
    e: "evaluateTargets ts c w = (Inr (still_pending w ts, ?c), w1)"
    and k: "cm_at w1 = (cm_at w)(obj_key c \<mapsto> ?c)" and w1: "w1 = w\<lparr>w_cms := w_cms w1\<rparr>"
    by (rule evaluateTargets_no_faults)
  have w1': "no_faults w1" "w_now w1 = w_now w" "w_mws w1 = w_mws w"
    using assms(1) by (subst w1, simp add: no_faults_def)+
  have s: "cm_at w1 (obj_key ?c) = Some ?c" using fun_cong [OF k, of "obj_key c"] by simp
  note f = finishUpgrade_no_faults [OF w1'(1) s]
  have upd: "w_cms_update g w1 = w\<lparr>w_cms := g (w_cms w1)\<rparr>" for g by (subst w1) simp
  consider (all) "still_pending w ts = []"
    | (late) "still_pending w ts \<noteq> []" "om_created c + helmReleaseReadyTimeout < w_now w"
    | (wait) "still_pending w ts \<noteq> []" "\<not> om_created c + helmReleaseReadyTimeout < w_now w"
    by blast
  then show ?thesis
  proof cases
    case all
    with e f k show ?thesis by (simp add: observeUpgrade_def prog_simps cm_at_put upd)
  next
    case late
    with e f w1' k show ?thesis by (simp add: observeUpgrade_def prog_simps cm_at_put now_def upd)
  next
    case wait
    with e k w1' w1 show ?thesis by (simp add: observeUpgrade_def prog_simps now_def)
  qed
qed

text \<open>
  C15: One observation of a run, when no call to the hub fails, decides by the reports and
  the clock alone. It succeeds exactly when every target is ready; otherwise it fails with
  the timeout error, naming the pending releases, once thirty minutes have passed since the
  ConfigMap was created, and asks to come back in six seconds before that. In every case the
  ready releases are marked in the stored ConfigMap, the two endings close the run in it,
  and no other ConfigMap and no ManifestWork changes.
\<close>

theorem observeUpgrade_outcome:
  assumes "no_faults w" and "cm_at w (obj_key c) = Some c"
  shows "\<exists>w' c'.
     observeUpgrade c ts w =
       ((if still_pending w ts = [] then Inr Result_zero
         else if om_created c + helmReleaseReadyTimeout < w_now w
         then Inl (ErrJoin [timeout_error (still_pending w ts)])
         else Inr (Result_after helmReleaseReadyPollInterval)), w') \<and>
     c' = c\<lparr>cm_data := observed_data w ts (cm_data c)\<rparr> \<and>
     cm_at w' = (cm_at w)(obj_key c \<mapsto>
       (if still_pending w ts = [] \<or> om_created c + helmReleaseReadyTimeout < w_now w
        then finished c' else c')) \<and>
     w_mws w' = w_mws w"
  using observeUpgrade_no_faults [OF assms, of ts]
  by (elim exE conjE) (intro exI conjI, assumption+, metis world.select_convs(1) world.surjective world.update_convs(2))

theorem observeUpgrade_outcome_witness:
  "(\<exists>w'. observeUpgrade ex_run [ex_target] (ex_world 2 0) = (Inr Result_zero, w')) \<and>
   (\<exists>w'. observeUpgrade ex_run [ex_target] (ex_world 1 0) = (Inr (Result_after (6 * second)), w'))"
  using observeUpgrade_outcome [of "ex_world 2 0" ex_run "[ex_target]"]
    observeUpgrade_outcome [of "ex_world 1 0" ex_run "[ex_target]"]
  by (auto simp: ex_world_ready still_pending_def helmReleaseReadyPollInterval_def helmReleaseReadyTimeout_def
      word_sle_eq)


lemma evaluateTargets_own:
  assumes e: "evaluateTargets ts c w = (Inr (pending, c1), w1)" and c: "cm_at w (obj_key c) = Some c"
  obtains fs where "\<forall>t \<in> set ts. t \<in> set pending \<or> target_ready w t" and "c1 = c\<lparr>cm_data := cm_data c1\<rparr>"
    and "w1 = w\<lparr>w_faults := fs, w_cms := w_cms w1\<rparr>" and "cm_at w1 (obj_key c) = Some c1"
proof -
  from evaluateTargets_Inr [OF e] obtain c0 b fs where
    r: "\<forall>t \<in> set ts. t \<in> set pending \<or> target_ready w t" and c0: "c0 = c\<lparr>cm_data := cm_data c0\<rparr>"
    and b: "b \<or> c0 = c"
    and l: "(if b then patchConfigMapData c0 else ret c0) (w\<lparr>w_faults := fs\<rparr>) = (Inr c1, w1)"
    by blast
  show thesis
  proof (cases b)
    case False
    with l have "c1 = c0" "w1 = w\<lparr>w_faults := fs\<rparr>" by (simp_all add: ret_run)
    with False b c r c0 show thesis by (intro that [of fs]) simp_all
  next
    case True
    with l have p: "patchConfigMapData c0 (w\<lparr>w_faults := fs\<rparr>) = (Inr c1, w1)" by simp
    have k: "obj_key c0 = obj_key c" by (subst c0) simp
    obtain fs' where c1: "c1 = patch_config_map c0 c"
        and w1: "w1 = w_cms_update (put_obj (patch_config_map c0 c)) (w\<lparr>w_faults := fs\<rparr>\<lparr>w_faults := fs'\<rparr>)"
      by (rule createOrPatch_cmap_Inr [OF p [unfolded patchConfigMapData_def], of c]) (simp_all add: k c)
    have own: "patch_config_map c0 c = c0" by (subst c0, subst patch_own_data) (rule c0 [symmetric])
    show thesis
    proof (rule that [of fs'])
      show "c1 = c\<lparr>cm_data := cm_data c1\<rparr>" using c0 by (simp add: c1 own)
    qed (use r in \<open>simp_all add: c1 w1 own k kube.look_put\<close>)
  qed
qed

lemma finish_patch_own:
  assumes "patchConfigMapData (finished c) w = (Inr c', w')" and "cm_at w (obj_key c) = Some c"
  shows "c' = finished c \<and> w_mws w' = w_mws w \<and> cm_at w' (obj_key c) = Some c'"
proof -
  obtain fs where "c' = patch_config_map (finished c) c"
      "w' = w_cms_update (put_obj (patch_config_map (finished c) c)) (w\<lparr>w_faults := fs\<rparr>)"
    by (rule createOrPatch_cmap_Inr [OF assms(1) [unfolded patchConfigMapData_def], of c]) (simp_all add: assms(2))
  moreover have "patch_config_map (finished c) c = finished c"
    using patch_finished [of c "cm_data c"] by simp
  ultimately show ?thesis by (simp add: kube.look_put)
qed

text \<open>
  C16: Whatever calls fail during an observation, it never claims more than it saw. A
  success means that every target was read and found ready, and leaves the ConfigMap
  completed and without targets; a request to come back means that the deadline had not
  passed. The ManifestWorks are not written.
\<close>

theorem observeUpgrade_safe:
  assumes "observeUpgrade c ts w = (Inr res, w')" and "cm_at w (obj_key c) = Some c"
  shows "w_mws w' = w_mws w \<and>
     (if IsZero res
      then (\<forall>t \<in> set ts. target_ready w t) \<and>
           (\<exists>c'. cm_at w' (obj_key c) = Some c' \<and>
                 cm_data c' UpgradeStatusKey = Some UpgradeStatusCompleted \<and>
                 om_annots c' UpgradeTargetsAnnotation = None)
      else res = Result_after helmReleaseReadyPollInterval \<and>
           w_now w \<le> om_created c + helmReleaseReadyTimeout)"
proof -
  from assms(1) obtain pending c1 w1 where
    e: "evaluateTargets ts c w = (Inr (pending, c1), w1)"
    and o: "(if pending = [] then bindM (finishUpgrade c1 None) (\<lambda>_. ret Result_zero)
        else bindM now (\<lambda>t.
           if om_created c1 + helmReleaseReadyTimeout < t
           then bindM (finishUpgrade c1 (Some (timeout_error pending))) (\<lambda>_. ret Result_zero)
           else ret (Result_after helmReleaseReadyPollInterval))) w1 = (Inr res, w')"
    by (auto simp: observeUpgrade_def bindM_Inr_iff)
  obtain fs where r: "\<forall>t \<in> set ts. t \<in> set pending \<or> target_ready w t"
    and c1: "c1 = c\<lparr>cm_data := cm_data c1\<rparr>" and w1: "w1 = w\<lparr>w_faults := fs, w_cms := w_cms w1\<rparr>"
    and at1: "cm_at w1 (obj_key c) = Some c1"
    by (rule evaluateTargets_own [OF e assms(2)])
  have key: "obj_key c1 = obj_key c" and created: "om_created c1 = om_created c" by (subst c1, simp)+
  have now: "w_now w1 = w_now w" and mws: "w_mws w1 = w_mws w" by (subst w1, simp)+
  show ?thesis
  proof (cases "pending = []")
    case True
    with o have "finishUpgrade c1 None w1 = (Inr (), w')" and res: "res = Result_zero"
      by (auto simp: bindM_Inr_iff ret_run)
    from finishUpgrade_None [OF this(1)] obtain c2 where "patchConfigMapData (finished c1) w1 = (Inr c2, w')"
      by (cases "patchConfigMapData (finished c1) w1") (auto split: sum.splits)
    with finish_patch_own [OF this] at1 r True mws res key show ?thesis by (simp add: finished_def)
  next
    case False
    with o have "om_created c1 + helmReleaseReadyTimeout \<ge> w_now w1" "res = Result_after helmReleaseReadyPollInterval" "w' = w1"
      by (auto simp: now_def bindM_Inr_iff getsM_run ret_run finishUpgrade_Some split: if_splits)
    with created now mws show ?thesis by simp
  qed
qed

theorem observeUpgrade_safe_witness:
  "target_ready (ex_world 2 0) ex_target"
proof -
  obtain w' where "observeUpgrade ex_run [ex_target] (ex_world 2 0) = (Inr Result_zero, w')"
    by (rule observeUpgrade_ready [of "ex_world 2 0" ex_run "[ex_target]"])
      (simp_all add: ex_world_ready still_pending_def word_sle_eq)
  from observeUpgrade_safe [OF this] show ?thesis by (simp add: ex_world_ready)
qed

text \<open>
  A recorded run is found again, with the same targets. A ConfigMap created for a version
  in the namespace of a binding of that version, with any feature data written to it that
  leaves its status pending, and recorded with the targets and the binding's force-upgrade
  annotation, is what the next reconcile resumes: through the annotation text and back.
\<close>

theorem recorded_run_is_resumed:
  assumes "no_faults w" and "keys_distinct (w_cms w)"
    and "createConfigMapInSpokeClusterNamespace C (bs_version (pb_spec pb)) (om_ns pb) w = (Inr c, w1)"
    and "zstr (d UpgradeStatusKey) = UpgradeStatusPending"
    and "recordPendingUpgrade (c\<lparr>cm_data := d\<rparr>) ts (zstr (om_annots pb UpgradeAnnotation)) w1 = (r, w2)"
  shows "\<exists>c'. r = Inr c' \<and> findPendingUpgrade pb w2 = (Inr (Some (c', ts)), w2)"
proof -
  from assms(1-3) obtain d0 sfx where
    c: "c = (new_config_map sfx (bs_version (pb_spec pb)) (om_ns pb) d0)\<lparr>om_created := to_second (w_now w)\<rparr>"
    and cms: "w_cms w1 = filter (\<lambda>x. \<not> is_upgrader (om_ns pb) x) (w_cms w) @ [c]"
    and kd: "keys_distinct (w_cms w1)" and nf: "no_faults w1"
    by (rule createConfigMap_Inr)
  have "c \<in> set (w_cms w1)" by (simp add: cms)
  with kd have at: "cm_at w1 (obj_key c) = Some c" by (simp add: find_obj_distinct)
  show ?thesis
  proof (rule record_then_find [OF nf _ _ _ kd _ _ _ _ assms(5)])
    show "cm_at w1 (obj_key (c\<lparr>cm_data := d\<rparr>)) = Some c" using at by simp
    show "\<forall>x \<in> set (w_cms w1). is_upgrader (om_ns pb) x \<longrightarrow> obj_key x = obj_key (c\<lparr>cm_data := d\<rparr>)"
      by (auto simp: cms)
  qed (use assms(4) in \<open>simp_all add: c is_upgrader_def new_config_map_def\<close>)
qed

theorem recorded_run_is_resumed_witness:
  "\<exists>c' w2. findPendingUpgrade (ex_binding ''v2'') w2 = (Inr (Some (c', [ex_target])), w2)"
proof -
  let ?w = "ex_world 1 0"
  obtain c w1 where c: "createConfigMapInSpokeClusterNamespace ex_codec ''v2'' ''c1'' ?w = (Inr c, w1)"
    by (rule ex_create)
  obtain r w2 where "recordPendingUpgrade (c\<lparr>cm_data := initial_data ''v2''\<rparr>) [ex_target]
      (zstr (om_annots (ex_binding ''v2'') UpgradeAnnotation)) w1 = (r, w2)"
    by (cases "recordPendingUpgrade (c\<lparr>cm_data := initial_data ''v2''\<rparr>) [ex_target]
      (zstr (om_annots (ex_binding ''v2'') UpgradeAnnotation)) w1")
  from recorded_run_is_resumed [of ?w ex_codec "ex_binding ''v2''" c w1, OF _ _ _ _ this] c
  show ?thesis by (auto simp: ex_world_ready ex_binding_def initial_data_def)
qed

text \<open>
  A successful start leaves the namespace with exactly one upgrader ConfigMap, the new
  one, and touches no other ConfigMap and no ManifestWork. The new one carries the version,
  is pending unless a feature release is named after the status key, and lists every other
  key it has as not ready.
\<close>

theorem new_run_is_the_only_one:
  assumes "no_faults w" and "keys_distinct (w_cms w)"
    and "createConfigMapInSpokeClusterNamespace C ver ns w = (Inr c, w')"
  shows "filter (is_upgrader ns) (w_cms w') = [c] \<and>
     filter (\<lambda>x. \<not> is_upgrader ns x) (w_cms w') = filter (\<lambda>x. \<not> is_upgrader ns x) (w_cms w) \<and>
     w_mws w' = w_mws w \<and> om_labels c ACEUpgraderVersion = Some ver \<and>
     cm_data c UpgradeStatusKey \<in> {Some UpgradeStatusPending, Some ConditionFalse} \<and>
     (\<forall>k v. cm_data c k = Some v \<longrightarrow> k \<noteq> ''version'' \<longrightarrow> k \<noteq> UpgradeStatusKey \<longrightarrow> v = ConditionFalse)"
proof -
  from assms obtain d sfx where
    d: "mark_works C (initial_data ver) (filter (\<lambda>mw. om_ns mw = ns) (w_mws w)) = Inr d"
    and c: "c = (new_config_map sfx ver ns d)\<lparr>om_created := to_second (w_now w)\<rparr>"
    and cms: "w_cms w' = filter (\<lambda>x. \<not> is_upgrader ns x) (w_cms w) @ [c]" and mws: "w_mws w' = w_mws w"
    by (rule createConfigMap_Inr)
  have up: "is_upgrader ns c" by (simp add: c)
  have data: "cm_data c = d" by (simp add: c new_config_map_def)
  note m = mark_works_data [OF d]
  have "d UpgradeStatusKey \<in> {Some UpgradeStatusPending, Some ConditionFalse}"
    using m [of UpgradeStatusKey] by (auto simp: initial_data_def)
  moreover have "v = ConditionFalse" if "d k = Some v" "k \<noteq> ''version''" "k \<noteq> UpgradeStatusKey" for k v
    using m [of k] that by (auto simp: initial_data_def split: if_splits)
  ultimately show ?thesis
    using up mws by (simp add: cms data) (simp add: c new_config_map_def)
qed

theorem new_run_is_the_only_one_witness:
  "\<exists>c w'. createConfigMapInSpokeClusterNamespace ex_codec ''v2'' ''c1'' (ex_world 1 0) = (Inr c, w') \<and>
     filter (is_upgrader ''c1'') (w_cms w') = [c]"
proof -
  obtain c w1 where c: "createConfigMapInSpokeClusterNamespace ex_codec ''v2'' ''c1'' (ex_world 1 0) = (Inr c, w1)"
    by (rule ex_create)
  with new_run_is_the_only_one [OF _ _ c] show ?thesis by (simp add: ex_world_ready)
qed

text \<open>
  A run that ended is over: no binding ever resumes a ConfigMap that \<open>finishUpgrade\<close>
  closed, whatever its targets were and whether the run succeeded or timed out. If it was
  the only upgrader ConfigMap of the namespace, the next reconcile finds no run at all.
\<close>

theorem finished_run_is_not_resumed:
  assumes "no_faults w" and "keys_distinct (w_cms w)" and "cm_at w (obj_key c) = Some c"
    and "filter (is_upgrader (om_ns pb)) (w_cms w) = [c]"
    and "finishUpgrade c err w = (r, w')"
  shows "findPendingUpgrade pb w' = (Inr None, w')"
proof (rule finish_then_none [OF assms(1-3) _ assms(5)])
  show "\<forall>x \<in> set (w_cms w). is_upgrader (om_ns pb) x \<longrightarrow> obj_key x = obj_key c"
  proof (intro ballI impI)
    fix x
    assume "x \<in> set (w_cms w)" and "is_upgrader (om_ns pb) x"
    then have "x \<in> set (filter (is_upgrader (om_ns pb)) (w_cms w))" by simp
    with assms(4) show "obj_key x = obj_key c" by simp
  qed
qed

theorem finished_run_is_not_resumed_witness:
  "fst (findPendingUpgrade (ex_binding ''v2'') (snd (finishUpgrade ex_run None (ex_world 1 0)))) = Inr None"
proof -
  obtain r w' where f: "finishUpgrade ex_run None (ex_world 1 0) = (r, w')"
    by (cases "finishUpgrade ex_run None (ex_world 1 0)")
  have "filter (is_upgrader (om_ns (ex_binding ''v2''))) (w_cms (ex_world 1 0)) = [ex_run]"
    by (simp add: ex_listed)
  from finished_run_is_not_resumed [OF _ _ _ this f] f show ?thesis by (simp add: ex_world_ready)
qed

text \<open>
  What a reconcile resumes was meant for it, whatever calls fail: the ConfigMap is an
  upgrader one of the binding's namespace, is labelled with the binding's version, is
  pending, carries the binding's force-upgrade annotation, and its targets are those its
  annotation text holds. The lookup writes nothing.
\<close>

theorem findPendingUpgrade_sound:
  assumes "findPendingUpgrade pb w = (Inr (Some (c, ts)), w')"
  shows "c \<in> set (w_cms w) \<and> is_upgrader (om_ns pb) c \<and> run_matches pb c \<and>
     (\<exists>raw. om_annots c UpgradeTargetsAnnotation = Some raw \<and> unmarshal_targets raw = Inr ts) \<and>
     w_cms w' = w_cms w \<and> w_mws w' = w_mws w"
proof -
  obtain fs where
    f: "first_run pb (filter (is_upgrader (om_ns pb)) (w_cms w)) = Inr (Some (c, ts))"
    and w': "w' = w\<lparr>w_faults := fs\<rparr>"
  proof (cases rule: cmk.list_cases [of "is_upgrader (om_ns pb)" w])
    case (listed fs)
    with assms show thesis by (intro that) (auto simp: findPendingUpgrade_def bindM_run liftM_run cmaps_def)
  next
    case (failed e fs)
    with assms show thesis by (simp add: findPendingUpgrade_def bindM_run)
  qed
  from f have "List.find (resumable pb) (filter (is_upgrader (om_ns pb)) (w_cms w)) = Some c"
    and "unmarshal_targets (zstr (om_annots c UpgradeTargetsAnnotation)) = Inr ts"
    by (auto simp: first_run_find split: option.splits sum.splits)
  with w' show ?thesis by (fastforce simp: resumable_def dest: find_SomeD)
qed

theorem findPendingUpgrade_sound_witness:
  "run_matches (ex_binding ''v2'') ex_run \<and> is_upgrader ''c1'' ex_run"
  using findPendingUpgrade_sound [OF ex_found] by (simp add: ex_binding_def)

end
