(* ===== verification/UpgradeApply.thy ===== *)
theory UpgradeApply
  imports FakeApi UpgradeRun
begin

text \<open>
  Applying an upgrade (\<open>upgrader.go\<close>): the charts of the target version are rendered on a
  fake server, the HelmReleases in the ManifestWorks of the cluster are rewritten to it, the
  generations that will prove the rewrite reached the spoke are derived, and the run is
  recorded. \<open>UpgradeCluster\<close> is one reconcile's step: observe the run that is there, or
  apply a new one. The loops of \<open>applyUpgrade\<close> are split at their bodies.
\<close>

section \<open>What changed, and what to wait for\<close>

definition specChanged :: "hr_codec \<Rightarrow> raw \<Rightarrow> hrspec \<Rightarrow> gerr + bool" where
  "specChanged C oldManifest newSpec =
     bindE (hc_dec C oldManifest) (\<lambda>oldHR.
     bindE (hc_spec C (hr_spec oldHR)) (\<lambda>oldMap.
     bindE (hc_spec C newSpec) (\<lambda>newMap.
       Inr (pruneNulls (JObj oldMap) \<noteq> pruneNulls (JObj newMap)))))"

definition newUpgradeTarget :: "manifestwork \<Rightarrow> helmrelease \<Rightarrow> bool \<Rightarrow> upgrade_target" where
  "newUpgradeTarget mw hr changed =
     (let minGeneration = helmReleaseGeneration mw (om_ns hr) (om_name hr) in
      \<lparr> ut_mw_ns = om_ns mw, ut_mw_name = om_name mw, ut_hr_ns = om_ns hr, ut_hr_name = om_name hr,
        ut_min_gen = (if changed then minGeneration + 1 else minGeneration) \<rparr>)"

section \<open>Rewriting a HelmRelease\<close>

text \<open>\<open>hr.Spec.Chart.Spec.Version = v\<close>, through a pointer that may be nil.\<close>

definition set_version :: "string \<Rightarrow> hrspec \<Rightarrow> gerr + hrspec" where
  "set_version v s =
     (case hs_chart s of
        None \<Rightarrow> Inl (GoPanic ''nil pointer dereference'')
      | Some c \<Rightarrow> Inr (s\<lparr>hs_chart := Some (c\<lparr>hc_version := v\<rparr>)\<rparr>))"

text \<open>The release of the opscenter-features chart itself.\<close>

definition upgrade_core_spec ::
  "profile \<Rightarrow> binding \<Rightarrow> jmap \<Rightarrow> hrspec \<Rightarrow> gerr + hrspec" where
  "upgrade_core_spec pr pb mergedValues s =
     bindE (set_version (bs_version (pb_spec pb)) s) (\<lambda>s.
       Inr (s\<lparr>hs_values_from := FeatureValuesFrom ChartOpscenterFeatures pr (Some pb),
              hs_values := Some (Text (JObj mergedValues))\<rparr>))"

text \<open>
  The values of a feature: those of the binding replace everything; without them, the
  profile's are merged over the Feature's and the target chart's own. The second component
  is \<open>skipManagedClusterSetProfileValues\<close>.
\<close>

definition opt_fspec_values :: "fspec option \<Rightarrow> raw option" where
  "opt_fspec_values s = (case s of None \<Rightarrow> None | Some s' \<Rightarrow> fs_values s')"

definition user_values :: "profile \<Rightarrow> binding \<Rightarrow> string \<Rightarrow> gerr + jmap option \<times> bool" where
  "user_values pr pb n =
     (case opt_fspec_values (map_of (bs_features (pb_spec pb)) n) of
        Some raw \<Rightarrow> bindE (unmarshal_map raw None) (\<lambda>v. Inr (v, True))
      | None \<Rightarrow>
          (case fs_values (fspec_at (pr_features pr) n) of
             None \<Rightarrow> Inr (None, False)
           | Some raw \<Rightarrow> bindE (unmarshal_map raw None) (\<lambda>v. Inr (v, False))))"

definition opt_values :: "raw option \<Rightarrow> gerr + jmap option" where
  "opt_values r = (case r of None \<Rightarrow> Inr None | Some raw \<Rightarrow> unmarshal_map raw None)"

definition final_values ::
  "jmap \<Rightarrow> string \<Rightarrow> jmap option \<Rightarrow> jmap option \<times> bool \<Rightarrow> gerr + jmap option" where
  "final_values chartValues n featureValues uv =
     (if snd uv then Inr (fst uv)
      else bindE (GetFeatureHelmReleaseValues chartValues n) (\<lambda>chartDefaults.
        Inr (Some (MergeMaps (MergeMaps (of_nil chartDefaults) (of_nil featureValues)) (of_nil (fst uv))))))"

text \<open>The chart of the Feature, with the namespace the profile sets.\<close>

definition feature_chart :: "profile \<Rightarrow> feature \<Rightarrow> chartinfo" where
  "feature_chart pr ft =
     (case map_of (pr_features pr) (om_name ft) of
        Some s \<Rightarrow>
          if ch_name (fs_chart s) \<noteq> ''''
          then (ft_chart ft)\<lparr>ch_ns := ch_ns (fs_chart s), ch_create_ns := ch_create_ns (fs_chart s)\<rparr>
          else ft_chart ft
      | None \<Rightarrow> ft_chart ft)"

definition place_release :: "chartinfo \<Rightarrow> hrspec \<Rightarrow> hrspec" where
  "place_release ch s =
     (let s = (if ch_ns ch \<noteq> '''' then s\<lparr>hs_target_ns := ch_ns ch, hs_storage_ns := ch_ns ch\<rparr> else s)
      in case hs_install s of
           None \<Rightarrow> s
         | Some i \<Rightarrow> s\<lparr>hs_install := Some (i\<lparr>hi_create_ns := ch_create_ns ch\<rparr>)\<rparr>)"

definition upgrade_feature_spec ::
  "'f fakeenv \<Rightarrow> 'f \<Rightarrow> profile \<Rightarrow> binding \<Rightarrow> jmap \<Rightarrow> string \<Rightarrow> hrspec \<Rightarrow> gerr + hrspec" where
  "upgrade_feature_spec E f pr pb chartValues n s =
     bindE (user_values pr pb n) (\<lambda>uv.
     bindE (fe_feature E f n) (\<lambda>ft.
     bindE (opt_values (ft_values ft)) (\<lambda>featureValues.
     bindE (final_values chartValues n featureValues uv) (\<lambda>finalValues.
       let ch = feature_chart pr ft;
           s = (case finalValues of None \<Rightarrow> s | Some v \<Rightarrow> s\<lparr>hs_values := Some (Text (JObj v))\<rparr>)
       in bindE (set_version (ch_version ch) s) (\<lambda>s. Inr (place_release ch s))))))"

section \<open>Rewriting a ManifestWork\<close>

text \<open>The state of the upgrade: the ConfigMap's data and the targets so far.\<close>

type_synonym progress = "strmap \<times> upgrade_target list"

text \<open>
  A release already decoded and rewritten goes back into its manifest; its target is derived
  from the ManifestWork's status, and the feedback rules are installed.
\<close>

definition replace_release ::
  "hr_codec \<Rightarrow> raw \<Rightarrow> helmrelease \<Rightarrow> manifestwork \<Rightarrow> progress
     \<Rightarrow> gerr + raw \<times> manifestwork \<times> progress" where
  "replace_release C m hr mw p =
     bindE (specChanged C m (hr_spec hr)) (\<lambda>changed.
     bindE (hc_enc C hr) (\<lambda>manifest.
       Inr (manifest,
            ensureHelmReleaseFeedbackRules mw (om_ns hr) (om_name hr),
            ((fst p)(om_name hr \<mapsto> ConditionFalse), snd p @ [newUpgradeTarget mw hr changed]))))"

text \<open>Which manifests the feature loop rewrites: the component releases but the core one.\<close>

definition is_component :: "helmrelease \<Rightarrow> bool" where
  "is_component hr \<longleftrightarrow> om_labels hr ''app.kubernetes.io/component'' = Some (om_name hr)"

definition upgrade_manifest ::
  "'f fakeenv \<Rightarrow> 'f \<Rightarrow> profile \<Rightarrow> binding \<Rightarrow> jmap \<Rightarrow> raw \<Rightarrow> manifestwork \<Rightarrow> progress
     \<Rightarrow> gerr + raw \<times> manifestwork \<times> progress" where
  "upgrade_manifest E f pr pb chartValues m mw p =
     bindE (manifest_id m) (\<lambda>(kind, name, ns).
       if kind \<noteq> HelmReleaseKind \<or> name = ChartOpscenterFeatures then Inr (m, mw, p)
       else bindE (hc_dec (fe_codec E) m) (\<lambda>hr.
         if \<not> is_component hr then Inr (m, mw, p)
         else bindE (upgrade_feature_spec E f pr pb chartValues (om_name hr) (hr_spec hr)) (\<lambda>s.
           replace_release (fe_codec E) m (hr\<lparr>hr_spec := s\<rparr>) mw p)))"

fun upgrade_manifests ::
  "'f fakeenv \<Rightarrow> 'f \<Rightarrow> profile \<Rightarrow> binding \<Rightarrow> jmap \<Rightarrow> raw list \<Rightarrow> manifestwork \<Rightarrow> progress
     \<Rightarrow> gerr + raw list \<times> manifestwork \<times> progress" where
  "upgrade_manifests E f pr pb chartValues [] mw p = Inr ([], mw, p)"
| "upgrade_manifests E f pr pb chartValues (m # ms) mw p =
     bindE (upgrade_manifest E f pr pb chartValues m mw p) (\<lambda>(m', mw', p').
     bindE (upgrade_manifests E f pr pb chartValues ms mw' p') (\<lambda>(ms', mw'', p'').
       Inr (m' # ms', mw'', p'')))"

section \<open>The two loops\<close>

text \<open>\<open>in.Data = configMap.Data\<close>, the transformation of the second write.\<close>

definition with_data :: "configmap \<Rightarrow> configmap \<Rightarrow> configmap" where
  "with_data configMap cur = cur\<lparr>cm_data := cm_data configMap\<rparr>"

definition store_step :: "manifestwork \<Rightarrow> configmap \<Rightarrow> configmap kc" where
  "store_step mw configMap =
     bindM (CreateOrPatch works mw (with_spec mw)) (\<lambda>_.
       CreateOrPatch cmaps configMap (with_data configMap))"

text \<open>The first manifest named opscenter-features, whatever its kind.\<close>

fun core_manifest :: "raw list \<Rightarrow> nat \<Rightarrow> gerr + (nat \<times> raw) option" where
  "core_manifest [] i = Inr None"
| "core_manifest (m # ms) i =
     bindE (manifest_id m) (\<lambda>(kind, name, ns).
       if name = ChartOpscenterFeatures then Inr (Some (i, m)) else core_manifest ms (Suc i))"

definition rewrite_core ::
  "hr_codec \<Rightarrow> profile \<Rightarrow> binding \<Rightarrow> jmap \<Rightarrow> manifestwork \<Rightarrow> nat \<times> raw \<Rightarrow> strmap
     \<Rightarrow> gerr + manifestwork \<times> progress" where
  "rewrite_core C pr pb mergedValues mw im d =
     bindE (hc_dec C (snd im)) (\<lambda>hr.
     bindE (upgrade_core_spec pr pb mergedValues (hr_spec hr)) (\<lambda>s.
     bindE (replace_release C (snd im) (hr\<lparr>hr_spec := s\<rparr>) mw (d, [])) (\<lambda>(m', mw', p).
       Inr (mw'\<lparr>mw_manifests := (mw_manifests mw')[fst im := m']\<rparr>, p))))"

definition upgrade_core ::
  "hr_codec \<Rightarrow> profile \<Rightarrow> binding \<Rightarrow> jmap \<Rightarrow> manifestwork \<Rightarrow> configmap
     \<Rightarrow> (configmap \<times> upgrade_target list) kc" where
  "upgrade_core C pr pb mergedValues mw configMap =
     bindM (liftM (core_manifest (mw_manifests mw) 0)) (\<lambda>found.
       case found of
         None \<Rightarrow> ret (configMap, [])
       | Some im \<Rightarrow>
           bindM (liftM (rewrite_core C pr pb mergedValues mw im (cm_data configMap))) (\<lambda>(mw', d, ts).
           bindM (store_step mw' (configMap\<lparr>cm_data := d\<rparr>)) (\<lambda>c.
             ret (c, ts))))"

text \<open>A feature set whose chart is not found renders from no chart values.\<close>

definition chart_values_or_none :: "'f fakeenv \<Rightarrow> 'f \<Rightarrow> string \<Rightarrow> gerr + jmap" where
  "chart_values_or_none E f n =
     (case GetFeatureSetChartValues E f n of
        Inl e \<Rightarrow> if is_not_found e then Inr fmempty else Inl e
      | Inr v \<Rightarrow> Inr v)"

definition rewrite_work ::
  "'f fakeenv \<Rightarrow> 'f \<Rightarrow> profile \<Rightarrow> binding \<Rightarrow> manifestwork \<Rightarrow> progress \<Rightarrow> gerr + manifestwork \<times> progress" where
  "rewrite_work E f pr pb mw p =
     bindE (chart_values_or_none E f (om_name mw)) (\<lambda>chartValues.
     bindE (upgrade_manifests E f pr pb chartValues (mw_manifests mw) mw p) (\<lambda>(ms, mw', p').
       Inr (mw'\<lparr>mw_manifests := ms\<rparr>, p')))"

definition upgrade_work ::
  "'f fakeenv \<Rightarrow> 'f \<Rightarrow> profile \<Rightarrow> binding \<Rightarrow> configmap \<times> upgrade_target list \<Rightarrow> manifestwork
     \<Rightarrow> (configmap \<times> upgrade_target list) kc" where
  "upgrade_work E f pr pb ct mw =
     (if \<not> is_managed mw then ret ct
      else bindM (liftM (rewrite_work E f pr pb mw (cm_data (fst ct), snd ct))) (\<lambda>(mw', d, ts).
           bindM (store_step mw' ((fst ct)\<lparr>cm_data := d\<rparr>)) (\<lambda>c. ret (c, ts))))"

section \<open>Applying the upgrade\<close>

text \<open>\<open>InstallOpscenterFeaturesOnFakeServer\<close> of the upgrader.\<close>

definition install_for_upgrade ::
  "'f fakeenv \<Rightarrow> jmap option \<Rightarrow> clusterinfo \<Rightarrow> chartref \<Rightarrow> ('f, jmap option) prog" where
  "install_for_upgrade E overrides ci chartRef =
     bindM (liftM (GetOverrideValues overrides (Some ci))) (\<lambda>overrides.
     bindM (InstallOpscenterFeatures E (marshal_map overrides) (Some chartRef)) (\<lambda>_.
       ret overrides))"

definition binding_values :: "binding \<Rightarrow> gerr + jmap option" where
  "binding_values pb =
     (case fs_values (fspec_at (bs_features (pb_spec pb)) ChartOpscenterFeatures) of
        None \<Rightarrow> Inl (ErrText ''no values found in profileBinding'')
      | Some raw \<Rightarrow>
          (case unmarshal_map raw None of
             Inl e \<Rightarrow> Inl (ErrWrap ''failed to unmarshal JSON'' e)
           | Inr m \<Rightarrow> Inr m))"

definition upgrade_chart :: "'f fakeenv \<Rightarrow> 'f \<Rightarrow> binding \<Rightarrow> chartref" where
  "upgrade_chart E f pb =
     \<lparr> cr_name = ChartOpscenterFeatures, cr_version = bs_version (pb_spec pb), cr_source = fe_repo E f \<rparr>"

text \<open>Everything before the first write to the hub; yields the merged values.\<close>

definition prepare_upgrade :: "'f fakeenv \<Rightarrow> binding \<Rightarrow> ('f, jmap) run" where
  "prepare_upgrade E pb =
     bindM (StartFakeApiServerAndApplyBaseManifestWorkReplicaSets E pb) (\<lambda>_.
     bindM (asks (\<lambda>f. Inr (upgrade_chart E f pb))) (\<lambda>chartRef.
     bindM (liftM (binding_values pb)) (\<lambda>overrides.
     bindM (onfake (install_for_upgrade E overrides (bs_cluster (pb_spec pb)) chartRef)) (\<lambda>overrides.
     bindM (onfake (RegisterRequiredCRDs E pb)) (\<lambda>_.
     bindM (asks (\<lambda>f. GetDefaultValues E f chartRef)) (\<lambda>defaultValues.
       ret (MergeMaps defaultValues (of_nil overrides))))))))"

definition finish_apply :: "binding \<Rightarrow> configmap \<times> upgrade_target list \<Rightarrow> ctrl_result kc" where
  "finish_apply pb ct =
     (if snd ct = [] then bindM (finishUpgrade (fst ct) None) (\<lambda>_. ret Result_zero)
      else bindM (recordPendingUpgrade (fst ct) (snd ct) (zstr (om_annots pb UpgradeAnnotation))) (\<lambda>_.
             ret (Result_after helmReleaseReadyPollInterval)))"

definition write_upgrade ::
  "'f fakeenv \<Rightarrow> 'f \<Rightarrow> profile \<Rightarrow> binding \<Rightarrow> jmap \<Rightarrow> ctrl_result kc" where
  "write_upgrade E f pr pb mergedValues =
     bindM (api_get works (om_ns pb, ''opscenter-core'')) (\<lambda>mw.
     bindM (createConfigMapInSpokeClusterNamespace (fe_codec E) (bs_version (pb_spec pb)) (om_ns pb)) (\<lambda>configMap.
     bindM (upgrade_core (fe_codec E) pr pb mergedValues mw configMap) (\<lambda>ct.
     bindM (api_list works (\<lambda>mw. om_ns mw = om_ns pb)) (\<lambda>mws.
     bindM (foldM (upgrade_work E f pr pb) ct mws) (\<lambda>ct.
       finish_apply pb ct)))))"

definition applyUpgrade :: "'f fakeenv \<Rightarrow> binding \<Rightarrow> profile \<Rightarrow> ('f, ctrl_result) run" where
  "applyUpgrade E pb pr =
     bindM (prepare_upgrade E pb) (\<lambda>mergedValues.
     bindM (asks Inr) (\<lambda>f.
       onhub (write_upgrade E f pr pb mergedValues)))"

definition UpgradeCluster :: "'f fakeenv \<Rightarrow> binding \<Rightarrow> profile \<Rightarrow> ('f, ctrl_result) run" where
  "UpgradeCluster E pb pr =
     bindM (onhub (findPendingUpgrade pb)) (\<lambda>found.
       case found of
         Some (configMap, targets) \<Rightarrow> onhub (observeUpgrade configMap targets)
       | None \<Rightarrow> applyUpgrade E pb pr)"

section \<open>Targets\<close>

lemma newUpgradeTarget_simps [simp]:
  "ut_mw_ns (newUpgradeTarget mw hr b) = om_ns mw" "ut_mw_name (newUpgradeTarget mw hr b) = om_name mw"
  "ut_hr_ns (newUpgradeTarget mw hr b) = om_ns hr" "ut_hr_name (newUpgradeTarget mw hr b) = om_name hr"
  "ut_min_gen (newUpgradeTarget mw hr b) =
     (if b then helmReleaseGeneration mw (om_ns hr) (om_name hr) + 1
      else helmReleaseGeneration mw (om_ns hr) (om_name hr))"
  by (simp_all add: newUpgradeTarget_def Let_def)

lemma sint_succ:
  fixes g :: int64
  assumes "sint g < 2 ^ 63 - 1"
  shows "sint (g + 1) = sint g + 1"
proof -
  have "- (2 ^ 63) \<le> sint g" using sint_ge [of g] by simp
  with assms show ?thesis by (simp add: sint_word_ariths signed_take_bit_int_eq_self)
qed

lemma sless_succ: "sint g < 2 ^ 63 - 1 \<Longrightarrow> \<not> g + 1 \<le>s (g :: int64)"
  by (simp add: word_sle_eq sint_succ)

lemma ready_needs_generation:
  "helmReleaseReady mw t \<Longrightarrow> ut_min_gen t \<le>s helmReleaseGeneration mw (ut_hr_ns t) (ut_hr_name t)"
  by (rule helmReleaseReady_generation)

section \<open>Values\<close>


lemma set_version_Inr:
  "set_version v s = Inr s' \<longleftrightarrow> (\<exists>c. hs_chart s = Some c \<and> s' = s\<lparr>hs_chart := Some (c\<lparr>hc_version := v\<rparr>)\<rparr>)"
  by (auto simp: set_version_def split: option.splits)

lemma place_release_simps [simp]:
  "hs_chart (place_release ch s) = hs_chart s" "hs_values (place_release ch s) = hs_values s"
  "hs_values_from (place_release ch s) = hs_values_from s" "hs_depends (place_release ch s) = hs_depends s"
  "hs_rest (place_release ch s) = hs_rest s"
  by (simp_all add: place_release_def Let_def split: option.split)

text \<open>The version a release of a feature carries after the rewrite.\<close>

definition carries_version :: "string \<Rightarrow> hrspec \<Rightarrow> bool" where
  "carries_version v s \<longleftrightarrow> (\<exists>c. hs_chart s = Some c \<and> hc_version c = v)"

lemma feature_chart_version [simp]: "ch_version (feature_chart pr ft) = ch_version (ft_chart ft)"
  by (simp add: feature_chart_def split: option.split)

lemma upgrade_feature_spec_Inr:
  assumes "upgrade_feature_spec E f pr pb chartValues n s = Inr s'"
  obtains ft uv featureValues v c where
    "fe_feature E f n = Inr ft" "user_values pr pb n = Inr uv" "opt_values (ft_values ft) = Inr featureValues"
    "final_values chartValues n featureValues uv = Inr v" "hs_chart s = Some c"
    "s' = place_release (feature_chart pr ft)
       ((case v of None \<Rightarrow> s | Some m \<Rightarrow> s\<lparr>hs_values := Some (Text (JObj m))\<rparr>)
         \<lparr>hs_chart := Some (c\<lparr>hc_version := ch_version (ft_chart ft)\<rparr>)\<rparr>)"
  using assms
  by (auto simp: upgrade_feature_spec_def bindE_Inr_iff set_version_Inr Let_def split: option.splits)

lemma upgrade_feature_spec_version:
  "upgrade_feature_spec E f pr pb chartValues n s = Inr s' \<Longrightarrow> fe_feature E f n = Inr ft \<Longrightarrow>
     carries_version (ch_version (ft_chart ft)) s'"
  by (erule upgrade_feature_spec_Inr) (simp add: carries_version_def)

section \<open>Rewriting a ManifestWork\<close>

lemma ensure_simps [simp]:
  "mw_manifests (ensureHelmReleaseFeedbackRules mw ns n) = mw_manifests mw"
  "mw_status (ensureHelmReleaseFeedbackRules mw ns n) = mw_status mw"
  "om_name (ensureHelmReleaseFeedbackRules mw ns n) = om_name mw"
  "om_ns (ensureHelmReleaseFeedbackRules mw ns n) = om_ns mw"
  "om_labels (ensureHelmReleaseFeedbackRules mw ns n) = om_labels mw"
  by (simp_all add: ensureHelmReleaseFeedbackRules_def split: option.split)

lemma ensure_installs: "rules_installed (ensureHelmReleaseFeedbackRules mw ns n) ns n"
proof (cases "set_rules ns n (mw_configs mw)")
  case None
  then have "List.find (is_release_config ns n) (mw_configs mw) = None"
    by (simp add: set_rules_None find_None_iff_all)
  then have "List.find (is_release_config ns n) (mw_configs mw @ [release_config ns n]) = Some (release_config ns n)"
    by (simp add: find_append)
  with None show ?thesis
    by (simp add: rules_installed_def ensureHelmReleaseFeedbackRules_def release_config_def)
next
  case (Some cs)
  with set_rules_find [OF Some] show ?thesis
    by (auto simp: rules_installed_def ensureHelmReleaseFeedbackRules_def)
qed


text \<open>The rules of another release stay where they are.\<close>

lemma ensure_other:
  assumes "(ns', n') \<noteq> (ns, n)"
  shows "List.find (is_release_config ns' n') (mw_configs (ensureHelmReleaseFeedbackRules mw ns n)) =
     List.find (is_release_config ns' n') (mw_configs mw)"
proof (cases "set_rules ns n (mw_configs mw)")
  case None
  with assms show ?thesis
    by (auto simp: ensureHelmReleaseFeedbackRules_def find_append split: option.split)
next
  case (Some cs)
  from set_rules_find_other [OF Some assms] Some show ?thesis by (simp add: ensureHelmReleaseFeedbackRules_def)
qed

lemma rules_installed_ensure:
  "rules_installed mw ns n \<Longrightarrow> rules_installed (ensureHelmReleaseFeedbackRules mw ns' n') ns n"
proof (cases "(ns, n) = (ns', n')")
  case True
  then show ?thesis using ensure_installs by simp
next
  case False
  then show "rules_installed mw ns n \<Longrightarrow> ?thesis" by (simp add: rules_installed_def ensure_other)
qed

lemma ensure_idem:
  "ensureHelmReleaseFeedbackRules (ensureHelmReleaseFeedbackRules mw ns n) ns n = ensureHelmReleaseFeedbackRules mw ns n"
proof (cases "set_rules ns n (mw_configs mw)")
  case None
  from set_rules_append_new [OF None] None show ?thesis by (simp add: ensureHelmReleaseFeedbackRules_def)
next
  case (Some cs)
  from set_rules_twice [OF Some] Some show ?thesis by (simp add: ensureHelmReleaseFeedbackRules_def)
qed

lemma replace_release_Inr:
  "replace_release C m hr mw p = Inr (m', mw', p') \<longleftrightarrow>
     (\<exists>b. specChanged C m (hr_spec hr) = Inr b \<and> hc_enc C hr = Inr m' \<and>
        mw' = ensureHelmReleaseFeedbackRules mw (om_ns hr) (om_name hr) \<and>
        p' = ((fst p)(om_name hr \<mapsto> ConditionFalse), snd p @ [newUpgradeTarget mw hr b]))"
  by (auto simp: replace_release_def bindE_Inr_iff)

text \<open>
  What one pass over a ManifestWork keeps: its identity and status; and what it adds: targets
  of this ManifestWork whose releases are marked not ready and reported by the agent.
\<close>

definition pass_ok :: "manifestwork \<Rightarrow> progress \<Rightarrow> manifestwork \<Rightarrow> progress \<Rightarrow> bool" where
  "pass_ok mw p mw' p' \<longleftrightarrow>
     obj_key mw' = obj_key mw \<and> mw_status mw' = mw_status mw \<and> om_labels mw' = om_labels mw \<and>
     mw_manifests mw' = mw_manifests mw \<and>
     (\<exists>new. snd p' = snd p @ new \<and>
        (\<forall>t \<in> set new. ut_mw_ns t = om_ns mw \<and> ut_mw_name t = om_name mw \<and>
           rules_installed mw' (ut_hr_ns t) (ut_hr_name t) \<and> fst p' (ut_hr_name t) = Some ConditionFalse) \<and>
        (\<forall>k. fst p' k \<noteq> fst p k \<longrightarrow> fst p' k = Some ConditionFalse \<and> k \<in> ut_hr_name ` set new)) \<and>
     (\<forall>ns n. rules_installed mw ns n \<longrightarrow> rules_installed mw' ns n)"

lemma pass_ok_refl: "pass_ok mw p mw p"
  by (simp add: pass_ok_def)

lemma pass_ok_trans:
  assumes "pass_ok mw p mw1 p1" and "pass_ok mw1 p1 mw2 p2"
  shows "pass_ok mw p mw2 p2"
proof -
  from assms(1) obtain n1 where n1: "snd p1 = snd p @ n1"
      "\<forall>t \<in> set n1. ut_mw_ns t = om_ns mw \<and> ut_mw_name t = om_name mw \<and>
         rules_installed mw1 (ut_hr_ns t) (ut_hr_name t) \<and> fst p1 (ut_hr_name t) = Some ConditionFalse"
      "\<forall>k. fst p1 k \<noteq> fst p k \<longrightarrow> fst p1 k = Some ConditionFalse \<and> k \<in> ut_hr_name ` set n1"
    unfolding pass_ok_def by blast
  from assms(2) obtain n2 where n2: "snd p2 = snd p1 @ n2"
      "\<forall>t \<in> set n2. ut_mw_ns t = om_ns mw1 \<and> ut_mw_name t = om_name mw1 \<and>
         rules_installed mw2 (ut_hr_ns t) (ut_hr_name t) \<and> fst p2 (ut_hr_name t) = Some ConditionFalse"
      "\<forall>k. fst p2 k \<noteq> fst p1 k \<longrightarrow> fst p2 k = Some ConditionFalse \<and> k \<in> ut_hr_name ` set n2"
    unfolding pass_ok_def by blast
  have key: "om_ns mw1 = om_ns mw \<and> om_name mw1 = om_name mw"
    using assms(1) by (simp add: pass_ok_def obj_key_def)
  have r: "rules_installed mw1 ns n \<Longrightarrow> rules_installed mw2 ns n" for ns n
    using assms(2) by (simp add: pass_ok_def)
  have "\<exists>new. snd p2 = snd p @ new \<and>
        (\<forall>t \<in> set new. ut_mw_ns t = om_ns mw \<and> ut_mw_name t = om_name mw \<and>
           rules_installed mw2 (ut_hr_ns t) (ut_hr_name t) \<and> fst p2 (ut_hr_name t) = Some ConditionFalse) \<and>
        (\<forall>k. fst p2 k \<noteq> fst p k \<longrightarrow> fst p2 k = Some ConditionFalse \<and> k \<in> ut_hr_name ` set new)"
  proof (intro exI [of _ "n1 @ n2"] conjI ballI allI impI)
    show "snd p2 = snd p @ n1 @ n2" using n1(1) n2(1) by simp
    fix t
    assume t: "t \<in> set (n1 @ n2)"
    then show "ut_mw_ns t = om_ns mw" "ut_mw_name t = om_name mw" "rules_installed mw2 (ut_hr_ns t) (ut_hr_name t)"
      using n1(2) n2(2) key r by auto
    show "fst p2 (ut_hr_name t) = Some ConditionFalse" using t n1(2) n2(2,3) by (metis set_append UnE)
  next
    fix k
    assume "fst p2 k \<noteq> fst p k"
    then show "fst p2 k = Some ConditionFalse" "k \<in> ut_hr_name ` set (n1 @ n2)"
      using n1(3) n2(3) by (metis, metis image_Un set_append UnCI)
  qed
  with assms r show ?thesis unfolding pass_ok_def by (intro conjI) auto
qed

lemma replace_release_ok:
  assumes "replace_release C m hr mw p = Inr (m', mw', p')"
  shows "pass_ok mw p mw' p'"
proof -
  from assms obtain b where
    mw': "mw' = ensureHelmReleaseFeedbackRules mw (om_ns hr) (om_name hr)"
    and p': "p' = ((fst p)(om_name hr \<mapsto> ConditionFalse), snd p @ [newUpgradeTarget mw hr b])"
    by (auto simp: replace_release_Inr)
  show ?thesis
    unfolding pass_ok_def mw' p'
    by (intro conjI exI [of _ "[newUpgradeTarget mw hr b]"])
      (auto simp: obj_key_def ensure_installs rules_installed_ensure)
qed

lemma upgrade_manifest_ok:
  assumes "upgrade_manifest E f pr pb cv m mw p = Inr (m', mw', p')"
  shows "pass_ok mw p mw' p'"
proof -
  from assms consider "mw' = mw" "p' = p"
    | hr where "replace_release (fe_codec E) m hr mw p = Inr (m', mw', p')"
    by (auto simp: upgrade_manifest_def bindE_Inr_iff split: if_splits prod.splits)
  then show ?thesis by cases (auto intro: pass_ok_refl replace_release_ok)
qed

lemma upgrade_manifests_ok:
  "upgrade_manifests E f pr pb cv ms mw p = Inr (ms', mw', p') \<Longrightarrow>
     pass_ok mw p mw' p' \<and> length ms' = length ms"
proof (induction ms arbitrary: mw p ms')
  case Nil
  then show ?case by (simp add: pass_ok_refl)
next
  case (Cons m ms)
  then obtain m1 mw1 p1 ms1 where
    "upgrade_manifest E f pr pb cv m mw p = Inr (m1, mw1, p1)"
    "upgrade_manifests E f pr pb cv ms mw1 p1 = Inr (ms1, mw', p')" "ms' = m1 # ms1"
    by (auto simp: bindE_Inr_iff)
  with Cons.IH [of mw1 p1 ms1] pass_ok_trans [OF upgrade_manifest_ok] show ?case by fastforce
qed


text \<open>What becomes of one manifest.\<close>

definition rewritten :: "'f fakeenv \<Rightarrow> 'f \<Rightarrow> raw \<Rightarrow> raw \<Rightarrow> bool" where
  "rewritten E f m m' \<longleftrightarrow>
     (\<exists>hr ft s. hc_dec (fe_codec E) m = Inr hr \<and> is_component hr \<and> fe_feature E f (om_name hr) = Inr ft \<and>
        carries_version (ch_version (ft_chart ft)) s \<and> hc_enc (fe_codec E) (hr\<lparr>hr_spec := s\<rparr>) = Inr m')"

definition feature_manifest :: "'f fakeenv \<Rightarrow> raw \<Rightarrow> bool" where
  "feature_manifest E m \<longleftrightarrow>
     (case manifest_id m of
        Inr (kind, name, ns) \<Rightarrow> kind = HelmReleaseKind \<and> name \<noteq> ChartOpscenterFeatures \<and>
          (case hc_dec (fe_codec E) m of Inr hr \<Rightarrow> is_component hr | Inl e \<Rightarrow> False)
      | Inl e \<Rightarrow> False)"

lemma upgrade_manifest_rewrites:
  assumes "upgrade_manifest E f pr pb cv m mw p = Inr (m', mw', p')"
  shows "if feature_manifest E m then rewritten E f m m' else m' = m"
proof -
  from assms obtain kind name ns where id: "manifest_id m = Inr (kind, name, ns)"
    by (auto simp: upgrade_manifest_def bindE_Inr_iff)
  show ?thesis
  proof (cases "kind \<noteq> HelmReleaseKind \<or> name = ChartOpscenterFeatures")
    case True
    with assms id show ?thesis by (auto simp: upgrade_manifest_def feature_manifest_def)
  next
    case False
    with assms id obtain hr where hr: "hc_dec (fe_codec E) m = Inr hr"
      by (auto simp: upgrade_manifest_def bindE_Inr_iff)
    show ?thesis
    proof (cases "is_component hr")
      case False
      with assms id hr \<open>\<not> (kind \<noteq> HelmReleaseKind \<or> name = ChartOpscenterFeatures)\<close> show ?thesis
        by (auto simp: upgrade_manifest_def feature_manifest_def)
    next
      case True
      with assms id hr \<open>\<not> (kind \<noteq> HelmReleaseKind \<or> name = ChartOpscenterFeatures)\<close> obtain s where
        s: "upgrade_feature_spec E f pr pb cv (om_name hr) (hr_spec hr) = Inr s"
        and r: "replace_release (fe_codec E) m (hr\<lparr>hr_spec := s\<rparr>) mw p = Inr (m', mw', p')"
        by (auto simp: upgrade_manifest_def bindE_Inr_iff)
      from s obtain ft where "fe_feature E f (om_name hr) = Inr ft"
        by (rule upgrade_feature_spec_Inr) blast
      with upgrade_feature_spec_version [OF s] r hr True have "rewritten E f m m'"
        by (auto simp: rewritten_def replace_release_Inr)
      then show ?thesis using id hr True \<open>\<not> (kind \<noteq> HelmReleaseKind \<or> name = ChartOpscenterFeatures)\<close>
        by (simp add: feature_manifest_def)
    qed
  qed
qed

lemma upgrade_manifests_rewrite:
  "upgrade_manifests E f pr pb cv ms mw p = Inr (ms', mw', p') \<Longrightarrow>
     list_all2 (\<lambda>m m'. if feature_manifest E m then rewritten E f m m' else m' = m) ms ms'"
proof (induction ms arbitrary: mw p ms')
  case Nil
  then show ?case by simp
next
  case (Cons m ms)
  then obtain m1 mw1 p1 ms1 where
    m: "upgrade_manifest E f pr pb cv m mw p = Inr (m1, mw1, p1)"
    and ms: "upgrade_manifests E f pr pb cv ms mw1 p1 = Inr (ms1, mw', p')" and "ms' = m1 # ms1"
    by (auto simp: bindE_Inr_iff)
  with Cons.IH [OF ms] upgrade_manifest_rewrites [OF m] show ?case by simp
qed


section \<open>Programs that only read the hub\<close>

definition reads_hub :: "('f, 'a) run \<Rightarrow> bool" where
  "reads_hub m \<longleftrightarrow> (\<forall>w f. \<exists>fs. fst (snd (m (w, f))) = w\<lparr>w_faults := fs\<rparr> \<and> (no_faults w \<longrightarrow> fs = w_faults w))"

lemma reads_hubI:
  "(\<And>w f. fst (snd (m (w, f))) = w) \<Longrightarrow> reads_hub m"
proof -
  assume "\<And>w f. fst (snd (m (w, f))) = w"
  moreover have "w = w\<lparr>w_faults := w_faults w\<rparr>" for w :: world by simp
  ultimately show ?thesis unfolding reads_hub_def by (intro allI exI conjI impI) (rule trans, assumption+, rule refl)
qed

lemma reads_hub_bind [intro]:
  assumes "reads_hub m" and "\<And>x. reads_hub (g x)"
  shows "reads_hub (bindM m g)"
  unfolding reads_hub_def
proof (intro allI)
  fix w f
  obtain fs where fs: "fst (snd (m (w, f))) = w\<lparr>w_faults := fs\<rparr>" "no_faults w \<longrightarrow> fs = w_faults w"
    using assms(1) by (auto simp: reads_hub_def)
  obtain r f1 where m: "m (w, f) = (r, (w\<lparr>w_faults := fs\<rparr>, f1))"
    using fs(1) by (metis prod.collapse)
  show "\<exists>fs. fst (snd (bindM m g (w, f))) = w\<lparr>w_faults := fs\<rparr> \<and> (no_faults w \<longrightarrow> fs = w_faults w)"
  proof (cases r)
    case (Inl e)
    with m fs show ?thesis by (auto simp: bindM_run)
  next
    case (Inr x)
    obtain fs' where fs': "fst (snd (g x (w\<lparr>w_faults := fs\<rparr>, f1))) = w\<lparr>w_faults := fs\<rparr>\<lparr>w_faults := fs'\<rparr>"
        "no_faults (w\<lparr>w_faults := fs\<rparr>) \<longrightarrow> fs' = w_faults (w\<lparr>w_faults := fs\<rparr>)"
      using assms(2) [of x] unfolding reads_hub_def by blast
    with m Inr fs(2) show ?thesis
      by (intro exI [of _ fs']) (auto simp: bindM_run no_faults_def)
  qed
qed

lemma reads_hub_simps [intro]:
  "reads_hub (onfake p)" "reads_hub (asks q)" "reads_hub (liftM r)" "reads_hub (ret x)" "reads_hub (raise e)"
  "reads_hub (initializeFakeServer E pb)"
  by (rule reads_hubI, simp add: prog_simps initializeFakeServer_def split: prod.split sum.split)+

lemma reads_hub_get [intro]: "reads_hub (onhub (api_get replicasets k))"
  unfolding reads_hub_def
proof (intro allI)
  fix w :: world and f :: 'f
  show "\<exists>fs. fst (snd (onhub (api_get replicasets k) (w, f))) = w\<lparr>w_faults := fs\<rparr> \<and> (no_faults w \<longrightarrow> fs = w_faults w)"
  proof (cases "no_faults w")
    case True
    then show ?thesis by (intro exI [of _ "w_faults w"]) (simp add: prog_simps split: option.split)
  next
    case False
    then show ?thesis by (cases rule: rsk.get_cases [of k w]) (auto simp: prog_simps)
  qed
qed

lemma reads_hub_prepare: "reads_hub (prepare_upgrade E pb)"
  unfolding prepare_upgrade_def StartFakeApiServerAndApplyBaseManifestWorkReplicaSets_def
  by (intro reads_hub_bind reads_hub_simps reads_hub_get)

lemma prepare_hub:
  assumes "prepare_upgrade E pb (w, f) = (r, (w', f'))"
  obtains fs where "w' = w\<lparr>w_faults := fs\<rparr>" "no_faults w \<Longrightarrow> w' = w"
proof -
  obtain fs where fs: "fst (snd (prepare_upgrade E pb (w, f))) = w\<lparr>w_faults := fs\<rparr>" "no_faults w \<longrightarrow> fs = w_faults w"
    using reads_hub_prepare [of E pb, unfolded reads_hub_def, rule_format, of w f] by (elim exE conjE)
  from fs(1) assms have w': "w' = w\<lparr>w_faults := fs\<rparr>" by simp
  have "w' = w" if "no_faults w" using fs(2) that unfolding w' by simp
  with w' show thesis by (rule that)
qed

section \<open>The run an upgrade records\<close>

text \<open>What the typed codec must satisfy: decoding an encoded release gives it back.\<close>

definition codec_ok :: "hr_codec \<Rightarrow> bool" where
  "codec_ok C \<longleftrightarrow> (\<forall>hr m. hc_enc C hr = Inr m \<longrightarrow> hc_dec C m = Inr hr)"

lemma codec_okD: "codec_ok C \<Longrightarrow> hc_enc C hr = Inr m \<Longrightarrow> hc_dec C m = Inr hr"
  by (simp add: codec_ok_def)

text \<open>
  While an upgrade is written, its ConfigMap is the only upgrader one of the namespace, is
  labelled with the version and pending, and is stored as the program holds it.
\<close>

definition running :: "binding \<Rightarrow> configmap \<Rightarrow> world \<Rightarrow> bool" where
  "running pb c w \<longleftrightarrow>
     no_faults w \<and> keys_distinct (w_cms w) \<and> cm_at w (obj_key c) = Some c \<and>
     is_upgrader (om_ns pb) c \<and> (\<forall>x \<in> set (w_cms w). is_upgrader (om_ns pb) x \<longrightarrow> obj_key x = obj_key c) \<and>
     om_labels c ACEUpgraderVersion = Some (bs_version (pb_spec pb)) \<and>
     om_annots c UpgradeAnnotation = None \<and> cm_data c UpgradeStatusKey = Some UpgradeStatusPending"

lemma create_or_patch_works_no_faults:
  assumes "no_faults w"
  obtains x where "CreateOrPatch works mw (with_spec mw) w = (Inr x, w_mws_update (put_obj x) w)"
proof (cases "find_obj (obj_key mw) (w_mws w)")
  case None
  then have "obj_key (with_spec mw mw) = obj_key mw" by (simp add: with_spec_def obj_key_def)
  with None assms show thesis
    by (intro that [of "(with_spec mw mw)\<lparr>om_created := to_second (w_now w)\<rparr>"])
      (simp add: CreateOrPatch_run api_create_run works_def)
next
  case (Some cur)
  then have "obj_key (with_spec mw cur) = obj_key mw"
    using find_obj_key [OF Some] by (simp add: with_spec_def obj_key_def)
  with Some assms show thesis
    by (intro that [of "with_spec mw cur"]) (simp add: CreateOrPatch_run api_patch_run works_def)
qed

lemma store_step_running:
  assumes "running pb c w" and "d UpgradeStatusKey = Some UpgradeStatusPending"
  obtains w' where "store_step mw (c\<lparr>cm_data := d\<rparr>) w = (Inr (c\<lparr>cm_data := d\<rparr>), w')"
    "running pb (c\<lparr>cm_data := d\<rparr>) w'"
proof -
  let ?c = "c\<lparr>cm_data := d\<rparr>"
  from assms(1) have "no_faults w" by (simp add: running_def)
  then obtain x where x: "CreateOrPatch works mw (with_spec mw) w = (Inr x, w_mws_update (put_obj x) w)"
    by (rule create_or_patch_works_no_faults)
  let ?w = "w_mws_update (put_obj x) w"
  have "CreateOrPatch cmaps ?c (with_data ?c) ?w = (Inr ?c, w_cms_update (put_obj ?c) ?w)"
    using assms(1) by (simp add: running_def CreateOrPatch_present cmaps_def with_data_def)
  with x have s: "store_step mw ?c w = (Inr ?c, w_cms_update (put_obj ?c) ?w)"
    by (simp add: store_step_def bindM_run)
  have kd: "keys_distinct (w_cms w)" using assms(1) by (simp add: running_def)
  have "running pb ?c (w_cms_update (put_obj ?c) ?w)"
    using assms kube.items_put [OF kd] kube.inv_put [OF kd]
    by (auto simp: running_def kube.look_put is_upgrader_def)
  with s show thesis by (rule that)
qed

text \<open>
  The data of the ConfigMap has the status of the run under one key and the releases under
  their names, so a HelmRelease named like that key would overwrite it. A hub has none, for a
  namespace, if no HelmRelease of its ManifestWorks is named so.
\<close>

definition status_free :: "hr_codec \<Rightarrow> raw \<Rightarrow> bool" where
  "status_free C m \<longleftrightarrow>
     (case manifest_id m of
        Inl e \<Rightarrow> True
      | Inr (kind, name, ns) \<Rightarrow> kind = HelmReleaseKind \<or> name = ChartOpscenterFeatures \<longrightarrow>
          (case hc_dec C m of Inl e \<Rightarrow> True | Inr hr \<Rightarrow> om_name hr \<noteq> UpgradeStatusKey))"

abbreviation work_free :: "hr_codec \<Rightarrow> manifestwork \<Rightarrow> bool" where
  "work_free C mw \<equiv> list_all (status_free C) (mw_manifests mw)"

definition hub_free :: "hr_codec \<Rightarrow> string \<Rightarrow> world \<Rightarrow> bool" where
  "hub_free C ns w \<longleftrightarrow> (\<forall>mw \<in> set (w_mws w). om_ns mw = ns \<longrightarrow> work_free C mw)"

lemma status_freeD:
  assumes "status_free C m" and "manifest_id m = Inr (kind, name, ns)"
    and "kind = HelmReleaseKind \<or> name = ChartOpscenterFeatures" and "hc_dec C m = Inr hr"
  shows "om_name hr \<noteq> UpgradeStatusKey"
  using assms by (auto simp: status_free_def)

lemma status_freeI: "hc_dec C m = Inr hr \<Longrightarrow> om_name hr \<noteq> UpgradeStatusKey \<Longrightarrow> status_free C m"
  by (simp add: status_free_def split: sum.split prod.split)

lemma hub_freeD: "hub_free C ns w \<Longrightarrow> find_obj (ns, n) (w_mws w) = Some mw \<Longrightarrow> work_free C mw"
  using find_obj_key [of "(ns, n)" "w_mws w" mw] by (auto simp: hub_free_def obj_key_def)

lemma set_put_obj: "set (put_obj x xs) \<subseteq> insert x (set xs)"
  by (auto simp: put_obj_def)

lemma hub_free_put:
  assumes "hub_free C ns w" and "w_mws w' = put_obj x (w_mws w)" and "work_free C x"
  shows "hub_free C ns w'"
  using assms set_put_obj [of x "w_mws w"] unfolding hub_free_def by auto

text \<open>What a rewrite may do to the data: it marks releases, and leaves the status alone.\<close>

lemma mark_releases_status:
  "list_all (status_free C) ms \<Longrightarrow> mark_releases C d ms = Inr d' \<Longrightarrow> d' UpgradeStatusKey = d UpgradeStatusKey"
proof (induction ms arbitrary: d)
  case Nil
  then show ?case by simp
next
  case (Cons m ms)
  have IH: "mark_releases C x ms = Inr d' \<Longrightarrow> d' UpgradeStatusKey = x UpgradeStatusKey" for x
    using Cons.IH [of x] Cons.prems(1) by simp
  from Cons.prems(2) obtain kind name ns where id: "manifest_id m = Inr (kind, name, ns)"
    by (auto simp: bindE_Inr_iff)
  show ?case
  proof (cases "kind = HelmReleaseKind")
    case False
    with Cons.prems(2) id show ?thesis by (auto dest: IH)
  next
    case True
    with Cons.prems(2) id obtain hr where hr: "hc_dec C m = Inr hr" by (auto simp: bindE_Inr_iff)
    from status_freeD [OF _ id _ hr] Cons.prems(1) True have "om_name hr \<noteq> UpgradeStatusKey" by simp
    with True Cons.prems(2) id hr show ?thesis by (auto split: if_splits dest!: IH)
  qed
qed

lemma mark_works_status:
  "list_all (work_free C) mws \<Longrightarrow> mark_works C d mws = Inr d' \<Longrightarrow> d' UpgradeStatusKey = d UpgradeStatusKey"
proof (induction mws arbitrary: d)
  case Nil
  then show ?case by simp
next
  case (Cons mw mws)
  show ?case
  proof (cases "is_managed mw")
    case True
    with Cons.prems(2) obtain d1 where m: "mark_releases C d (mw_manifests mw) = Inr d1" "mark_works C d1 mws = Inr d'"
      by (auto simp: bindE_Inr_iff)
    from Cons.IH [OF _ m(2)] mark_releases_status [OF _ m(1)] Cons.prems(1) show ?thesis by simp
  next
    case False
    with Cons show ?thesis by simp
  qed
qed

text \<open>One release written back: its name stays, so its manifest stays free.\<close>

lemma replace_release_free:
  assumes "codec_ok C" and "replace_release C m (hr\<lparr>hr_spec := s\<rparr>) mw p = Inr (m', mw', p')" and "om_name hr \<noteq> UpgradeStatusKey"
  shows "status_free C m' \<and> fst p' UpgradeStatusKey = fst p UpgradeStatusKey"
proof -
  from assms(2) have e: "hc_enc C (hr\<lparr>hr_spec := s\<rparr>) = Inr m'" and p: "fst p' = (fst p)(om_name hr \<mapsto> ConditionFalse)"
    by (auto simp: replace_release_Inr)
  from status_freeI [OF codec_okD [OF assms(1) e]] assms(3) p show ?thesis by simp
qed

lemma upgrade_manifest_status:
  assumes "codec_ok (fe_codec E)" and "status_free (fe_codec E) m"
    and "upgrade_manifest E f pr pb cv m mw p = Inr (m', mw', p')"
  shows "status_free (fe_codec E) m' \<and> fst p' UpgradeStatusKey = fst p UpgradeStatusKey"
proof -
  from assms(3) consider "p' = p" "m' = m"
    | kind name ns hr s where "manifest_id m = Inr (kind, name, ns)" "kind = HelmReleaseKind" "hc_dec (fe_codec E) m = Inr hr"
        "replace_release (fe_codec E) m (hr\<lparr>hr_spec := s\<rparr>) mw p = Inr (m', mw', p')"
    by (auto simp: upgrade_manifest_def bindE_Inr_iff split: if_splits prod.splits)
  then show ?thesis
  proof cases
    case 2
    from status_freeD [OF assms(2) 2(1) _ 2(3)] 2(2) replace_release_free [OF assms(1) 2(4)] show ?thesis by simp
  qed (use assms(2) in simp)
qed

lemma upgrade_manifests_status:
  "codec_ok (fe_codec E) \<Longrightarrow> list_all (status_free (fe_codec E)) ms \<Longrightarrow>
     upgrade_manifests E f pr pb cv ms mw p = Inr (ms', mw', p') \<Longrightarrow>
     list_all (status_free (fe_codec E)) ms' \<and> fst p' UpgradeStatusKey = fst p UpgradeStatusKey"
proof (induction ms arbitrary: mw p ms')
  case Nil
  then show ?case by simp
next
  case (Cons m ms)
  from Cons.prems(3) obtain m1 mw1 p1 ms1 where
    m: "upgrade_manifest E f pr pb cv m mw p = Inr (m1, mw1, p1)"
    and ms: "upgrade_manifests E f pr pb cv ms mw1 p1 = Inr (ms1, mw', p')" and ms': "ms' = m1 # ms1"
    by (auto simp: bindE_Inr_iff)
  with Cons.IH [OF Cons.prems(1) _ ms] upgrade_manifest_status [OF Cons.prems(1) _ m] Cons.prems(2) show ?case by simp
qed

lemma rewrite_work_free:
  assumes "codec_ok (fe_codec E)" and "work_free (fe_codec E) mw" and "rewrite_work E f pr pb mw p = Inr (mw', p')"
  shows "work_free (fe_codec E) mw' \<and> fst p' UpgradeStatusKey = fst p UpgradeStatusKey"
proof -
  from assms(3) obtain cv ms mw1 where
    u: "upgrade_manifests E f pr pb cv (mw_manifests mw) mw p = Inr (ms, mw1, p')" and "mw' = mw1\<lparr>mw_manifests := ms\<rparr>"
    by (auto simp: rewrite_work_def bindE_Inr_iff)
  with upgrade_manifests_status [OF assms(1,2) u] show ?thesis by simp
qed

lemma core_manifest_found:
  "core_manifest ms i = Inr (Some (j, m)) \<Longrightarrow>
     m \<in> set ms \<and> (\<exists>kind ns. manifest_id m = Inr (kind, ChartOpscenterFeatures, ns))"
  by (induction ms arbitrary: i) (auto simp: bindE_Inr_iff split: if_splits)

lemma rewrite_core_free:
  assumes "codec_ok C" and "work_free C mw" and "core_manifest (mw_manifests mw) 0 = Inr (Some im)"
    and "rewrite_core C pr pb mv mw im d = Inr (mw', p')"
  shows "work_free C mw' \<and> fst p' UpgradeStatusKey = d UpgradeStatusKey \<and>
    UpgradeStatusKey \<notin> ut_hr_name ` set (snd p')"
proof -
  obtain j m where im: "im = (j, m)" by (cases im)
  from core_manifest_found [OF assms(3) [unfolded im]] obtain kind ns where
    m: "m \<in> set (mw_manifests mw)" "manifest_id m = Inr (kind, ChartOpscenterFeatures, ns)" by blast
  from assms(4) im obtain hr s m' mw1 where
    hr: "hc_dec C m = Inr hr" and r: "replace_release C m (hr\<lparr>hr_spec := s\<rparr>) mw (d, []) = Inr (m', mw1, p')"
    and mw': "mw' = mw1\<lparr>mw_manifests := (mw_manifests mw1)[j := m']\<rparr>"
    by (auto simp: rewrite_core_def bindE_Inr_iff)
  have n: "om_name hr \<noteq> UpgradeStatusKey"
    using status_freeD [OF _ m(2) _ hr] assms(2) m(1) by (simp add: list_all_iff)
  have "mw_manifests mw1 = mw_manifests mw" "ut_hr_name ` set (snd p') = {om_name hr}"
    using r by (auto simp: replace_release_Inr)
  moreover have "set ((mw_manifests mw)[j := m']) \<subseteq> insert m' (set (mw_manifests mw))" by (rule set_update_subset_insert)
  ultimately show ?thesis
    using replace_release_free [OF assms(1) r n] assms(2) n unfolding mw' by (auto simp: list_all_iff)
qed

lemma store_step_works:
  assumes "store_step mw c w = (Inr c', w')"
  obtains x where "obj_key x = obj_key mw" "mw_manifests x = mw_manifests mw" "w_mws w' = put_obj x (w_mws w)"
proof -
  from assms obtain y w1 where
    m: "CreateOrPatch works mw (with_spec mw) w = (Inr y, w1)" and c: "CreateOrPatch cmaps c (with_data c) w1 = (Inr c', w')"
    by (auto simp: store_step_def bindM_Inr_iff)
  have "keeps (\<lambda>v. w_mws v = w_mws w1) (CreateOrPatch cmaps c (with_data c))"
    by (rule keeps_CreateOrPatch) (simp_all add: steady_def cmaps_def)
  from keepsD [OF this, of w1] c have w': "w_mws w' = w_mws w1" by simp
  show thesis
  proof (cases rule: mwk.create_or_patch_cases [of mw "with_spec mw" w])
    case (patched cur fs)
    with m w' show thesis
      by (intro that [of "with_spec mw cur"]) (auto simp: works_def with_spec_def obj_key_def dest: find_obj_key)
  next
    case (created z fs)
    with m w' show thesis
      by (intro that [of z]) (auto simp: works_def with_spec_def obj_key_def)
  qed (use m in simp)
qed

lemma store_step_free:
  "store_step mw c w = (Inr c', w') \<Longrightarrow> work_free C mw \<Longrightarrow> hub_free C ns w \<Longrightarrow> hub_free C ns w'"
  by (erule store_step_works) (erule hub_free_put, assumption, simp)

lemma upgrade_core_running:
  assumes "codec_ok C" and "running pb c w" and "work_free C mw" and "hub_free C (om_ns pb) w"
    and "upgrade_core C pr pb mv mw c w = (Inr (c', ts), w')"
  shows "running pb c' w' \<and> hub_free C (om_ns pb) w'"
proof -
  consider "c' = c" "w' = w"
    | im mw1 d where "core_manifest (mw_manifests mw) 0 = Inr (Some im)"
        "rewrite_core C pr pb mv mw im (cm_data c) = Inr (mw1, d, ts)" "store_step mw1 (c\<lparr>cm_data := d\<rparr>) w = (Inr c', w')"
    using assms(5)
    by (auto simp: upgrade_core_def bindM_Inr_iff liftM_run ret_run split: option.splits)
  then show ?thesis
  proof cases
    case 2
    note fr = rewrite_core_free [OF assms(1,3) 2(1,2)]
    from assms(2) have "cm_data c UpgradeStatusKey = Some UpgradeStatusPending" by (simp add: running_def)
    with fr have "d UpgradeStatusKey = Some UpgradeStatusPending" by simp
    with 2(3) have "running pb c' w'" by (cases rule: store_step_running [OF assms(2), of d mw1]) auto
    with store_step_free [OF 2(3) _ assms(4)] fr show ?thesis by simp
  qed (use assms(2,4) in simp)
qed

lemma upgrade_work_running:
  assumes "codec_ok (fe_codec E)" and "running pb c w" and "work_free (fe_codec E) mw"
    and "upgrade_work E f pr pb (c, ts) mw w = (Inr (c', ts'), w')"
  shows "running pb c' w'"
proof -
  consider "c' = c" "w' = w"
    | mw1 d where "rewrite_work E f pr pb mw (cm_data c, ts) = Inr (mw1, d, ts')"
        "store_step mw1 (c\<lparr>cm_data := d\<rparr>) w = (Inr c', w')"
    using assms(4) by (auto simp: upgrade_work_def bindM_Inr_iff liftM_run ret_run split: if_splits)
  then show ?thesis
  proof cases
    case 2
    from rewrite_work_free [OF assms(1,3) 2(1)] have "d UpgradeStatusKey = Some UpgradeStatusPending"
      using assms(2) by (simp add: running_def)
    with 2(2) show ?thesis by (cases rule: store_step_running [OF assms(2), of d mw1]) auto
  qed (use assms(2) in simp)
qed

lemma upgrade_works_running:
  "codec_ok (fe_codec E) \<Longrightarrow> running pb (fst ct) w \<Longrightarrow> list_all (work_free (fe_codec E)) mws \<Longrightarrow>
     foldM (upgrade_work E f pr pb) ct mws w = (Inr ct', w') \<Longrightarrow> running pb (fst ct') w'"
proof (induction mws arbitrary: ct w)
  case Nil
  then show ?case by (simp add: ret_run)
next
  case (Cons mw mws)
  from Cons.prems(4) obtain c1 w1 where
    s: "upgrade_work E f pr pb ct mw w = (Inr c1, w1)"
    and r: "foldM (upgrade_work E f pr pb) c1 mws w1 = (Inr ct', w')"
    by (auto simp: bindM_Inr_iff)
  have "running pb (fst c1) w1"
    using upgrade_work_running [OF Cons.prems(1,2), of mw f pr "snd ct" "fst c1" "snd c1" w1] s Cons.prems(3) by simp
  with Cons.IH Cons.prems(1,3) r show ?case by simp
qed


lemma createConfigMap_running:
  assumes "no_faults w" and "keys_distinct (w_cms w)" and "hub_free C (om_ns pb) w"
    and "createConfigMapInSpokeClusterNamespace C (bs_version (pb_spec pb)) (om_ns pb) w = (Inr c, w')"
  shows "running pb c w'"
proof -
  from assms(1,2,4) obtain d sfx where
    d: "mark_works C (initial_data (bs_version (pb_spec pb))) (filter (\<lambda>mw. om_ns mw = om_ns pb) (w_mws w)) = Inr d"
    and c: "c = (new_config_map sfx (bs_version (pb_spec pb)) (om_ns pb) d)\<lparr>om_created := to_second (w_now w)\<rparr>"
    and cms: "w_cms w' = filter (\<lambda>x. \<not> is_upgrader (om_ns pb) x) (w_cms w) @ [c]"
    and kd: "keys_distinct (w_cms w')" and nf: "no_faults w'"
    by (rule createConfigMap_Inr)
  have "c \<in> set (w_cms w')" by (simp add: cms)
  with kd have at: "cm_at w' (obj_key c) = Some c" by (simp add: find_obj_distinct)
  have "list_all (work_free C) (filter (\<lambda>mw. om_ns mw = om_ns pb) (w_mws w))"
    using assms(3) by (auto simp: hub_free_def list_all_iff)
  from mark_works_status [OF this d] have "d UpgradeStatusKey = Some UpgradeStatusPending" by (simp add: initial_data_def)
  with nf kd at show ?thesis
    unfolding running_def by (auto simp: cms) (simp_all add: c new_config_map_def is_upgrader_def)
qed

lemma create_works:
  assumes "no_faults w" and "keys_distinct (w_cms w)"
    and "createConfigMapInSpokeClusterNamespace C ver ns w = (Inr c, w')"
  shows "w_mws w' = w_mws w"
  using assms by (rule createConfigMap_Inr)

lemma write_upgrade_run:
  assumes "no_faults w" and "keys_distinct (w_cms w)" and "codec_ok (fe_codec E)" and "hub_free (fe_codec E) (om_ns pb) w"
    and "write_upgrade E f pr pb mv w = (Inr res, w')"
  obtains c ts w1 where "running pb c w1" "finish_apply pb (c, ts) w1 = (Inr res, w')"
proof -
  from assms(5) assms(1) obtain mw c1 w1 ct w2 mws ct2 w3 w4 where
    g: "find_obj (om_ns pb, ''opscenter-core'') (fst works w) = Some mw"
    and c1: "createConfigMapInSpokeClusterNamespace (fe_codec E) (bs_version (pb_spec pb)) (om_ns pb) w = (Inr c1, w1)"
    and u: "upgrade_core (fe_codec E) pr pb mv mw c1 w1 = (Inr ct, w2)"
    and l: "api_list works (\<lambda>mw. om_ns mw = om_ns pb) w2 = (Inr mws, w3)"
    and m: "foldM (upgrade_work E f pr pb) ct mws w3 = (Inr ct2, w4)"
    and fin: "finish_apply pb ct2 w4 = (Inr res, w')"
    by (auto simp: write_upgrade_def bindM_Inr_iff api_get_run split: option.splits)
  have r1: "running pb c1 w1" by (rule createConfigMap_running [OF assms(1,2,4) c1])
  have f1: "hub_free (fe_codec E) (om_ns pb) w1" using assms(4) create_works [OF assms(1,2) c1] by (simp add: hub_free_def)
  have "work_free (fe_codec E) mw" using hub_freeD [OF assms(4)] g by (simp add: works_def)
  from upgrade_core_running [OF assms(3) r1 this f1, of pr mv "fst ct" "snd ct" w2] u
  have r2: "running pb (fst ct) w2" and f2: "hub_free (fe_codec E) (om_ns pb) w2" by simp_all
  have "w3 = w2" "mws = filter (\<lambda>mw. om_ns mw = om_ns pb) (w_mws w2)"
    using l r2 by (auto simp: running_def api_list_run works_def)
  moreover from this f2 have "list_all (work_free (fe_codec E)) mws" by (auto simp: hub_free_def list_all_iff)
  ultimately have "running pb (fst ct2) w4" using upgrade_works_running [OF assms(3) _ _ m] r2 by simp
  with fin that [of "fst ct2" w4 "snd ct2"] show thesis by simp
qed

lemma finish_apply_find:
  assumes r: "running pb c w" and f: "finish_apply pb (c, ts) w = (Inr res, w')"
  shows "if ts = [] then res = Result_zero \<and> findPendingUpgrade pb w' = (Inr None, w')
     else res = Result_after helmReleaseReadyPollInterval \<and>
          (\<exists>c'. findPendingUpgrade pb w' = (Inr (Some (c', ts)), w'))"
proof (cases "ts = []")
  case True
  with f have "finishUpgrade c None w = (Inr (), w')" "res = Result_zero"
    by (auto simp: finish_apply_def bindM_Inr_iff ret_run)
  with r True show ?thesis using finish_then_none [of w c pb None "Inr ()" w'] by (simp add: running_def)
next
  case False
  with f obtain c' where c': "recordPendingUpgrade c ts (zstr (om_annots pb UpgradeAnnotation)) w = (Inr c', w')"
      "res = Result_after helmReleaseReadyPollInterval"
    by (auto simp: finish_apply_def bindM_Inr_iff ret_run)
  have "\<exists>c''. Inr c' = Inr c'' \<and> findPendingUpgrade pb w' = (Inr (Some (c'', ts)), w')"
    using r record_then_find [of w c c pb ts "Inr c'" w'] c'(1) by (simp add: running_def)
  with False c'(2) show ?thesis by auto
qed

section \<open>An observation writes its ConfigMap only\<close>

definition cms_closed :: "(world \<Rightarrow> bool) \<Rightarrow> bool" where
  "cms_closed I \<longleftrightarrow> steady I \<and> (\<forall>w y. I w \<longrightarrow> I (w_cms_update (put_obj y) w))"

lemma cms_closed_intros:
  "cms_closed (\<lambda>w. w_mws w = M)" "cms_closed (\<lambda>w. keys_distinct (w_cms w))"
  by (auto simp: cms_closed_def kube.inv_put)

lemma keeps_cms_patch: "cms_closed I \<Longrightarrow> keeps I (patchConfigMapData c)"
  unfolding patchConfigMapData_def by (rule keeps_CreateOrPatch) (auto simp: cmaps_def cms_closed_def)

lemma keeps_cms_evaluate: "cms_closed I \<Longrightarrow> keeps I (evaluate_target st t)"
proof (cases st)
  case (fields pending c b)
  assume "cms_closed I"
  then show ?thesis
    unfolding evaluate_target_def fields prod.case
    by (intro triple_tryM [where R = "\<lambda>_. I"])
      (auto intro!: keeps_api_get triple_ret simp: cms_closed_def split: sum.split)
qed

lemma keeps_cms_finish: "cms_closed I \<Longrightarrow> keeps I (finishUpgrade c e)"
  unfolding finishUpgrade_def raise_opt_def
  by (rule triple_tryM [where R = "\<lambda>_. I"])
    (auto intro!: keeps_cms_patch triple_ret triple_raise split: option.split)

lemma keeps_cms_targets: "cms_closed I \<Longrightarrow> keeps I (evaluateTargets ts c)"
  unfolding evaluateTargets_def
proof (rule triple_bindM)
  assume I: "cms_closed I"
  show "keeps I (foldM evaluate_target ([], c, False) ts)"
    by (rule triple_foldM) (rule keeps_cms_evaluate [OF I])
  fix x :: watch
  show "keeps I
      (case x of (pending, configMap, becameReady) \<Rightarrow>
         if becameReady then
           tryM (patchConfigMapData configMap)
             (\<lambda>r. case r of
                    Inl e \<Rightarrow> raise (ErrWrap ''failed to mark HelmRelease(s) ready in upgrader ConfigMap'' e)
                  | Inr configMap \<Rightarrow> ret (pending, configMap))
         else ret (pending, configMap))"
    by (auto intro!: triple_tryM [where R = "\<lambda>_. I"] keeps_cms_patch [OF I] triple_ret triple_raise
        split: prod.split sum.split)
qed

lemma keeps_cms_observe: "cms_closed I \<Longrightarrow> keeps I (observeUpgrade c ts)"
  unfolding observeUpgrade_def now_def
  by (rule triple_bindM [OF keeps_cms_targets])
    (auto intro!: triple_bindM [OF keeps_cms_finish] triple_bindM [OF triple_getsM [where Q = "\<lambda>_. I"]] triple_ret split: prod.split)

lemma keeps_works_observe: "keeps (\<lambda>w. w_mws w = M) (observeUpgrade c ts)"
  by (rule keeps_cms_observe) (rule cms_closed_intros)

section \<open>An upgrade to look at\<close>

definition ex_release :: "string \<Rightarrow> helmrelease" where
  "ex_release v =
     \<lparr> om_name = ''kube-ui-server'', om_ns = ''kubeops'',
       om_labels = [''app.kubernetes.io/component'' \<mapsto> ''kube-ui-server''], om_annots = Map.empty,
       om_owners = [], om_created = 0,
       hr_spec =
         \<lparr> hs_chart = Some \<lparr> hc_chart = ''kube-ui-server'', hc_version = v, hc_source = no_source, hc_rest = JNull \<rparr>,
           hs_values_from = [], hs_values = Some (Text (JObj fmempty)), hs_target_ns = ''kubeops'',
           hs_storage_ns = ''kubeops'', hs_install = None, hs_depends = [], hs_rest = JNull \<rparr> \<rparr>"

definition ex_manifest :: "string \<Rightarrow> raw" where
  "ex_manifest v =
     Text (JObj (fmap_of_list
       [(''kind'', JStr HelmReleaseKind),
        (''metadata'', JObj (fmap_of_list [(''name'', JStr ''kube-ui-server''), (''namespace'', JStr ''kubeops'')])),
        (''spec'', JObj (fmap_of_list [(''version'', JStr v)]))]))"

text \<open>A codec of the releases that differ in their chart version only.\<close>

definition ex_version :: "helmrelease \<Rightarrow> string" where
  "ex_version hr = (case hs_chart (hr_spec hr) of None \<Rightarrow> '''' | Some c \<Rightarrow> hc_version c)"

definition ver_codec :: hr_codec where
  "ver_codec =
     \<lparr> hc_dec =
         (\<lambda>m. bindE (manifest_object m) (\<lambda>obj.
            bindE (NestedString obj [''spec'', ''version'']) (\<lambda>v. case v of
              None \<Rightarrow> Inl (ErrText ''no version'') | Some s \<Rightarrow> Inr (ex_release s)))),
       hc_enc = (\<lambda>hr. if hr = ex_release (ex_version hr) then Inr (ex_manifest (ex_version hr))
                      else Inl (ErrText ''not encodable'')),
       hc_spec = (\<lambda>s. Inr (fmap_of_list
         [(''version'', case hs_chart s of None \<Rightarrow> JNull | Some c \<Rightarrow> JStr (hc_version c))])) \<rparr>"

lemma ver_codec_simps:
  "hc_dec ver_codec (ex_manifest v) = Inr (ex_release v)"
  "hc_enc ver_codec (ex_release v) = Inr (ex_manifest v)"
  "manifest_id (ex_manifest v) = Inr (HelmReleaseKind, ''kube-ui-server'', ''kubeops'')"
  by (simp_all add: ver_codec_def ex_manifest_def manifest_object_def NestedString_def NestedFieldNoCopy_def
      fmlookup_of_list ex_version_def ex_release_def manifest_id_def GetKindNameNamespace_def)

lemma ver_codec_ok: "codec_ok ver_codec"
proof -
  have "hc_dec ver_codec m = Inr hr" if "hc_enc ver_codec hr = Inr m" for hr m
  proof -
    from that have "hr = ex_release (ex_version hr)" "m = ex_manifest (ex_version hr)"
      by (auto simp: ver_codec_def split: if_splits)
    with ver_codec_simps(1) [of "ex_version hr"] show ?thesis by simp
  qed
  then show ?thesis by (simp add: codec_ok_def)
qed


definition ex_chart :: chartinfo where
  "ex_chart =
     \<lparr> ch_name = ''kube-ui-server'', ch_ns = ''kubeops'', ch_create_ns = False, ch_version = ''v2'',
       ch_source = no_source \<rparr>"

definition ex_feature :: feature where
  "ex_feature =
     \<lparr> om_name = ''kube-ui-server'', om_ns = '''', om_labels = Map.empty, om_annots = Map.empty,
       om_owners = [], om_created = 0, ft_set = ''opscenter-core'', ft_exclusion = '''', ft_requires = [],
       ft_chart = ex_chart, ft_values = None, ft_resources = [], ft_workloads = [], ft_enabled = None,
       ft_managed = None, ft_ready = None \<rparr>"

text \<open>A server with one Feature, no chart values, and a Helm engine that always succeeds.\<close>

definition ex_env :: "unit fakeenv" where
  "ex_env =
     \<lparr> fe_codec = ver_codec, fe_boot_name = ''bootstrap'', fe_boot_ns = ''kubeops'', fe_start = (\<lambda>b gs. Inr ()),
       fe_http = (\<lambda>f. Inr ()), fe_mapper = (\<lambda>f. Inr ()), fe_client = (\<lambda>f. Inr ()), fe_crd_client = (\<lambda>f. Inr ()),
       fe_create = (\<lambda>u. ret ()), fe_repo = (\<lambda>f. no_source), fe_register = (\<lambda>cs. ret ()),
       fe_chart = (\<lambda>f c. Inr \<lparr> chart_values = fmempty, chart_crds = [] \<rparr>),
       fe_crd = (\<lambda>d. Inl (ErrText ''no crd'')), fe_mapping = (\<lambda>f g k v. None), fe_raw_config = (\<lambda>f. Inr ()),
       fe_helm_init = (\<lambda>f n d. None), fe_deploy = (\<lambda>opts. ret ()),
       fe_feature = (\<lambda>f n. if n = ''kube-ui-server'' then Inr ex_feature else Inl ErrNotFound),
       fe_featureset = (\<lambda>f n. Inl ErrNotFound), fe_features_in = (\<lambda>f s. Inr []),
       fe_releases = (\<lambda>f n s. Inr 0), fe_resources = (\<lambda>f g. Inr 0), fe_release = (\<lambda>f k. Inl ErrNotFound),
       fe_put_release = (\<lambda>h. ret ()), fe_set_chart_info = (\<lambda>f ft k v. (None, v)),
       fe_apply = (\<lambda>c v. ret ()), fe_export = (\<lambda>f. []), fe_checkpoint = (\<lambda>f. f),
       fe_claim = (\<lambda>s. Inr \<lparr> cf_enabled = [], cf_external = [], cf_disabled = [] \<rparr>),
       fe_gob_enc = (\<lambda>m. Inr ''''), fe_gob_dec = (\<lambda>b. Inr fmempty), fe_order = (\<lambda>i n. []) \<rparr>"

definition ex_profile :: profile where
  "ex_profile =
     \<lparr> om_name = ''p'', om_ns = '''', om_labels = Map.empty, om_annots = Map.empty, om_owners = [],
       om_created = 0, pr_features = [(''kube-ui-server'', zero_fspec), (''opscenter-features'', zero_fspec)] \<rparr>"

definition ex_upbinding :: binding where
  "ex_upbinding =
     (ex_binding ''v2'')\<lparr>pb_spec :=
        \<lparr> bs_profile = ''p'', bs_cluster = zero_clusterinfo, bs_version = ''v2'',
          bs_features = [(''opscenter-features'', zero_fspec\<lparr>fs_values := Some (Text (JObj fmempty))\<rparr>)] \<rparr>\<rparr>"

definition ex_old_work :: manifestwork where
  "ex_old_work = (ex_work 4)\<lparr>mw_manifests := [ex_manifest ''v1'']\<rparr>"

definition ex_replicaset :: "string \<Rightarrow> mwreplicaset" where
  "ex_replicaset n =
     \<lparr> om_name = n, om_ns = addonNamespace, om_labels = Map.empty, om_annots = Map.empty, om_owners = [],
       om_created = 0, rs_manifests = [] \<rparr>"

definition ex_hub :: world where
  "ex_hub =
     \<lparr> w_mws = [ex_old_work], w_cms = [], w_profiles = [ex_profile], w_bindings = [ex_upbinding],
       w_clusters = [], w_features = [],
       w_mwrs = [ex_replicaset mwrsNameNamespace, ex_replicaset mwrsNameBootstrap], w_sets = [], w_now = 7,
       w_rand = [''xyz''], w_faults = [] \<rparr>"

lemma ex_env_simps [simp]:
  "fe_codec ex_env = ver_codec" "fe_start ex_env b gs = Inr ()" "fe_http ex_env f = Inr ()" "fe_mapper ex_env f = Inr ()" "fe_client ex_env f = Inr ()" "fe_register ex_env cs = ret ()"
  "fe_chart ex_env f c = Inr \<lparr> chart_values = fmempty, chart_crds = [] \<rparr>" "fe_deploy ex_env opts = ret ()"
  "fe_raw_config ex_env f = Inr ()" "fe_helm_init ex_env f n sd = None"
  "fe_feature ex_env f ''kube-ui-server'' = Inr ex_feature" "fe_featureset ex_env f n = Inl ErrNotFound"
  by (simp_all add: ex_env_def)

lemma ex_hub_ok:
  "no_faults ex_hub" "keys_distinct (w_cms ex_hub)" "codec_ok ver_codec" "hub_free ver_codec ns ex_hub"
proof -
  show "no_faults ex_hub" "keys_distinct (w_cms ex_hub)"
    by (simp_all add: ex_hub_def no_faults_def keys_distinct_def)
  show "codec_ok ver_codec" by (rule ver_codec_ok)
  have "status_free ver_codec (ex_manifest ''v1'')"
    by (rule status_freeI [OF ver_codec_simps(1)]) (simp add: ex_release_def UpgradeStatusKey_def)
  then show "hub_free ver_codec ns ex_hub" by (simp add: hub_free_def ex_hub_def ex_old_work_def)
qed

lemma ex_prepare: "\<exists>mv. prepare_upgrade ex_env ex_upbinding (ex_hub, ()) = (Inr mv, (ex_hub, ()))"
proof -
  have nf: "no_faults ex_hub" by (rule ex_hub_ok)
  have g: "find_obj (addonNamespace, mwrsNameNamespace) (fst replicasets ex_hub) = Some (ex_replicaset mwrsNameNamespace)"
      "find_obj (addonNamespace, mwrsNameBootstrap) (fst replicasets ex_hub) = Some (ex_replicaset mwrsNameBootstrap)"
    by (simp_all add: ex_hub_def replicasets_def ex_replicaset_def obj_key_def)
  have "binding_values ex_upbinding = Inr (Some fmempty)"
    by (simp add: binding_values_def ex_upbinding_def fspec_at_def)
  moreover obtain m where "GetOverrideValues (Some fmempty) (Some zero_clusterinfo) = Inr (Some m)"
    by (simp add: GetOverrideValues_def zero_clusterinfo_def set_capi_def set_managers_def)
  moreover have "bs_cluster (pb_spec ex_upbinding) = zero_clusterinfo" by (simp add: ex_upbinding_def)
  ultimately show ?thesis
    by (simp add: prepare_upgrade_def StartFakeApiServerAndApplyBaseManifestWorkReplicaSets_def
        initializeFakeServer_def bindM_run onhub_run onfake_run asks_run liftM_run getsM_run ret_run api_get_run nf g
        applyManifestWorkReplicaSet_def ex_replicaset_def GetNewRuntimeClient_def install_for_upgrade_def InstallOpscenterFeatures_def
        InstallChart_def DeployRelease_def GetClientGetter_def applyCRDs_def RegisterRequiredCRDs_def GetDefaultValues_def)
qed

lemma ex_spec:
  "upgrade_feature_spec ex_env () ex_profile ex_upbinding fmempty ''kube-ui-server'' (hr_spec (ex_release ''v1''))
     = Inr (hr_spec (ex_release ''v2''))"
  by (simp add: upgrade_feature_spec_def user_values_def opt_fspec_values_def ex_upbinding_def ex_profile_def
      fspec_at_def zero_fspec_def ex_feature_def opt_values_def final_values_def GetFeatureHelmReleaseValues_def
      NestedMap_def NestedFieldNoCopy_def set_version_def ex_release_def feature_chart_def place_release_def
      ex_chart_def no_chart_def)

lemma ex_rewrite:
  "\<exists>mw' t. rewrite_work ex_env () ex_profile ex_upbinding ex_old_work (d, ts) =
     Inr (mw', d(''kube-ui-server'' \<mapsto> ConditionFalse), ts @ [t])"
proof -
  have c: "is_component (ex_release ''v1'')" and n: "om_name (ex_release ''v1'') = ''kube-ui-server''"
    and v2: "(ex_release ''v1'')\<lparr>hr_spec := hr_spec (ex_release ''v2'')\<rparr> = ex_release ''v2''"
    by (simp_all add: is_component_def ex_release_def)
  have "specChanged ver_codec (ex_manifest ''v1'') (hr_spec (ex_release ''v2'')) = Inr True"
  proof -
    let ?d = "\<lambda>v. fmupd ''version'' (JStr v) fmempty"
    have "null_free (JObj (?d v))" for v
      by (simp only: null_free_obj_iff) simp
    then have p: "pruneNulls (JObj (?d v)) = JObj (?d v)" for v by (rule pruneNulls_fixed)
    have "fmlookup (?d ''v1'') ''version'' \<noteq> fmlookup (?d ''v2'') ''version''" by simp
    then have ne: "?d ''v1'' \<noteq> ?d ''v2''" by metis
    have sp: "hc_spec ver_codec (hr_spec (ex_release v)) = Inr (?d v)" for v
      by (simp add: ver_codec_def ex_release_def)
    show ?thesis by (simp add: specChanged_def ver_codec_simps sp p ne del: pruneNulls.simps)
  qed
  then show ?thesis
    by (simp add: rewrite_work_def chart_values_or_none_def GetFeatureSetChartValues_def ex_old_work_def
        upgrade_manifest_def ver_codec_simps c n ex_spec v2 replace_release_def)
qed


lemma ex_create_run:
  obtains c w1 where
    "createConfigMapInSpokeClusterNamespace ver_codec ''v2'' ''c1'' ex_hub = (Inr c, w1)" "w_mws w1 = [ex_old_work]"
proof -
  have "mark_works ver_codec (initial_data ''v2'') [ex_old_work] = Inr (initial_data ''v2'')"
    by (simp add: ex_old_work_def ver_codec_simps) (simp add: ex_release_def)
  moreover have "find_obj (obj_key (new_config_map ''xyz'' ''v2'' ''c1'' (initial_data ''v2''))) [] = None" by simp
  moreover have "filter (\<lambda>mw. om_ns mw = ''c1'') (w_mws ex_hub) = [ex_old_work]"
    by (simp add: ex_hub_def ex_old_work_def ex_work_def)
  moreover have "w_cms ex_hub = []" "w_rand ex_hub = [''xyz'']" by (simp_all add: ex_hub_def)
  ultimately obtain c w1 where
    c: "createConfigMapInSpokeClusterNamespace ver_codec ''v2'' ''c1'' ex_hub = (Inr c, w1)"
    using ex_hub_ok(1) deleteStale_no_faults [OF ex_hub_ok(1,2), of "''c1''"]
    by (simp add: createConfigMapInSpokeClusterNamespace_def bindM_run api_list_run
        works_def liftM_run rand_string_def api_create_run cmaps_def del: mark_works.simps)
  from createConfigMap_Inr [OF ex_hub_ok(1,2) c] have "w_mws w1 = w_mws ex_hub" by metis
  with c that show thesis by (simp add: ex_hub_def)
qed

lemma ex_apply:
  obtains res w' where "applyUpgrade ex_env ex_upbinding ex_profile (ex_hub, ()) = (Inr res, (w', ()))"
    "res = Result_after helmReleaseReadyPollInterval"
proof -
  obtain mv where p: "prepare_upgrade ex_env ex_upbinding (ex_hub, ()) = (Inr mv, (ex_hub, ()))"
    using ex_prepare by blast
  obtain c w1 where c: "createConfigMapInSpokeClusterNamespace ver_codec ''v2'' ''c1'' ex_hub = (Inr c, w1)"
    and mws: "w_mws w1 = [ex_old_work]" by (rule ex_create_run)
  have b: "bs_version (pb_spec ex_upbinding) = ''v2''" "om_ns ex_upbinding = ''c1''"
    by (simp_all add: ex_upbinding_def ex_binding_def)
  have r: "running ex_upbinding c w1"
    by (rule createConfigMap_running [OF ex_hub_ok(1,2,4)]) (simp add: b c)
  then have nf: "no_faults w1" by (simp add: running_def)
  obtain mw' t where rw: "rewrite_work ex_env () ex_profile ex_upbinding ex_old_work (cm_data c, []) =
      Inr (mw', (cm_data c)(''kube-ui-server'' \<mapsto> ConditionFalse), [t])"
    using ex_rewrite [of "cm_data c" "[]"] by auto
  let ?c = "c\<lparr>cm_data := (cm_data c)(''kube-ui-server'' \<mapsto> ConditionFalse)\<rparr>"
  have "((cm_data c)(''kube-ui-server'' \<mapsto> ConditionFalse)) UpgradeStatusKey = Some UpgradeStatusPending"
    using r by (simp add: running_def UpgradeStatusKey_def)
  with r obtain w2 where s: "store_step mw' ?c w1 = (Inr ?c, w2)" and r2: "running ex_upbinding ?c w2"
    by (rule store_step_running)
  have mg: "is_managed ex_old_work" by (simp add: ex_old_work_def is_managed_def ex_work_def)
  have get: "find_obj (''c1'', ''opscenter-core'') (w_mws ex_hub) = Some ex_old_work"
    by (simp add: ex_hub_def ex_old_work_def ex_work_def obj_key_def)
  have core: "core_manifest (mw_manifests ex_old_work) 0 = Inr None"
    by (simp add: ex_old_work_def ver_codec_simps)
  have ls: "filter (\<lambda>mw. om_ns mw = ''c1'') (w_mws w1) = [ex_old_work]"
    by (simp add: mws) (simp add: ex_old_work_def ex_work_def)
  have "\<exists>w3. write_upgrade ex_env () ex_profile ex_upbinding mv ex_hub = (Inr (Result_after helmReleaseReadyPollInterval), w3)"
  proof -
    have at: "cm_at w2 (obj_key ?c) = Some ?c" "no_faults w2" using r2 unfolding running_def by blast+
    let ?r = "record_annots [t] (zstr (om_annots ex_upbinding UpgradeAnnotation)) ?c"
    have "recordPendingUpgrade ?c [t] (zstr (om_annots ex_upbinding UpgradeAnnotation)) w2 =
        (Inr (patch_config_map ?r ?c), w_cms_update (put_obj (patch_config_map ?r ?c)) w2)"
      using at unfolding recordPendingUpgrade_def patchConfigMapData_def
      by (subst CreateOrPatch_present [where cur = ?c]) (simp_all add: record_annots_simps cmaps_def)
    then have f: "finish_apply ex_upbinding (?c, [t]) w2 =
        (Inr (Result_after helmReleaseReadyPollInterval), w_cms_update (put_obj (patch_config_map ?r ?c)) w2)"
      by (simp add: finish_apply_def bindM_run ret_run)
    have "upgrade_work ex_env () ex_profile ex_upbinding (c, []) ex_old_work w1 = (Inr (?c, [t]), w2)"
      using mg rw s by (simp add: upgrade_work_def bindM_run liftM_run ret_run)
    with f show ?thesis
      by (simp add: write_upgrade_def bindM_run api_get_run ex_hub_ok b get c upgrade_core_def core liftM_run
          ret_run api_list_run nf works_def ls)
  qed
  with p that show thesis
    by (auto simp: applyUpgrade_def bindM_run asks_run onhub_run)
qed


section \<open>Properties\<close>

text \<open>
  C17: Applying an upgrade hands over to observing it. When \<open>applyUpgrade\<close> asks to come back,
  the next reconcile of the same binding finds the run it recorded, with at least one target
  to wait for; when it reports that nothing is left to do, there is no run to find. So an
  upgrade is not applied twice, and an empty one is not waited for. (No call to the hub
  fails, decoding an encoded release gives it back, and no HelmRelease that the hub holds for
  the cluster is named after the ConfigMap's status key.)
\<close>

theorem applied_upgrade_is_resumed:
  assumes "no_faults w" and "keys_distinct (w_cms w)" and "codec_ok (fe_codec E)" and "hub_free (fe_codec E) (om_ns pb) w"
    and "applyUpgrade E pb pr (w, f) = (Inr res, (w', f'))"
  shows "if IsZero res then findPendingUpgrade pb w' = (Inr None, w')
     else res = Result_after helmReleaseReadyPollInterval \<and>
          (\<exists>c ts. ts \<noteq> [] \<and> findPendingUpgrade pb w' = (Inr (Some (c, ts)), w'))"
proof -
  from assms(5) obtain mv w1 f1 where
    p: "prepare_upgrade E pb (w, f) = (Inr mv, (w1, f1))"
    and wr: "write_upgrade E f1 pr pb mv w1 = (Inr res, w')"
    by (auto simp: applyUpgrade_def bindM_Inr_iff asks_run onhub_run) (metis prod.collapse)
  from p assms(1) have "w1 = w" by (blast elim: prepare_hub)
  with write_upgrade_run [OF assms(1-4)] wr obtain c ts w2 where
    "running pb c w2" "finish_apply pb (c, ts) w2 = (Inr res, w')" by metis
  from finish_apply_find [OF this] show ?thesis by (auto split: if_splits)
qed

theorem applied_upgrade_is_resumed_witness:
  "\<exists>w' c ts. applyUpgrade ex_env ex_upbinding ex_profile (ex_hub, ()) = (Inr (Result_after helmReleaseReadyPollInterval), (w', ())) \<and>
     ts \<noteq> [] \<and> findPendingUpgrade ex_upbinding w' = (Inr (Some (c, ts)), w')"
proof -
  obtain res w' where a: "applyUpgrade ex_env ex_upbinding ex_profile (ex_hub, ()) = (Inr res, (w', ()))"
    and r: "res = Result_after helmReleaseReadyPollInterval" by (rule ex_apply)
  from applied_upgrade_is_resumed [OF ex_hub_ok(1,2) _ _ a] ex_hub_ok(3,4) r a show ?thesis by auto
qed

text \<open>
  A run that is there is observed, not applied again, whatever calls fail: if the lookup
  finds one, the step is the observation of exactly that run. No ManifestWork is written and
  the fake server is not even started.
\<close>

lemma UpgradeCluster_resumes:
  assumes "findPendingUpgrade pb w = (Inr (Some (c, ts)), w1)"
  shows "UpgradeCluster E pb pr (w, f) = (fst (observeUpgrade c ts w1), (snd (observeUpgrade c ts w1), f)) \<and>
     w_mws (snd (observeUpgrade c ts w1)) = w_mws w"
proof -
  have "w_mws w1 = w_mws w"
    using keepsD [of "\<lambda>w'. w_mws w' = w_mws w" "findPendingUpgrade pb" w] assms
    by (simp add: findPendingUpgrade_def triple_bindM [OF keeps_api_list] triple_liftM steady_def)
  moreover have "w_mws (snd (observeUpgrade c ts w1)) = w_mws w1"
    using keepsD [OF keeps_works_observe, where w = w1] by simp
  ultimately show ?thesis
    using assms by (simp add: UpgradeCluster_def bindM_run onhub_run)
qed

text \<open>
  A report from before the upgrade is never taken for the upgraded release. If the
  upgrade changed the spec, then as long as the work agent still reports the generation that
  was reported when the upgrade was written, the release is not ready, whatever else the
  report says (for generations below the largest 64-bit integer). If the spec did not
  change, a report that would do for any generation does.
\<close>

theorem stale_report_is_not_ready:
  assumes "helmReleaseGeneration mw' (om_ns hr) (om_name hr) = helmReleaseGeneration mw (om_ns hr) (om_name hr)"
    and "sint (helmReleaseGeneration mw (om_ns hr) (om_name hr)) < 2 ^ 63 - 1"
  shows "\<not> helmReleaseReady mw' (newUpgradeTarget mw hr True) \<and>
     ((\<exists>g. helmReleaseReady mw' ((newUpgradeTarget mw hr False)\<lparr>ut_min_gen := g\<rparr>)) \<longrightarrow>
        helmReleaseReady mw' (newUpgradeTarget mw hr False))"
proof -
  have "\<not> helmReleaseReady mw' (newUpgradeTarget mw hr True)"
    using ready_needs_generation [of mw' "newUpgradeTarget mw hr True"] sless_succ [OF assms(2)] assms(1) by auto
  moreover have "helmReleaseReady mw' (newUpgradeTarget mw hr False)"
    if "helmReleaseReady mw' ((newUpgradeTarget mw hr False)\<lparr>ut_min_gen := g\<rparr>)" for g
    using that assms(1) by (auto simp: helmReleaseReady_iff helmReleaseGeneration_def word_sle_eq)
  ultimately show ?thesis by blast
qed

theorem stale_report_is_not_ready_witness:
  "\<not> helmReleaseReady (ex_work 4) (newUpgradeTarget (ex_work 4)
      (ex_release ''v1'') True)"
  using stale_report_is_not_ready [of "ex_work 4" "ex_release ''v1''" "ex_work 4"]
  by (simp add: helmReleaseGeneration_def helmReleaseFeedback_def ex_work_def ex_release_def)


text \<open>
  A rewrite settles. Once a release is written back, comparing the stored manifest with
  the same spec again reports no change, so a second application of the upgrade waits for no
  new generation; and no null in the values, at any depth, counts as a change.
\<close>

theorem rewrite_settles:
  assumes "codec_ok C" and "hc_enc C hr = Inr m" and "hc_spec C (hr_spec hr) = Inr doc"
    and "hc_spec C s = Inr doc'" and "pruneNulls (JObj doc') = pruneNulls (JObj doc)"
  shows "specChanged C m (hr_spec hr) = Inr False \<and> specChanged C m s = Inr False"
  using codec_okD [OF assms(1,2)] assms(3-5) by (simp add: specChanged_def)

theorem rewrite_settles_witness:
  "specChanged ver_codec (ex_manifest ''v2'') (hr_spec (ex_release ''v2'')) = Inr False"
  using rewrite_settles [OF ver_codec_ok ver_codec_simps(2) [of "''v2''"], of _ "hr_spec (ex_release ''v2'')"]
  by (simp add: ver_codec_def)

text \<open>
  C24: An upgrade of a ManifestWork moves every feature release in it, and only those. Each
  manifest of a component HelmRelease decodes afterwards to the same release at the chart
  version of its Feature; every other manifest is byte for byte what it was; and each target
  added belongs to this ManifestWork, has the feedback rules installed for it and is marked
  not ready in the ConfigMap's data, in which no other key changes.
\<close>

theorem rewritten_work:
  assumes "codec_ok (fe_codec E)" and "rewrite_work E f pr pb mw (d, ts) = Inr (mw', d', ts')"
  shows "obj_key mw' = obj_key mw \<and> length (mw_manifests mw') = length (mw_manifests mw) \<and>
     (\<forall>i < length (mw_manifests mw).
        if feature_manifest E (mw_manifests mw ! i)
        then \<exists>hr hr' ft. hc_dec (fe_codec E) (mw_manifests mw ! i) = Inr hr \<and>
               hc_dec (fe_codec E) (mw_manifests mw' ! i) = Inr hr' \<and>
               fe_feature E f (om_name hr) = Inr ft \<and> hr' = hr\<lparr>hr_spec := hr_spec hr'\<rparr> \<and>
               carries_version (ch_version (ft_chart ft)) (hr_spec hr')
        else mw_manifests mw' ! i = mw_manifests mw ! i) \<and>
     (\<exists>new. ts' = ts @ new \<and>
        (\<forall>t \<in> set new. work_key t = obj_key mw \<and> rules_installed mw' (ut_hr_ns t) (ut_hr_name t) \<and>
           d' (ut_hr_name t) = Some ConditionFalse) \<and>
        (\<forall>k. k \<notin> ut_hr_name ` set new \<longrightarrow> d' k = d k))"
proof -
  from assms(2) obtain cv ms mw1 where
    u: "upgrade_manifests E f pr pb cv (mw_manifests mw) mw (d, ts) = Inr (ms, mw1, d', ts')"
    and mw': "mw' = mw1\<lparr>mw_manifests := ms\<rparr>"
    by (auto simp: rewrite_work_def bindE_Inr_iff)
  note ok = upgrade_manifests_ok [OF u] and rw = upgrade_manifests_rewrite [OF u]
  have key: "obj_key mw' = obj_key mw" using ok by (simp add: mw' pass_ok_def obj_key_def)
  have rules: "rules_installed mw' ns n = rules_installed mw1 ns n" for ns n
    by (simp add: mw' rules_installed_def)
  obtain new where new: "ts' = ts @ new"
    "\<forall>t \<in> set new. ut_mw_ns t = om_ns mw \<and> ut_mw_name t = om_name mw \<and>
       rules_installed mw1 (ut_hr_ns t) (ut_hr_name t) \<and> d' (ut_hr_name t) = Some ConditionFalse"
    "\<forall>k. d' k \<noteq> d k \<longrightarrow> d' k = Some ConditionFalse \<and> k \<in> ut_hr_name ` set new"
    using ok unfolding pass_ok_def by auto
  have "\<exists>hr hr' ft. hc_dec (fe_codec E) m = Inr hr \<and> hc_dec (fe_codec E) m' = Inr hr' \<and>
          fe_feature E f (om_name hr) = Inr ft \<and> hr' = hr\<lparr>hr_spec := hr_spec hr'\<rparr> \<and>
          carries_version (ch_version (ft_chart ft)) (hr_spec hr')"
    if r: "rewritten E f m m'" for m m'
  proof -
    from r obtain hr ft s where *: "hc_dec (fe_codec E) m = Inr hr" "fe_feature E f (om_name hr) = Inr ft"
        "carries_version (ch_version (ft_chart ft)) s" "hc_enc (fe_codec E) (hr\<lparr>hr_spec := s\<rparr>) = Inr m'"
      unfolding rewritten_def by blast
    with codec_okD [OF assms(1) *(4)] show ?thesis
      by (intro exI [of _ hr] exI [of _ "hr\<lparr>hr_spec := s\<rparr>"] exI [of _ ft]) simp
  qed
  then have M: "if feature_manifest E (mw_manifests mw ! i)
        then \<exists>hr hr' ft. hc_dec (fe_codec E) (mw_manifests mw ! i) = Inr hr \<and>
               hc_dec (fe_codec E) (mw_manifests mw' ! i) = Inr hr' \<and>
               fe_feature E f (om_name hr) = Inr ft \<and> hr' = hr\<lparr>hr_spec := hr_spec hr'\<rparr> \<and>
               carries_version (ch_version (ft_chart ft)) (hr_spec hr')
        else mw_manifests mw' ! i = mw_manifests mw ! i" if "i < length (mw_manifests mw)" for i
    using list_all2_nthD [OF rw that] by (simp add: mw')
  have T: "\<forall>t \<in> set new. work_key t = obj_key mw \<and> rules_installed mw' (ut_hr_ns t) (ut_hr_name t) \<and>
           d' (ut_hr_name t) = Some ConditionFalse"
    using new(2) rules by (simp add: work_key_def obj_key_def)
  have D: "\<forall>k. k \<notin> ut_hr_name ` set new \<longrightarrow> d' k = d k" using new(3) by metis
  have len: "length (mw_manifests mw') = length (mw_manifests mw)" using ok by (simp add: mw')
  show ?thesis by (intro conjI key len exI [of _ new] new(1) T D allI impI M)
qed

theorem rewritten_work_witness:
  "\<exists>mw' d' ts'. rewrite_work ex_env () ex_profile ex_upbinding ex_old_work (Map.empty, []) = Inr (mw', d', ts') \<and>
     obj_key mw' = obj_key ex_old_work"
proof -
  obtain mw' t where "rewrite_work ex_env () ex_profile ex_upbinding ex_old_work (Map.empty, []) =
      Inr (mw', Map.empty(''kube-ui-server'' \<mapsto> ConditionFalse), [] @ [t])"
    using ex_rewrite by blast
  from this rewritten_work [OF _ this] ver_codec_ok show ?thesis by simp
qed





end
