(* ===== verification/FeatureRules.thy ===== *)
theory FeatureRules
  imports FakeApi "HOL-Library.Char_ord" "HOL-Library.List_Lexorder" "HOL-Library.Sublist"
begin

text \<open>
  Which features a cluster gets and on which others a release waits
  (\<open>enable_featureset.go\<close>, \<open>helpers.go\<close> of the feature installer): the features claim, the
  closure of a profile under requirements (\<open>addRequiredFeatures\<close>), the selection within
  exclusion groups (\<open>sanitizeFeatures\<close>), the status of a feature on the server, and the
  values a feature set chart is rendered from, \<open>dependsOn\<close> included. The requirement loop is
  a worklist over a server of any size, so it takes fuel; that enough fuel exists whenever the
  server knows finitely many features is \<open>addRequiredFeatures_terminates\<close>.
\<close>

section \<open>The features claim\<close>

fun claim_value :: "claim list \<Rightarrow> string option" where
  "claim_value [] = None"
| "claim_value (c # cs) = (if cl_name c = ClusterClaimKeyFeatures then Some (cl_value c) else claim_value cs)"

definition getFeatureStatus :: "'f fakeenv \<Rightarrow> managedcluster \<Rightarrow> gerr + claimfeatures" where
  "getFeatureStatus E cluster =
     (case claim_value (mc_claims cluster) of
        None \<Rightarrow> Inl ErrNoClaim
      | Some v \<Rightarrow> fe_claim E v)"

definition no_claim :: claimfeatures where
  "no_claim = \<lparr> cf_enabled = [], cf_external = [], cf_disabled = [] \<rparr>"

text \<open>A feature the cluster opted out of, or manages itself.\<close>

definition exempt :: "claimfeatures \<Rightarrow> string \<Rightarrow> bool" where
  "exempt c n \<longleftrightarrow> n \<in> set (cf_disabled c) \<or> n \<in> set (cf_external c)"

section \<open>Features per feature set\<close>

text \<open>
  \<open>map[string][]string\<close>, as an association list; an append to a missing key adds it. The order
  in which a \<open>range\<close> visits it is that of \<open>range_order\<close>, for each loop its own.
\<close>

type_synonym featureinfo = "(string \<times> string list) list"

fun info_append :: "string \<Rightarrow> string \<Rightarrow> featureinfo \<Rightarrow> featureinfo" where
  "info_append k n [] = [(k, [n])]"
| "info_append k n ((k', ns) # is) =
     (if k' = k then (k', ns @ [n]) # is else (k', ns) # info_append k n is)"

definition info_at :: "featureinfo \<Rightarrow> string \<Rightarrow> string list" where
  "info_at info k = (case map_of info k of None \<Rightarrow> [] | Some ns \<Rightarrow> ns)"

definition info_names :: "featureinfo \<Rightarrow> string list" where
  "info_names info = concat (map snd info)"

section \<open>Closing the profile under requirements\<close>

record addstate =
  as_present :: "string list"
  as_queue :: "string list"
  as_claim :: "claimfeatures option"
  as_info :: featureinfo

text \<open>The claim is read once, when the first requirement is met.\<close>

definition load_claim :: "'f fakeenv \<Rightarrow> string \<Rightarrow> addstate \<Rightarrow> (claimfeatures \<times> addstate) kc" where
  "load_claim E clusterName st =
     (case as_claim st of
        Some c \<Rightarrow> ret (c, st)
      | None \<Rightarrow>
          bindM (api_get clusters ('''', clusterName)) (\<lambda>mc.
            case getFeatureStatus E mc of
              Inr c \<Rightarrow> ret (c, st\<lparr>as_claim := Some c\<rparr>)
            | Inl ErrNoClaim \<Rightarrow> ret (no_claim, st\<lparr>as_claim := Some no_claim\<rparr>)
            | Inl e \<Rightarrow> raise e))"

definition require_one :: "'f fakeenv \<Rightarrow> 'f \<Rightarrow> claimfeatures \<Rightarrow> addstate \<Rightarrow> string \<Rightarrow> gerr + addstate" where
  "require_one E f c st req =
     (if req \<in> set (as_present st) \<or> req = ChartLicenseProxyServer \<or> exempt c req then Inr st
      else bindE (fe_feature E f req) (\<lambda>ft.
        Inr (st\<lparr>as_present := req # as_present st, as_queue := as_queue st @ [req],
               as_info := info_append (ft_set ft) req (as_info st)\<rparr>)))"

fun require_all :: "'f fakeenv \<Rightarrow> 'f \<Rightarrow> claimfeatures \<Rightarrow> addstate \<Rightarrow> string list \<Rightarrow> gerr + addstate" where
  "require_all E f c st [] = Inr st"
| "require_all E f c st (r # rs) = bindE (require_one E f c st r) (\<lambda>st'. require_all E f c st' rs)"

definition visit_feature :: "'f fakeenv \<Rightarrow> 'f \<Rightarrow> string \<Rightarrow> string \<Rightarrow> addstate \<Rightarrow> addstate kc" where
  "visit_feature E f clusterName name st =
     (case fe_feature E f name of
        Inl e \<Rightarrow> if is_not_found e then ret st else raise e
      | Inr ft \<Rightarrow>
          if ft_set ft = ''opscenter-core'' \<or> ft_requires ft = [] then ret st
          else bindM (load_claim E clusterName st) (\<lambda>(c, st'). liftM (require_all E f c st' (ft_requires ft))))"

text \<open>The worklist loop; \<open>None\<close> is out of fuel.\<close>

fun add_loop :: "'f fakeenv \<Rightarrow> 'f \<Rightarrow> string \<Rightarrow> nat \<Rightarrow> addstate \<Rightarrow> addstate option kc" where
  "add_loop E f clusterName n st =
     (case as_queue st of
        [] \<Rightarrow> ret (Some st)
      | name # q \<Rightarrow>
          (case n of
             0 \<Rightarrow> ret None
           | Suc n' \<Rightarrow>
               bindM (visit_feature E f clusterName name (st\<lparr>as_queue := q\<rparr>)) (\<lambda>st'.
                 add_loop E f clusterName n' st')))"

declare add_loop.simps [simp del]

definition add_start :: "'f fakeenv \<Rightarrow> featureinfo \<Rightarrow> addstate" where
  "add_start E info =
     (let names = info_names (range_order E 2 info) in
      \<lparr> as_present = names, as_queue = names, as_claim = None, as_info = info \<rparr>)"

definition addRequiredFeatures ::
  "'f fakeenv \<Rightarrow> 'f \<Rightarrow> nat \<Rightarrow> string \<Rightarrow> featureinfo \<Rightarrow> featureinfo option kc" where
  "addRequiredFeatures E f fuel clusterName info =
     bindM (add_loop E f clusterName fuel (add_start E info)) (\<lambda>r. ret (map_option as_info r))"

section \<open>Selecting features\<close>

fun works_with :: "'f fakeenv \<Rightarrow> string \<Rightarrow> raw list \<Rightarrow> gerr + bool" where
  "works_with E featureName [] = Inr False"
| "works_with E featureName (m # ms) =
     bindE (hc_dec (fe_codec E) m) (\<lambda>hr.
       if om_name hr = featureName then Inr True else works_with E featureName ms)"

definition existInManifestWork :: "'f fakeenv \<Rightarrow> string \<Rightarrow> string \<Rightarrow> string \<Rightarrow> bool kc" where
  "existInManifestWork E clusterName fSetName featureName =
     tryM (api_get works (clusterName, fSetName))
       (\<lambda>r. case r of
              Inr mw \<Rightarrow> liftM (works_with E featureName (mw_manifests mw))
            | Inl e \<Rightarrow> if is_not_found e then ret False else raise e)"

type_synonym groups = "string \<Rightarrow> string list"

text \<open>The exclusion groups that already have an enabled feature, by the claim.\<close>

definition enabled_groups :: "claimfeatures \<Rightarrow> feature list \<Rightarrow> groups" where
  "enabled_groups c fts g =
     map om_name (filter (\<lambda>ft. ft_exclusion ft = g \<and> ft_exclusion ft \<noteq> '''' \<and> om_name ft \<in> set (cf_enabled c)) fts)"

definition sanitize_one ::
  "'f fakeenv \<Rightarrow> string \<Rightarrow> claimfeatures \<Rightarrow> groups \<times> string list \<Rightarrow> string \<Rightarrow> (groups \<times> string list) kc" where
  "sanitize_one E clusterName c gs n =
     bindM (api_get features ('''', n)) (\<lambda>ft.
       if exempt c n then ret gs
       else bindM (existInManifestWork E clusterName (ft_set ft) (om_name ft)) (\<lambda>exist.
         if ft_exclusion ft \<noteq> '''' \<and> fst gs (ft_exclusion ft) \<noteq> [] \<and> \<not> exist then ret gs
         else ret
           (if ft_exclusion ft \<noteq> ''''
            then (fst gs)(ft_exclusion ft := fst gs (ft_exclusion ft) @ [om_name ft]) else fst gs,
            snd gs @ [n])))"

definition sanitizeFeatures :: "'f fakeenv \<Rightarrow> string \<Rightarrow> string list \<Rightarrow> string list kc" where
  "sanitizeFeatures E clusterName ns =
     bindM (api_get clusters ('''', clusterName)) (\<lambda>mc.
     bindM (liftM (getFeatureStatus E mc)) (\<lambda>c.
     bindM (api_list features (\<lambda>ft. True)) (\<lambda>fts.
     bindM (foldM (sanitize_one E clusterName c) (enabled_groups c fts, []) (sort ns)) (\<lambda>gs.
       ret (snd gs)))))"

section \<open>The status of a feature on the server\<close>

record featurestatus =
  sf_enabled :: bool
  sf_managed :: bool
  sf_ready :: bool

definition ignoreNotFoundError :: "gerr \<Rightarrow> gerr option" where
  "ignoreNotFoundError e = (if e = ErrNoMatch \<or> is_not_found e then None else Some e)"

definition lookup_failed :: "gerr \<Rightarrow> gerr + bool" where
  "lookup_failed e = (case ignoreNotFoundError e of None \<Rightarrow> Inr False | Some e' \<Rightarrow> Inl e')"

definition checkHelmReleaseExistence :: "'f fakeenv \<Rightarrow> 'f \<Rightarrow> feature \<Rightarrow> gerr + bool" where
  "checkHelmReleaseExistence E f ft =
     bindE (fe_releases E f (om_name ft) (ft_set ft)) (\<lambda>n. Inr (0 < n))"

fun all_resources :: "'f fakeenv \<Rightarrow> 'f \<Rightarrow> readiness_gvk list \<Rightarrow> gerr + bool" where
  "all_resources E f [] = Inr True"
| "all_resources E f (g # gs) =
     (case fe_resources E f (g\<lparr>gvk_selector := []\<rparr>) of
        Inl e \<Rightarrow> lookup_failed e
      | Inr n \<Rightarrow> all_resources E f gs)"

definition checkRequiredResourcesExistence :: "'f fakeenv \<Rightarrow> 'f \<Rightarrow> feature \<Rightarrow> gerr + bool" where
  "checkRequiredResourcesExistence E f ft = all_resources E f (ft_resources ft)"

fun all_workloads :: "'f fakeenv \<Rightarrow> 'f \<Rightarrow> readiness_gvk list \<Rightarrow> gerr + bool" where
  "all_workloads E f [] = Inr True"
| "all_workloads E f (g # gs) =
     (case fe_resources E f g of
        Inl e \<Rightarrow> lookup_failed e
      | Inr n \<Rightarrow> if n = 0 then Inr False else all_workloads E f gs)"

definition checkRequiredWorkloadExistence :: "'f fakeenv \<Rightarrow> 'f \<Rightarrow> feature \<Rightarrow> gerr + bool" where
  "checkRequiredWorkloadExistence E f ft =
     bindE (all_workloads E f (ft_workloads ft)) (\<lambda>ok. Inr (ok \<and> ft_workloads ft \<noteq> []))"

definition deref :: "bool option \<Rightarrow> bool" where
  "deref p = (case p of None \<Rightarrow> False | Some b \<Rightarrow> b)"

definition calculateFeatureStatus :: "'f fakeenv \<Rightarrow> 'f \<Rightarrow> feature \<Rightarrow> gerr + featurestatus" where
  "calculateFeatureStatus E f ft =
     (if deref (ft_enabled ft) then
        Inr \<lparr> sf_enabled = True, sf_managed = deref (ft_managed ft), sf_ready = deref (ft_ready ft) \<rparr>
      else bindE (checkHelmReleaseExistence E f ft) (\<lambda>found.
        if found then Inr \<lparr> sf_enabled = True, sf_managed = True, sf_ready = False \<rparr>
        else bindE (checkRequiredResourcesExistence E f ft) (\<lambda>found.
          if \<not> found then Inr \<lparr> sf_enabled = False, sf_managed = False, sf_ready = False \<rparr>
          else bindE (checkRequiredWorkloadExistence E f ft) (\<lambda>ok.
            Inr \<lparr> sf_enabled = ok, sf_managed = False, sf_ready = False \<rparr>))))"

section \<open>The values of a feature set\<close>

abbreviation feature_path :: "string \<Rightarrow> string list \<Rightarrow> string list" where
  "feature_path n p \<equiv> [''resources'', getFeaturePathInValues n] @ p"

definition name_ref :: "string \<Rightarrow> json" where
  "name_ref n = JObj (fmap_of_list [(''name'', JStr n)])"

text \<open>The references a release waits on: the requirements that are neither exempt nor the license proxy.\<close>

fun depends_on :: "'f fakeenv \<Rightarrow> 'f \<Rightarrow> claimfeatures option \<Rightarrow> string list \<Rightarrow> gerr + string list" where
  "depends_on E f c [] = Inr []"
| "depends_on E f c (r # rs) =
     bindE (fe_feature E f r) (\<lambda>ft.
     bindE (depends_on E f c rs) (\<lambda>ds.
       Inr (if om_name ft = ChartLicenseProxyServer then ds
            else case c of
              None \<Rightarrow> ds
            | Some c' \<Rightarrow> if exempt c' (om_name ft) then ds else om_name ft # ds)))"

definition feature_claim :: "'f fakeenv \<Rightarrow> feature \<Rightarrow> managedcluster \<Rightarrow> gerr + claimfeatures option" where
  "feature_claim E ft mc =
     (if ft_set ft \<noteq> ''opscenter-core'' then bindE (getFeatureStatus E mc) (\<lambda>c. Inr (Some c)) else Inr None)"

definition updateHelmReleaseDependency ::
  "'f fakeenv \<Rightarrow> 'f \<Rightarrow> jmap \<Rightarrow> feature \<Rightarrow> managedcluster \<Rightarrow> gerr + jmap" where
  "updateHelmReleaseDependency E f values ft mc =
     bindE (feature_claim E ft mc) (\<lambda>c.
       if om_name ft = ''kube-ui-server'' then
         SetNestedField values (JArr [name_ref ChartOpscenterFeatures]) (feature_path (om_name ft) [''spec'', ''dependsOn''])
       else if ft_requires ft \<noteq> [] then
         bindE (depends_on E f c (ft_requires ft)) (\<lambda>ds.
           SetNestedField values (JArr (map name_ref ds)) (feature_path (om_name ft) [''spec'', ''dependsOn'']))
       else Inr (RemoveNestedField values (feature_path (om_name ft) [''spec'', ''dependsOn''])))"

definition setReleaseNameAndNamespace :: "featureset \<Rightarrow> string \<Rightarrow> jmap \<Rightarrow> gerr + jmap" where
  "setReleaseNameAndNamespace fs ns values =
     bindE (SetNestedField values (JStr (om_name fs)) [''metadata'', ''release'', ''name'']) (\<lambda>values.
       SetNestedField values (JStr ns) [''metadata'', ''release'', ''namespace''])"

definition setLabelsToHelmReleases :: "featureset \<Rightarrow> feature \<Rightarrow> jmap \<Rightarrow> gerr + jmap" where
  "setLabelsToHelmReleases fs ft values =
     SetNestedField values
       (JObj (fmap_of_list
          [(''app.kubernetes.io/component'', JStr (om_name ft)), (''app.kubernetes.io/part-of'', JStr (om_name fs))]))
       (feature_path (om_name ft) [''metadata'', ''labels''])"

text \<open>\<open>editor.SetChartInfo\<close> is a parameter; a not-found error of it is ignored.\<close>

definition chart_info :: "'f fakeenv \<Rightarrow> 'f \<Rightarrow> feature \<Rightarrow> jmap \<Rightarrow> gerr + jmap" where
  "chart_info E f ft values =
     (case fe_set_chart_info E f ft (getFeaturePathInValues (om_name ft)) values of
        (None, v) \<Rightarrow> Inr v
      | (Some e, v) \<Rightarrow> if is_not_found e then Inr v else Inl e)"

definition generateHelmReleaseForFeature ::
  "'f fakeenv \<Rightarrow> 'f \<Rightarrow> featureset \<Rightarrow> feature \<Rightarrow> chart \<Rightarrow> jmap \<Rightarrow> managedcluster \<Rightarrow> gerr + jmap" where
  "generateHelmReleaseForFeature E f fs ft chart curValues mc =
     bindE (NestedMap (chart_values chart) (feature_path (om_name ft) [])) (\<lambda>featureDefault.
     bindE (SetNestedField curValues (JObj (of_nil featureDefault)) (feature_path (om_name ft) [])) (\<lambda>values.
     bindE (setLabelsToHelmReleases fs ft values) (\<lambda>values.
     bindE (chart_info E f ft values) (\<lambda>values.
       updateHelmReleaseDependency E f values ft mc))))"

text \<open>The chart of a feature: the profile's, and always the bootstrap repository for akp-crd-manager.\<close>

definition install_chart :: "'f fakeenv \<Rightarrow> profile \<Rightarrow> feature \<Rightarrow> feature" where
  "install_chart E pr ft =
     (let s = fspec_at (pr_features pr) (om_name ft);
          ft1 = (if ch_name (fs_chart s) \<noteq> '''' then ft\<lparr>ft_chart := fs_chart s\<rparr> else ft)
      in if om_name ft1 = ''akp-crd-manager''
         then ft1\<lparr>ft_chart := (ft_chart ft1)\<lparr>ch_source :=
                (ch_source (ft_chart ft1))\<lparr>sr_name := fe_boot_name E, sr_ns := fe_boot_ns E\<rparr>\<rparr>\<rparr>
         else ft1)"

fun set_features ::
  "'f fakeenv \<Rightarrow> 'f \<Rightarrow> featureset \<Rightarrow> chart \<Rightarrow> managedcluster \<Rightarrow> profile \<Rightarrow> string list \<Rightarrow> jmap \<Rightarrow> gerr + jmap" where
  "set_features E f fs chart mc pr [] curValues = Inr curValues"
| "set_features E f fs chart mc pr (n # ns) curValues =
     bindE (fe_feature E f n) (\<lambda>ft0.
     let ft = install_chart E pr ft0 in
     bindE (calculateFeatureStatus E f ft) (\<lambda>st.
       if sf_enabled st \<and> \<not> sf_managed st then set_features E f fs chart mc pr ns curValues
       else bindE (generateHelmReleaseForFeature E f fs ft chart curValues mc) (\<lambda>curValues.
         set_features E f fs chart mc pr ns curValues)))"

definition getFeatureSetChartRef :: "'f fakeenv \<Rightarrow> 'f \<Rightarrow> featureset \<Rightarrow> string \<Rightarrow> gerr + chart \<times> jmap" where
  "getFeatureSetChartRef E f fs releaseNamespace =
     bindE (fe_chart E f (fset_chart fs)) (\<lambda>chart.
     bindE (DeepCopyMap (fe_gob_enc E) (fe_gob_dec E) (Some (chart_values chart))) (\<lambda>curValues.
     bindE (setReleaseNameAndNamespace fs releaseNamespace (fmupd ''resources'' (JObj fmempty) curValues)) (\<lambda>v.
       Inr (chart, v))))"

definition GetFeatureSetValues ::
  "'f fakeenv \<Rightarrow> 'f \<Rightarrow> featureset \<Rightarrow> string list \<Rightarrow> managedcluster \<Rightarrow> profile \<Rightarrow> gerr + jmap" where
  "GetFeatureSetValues E f fs ns mc pr =
     bindE (getFeatureSetChartRef E f fs (fe_boot_ns E)) (\<lambda>(chart, curValues).
       set_features E f fs chart mc pr ns curValues)"

definition featureToBeEnabled :: "string \<Rightarrow> jmap \<Rightarrow> gerr + bool" where
  "featureToBeEnabled n values =
     bindE (NestedFieldNoCopy values (feature_path n [])) (\<lambda>v. Inr (v \<noteq> None))"

fun update_dependencies ::
  "'f fakeenv \<Rightarrow> 'f \<Rightarrow> managedcluster \<Rightarrow> feature list \<Rightarrow> jmap \<Rightarrow> gerr + jmap" where
  "update_dependencies E f mc [] values = Inr values"
| "update_dependencies E f mc (ft # fts) values =
     bindE (featureToBeEnabled (om_name ft) values) (\<lambda>ok.
       if ok then bindE (updateHelmReleaseDependency E f values ft mc) (update_dependencies E f mc fts)
       else update_dependencies E f mc fts values)"

definition GetFeatures :: "'f fakeenv \<Rightarrow> 'f \<Rightarrow> string \<Rightarrow> gerr + feature list" where
  "GetFeatures E f fs = (case fe_features_in E f fs of Inl e \<Rightarrow> Inl e | Inr feats \<Rightarrow> Inr feats)"

definition UpdateFeatureSetValues :: "'f fakeenv \<Rightarrow> 'f \<Rightarrow> string \<Rightarrow> jmap \<Rightarrow> managedcluster \<Rightarrow> gerr + jmap" where
  "UpdateFeatureSetValues E f fs values mc =
     bindE (GetFeatures E f fs) (\<lambda>fts. update_dependencies E f mc fts values)"


section \<open>Appending to the features of a set\<close>

lemma info_at_append [simp]: "info_at (info_append k n info) k' = (if k' = k then info_at info k @ [n] else info_at info k')"
proof (induction info)
  case Nil
  then show ?case by (simp add: info_at_def)
next
  case (Cons p info)
  then show ?case by (cases p; cases "k' = k") (simp_all add: info_at_def)
qed

lemma info_names_visit [simp]:
  "set (info_names (range_order E i info)) = set (info_names info)"
  "length (info_names (range_order E i info)) = length (info_names info)"
proof -
  have m: "mset (info_names (range_order E i info)) = mset (info_names info)"
    unfolding info_names_def mset_concat sum_mset_sum_list [symmetric] mset_map range_order_simps ..
  show "set (info_names (range_order E i info)) = set (info_names info)" by (rule mset_eq_setD [OF m])
  show "length (info_names (range_order E i info)) = length (info_names info)" by (rule mset_eq_length [OF m])
qed

lemma set_info_names_append [simp]: "set (info_names (info_append k n info)) = insert n (set (info_names info))"
  by (induction k n info rule: info_append.induct) (auto simp: info_names_def)

section \<open>The worklist\<close>

lemma require_one_cases:
  assumes "require_one E f c st r = Inr st'"
  obtains (skip) "st' = st" "r \<in> set (as_present st) \<or> r = ChartLicenseProxyServer \<or> exempt c r"
  | (add) ft where "fe_feature E f r = Inr ft" "r \<notin> set (as_present st)"
      "st' = st\<lparr>as_present := r # as_present st, as_queue := as_queue st @ [r],
                as_info := info_append (ft_set ft) r (as_info st)\<rparr>"
proof (cases "r \<in> set (as_present st) \<or> r = ChartLicenseProxyServer \<or> exempt c r")
  case True
  with assms show thesis by (intro skip) (simp_all add: require_one_def)
next
  case False
  with assms obtain ft where "fe_feature E f r = Inr ft"
    "st' = st\<lparr>as_present := r # as_present st, as_queue := as_queue st @ [r],
                as_info := info_append (ft_set ft) r (as_info st)\<rparr>"
    by (cases "fe_feature E f r") (simp_all add: require_one_def)
  with False show thesis by (intro add) simp_all
qed

text \<open>How the state grows: names are added to the lists of their own feature set, and queued.\<close>

definition grows :: "'f fakeenv \<Rightarrow> 'f \<Rightarrow> addstate \<Rightarrow> addstate \<Rightarrow> bool" where
  "grows E f st st' \<longleftrightarrow>
     as_claim st' = as_claim st \<and>
     (\<exists>new. as_queue st' = as_queue st @ new \<and> as_present st' = rev new @ as_present st \<and>
        distinct new \<and> set new \<inter> set (as_present st) = {} \<and>
        set (info_names (as_info st')) = set new \<union> set (info_names (as_info st)) \<and>
        (\<forall>n \<in> set new. \<exists>ft. fe_feature E f n = Inr ft) \<and>
        (\<forall>k. \<exists>app. info_at (as_info st') k = info_at (as_info st) k @ app \<and>
           (\<forall>n \<in> set app. \<exists>ft. fe_feature E f n = Inr ft \<and> ft_set ft = k)))"

lemma grows_refl: "grows E f st st"
  unfolding grows_def by (intro conjI exI [of _ "[]"]) simp_all

lemma grows_trans:
  assumes "grows E f st st1" and "grows E f st1 st2"
  shows "grows E f st st2"
proof -
  from assms(1) obtain n1 where n1: "as_queue st1 = as_queue st @ n1" "as_present st1 = rev n1 @ as_present st"
      "distinct n1" "set n1 \<inter> set (as_present st) = {}"
      "set (info_names (as_info st1)) = set n1 \<union> set (info_names (as_info st))"
      "\<forall>n \<in> set n1. \<exists>ft. fe_feature E f n = Inr ft"
    and a1: "\<And>k. \<exists>app. info_at (as_info st1) k = info_at (as_info st) k @ app \<and>
           (\<forall>n \<in> set app. \<exists>ft. fe_feature E f n = Inr ft \<and> ft_set ft = k)"
    and c1: "as_claim st1 = as_claim st"
    unfolding grows_def by blast
  from assms(2) obtain n2 where n2: "as_queue st2 = as_queue st1 @ n2" "as_present st2 = rev n2 @ as_present st1"
      "distinct n2" "set n2 \<inter> set (as_present st1) = {}"
      "set (info_names (as_info st2)) = set n2 \<union> set (info_names (as_info st1))"
      "\<forall>n \<in> set n2. \<exists>ft. fe_feature E f n = Inr ft"
    and a2: "\<And>k. \<exists>app. info_at (as_info st2) k = info_at (as_info st1) k @ app \<and>
           (\<forall>n \<in> set app. \<exists>ft. fe_feature E f n = Inr ft \<and> ft_set ft = k)"
    and c2: "as_claim st2 = as_claim st1"
    unfolding grows_def by blast
  have "\<exists>app. info_at (as_info st2) k = info_at (as_info st) k @ app \<and>
           (\<forall>n \<in> set app. \<exists>ft. fe_feature E f n = Inr ft \<and> ft_set ft = k)" for k
  proof -
    from a1 obtain p1 where "info_at (as_info st1) k = info_at (as_info st) k @ p1"
        "\<forall>n \<in> set p1. \<exists>ft. fe_feature E f n = Inr ft \<and> ft_set ft = k" by blast
    moreover from a2 obtain p2 where "info_at (as_info st2) k = info_at (as_info st1) k @ p2"
        "\<forall>n \<in> set p2. \<exists>ft. fe_feature E f n = Inr ft \<and> ft_set ft = k" by blast
    ultimately show ?thesis by (intro exI [of _ "p1 @ p2"]) auto
  qed
  then show ?thesis
    unfolding grows_def using n1 n2 c1 c2 by (intro conjI exI [of _ "n1 @ n2"]) (simp_all, blast+)
qed

lemma require_one_grows: "require_one E f c st r = Inr st' \<Longrightarrow> grows E f st st'"
proof (erule require_one_cases)
  fix ft
  assume "fe_feature E f r = Inr ft" "r \<notin> set (as_present st)"
    "st' = st\<lparr>as_present := r # as_present st, as_queue := as_queue st @ [r],
                as_info := info_append (ft_set ft) r (as_info st)\<rparr>"
  then show ?thesis by (auto simp: grows_def intro!: exI [of _ "[r]"])
qed (simp add: grows_refl)

lemma require_all_grows: "require_all E f c st rs = Inr st' \<Longrightarrow> grows E f st st'"
proof (induction rs arbitrary: st)
  case Nil
  then show ?case by (simp add: grows_refl)
next
  case (Cons r rs)
  then show ?case by (auto simp: bindE_Inr_iff intro: grows_trans require_one_grows)
qed

lemma grows_present: "grows E f st st' \<Longrightarrow> set (as_present st) \<subseteq> set (as_present st')"
  by (auto simp: grows_def)

lemma require_all_done:
  "require_all E f c st rs = Inr st' \<Longrightarrow>
     \<forall>r \<in> set rs. r \<in> set (as_present st') \<or> r = ChartLicenseProxyServer \<or> exempt c r"
proof (induction rs arbitrary: st)
  case Nil
  then show ?case by simp
next
  case (Cons r rs)
  then obtain st1 where r: "require_one E f c st r = Inr st1" and rs: "require_all E f c st1 rs = Inr st'"
    by (auto simp: bindE_Inr_iff)
  from r have "r \<in> set (as_present st1) \<or> r = ChartLicenseProxyServer \<or> exempt c r"
    by (rule require_one_cases) auto
  with grows_present [OF require_all_grows [OF rs]] Cons.IH [OF rs] show ?case by auto
qed

text \<open>The claim the loop works with: what the hub holds, or none.\<close>

definition cluster_claim :: "'f fakeenv \<Rightarrow> world \<Rightarrow> string \<Rightarrow> claimfeatures" where
  "cluster_claim E w clusterName =
     (case find_obj ('''', clusterName) (w_clusters w) of
        None \<Rightarrow> no_claim
      | Some mc \<Rightarrow> (case getFeatureStatus E mc of Inl e \<Rightarrow> no_claim | Inr c \<Rightarrow> c))"

lemma cluster_claim_faults [simp]: "cluster_claim E (w\<lparr>w_faults := fs\<rparr>) = cluster_claim E w"
  by (simp add: cluster_claim_def fun_eq_iff)

definition claim_ok :: "'f fakeenv \<Rightarrow> world \<Rightarrow> string \<Rightarrow> addstate \<Rightarrow> bool" where
  "claim_ok E w clusterName st \<longleftrightarrow> as_claim st \<in> {None, Some (cluster_claim E w clusterName)}"

lemma load_claim_Inr:
  assumes "load_claim E cl st w = (Inr (c, st'), w')" and "claim_ok E w cl st"
  shows "c = cluster_claim E w cl \<and> st' = st\<lparr>as_claim := Some c\<rparr> \<and> (\<exists>fs. w' = w\<lparr>w_faults := fs\<rparr>)"
proof (cases "as_claim st")
  case (Some c0)
  with assms have "c = c0" "st' = st" "w' = w" by (simp_all add: load_claim_def ret_run)
  moreover have "\<exists>fs. w = w\<lparr>w_faults := fs\<rparr>" by (rule exI [of _ "w_faults w"]) simp
  moreover have "c0 = cluster_claim E w cl" using Some assms(2) by (simp add: claim_ok_def)
  ultimately show ?thesis using Some by simp
next
  case None
  show ?thesis
  proof (cases rule: clk.get_cases [of "('''', cl)" w])
    case (found mc fs)
    then have "find_obj ('''', cl) (w_clusters w) = Some mc" by (simp add: clusters_def)
    with found None assms(1) show ?thesis
      by (auto simp: load_claim_def bindM_run ret_run raise_run cluster_claim_def split: sum.splits gerr.splits)
  next
    case (failed e fs)
    with None assms(1) show ?thesis by (simp add: load_claim_def bindM_run)
  qed
qed

lemma visit_feature_Inr:
  assumes "visit_feature E f cl n st w = (Inr st', w')" and "claim_ok E w cl st"
  obtains st1 where "st1 = st \<or> st1 = st\<lparr>as_claim := Some (cluster_claim E w cl)\<rparr>" "grows E f st1 st'"
    "\<exists>fs. w' = w\<lparr>w_faults := fs\<rparr>"
    "\<And>ft r. fe_feature E f n = Inr ft \<Longrightarrow> ft_set ft \<noteq> ''opscenter-core'' \<Longrightarrow> r \<in> set (ft_requires ft) \<Longrightarrow>
       r \<in> set (as_present st') \<or> r = ChartLicenseProxyServer \<or> exempt (cluster_claim E w cl) r"
proof -
  have w: "\<exists>fs. w = w\<lparr>w_faults := fs\<rparr>" by (rule exI [of _ "w_faults w"]) simp
  show thesis
  proof (cases "fe_feature E f n")
    case (Inl e)
    with assms(1) have "st' = st" "w' = w" by (auto simp: visit_feature_def ret_run raise_run split: if_splits)
    with Inl w show thesis by (intro that [of st]) (auto simp: grows_refl)
  next
    case (Inr ft)
    show thesis
    proof (cases "ft_set ft = ''opscenter-core'' \<or> ft_requires ft = []")
      case True
      with assms(1) Inr have "st' = st" "w' = w" by (auto simp: visit_feature_def ret_run)
      with Inr True w show thesis by (intro that [of st]) (auto simp: grows_refl)
    next
      case False
      with assms(1) Inr obtain c st1 w1 where l: "load_claim E cl st w = (Inr (c, st1), w1)"
        and r: "require_all E f c st1 (ft_requires ft) = Inr st'" and w1: "w' = w1"
        by (auto simp: visit_feature_def bindM_Inr_iff liftM_run)
      note lc = load_claim_Inr [OF l assms(2)]
      from lc w1 require_all_grows [OF r] require_all_done [OF r] Inr show thesis
        by (intro that [of st1]) auto
    qed
  qed
qed

lemma require_all_new:
  "require_all E f c st rs = Inr st' \<Longrightarrow> n \<in> set (as_present st') \<Longrightarrow>
     n \<in> set (as_present st) \<or> (n \<in> set rs \<and> n \<noteq> ChartLicenseProxyServer \<and> \<not> exempt c n)"
proof (induction rs arbitrary: st)
  case Nil
  then show ?case by simp
next
  case (Cons r rs)
  then obtain st1 where r: "require_one E f c st r = Inr st1" and rs: "require_all E f c st1 rs = Inr st'"
    by (auto simp: bindE_Inr_iff)
  have "n \<in> set (as_present st1) \<Longrightarrow>
      n \<in> set (as_present st) \<or> (n = r \<and> n \<noteq> ChartLicenseProxyServer \<and> \<not> exempt c n)"
    using r by (cases "r \<in> set (as_present st) \<or> r = ChartLicenseProxyServer \<or> exempt c r")
      (auto simp: require_one_def bindE_Inr_iff)
  with Cons.IH [OF rs Cons.prems(2)] show ?case by auto
qed

section \<open>What the loop computes\<close>

text \<open>The features a cluster needs: the selected ones and, transitively, the requirements that apply to it.\<close>

inductive needed :: "'f fakeenv \<Rightarrow> 'f \<Rightarrow> claimfeatures \<Rightarrow> string list \<Rightarrow> string \<Rightarrow> bool"
  for E f c ns where
  selected: "n \<in> set ns \<Longrightarrow> needed E f c ns n"
| required: "needed E f c ns n \<Longrightarrow> fe_feature E f n = Inr ft \<Longrightarrow> ft_set ft \<noteq> ''opscenter-core'' \<Longrightarrow>
    r \<in> set (ft_requires ft) \<Longrightarrow> r \<noteq> ChartLicenseProxyServer \<Longrightarrow> \<not> exempt c r \<Longrightarrow> needed E f c ns r"

definition met :: "'f fakeenv \<Rightarrow> 'f \<Rightarrow> claimfeatures \<Rightarrow> addstate \<Rightarrow> string \<Rightarrow> bool" where
  "met E f c st n \<longleftrightarrow>
     (\<forall>ft r. fe_feature E f n = Inr ft \<longrightarrow> ft_set ft \<noteq> ''opscenter-core'' \<longrightarrow> r \<in> set (ft_requires ft) \<longrightarrow>
        r \<in> set (as_present st) \<or> r = ChartLicenseProxyServer \<or> exempt c r)"

lemma met_grows: "grows E f st st' \<Longrightarrow> met E f c st n \<Longrightarrow> met E f c st' n"
  using grows_present [of E f st st'] unfolding met_def by blast

text \<open>The invariant of the loop, for the world it started in.\<close>

definition add_inv :: "'f fakeenv \<Rightarrow> 'f \<Rightarrow> string \<Rightarrow> featureinfo \<Rightarrow> world \<Rightarrow> addstate \<Rightarrow> bool" where
  "add_inv E f cl info w st \<longleftrightarrow>
     claim_ok E w cl st \<and>
     set (as_present st) = set (info_names (as_info st)) \<and>
     set (info_names info) \<subseteq> set (as_present st) \<and>
     set (as_queue st) \<subseteq> set (as_present st) \<and>
     (\<forall>n \<in> set (as_present st). needed E f (cluster_claim E w cl) (info_names info) n) \<and>
     (\<forall>n \<in> set (as_present st) - set (as_queue st). met E f (cluster_claim E w cl) st n) \<and>
     (\<forall>k. \<exists>app. info_at (as_info st) k = info_at info k @ app \<and>
        (\<forall>n \<in> set app. \<exists>ft. fe_feature E f n = Inr ft \<and> ft_set ft = k))"

lemma add_start_simps [simp]:
  "as_present (add_start E info) = info_names (range_order E 2 info)"
  "as_queue (add_start E info) = info_names (range_order E 2 info)" "as_claim (add_start E info) = None"
  "as_info (add_start E info) = info"
  by (simp_all add: add_start_def Let_def)

lemma add_inv_start: "add_inv E f cl info w (add_start E info)"
  by (auto simp: add_inv_def claim_ok_def intro: needed.selected)

text \<open>One visit, in the form the invariant and the measure use.\<close>

lemma visit_feature_step:
  assumes "visit_feature E f cl n st w = (Inr st', w')" and "claim_ok E w cl st"
  shows "\<exists>st1. (st1 = st \<or> st1 = st\<lparr>as_claim := Some (cluster_claim E w cl)\<rparr>) \<and> grows E f st1 st'"
    and "\<exists>fs. w' = w\<lparr>w_faults := fs\<rparr>"
    and "met E f (cluster_claim E w cl) st' n"
    and "m \<in> set (as_present st') \<Longrightarrow> m \<in> set (as_present st) \<or>
      (\<exists>ft. fe_feature E f n = Inr ft \<and> ft_set ft \<noteq> ''opscenter-core'' \<and> m \<in> set (ft_requires ft) \<and>
        m \<noteq> ChartLicenseProxyServer \<and> \<not> exempt (cluster_claim E w cl) m)"
proof -
  from assms show "\<exists>st1. (st1 = st \<or> st1 = st\<lparr>as_claim := Some (cluster_claim E w cl)\<rparr>) \<and> grows E f st1 st'"
    and "\<exists>fs. w' = w\<lparr>w_faults := fs\<rparr>" and "met E f (cluster_claim E w cl) st' n"
    unfolding met_def by (rule visit_feature_Inr; blast)+
  show "m \<in> set (as_present st) \<or>
      (\<exists>ft. fe_feature E f n = Inr ft \<and> ft_set ft \<noteq> ''opscenter-core'' \<and> m \<in> set (ft_requires ft) \<and>
        m \<noteq> ChartLicenseProxyServer \<and> \<not> exempt (cluster_claim E w cl) m)" if m: "m \<in> set (as_present st')"
  proof (cases "\<exists>ft. fe_feature E f n = Inr ft \<and> ft_set ft \<noteq> ''opscenter-core'' \<and> ft_requires ft \<noteq> []")
    case True
    then obtain ft where ft: "fe_feature E f n = Inr ft" "ft_set ft \<noteq> ''opscenter-core''" "ft_requires ft \<noteq> []" by blast
    with assms(1) obtain c st1 w1 where l: "load_claim E cl st w = (Inr (c, st1), w1)"
      and r: "require_all E f c st1 (ft_requires ft) = Inr st'"
      by (auto simp: visit_feature_def bindM_Inr_iff liftM_run)
    from require_all_new [OF r m] load_claim_Inr [OF l assms(2)] ft show ?thesis by auto
  next
    case False
    with assms(1) have "st' = st"
      by (auto simp: visit_feature_def ret_run raise_run split: sum.splits if_splits)
    with m show ?thesis by simp
  qed
qed

lemma claim_ok_faults [simp]: "claim_ok E (w\<lparr>w_faults := fs\<rparr>) cl st = claim_ok E w cl st"
  by (simp add: claim_ok_def)

lemma add_inv_faults [simp]: "add_inv E f cl info (w\<lparr>w_faults := fs\<rparr>) st = add_inv E f cl info w st"
  by (simp add: add_inv_def)

lemma grows_sizes:
  assumes "st1 = st \<or> st1 = st\<lparr>as_claim := x\<rparr>" and "grows E f st1 st'"
  obtains new where "as_queue st' = as_queue st @ new" "as_present st' = rev new @ as_present st"
    "distinct new" "set new \<inter> set (as_present st) = {}" "\<forall>n \<in> set new. \<exists>ft. fe_feature E f n = Inr ft"
    "set (info_names (as_info st')) = set new \<union> set (info_names (as_info st))"
    "as_claim st' = as_claim st \<or> as_claim st' = x"
    "\<forall>k. \<exists>app. info_at (as_info st') k = info_at (as_info st) k @ app \<and>
       (\<forall>n \<in> set app. \<exists>ft. fe_feature E f n = Inr ft \<and> ft_set ft = k)"
proof -
  have eq: "as_queue st1 = as_queue st" "as_present st1 = as_present st" "as_info st1 = as_info st"
    "as_claim st1 = as_claim st \<or> as_claim st1 = x"
    using assms(1) by auto
  from assms(2) [unfolded grows_def eq] obtain new where
    "as_queue st' = as_queue st @ new" "as_present st' = rev new @ as_present st"
    "distinct new" "set new \<inter> set (as_present st) = {}" "\<forall>n \<in> set new. \<exists>ft. fe_feature E f n = Inr ft"
    "set (info_names (as_info st')) = set new \<union> set (info_names (as_info st))" "as_claim st' = as_claim st1"
    "\<forall>k. \<exists>app. info_at (as_info st') k = info_at (as_info st) k @ app \<and>
       (\<forall>n \<in> set app. \<exists>ft. fe_feature E f n = Inr ft \<and> ft_set ft = k)" by blast
  with eq(4) show thesis by (intro that [of new]) simp_all
qed

lemma add_inv_step:
  assumes inv: "add_inv E f cl info w st" and q: "as_queue st = n # q"
    and v: "visit_feature E f cl n (st\<lparr>as_queue := q\<rparr>) w = (Inr st', w')"
  shows "add_inv E f cl info w st'"
proof -
  let ?c = "cluster_claim E w cl" and ?s = "st\<lparr>as_queue := q\<rparr>"
  have ok: "claim_ok E w cl ?s" using inv by (simp add: add_inv_def claim_ok_def)
  note step = visit_feature_step [OF v ok]
  from step(1) obtain st1 where st1: "st1 = ?s \<or> st1 = ?s\<lparr>as_claim := Some ?c\<rparr>" and g: "grows E f st1 st'" by blast
  from st1 g obtain new where new: "as_queue st' = as_queue ?s @ new" "as_present st' = rev new @ as_present ?s"
    "set (info_names (as_info st')) = set new \<union> set (info_names (as_info ?s))"
    "as_claim st' = as_claim ?s \<or> as_claim st' = Some ?c"
    and app: "\<forall>k. \<exists>app. info_at (as_info st') k = info_at (as_info ?s) k @ app \<and>
       (\<forall>n \<in> set app. \<exists>ft. fe_feature E f n = Inr ft \<and> ft_set ft = k)"
    by (rule grows_sizes)
  have n: "needed E f ?c (info_names info) n" and sub: "set (as_present ?s) \<subseteq> set (as_present st')"
    using inv q new by (auto simp: add_inv_def)
  have "needed E f ?c (info_names info) m" if "m \<in> set (as_present st')" for m
    using step(4) [OF that] inv n by (auto simp: add_inv_def intro: needed.required)
  moreover have "met E f ?c st' m" if "m \<in> set (as_present st') - set (as_queue st')" for m
  proof (cases "m = n")
    case True
    with step(3) show ?thesis by simp
  next
    case False
    with that new q have "m \<in> set (as_present st) - set (as_queue st)" by auto
    with inv have "met E f ?c st m" by (simp add: add_inv_def)
    with sub show ?thesis by (auto simp: met_def)
  qed
  moreover have "\<exists>app. info_at (as_info st') k = info_at info k @ app \<and>
      (\<forall>n \<in> set app. \<exists>ft. fe_feature E f n = Inr ft \<and> ft_set ft = k)" for k
  proof -
    from inv obtain a where a: "info_at (as_info st) k = info_at info k @ a"
      "\<forall>n \<in> set a. \<exists>ft. fe_feature E f n = Inr ft \<and> ft_set ft = k" unfolding add_inv_def by blast
    from app obtain b where b: "info_at (as_info st') k = info_at (as_info ?s) k @ b"
      "\<forall>n \<in> set b. \<exists>ft. fe_feature E f n = Inr ft \<and> ft_set ft = k" by blast
    from a b show ?thesis by (intro exI [of _ "a @ b"]) auto
  qed
  moreover have "claim_ok E w cl st'" using new(4) inv by (auto simp: add_inv_def claim_ok_def)
  moreover have "set (as_present st') = set (info_names (as_info st'))"
    and "set (info_names info) \<subseteq> set (as_present st')" and "set (as_queue st') \<subseteq> set (as_present st')"
    using new inv q by (auto simp: add_inv_def)
  ultimately show ?thesis unfolding add_inv_def by blast
qed

lemma add_loop_unfold:
  "as_queue st = [] \<Longrightarrow> add_loop E f cl n st = ret (Some st)"
  "as_queue st = name # q \<Longrightarrow> add_loop E f cl 0 st = ret None"
  "as_queue st = name # q \<Longrightarrow> add_loop E f cl (Suc n') st =
     bindM (visit_feature E f cl name (st\<lparr>as_queue := q\<rparr>)) (add_loop E f cl n')"
  by (simp_all add: add_loop.simps [of E f cl _ st])

lemma add_loop_inv:
  assumes "add_loop E f cl n st w = (Inr (Some st'), w')" and "add_inv E f cl info w st"
  shows "add_inv E f cl info w st' \<and> as_queue st' = [] \<and> (\<exists>fs. w' = w\<lparr>w_faults := fs\<rparr>)"
  using assms
proof (induction E f cl n st arbitrary: w rule: add_loop.induct)
  case (1 E f cl n st)
  show ?case
  proof (cases "as_queue st")
    case Nil
    with "1.prems" have "st' = st" "w' = w" by (simp_all add: add_loop_unfold ret_run)
    moreover have "\<exists>fs. w = w\<lparr>w_faults := fs\<rparr>" by (rule exI [of _ "w_faults w"]) simp
    ultimately show ?thesis using Nil "1.prems" by simp
  next
    case (Cons name q)
    with "1.prems"(1) obtain n' where n: "n = Suc n'"
      by (cases n) (simp_all add: add_loop_unfold ret_run)
    with Cons "1.prems"(1) obtain st1 w1 where v: "visit_feature E f cl name (st\<lparr>as_queue := q\<rparr>) w = (Inr st1, w1)"
      and l: "add_loop E f cl n' st1 w1 = (Inr (Some st'), w')"
      by (simp add: add_loop_unfold bindM_Inr_iff) blast
    have ok: "claim_ok E w cl (st\<lparr>as_queue := q\<rparr>)" using "1.prems"(2) by (simp add: add_inv_def claim_ok_def)
    from visit_feature_step(2) [OF v ok] obtain fs where w1: "w1 = w\<lparr>w_faults := fs\<rparr>" by blast
    have "add_inv E f cl info w1 st1" using add_inv_step [OF "1.prems"(2) Cons v] w1 by simp
    from "1.IH" [OF Cons n l this] w1 show ?thesis by auto
  qed
qed

lemma add_loop_returns:
  assumes "finite {m. \<exists>ft. fe_feature E f m = Inr ft}" and "add_inv E f cl info w st"
    and "length (as_queue st) + card ({m. \<exists>ft. fe_feature E f m = Inr ft} - set (as_present st)) \<le> n"
  shows "fst (add_loop E f cl n st w) \<noteq> Inr None"
  using assms
proof (induction E f cl n st arbitrary: w rule: add_loop.induct)
  case (1 E f cl n st)
  let ?K = "{m. \<exists>ft. fe_feature E f m = Inr ft}"
  show ?case
  proof (cases "as_queue st")
    case Nil
    then show ?thesis by (simp add: add_loop_unfold ret_run)
  next
    case (Cons name q)
    with "1.prems"(3) obtain n' where n: "n = Suc n'" by (cases n) auto
    show ?thesis
    proof (cases "visit_feature E f cl name (st\<lparr>as_queue := q\<rparr>) w")
      case (Pair r w1)
      show ?thesis
      proof (cases r)
        case (Inl e)
        with Pair Cons n show ?thesis by (simp add: add_loop_unfold bindM_run)
      next
        case (Inr st1)
        with Pair have v: "visit_feature E f cl name (st\<lparr>as_queue := q\<rparr>) w = (Inr st1, w1)" by simp
        have ok: "claim_ok E w cl (st\<lparr>as_queue := q\<rparr>)" using "1.prems"(2) by (simp add: add_inv_def claim_ok_def)
        note step = visit_feature_step [OF v ok]
        from step(1) obtain st2 where st2: "st2 = st\<lparr>as_queue := q\<rparr> \<or> st2 = st\<lparr>as_queue := q, as_claim := Some (cluster_claim E w cl)\<rparr>"
          and g: "grows E f st2 st1" by auto
        from st2 g obtain new where new: "as_queue st1 = q @ new" "as_present st1 = rev new @ as_present st"
          "distinct new" "set new \<inter> set (as_present st) = {}" "set new \<subseteq> ?K"
          by (rule grows_sizes [of st2 "st\<lparr>as_queue := q\<rparr>" "Some (cluster_claim E w cl)"]) auto
        from step(2) obtain fs where w1: "w1 = w\<lparr>w_faults := fs\<rparr>" by blast
        have "?K - set (as_present st1) = (?K - set (as_present st)) - set new" using new(2) by auto
        moreover have "set new \<subseteq> ?K - set (as_present st)" using new(4,5) by auto
        ultimately have "card (?K - set (as_present st1)) + length new = card (?K - set (as_present st))"
          using new(3) "1.prems"(1) card_mono [of "?K - set (as_present st)" "set new"]
          by (simp add: card_Diff_subset distinct_card)
        with "1.prems"(3) Cons n new(1) have "length (as_queue st1) + card (?K - set (as_present st1)) \<le> n'" by simp
        moreover have "add_inv E f cl info w1 st1" using add_inv_step [OF "1.prems"(2) Cons v] w1 by simp
        ultimately have "fst (add_loop E f cl n' st1 w1) \<noteq> Inr None" using "1.IH" [OF Cons n] "1.prems"(1) by blast
        with Cons n v show ?thesis by (simp add: add_loop_unfold bindM_run)
      qed
    qed
  qed
qed

lemma addRequiredFeatures_Inr:
  assumes "addRequiredFeatures E f fuel cl info w = (Inr (Some info'), w')"
  obtains st where "add_inv E f cl info w st" "as_queue st = []" "info' = as_info st" "\<exists>fs. w' = w\<lparr>w_faults := fs\<rparr>"
proof -
  from assms obtain r where l: "add_loop E f cl fuel (add_start E info) w = (Inr r, w')" and r: "map_option as_info r = Some info'"
    by (auto simp: addRequiredFeatures_def bindM_Inr_iff ret_run)
  from r obtain st where st: "r = Some st" "info' = as_info st" by (cases r) auto
  from l st have "add_loop E f cl fuel (add_start E info) w = (Inr (Some st), w')" by simp
  from add_loop_inv [OF this add_inv_start] st show thesis by (intro that [of st]) auto
qed

lemma info_append_keys: "distinct (map fst info) \<Longrightarrow> distinct (map fst (info_append k n info))"
  and info_append_fst: "fst ` set (info_append k n info) = insert k (fst ` set info)"
proof -
  show "fst ` set (info_append k n info) = insert k (fst ` set info)" for info
    by (induction k n info rule: info_append.induct) auto
  then show "distinct (map fst info) \<Longrightarrow> distinct (map fst (info_append k n info))"
    by (induction k n info rule: info_append.induct) (auto simp: image_iff)
qed

lemma require_all_keys:
  "require_all E f c st rs = Inr st' \<Longrightarrow> distinct (map fst (as_info st)) \<Longrightarrow> distinct (map fst (as_info st'))"
proof (induction rs arbitrary: st)
  case Nil
  then show ?case by simp
next
  case (Cons r rs)
  then obtain st1 where r: "require_one E f c st r = Inr st1" and rs: "require_all E f c st1 rs = Inr st'"
    by (auto simp: bindE_Inr_iff)
  from r Cons.prems(2) have "distinct (map fst (as_info st1))"
    by (elim require_one_cases) (simp_all add: info_append_keys)
  from Cons.IH [OF rs this] show ?case .
qed

lemma load_claim_info:
  assumes "load_claim E cl st w = (Inr (c, st'), w')"
  shows "as_info st' = as_info st"
proof (cases "as_claim st")
  case (Some c0)
  with assms show ?thesis by (simp add: load_claim_def ret_run)
next
  case None
  show ?thesis
  proof (cases rule: clk.get_cases [of "('''', cl)" w])
    case (found mc fs)
    with None assms show ?thesis
      by (auto simp: load_claim_def bindM_run ret_run raise_run split: sum.splits gerr.splits)
  next
    case (failed e fs)
    with None assms show ?thesis by (simp add: load_claim_def bindM_run)
  qed
qed

lemma visit_feature_keys:
  assumes "visit_feature E f cl n st w = (Inr st', w')" and "distinct (map fst (as_info st))"
  shows "distinct (map fst (as_info st'))"
proof (cases "fe_feature E f n")
  case (Inl e)
  with assms show ?thesis by (auto simp: visit_feature_def ret_run raise_run split: if_splits)
next
  case (Inr ft)
  show ?thesis
  proof (cases "ft_set ft = ''opscenter-core'' \<or> ft_requires ft = []")
    case True
    with assms Inr show ?thesis by (auto simp: visit_feature_def ret_run)
  next
    case False
    with assms(1) Inr obtain c st1 w1 where l: "load_claim E cl st w = (Inr (c, st1), w1)"
      and r: "require_all E f c st1 (ft_requires ft) = Inr st'" and w1: "w' = w1"
      by (auto simp: visit_feature_def bindM_Inr_iff liftM_run)
    from require_all_keys [OF r] load_claim_info [OF l] assms(2) show ?thesis by simp
  qed
qed

lemma add_loop_keys:
  "add_loop E f cl n st w = (Inr (Some st'), w') \<Longrightarrow> distinct (map fst (as_info st)) \<Longrightarrow> distinct (map fst (as_info st'))"
proof (induction n arbitrary: st w)
  case 0
  then show ?case by (cases "as_queue st") (simp_all add: add_loop_unfold ret_run)
next
  case (Suc n)
  show ?case
  proof (cases "as_queue st")
    case Nil
    with Suc.prems show ?thesis by (simp add: add_loop_unfold ret_run)
  next
    case (Cons name q)
    with Suc.prems(1) obtain st1 w1 where v: "visit_feature E f cl name (st\<lparr>as_queue := q\<rparr>) w = (Inr st1, w1)"
      and l: "add_loop E f cl n st1 w1 = (Inr (Some st'), w')"
      by (simp add: add_loop_unfold bindM_Inr_iff) blast
    from visit_feature_keys [OF v] Suc.prems(2) have "distinct (map fst (as_info st1))" by simp
    with Suc.IH [OF l] show ?thesis .
  qed
qed

lemma addRequiredFeatures_keys:
  assumes "addRequiredFeatures E f fuel cl info w = (Inr (Some info'), w')" and "distinct (map fst info)"
  shows "distinct (map fst info')"
proof -
  from assms(1) obtain st where "add_loop E f cl fuel (add_start E info) w = (Inr (Some st), w')" "info' = as_info st"
    by (auto simp: addRequiredFeatures_def bindM_Inr_iff ret_run)
  with add_loop_keys [of E f cl fuel "add_start E info" w st w'] assms(2) show ?thesis by simp
qed

lemma addRequiredFeatures_at:
  assumes "addRequiredFeatures E f fuel clusterName info w = (Inr (Some info'), w')"
  shows "(\<exists>app. info_at info' k = info_at info k @ app \<and>
           set app \<subseteq> {n. \<exists>ft. fe_feature E f n = Inr ft \<and> ft_set ft = k}) \<and>
         (\<exists>fs. w' = w\<lparr>w_faults := fs\<rparr>)"
proof -
  from assms obtain st where st: "add_inv E f clusterName info w st" "info' = as_info st" "\<exists>fs. w' = w\<lparr>w_faults := fs\<rparr>"
    by (rule addRequiredFeatures_Inr)
  from st(1) obtain app where "info_at (as_info st) k = info_at info k @ app"
    "\<forall>n \<in> set app. \<exists>ft. fe_feature E f n = Inr ft \<and> ft_set ft = k"
    unfolding add_inv_def by blast
  with st(2,3) show ?thesis by blast
qed

lemma needed_present:
  assumes "needed E f (cluster_claim E w cl) (info_names info) n" and "add_inv E f cl info w st" and "as_queue st = []"
  shows "n \<in> set (as_present st)"
  using assms(1)
proof induction
  case (selected n)
  with assms(2) show ?case by (auto simp: add_inv_def)
next
  case (required n ft r)
  with assms(2,3) have "met E f (cluster_claim E w cl) st n" by (simp add: add_inv_def)
  with required show ?case unfolding met_def by blast
qed

text \<open>
  C13: when adding the required features succeeds, the features it lists are exactly the selected
  ones and, transitively, those a listed feature outside opscenter-core requires, except the
  license proxy and what the cluster disabled or manages itself.
\<close>

theorem addRequiredFeatures_closure:
  assumes "addRequiredFeatures E f fuel clusterName info w = (Inr (Some info'), w')"
  shows "set (info_names info') = {n. needed E f (cluster_claim E w clusterName) (info_names info) n}"
proof -
  from assms obtain st where st: "add_inv E f clusterName info w st" "as_queue st = []" "info' = as_info st"
    by (rule addRequiredFeatures_Inr)
  then have "set (info_names info') = set (as_present st)" by (simp add: add_inv_def)
  with st(1) needed_present [OF _ st(1,2)] show ?thesis by (auto simp: add_inv_def)
qed

text \<open>
  Adding the required features keeps the selected features of every feature set, in their
  order, in front, appends to a set only features the server says are of that set, and leaves
  every object of the hub as it was.
\<close>

theorem addRequiredFeatures_appends:
  assumes "addRequiredFeatures E f fuel clusterName info w = (Inr (Some info'), w')"
  shows "(\<exists>app. info_at info' k = info_at info k @ app \<and>
           set app \<subseteq> {n. \<exists>ft. fe_feature E f n = Inr ft \<and> ft_set ft = k}) \<and>
         (\<exists>fs. w' = w\<lparr>w_faults := fs\<rparr>)"
  using addRequiredFeatures_at [OF assms] .

text \<open>
  C14: the requirement loop returns. On a server that knows finitely many features it ends after
  at most one visit per selected name and one per known feature that was not selected, whatever
  the requirements are, cycles included, and whatever the hub answers.
\<close>

theorem addRequiredFeatures_terminates:
  assumes "finite {m. \<exists>ft. fe_feature E f m = Inr ft}"
    and "length (info_names info) + card ({m. \<exists>ft. fe_feature E f m = Inr ft} - set (info_names info)) \<le> fuel"
  shows "fst (addRequiredFeatures E f fuel clusterName info w) \<noteq> Inr None"
proof -
  have "fst (add_loop E f clusterName fuel (add_start E info) w) \<noteq> Inr None"
    using assms by (intro add_loop_returns [OF assms(1) add_inv_start]) simp
  then show ?thesis
    by (cases "add_loop E f clusterName fuel (add_start E info) w")
      (auto simp: addRequiredFeatures_def bindM_run ret_run split: sum.splits)
qed



section \<open>What the selection keeps\<close>

definition group_of :: "world \<Rightarrow> string \<Rightarrow> string" where
  "group_of w n = (case find_obj ('''', n) (w_features w) of None \<Rightarrow> '''' | Some ft \<Rightarrow> ft_exclusion ft)"

definition same_group :: "world \<Rightarrow> string \<Rightarrow> string \<Rightarrow> bool" where
  "same_group w m n \<longleftrightarrow> group_of w n \<noteq> '''' \<and> group_of w m = group_of w n"

text \<open>The feature's ManifestWork on the hub already carries a release of that name.\<close>

definition in_work :: "'f fakeenv \<Rightarrow> world \<Rightarrow> string \<Rightarrow> string \<Rightarrow> bool" where
  "in_work E w cl n =
     (case find_obj ('''', n) (w_features w) of
        None \<Rightarrow> False
      | Some ft \<Rightarrow>
          (case find_obj (cl, ft_set ft) (w_mws w) of
             None \<Rightarrow> False
           | Some mw \<Rightarrow> works_with E n (mw_manifests mw) = Inr True))"

definition claim_takes :: "claimfeatures \<Rightarrow> world \<Rightarrow> string \<Rightarrow> bool" where
  "claim_takes c w n \<longleftrightarrow>
     group_of w n \<noteq> '''' \<and> (\<exists>ft \<in> set (w_features w). ft_exclusion ft = group_of w n \<and> om_name ft \<in> set (cf_enabled c))"

lemma selection_faults [simp]:
  "group_of (w\<lparr>w_faults := fs\<rparr>) = group_of w" "same_group (w\<lparr>w_faults := fs\<rparr>) = same_group w"
  "in_work E (w\<lparr>w_faults := fs\<rparr>) = in_work E w" "claim_takes c (w\<lparr>w_faults := fs\<rparr>) = claim_takes c w"
  by (simp_all add: fun_eq_iff group_of_def same_group_def in_work_def claim_takes_def cong: option.case_cong)

lemma enabled_groups_takes:
  "group_of w n \<noteq> '''' \<Longrightarrow> enabled_groups c (w_features w) (group_of w n) \<noteq> [] \<longleftrightarrow> claim_takes c w n"
  by (auto simp: enabled_groups_def claim_takes_def filter_empty_conv)

lemma existInManifestWork_Inr:
  assumes "existInManifestWork E cl s n w = (Inr b, w')"
  shows "(\<exists>fs. w' = w\<lparr>w_faults := fs\<rparr>)"
    and "b \<Longrightarrow> \<exists>mw. find_obj (cl, s) (w_mws w) = Some mw \<and> works_with E n (mw_manifests mw) = Inr True"
proof -
  have "(\<exists>fs. w' = w\<lparr>w_faults := fs\<rparr>) \<and>
      (b \<longrightarrow> (\<exists>mw. find_obj (cl, s) (w_mws w) = Some mw \<and> works_with E n (mw_manifests mw) = Inr True))"
  proof (cases rule: mwk.get_cases [of "(cl, s)" w])
    case (found mw fs)
    then have "find_obj (cl, s) (w_mws w) = Some mw" by (simp add: works_def)
    with found assms show ?thesis by (auto simp: existInManifestWork_def tryM_run liftM_run)
  next
    case (failed e fs)
    with assms show ?thesis by (auto simp: existInManifestWork_def tryM_run ret_run raise_run split: if_splits)
  qed
  then show "\<exists>fs. w' = w\<lparr>w_faults := fs\<rparr>"
    and "b \<Longrightarrow> \<exists>mw. find_obj (cl, s) (w_mws w) = Some mw \<and> works_with E n (mw_manifests mw) = Inr True"
    by blast+
qed

text \<open>One name: it is left out, for a reason, or kept and counted in its group.\<close>

lemma sanitize_one_Inr:
  assumes "sanitize_one E cl c (gs, out) n w = (Inr (gs', out'), w')"
  obtains (dropped) fs where "w' = w\<lparr>w_faults := fs\<rparr>" "gs' = gs" "out' = out"
      "exempt c n \<or> (group_of w n \<noteq> '''' \<and> gs (group_of w n) \<noteq> [])"
  | (kept) fs where "w' = w\<lparr>w_faults := fs\<rparr>" "out' = out @ [n]" "\<not> exempt c n"
      "gs' = (if group_of w n = '''' then gs else gs(group_of w n := gs (group_of w n) @ [n]))"
      "group_of w n = '''' \<or> gs (group_of w n) = [] \<or> in_work E w cl n"
proof (cases rule: ftk.get_cases [of "('''', n)" w])
  case (failed e fs)
  with assms show thesis by (simp add: sanitize_one_def bindM_run)
next
  case (found ft fs)
  from found(2) have ft: "find_obj ('''', n) (w_features w) = Some ft" by (simp add: features_def)
  then have key: "om_name ft = n" by (auto dest!: find_obj_key simp: obj_key_def)
  have grp: "group_of w n = ft_exclusion ft" using ft by (simp add: group_of_def)
  show thesis
  proof (cases "exempt c n")
    case True
    with found(1) assms show thesis by (intro dropped [of fs]) (simp_all add: sanitize_one_def bindM_run ret_run)
  next
    case False
    with found(1) assms key obtain b w1 where
      b: "existInManifestWork E cl (ft_set ft) n (w\<lparr>w_faults := fs\<rparr>) = (Inr b, w1)"
      and r: "(if ft_exclusion ft \<noteq> '''' \<and> gs (ft_exclusion ft) \<noteq> [] \<and> \<not> b then (gs, out)
          else (if ft_exclusion ft \<noteq> '''' then gs(ft_exclusion ft := gs (ft_exclusion ft) @ [n]) else gs, out @ [n]))
        = (gs', out')" and w1: "w' = w1"
      by (auto simp: sanitize_one_def bindM_run ret_run split: prod.splits sum.splits if_splits)
    from existInManifestWork_Inr(1) [OF b] w1 obtain fs' where w': "w' = w\<lparr>w_faults := fs'\<rparr>" by auto
    from existInManifestWork_Inr(2) [OF b] ft have inw: "b \<Longrightarrow> in_work E w cl n" by (auto simp: in_work_def)
    show thesis
    proof (cases "ft_exclusion ft \<noteq> '''' \<and> gs (ft_exclusion ft) \<noteq> [] \<and> \<not> b")
      case True
      with r w' grp show thesis by (intro dropped [of fs']) simp_all
    next
      case no: False
      with r have "out' = out @ [n]" "gs' = (if group_of w n = '''' then gs else gs(group_of w n := gs (group_of w n) @ [n]))"
        by (auto simp: grp)
      moreover have "group_of w n = '''' \<or> gs (group_of w n) = [] \<or> in_work E w cl n" using no inw grp by auto
      ultimately show thesis using w' False by (intro kept [of fs']) simp_all
    qed
  qed
qed

text \<open>The loop invariant: \<open>seen\<close> are the names handled, \<open>out\<close> the ones kept.\<close>

definition sane :: "'f fakeenv \<Rightarrow> world \<Rightarrow> string \<Rightarrow> claimfeatures \<Rightarrow> string list \<Rightarrow> string list \<Rightarrow> bool" where
  "sane E w cl c seen out \<longleftrightarrow>
     subseq out seen \<and>
     (\<forall>n \<in> set out. \<not> exempt c n \<and> (claim_takes c w n \<longrightarrow> in_work E w cl n)) \<and>
     sorted_wrt (\<lambda>m n. same_group w m n \<longrightarrow> in_work E w cl n) out \<and>
     (\<forall>n \<in> set seen. n \<in> set out \<or> exempt c n \<or> claim_takes c w n \<or> (\<exists>m \<in> set out. same_group w m n))"

definition counted :: "claimfeatures \<Rightarrow> world \<Rightarrow> groups \<Rightarrow> string list \<Rightarrow> bool" where
  "counted c w gs out \<longleftrightarrow>
     (\<forall>g. g \<noteq> '''' \<longrightarrow> gs g = enabled_groups c (w_features w) g @ filter (\<lambda>n. group_of w n = g) out)"

lemma counted_taken:
  assumes "counted c w gs out" and "group_of w n \<noteq> ''''"
  shows "gs (group_of w n) \<noteq> [] \<longleftrightarrow> claim_takes c w n \<or> (\<exists>m \<in> set out. same_group w m n)"
  using assms enabled_groups_takes [OF assms(2), of c]
  by (auto simp: counted_def same_group_def filter_empty_conv)

lemma sane_faults [simp]:
  "sane E (w\<lparr>w_faults := fs\<rparr>) cl c = sane E w cl c" "counted c (w\<lparr>w_faults := fs\<rparr>) = counted c w"
  by (simp_all add: fun_eq_iff sane_def counted_def)

lemma sane_dropped:
  assumes "sane E w cl c seen out" and "exempt c n \<or> claim_takes c w n \<or> (\<exists>m \<in> set out. same_group w m n)"
  shows "sane E w cl c (seen @ [n]) out"
proof -
  have "subseq out (seen @ [n])" using assms(1) list_emb_append2 [of "(=)" out "[n]" seen] 
    by (simp add: sane_def subseq_rev_drop_many)
  with assms show ?thesis by (auto simp: sane_def)
qed

lemma sane_kept:
  assumes "sane E w cl c seen out" and "\<not> exempt c n"
    and "in_work E w cl n \<or> (\<not> claim_takes c w n \<and> (\<forall>m \<in> set out. \<not> same_group w m n))"
  shows "sane E w cl c (seen @ [n]) (out @ [n])"
  using assms unfolding sane_def by (simp add: sorted_wrt_append) blast

lemma foldM_sanitize:
  assumes "foldM (sanitize_one E cl c) (gs, out) ns w = (Inr (gs', out'), w')"
    and "sane E w cl c seen out" and "counted c w gs out"
  shows "sane E w cl c (seen @ ns) out' \<and> (\<exists>fs. w' = w\<lparr>w_faults := fs\<rparr>)"
  using assms
proof (induction ns arbitrary: gs out w seen)
  case Nil
  moreover have "\<exists>fs. w = w\<lparr>w_faults := fs\<rparr>" by (rule exI [of _ "w_faults w"]) simp
  ultimately show ?case by (auto simp: ret_run)
next
  case (Cons n ns)
  from Cons.prems(1) obtain gs1 out1 w1 where s: "sanitize_one E cl c (gs, out) n w = (Inr (gs1, out1), w1)"
    and l: "foldM (sanitize_one E cl c) (gs1, out1) ns w1 = (Inr (gs', out'), w')"
    by (auto simp: bindM_Inr_iff)
  from s show ?case
  proof (cases rule: sanitize_one_Inr)
    case (dropped fs)
    with counted_taken [OF Cons.prems(3)] have "exempt c n \<or> claim_takes c w n \<or> (\<exists>m \<in> set out. same_group w m n)" by blast
    from sane_dropped [OF Cons.prems(2) this] dropped Cons.IH [OF l] Cons.prems(3) show ?thesis by fastforce
  next
    case (kept fs)
    have "in_work E w cl n \<or> (\<not> claim_takes c w n \<and> (\<forall>m \<in> set out. \<not> same_group w m n))"
      using kept(5) counted_taken [OF Cons.prems(3), of n] by (auto simp: claim_takes_def same_group_def)
    from sane_kept [OF Cons.prems(2) kept(3) this] have "sane E w cl c (seen @ [n]) out1" using kept by simp
    moreover have "counted c w gs1 out1" using Cons.prems(3) kept by (auto simp: counted_def)
    ultimately show ?thesis using Cons.IH [OF l] kept(1) by fastforce
  qed
qed

lemma sanitizeFeatures_Inr:
  assumes "sanitizeFeatures E clusterName ns w = (Inr out, w')"
  shows "sane E w clusterName (cluster_claim E w clusterName) (sort ns) out \<and> (\<exists>fs. w' = w\<lparr>w_faults := fs\<rparr>)"
proof -
  let ?c = "cluster_claim E w clusterName"
  from assms obtain mc w1 c w2 fts w3 gs where
    g: "api_get clusters ('''', clusterName) w = (Inr mc, w1)" and c: "getFeatureStatus E mc = Inr c"
    and l: "api_list features (\<lambda>ft. True) w1 = (Inr fts, w3)"
    and f: "foldM (sanitize_one E clusterName c) (enabled_groups c fts, []) (sort ns) w3 = (Inr (gs, out), w')"
    unfolding sanitizeFeatures_def by (auto simp: bindM_Inr_iff liftM_run ret_run)
  from g obtain fs where w1: "w1 = w\<lparr>w_faults := fs\<rparr>" and mc: "find_obj ('''', clusterName) (w_clusters w) = Some mc"
    by (cases rule: clk.get_cases [of "('''', clusterName)" w]) (auto simp: clusters_def)
  from l obtain fs' where w3: "w3 = w1\<lparr>w_faults := fs'\<rparr>" and fts: "fts = w_features w1"
    by (cases rule: ftk.list_cases [of "\<lambda>ft. True" w1]) (auto simp: features_def)
  have cc: "?c = c" using mc c by (simp add: cluster_claim_def)
  have "sane E w3 clusterName c [] []" by (simp add: sane_def)
  moreover have "counted c w3 (enabled_groups c fts) []" using w1 w3 fts by (simp add: counted_def)
  ultimately have "sane E w3 clusterName c ([] @ sort ns) out \<and> (\<exists>fs. w' = w3\<lparr>w_faults := fs\<rparr>)"
    by (rule foldM_sanitize [OF f])
  with w1 w3 cc show ?thesis by auto
qed

text \<open>
  C36: when the selection succeeds, it keeps the wished features in sorted order, none of them
  disabled or managed by the cluster itself; of one exclusion group it keeps a feature that is
  not installed yet only when no earlier feature of the group is kept and the cluster has none
  of the group enabled; and whatever it leaves out is exempt or has its group taken.
\<close>

theorem sanitizeFeatures_selects:
  assumes "sanitizeFeatures E clusterName ns w = (Inr out, w')"
  shows "sane E w clusterName (cluster_claim E w clusterName) (sort ns) out \<and> (\<exists>fs. w' = w\<lparr>w_faults := fs\<rparr>)"
  using assms by (rule sanitizeFeatures_Inr)

section \<open>What a release waits on\<close>

text \<open>The server answers a name with the feature of that name.\<close>

definition named_features :: "'f fakeenv \<Rightarrow> 'f \<Rightarrow> bool" where
  "named_features E f \<longleftrightarrow> (\<forall>n ft. fe_feature E f n = Inr ft \<longrightarrow> om_name ft = n)"

lemma depends_on_iff:
  "named_features E f \<Longrightarrow> depends_on E f c rs = Inr ds \<Longrightarrow>
     ds = (case c of None \<Rightarrow> [] | Some c' \<Rightarrow> filter (\<lambda>r. r \<noteq> ChartLicenseProxyServer \<and> \<not> exempt c' r) rs)"
proof (induction rs arbitrary: ds)
  case Nil
  then show ?case by (simp split: option.split)
next
  case (Cons r rs)
  then obtain ft ds' where ft: "fe_feature E f r = Inr ft" and ds': "depends_on E f c rs = Inr ds'"
    by (auto simp: bindE_Inr_iff)
  have "om_name ft = r" using Cons.prems(1) ft by (simp add: named_features_def)
  with Cons.prems(2) ft ds' Cons.IH [OF Cons.prems(1) ds'] show ?case by (auto split: option.splits)
qed

abbreviation depends_path :: "string \<Rightarrow> string list" where
  "depends_path n \<equiv> feature_path n [''spec'', ''dependsOn'']"

lemma updateHelmReleaseDependency_value:
  assumes "updateHelmReleaseDependency E f values ft mc = Inr values'"
    and "om_name ft \<noteq> ''kube-ui-server''" and "ft_requires ft \<noteq> []"
  obtains c ds where "feature_claim E ft mc = Inr c" "depends_on E f c (ft_requires ft) = Inr ds"
    "SetNestedField values (JArr (map name_ref ds)) (depends_path (om_name ft)) = Inr values'"
  using assms by (auto simp: updateHelmReleaseDependency_def bindE_Inr_iff simp del: SetNestedField.simps)

text \<open>
  C22: the requirements a release waits on are all part of the profile. Once the required
  features of a cluster are added, the value rendered for \<open>spec.dependsOn\<close> of a listed
  feature with requirements lists only names that are listed too, under the same claim.
\<close>

theorem dependencies_are_listed:
  assumes "addRequiredFeatures E f fuel clusterName info w = (Inr (Some info'), w')"
    and "named_features E f"
    and "find_obj ('''', clusterName) (w_clusters w) = Some mc"
    and "fe_feature E f n = Inr ft" and "n \<in> set (info_names info')"
    and "ft_requires ft \<noteq> []" and "n \<noteq> ''kube-ui-server''"
    and "updateHelmReleaseDependency E f values ft mc = Inr values'"
  shows "\<exists>ds. NestedFieldNoCopy values' (depends_path n) = Inr (Some (JArr (map name_ref ds))) \<and>
    set ds \<subseteq> set (info_names info')"
proof -
  have name: "om_name ft = n" using assms(2,4) by (simp add: named_features_def)
  have kube: "om_name ft \<noteq> ''kube-ui-server''" using name assms(7) by simp
  obtain c ds where c: "feature_claim E ft mc = Inr c"
    and ds: "depends_on E f c (ft_requires ft) = Inr ds"
    and v: "SetNestedField values (JArr (map name_ref ds)) (depends_path (om_name ft)) = Inr values'"
    by (rule updateHelmReleaseDependency_value [OF assms(8) kube assms(6)])
  from assms(1) obtain st where st: "add_inv E f clusterName info w st" "as_queue st = []" "info' = as_info st"
    by (rule addRequiredFeatures_Inr)
  then have listed: "set (info_names info') = set (as_present st)" and met: "met E f (cluster_claim E w clusterName) st n"
    using assms(5) by (auto simp: add_inv_def)
  have "set ds \<subseteq> set (info_names info')"
  proof (cases "ft_set ft = ''opscenter-core''")
    case True
    with c have "c = None" by (simp add: feature_claim_def)
    with depends_on_iff [OF assms(2) ds] show ?thesis by simp
  next
    case False
    with c obtain c' where c': "c = Some c'" "getFeatureStatus E mc = Inr c'" by (auto simp: feature_claim_def bindE_Inr_iff)
    then have "cluster_claim E w clusterName = c'" using assms(3) by (simp add: cluster_claim_def)
    with depends_on_iff [OF assms(2) ds] c' met assms(4) False listed show ?thesis unfolding met_def by auto
  qed
  with tree.get_put [OF v] name show ?thesis by blast
qed

text \<open>
  updating the dependencies of one release changes nothing else: every value at a path that
  neither extends nor is extended by that release's \<open>spec.dependsOn\<close> is as it was.
\<close>

theorem dependency_update_is_local:
  assumes "updateHelmReleaseDependency E f values ft mc = Inr values'"
    and "depends_path (om_name ft) \<parallel> q"
  shows "NestedFieldNoCopy values' q = NestedFieldNoCopy values q"
proof -
  consider v where "SetNestedField values v (depends_path (om_name ft)) = Inr values'"
    | "values' = RemoveNestedField values (depends_path (om_name ft))"
    using assms(1) unfolding updateHelmReleaseDependency_def
    by (auto simp: bindE_Inr_iff simp del: SetNestedField.simps RemoveNestedField.simps split: if_splits)
  then show ?thesis
  proof cases
    case 1
    from tree.get_put_other [OF 1 assms(2)] show ?thesis .
  next
    case 2
    with RemoveNestedField_other [OF assms(2)] show ?thesis by simp
  qed
qed



section \<open>A catalogue\<close>

definition cat_feature :: "string \<Rightarrow> string \<Rightarrow> string list \<Rightarrow> feature" where
  "cat_feature n g reqs =
     \<lparr> om_name = n, om_ns = '''', om_labels = Map.empty, om_annots = Map.empty, om_owners = [], om_created = 0,
       ft_set = ''monitoring'', ft_exclusion = g, ft_requires = reqs, ft_chart = no_chart, ft_values = None,
       ft_resources = [], ft_workloads = [], ft_enabled = None, ft_managed = None, ft_ready = None \<rparr>"

definition cat_features :: "feature list" where
  "cat_features =
     [cat_feature ''grafana'' '''' [''prometheus'', ''license-proxyserver'', ''inbox''],
      cat_feature ''prometheus'' ''metrics'' [''grafana''], cat_feature ''thanos'' ''metrics'' [],
      cat_feature ''inbox'' '''' [], cat_feature ''license-proxyserver'' '''' []]"

definition cat_claim :: claimfeatures where
  "cat_claim = \<lparr> cf_enabled = [], cf_external = [''inbox''], cf_disabled = [] \<rparr>"

definition cat_env :: "unit fakeenv" where
  "cat_env =
     \<lparr> fe_codec = \<lparr> hc_dec = (\<lambda>m. Inl (ErrText ''no release'')), hc_enc = (\<lambda>h. Inl (ErrText ''no release'')),
         hc_spec = (\<lambda>s. Inr fmempty) \<rparr>,
       fe_boot_name = ''bootstrap'', fe_boot_ns = ''kubeops'', fe_start = (\<lambda>b gs. Inr ()),
       fe_http = (\<lambda>f. Inr ()), fe_mapper = (\<lambda>f. Inr ()), fe_client = (\<lambda>f. Inr ()), fe_crd_client = (\<lambda>f. Inr ()),
       fe_create = (\<lambda>u. ret ()), fe_repo = (\<lambda>f. no_source), fe_register = (\<lambda>cs. ret ()),
       fe_chart = (\<lambda>f c. Inr \<lparr> chart_values = fmempty, chart_crds = [] \<rparr>),
       fe_crd = (\<lambda>d. Inl (ErrText ''no crd'')), fe_mapping = (\<lambda>f g k v. None), fe_raw_config = (\<lambda>f. Inr ()),
       fe_helm_init = (\<lambda>f n d. None), fe_deploy = (\<lambda>opts. ret ()),
       fe_feature = (\<lambda>f n. case find_obj ('''', n) cat_features of None \<Rightarrow> Inl ErrNotFound | Some ft \<Rightarrow> Inr ft),
       fe_featureset = (\<lambda>f n. Inl ErrNotFound), fe_features_in = (\<lambda>f s. Inr cat_features),
       fe_releases = (\<lambda>f n s. Inr 0), fe_resources = (\<lambda>f g. Inr 0), fe_release = (\<lambda>f k. Inl ErrNotFound),
       fe_put_release = (\<lambda>h. ret ()), fe_set_chart_info = (\<lambda>f ft k v. (None, v)),
       fe_apply = (\<lambda>c v. ret ()), fe_export = (\<lambda>f. []), fe_checkpoint = (\<lambda>f. f),
       fe_claim = (\<lambda>s. Inr cat_claim),
       fe_gob_enc = (\<lambda>m. Inr ''''), fe_gob_dec = (\<lambda>b. Inr fmempty), fe_order = (\<lambda>i n. []) \<rparr>"

definition cat_cluster :: managedcluster where
  "cat_cluster =
     \<lparr> om_name = ''c1'', om_ns = '''', om_labels = Map.empty, om_annots = Map.empty, om_owners = [], om_created = 0,
       mc_claims = [\<lparr> cl_name = ''features.ace.info'', cl_value = ''externallyManagedFeatures: [inbox]'' \<rparr>,
                    \<lparr> cl_name = ClusterClaimClusterInfo, cl_value = ''uid: c1'' \<rparr>] \<rparr>"

definition cat_world :: world where
  "cat_world =
     \<lparr> w_mws = [], w_cms = [], w_profiles = [], w_bindings = [], w_clusters = [cat_cluster],
       w_features = cat_features, w_mwrs = [], w_sets = [], w_now = 0, w_rand = [], w_faults = [] \<rparr>"

definition cat_info :: featureinfo where
  "cat_info = [(''monitoring'', [''grafana''])]"

lemma cat_env_simps [simp]:
  "fe_feature cat_env f n = (case find_obj ('''', n) cat_features of None \<Rightarrow> Inl ErrNotFound | Some ft \<Rightarrow> Inr ft)"
  "fe_claim cat_env s = Inr cat_claim" "range_order cat_env i m = m"
  by (simp_all add: cat_env_def range_order_def)

lemma cat_find:
  "find_obj ('''', n) cat_features =
     (if n = ''grafana'' then Some (cat_feature ''grafana'' '''' [''prometheus'', ''license-proxyserver'', ''inbox''])
      else if n = ''prometheus'' then Some (cat_feature ''prometheus'' ''metrics'' [''grafana''])
      else if n = ''thanos'' then Some (cat_feature ''thanos'' ''metrics'' [])
      else if n = ''inbox'' then Some (cat_feature ''inbox'' '''' [])
      else if n = ''license-proxyserver'' then Some (cat_feature ''license-proxyserver'' '''' []) else None)"
  by (auto simp: cat_features_def cat_feature_def obj_key_def)

lemma cat_names: "{m. \<exists>ft. fe_feature cat_env () m = Inr ft} = {''grafana'', ''prometheus'', ''thanos'', ''inbox'', ''license-proxyserver''}"
  by (auto simp: cat_find split: if_splits)

lemma cat_closed:
  "addRequiredFeatures cat_env () 5 ''c1'' cat_info cat_world =
     (Inr (Some [(''monitoring'', [''grafana'', ''prometheus''])]), cat_world)"
proof -
  have nf: "no_faults cat_world" by (simp add: no_faults_def cat_world_def)
  have cl: "find_obj ('''', ''c1'') (fst clusters cat_world) = Some cat_cluster"
    by (simp add: clusters_def cat_world_def cat_cluster_def obj_key_def)
  have st: "getFeatureStatus cat_env cat_cluster = Inr cat_claim"
    by (simp add: getFeatureStatus_def cat_cluster_def ClusterClaimKeyFeatures_def)
  have l: "load_claim cat_env ''c1'' s cat_world = (Inr (cat_claim, s\<lparr>as_claim := Some cat_claim\<rparr>), cat_world)"
    if "as_claim s = None \<or> as_claim s = Some cat_claim" for s
    using that nf cl st by (cases s) (auto simp: load_claim_def prog_simps)
  show ?thesis
    using l by (simp add: addRequiredFeatures_def add_start_def Let_def cat_info_def info_names_def add_loop.simps eval_nat_numeral
      visit_feature_def cat_find cat_feature_def prog_simps require_one_def exempt_def cat_claim_def)
qed

lemma cat_run:
  "no_faults cat_world" "find_obj ('''', ''c1'') (w_clusters cat_world) = Some cat_cluster"
  "getFeatureStatus cat_env cat_cluster = Inr cat_claim" "cluster_claim cat_env cat_world ''c1'' = cat_claim"
  "named_features cat_env ()"
proof -
  show "no_faults cat_world" by (simp add: no_faults_def cat_world_def)
  show cl: "find_obj ('''', ''c1'') (w_clusters cat_world) = Some cat_cluster"
    by (simp add: cat_world_def cat_cluster_def obj_key_def)
  show st: "getFeatureStatus cat_env cat_cluster = Inr cat_claim"
    by (simp add: getFeatureStatus_def cat_cluster_def ClusterClaimKeyFeatures_def)
  from cl st show "cluster_claim cat_env cat_world ''c1'' = cat_claim" by (simp add: cluster_claim_def)
  show "named_features cat_env ()"
    by (auto simp: named_features_def cat_find cat_feature_def split: if_splits)
qed

lemma cat_group: "group_of cat_world n = (if n = ''prometheus'' \<or> n = ''thanos'' then ''metrics'' else '''')"
proof -
  have "find_obj ('''', n) (w_features cat_world) = find_obj ('''', n) cat_features" by (simp add: cat_world_def)
  then show ?thesis by (simp add: group_of_def cat_find cat_feature_def)
qed

text \<open>Asked for both features of a group and one the cluster manages itself, the selection keeps one.\<close>

lemma cat_selection:
  "sanitizeFeatures cat_env ''c1'' [''thanos'', ''prometheus'', ''grafana''] cat_world =
     (Inr [''grafana'', ''prometheus''], cat_world)"
proof -
  have fs: "fst features cat_world = cat_features" "fst clusters cat_world = w_clusters cat_world"
    by (simp_all add: features_def clusters_def cat_world_def)
  have ex: "existInManifestWork cat_env ''c1'' s n cat_world = (Inr False, cat_world)" for s n
    using cat_run(1) by (simp add: existInManifestWork_def prog_simps works_def cat_world_def)
  have "sort [''thanos'', ''prometheus'', ''grafana''] = [''grafana'', ''prometheus'', ''thanos'']"
    by code_simp
  then show ?thesis
    using cat_run ex by (simp add: sanitizeFeatures_def prog_simps fs sanitize_one_def cat_find cat_feature_def
      exempt_def cat_claim_def enabled_groups_def)
qed

section \<open>Witnesses\<close>

lemma addRequiredFeatures_closure_witness:
  "set (info_names [(''monitoring'', [''grafana'', ''prometheus''])]) =
     {n. needed cat_env () (cluster_claim cat_env cat_world ''c1'') (info_names cat_info) n}"
  by (rule addRequiredFeatures_closure [OF cat_closed])

lemma addRequiredFeatures_appends_witness:
  "\<exists>app. info_at [(''monitoring'', [''grafana'', ''prometheus''])] ''monitoring'' = info_at cat_info ''monitoring'' @ app"
  using addRequiredFeatures_appends [OF cat_closed, of "''monitoring''"] by blast

lemma addRequiredFeatures_terminates_witness:
  "fst (addRequiredFeatures cat_env () 5 ''c1'' cat_info cat_world) \<noteq> Inr None"
  by (rule addRequiredFeatures_terminates) (simp_all only: cat_names, simp_all add: cat_info_def info_names_def)

lemma sanitizeFeatures_selects_witness:
  "sane cat_env cat_world ''c1'' cat_claim (sort [''thanos'', ''prometheus'', ''grafana'']) [''grafana'', ''prometheus'']"
  using sanitizeFeatures_selects [OF cat_selection] by (simp add: cat_run(4))

definition grafana :: feature where
  "grafana = cat_feature ''grafana'' '''' [''prometheus'', ''license-proxyserver'', ''inbox'']"

lemma cat_dependency:
  "\<exists>v. updateHelmReleaseDependency cat_env () fmempty grafana cat_cluster = Inr v"
proof -
  have "feature_claim cat_env grafana cat_cluster = Inr (Some cat_claim)"
    by (simp add: feature_claim_def grafana_def cat_feature_def cat_run(3))
  moreover have "depends_on cat_env () (Some cat_claim) [''prometheus'', ''license-proxyserver'', ''inbox''] = Inr [''prometheus'']"
    by (simp add: cat_find cat_feature_def exempt_def cat_claim_def)
  ultimately show ?thesis
    by (simp add: updateHelmReleaseDependency_def) (simp add: grafana_def cat_feature_def)
qed

lemma dependencies_are_listed_witness:
  "\<exists>v ds. updateHelmReleaseDependency cat_env () fmempty grafana cat_cluster = Inr v \<and>
     NestedFieldNoCopy v (depends_path ''grafana'') = Inr (Some (JArr (map name_ref ds))) \<and>
     set ds \<subseteq> {''grafana'', ''prometheus''}"
proof -
  obtain v where v: "updateHelmReleaseDependency cat_env () fmempty grafana cat_cluster = Inr v"
    using cat_dependency by blast
  from dependencies_are_listed [OF cat_closed cat_run(5) cat_run(2) _ _ _ _ v, of "''grafana''"] v
  show ?thesis by (auto simp: cat_find grafana_def cat_feature_def info_names_def)
qed

lemma dependency_update_is_local_witness:
  "\<exists>v. updateHelmReleaseDependency cat_env () fmempty grafana cat_cluster = Inr v \<and>
     NestedFieldNoCopy v [''image''] = NestedFieldNoCopy fmempty [''image'']"
proof -
  obtain v where v: "updateHelmReleaseDependency cat_env () fmempty grafana cat_cluster = Inr v"
    using cat_dependency by blast
  from dependency_update_is_local [OF v, of "[''image'']"] v show ?thesis by (auto simp: parallel_def)
qed


end
