(* ===== verification/FeatureInstall.thy ===== *)
theory FeatureInstall
  imports FeatureRules
begin

text \<open>
  Enabling the feats of a profile on a cluster (\<open>enable_featureset.go\<close>, \<open>helpers.go\<close>,
  \<open>helmrelease_create.go\<close> and \<open>opscenter_features.go\<close> of the feature installer): render every
  feature set on the fake server, export what is there into the ManifestWork of the set, and
  drop the HelmReleases of features the profile no longer has.
\<close>

section \<open>The opscenter-features release\<close>

definition bootstrap_source :: "'f fakeenv \<Rightarrow> sourceref" where
  "bootstrap_source E =
     \<lparr> sr_group = ''source.toolkit.fluxcd.io'', sr_kind = ''HelmRepository'', sr_name = fe_boot_name E,
       sr_ns = fe_boot_ns E \<rparr>"

definition installer_chart :: "'f fakeenv \<Rightarrow> profile \<Rightarrow> chartref option \<Rightarrow> chartref option" where
  "installer_chart E profile chartRef =
     (let chart = fs_chart (fspec_at (pr_features profile) ChartOpscenterFeatures)
      in if sr_name (ch_source chart) \<noteq> '''' then
           Some \<lparr> cr_name = ch_name chart, cr_version = ch_version chart, cr_source = bootstrap_source E \<rparr>
         else chartRef)"

definition profile_overrides :: "profile \<Rightarrow> gerr + jmap option" where
  "profile_overrides profile =
     (case fs_values (fspec_at (pr_features profile) ChartOpscenterFeatures) of
        None \<Rightarrow> Inr (Some fmempty)
      | Some raw \<Rightarrow> unmarshal_map raw (Some fmempty))"

text \<open>The bytes to install with, and the map they stand for; values of the binding come last.\<close>

definition binding_overrides :: "binding \<Rightarrow> jmap option \<Rightarrow> gerr + raw \<times> jmap option" where
  "binding_overrides profileBinding overrides =
     (case fs_values (fspec_at (bs_features (pb_spec profileBinding)) ChartOpscenterFeatures) of
        None \<Rightarrow> Inr (marshal_map overrides, overrides)
      | Some raw \<Rightarrow> bindE (unmarshal_map raw overrides) (\<lambda>overrides. Inr (raw, overrides)))"

definition InstallOpscenterFeaturesOnFakeServer ::
  "'f fakeenv \<Rightarrow> profile \<Rightarrow> binding \<Rightarrow> clusterinfo option \<Rightarrow> chartref option \<Rightarrow> ('f, jmap option) prog" where
  "InstallOpscenterFeaturesOnFakeServer E profile profileBinding clusterMetadata chartRef =
     bindM (liftM (profile_overrides profile)) (\<lambda>overrides.
     bindM (liftM (GetOverrideValues overrides clusterMetadata)) (\<lambda>overrides.
     bindM (liftM (binding_overrides profileBinding overrides)) (\<lambda>(overrideValues, overrides).
     bindM (InstallOpscenterFeatures E overrideValues (installer_chart E profile chartRef)) (\<lambda>_.
       ret overrides))))"

section \<open>Creating a HelmRelease\<close>

definition retries_forever :: json where
  "retries_forever = JObj (fmap_of_list [(''remediation'', JObj (fmap_of_list [(''retries'', JInt (- 1))]))])"

definition release_rest :: "string \<Rightarrow> json" where
  "release_rest featureName =
     JObj (fmap_of_list
       [(''interval'', JStr ''5m0s''), (''releaseName'', JStr featureName), (''timeout'', JStr ''30m0s''),
        (''upgrade'', JObj (fmap_of_list
           [(''crds'', JStr ''CreateReplace''), (''remediation'', JObj (fmap_of_list [(''retries'', JInt (- 1))]))]))])"

definition new_release ::
  "'f fakeenv \<Rightarrow> string \<Rightarrow> string \<Rightarrow> string \<Rightarrow> profile \<Rightarrow> binding \<Rightarrow> feature \<Rightarrow> jmap option \<Rightarrow> string list \<Rightarrow> helmrelease" where
  "new_release E featureName featureSetName ns profile profileBinding featureObj values dependsOn =
     (let s = fspec_at (pr_features profile) featureName in
     \<lparr> om_name = featureName, om_ns = ns,
       om_labels = [''app.kubernetes.io/component'' \<mapsto> featureName, ''app.kubernetes.io/part-of'' \<mapsto> featureSetName,
                    ''app.kubernetes.io/instance'' \<mapsto> featureSetName],
       om_annots = Map.empty, om_owners = [], om_created = zero_time,
       hr_spec =
         \<lparr> hs_chart = Some
             \<lparr> hc_chart = featureName, hc_version = ch_version (fs_chart s),
               hc_source = \<lparr> sr_group = '''', sr_kind = sr_kind (ch_source (fs_chart s)), sr_name = fe_boot_name E,
                             sr_ns = fe_boot_ns E \<rparr>,
               hc_rest = JObj fmempty \<rparr>,
           hs_values_from = FeatureValuesFrom featureName profile (Some profileBinding),
           hs_values = (case values of None \<Rightarrow> fs_values s | Some m \<Rightarrow> Some (Text (JObj m))),
           hs_target_ns = ch_ns (ft_chart featureObj), hs_storage_ns = ch_ns (ft_chart featureObj),
           hs_install = Some \<lparr> hi_create_ns = ch_create_ns (fs_chart s), hi_rest = retries_forever \<rparr>,
           hs_depends = dependsOn, hs_rest = release_rest featureName \<rparr> \<rparr>)"

definition CreateHelmRelease ::
  "'f fakeenv \<Rightarrow> string \<Rightarrow> string \<Rightarrow> string \<Rightarrow> profile \<Rightarrow> binding \<Rightarrow> feature \<Rightarrow> jmap option \<Rightarrow> string list
     \<Rightarrow> ('f, unit) prog" where
  "CreateHelmRelease E featureName featureSetName ns profile profileBinding featureObj values dependsOn =
     (let hr = new_release E featureName featureSetName ns profile profileBinding featureObj values dependsOn in
      bindM (getsM (\<lambda>f. fe_release E f (ns, featureName))) (\<lambda>r.
        case r of
          Inr cur \<Rightarrow> fe_put_release E (cur\<lparr>hr_spec := hr_spec hr\<rparr>)
        | Inl e \<Rightarrow> if is_not_found e then fe_put_release E hr else raise e))"

section \<open>Waiting for the releases\<close>

abbreviation pullInterval :: int where "pullInterval \<equiv> 2 * second"
abbreviation waitTimeout :: int where "waitTimeout \<equiv> 10 * 60 * second"

text \<open>
  \<open>PollUntilContextTimeout\<close> with an immediate first poll: ask, and ask again every interval
  until the timeout. Nothing else writes to the fake server while it polls.
\<close>

fun poll :: "nat \<Rightarrow> ('w \<Rightarrow> gerr + bool) \<Rightarrow> ('w, unit) prog" where
  "poll n c w =
     (case c w of
        Inl e \<Rightarrow> (Inl e, w)
      | Inr True \<Rightarrow> (Inr (), w)
      | Inr False \<Rightarrow>
          (case n of 0 \<Rightarrow> (Inl (ErrText ''context deadline exceeded''), w) | Suc n' \<Rightarrow> poll n' c w))"

declare poll.simps [simp del]

fun releases_exist :: "'f fakeenv \<Rightarrow> string list \<Rightarrow> 'f \<Rightarrow> gerr + bool" where
  "releases_exist E [] f = Inr True"
| "releases_exist E (n # ns) f =
     (case fe_release E f (fe_boot_ns E, n) of
        Inl e \<Rightarrow> if is_not_found e then Inr False else Inl e
      | Inr hr \<Rightarrow> releases_exist E ns f)"

definition waitForReleaseToBeCreated :: "'f fakeenv \<Rightarrow> string list \<Rightarrow> ('f, unit) prog" where
  "waitForReleaseToBeCreated E names = poll (nat (waitTimeout div pullInterval)) (releases_exist E names)"

section \<open>Exporting into the ManifestWork\<close>

definition skip_item :: "string \<Rightarrow> string \<Rightarrow> string \<Rightarrow> bool" where
  "skip_item workName kind name \<longleftrightarrow>
     (kind = ''CustomResourceDefinition'' \<and>
        (name = ''appreleases.drivers.x-helm.dev'' \<or> name = ''projects.project.openshift.io'')) \<or>
     (kind = ''AppRelease'' \<and> name = workName)"

text \<open>The item without its resource version; metadata that is no map fails the type assertion.\<close>

definition strip_version :: "jmap \<Rightarrow> gerr + jmap" where
  "strip_version item =
     (case fmlookup item ''metadata'' of
        Some (JObj metadata) \<Rightarrow> Inr (fmupd ''metadata'' (JObj (fmdrop ''resourceVersion'' metadata)) item)
      | _ \<Rightarrow> Inl (GoPanic ''interface conversion''))"

fun exported :: "string \<Rightarrow> jmap list \<Rightarrow> gerr + (raw \<times> manifest_config) list" where
  "exported workName [] = Inr []"
| "exported workName (item # items) =
     bindE (GetKindNameNamespace item) (\<lambda>(kind, name, ns).
       if skip_item workName kind name then exported workName items
       else bindE (strip_version item) (\<lambda>m.
         bindE (exported workName items) (\<lambda>ms. Inr ((Text (JObj m), release_config ns name) # ms))))"

definition feature_set_labels :: "string \<Rightarrow> strmap \<Rightarrow> strmap" where
  "feature_set_labels profileName ls = ls(ClusterProfileLabel \<mapsto> profileName, LabelAceFeatureSet \<mapsto> ''true'')"

definition store_work :: "profile \<Rightarrow> manifestwork \<Rightarrow> manifestwork \<Rightarrow> manifestwork" where
  "store_work profile mw cur = with_spec mw (cur\<lparr>om_labels := feature_set_labels (om_name profile) (om_labels cur)\<rparr>)"

definition updateManifestWork :: "'f fakeenv \<Rightarrow> manifestwork \<Rightarrow> profile \<Rightarrow> ('f, unit) run" where
  "updateManifestWork E mw profile =
     bindM (asks (\<lambda>f. exported (om_name mw) (fe_export E f))) (\<lambda>ms.
     bindM (onhub (CreateOrPatch works (mw\<lparr>mw_manifests := map fst ms, mw_configs := map snd ms\<rparr>)
         (store_work profile (mw\<lparr>mw_manifests := map fst ms, mw_configs := map snd ms\<rparr>)))) (\<lambda>_.
       onfake (\<lambda>f. (Inr (), fe_checkpoint E f))))"

section \<open>Applying a feature set\<close>

text \<open>A nil map written into the model renders as null.\<close>

definition set_map :: "jmap \<Rightarrow> jmap option \<Rightarrow> string list \<Rightarrow> gerr + jmap" where
  "set_map model m p = SetNestedField model (case m of None \<Rightarrow> JNull | Some m' \<Rightarrow> JObj m') p"

definition user_feature_values :: "profile \<Rightarrow> binding \<Rightarrow> jmap \<Rightarrow> string \<Rightarrow> gerr + jmap" where
  "user_feature_values profile profileBinding model n =
     (let p = feature_path n [''spec'', ''values''] in
      case fs_values (fspec_at (bs_features (pb_spec profileBinding)) n) of
        Some raw \<Rightarrow> bindE (unmarshal_map raw None) (\<lambda>m. set_map model m p)
      | None \<Rightarrow>
          bindE (NestedMap model p) (\<lambda>cur.
          bindE (case fs_values (fspec_at (pr_features profile) n) of
                   None \<Rightarrow> Inr None | Some raw \<Rightarrow> unmarshal_map raw None) (\<lambda>m.
            SetNestedField model (JObj (MergeMaps (of_nil cur) (of_nil m))) p)))"

fun user_values_for :: "profile \<Rightarrow> binding \<Rightarrow> string list \<Rightarrow> jmap \<Rightarrow> gerr + jmap" where
  "user_values_for profile profileBinding [] model = Inr model"
| "user_values_for profile profileBinding (n # ns) model =
     bindE (user_feature_values profile profileBinding model n) (user_values_for profile profileBinding ns)"

definition feature_set_model ::
  "'f fakeenv \<Rightarrow> 'f \<Rightarrow> featureset \<Rightarrow> string list \<Rightarrow> profile \<Rightarrow> managedcluster \<Rightarrow> binding \<Rightarrow> gerr + jmap" where
  "feature_set_model E f fsObj feats profile mc profileBinding =
     bindE (GetFeatureSetValues E f fsObj feats mc profile) (\<lambda>model.
     bindE (UpdateFeatureSetValues E f (om_name fsObj) model mc) (\<lambda>model.
       user_values_for profile profileBinding feats model))"

definition applyResource :: "'f fakeenv \<Rightarrow> chartref \<Rightarrow> jmap \<Rightarrow> ('f, unit) prog" where
  "applyResource E chartRef model =
     tryM (fe_apply E chartRef model) (\<lambda>r. case r of
       Inr _ \<Rightarrow> ret () | Inl e \<Rightarrow> raise (ErrText ''error while applying resource''))"

definition applyFeatureSet ::
  "'f fakeenv \<Rightarrow> manifestwork \<Rightarrow> string \<Rightarrow> string list \<Rightarrow> profile \<Rightarrow> managedcluster \<Rightarrow> binding \<Rightarrow> ('f, unit) run" where
  "applyFeatureSet E mw featureSet feats profile mc profileBinding =
     bindM (asks (\<lambda>f. fe_featureset E f featureSet)) (\<lambda>fsObj.
     bindM (asks (\<lambda>f. feature_set_model E f fsObj feats profile mc profileBinding)) (\<lambda>model.
     bindM (onfake (applyCRDs E (fset_chart fsObj))) (\<lambda>_.
     bindM (asks (\<lambda>f. GetClientGetter (fe_raw_config E f) id)) (\<lambda>_.
     bindM (onfake (applyResource E (fset_chart fsObj) model)) (\<lambda>_.
     bindM (onfake (waitForReleaseToBeCreated E feats)) (\<lambda>_.
       updateManifestWork E mw profile))))))"

section \<open>Enabling a feature set\<close>

definition new_work :: "string \<Rightarrow> profile \<Rightarrow> binding \<Rightarrow> manifestwork" where
  "new_work featureSet profile profileBinding =
     \<lparr> om_name = featureSet, om_ns = om_ns profileBinding,
       om_labels = [LabelAceFeatureSet \<mapsto> ''true'', ClusterProfileLabel \<mapsto> om_name profile],
       om_annots = Map.empty, om_owners = [NewControllerRef ''ManagedClusterProfileBinding'' profileBinding],
       om_created = zero_time, mw_manifests = [], mw_configs = [], mw_status = [] \<rparr>"

definition get_or_new :: "manifestwork \<Rightarrow> manifestwork kc" where
  "get_or_new mw =
     tryM (api_get works (obj_key mw)) (\<lambda>r. case r of
       Inr cur \<Rightarrow> ret cur | Inl e \<Rightarrow> if is_not_found e then ret mw else raise e)"

definition opscenter_values ::
  "'f fakeenv \<Rightarrow> 'f \<Rightarrow> profile \<Rightarrow> binding \<Rightarrow> jmap option \<Rightarrow> gerr + jmap option" where
  "opscenter_values E f profile profileBinding overrideValues =
     bindE (GetDefaultValues E f
        \<lparr> cr_name = ChartOpscenterFeatures,
          cr_version = ch_version (fs_chart (fspec_at (pr_features profile) ChartOpscenterFeatures)),
          cr_source = fe_repo E f \<rparr>) (\<lambda>defaultValues.
       case fs_values (fspec_at (bs_features (pb_spec profileBinding)) ChartOpscenterFeatures) of
         Some raw \<Rightarrow> unmarshal_map raw None
       | None \<Rightarrow> Inr (Some (MergeMaps defaultValues (of_nil overrideValues))))"

definition install_core :: "'f fakeenv \<Rightarrow> string list \<Rightarrow> profile \<Rightarrow> binding \<Rightarrow> jmap option \<Rightarrow> ('f, unit) prog" where
  "install_core E feats profile profileBinding overrideValues =
     bindM (\<lambda>f. (fe_feature E f ChartOpscenterFeatures, f)) (\<lambda>featureObj.
     bindM (\<lambda>f. (opscenter_values E f profile profileBinding overrideValues, f)) (\<lambda>mergedValues.
       CreateHelmRelease E ChartOpscenterFeatures ''opscenter-core'' (fe_boot_ns E) profile profileBinding featureObj
         mergedValues (if ''akp-crd-manager'' \<in> set feats then [''akp-crd-manager''] else [])))"

definition core_features :: "string list \<Rightarrow> string list" where
  "core_features = filter (\<lambda>n. n \<noteq> ChartOpscenterFeatures \<and> n \<noteq> ChartFluxCD \<and> n \<noteq> ChartLicenseProxyServer)"

definition enableFeatureSet ::
  "'f fakeenv \<Rightarrow> string \<Rightarrow> string list \<Rightarrow> profile \<Rightarrow> binding \<Rightarrow> jmap option \<Rightarrow> ('f, unit) run" where
  "enableFeatureSet E featureSet feats profile profileBinding overrideValues =
     (if featureSet = ''opscenter-core'' \<and>
         (ChartOpscenterFeatures \<notin> set feats \<or> ''kube-ui-server'' \<notin> set feats) then
        raise (ErrText ''ensure opscenter-features and kube-ui-server are included in the feature list'')
      else
        bindM (onhub (api_get clusters ('''', om_ns profileBinding))) (\<lambda>mc.
        bindM (onhub (get_or_new (new_work featureSet profile profileBinding))) (\<lambda>mw.
          if featureSet = ''opscenter-core'' then
            bindM (onfake (install_core E feats profile profileBinding overrideValues)) (\<lambda>_.
              applyFeatureSet E mw featureSet (core_features feats) profile mc profileBinding)
          else applyFeatureSet E mw featureSet feats profile mc profileBinding)))"

section \<open>Dropping features\<close>

text \<open>
  What becomes of a manifest: kept or dropped; \<open>None\<close> where the loop returns early without
  an error, on a manifest without a kind or a HelmRelease without a name.
\<close>

definition keep_manifest :: "string list \<Rightarrow> raw \<Rightarrow> gerr + bool option" where
  "keep_manifest feats manifest =
     bindE (manifest_object manifest) (\<lambda>obj.
     bindE (NestedString obj [''kind'']) (\<lambda>kind. case kind of
       None \<Rightarrow> Inr None
     | Some k \<Rightarrow>
         if k \<noteq> ''HelmRelease'' then Inr (Some True)
         else bindE (NestedString obj [''metadata'', ''name'']) (\<lambda>name. case name of
           None \<Rightarrow> Inr None
         | Some n \<Rightarrow> Inr (Some (n \<in> set feats)))))"

fun kept_manifests :: "string list \<Rightarrow> raw list \<Rightarrow> gerr + raw list option" where
  "kept_manifests feats [] = Inr (Some [])"
| "kept_manifests feats (m # ms) =
     bindE (keep_manifest feats m) (\<lambda>k. case k of
       None \<Rightarrow> Inr None
     | Some b \<Rightarrow> bindE (kept_manifests feats ms) (\<lambda>r. Inr (map_option (\<lambda>ms'. if b then m # ms' else ms') r)))"

definition removeHRFomManifestWork :: "manifestwork \<Rightarrow> string list \<Rightarrow> unit kc" where
  "removeHRFomManifestWork mw feats =
     bindM (liftM (kept_manifests feats (mw_manifests mw))) (\<lambda>r. case r of
       None \<Rightarrow> ret ()
     | Some updatedManifests \<Rightarrow>
         if mw_manifests mw = updatedManifests then ret ()
         else
           bindM (if updatedManifests = [] then api_delete works (obj_key mw) else ret ()) (\<lambda>_.
           bindM (CreateOrPatch works (mw\<lparr>mw_manifests := updatedManifests\<rparr>)
                    (with_spec (mw\<lparr>mw_manifests := updatedManifests\<rparr>))) (\<lambda>_. ret ())))"

text \<open>The zero \<open>ManifestWork\<close>, what is left of the variable when the read finds nothing.\<close>

definition zero_work :: manifestwork where
  "zero_work =
     \<lparr> om_name = '''', om_ns = '''', om_labels = Map.empty, om_annots = Map.empty, om_owners = [],
       om_created = zero_time, mw_manifests = [], mw_configs = [], mw_status = [] \<rparr>"

definition prune_one :: "string \<Rightarrow> string \<times> string list \<Rightarrow> unit kc" where
  "prune_one clusterName fl =
     bindM (tryM (api_get works (clusterName, fst fl)) (\<lambda>r. case r of
       Inr mw \<Rightarrow> ret mw | Inl e \<Rightarrow> if is_not_found e then ret zero_work else raise e)) (\<lambda>mw.
       removeHRFomManifestWork mw (snd fl))"

definition prune_all :: "string \<Rightarrow> featureinfo \<Rightarrow> unit kc" where
  "prune_all clusterName info = foldM (\<lambda>_. prune_one clusterName) () info"

section \<open>Enabling the features\<close>

definition enable_other ::
  "'f fakeenv \<Rightarrow> profile \<Rightarrow> binding \<Rightarrow> jmap option \<Rightarrow> string \<times> string list \<Rightarrow> ('f, unit) run" where
  "enable_other E profile profileBinding overrideValues fl =
     (if fst fl = ''opscenter-core'' then ret ()
      else bindM (onhub (sanitizeFeatures E (om_ns profileBinding) (snd fl))) (\<lambda>featureList.
        enableFeatureSet E (fst fl) featureList profile profileBinding overrideValues))"

definition prepare_features :: "'f fakeenv \<Rightarrow> binding \<Rightarrow> profile \<Rightarrow> ('f, jmap option) run" where
  "prepare_features E profileBinding profile =
     bindM (StartFakeApiServerAndApplyBaseManifestWorkReplicaSets E profileBinding) (\<lambda>_.
     bindM (onfake (InstallOpscenterFeaturesOnFakeServer E profile profileBinding
        (Some (bs_cluster (pb_spec profileBinding))) None)) (\<lambda>overrideValues.
     bindM (onfake (\<lambda>f. (Inr (), fe_checkpoint E f))) (\<lambda>_.
     bindM (onfake (RegisterRequiredCRDs E profileBinding)) (\<lambda>_.
       ret overrideValues))))"

text \<open>\<open>fuel\<close> bounds the requirement loop; \<open>None\<close> is out of fuel.\<close>

definition EnableFeatures ::
  "'f fakeenv \<Rightarrow> nat \<Rightarrow> binding \<Rightarrow> featureinfo \<Rightarrow> profile \<Rightarrow> ('f, unit option) run" where
  "EnableFeatures E fuel profileBinding featureInfo profile =
     bindM (prepare_features E profileBinding profile) (\<lambda>overrideValues.
     bindM (asks Inr) (\<lambda>f.
     bindM (onhub (addRequiredFeatures E f fuel (om_ns profileBinding) featureInfo)) (\<lambda>r. case r of
       None \<Rightarrow> ret None
     | Some info \<Rightarrow>
         bindM (enableFeatureSet E ''opscenter-core'' (info_at info ''opscenter-core'') profile profileBinding overrideValues) (\<lambda>_.
         bindM (foldM (\<lambda>_. enable_other E profile profileBinding overrideValues) () (range_order E 3 info)) (\<lambda>_.
         bindM (onhub (prune_all (om_ns profileBinding) (range_order E 4 info))) (\<lambda>_.
           ret (Some ())))))))"

end
