(* ===== verification/BindingController.thy ===== *)
theory BindingController
  imports GoTime UpgradeApply FeatureInstall
begin

text \<open>
  The reconciler of a ManagedClusterProfileBinding
  (\<open>pkg/controller/managedclusterprofilebinding_controller.go\<close> and \<open>helpers.go\<close>): collect the
  features of the binding and its profile, upgrade the cluster or enable the features, and
  record the observed version in the status. It ties the upgrade run and the feature
  installation together.
\<close>

section \<open>What a profile must have\<close>

fun missing_feature :: "fspecs \<Rightarrow> string list \<Rightarrow> string option" where
  "missing_feature fs [] = None"
| "missing_feature fs (f # rs) = (if map_of fs f = None then Some f else missing_feature fs rs)"

definition validateFeatureList :: "profile \<Rightarrow> gerr + unit" where
  "validateFeatureList profile =
     (case missing_feature (pr_features profile) [''opscenter-features'', ''kube-ui-server''] of
        Some f \<Rightarrow> Inl (ErrText (f @ '' not found in feature list''))
      | None \<Rightarrow> Inr ())"

section \<open>The features of a binding\<close>

text \<open>\<open>addFeatures\<close>: the feature sets so far, and the names already pushed.\<close>

fun addFeatures :: "fspecs \<Rightarrow> featureinfo \<times> string list \<Rightarrow> featureinfo \<times> string list" where
  "addFeatures [] st = st"
| "addFeatures ((name, spec) # fs) (info, pushed) =
     addFeatures fs
       (if name \<in> set pushed then (info, pushed)
        else (info_append (fs_set spec) name info, pushed @ [name]))"

definition collect_features :: "'f fakeenv \<Rightarrow> binding \<Rightarrow> profile \<Rightarrow> featureinfo" where
  "collect_features E pb profile =
     fst (addFeatures (range_order E 1 (pr_features profile))
       (addFeatures (range_order E 0 (bs_features (pb_spec pb))) ([], [])))"

section \<open>Decisions\<close>

definition needsUpgrade :: "binding \<Rightarrow> bool" where
  "needsUpgrade pb =
     (if bs_version (pb_spec pb) \<noteq> '''' \<and> bs_version (pb_spec pb) \<noteq> st_version (pb_status pb) then True
      else case om_annots pb UpgradeAnnotation of
        None \<Rightarrow> False
      | Some upgradeTime \<Rightarrow>
          if upgradeTime = '''' then False
          else case parse_rfc3339 upgradeTime of
            None \<Rightarrow> False
          | Some parsedTime \<Rightarrow> st_upgraded (pb_status pb) \<noteq> parsedTime)"

definition shouldEnableFeatures :: "binding \<Rightarrow> profile \<Rightarrow> bool" where
  "shouldEnableFeatures pb p \<longleftrightarrow>
     ch_version (fs_chart (fspec_at (pr_features p) ChartOpscenterFeatures)) = bs_version (pb_spec pb) \<or>
     bs_version (pb_spec pb) = ''''"

section \<open>The observed version\<close>

text \<open>
  The version of the first manifest named opscenter-features of the opscenter-core
  ManifestWork, read through the typed HelmRelease; any error reads as no version. A
  release without a chart is a nil dereference.
\<close>

fun version_in :: "hr_codec \<Rightarrow> raw list \<Rightarrow> gerr + string" where
  "version_in C [] = Inr ''''"
| "version_in C (m # ms) =
     (case manifest_id m of
        Inl _ \<Rightarrow> Inr ''''
      | Inr (kind, name, ns) \<Rightarrow>
          if name = ''opscenter-features'' then
            (case hc_dec C m of
               Inl _ \<Rightarrow> Inr ''''
             | Inr hr \<Rightarrow> (case hs_chart (hr_spec hr) of
                 None \<Rightarrow> Inl (GoPanic ''nil dereference'') | Some c \<Rightarrow> Inr (hc_version c)))
          else version_in C ms)"

definition observedVersion :: "hr_codec \<Rightarrow> string \<Rightarrow> string kc" where
  "observedVersion C profileBindingNamespace =
     tryM (api_get works (profileBindingNamespace, ''opscenter-core'')) (\<lambda>r. case r of
       Inl _ \<Rightarrow> ret ''''
     | Inr mw \<Rightarrow> liftM (version_in C (mw_manifests mw)))"

section \<open>The status\<close>

text \<open>
  \<open>Status().Update\<close> writes the status of the stored object and nothing else; the client
  refuses an object without a name.
\<close>

definition status_update :: "binding \<Rightarrow> unit kc" where
  "status_update pb =
     (if om_name pb = '''' then raise (ErrText ''resource name may not be empty'')
      else api_call (\<lambda>w. case find_obj (obj_key pb) (w_bindings w) of
        None \<Rightarrow> (Inl ErrNotFound, w)
      | Some cur \<Rightarrow>
          (Inr (), w_bindings_update (put_obj (cur\<lparr>pb_status := (pb_status pb)
             \<lparr>st_upgraded := to_second (st_upgraded (pb_status pb))\<rparr>\<rparr>)) w)))"

text \<open>What is left of the variable when the binding is gone.\<close>

definition zero_binding :: binding where
  "zero_binding =
     \<lparr> om_name = '''', om_ns = '''', om_labels = Map.empty, om_annots = Map.empty, om_owners = [],
       om_created = zero_time,
       pb_spec = \<lparr> bs_profile = '''', bs_cluster = zero_clusterinfo, bs_version = '''', bs_features = [] \<rparr>,
       pb_status = zero_status \<rparr>"

definition refetch :: "binding \<Rightarrow> binding kc" where
  "refetch profileBinding =
     tryM (api_get bindings (obj_key profileBinding)) (\<lambda>r. case r of
       Inr pb \<Rightarrow> ret pb
     | Inl e \<Rightarrow> if is_not_found e then ret zero_binding
               else raise (ErrWrap ''failed to get latest account object'' e))"

definition upgraded_at :: "binding \<Rightarrow> string \<Rightarrow> bindstatus \<Rightarrow> gerr + bindstatus" where
  "upgraded_at profileBinding upgradeTime st =
     (if upgradeTime = '''' then Inr st
      else case parse_rfc3339 (zstr (om_annots profileBinding UpgradeAnnotation)) of
        None \<Rightarrow> Inl (ErrText ''invalid force-upgrade timestamp, skipping update.'')
      | Some parsedTime \<Rightarrow> Inr (st\<lparr>st_upgraded := parsedTime\<rparr>))"

definition setOpscenterFeaturesVersion :: "hr_codec \<Rightarrow> binding \<Rightarrow> string \<Rightarrow> gerr option \<Rightarrow> unit kc" where
  "setOpscenterFeaturesVersion C profileBinding upgradeTime err =
     (case err of
        Some e \<Rightarrow> raise e
      | None \<Rightarrow>
          bindM (refetch profileBinding) (\<lambda>pb.
          bindM (observedVersion C (om_ns pb)) (\<lambda>v.
          bindM (liftM (upgraded_at profileBinding upgradeTime ((pb_status pb)\<lparr>st_version := v\<rparr>))) (\<lambda>st.
            tryM (status_update (pb\<lparr>pb_status := st\<rparr>)) (\<lambda>r. case r of
              Inl e \<Rightarrow> raise (ErrWrap ''failed to update status to Failed'' e)
            | Inr _ \<Rightarrow> ret ())))))"

section \<open>The reconciler\<close>

text \<open>A read that ends the reconcile without an error when the object is gone.\<close>

definition found_or_done :: "'o kc \<Rightarrow> ('o \<Rightarrow> ('f, ctrl_result option) run) \<Rightarrow> ('f, ctrl_result option) run" where
  "found_or_done m k =
     tryM (onhub m) (\<lambda>r. case r of
       Inr x \<Rightarrow> k x
     | Inl e \<Rightarrow> (case IgnoreNotFound e of None \<Rightarrow> ret (Some Result_zero) | Some e' \<Rightarrow> raise e'))"

definition settle :: "hr_codec \<Rightarrow> binding \<Rightarrow> string \<Rightarrow> gerr option \<Rightarrow> ('f, ctrl_result option) run" where
  "settle C profileBinding upgradeTime err =
     bindM (onhub (setOpscenterFeaturesVersion C profileBinding upgradeTime err)) (\<lambda>_. ret (Some Result_zero))"

text \<open>Upgrade, or enable, or neither; \<open>None\<close> is the requirement loop out of fuel.\<close>

definition act ::
  "'f fakeenv \<Rightarrow> nat \<Rightarrow> binding \<Rightarrow> profile \<Rightarrow> ('f, ctrl_result option) run" where
  "act E fuel profileBinding profile =
     (let featureInfo = collect_features E profileBinding profile;
          upgradeTime = zstr (om_annots profileBinding UpgradeAnnotation);
          finish = settle (fe_codec E) profileBinding upgradeTime
      in if needsUpgrade profileBinding then
           tryM (UpgradeCluster E profileBinding profile) (\<lambda>r. case r of
             Inl e \<Rightarrow> finish (Some e)
           | Inr result \<Rightarrow> if \<not> IsZero result then ret (Some result) else finish None)
         else if shouldEnableFeatures profileBinding profile then
           tryM (EnableFeatures E fuel profileBinding featureInfo profile) (\<lambda>r. case r of
             Inl e \<Rightarrow> finish (Some e)
           | Inr None \<Rightarrow> ret None
           | Inr (Some _) \<Rightarrow> finish None)
         else finish None)"

definition Reconcile :: "'f fakeenv \<Rightarrow> nat \<Rightarrow> objkey \<Rightarrow> ('f, ctrl_result option) run" where
  "Reconcile E fuel req =
     found_or_done (api_get bindings req) (\<lambda>profileBinding.
     found_or_done (api_get profiles ('''', bs_profile (pb_spec profileBinding))) (\<lambda>profile.
     bindM (liftM (validateFeatureList profile)) (\<lambda>_.
       act E fuel profileBinding profile)))"

text \<open>The watch on profiles: a changed profile enqueues its bindings; \<open>None\<close> is another kind.\<close>

definition mapClusterProfileToClusterProfileBinding :: "profile option \<Rightarrow> objkey list kc" where
  "mapClusterProfileToClusterProfileBinding obj =
     (case obj of
        None \<Rightarrow> ret []
      | Some profile \<Rightarrow>
          tryM (api_list bindings (\<lambda>_. True)) (\<lambda>r. case r of
            Inl _ \<Rightarrow> ret []
          | Inr items \<Rightarrow>
              ret (map obj_key (filter (\<lambda>pb. bs_profile (pb_spec pb) = om_name profile) items))))"

end
