(* ===== verification/Frames.thy ===== *)
theory Frames
  imports BindingController
begin

text \<open>
  What a reconcile may touch, under any faults. A property of the hub is \<open>blind\<close> to the
  cluster's objects when it looks at neither ManifestWorks nor ConfigMaps, nor at the fault
  script and the random supply; it is \<open>blind_works\<close> when it may look at the ConfigMaps.
  Upgrading a cluster keeps every blind property, on success and on error, and enabling its
  features every property blind to works: bindings, profiles, clusters and features stay as
  they were, and so do the ConfigMaps of an installation.
\<close>

named_theorems frame \<open>programs that keep a blind property\<close>

definition blind_works :: "(world \<Rightarrow> bool) \<Rightarrow> bool" where
  "blind_works J \<longleftrightarrow>
     (\<forall>w. J w \<longrightarrow> J (w\<lparr>w_faults := tl (w_faults w)\<rparr>)) \<and>
     (\<forall>w f. J w \<longrightarrow> J (w_mws_update f w)) \<and> (\<forall>w ss. J w \<longrightarrow> J (w\<lparr>w_rand := ss\<rparr>))"

definition blind :: "(world \<Rightarrow> bool) \<Rightarrow> bool" where
  "blind J \<longleftrightarrow> blind_works J \<and> (\<forall>w f. J w \<longrightarrow> J (w_cms_update f w))"

lemma blind_worksI: "blind J \<Longrightarrow> blind_works J"
  by (simp add: blind_def)

lemma blindD:
  "blind_works J \<Longrightarrow> J w \<Longrightarrow> J (w\<lparr>w_faults := tl (w_faults w)\<rparr>)"
  "blind_works J \<Longrightarrow> J w \<Longrightarrow> J (w_mws_update f w)" "blind_works J \<Longrightarrow> J w \<Longrightarrow> J (w\<lparr>w_rand := ss\<rparr>)"
  "blind J \<Longrightarrow> J w \<Longrightarrow> J (w_cms_update g w)"
  by (simp_all add: blind_def blind_works_def)

lemma blind_cluster:
  "blind (\<lambda>w. P (w_bindings w) (w_profiles w) (w_clusters w) (w_features w) (w_sets w) (w_mwrs w) (w_now w))"
  by (simp add: blind_def blind_works_def)

lemma blind_no_faults:
  "blind (\<lambda>w. no_faults w \<and> P (w_bindings w) (w_profiles w) (w_clusters w) (w_features w))"
  by (simp add: blind_def blind_works_def no_faults_def)

abbreviation onfst :: "(world \<Rightarrow> bool) \<Rightarrow> world \<times> 'f \<Rightarrow> bool" where
  "onfst J \<equiv> \<lambda>st. J (fst st)"

section \<open>Control flow\<close>

lemma keeps_ret [frame]: "keeps I (ret x)"
  by (simp add: triple_ret)
lemma keeps_raise [frame]: "keeps I (raise e)"
  by (simp add: triple_raise)
lemma keeps_liftM [frame]: "keeps I (liftM r)"
  by (simp add: triple_liftM)
lemma keeps_bindM [frame]: "keeps I m \<Longrightarrow> (\<And>x. keeps I (f x)) \<Longrightarrow> keeps I (bindM m f)"
  by (rule triple_bindM)
lemma keeps_tryM [frame]: "keeps I m \<Longrightarrow> (\<And>r. keeps I (h r)) \<Longrightarrow> keeps I (tryM m h)"
  by (rule triple_tryM [where R = "\<lambda>_. I"])
lemma keeps_foldM [frame]: "(\<And>x s. keeps I (f s x)) \<Longrightarrow> keeps I (foldM f s xs)"
  by (rule triple_foldM)
lemma keeps_if [frame]: "keeps I m \<Longrightarrow> keeps I m' \<Longrightarrow> keeps I (if b then m else m')"
  by simp
lemma keeps_case_sum [frame]:
  "(\<And>e. keeps I (f e)) \<Longrightarrow> (\<And>x. keeps I (g x)) \<Longrightarrow> keeps I (case r of Inl e \<Rightarrow> f e | Inr x \<Rightarrow> g x)"
  by (simp split: sum.split)
lemma keeps_case_option [frame]:
  "keeps I m \<Longrightarrow> (\<And>x. keeps I (g x)) \<Longrightarrow> keeps I (case r of None \<Rightarrow> m | Some x \<Rightarrow> g x)"
  by (simp split: option.split)
lemma keeps_case_prod [frame]: "(\<And>x y. keeps I (f x y)) \<Longrightarrow> keeps I (case p of (x, y) \<Rightarrow> f x y)"
  by (simp split: prod.split)
lemma keeps_onhub [frame]: "keeps J m \<Longrightarrow> keeps (onfst J) (onhub m)"
  by (fastforce simp: triple_def onhub_def split: prod.splits sum.splits)
lemma keeps_onfake [frame]: "keeps (onfst J) (onfake m)"
  by (auto simp: triple_def onfake_def split: prod.splits sum.splits)
lemma keeps_asks [frame]: "keeps (onfst J) (asks q)"
  by (auto simp: triple_def asks_def split: prod.splits sum.splits)
lemma keeps_raise_opt [frame]: "keeps I (raise_opt e)"
  by (simp add: raise_opt_def triple_ret triple_raise split: option.split)
lemma keeps_now [frame]: "keeps I now"
  by (simp add: now_def triple_getsM)

section \<open>Calls\<close>

lemma keeps_call:
  assumes "blind_works J" and "keeps J m"
  shows "keeps J (api_call m)"
  unfolding triple_def
proof (intro allI impI)
  fix w
  assume "J w"
  then have tl: "J (w\<lparr>w_faults := tl (w_faults w)\<rparr>)" by (rule blindD(1) [OF assms(1)])
  have m: "J w \<Longrightarrow> case m w of (Inr x, w') \<Rightarrow> J w' | (Inl e, w') \<Rightarrow> J w'" for w
    using assms(2) by (simp add: triple_def)
  show "case api_call m w of (Inr x, w') \<Rightarrow> J w' | (Inl e, w') \<Rightarrow> J w'"
  proof (cases "w_faults w")
    case Nil
    with m [OF \<open>J w\<close>] show ?thesis by (simp add: api_call_def)
  next
    case (Cons x fs)
    with m [OF tl] tl show ?thesis by (cases x) (simp_all add: api_call_def)
  qed
qed

lemma frame_get [frame]: "blind_works J \<Longrightarrow> keeps J (api_get K k)"
  unfolding api_get_def by (rule keeps_call) (simp_all add: triple_def split: option.split)
lemma frame_list [frame]: "blind_works J \<Longrightarrow> keeps J (api_list K P)"
  unfolding api_list_def by (rule keeps_call) (simp_all add: triple_def)
lemma frame_delete [frame]:
  "blind_works J \<Longrightarrow> keeps J (api_delete works k)" "blind J \<Longrightarrow> keeps J (api_delete cmaps k)"
  unfolding api_delete_def
  by (rule keeps_call, (assumption | erule blind_worksI), simp add: triple_def works_def cmaps_def blindD)+
lemma frame_create [frame]:
  "blind_works J \<Longrightarrow> keeps J (api_create works mw)" "blind J \<Longrightarrow> keeps J (api_create cmaps c)"
  unfolding api_create_def
  by (rule keeps_call, (assumption | erule blind_worksI), simp add: triple_def Let_def works_def cmaps_def blindD)+
lemma frame_patch [frame]:
  "blind_works J \<Longrightarrow> keeps J (api_patch works mw)" "blind J \<Longrightarrow> keeps J (api_patch cmaps c)"
  unfolding api_patch_def
  by (rule keeps_call, (assumption | erule blind_worksI), simp add: triple_def works_def cmaps_def blindD)+
lemma frame_CreateOrPatch [frame]:
  "blind_works J \<Longrightarrow> keeps J (CreateOrPatch works mw tr)" "blind J \<Longrightarrow> keeps J (CreateOrPatch cmaps c tr')"
  unfolding CreateOrPatch_def by (intro frame; (assumption | erule blind_worksI))+
lemma frame_rand [frame]: "blind_works J \<Longrightarrow> keeps J rand_string"
  by (simp add: triple_def rand_string_def blindD split: list.split)

section \<open>An upgrade\<close>

lemma frame_patch_data [frame]: "blind J \<Longrightarrow> keeps J (patchConfigMapData c)"
  unfolding patchConfigMapData_def by (intro frame blind_worksI)
lemma frame_evaluate [frame]: "blind J \<Longrightarrow> keeps J (evaluate_target st t)"
  unfolding evaluate_target_def by (intro frame blind_worksI)
lemma frame_targets [frame]: "blind J \<Longrightarrow> keeps J (evaluateTargets ts c)"
  unfolding evaluateTargets_def by (intro frame blind_worksI)
lemma frame_finish [frame]: "blind J \<Longrightarrow> keeps J (finishUpgrade c e)"
  unfolding finishUpgrade_def by (intro frame blind_worksI)
lemma frame_observe [frame]: "blind J \<Longrightarrow> keeps J (observeUpgrade c ts)"
  unfolding observeUpgrade_def by (intro frame blind_worksI)
lemma frame_find [frame]: "blind J \<Longrightarrow> keeps J (findPendingUpgrade pb)"
  unfolding findPendingUpgrade_def by (intro frame blind_worksI)
lemma frame_record [frame]: "blind J \<Longrightarrow> keeps J (recordPendingUpgrade c ts u)"
  unfolding recordPendingUpgrade_def by (intro frame blind_worksI)
lemma frame_delete_all [frame]: "blind J \<Longrightarrow> keeps J (delete_all cs)"
proof (induction cs)
  case (Cons c cs)
  then show ?case unfolding delete_all.simps by (intro frame blind_worksI)
qed (simp add: frame)
lemma frame_new_run [frame]: "blind J \<Longrightarrow> keeps J (createConfigMapInSpokeClusterNamespace C v cl)"
  unfolding createConfigMapInSpokeClusterNamespace_def deleteStaleUpgraderConfigMaps_def by (intro frame blind_worksI)
lemma frame_store_step [frame]: "blind J \<Longrightarrow> keeps J (store_step mw c)"
  unfolding store_step_def by (intro frame blind_worksI)
lemma frame_upgrade_core [frame]: "blind J \<Longrightarrow> keeps J (upgrade_core C pr pb mv mw c)"
  unfolding upgrade_core_def by (intro frame blind_worksI)
lemma frame_upgrade_work [frame]: "blind J \<Longrightarrow> keeps J (upgrade_work E f pr pb ct mw)"
  unfolding upgrade_work_def by (intro frame blind_worksI)
lemma frame_write_upgrade [frame]: "blind J \<Longrightarrow> keeps J (write_upgrade E f pr pb mv)"
  unfolding write_upgrade_def finish_apply_def by (intro frame blind_worksI)

lemma frame_init [frame]: "keeps (onfst J) (initializeFakeServer E pb)"
  by (auto simp: triple_def initializeFakeServer_def split: prod.splits sum.splits)
lemma frame_start [frame]:
  "blind_works J \<Longrightarrow> keeps (onfst J) (StartFakeApiServerAndApplyBaseManifestWorkReplicaSets E pb)"
  unfolding StartFakeApiServerAndApplyBaseManifestWorkReplicaSets_def by (intro frame)

lemma frame_UpgradeCluster [frame]: "blind J \<Longrightarrow> keeps (onfst J) (UpgradeCluster E pb pr)"
  unfolding UpgradeCluster_def applyUpgrade_def prepare_upgrade_def by (intro frame blind_worksI)

section \<open>An installation\<close>

lemma keeps_case_gerr [frame]:
  "keeps I a \<Longrightarrow> keeps I b \<Longrightarrow> keeps I c \<Longrightarrow> keeps I d \<Longrightarrow> (\<And>s. keeps I (f s)) \<Longrightarrow>
     (\<And>s e'. keeps I (g s e')) \<Longrightarrow> (\<And>es. keeps I (h es)) \<Longrightarrow> (\<And>s. keeps I (i s)) \<Longrightarrow>
     (\<And>s. keeps I (j s)) \<Longrightarrow>
     keeps I (case e of ErrNotFound \<Rightarrow> a | ErrNoMatch \<Rightarrow> b | ErrExists \<Rightarrow> c | ErrNoClaim \<Rightarrow> d
                      | ErrText s \<Rightarrow> f s | ErrWrap s e' \<Rightarrow> g s e' | ErrJoin es \<Rightarrow> h es | GoPanic s \<Rightarrow> i s | GoExit s \<Rightarrow> j s)"
  by (simp split: gerr.split)

lemma frame_load_claim [frame]: "blind_works J \<Longrightarrow> keeps J (load_claim E cl st)"
  unfolding load_claim_def by (intro frame)
lemma frame_visit [frame]: "blind_works J \<Longrightarrow> keeps J (visit_feature E f cl n st)"
  unfolding visit_feature_def by (intro frame)

lemma frame_add_loop [frame]: "blind_works J \<Longrightarrow> keeps J (add_loop E f cl n st)"
proof (induction n arbitrary: st)
  case 0
  then show ?case by (subst add_loop.simps) (simp add: triple_ret split: list.split)
next
  case (Suc n)
  then show ?case by (subst add_loop.simps) (auto intro!: frame split: list.split)
qed

lemma frame_addRequired [frame]: "blind_works J \<Longrightarrow> keeps J (addRequiredFeatures E f n cl info)"
  unfolding addRequiredFeatures_def by (intro frame)
lemma frame_sanitize [frame]: "blind_works J \<Longrightarrow> keeps J (sanitizeFeatures E cl ns)"
  unfolding sanitizeFeatures_def sanitize_one_def existInManifestWork_def by (intro frame)
lemma frame_updateWork [frame]: "blind_works J \<Longrightarrow> keeps (onfst J) (updateManifestWork E mw pr)"
  unfolding updateManifestWork_def by (intro frame)
lemma frame_applySet [frame]: "blind_works J \<Longrightarrow> keeps (onfst J) (applyFeatureSet E mw s ns pr mc pb)"
  unfolding applyFeatureSet_def by (intro frame)
lemma frame_get_or_new [frame]: "blind_works J \<Longrightarrow> keeps J (get_or_new mw)"
  unfolding get_or_new_def by (intro frame)
lemma frame_enableSet [frame]: "blind_works J \<Longrightarrow> keeps (onfst J) (enableFeatureSet E s ns pr pb ov)"
  unfolding enableFeatureSet_def by (intro frame)
lemma frame_prune [frame]: "blind_works J \<Longrightarrow> keeps J (prune_all cl info)"
  unfolding prune_all_def prune_one_def removeHRFomManifestWork_def by (intro frame)
lemma frame_enable_other [frame]: "blind_works J \<Longrightarrow> keeps (onfst J) (enable_other E pr pb ov fl)"
  unfolding enable_other_def by (intro frame)
lemma frame_EnableFeatures [frame]: "blind_works J \<Longrightarrow> keeps (onfst J) (EnableFeatures E n pb info pr)"
  unfolding EnableFeatures_def prepare_features_def by (intro frame)

end
