(* ===== verification/UpgradeMachine.thy ===== *)
theory UpgradeMachine
  imports Frames
begin

text \<open>
  What the upgrade code promises, as a machine with three phases, and the proof that every
  call of \<open>UpgradeCluster\<close> is a step of it: an upgrade is idle, waiting for the releases of
  one recorded run since the time the run was created, or stuck on a record it cannot read.
  Steps are an inductive relation; a hub on which agents report and the clock runs between
  reconciles is a second one, and its outcomes are those of the machine.
\<close>

section \<open>The machine\<close>

datatype phase = Idle | Waiting "upgrade_target list" gotime | Stuck
datatype outcome = Finished | Requeue | Failed

text \<open>\<open>rdy\<close> says which targets are reported ready, \<open>t\<close> is the time of the step.\<close>

inductive machine :: "(upgrade_target \<Rightarrow> bool) \<Rightarrow> gotime \<Rightarrow> phase \<Rightarrow> outcome \<Rightarrow> phase \<Rightarrow> bool"
  for rdy :: "upgrade_target \<Rightarrow> bool" and t :: gotime where
  refused: "machine rdy t Idle Failed Idle"
| nothing: "machine rdy t Idle Finished Idle"
| start: "ts \<noteq> [] \<Longrightarrow> machine rdy t Idle Requeue (Waiting ts (to_second t))"
| finish: "\<forall>x \<in> set ts. rdy x \<Longrightarrow> machine rdy t (Waiting ts t0) Finished Idle"
| timeout: "x \<in> set ts \<Longrightarrow> \<not> rdy x \<Longrightarrow> t0 + helmReleaseReadyTimeout < t \<Longrightarrow> machine rdy t (Waiting ts t0) Failed Idle"
| wait: "x \<in> set ts \<Longrightarrow> \<not> rdy x \<Longrightarrow> t \<le> t0 + helmReleaseReadyTimeout \<Longrightarrow>
    machine rdy t (Waiting ts t0) Requeue (Waiting ts t0)"
| unreadable: "machine rdy t Stuck Failed Stuck"

inductive_cases machine_waitingE: "machine rdy t (Waiting ts t0) out p"

section \<open>The phase a hub is in\<close>

definition outcome_of :: "gerr + ctrl_result \<Rightarrow> outcome" where
  "outcome_of r = (case r of Inl e \<Rightarrow> Failed | Inr res \<Rightarrow> if IsZero res then Finished else Requeue)"

definition phase_of :: "binding \<Rightarrow> world \<Rightarrow> phase" where
  "phase_of pb w =
     (case first_run pb (filter (is_upgrader (om_ns pb)) (w_cms w)) of
        Inl e \<Rightarrow> Stuck
      | Inr None \<Rightarrow> Idle
      | Inr (Some (c, ts)) \<Rightarrow> Waiting ts (om_created c))"

text \<open>The phase one ConfigMap stands for.\<close>

definition run_phase :: "binding \<Rightarrow> configmap \<Rightarrow> phase" where
  "run_phase pb c =
     (if \<not> resumable pb c then Idle
      else case unmarshal_targets (zstr (om_annots c UpgradeTargetsAnnotation)) of
        Inl e \<Rightarrow> Stuck
      | Inr ts \<Rightarrow> Waiting ts (om_created c))"

definition proper :: "upgrade_target list \<Rightarrow> bool" where
  "proper ts \<longleftrightarrow> (\<forall>x \<in> set ts. ut_hr_name x \<noteq> UpgradeStatusKey)"

definition single :: "binding \<Rightarrow> world \<Rightarrow> bool" where
  "single pb w \<longleftrightarrow>
     (\<forall>x \<in> set (w_cms w). \<forall>y \<in> set (w_cms w).
        is_upgrader (om_ns pb) x \<longrightarrow> is_upgrader (om_ns pb) y \<longrightarrow> obj_key x = obj_key y)"

text \<open>The invariant: a calm hub with one upgrader ConfigMap at most, whose targets it can mark.\<close>

definition machine_inv :: "binding \<Rightarrow> world \<Rightarrow> bool" where
  "machine_inv pb w \<longleftrightarrow>
     no_faults w \<and> keys_distinct (w_cms w) \<and> single pb w \<and>
     (case phase_of pb w of Waiting ts t0 \<Rightarrow> proper ts | _ \<Rightarrow> True)"

lemma machine_invD:
  "machine_inv pb w \<Longrightarrow> no_faults w" "machine_inv pb w \<Longrightarrow> keys_distinct (w_cms w)" "machine_inv pb w \<Longrightarrow> single pb w"
  "machine_inv pb w \<Longrightarrow> phase_of pb w = Waiting ts t0 \<Longrightarrow> proper ts"
  by (simp_all add: machine_inv_def)

lemma outcome_of_simps [simp]:
  "outcome_of (Inl e) = Failed" "outcome_of (Inr Result_zero) = Finished"
  "outcome_of (Inr (Result_after helmReleaseReadyPollInterval)) = Requeue"
  by (simp_all add: outcome_of_def)

lemma phase_of_find:
  "phase_of pb w =
     (case List.find (resumable pb) (filter (is_upgrader (om_ns pb)) (w_cms w)) of
        None \<Rightarrow> Idle | Some c \<Rightarrow> run_phase pb c)"
proof (cases "List.find (resumable pb) (filter (is_upgrader (om_ns pb)) (w_cms w))")
  case None
  then show ?thesis by (simp add: phase_of_def first_run_find)
next
  case (Some c)
  with find_SomeD have "resumable pb c" by fast
  with Some show ?thesis
    by (cases "unmarshal_targets (zstr (om_annots c UpgradeTargetsAnnotation))")
      (simp_all add: phase_of_def first_run_find run_phase_def)
qed

lemma phase_idle:
  assumes "\<And>x. x \<in> set (w_cms w) \<Longrightarrow> is_upgrader (om_ns pb) x \<Longrightarrow> \<not> resumable pb x"
  shows "phase_of pb w = Idle"
proof -
  have "List.find (resumable pb) (filter (is_upgrader (om_ns pb)) (w_cms w)) = None"
    using assms by (simp add: find_None_iff_all)
  then show ?thesis by (simp add: phase_of_find)
qed

lemma phase_of_run:
  assumes "keys_distinct (w_cms w)" and "single pb w" and "c \<in> set (w_cms w)" and "is_upgrader (om_ns pb) c"
  shows "phase_of pb w = run_phase pb c"
proof (cases "List.find (resumable pb) (filter (is_upgrader (om_ns pb)) (w_cms w))")
  case None
  with assms(3,4) have "\<not> resumable pb c" by (simp add: find_None_iff_all)
  with None show ?thesis by (simp add: phase_of_find run_phase_def)
next
  case (Some x)
  then have x: "x \<in> set (w_cms w)" "is_upgrader (om_ns pb) x" using find_SomeD by fastforce+
  with assms(2-4) have "obj_key x = obj_key c" unfolding single_def by blast
  with kube.items_inj [OF assms(1) x(1) assms(3)] have "x = c" by simp
  with Some show ?thesis by (simp add: phase_of_find)
qed

text \<open>Replacing the upgrader ConfigMap by another of its key.\<close>

lemma replaced:
  assumes "keys_distinct (w_cms w)" and "single pb w" and "cm_at w (obj_key c) = Some c" and "is_upgrader (om_ns pb) c"
    and "keys_distinct (w_cms w')" and "cm_at w' = (cm_at w)(obj_key c \<mapsto> n)" and "obj_key n = obj_key c"
    and "is_upgrader (om_ns pb) n"
  shows "single pb w' \<and> phase_of pb w' = run_phase pb n"
proof -
  have mem: "x \<in> set (w_cms w') \<longleftrightarrow> (if obj_key x = obj_key c then x = n else x \<in> set (w_cms w))" for x
    unfolding find_obj_distinct [OF assms(5), of x] find_obj_distinct [OF assms(1), of x] fun_cong [OF assms(6), of "obj_key x"]
    by auto
  have c: "c \<in> set (w_cms w)" using find_obj_key [OF assms(3)] by simp
  have key: "obj_key x = obj_key c" if "x \<in> set (w_cms w')" "is_upgrader (om_ns pb) x" for x
    using that(1) [unfolded mem] that(2) assms(2,4) c unfolding single_def by (metis (no_types))
  then have s: "single pb w'" unfolding single_def by simp
  have "n \<in> set (w_cms w')" by (simp add: mem assms(7))
  with phase_of_run [OF assms(5) s] assms(8) s show ?thesis by blast
qed

section \<open>Observing a run is a step\<close>

lemma waiting_run:
  assumes "machine_inv pb w" and "phase_of pb w = Waiting ts t0"
  obtains c where "findPendingUpgrade pb w = (Inr (Some (c, ts)), w)" "cm_at w (obj_key c) = Some c"
    "is_upgrader (om_ns pb) c" "om_created c = t0" "run_phase pb c = Waiting ts t0"
proof -
  note inv = machine_invD [OF assms(1)]
  from assms(2) obtain c where f: "first_run pb (filter (is_upgrader (om_ns pb)) (w_cms w)) = Inr (Some (c, ts))"
    and t0: "om_created c = t0"
    by (auto simp: phase_of_def split: sum.splits option.splits)
  then obtain x where x: "List.find (resumable pb) (filter (is_upgrader (om_ns pb)) (w_cms w)) = Some x" and "x = c"
    by (auto simp: first_run_find split: option.splits sum.splits)
  with find_SomeD have c: "c \<in> set (w_cms w)" "is_upgrader (om_ns pb) c" by fastforce+
  show thesis
  proof (rule that)
    show "findPendingUpgrade pb w = (Inr (Some (c, ts)), w)" using f inv(1) by (simp add: findPendingUpgrade_run)
    show "cm_at w (obj_key c) = Some c" using c(1) find_obj_distinct [OF inv(2)] by blast
    show "run_phase pb c = Waiting ts t0" using phase_of_run [OF inv(2,3) c] assms(2) by simp
  qed (fact c(2) t0)+
qed

lemma observed_phase:
  assumes "proper ts" and "run_phase pb c = Waiting ts t0"
  shows "run_phase pb (c\<lparr>cm_data := observed_data w ts (cm_data c)\<rparr>) = Waiting ts t0"
proof -
  have "observed_data w ts (cm_data c) UpgradeStatusKey = cm_data c UpgradeStatusKey"
    using assms(1) by (auto simp: observed_data_def proper_def)
  with assms(2) show ?thesis by (simp add: run_phase_def resumable_def run_matches_def split: if_splits sum.splits)
qed

lemma finished_phase: "run_phase pb (finished c) = Idle"
  by (simp add: run_phase_def finished_not_resumable)

lemma pending_iff: "still_pending w ts = [] \<longleftrightarrow> (\<forall>x \<in> set ts. target_ready w x)"
  by (simp add: still_pending_def filter_empty_conv)

lemma observe_step:
  assumes inv: "machine_inv pb w" and c: "cm_at w (obj_key c) = Some c" "is_upgrader (om_ns pb) c"
    and ph: "phase_of pb w = Waiting ts t0" "run_phase pb c = Waiting ts t0" "om_created c = t0"
    and run: "observeUpgrade c ts w = (r, w')"
  shows "machine_inv pb w' \<and> machine (target_ready w) (w_now w) (Waiting ts t0) (outcome_of r) (phase_of pb w')"
proof -
  let ?c = "c\<lparr>cm_data := observed_data w ts (cm_data c)\<rparr>"
  let ?n = "if still_pending w ts = [] \<or> t0 + helmReleaseReadyTimeout < w_now w then finished ?c else ?c"
  note D = machine_invD [OF inv]
  have pr: "proper ts" using D(4) ph(1) .
  let ?r = "if still_pending w ts = [] then Inr Result_zero
         else if t0 + helmReleaseReadyTimeout < w_now w then Inl (ErrJoin [timeout_error (still_pending w ts)])
         else Inr (Result_after helmReleaseReadyPollInterval)"
  obtain w2 where o: "observeUpgrade c ts w = (?r, w2)"
    and at2: "cm_at w2 = (cm_at w)(obj_key c \<mapsto> ?n)" and w2: "w2 = w\<lparr>w_cms := w_cms w2\<rparr>"
    using observeUpgrade_no_faults [OF D(1) c(1), of ts] unfolding ph(3) by blast
  from o run have r: "r = ?r" and "w2 = w'" by (simp_all only: prod.inject)
  note at = at2 [unfolded \<open>w2 = w'\<close>] and w' = w2 [unfolded \<open>w2 = w'\<close>]
  have kd: "keys_distinct (w_cms w')"
    using keepsD [OF keeps_cms_observe [OF cms_closed_intros(2)], of w c ts] D(2) run by simp
  have nf: "no_faults w'" using D(1) by (subst w') (simp add: no_faults_def)
  have key: "obj_key ?n = obj_key c" by simp
  have up: "is_upgrader (om_ns pb) ?n" using c(2) by (simp add: is_upgrader_def finished_def)
  have rep: "single pb w' \<and> phase_of pb w' = run_phase pb ?n"
    by (rule replaced [OF D(2,3) c kd at key up])
  moreover have n: "run_phase pb ?n = (if still_pending w ts = [] \<or> t0 + helmReleaseReadyTimeout < w_now w
      then Idle else Waiting ts t0)"
    using observed_phase [OF pr ph(2), of w] finished_phase [of pb ?c] by simp
  ultimately have p: "phase_of pb w' = (if still_pending w ts = [] \<or> t0 + helmReleaseReadyTimeout < w_now w
      then Idle else Waiting ts t0)" by simp
  have "machine_inv pb w'"
    unfolding machine_inv_def p using nf kd rep pr by simp
  moreover have "machine (target_ready w) (w_now w) (Waiting ts t0) (outcome_of r) (phase_of pb w')"
    unfolding p r by (auto simp: pending_iff not_less intro: machine.intros)
  ultimately show ?thesis ..
qed

section \<open>Applying an upgrade is a step\<close>

text \<open>
  While an upgrade is written, the ConfigMap carries no annotation yet, so an error in between
  leaves nothing to resume.
\<close>

definition writing :: "hr_codec \<Rightarrow> binding \<Rightarrow> gotime \<Rightarrow> configmap \<times> upgrade_target list \<Rightarrow> world \<Rightarrow> bool" where
  "writing C pb t0 ct w \<longleftrightarrow>
     running pb (fst ct) w \<and> om_annots (fst ct) = Map.empty \<and> om_created (fst ct) = t0 \<and> proper (snd ct) \<and>
     hub_free C (om_ns pb) w"

definition settled :: "hr_codec \<Rightarrow> binding \<Rightarrow> world \<Rightarrow> bool" where
  "settled C pb w \<longleftrightarrow> machine_inv pb w \<and> phase_of pb w = Idle \<and> hub_free C (om_ns pb) w"

lemma running_basics:
  assumes "running pb c w"
  shows "no_faults w" and "keys_distinct (w_cms w)" and "single pb w" and "c \<in> set (w_cms w)" and "is_upgrader (om_ns pb) c"
    and "cm_at w (obj_key c) = Some c"
proof -
  note r = assms [unfolded running_def]
  show "no_faults w" "keys_distinct (w_cms w)" "is_upgrader (om_ns pb) c" "cm_at w (obj_key c) = Some c"
    using r by blast+
  then show "c \<in> set (w_cms w)" using find_obj_key by blast
  show "single pb w" unfolding single_def using r by metis
qed

lemma writing_settled: "writing C pb t0 ct w \<Longrightarrow> settled C pb w"
proof -
  assume w: "writing C pb t0 ct w"
  then have r: "running pb (fst ct) w" and a: "om_annots (fst ct) = Map.empty" and f: "hub_free C (om_ns pb) w"
    by (simp_all add: writing_def)
  have "phase_of pb w = run_phase pb (fst ct)"
    by (rule phase_of_run [OF running_basics(2-5) [OF r]])
  also have "\<dots> = Idle" using a by (simp add: run_phase_def resumable_def)
  finally show ?thesis using running_basics [OF r] f by (simp add: settled_def machine_inv_def)
qed

lemma proper_append [simp]: "proper (ts @ us) \<longleftrightarrow> proper ts \<and> proper us"
  by (auto simp: proper_def)

lemma proper_new [simp]: "proper [newUpgradeTarget mw hr b] \<longleftrightarrow> om_name hr \<noteq> UpgradeStatusKey"
  by (simp add: proper_def)

lemma upgrade_manifest_proper:
  assumes "status_free (fe_codec E) m" and "upgrade_manifest E f pr pb cv m mw p = Inr (m', mw', p')"
    and "proper (snd p)"
  shows "proper (snd p')"
proof -
  from assms(2) consider "p' = p"
    | kind name ns hr s where "manifest_id m = Inr (kind, name, ns)" "kind = HelmReleaseKind" "hc_dec (fe_codec E) m = Inr hr"
        "replace_release (fe_codec E) m (hr\<lparr>hr_spec := s\<rparr>) mw p = Inr (m', mw', p')"
    by (auto simp: upgrade_manifest_def bindE_Inr_iff split: if_splits prod.splits)
  then show ?thesis
  proof cases
    case 2
    from status_freeD [OF assms(1) 2(1) _ 2(3)] 2(2) have "om_name hr \<noteq> UpgradeStatusKey" by simp
    with 2(4) assms(3) show ?thesis by (auto simp: replace_release_Inr)
  qed (simp add: assms(3))
qed

lemma upgrade_manifests_proper:
  "list_all (status_free (fe_codec E)) ms \<Longrightarrow> upgrade_manifests E f pr pb cv ms mw p = Inr (ms', mw', p') \<Longrightarrow>
     proper (snd p) \<Longrightarrow> proper (snd p')"
proof (induction ms arbitrary: mw p ms')
  case Nil
  then show ?case by simp
next
  case (Cons m ms)
  from Cons.prems(2) obtain m1 mw1 p1 ms1 where
    m: "upgrade_manifest E f pr pb cv m mw p = Inr (m1, mw1, p1)"
    and ms: "upgrade_manifests E f pr pb cv ms mw1 p1 = Inr (ms1, mw', p')"
    by (auto simp: bindE_Inr_iff)
  with Cons.IH [OF _ ms] upgrade_manifest_proper [OF _ m Cons.prems(3)] Cons.prems(1) show ?case by simp
qed

text \<open>One store of a rewritten ManifestWork, however its targets came about.\<close>

lemma store_writing:
  assumes "writing C pb t0 (c, ts) w" and "d UpgradeStatusKey = cm_data c UpgradeStatusKey" and "proper ts'"
    and "work_free C mw"
  obtains w' where "store_step mw (c\<lparr>cm_data := d\<rparr>) w = (Inr (c\<lparr>cm_data := d\<rparr>), w')"
    "writing C pb t0 (c\<lparr>cm_data := d\<rparr>, ts') w'"
proof -
  from assms(1) have r: "running pb c w" and a: "om_annots c = Map.empty" "om_created c = t0"
    and f: "hub_free C (om_ns pb) w"
    by (simp_all add: writing_def)
  from r assms(2) have "d UpgradeStatusKey = Some UpgradeStatusPending" by (simp add: running_def)
  from store_step_running [OF r, where d = d and mw = mw, OF this] obtain w' where
    w': "store_step mw (c\<lparr>cm_data := d\<rparr>) w = (Inr (c\<lparr>cm_data := d\<rparr>), w')" "running pb (c\<lparr>cm_data := d\<rparr>) w'" by blast
  with store_step_free [OF w'(1) assms(4) f] a assms(3) that show thesis by (simp add: writing_def)
qed

lemma triple_core:
  assumes "codec_ok C" and "work_free C mw"
  shows "triple (writing C pb t0 (c, [])) (upgrade_core C pr pb mv mw c) (writing C pb t0) (\<lambda>_. settled C pb)"
  unfolding triple_def
proof (intro allI impI)
  fix w
  assume w: "writing C pb t0 (c, []) w"
  show "case upgrade_core C pr pb mv mw c w of (Inl e, w') \<Rightarrow> settled C pb w' | (Inr ct, w') \<Rightarrow> writing C pb t0 ct w'"
  proof (cases "core_manifest (mw_manifests mw) 0")
    case (Inl e)
    then show ?thesis using writing_settled [OF w] by (simp add: upgrade_core_def prog_simps)
  next
    case (Inr found)
    show ?thesis
    proof (cases found)
      case None
      with Inr w show ?thesis by (simp add: upgrade_core_def prog_simps)
    next
      case (Some im)
      show ?thesis
      proof (cases "rewrite_core C pr pb mv mw im (cm_data c)")
        case (Inl e)
        with Inr Some writing_settled [OF w] show ?thesis by (simp add: upgrade_core_def prog_simps)
      next
        case r: (Inr x)
        obtain mw1 d ts where x: "x = (mw1, d, ts)" by (cases x)
        from rewrite_core_free [OF assms Inr [unfolded Some] r [unfolded x]]
        have "d UpgradeStatusKey = cm_data c UpgradeStatusKey" "proper ts" "work_free C mw1"
          by (auto simp: proper_def image_iff)
        from store_writing [OF w, where d = d and mw = mw1, OF this] obtain w' where
          "store_step mw1 (c\<lparr>cm_data := d\<rparr>) w = (Inr (c\<lparr>cm_data := d\<rparr>), w')" "writing C pb t0 (c\<lparr>cm_data := d\<rparr>, ts) w'" .
        with Inr Some r x show ?thesis by (simp add: upgrade_core_def prog_simps)
      qed
    qed
  qed
qed

lemma triple_work:
  assumes "codec_ok (fe_codec E)" and "work_free (fe_codec E) mw"
  shows "triple (writing (fe_codec E) pb t0 ct) (upgrade_work E f pr pb ct mw) (writing (fe_codec E) pb t0)
    (\<lambda>_. settled (fe_codec E) pb)"
  unfolding triple_def
proof (intro allI impI)
  fix w
  let ?C = "fe_codec E"
  assume w: "writing ?C pb t0 ct w"
  obtain c ts0 where ct: "ct = (c, ts0)" by (cases ct)
  show "case upgrade_work E f pr pb ct mw w of (Inl e, w') \<Rightarrow> settled ?C pb w' | (Inr ct', w') \<Rightarrow> writing ?C pb t0 ct' w'"
  proof (cases "is_managed mw")
    case False
    then show ?thesis using w by (simp add: upgrade_work_def prog_simps)
  next
    case True
    show ?thesis
    proof (cases "rewrite_work E f pr pb mw (cm_data c, ts0)")
      case (Inl e)
      with True ct writing_settled [OF w] show ?thesis by (simp add: upgrade_work_def prog_simps)
    next
      case (Inr x)
      obtain mw1 d ts where x: "x = (mw1, d, ts)" by (cases x)
      from Inr x obtain cv ms mw2 where
        u: "upgrade_manifests E f pr pb cv (mw_manifests mw) mw (cm_data c, ts0) = Inr (ms, mw2, d, ts)"
        by (auto simp: rewrite_work_def bindE_Inr_iff)
      have fr: "work_free ?C mw1" "d UpgradeStatusKey = cm_data c UpgradeStatusKey"
        using rewrite_work_free [OF assms Inr [unfolded x]] by simp_all
      have ts: "proper ts"
        using upgrade_manifests_proper [OF assms(2) u] w ct by (simp add: writing_def)
      from store_writing [OF w [unfolded ct], where d = d and mw = mw1, OF fr(2) ts fr(1)] obtain w' where
        "store_step mw1 (c\<lparr>cm_data := d\<rparr>) w = (Inr (c\<lparr>cm_data := d\<rparr>), w')" "writing ?C pb t0 (c\<lparr>cm_data := d\<rparr>, ts) w'" .
      with Inr True ct x show ?thesis by (simp add: upgrade_work_def prog_simps)
    qed
  qed
qed

lemma no_upgrader_settled:
  assumes "no_faults w" and "keys_distinct (w_cms w)" and "\<forall>x \<in> set (w_cms w). \<not> is_upgrader (om_ns pb) x"
    and "hub_free C (om_ns pb) w"
  shows "settled C pb w"
proof -
  have "phase_of pb w = Idle" using assms(3) by (intro phase_idle) blast
  with assms show ?thesis by (auto simp: settled_def machine_inv_def single_def)
qed

lemma create_settled:
  assumes "no_faults w" and "keys_distinct (w_cms w)" and "hub_free C (om_ns pb) w"
    and "createConfigMapInSpokeClusterNamespace C ver (om_ns pb) w = (Inl e, w')"
  shows "settled C pb w'"
proof (rule no_upgrader_settled)
  let ?w1 = "w_cms_update (filter (\<lambda>x. \<not> is_upgrader (om_ns pb) x)) w"
  have nf1: "no_faults ?w1" using assms(1) by simp
  obtain sfx w2 where r: "rand_string ?w1 = (Inr sfx, w2)"
    and w2: "w_cms w2 = w_cms ?w1" "w_mws w2 = w_mws w" "no_faults w2"
    using nf1 by (cases "w_rand w") (auto simp: rand_string_def)
  have w': "w' = ?w1 \<or> w' = w2"
    using assms(4) deleteStale_no_faults [OF assms(1,2)] nf1 r w2(3)
    by (auto simp: createConfigMapInSpokeClusterNamespace_def prog_simps works_def cmaps_def split: sum.splits if_splits)
  with nf1 w2 show "no_faults w'" by auto
  have cms: "w_cms w' = filter (\<lambda>x. \<not> is_upgrader (om_ns pb) x) (w_cms w)" using w' w2 by auto
  show "keys_distinct (w_cms w')" using assms(2) unfolding cms by (simp add: keys_distinct_def distinct_map_filter)
  show "\<forall>x \<in> set (w_cms w'). \<not> is_upgrader (om_ns pb) x" by (simp add: cms)
  show "hub_free C (om_ns pb) w'" using w' w2(2) assms(3) by (auto simp: hub_free_def)
qed

lemma create_writing:
  assumes "no_faults w" and "keys_distinct (w_cms w)" and "hub_free C (om_ns pb) w"
    and "createConfigMapInSpokeClusterNamespace C (bs_version (pb_spec pb)) (om_ns pb) w = (Inr c, w')"
  shows "writing C pb (to_second (w_now w)) (c, []) w'"
proof -
  from assms(1,2,4) obtain d sfx where
    "c = (new_config_map sfx (bs_version (pb_spec pb)) (om_ns pb) d)\<lparr>om_created := to_second (w_now w)\<rparr>"
    by (rule createConfigMap_Inr)
  moreover have "hub_free C (om_ns pb) w'"
    using assms(3) create_works [OF assms(1,2,4)] by (simp add: hub_free_def)
  ultimately show ?thesis
    using createConfigMap_running [OF assms] by (simp add: writing_def new_config_map_def proper_def)
qed

text \<open>How an application ends.\<close>

definition applied :: "hr_codec \<Rightarrow> binding \<Rightarrow> gotime \<Rightarrow> ctrl_result \<Rightarrow> world \<Rightarrow> bool" where
  "applied C pb t0 res w \<longleftrightarrow>
     machine_inv pb w \<and> hub_free C (om_ns pb) w \<and>
     (res = Result_zero \<and> phase_of pb w = Idle \<or>
      (\<exists>ts. ts \<noteq> [] \<and> res = Result_after helmReleaseReadyPollInterval \<and> phase_of pb w = Waiting ts t0))"

lemma stored_phase:
  assumes "running pb c w" and "obj_key n = obj_key c" and "is_upgrader (om_ns pb) n"
    and "case run_phase pb n of Waiting ts t0 \<Rightarrow> proper ts | _ \<Rightarrow> True"
  shows "machine_inv pb (w_cms_update (put_obj n) w) \<and> phase_of pb (w_cms_update (put_obj n) w) = run_phase pb n"
proof -
  let ?w = "w_cms_update (put_obj n) w"
  note r = running_basics [OF assms(1)]
  have kd: "keys_distinct (w_cms ?w)" using kube.inv_put [OF r(2)] by simp
  have "cm_at ?w = (cm_at w)(obj_key c \<mapsto> n)" using assms(2) by (simp add: cm_at_put)
  from replaced [OF r(2,3,6,5) kd this assms(2,3)] kd r(1) assms(4) show ?thesis by (simp add: machine_inv_def)
qed

lemma finish_apply_applied:
  assumes w: "writing C pb t0 (c, ts) w" and run: "finish_apply pb (c, ts) w = (r, w')"
  shows "\<exists>res. r = Inr res \<and> applied C pb t0 res w'"
proof -
  have rn: "running pb c w" and a: "om_annots c = Map.empty" "om_created c = t0" and pr: "proper ts"
    and fr: "hub_free C (om_ns pb) (w_cms_update u w)" for u
    using w by (simp_all add: writing_def hub_free_def)
  note b = running_basics [OF rn]
  show ?thesis
  proof (cases "ts = []")
    case True
    have "finishUpgrade c None w = (Inr (), w_cms_update (put_obj (finished c)) w)"
      using finishUpgrade_no_faults [OF b(1,6), of None] by simp
    with True run have "r = Inr Result_zero" "w' = w_cms_update (put_obj (finished c)) w"
      by (simp_all add: finish_apply_def prog_simps)
    moreover have "is_upgrader (om_ns pb) (finished c)" using b(5) by (simp add: is_upgrader_def finished_def)
    ultimately show ?thesis
      using stored_phase [OF rn, of "finished c"] by (simp add: finished_phase applied_def fr)
  next
    case False
    let ?n = "patch_config_map (record_annots ts (zstr (om_annots pb UpgradeAnnotation)) c) c"
    have "patchConfigMapData (record_annots ts (zstr (om_annots pb UpgradeAnnotation)) c) w = (Inr ?n, w_cms_update (put_obj ?n) w)"
      using b(1,6) by (simp add: patchConfigMapData_def CreateOrPatch_present record_annots_simps cmaps_def)
    with False run have r: "r = Inr (Result_after helmReleaseReadyPollInterval)" "w' = w_cms_update (put_obj ?n) w"
      by (simp_all add: finish_apply_def recordPendingUpgrade_def prog_simps)
    have T: "om_annots ?n UpgradeTargetsAnnotation = Some (marshal_targets ts)"
      by (simp add: patch_config_map_def record_annots_simps map_add_def)
    have A: "zstr (om_annots ?n UpgradeAnnotation) = zstr (om_annots pb UpgradeAnnotation)"
      using a(1) by (simp add: patch_config_map_def record_annots_simps map_add_def)
    have "resumable pb ?n"
      using rn A T by (simp add: running_def resumable_def run_matches_def record_annots_simps)
    moreover have "om_created ?n = t0" using a(2) by (simp add: patch_config_map_def)
    ultimately have "run_phase pb ?n = Waiting ts t0" using T by (simp add: run_phase_def unmarshal_marshal)
    moreover have "is_upgrader (om_ns pb) ?n" using b(5) by (simp add: is_upgrader_def)
    ultimately show ?thesis
      using stored_phase [OF rn, of ?n] False pr r by (simp add: applied_def fr)
  qed
qed

lemma settled_no_faults: "settled C pb w \<Longrightarrow> no_faults w" "writing C pb t0 ct w \<Longrightarrow> no_faults w"
  by (auto simp: settled_def writing_def machine_invD running_basics)

lemma triple_create:
  "triple (\<lambda>w. settled C pb w \<and> w_now w = t)
     (createConfigMapInSpokeClusterNamespace C (bs_version (pb_spec pb)) (om_ns pb))
     (\<lambda>c. writing C pb (to_second t) (c, [])) (\<lambda>_. settled C pb)"
  unfolding triple_def
proof (intro allI impI)
  fix w
  assume "settled C pb w \<and> w_now w = t"
  then have d: "no_faults w" "keys_distinct (w_cms w)" "hub_free C (om_ns pb) w" and t: "w_now w = t"
    by (simp_all add: settled_def machine_inv_def)
  obtain r w' where r: "createConfigMapInSpokeClusterNamespace C (bs_version (pb_spec pb)) (om_ns pb) w = (r, w')"
    by (metis prod.exhaust)
  show "case createConfigMapInSpokeClusterNamespace C (bs_version (pb_spec pb)) (om_ns pb) w of
      (Inl e, w') \<Rightarrow> settled C pb w' | (Inr c, w') \<Rightarrow> writing C pb (to_second t) (c, []) w'"
    using create_settled [OF d] create_writing [OF d] r t by (cases r) auto
qed

text \<open>What is read off a free hub is free.\<close>

lemma triple_get_core:
  "triple (\<lambda>w. settled C pb w \<and> w_now w = t) (api_get works (om_ns pb, n))
     (\<lambda>mw w. (settled C pb w \<and> w_now w = t) \<and> work_free C mw) (\<lambda>_. settled C pb)"
  unfolding triple_def
proof (intro allI impI)
  fix w
  assume w: "settled C pb w \<and> w_now w = t"
  then have "no_faults w" "hub_free C (om_ns pb) w" by (auto simp: settled_def machine_invD)
  with w show "case api_get works (om_ns pb, n) w of (Inl e, w') \<Rightarrow> settled C pb w'
      | (Inr mw, w') \<Rightarrow> (settled C pb w' \<and> w_now w' = t) \<and> work_free C mw"
    by (auto simp: prog_simps works_def dest: hub_freeD split: option.split)
qed

lemma triple_list_works:
  "triple (writing C pb t0 ct) (api_list works (\<lambda>mw. om_ns mw = om_ns pb))
     (\<lambda>mws w. writing C pb t0 ct w \<and> list_all (work_free C) mws) (\<lambda>_. settled C pb)"
  unfolding triple_def
proof (intro allI impI)
  fix w
  assume w: "writing C pb t0 ct w"
  then have "no_faults w" "hub_free C (om_ns pb) w" by (auto simp: writing_def running_basics)
  with w show "case api_list works (\<lambda>mw. om_ns mw = om_ns pb) w of (Inl e, w') \<Rightarrow> settled C pb w'
      | (Inr mws, w') \<Rightarrow> writing C pb t0 ct w' \<and> list_all (work_free C) mws"
    by (auto simp: api_list_run works_def hub_free_def list_all_iff)
qed

lemma triple_works:
  "codec_ok (fe_codec E) \<Longrightarrow> list_all (work_free (fe_codec E)) mws \<Longrightarrow>
     triple (writing (fe_codec E) pb t0 ct) (foldM (upgrade_work E f pr pb) ct mws) (writing (fe_codec E) pb t0)
       (\<lambda>_. settled (fe_codec E) pb)"
proof (induction mws arbitrary: ct)
  case Nil
  then show ?case by (simp add: triple_def ret_run)
next
  case (Cons mw mws)
  from Cons.prems(2) have m: "work_free (fe_codec E) mw" "list_all (work_free (fe_codec E)) mws" by simp_all
  show ?case unfolding foldM.simps
    by (rule triple_bindM [OF triple_work [OF Cons.prems(1) m(1)] Cons.IH [OF Cons.prems(1) m(2)]])
qed

lemma triple_given:
  "(b \<Longrightarrow> triple P m Q R) \<Longrightarrow> triple (\<lambda>w. P w \<and> b) m Q R"
  by (cases b) (simp_all add: triple_def)

lemma triple_write_upgrade:
  assumes "codec_ok (fe_codec E)"
  shows "triple (\<lambda>w. settled (fe_codec E) pb w \<and> w_now w = t) (write_upgrade E f pr pb mv)
     (applied (fe_codec E) pb (to_second t)) (\<lambda>_. settled (fe_codec E) pb)"
  unfolding write_upgrade_def
proof (rule triple_bindM [OF triple_get_core], rule triple_given)
  let ?C = "fe_codec E"
  fix mw
  assume mw: "work_free ?C mw"
  show "triple (\<lambda>w. settled ?C pb w \<and> w_now w = t)
     (bindM (createConfigMapInSpokeClusterNamespace ?C (bs_version (pb_spec pb)) (om_ns pb)) (\<lambda>c.
      bindM (upgrade_core ?C pr pb mv mw c) (\<lambda>ct.
      bindM (api_list works (\<lambda>mw. om_ns mw = om_ns pb)) (\<lambda>mws.
      bindM (foldM (upgrade_work E f pr pb) ct mws) (finish_apply pb)))))
     (applied ?C pb (to_second t)) (\<lambda>_. settled ?C pb)"
  proof (rule triple_bindM [OF triple_create], rule triple_bindM [OF triple_core [OF assms mw]],
      rule triple_bindM [OF triple_list_works], rule triple_given)
    fix ct mws
    assume mws: "list_all (work_free ?C) mws"
    show "triple (writing ?C pb (to_second t) ct) (bindM (foldM (upgrade_work E f pr pb) ct mws) (finish_apply pb))
       (applied ?C pb (to_second t)) (\<lambda>_. settled ?C pb)"
    proof (rule triple_bindM [OF triple_works [OF assms mws]])
      fix ct'
      show "triple (writing ?C pb (to_second t) ct') (finish_apply pb ct') (applied ?C pb (to_second t)) (\<lambda>_. settled ?C pb)"
        unfolding triple_def using finish_apply_applied [of ?C pb "to_second t" "fst ct'" "snd ct'"]
        by (fastforce split: prod.split sum.split)
    qed
  qed
qed

lemma apply_step:
  assumes inv: "machine_inv pb w" and ph: "phase_of pb w = Idle" and codec: "codec_ok (fe_codec E)"
    and fr: "hub_free (fe_codec E) (om_ns pb) w" and run: "applyUpgrade E pb pr (w, f) = (r, (w', f'))"
  shows "machine_inv pb w' \<and> machine (target_ready w) (w_now w) Idle (outcome_of r) (phase_of pb w') \<and>
    hub_free (fe_codec E) (om_ns pb) w'"
proof -
  let ?C = "fe_codec E"
  have s: "settled ?C pb w" using inv ph fr by (simp add: settled_def)
  obtain p w1 f1 where p: "prepare_upgrade E pb (w, f) = (p, (w1, f1))" by (metis prod.exhaust)
  have "w1 = w" by (rule prepare_hub [OF p]) (simp add: machine_invD(1) [OF inv])
  have failed: "machine_inv pb w2 \<and> machine rdy t Idle Failed (phase_of pb w2) \<and> hub_free ?C (om_ns pb) w2"
    if "settled ?C pb w2" for w2 rdy t
    using that by (auto simp: settled_def intro: machine.refused)
  show ?thesis
  proof (cases p)
    case (Inl e)
    with p run \<open>w1 = w\<close> have "r = Inl e" "w' = w" by (auto simp: applyUpgrade_def prog_simps)
    with failed [OF s] show ?thesis by simp
  next
    case (Inr mv)
    with p run \<open>w1 = w\<close> have wr: "write_upgrade E f1 pr pb mv w = (r, w')"
      by (auto simp: applyUpgrade_def prog_simps split: prod.splits)
    note t = triple_write_upgrade [OF codec, of pb "w_now w" f1 pr mv]
    show ?thesis
    proof (cases r)
      case (Inl e)
      with tripleD_Inl [OF t] s wr have "settled ?C pb w'" by blast
      with Inl failed show ?thesis by simp
    next
      case (Inr res)
      with tripleD_Inr [OF t] s wr have "applied ?C pb (to_second (w_now w)) res w'" by blast
      with Inr show ?thesis by (auto simp: applied_def intro: machine.intros)
    qed
  qed
qed

text \<open>A recorded run is observed, whatever the ManifestWorks hold; nothing else is read or rewritten.\<close>

lemma waiting_step:
  assumes inv: "machine_inv pb w" and ph: "phase_of pb w = Waiting ts t0"
    and run: "UpgradeCluster E pb pr (w, f) = (r, (w', f'))"
  shows "machine_inv pb w' \<and> machine (target_ready w) (w_now w) (Waiting ts t0) (outcome_of r) (phase_of pb w') \<and>
    w_mws w' = w_mws w"
proof -
  obtain c where c: "findPendingUpgrade pb w = (Inr (Some (c, ts)), w)" "cm_at w (obj_key c) = Some c"
    "is_upgrader (om_ns pb) c" "om_created c = t0" "run_phase pb c = Waiting ts t0"
    by (rule waiting_run [OF inv ph])
  with run have o: "observeUpgrade c ts w = (r, w')"
    by (auto simp: UpgradeCluster_def prog_simps intro: prod_eqI)
  then have "w_mws w' = w_mws w" using keepsD [OF keeps_works_observe, of w "w_mws w" c ts] by simp
  with observe_step [OF inv c(2,3) ph c(5,4) o] show ?thesis by blast
qed

lemma upgrade_step:
  assumes inv: "machine_inv pb w" and codec: "codec_ok (fe_codec E)" and fr: "hub_free (fe_codec E) (om_ns pb) w"
    and run: "UpgradeCluster E pb pr (w, f) = (r, (w', f'))"
  shows "machine_inv pb w' \<and> machine (target_ready w) (w_now w) (phase_of pb w) (outcome_of r) (phase_of pb w') \<and>
    hub_free (fe_codec E) (om_ns pb) w'"
proof (cases "phase_of pb w")
  case Idle
  then have "findPendingUpgrade pb w = (Inr None, w)"
    using machine_invD(1) [OF inv] by (auto simp: findPendingUpgrade_run phase_of_def split: sum.splits option.splits)
  with run have "applyUpgrade E pb pr (w, f) = (r, (w', f'))" by (simp add: UpgradeCluster_def prog_simps)
  from apply_step [OF inv Idle codec fr this] show ?thesis by (simp add: Idle)
next
  case (Waiting ts t0)
  from waiting_step [OF inv Waiting run] fr show ?thesis by (simp add: Waiting hub_free_def)
next
  case Stuck
  then obtain e where "findPendingUpgrade pb w = (Inl e, w)"
    using machine_invD(1) [OF inv] by (auto simp: findPendingUpgrade_run phase_of_def split: sum.splits option.splits)
  with run have "r = Inl e" "w' = w" by (simp_all add: UpgradeCluster_def prog_simps)
  with inv Stuck fr show ?thesis by (simp add: machine.unreadable)
qed

section \<open>Many reconciles\<close>

text \<open>
  Between reconciles of the binding anything may change but the ConfigMaps: agents report,
  other controllers write, and the clock runs; \<open>ok\<close> is what they are held to.
\<close>

inductive hub_runs ::
  "'f fakeenv \<Rightarrow> binding \<Rightarrow> profile \<Rightarrow> (world \<Rightarrow> bool) \<Rightarrow> world \<times> 'f \<Rightarrow> outcome list \<Rightarrow> world \<times> 'f \<Rightarrow> bool"
  for E pb pr ok s0 where
  begins: "hub_runs E pb pr ok s0 [] s0"
| elsewhere: "hub_runs E pb pr ok s0 out (w, f) \<Longrightarrow> w_cms w' = w_cms w \<Longrightarrow> w_now w \<le> w_now w' \<Longrightarrow> no_faults w' \<Longrightarrow>
    ok w' \<Longrightarrow> hub_runs E pb pr ok s0 out (w', f)"
| reconciles: "hub_runs E pb pr ok s0 out (w, f) \<Longrightarrow> UpgradeCluster E pb pr (w, f) = (r, s) \<Longrightarrow>
    hub_runs E pb pr ok s0 (out @ [outcome_of r]) s"

inductive machine_runs :: "phase \<times> gotime \<Rightarrow> outcome list \<Rightarrow> phase \<times> gotime \<Rightarrow> bool" for s0 where
  begins: "machine_runs s0 [] s0"
| time: "machine_runs s0 out (p, t) \<Longrightarrow> t \<le> t' \<Longrightarrow> machine_runs s0 out (p, t')"
| step: "machine_runs s0 out (p, t) \<Longrightarrow> machine rdy t p x p' \<Longrightarrow> machine_runs s0 (out @ [x]) (p', t)"

lemma upgrade_now:
  assumes "UpgradeCluster E pb pr (w, f) = (r, (w', f'))"
  shows "w_now w' = w_now w"
proof -
  have "keeps (onfst (\<lambda>v. w_now v = w_now w)) (UpgradeCluster E pb pr)"
    by (rule frame_UpgradeCluster [OF blind_cluster [where P = "\<lambda>_ _ _ _ _ _ t. t = w_now w"]])
  from keepsD [OF this, of "(w, f)"] assms show ?thesis by simp
qed

lemma elsewhere_same:
  assumes "w_cms w' = w_cms w"
  shows "phase_of pb w' = phase_of pb w" and "machine_inv pb w \<Longrightarrow> no_faults w' \<Longrightarrow> machine_inv pb w'"
proof -
  show p: "phase_of pb w' = phase_of pb w" by (simp add: phase_of_def assms)
  have m: "single pb w' = single pb w" by (simp add: single_def assms)
  show "machine_inv pb w'" if "machine_inv pb w" "no_faults w'"
    using that assms unfolding machine_inv_def p m by simp
qed

lemma upgrade_runs:
  assumes "codec_ok (fe_codec E)"
  shows "hub_runs E pb pr (hub_free (fe_codec E) (om_ns pb)) s0 out s \<Longrightarrow> machine_inv pb (fst s0) \<Longrightarrow>
     hub_free (fe_codec E) (om_ns pb) (fst s0) \<Longrightarrow>
     machine_inv pb (fst s) \<and> hub_free (fe_codec E) (om_ns pb) (fst s) \<and>
     machine_runs (phase_of pb (fst s0), w_now (fst s0)) out (phase_of pb (fst s), w_now (fst s))"
proof (induction rule: hub_runs.induct)
  case begins
  then show ?case by (simp add: machine_runs.begins)
next
  case (elsewhere out w f w')
  from elsewhere.IH [OF elsewhere.prems] have inv: "machine_inv pb w"
    and runs: "machine_runs (phase_of pb (fst s0), w_now (fst s0)) out (phase_of pb w, w_now w)" by simp_all
  note same = elsewhere_same [OF elsewhere.hyps(2), of pb]
  from machine_runs.time [OF runs elsewhere.hyps(3)] same(2) [OF inv elsewhere.hyps(4)] elsewhere.hyps(5)
  show ?case by (simp add: same(1))
next
  case (reconciles out w f r s)
  obtain w' f' where s: "s = (w', f')" by (cases s)
  note u = reconciles.hyps(2) [unfolded s]
  from reconciles.IH [OF reconciles.prems] have inv: "machine_inv pb w" and fr: "hub_free (fe_codec E) (om_ns pb) w"
    and runs: "machine_runs (phase_of pb (fst s0), w_now (fst s0)) out (phase_of pb w, w_now w)" by simp_all
  from machine_runs.step [OF runs] upgrade_step [OF inv assms fr u] show ?case
    by (auto simp: s upgrade_now [OF u])
qed

text \<open>As long as only requeues were reported, the run that was recorded is still the one waited for.\<close>

lemma only_requeued:
  "hub_runs E pb pr ok s0 out s \<Longrightarrow> machine_inv pb (fst s0) \<Longrightarrow> phase_of pb (fst s0) = Waiting ts t0 \<Longrightarrow>
     set out \<subseteq> {Requeue} \<Longrightarrow> machine_inv pb (fst s) \<and> phase_of pb (fst s) = Waiting ts t0"
proof (induction rule: hub_runs.induct)
  case begins
  then show ?case by simp
next
  case (elsewhere out w f w')
  then show ?case using elsewhere_same [OF elsewhere.hyps(2), of pb] by simp
next
  case (reconciles out w f r s)
  obtain w' f' where s: "s = (w', f')" by (cases s)
  from reconciles.IH reconciles.prems have inv: "machine_inv pb w" "phase_of pb w = Waiting ts t0" by simp_all
  from waiting_step [OF inv reconciles.hyps(2) [unfolded s]] reconciles.prems(3)
  have "machine_inv pb w'" "machine (target_ready w) (w_now w) (Waiting ts t0) Requeue (phase_of pb w')" by auto
  then show ?case by (auto simp: s elim: machine_waitingE)
qed

lemma after_deadline:
  "machine rdy t (Waiting ts t0) out p \<Longrightarrow> t0 + helmReleaseReadyTimeout < t \<Longrightarrow>
     p = Idle \<and> out = (if \<forall>x \<in> set ts. rdy x then Finished else Failed)"
  by (elim machine_waitingE) auto

lemma ex_machine:
  "machine_inv (ex_binding ''v2'') (ex_world g t)"
  "phase_of (ex_binding ''v2'') (ex_world g t) = Waiting [ex_target] 0"
proof -
  have m: "run_matches (ex_binding ''v2'') ex_run"
    by (simp add: run_matches_def ex_defs)
  have a: "om_annots ex_run UpgradeTargetsAnnotation = Some (marshal_targets [ex_target])"
    by (simp add: ex_run_def record_annots_simps)
  have u: "is_upgrader (om_ns (ex_binding ''v2'')) ex_run"
    by (simp add: is_upgrader_def ex_defs)
  have s: "single (ex_binding ''v2'') (ex_world g t)" by (simp add: single_def ex_world_def)
  have "phase_of (ex_binding ''v2'') (ex_world g t) = run_phase (ex_binding ''v2'') ex_run"
    by (rule phase_of_run [OF ex_world_ready(4) s _ u]) (simp add: ex_world_def)
  also have "\<dots> = Waiting [ex_target] 0"
    using m a by (simp add: run_phase_def resumable_def unmarshal_marshal ex_world_ready)
  finally show p: "phase_of (ex_binding ''v2'') (ex_world g t) = Waiting [ex_target] 0" .
  show "machine_inv (ex_binding ''v2'') (ex_world g t)"
    unfolding machine_inv_def p using s by (simp add: ex_world_ready proper_def ex_target_def UpgradeStatusKey_def)
qed

lemma ex_observed:
  obtains w where "UpgradeCluster ex_env (ex_binding ''v2'') ex_profile (ex_world 1 0, ()) =
     (Inr (Result_after helmReleaseReadyPollInterval), (w, ()))"
proof -
  obtain w where "observeUpgrade ex_run [ex_target] (ex_world 1 0) = (Inr (Result_after helmReleaseReadyPollInterval), w)"
    using observeUpgrade_no_faults [of "ex_world 1 0" ex_run "[ex_target]"]
    by (auto simp: ex_world_ready still_pending_def word_sle_eq helmReleaseReadyTimeout_def)
  then show thesis by (intro that) (simp add: UpgradeCluster_def prog_simps ex_found)
qed

section \<open>Properties\<close>

text \<open>
  C5: The upgrade code refines the machine. From a calm hub with one upgrader ConfigMap at
  most, through any number of reconciles of a binding between which other parties change
  everything but the ConfigMaps, the outcomes the reconciles report are outcomes of the
  machine, which ends in the phase the hub is in; and the hub stays well formed. No
  ManifestWork of the namespace may hold a HelmRelease named as the status key of the
  ConfigMap, whose mark would overwrite it.
\<close>

theorem upgrade_refines_machine:
  assumes "machine_inv pb w" and "codec_ok (fe_codec E)" and "hub_free (fe_codec E) (om_ns pb) w"
    and "hub_runs E pb pr (hub_free (fe_codec E) (om_ns pb)) (w, f) out (w', f')"
  shows "machine_inv pb w' \<and> hub_free (fe_codec E) (om_ns pb) w' \<and>
    machine_runs (phase_of pb w, w_now w) out (phase_of pb w', w_now w')"
  using upgrade_runs [OF assms(2,4)] assms(1,3) by simp

theorem upgrade_refines_machine_witness:
  "\<exists>w. hub_runs ex_env (ex_binding ''v2'') ex_profile (hub_free ver_codec ''c1'') (ex_world 1 0, ()) [Requeue] (w, ()) \<and>
     machine_runs (Waiting [ex_target] 0, 0) [Requeue] (phase_of (ex_binding ''v2'') w, w_now w) \<and>
     machine_inv (ex_binding ''v2'') w"
proof -
  obtain w where u: "UpgradeCluster ex_env (ex_binding ''v2'') ex_profile (ex_world 1 0, ()) =
     (Inr (Result_after helmReleaseReadyPollInterval), (w, ()))"
    by (rule ex_observed)
  have c: "fe_codec ex_env = ver_codec" "om_ns (ex_binding ''v2'') = ''c1''" by (simp_all add: ex_binding_def)
  have "hub_runs ex_env (ex_binding ''v2'') ex_profile (hub_free ver_codec ''c1'') (ex_world 1 0, ())
      ([] @ [outcome_of (Inr (Result_after helmReleaseReadyPollInterval))]) (w, ())"
    by (rule hub_runs.reconciles [OF hub_runs.begins u])
  then have h: "hub_runs ex_env (ex_binding ''v2'') ex_profile (hub_free ver_codec ''c1'') (ex_world 1 0, ()) [Requeue] (w, ())"
    by simp
  have fr: "hub_free (fe_codec ex_env) (om_ns (ex_binding ''v2'')) (ex_world 1 0)"
    by (simp add: hub_free_def ex_world_def ex_work_def)
  have "codec_ok (fe_codec ex_env)" by (simp add: ex_hub_ok)
  from upgrade_refines_machine [OF ex_machine(1) this fr h [folded c]] h show ?thesis
    by (auto simp: ex_machine ex_world_ready)
qed

text \<open>
  C10: A recorded upgrade ends. However often a reconcile has asked to be called again for it,
  and whatever other parties did to everything but the ConfigMaps, the first reconcile later
  than thirty minutes after the run was created closes it: with success if every release is
  reported ready by then, with an error otherwise. Nothing is assumed of the manifests or of
  the HelmRelease codec.
\<close>

theorem upgrade_ends:
  assumes "machine_inv pb w" and "phase_of pb w = Waiting ts t0"
    and "hub_runs E pb pr (\<lambda>_. True) (w, f) out (w', f')" and "set out \<subseteq> {Requeue}"
    and "t0 + helmReleaseReadyTimeout < w_now w'"
  shows "\<exists>r w'' f''. UpgradeCluster E pb pr (w', f') = (r, (w'', f'')) \<and> phase_of pb w'' = Idle \<and>
     outcome_of r = (if \<forall>x \<in> set ts. target_ready w' x then Finished else Failed)"
proof -
  from only_requeued [OF assms(3)] assms(1,2,4) have inv: "machine_inv pb w'" "phase_of pb w' = Waiting ts t0" by simp_all
  obtain r w'' f'' where u: "UpgradeCluster E pb pr (w', f') = (r, (w'', f''))" by (metis prod.exhaust)
  from waiting_step [OF inv u] have "machine (target_ready w') (w_now w') (Waiting ts t0) (outcome_of r) (phase_of pb w'')"
    by blast
  from after_deadline [OF this assms(5)] u show ?thesis by blast
qed

theorem upgrade_ends_witness:
  "\<exists>r w f. UpgradeCluster ex_env (ex_binding ''v2'') ex_profile (ex_world 1 (helmReleaseReadyTimeout + 1), ()) = (r, (w, f)) \<and>
     phase_of (ex_binding ''v2'') w = Idle \<and> outcome_of r = Failed"
proof -
  have "hub_runs ex_env (ex_binding ''v2'') ex_profile (\<lambda>_. True) (ex_world 1 0, ()) [] (ex_world 1 (helmReleaseReadyTimeout + 1), ())"
    by (rule hub_runs.elsewhere [OF hub_runs.begins]) (simp_all add: ex_world_def no_faults_def helmReleaseReadyTimeout_def)
  from upgrade_ends [OF ex_machine(1,2) this] show ?thesis
    by (simp add: ex_world_ready word_sle_eq)
qed

text \<open>
  C23: When a release counts as upgraded, in integers: it is reported applied and ready, the
  generation reported is the one observed, and it is at least the generation reported when
  the upgrade was written (zero if none was), and above it if the upgrade changed the spec,
  unless that generation was the largest 64-bit integer, after which the bound wraps and
  every report passes.
\<close>

theorem ready_bound:
  "helmReleaseReady mw' (newUpgradeTarget mw hr changed) \<longleftrightarrow>
     (\<exists>values g. helmReleaseFeedback mw' (om_ns hr) (om_name hr) = (values, True) \<and>
        feedbackString values HelmReleaseReadyFeedback = Some ConditionTrue \<and>
        feedbackInt values HelmReleaseGenerationFeedback = Some g \<and>
        feedbackInt values HelmReleaseObservedGenerationFeedback = Some g \<and>
        (let before = sint (helmReleaseGeneration mw (om_ns hr) (om_name hr)) in
           if \<not> changed then before \<le> sint g else before < sint g \<or> before = 2 ^ 63 - 1))"
proof -
  let ?b = "helmReleaseGeneration mw (om_ns hr) (om_name hr)"
  have "?b + 1 \<le>s g \<longleftrightarrow> sint ?b < sint g \<or> sint ?b = 2 ^ 63 - 1" for g :: int64
  proof (cases "sint ?b < 2 ^ 63 - 1")
    case True
    then show ?thesis by (auto simp: word_sle_eq sint_succ)
  next
    case False
    have "sint ?b < 2 ^ 63" using sint_lt [of ?b] by simp
    with False have m: "sint ?b = 2 ^ 63 - 1" by simp
    then have "?b = word_of_int (2 ^ 63 - 1)" by (metis of_int_sint scast_id)
    then have "sint (?b + 1) = - (2 ^ 63)" by simp
    then show ?thesis using sint_ge [of g] m by (simp add: word_sle_eq)
  qed
  then show ?thesis by (cases changed) (simp_all add: helmReleaseReady_iff Let_def word_sle_eq)
qed

end
