(* ===== verification/Views.thy ===== *)
theory Views
  imports FakeApi UpgradeRun
begin

text \<open>
  The view of a namespace: programs that read and write the ManifestWorks, ConfigMaps and
  bindings of one namespace, and read what is cluster-wide. Run on the view of the namespace alone such
  a program does the same as on the whole hub, and what lies outside the view stays. Two interfaces
  say what a kind of object must promise for that, one for kinds that live in namespaces and one for
  those that do not.
\<close>

named_theorems isolated \<open>programs that stay inside one namespace\<close>

section \<open>Programs that see a part of the state only\<close>

text \<open>
  \<open>v\<close> is the view of a program, \<open>u\<close> what it leaves alone. Whatever the state, \<open>u\<close> stays; from a
  state in which \<open>I\<close> holds, \<open>m\<close> does the same on the view as on the whole, and \<open>I\<close> holds again, as
  does \<open>P\<close> of the value it returns.
\<close>

definition within :: "('s \<Rightarrow> 's) \<Rightarrow> ('s \<Rightarrow> 't) \<Rightarrow> ('s \<Rightarrow> bool) \<Rightarrow> ('a \<Rightarrow> bool) \<Rightarrow> ('s, 'a) prog \<Rightarrow> bool" where
  "within v u I P m \<longleftrightarrow>
     (\<forall>s. I s \<longrightarrow> (case m s of (r, s') \<Rightarrow>
        m (v s) = (r, v s') \<and> u s' = u s \<and> I s' \<and> (\<forall>x. r = Inr x \<longrightarrow> P x)))"

abbreviation inside :: "('s \<Rightarrow> 's) \<Rightarrow> ('s \<Rightarrow> 't) \<Rightarrow> ('s \<Rightarrow> bool) \<Rightarrow> ('s, 'a) prog \<Rightarrow> bool" where
  "inside v u I m \<equiv> within v u I (\<lambda>_. True) m"

lemma withinI:
  "(\<And>s r s'. I s \<Longrightarrow> m s = (r, s') \<Longrightarrow> m (v s) = (r, v s') \<and> u s' = u s \<and> I s' \<and> (\<forall>x. r = Inr x \<longrightarrow> P x)) \<Longrightarrow>
     within v u I P m"
  by (simp add: within_def split: prod.split)

lemma withinD:
  "within v u I P m \<Longrightarrow> I s \<Longrightarrow> m s = (r, s') \<Longrightarrow>
     m (v s) = (r, v s') \<and> u s' = u s \<and> I s' \<and> (\<forall>x. r = Inr x \<longrightarrow> P x)"
  by (fastforce simp: within_def)

lemma within_mono: "within v u I P m \<Longrightarrow> (\<And>x. P x \<Longrightarrow> Q x) \<Longrightarrow> within v u I Q m"
  by (fastforce simp: within_def)

lemma within_inside: "within v u I P m \<Longrightarrow> inside v u I m"
  by (erule within_mono) simp

lemma within_ret: "P x \<Longrightarrow> within v u I P (ret x)"
  by (simp add: within_def ret_run)

lemma within_raise: "within v u I P (raise e)"
  by (simp add: within_def raise_run)

lemma within_liftM: "(\<And>x. r = Inr x \<Longrightarrow> P x) \<Longrightarrow> within v u I P (liftM r)"
  by (simp add: within_def liftM_run)

lemma within_bindM:
  assumes "within v u I P m" and "\<And>x. P x \<Longrightarrow> within v u I Q (f x)"
  shows "within v u I Q (bindM m f)"
proof (rule withinI)
  fix s r s'
  assume i: "I s" and b: "bindM m f s = (r, s')"
  obtain r1 s1 where m: "m s = (r1, s1)" by (cases "m s")
  note w = withinD [OF assms(1) i m]
  show "bindM m f (v s) = (r, v s') \<and> u s' = u s \<and> I s' \<and> (\<forall>x. r = Inr x \<longrightarrow> Q x)"
  proof (cases r1)
    case (Inl e)
    with b m w show ?thesis by (auto simp: bindM_run)
  next
    case (Inr x)
    with b m have f: "f x s1 = (r, s')" by (simp add: bindM_run)
    from w Inr have "P x" "I s1" by simp_all
    from withinD [OF assms(2) [OF this(1)] this(2) f] w Inr m show ?thesis by (simp add: bindM_run)
  qed
qed

lemma within_tryM:
  assumes "within v u I P m" and "\<And>x. P x \<Longrightarrow> within v u I Q (h (Inr x))" and "\<And>e. within v u I Q (h (Inl e))"
  shows "within v u I Q (tryM m h)"
proof (rule withinI)
  fix s r s'
  assume i: "I s" and b: "tryM m h s = (r, s')"
  obtain r1 s1 where m: "m s = (r1, s1)" by (cases "m s")
  note w = withinD [OF assms(1) i m]
  from b m have f: "h r1 s1 = (r, s')" by (simp add: tryM_run)
  from w assms(2,3) have "within v u I Q (h r1)" by (cases r1) simp_all
  from withinD [OF this _ f] w m show "tryM m h (v s) = (r, v s') \<and> u s' = u s \<and> I s' \<and> (\<forall>x. r = Inr x \<longrightarrow> Q x)"
    by (simp add: tryM_run)
qed

text \<open>Where nothing is known of the value.\<close>

lemma then_within: "inside v u I m \<Longrightarrow> (\<And>x. within v u I Q (f x)) \<Longrightarrow> within v u I Q (bindM m f)"
  by (rule within_bindM)

lemma within_foldM:
  "P s \<Longrightarrow> (\<And>x s. x \<in> set xs \<Longrightarrow> P s \<Longrightarrow> within v u I P (f s x)) \<Longrightarrow> within v u I P (foldM f s xs)"
  by (induction xs arbitrary: s) (auto intro!: within_ret intro: within_bindM)

lemma inside_tryM: "inside v u I m \<Longrightarrow> (\<And>r. within v u I Q (h r)) \<Longrightarrow> within v u I Q (tryM m h)"
  by (rule within_tryM)

lemma inside_foldM: "(\<And>x s. inside v u I (f s x)) \<Longrightarrow> inside v u I (foldM f s xs)"
  by (rule within_foldM) simp_all

lemma within_if: "within v u I P m \<Longrightarrow> within v u I P m' \<Longrightarrow> within v u I P (if b then m else m')"
  by simp

lemma within_case_sum:
  "(\<And>e. within v u I P (f e)) \<Longrightarrow> (\<And>x. within v u I P (g x)) \<Longrightarrow>
     within v u I P (case r of Inl e \<Rightarrow> f e | Inr x \<Rightarrow> g x)"
  by (simp split: sum.split)

lemma within_case_option:
  "within v u I P m \<Longrightarrow> (\<And>x. within v u I P (f x)) \<Longrightarrow> within v u I P (case z of None \<Rightarrow> m | Some x \<Rightarrow> f x)"
  by (simp split: option.split)

lemma within_case_prod: "(\<And>x y. within v u I P (f x y)) \<Longrightarrow> within v u I P (case p of (x, y) \<Rightarrow> f x y)"
  by (simp split: prod.split)

lemma within_case_gerr:
  "within v u I P a \<Longrightarrow> within v u I P b \<Longrightarrow> within v u I P c \<Longrightarrow> within v u I P d \<Longrightarrow> (\<And>s. within v u I P (f s)) \<Longrightarrow>
     (\<And>s e'. within v u I P (g s e')) \<Longrightarrow> (\<And>es. within v u I P (h es)) \<Longrightarrow> (\<And>s. within v u I P (i s)) \<Longrightarrow>
     (\<And>s. within v u I P (j s)) \<Longrightarrow>
     within v u I P (case e of ErrNotFound \<Rightarrow> a | ErrNoMatch \<Rightarrow> b | ErrExists \<Rightarrow> c | ErrNoClaim \<Rightarrow> d
                      | ErrText s \<Rightarrow> f s | ErrWrap s e' \<Rightarrow> g s e' | ErrJoin es \<Rightarrow> h es | GoPanic s \<Rightarrow> i s
                      | GoExit s \<Rightarrow> j s)"
  by (simp split: gerr.split)

lemma inside_liftM: "inside v u I (liftM r)"
  by (rule within_liftM) simp

lemma inside_ret: "inside v u I (ret x)"
  by (rule within_ret) simp

lemmas [isolated] =
  inside_ret within_raise inside_liftM then_within inside_tryM inside_foldM within_if within_case_sum
  within_case_option within_case_prod within_case_gerr

section \<open>The view of a namespace\<close>

definition only :: "string \<Rightarrow> 'a objmeta_scheme list \<Rightarrow> 'a objmeta_scheme list" where
  "only ns xs = filter (\<lambda>x. om_ns x = ns) xs"

definition others :: "string \<Rightarrow> 'a objmeta_scheme list \<Rightarrow> 'a objmeta_scheme list" where
  "others ns xs = filter (\<lambda>x. om_ns x \<noteq> ns) xs"

text \<open>What a reconcile works on, and what it has no business with; clock and supplies are shared.\<close>

definition hub_view :: "string \<Rightarrow> world \<Rightarrow> world" where
  "hub_view ns w =
     w\<lparr>w_mws := only ns (w_mws w), w_cms := only ns (w_cms w), w_bindings := only ns (w_bindings w)\<rparr>"

definition hub_rest :: "string \<Rightarrow> world \<Rightarrow> world" where
  "hub_rest ns w =
     w\<lparr>w_mws := others ns (w_mws w), w_cms := others ns (w_cms w), w_bindings := others ns (w_bindings w),
       w_rand := [], w_faults := []\<rparr>"

text \<open>
  A recorded run says by itself which ManifestWorks to watch, and the status step of a binding
  that is gone looks for one without a namespace. What reconciles read stays in the namespace
  only if the targets recorded there do and no ManifestWork lacks a namespace; what they write
  stays there anyway. So each fact below has two readings: of the view, on a hub kept like that (\<open>b\<close>), and of
  the writes alone, on any hub.
\<close>

abbreviation targets_in :: "string \<Rightarrow> upgrade_target list \<Rightarrow> bool" where
  "targets_in ns ts \<equiv> list_all (\<lambda>t. ut_mw_ns t = ns) ts"

definition own_targets :: "configmap \<Rightarrow> bool" where
  "own_targets c \<longleftrightarrow>
     (case om_annots c UpgradeTargetsAnnotation of
        None \<Rightarrow> True
      | Some raw \<Rightarrow> (case unmarshal_targets raw of Inl e \<Rightarrow> True | Inr ts \<Rightarrow> targets_in (om_ns c) ts))"

definition well_kept :: "string \<Rightarrow> world \<Rightarrow> bool" where
  "well_kept ns w \<longleftrightarrow>
     ns \<noteq> '''' \<and> list_all own_targets (only ns (w_cms w)) \<and> list_all (\<lambda>mw. om_ns mw \<noteq> '''') (w_mws w)"

definition seen :: "bool \<Rightarrow> string \<Rightarrow> world \<Rightarrow> world" where
  "seen b ns w = (if b then hub_view ns w else w)"

definition sound :: "bool \<Rightarrow> string \<Rightarrow> world \<Rightarrow> bool" where
  "sound b ns w \<longleftrightarrow> (b \<longrightarrow> well_kept ns w)"

abbreviation hub_in :: "bool \<Rightarrow> string \<Rightarrow> ('a \<Rightarrow> bool) \<Rightarrow> 'a kc \<Rightarrow> bool" where
  "hub_in b ns P m \<equiv> within (seen b ns) (hub_rest ns) (sound b ns) P m"

abbreviation run_in :: "bool \<Rightarrow> string \<Rightarrow> ('a \<Rightarrow> bool) \<Rightarrow> ('f, 'a) run \<Rightarrow> bool" where
  "run_in b ns P m \<equiv> within (map_prod (seen b ns) id) (hub_rest ns \<circ> fst) (sound b ns \<circ> fst) P m"

lemma within_onhub: "hub_in b ns P m \<Longrightarrow> run_in b ns P (onhub m)"
  unfolding within_def by (fastforce simp: onhub_run split: prod.splits)

lemma inside_onfake: "run_in b ns (\<lambda>_. True) (onfake m)"
  by (auto simp: within_def onfake_run split: prod.splits)

lemma inside_asks: "run_in b ns (\<lambda>_. True) (asks q)"
  by (auto simp: within_def asks_run)

lemma inside_init: "run_in b ns (\<lambda>_. True) (initializeFakeServer E pb)"
  by (auto simp: within_def initializeFakeServer_def split: sum.splits)

lemmas [isolated] = within_onhub inside_onfake inside_asks inside_init

lemma seen_simps [simp]:
  "w_now (seen b ns w) = w_now w" "w_faults (seen b ns w) = w_faults w" "w_rand (seen b ns w) = w_rand w"
  "seen b ns (w\<lparr>w_faults := fs\<rparr>) = (seen b ns w)\<lparr>w_faults := fs\<rparr>" "seen b ns (w\<lparr>w_rand := ss\<rparr>) = (seen b ns w)\<lparr>w_rand := ss\<rparr>"
  "hub_rest ns (w\<lparr>w_faults := fs\<rparr>) = hub_rest ns w" "hub_rest ns (w\<lparr>w_rand := ss\<rparr>) = hub_rest ns w"
  "sound b ns (w\<lparr>w_faults := fs\<rparr>) = sound b ns w" "sound b ns (w\<lparr>w_rand := ss\<rparr>) = sound b ns w"
  by (simp_all add: seen_def hub_view_def hub_rest_def sound_def well_kept_def)

lemma fst_obj_key [simp]: "fst (obj_key x) = om_ns x"
  by (simp add: obj_key_def)

lemma obj_key_ns: "obj_key x = k \<Longrightarrow> om_ns x = fst k"
  by auto

lemma find_only: "find_obj k (only ns xs) = (if fst k = ns then find_obj k xs else None)"
  by (induction xs) (auto simp: only_def)

lemma find_others: "find_obj k (others ns xs) = (if fst k = ns then None else find_obj k xs)"
  by (induction xs) (auto simp: others_def)

lemma only_others: "n \<noteq> ns \<Longrightarrow> only n (others ns xs) = only n xs"
  by (simp add: only_def others_def) (metis (mono_tags, lifting))

lemma filter_replace:
  "filter (\<lambda>y. P (om_ns y)) (map (\<lambda>y. if obj_key y = obj_key x then x else y) xs) =
     (if P (om_ns x) then map (\<lambda>y. if obj_key y = obj_key x then x else y) (filter (\<lambda>y. P (om_ns y)) xs)
      else filter (\<lambda>y. P (om_ns y)) xs)"
  by (induction xs) (auto simp: obj_key_def)

lemma only_put: "om_ns x = ns \<Longrightarrow> only ns (put_obj x xs) = put_obj x (only ns xs)"
  using find_only [of "obj_key x" ns xs] filter_replace [of "\<lambda>n. n = ns" x xs]
  by (simp add: put_obj_def) (simp add: only_def)

lemma others_put: "om_ns x = ns \<Longrightarrow> others ns (put_obj x xs) = others ns xs"
  using filter_replace [of "\<lambda>n. n \<noteq> ns" x xs] by (simp add: put_obj_def others_def)

lemma only_del: "only ns (del_obj k xs) = del_obj k (only ns xs)"
  by (simp add: only_def del_obj_def conj_commute)

lemma others_del: "fst k = ns \<Longrightarrow> others ns (del_obj k xs) = others ns xs"
  by (auto simp: others_def del_obj_def intro: filter_cong)

lemma all_put: "list_all Q xs \<Longrightarrow> Q x \<Longrightarrow> list_all Q (put_obj x xs)"
  by (auto simp: put_obj_def list_all_iff)

lemma all_del: "list_all Q xs \<Longrightarrow> list_all Q (del_obj k xs)"
  by (auto simp: del_obj_def list_all_iff)

lemma all_mem: "list_all Q xs \<Longrightarrow> x \<in> set xs \<Longrightarrow> Q x"
  by (simp add: list_all_iff)

section \<open>Calls\<close>

lemma within_api_call: "hub_in b ns P m \<Longrightarrow> hub_in b ns P (api_call m)"
proof (rule withinI)
  fix w r w'
  assume m: "hub_in b ns P m" and i: "sound b ns w" and c: "api_call m w = (r, w')"
  show "api_call m (seen b ns w) = (r, seen b ns w') \<and> hub_rest ns w' = hub_rest ns w \<and> sound b ns w' \<and>
      (\<forall>x. r = Inr x \<longrightarrow> P x)"
    using c i withinD [OF m, of w r w'] withinD [OF m, of "w\<lparr>w_faults := fs\<rparr>" r w' for fs]
    by (auto simp: api_call_def split: list.splits option.splits)
qed

text \<open>
  A kind whose objects belong to namespaces; \<open>good\<close> is what the recorded runs ask of its
  objects.
\<close>

locale namespaced =
  fixes K :: "'a objmeta_scheme kind" and good :: "'a objmeta_scheme \<Rightarrow> bool"
  assumes sees: "fst K (hub_view ns w) = only ns (fst K w)"
    and writes: "only ns (g (fst K w)) = g (only ns (fst K w)) \<Longrightarrow> hub_view ns (snd K g w) = snd K g (hub_view ns w)"
    and leaves: "others ns (g (fst K w)) = others ns (fst K w) \<Longrightarrow> hub_rest ns (snd K g w) = hub_rest ns w"
    and good_put: "well_kept ns w \<Longrightarrow> om_ns x = ns \<Longrightarrow> good x \<Longrightarrow> well_kept ns (snd K (put_obj x) w)"
    and good_del: "well_kept ns w \<Longrightarrow> well_kept ns (snd K (del_obj k) w)"
    and good_stored: "well_kept ns w \<Longrightarrow> x \<in> set (only ns (fst K w)) \<Longrightarrow> good x"
    and good_created: "good (x\<lparr>om_created := t\<rparr>) = good x"
begin

definition fit :: "bool \<Rightarrow> string \<Rightarrow> 'a objmeta_scheme \<Rightarrow> bool" where
  "fit b ns x \<longleftrightarrow> om_ns x = ns \<and> (b \<longrightarrow> good x)"

lemma fit_ns: "fit b ns x \<Longrightarrow> om_ns x = ns"
  by (simp add: fit_def)

lemma fit_created: "fit b ns (x\<lparr>om_created := t\<rparr>) = fit b ns x"
  by (simp add: fit_def good_created)

lemma find_seen: "(b \<longrightarrow> fst k = ns) \<Longrightarrow> find_obj k (fst K (seen b ns w)) = find_obj k (fst K w)"
  by (simp add: seen_def sees find_only)

lemma stored_fit: "sound b ns w \<Longrightarrow> x \<in> set (fst K w) \<Longrightarrow> om_ns x = ns \<Longrightarrow> fit b ns x"
  using good_stored by (auto simp: fit_def sound_def only_def)

lemma get_any: "(b \<longrightarrow> fst k = ns) \<Longrightarrow> hub_in b ns (\<lambda>x. obj_key x = k) (api_get K k)"
  unfolding api_get_def
  by (rule within_api_call, rule withinI) (auto simp: find_seen dest: find_obj_key split: option.splits)

lemma get_in: "fst k = ns \<Longrightarrow> hub_in b ns (\<lambda>x. obj_key x = k \<and> fit b ns x) (api_get K k)"
  unfolding api_get_def
  by (rule within_api_call, rule withinI)
    (auto simp: find_seen dest!: find_obj_key intro: stored_fit split: option.splits)

lemma list_in:
  "(\<And>x. P x \<Longrightarrow> om_ns x = ns) \<Longrightarrow> hub_in b ns (\<lambda>xs. \<forall>x \<in> set xs. P x \<and> fit b ns x) (api_list K P)"
  unfolding api_list_def
  by (rule within_api_call, rule withinI)
    (auto simp: seen_def sees only_def intro: stored_fit intro!: filter_cong)

lemma put_seen: "om_ns x = ns \<Longrightarrow> seen b ns (snd K (put_obj x) w) = snd K (put_obj x) (seen b ns w)"
  and put_leaves: "om_ns x = ns \<Longrightarrow> hub_rest ns (snd K (put_obj x) w) = hub_rest ns w"
  and put_sound: "sound b ns w \<Longrightarrow> fit b ns x \<Longrightarrow> sound b ns (snd K (put_obj x) w)"
  by (simp_all add: seen_def writes leaves only_put others_put sound_def good_put fit_def)

lemma del_seen: "fst k = ns \<Longrightarrow> seen b ns (snd K (del_obj k) w) = snd K (del_obj k) (seen b ns w)"
  and del_leaves: "fst k = ns \<Longrightarrow> hub_rest ns (snd K (del_obj k) w) = hub_rest ns w"
  and del_sound: "sound b ns w \<Longrightarrow> sound b ns (snd K (del_obj k) w)"
  by (simp_all add: seen_def writes leaves only_del others_del sound_def good_del)

lemma create_in: "fit b ns x \<Longrightarrow> hub_in b ns (fit b ns) (api_create K x)"
  unfolding api_create_def
  by (rule within_api_call, rule withinI)
    (auto simp: find_seen put_seen put_leaves put_sound fit_created fit_ns Let_def split: if_splits)

lemma patch_in: "fit b ns x \<Longrightarrow> hub_in b ns (fit b ns) (api_patch K x)"
  unfolding api_patch_def
  by (rule within_api_call, rule withinI) (auto simp: find_seen put_seen put_leaves put_sound fit_ns split: if_splits)

lemma delete_in: "fst k = ns \<Longrightarrow> hub_in b ns (\<lambda>_. True) (api_delete K k)"
  unfolding api_delete_def
  by (rule within_api_call, rule withinI) (auto simp: find_seen del_seen del_leaves del_sound split: if_splits)

lemma create_or_patch_in:
  assumes "fit b ns x" and "\<And>c. fit b ns c \<Longrightarrow> fit b ns (tr c)"
  shows "hub_in b ns (fit b ns) (CreateOrPatch K x tr)"
  unfolding CreateOrPatch_def
  by (rule within_tryM [OF get_in]) (use assms in \<open>auto simp: fit_ns intro!: create_in patch_in within_raise\<close>)

end

interpretation nwk: namespaced works "\<lambda>_. True"
  by unfold_locales (simp_all add: works_def hub_view_def hub_rest_def well_kept_def all_put all_del)
interpretation nbk: namespaced bindings "\<lambda>_. True"
  by unfold_locales (simp_all add: bindings_def hub_view_def hub_rest_def well_kept_def)

lemma own_targets_created: "own_targets (c\<lparr>om_created := t\<rparr>) = own_targets c"
  by (simp add: own_targets_def split: option.split sum.split)

interpretation nck: namespaced cmaps own_targets
  by unfold_locales
    (auto simp: cmaps_def hub_view_def hub_rest_def well_kept_def only_put all_put only_del all_del own_targets_created
      intro: all_mem)

text \<open>A kind that is cluster-wide, or only read.\<close>

locale cluster_wide =
  fixes K :: "'a objmeta_scheme kind"
  assumes sees: "fst K (hub_view ns w) = fst K w"
begin

lemma sees_seen: "fst K (seen b ns w) = fst K w"
  by (simp add: seen_def sees)

lemma get_in: "hub_in b ns (\<lambda>x. obj_key x = k) (api_get K k)"
  unfolding api_get_def
  by (rule within_api_call, rule withinI) (auto simp: sees_seen dest: find_obj_key split: option.splits)

lemma get_inside: "hub_in b ns (\<lambda>_. True) (api_get K k)"
  by (rule within_inside) (rule get_in)

lemma list_inside: "hub_in b ns (\<lambda>_. True) (api_list K P)"
  unfolding api_list_def by (rule within_api_call, rule withinI) (auto simp: sees_seen)

end

interpretation cpr: cluster_wide profiles by unfold_locales (simp add: profiles_def hub_view_def)
interpretation ccl: cluster_wide clusters by unfold_locales (simp add: clusters_def hub_view_def)
interpretation cft: cluster_wide features by unfold_locales (simp add: features_def hub_view_def)
interpretation crs: cluster_wide replicasets by unfold_locales (simp add: replicasets_def hub_view_def)

lemma now_inside: "hub_in b ns (\<lambda>_. True) now"
  by (rule withinI) (auto simp: now_def getsM_run)

lemma rand_inside: "hub_in b ns (\<lambda>_. True) rand_string"
  by (rule withinI) (auto simp: rand_string_def split: list.splits)

lemma raise_opt_inside: "inside v u I (raise_opt e)"
  by (simp add: raise_opt_def inside_ret within_raise split: option.split)

lemma own_get_inside:
  "fst k = ns \<Longrightarrow> hub_in b ns (\<lambda>_. True) (api_get works k)" "fst k = ns \<Longrightarrow> hub_in b ns (\<lambda>_. True) (api_get bindings k)"
  by (rule within_inside, erule nwk.get_in, rule within_inside, erule nbk.get_in)

lemmas [isolated] =
  cpr.get_inside ccl.get_inside cft.get_inside crs.get_inside cft.list_inside
  now_inside rand_inside raise_opt_inside own_get_inside nwk.delete_in nck.delete_in

end
