(* ===== verification/InstallFacts.thy ===== *)
theory InstallFacts
  imports FeatureInstall
begin

text \<open>
  What enabling the features of a profile achieves: what is exported into the ManifestWork of
  a feature set and what the wait before it guarantees, the values a feature set is rendered
  with, what pruning removes, and that the releases of the core feature set stay shipped to
  the end of \<open>EnableFeatures\<close>. A small installation at the end witnesses the theorems.
\<close>

section \<open>Successful runs\<close>

lemma bindM_InrE:
  assumes "bindM m f w = (Inr y, w'')"
  obtains x w' where "m w = (Inr x, w')" "f x w' = (Inr y, w'')"
  using assms unfolding bindM_Inr_iff by blast

lemma onhub_InrE:
  assumes "onhub m w = (Inr x, w')"
  obtains h f h' where "w = (h, f)" "w' = (h', f)" "m h = (Inr x, h')"
  using assms by (cases w; cases "m (fst w)") (auto simp: onhub_def)

lemma onfake_InrE:
  assumes "onfake m w = (Inr x, w')"
  obtains h f f' where "w = (h, f)" "w' = (h, f')" "m f = (Inr x, f')"
  using assms by (cases w; cases "m (snd w)") (auto simp: onfake_def)

lemma asks_InrE:
  assumes "asks q w = (Inr x, w')"
  obtains h f where "w = (h, f)" "w' = w" "q f = Inr x"
  using assms by (cases w) (simp add: asks_def)

section \<open>What pruning leaves\<close>

text \<open>
  What the JSON of a manifest says of its kind and its name; a manifest the loop can judge; and
  one that is to stay: all but the HelmReleases that are not listed.
\<close>

definition kind_of :: "raw \<Rightarrow> string option" where
  "kind_of m =
     (case m of
        Text (JObj obj) \<Rightarrow> (case fmlookup obj ''kind'' of Some (JStr k) \<Rightarrow> Some k | _ \<Rightarrow> None)
      | _ \<Rightarrow> None)"

definition name_of :: "raw \<Rightarrow> string option" where
  "name_of m =
     (case m of
        Text (JObj obj) \<Rightarrow>
          (case fmlookup obj ''metadata'' of
             Some (JObj md) \<Rightarrow> (case fmlookup md ''name'' of Some (JStr n) \<Rightarrow> Some n | _ \<Rightarrow> None)
           | _ \<Rightarrow> None)
      | _ \<Rightarrow> None)"

definition judged :: "raw \<Rightarrow> bool" where
  "judged m \<longleftrightarrow> kind_of m \<noteq> None \<and> (kind_of m = Some ''HelmRelease'' \<longrightarrow> name_of m \<noteq> None)"

definition stays :: "string list \<Rightarrow> raw \<Rightarrow> bool" where
  "stays names m \<longleftrightarrow> kind_of m = Some ''HelmRelease'' \<longrightarrow> (\<forall>n. name_of m = Some n \<longrightarrow> n \<in> set names)"

lemma read_kind: "kind_of (Text (JObj obj)) = Some k \<Longrightarrow> NestedString obj [''kind''] = Inr (Some k)"
  by (auto simp: kind_of_def NestedString_def NestedFieldNoCopy_def split: option.splits json.splits)

lemma read_name: "name_of (Text (JObj obj)) = Some n \<Longrightarrow> NestedString obj [''metadata'', ''name''] = Inr (Some n)"
  by (auto simp: name_of_def NestedString_def NestedFieldNoCopy_def split: option.splits json.splits)

lemma judged_stays:
  assumes "judged m"
  shows "keep_manifest names m = Inr (Some (stays names m))"
proof -
  from assms obtain k where k: "kind_of m = Some k" by (auto simp: judged_def)
  then obtain obj where m: "m = Text (JObj obj)" by (auto simp: kind_of_def split: raw.splits json.splits)
  then have o: "manifest_object m = Inr obj" by (simp add: manifest_object_def)
  note rk = read_kind [OF k [unfolded m]]
  show ?thesis
  proof (cases "k = ''HelmRelease''")
    case True
    with assms k obtain n where n: "name_of m = Some n" by (auto simp: judged_def)
    from read_name [OF n [unfolded m]] o rk True k n show ?thesis by (simp add: keep_manifest_def stays_def)
  next
    case False
    with o rk k show ?thesis by (simp add: keep_manifest_def stays_def)
  qed
qed

lemma kept_manifests_judged:
  "\<forall>m \<in> set ms. judged m \<Longrightarrow> kept_manifests names ms = Inr (Some (filter (stays names) ms))"
  by (induction ms) (simp_all add: judged_stays [where names = names])

lemma removeHR_judged:
  assumes nf: "no_faults w" and at: "find_obj (obj_key mw) (w_mws w) = Some mw" and j: "\<forall>m \<in> set (mw_manifests mw). judged m"
  obtains w' where "removeHRFomManifestWork mw names w = (Inr (), w')" "no_faults w'"
    "\<And>k. map_option mw_manifests (find_obj k (w_mws w')) =
       (if k = obj_key mw then Some (filter (stays names) (mw_manifests mw)) else map_option mw_manifests (find_obj k (w_mws w)))"
    "\<And>k. k \<noteq> obj_key mw \<Longrightarrow> find_obj k (w_mws w') = find_obj k (w_mws w)"
    "w' = w\<lparr>w_mws := w_mws w'\<rparr>"
proof -
  let ?ms = "filter (stays names) (mw_manifests mw)"
  let ?mw = "mw\<lparr>mw_manifests := ?ms\<rparr>"
  note kept = kept_manifests_judged [OF j, of names]
  show thesis
  proof (cases "mw_manifests mw = ?ms")
    case True
    then have "removeHRFomManifestWork mw names w = (Inr (), w)"
      by (simp add: removeHRFomManifestWork_def kept bindM_run liftM_run ret_run)
    then show thesis using nf at True [symmetric] by (intro that [of w]) simp_all
  next
    case False
    show thesis
    proof (cases "?ms = []")
      case True
      let ?w1 = "w_mws_update (del_obj (obj_key mw)) w"
      let ?x = "(with_spec ?mw ?mw)\<lparr>om_created := to_second (w_now w)\<rparr>"
      let ?w2 = "w_mws_update (put_obj ?x) ?w1"
      have key: "obj_key ?x = obj_key mw" by (simp add: with_spec_def)
      have gone: "find_obj (obj_key mw) (w_mws ?w1) = None" by (simp add: kube.look_del)
      have "CreateOrPatch works ?mw (with_spec ?mw) ?w1 = (Inr ?x, ?w2)"
        using nf gone by (simp add: prog_simps works_def with_spec_def)
      then have "removeHRFomManifestWork mw names w = (Inr (), ?w2)"
        using False True nf at by (simp add: removeHRFomManifestWork_def kept prog_simps works_def)
      then show thesis using nf True key
        by (intro that [of ?w2]) (simp_all add: kube.look_put kube.look_del with_spec_def)
    next
      case no: False
      have up: "obj_key (with_spec ?mw mw) = obj_key mw" by (simp add: with_spec_def)
      let ?w2 = "w_mws_update (put_obj (with_spec ?mw mw)) w"
      have "CreateOrPatch works ?mw (with_spec ?mw) w = (Inr (with_spec ?mw mw), ?w2)"
        using nf at up by (simp add: prog_simps works_def)
      then have "removeHRFomManifestWork mw names w = (Inr (), ?w2)"
        using False no by (simp add: removeHRFomManifestWork_def kept bindM_run liftM_run ret_run)
      then show thesis using nf up by (intro that [of ?w2]) (simp_all add: kube.look_put with_spec_def)
    qed
  qed
qed

lemma prune_one_judged:
  assumes nf: "no_faults w"
    and j: "\<And>mw. find_obj (cl, sname) (w_mws w) = Some mw \<Longrightarrow> \<forall>m \<in> set (mw_manifests mw). judged m"
  obtains w' where "prune_one cl (sname, names) w = (Inr (), w')" "no_faults w'"
    "\<And>k. map_option mw_manifests (find_obj k (w_mws w')) =
       map_option (if k = (cl, sname) then filter (stays names) \<circ> mw_manifests else mw_manifests) (find_obj k (w_mws w))"
    "\<And>k. k \<noteq> (cl, sname) \<Longrightarrow> find_obj k (w_mws w') = find_obj k (w_mws w)"
    "w' = w\<lparr>w_mws := w_mws w'\<rparr>"
proof (cases "find_obj (cl, sname) (w_mws w)")
  case None
  then have "prune_one cl (sname, names) w = (Inr (), w)" using nf
    by (simp add: prune_one_def prog_simps works_def removeHRFomManifestWork_def zero_work_def)
  with nf None show thesis by (intro that [of w]) auto
next
  case (Some mw)
  then have key: "obj_key mw = (cl, sname)" by (simp add: find_obj_key)
  with Some nf have p: "prune_one cl (sname, names) w = removeHRFomManifestWork mw names w"
    by (simp add: prune_one_def prog_simps works_def)
  have at: "find_obj (obj_key mw) (w_mws w) = Some mw" using Some key by simp
  obtain w' where "removeHRFomManifestWork mw names w = (Inr (), w')" "no_faults w'"
    "\<And>k. map_option mw_manifests (find_obj k (w_mws w')) =
       (if k = obj_key mw then Some (filter (stays names) (mw_manifests mw)) else map_option mw_manifests (find_obj k (w_mws w)))"
    "\<And>k. k \<noteq> obj_key mw \<Longrightarrow> find_obj k (w_mws w') = find_obj k (w_mws w)"
    "w' = w\<lparr>w_mws := w_mws w'\<rparr>"
    by (rule removeHR_judged [OF nf at j [OF Some], of names]) blast
  with p key Some show thesis by (intro that [of w']) simp_all
qed

definition all_judged :: "world \<Rightarrow> bool" where
  "all_judged w \<longleftrightarrow> (\<forall>k mw. find_obj k (w_mws w) = Some mw \<longrightarrow> (\<forall>m \<in> set (mw_manifests mw). judged m))"

lemma all_judgedD: "all_judged w \<Longrightarrow> find_obj k (w_mws w) = Some mw \<Longrightarrow> \<forall>m \<in> set (mw_manifests mw). judged m"
  unfolding all_judged_def by blast

lemma all_judged_pruned:
  assumes "all_judged w"
    and "\<And>k. map_option mw_manifests (find_obj k (w_mws w1)) =
      map_option (if k = K then filter P \<circ> mw_manifests else mw_manifests) (find_obj k (w_mws w))"
  shows "all_judged w1"
  unfolding all_judged_def
proof (intro allI impI)
  fix k mw
  assume mw: "find_obj k (w_mws w1) = Some mw"
  with assms(2) [of k] obtain mw0 where mw0: "find_obj k (w_mws w) = Some mw0"
    "set (mw_manifests mw) \<subseteq> set (mw_manifests mw0)"
    by (cases "find_obj k (w_mws w)") (auto split: if_splits)
  with all_judgedD [OF assms(1) mw0(1)] show "\<forall>m \<in> set (mw_manifests mw). judged m" by blast
qed

text \<open>What pruning makes of the work of one feature set.\<close>

definition pruned :: "featureinfo \<Rightarrow> string \<Rightarrow> manifestwork \<Rightarrow> raw list" where
  "pruned info s mw =
     (if s \<in> set (map fst info) then filter (stays (info_at info s)) (mw_manifests mw) else mw_manifests mw)"

lemma pruned_Cons:
  "s \<noteq> k \<Longrightarrow> pruned ((k, ns) # info) s = pruned info s"
  "k \<notin> set (map fst info) \<Longrightarrow> pruned info k = mw_manifests"
  "pruned ((k, ns) # info) k = filter (stays ns) \<circ> mw_manifests"
  by (auto simp: pruned_def info_at_def fun_eq_iff)

lemma prune_all_run:
  "no_faults w \<Longrightarrow> distinct (map fst info) \<Longrightarrow> all_judged w \<Longrightarrow>
    \<exists>w'. prune_all cl info w = (Inr (), w') \<and>
    (\<forall>s. map_option mw_manifests (find_obj (cl, s) (w_mws w')) = map_option (pruned info s) (find_obj (cl, s) (w_mws w))) \<and>
    (\<forall>k. fst k \<noteq> cl \<or> snd k \<notin> set (map fst info) \<longrightarrow> find_obj k (w_mws w') = find_obj k (w_mws w)) \<and>
    w' = w\<lparr>w_mws := w_mws w'\<rparr>"
proof (induction info arbitrary: w)
  case Nil
  then show ?case by (intro exI [of _ w]) (simp add: prune_all_def ret_run pruned_def)
next
  case (Cons fl info)
  obtain sname names where fl: "fl = (sname, names)" by (cases fl)
  obtain w1 where
    p: "prune_one cl fl w = (Inr (), w1)" and nf: "no_faults w1"
    and ms: "\<And>k. map_option mw_manifests (find_obj k (w_mws w1)) =
      map_option (if k = (cl, sname) then filter (stays names) \<circ> mw_manifests else mw_manifests) (find_obj k (w_mws w))"
    and o: "\<And>k. k \<noteq> (cl, sname) \<Longrightarrow> find_obj k (w_mws w1) = find_obj k (w_mws w)"
    and w1: "w1 = w\<lparr>w_mws := w_mws w1\<rparr>"
    unfolding fl by (rule prune_one_judged [where cl = cl and sname = sname and names = names,
        OF Cons.prems(1) all_judgedD [OF Cons.prems(3)]]) blast+
  have new: "sname \<notin> set (map fst info)" and dist: "distinct (map fst info)" using Cons.prems(2) fl by simp_all
  obtain w2 where
    p2: "prune_all cl info w1 = (Inr (), w2)"
    and ms2: "\<And>s. map_option mw_manifests (find_obj (cl, s) (w_mws w2)) = map_option (pruned info s) (find_obj (cl, s) (w_mws w1))"
    and o2: "\<And>k. fst k \<noteq> cl \<or> snd k \<notin> set (map fst info) \<Longrightarrow> find_obj k (w_mws w2) = find_obj k (w_mws w1)"
    and w2: "w2 = w1\<lparr>w_mws := w_mws w2\<rparr>"
    using Cons.IH [OF nf dist all_judged_pruned [OF Cons.prems(3) ms]] by blast
  have "map_option mw_manifests (find_obj (cl, s) (w_mws w2)) = map_option (pruned (fl # info) s) (find_obj (cl, s) (w_mws w))" for s
    using ms2 [of s] ms [of "(cl, s)"] o [of "(cl, s)"] new
    by (cases "s = sname") (simp_all add: fl pruned_Cons)
  moreover have "find_obj k (w_mws w2) = find_obj k (w_mws w)" if "fst k \<noteq> cl \<or> snd k \<notin> set (map fst (fl # info))" for k
    using that o2 [of k] o [of k] fl by (cases k) auto
  moreover have "w2 = w\<lparr>w_mws := w_mws w2\<rparr>" using w1 w2 by (cases w1; cases w2; cases w) simp
  moreover have "prune_all cl (fl # info) w = (Inr (), w2)" using p p2 by (simp add: prune_all_def bindM_run)
  ultimately show ?case by blast
qed

text \<open>
  C28: dropping the features a profile no longer has always succeeds when no call fails, and
  does exactly that: in the ManifestWork of every listed feature set the manifests that stay,
  in their order, are all but the HelmReleases whose name is not listed for the set, as their
  JSON has it; every other ManifestWork, and every other object of the hub, is untouched.
\<close>

theorem prune_all_exact:
  assumes "no_faults w" and "distinct (map fst info)" and "all_judged w"
  shows "\<exists>w'. prune_all clusterName info w = (Inr (), w') \<and>
    (\<forall>s. map_option mw_manifests (find_obj (clusterName, s) (w_mws w')) =
       map_option (pruned info s) (find_obj (clusterName, s) (w_mws w))) \<and>
    (\<forall>k. fst k \<noteq> clusterName \<or> snd k \<notin> set (map fst info) \<longrightarrow> find_obj k (w_mws w') = find_obj k (w_mws w)) \<and>
    w' = w\<lparr>w_mws := w_mws w'\<rparr>"
  using assms by (rule prune_all_run)

section \<open>What is exported\<close>

lemma strip_version_keeps:
  assumes "strip_version item = Inr m"
  shows "GetKindNameNamespace m = GetKindNameNamespace item"
    and "NestedFieldNoCopy m [''metadata'', ''resourceVersion''] = Inr None"
proof -
  from assms obtain metadata where md: "fmlookup item ''metadata'' = Some (JObj metadata)"
    and m: "m = fmupd ''metadata'' (JObj (fmdrop ''resourceVersion'' metadata)) item"
    by (auto simp: strip_version_def split: option.splits json.splits)
  have "NestedString m [''kind''] = NestedString item [''kind'']"
    "NestedString m [''metadata'', ''name''] = NestedString item [''metadata'', ''name'']"
    "NestedString m [''metadata'', ''namespace''] = NestedString item [''metadata'', ''namespace'']"
    using md by (simp_all add: NestedString_def NestedFieldNoCopy_def m)
  note eqs = this
  show "GetKindNameNamespace m = GetKindNameNamespace item" unfolding GetKindNameNamespace_def eqs ..
  show "NestedFieldNoCopy m [''metadata'', ''resourceVersion''] = Inr None" by (simp add: NestedFieldNoCopy_def m)
qed

lemma exported_sound:
  "exported workName items = Inr ms \<Longrightarrow> (r, c) \<in> set ms \<Longrightarrow>
     \<exists>item kind name ns m. item \<in> set items \<and> GetKindNameNamespace item = Inr (kind, name, ns) \<and>
       \<not> skip_item workName kind name \<and> strip_version item = Inr m \<and> r = Text (JObj m) \<and> c = release_config ns name"
proof (induction items arbitrary: ms)
  case Nil
  then show ?case by simp
next
  case (Cons item items)
  then obtain kind name ns where id: "GetKindNameNamespace item = Inr (kind, name, ns)"
    by (auto simp: bindE_Inr_iff)
  show ?case
  proof (cases "skip_item workName kind name")
    case True
    with Cons.prems id have "exported workName items = Inr ms" by simp
    from Cons.IH [OF this Cons.prems(2)] show ?thesis by fastforce
  next
    case False
    with Cons.prems(1) id obtain m ms' where m: "strip_version item = Inr m" and ms': "exported workName items = Inr ms'"
      and ms: "ms = (Text (JObj m), release_config ns name) # ms'"
      by (auto simp: bindE_Inr_iff)
    show ?thesis
    proof (cases "(r, c) \<in> set ms'")
      case True
      from Cons.IH [OF ms' True] show ?thesis by fastforce
    next
      case no: False
      with Cons.prems(2) ms have "r = Text (JObj m)" "c = release_config ns name" by simp_all
      with id False m show ?thesis
        by (intro exI [of _ item] exI [of _ kind] exI [of _ name] exI [of _ ns] exI [of _ m]) simp
    qed
  qed
qed

lemma exported_complete:
  "exported workName items = Inr ms \<Longrightarrow> item \<in> set items \<Longrightarrow> GetKindNameNamespace item = Inr (kind, name, ns) \<Longrightarrow>
     \<not> skip_item workName kind name \<Longrightarrow>
     \<exists>m. strip_version item = Inr m \<and> (Text (JObj m), release_config ns name) \<in> set ms"
proof (induction items arbitrary: ms)
  case Nil
  then show ?case by simp
next
  case (Cons it items)
  then obtain kind' name' ns' where id: "GetKindNameNamespace it = Inr (kind', name', ns')"
    by (auto simp: bindE_Inr_iff)
  show ?case
  proof (cases "skip_item workName kind' name'")
    case True
    with Cons.prems(1) id have "exported workName items = Inr ms" by simp
    moreover have "item \<noteq> it" using True id Cons.prems(3,4) by auto
    ultimately show ?thesis using Cons.IH [of ms] Cons.prems(2-4) by simp
  next
    case False
    with Cons.prems(1) id obtain m ms' where m: "strip_version it = Inr m" and ms': "exported workName items = Inr ms'"
      and ms: "ms = (Text (JObj m), release_config ns' name') # ms'"
      by (auto simp: bindE_Inr_iff)
    show ?thesis
    proof (cases "item = it")
      case True
      with id Cons.prems(3) m ms show ?thesis by simp
    next
      case no: False
      with Cons.IH [OF ms'] Cons.prems(2-4) ms show ?thesis by auto
    qed
  qed
qed

lemma exported_rules:
  assumes "exported workName items = Inr ms" and "(r, release_config ns name) \<in> set ms"
  shows "rules_installed (mw\<lparr>mw_configs := map snd ms\<rparr>) ns name"
proof -
  have "\<exists>c. List.find (is_release_config ns name) (map snd ms) = Some c"
    using assms(2) by (cases "List.find (is_release_config ns name) (map snd ms)")
      (force simp: find_None_iff_all, simp)
  then obtain c where c: "List.find (is_release_config ns name) (map snd ms) = Some c" by blast
  then have "c \<in> snd ` set ms" using find_SomeD by force
  with exported_sound [OF assms(1)] obtain ns' name' where "c = release_config ns' name'" by force
  with c show ?thesis by (simp add: rules_installed_def release_config_def)
qed

section \<open>The wait\<close>

lemma poll_iff: "poll n c w = (case c w of Inl e \<Rightarrow> (Inl e, w) | Inr True \<Rightarrow> (Inr (), w)
    | Inr False \<Rightarrow> (Inl (ErrText ''context deadline exceeded''), w))"
proof (induction n)
  case 0
  then show ?case by (subst poll.simps) (simp split: sum.split bool.split)
next
  case (Suc n)
  then show ?case by (subst poll.simps) (auto split: sum.split bool.split)
qed

lemma releases_exist_iff:
  "releases_exist E names f = Inr True \<longleftrightarrow> (\<forall>n \<in> set names. \<exists>hr. fe_release E f (fe_boot_ns E, n) = Inr hr)"
  by (induction names) (auto split: sum.split)

lemma waitForReleaseToBeCreated_iff:
  "waitForReleaseToBeCreated E names f = (Inr (), f') \<longleftrightarrow>
     f' = f \<and> (\<forall>n \<in> set names. \<exists>hr. fe_release E f (fe_boot_ns E, n) = Inr hr)"
  unfolding releases_exist_iff [symmetric] waitForReleaseToBeCreated_def poll_iff
  by (auto split: sum.split bool.split)

section \<open>What a feature set ships\<close>

text \<open>
  What is relied on of the fake server. It keeps of every object the version of its last write
  and exports the objects written since the last \<open>Checkpoint\<close>
  (\<open>kmodules.xyz/fake-apiserver/pkg/server.go\<close>). A release is pending if, as far as it is
  there, the next export has it. A release the program puts is there and exported; no write
  makes a pending release one that is not; registering CRDs leaves the releases alone; after a
  checkpoint nothing is exported and everything is still there.
\<close>

definition on_server :: "'f fakeenv \<Rightarrow> 'f \<Rightarrow> objkey \<Rightarrow> bool" where
  "on_server E f k \<longleftrightarrow> (case fe_release E f k of Inl e \<Rightarrow> False | Inr hr \<Rightarrow> True)"

definition exports :: "'f fakeenv \<Rightarrow> 'f \<Rightarrow> objkey \<Rightarrow> bool" where
  "exports E f k \<longleftrightarrow>
     list_ex (\<lambda>item. GetKindNameNamespace item = Inr (''HelmRelease'', snd k, fst k)) (fe_export E f)"

definition pending_on :: "'f fakeenv \<Rightarrow> 'f \<Rightarrow> objkey \<Rightarrow> bool" where
  "pending_on E f k \<longleftrightarrow> on_server E f k \<longrightarrow> exports E f k"

definition checkpointed_server :: "'f fakeenv \<Rightarrow> bool" where
  "checkpointed_server E \<longleftrightarrow>
     (\<forall>f k hr. fe_release E f k = Inr hr \<longrightarrow> obj_key hr = k) \<and>
     (\<forall>h f f'. fe_put_release E h f = (Inr (), f') \<longrightarrow>
        on_server E f' (obj_key h) \<and> exports E f' (obj_key h) \<and> (\<forall>k. pending_on E f k \<longrightarrow> pending_on E f' k)) \<and>
     (\<forall>c v f f'. fe_apply E c v f = (Inr (), f') \<longrightarrow> (\<forall>k. pending_on E f k \<longrightarrow> pending_on E f' k)) \<and>
     (\<forall>cs f f'. fe_register E cs f = (Inr (), f') \<longrightarrow>
        (\<forall>k. pending_on E f k \<longrightarrow> pending_on E f' k) \<and> fe_release E f' = fe_release E f) \<and>
     (\<forall>f. fe_export E (fe_checkpoint E f) = [] \<and> fe_release E (fe_checkpoint E f) = fe_release E f)"

lemma checkpointed_serverD:
  assumes "checkpointed_server E"
  shows "fe_release E f k = Inr hr \<Longrightarrow> obj_key hr = k"
    and "fe_put_release E h f = (Inr (), f') \<Longrightarrow> on_server E f' (obj_key h) \<and> pending_on E f' (obj_key h)"
    and "fe_put_release E h f = (Inr (), f') \<Longrightarrow> pending_on E f k \<Longrightarrow> pending_on E f' k"
    and "fe_apply E c v f = (Inr (), f') \<Longrightarrow> pending_on E f k \<Longrightarrow> pending_on E f' k"
    and "fe_register E cs f = (Inr (), f') \<Longrightarrow> pending_on E f k \<Longrightarrow> pending_on E f' k"
    and "fe_register E cs f = (Inr (), f') \<Longrightarrow> fe_release E f' = fe_release E f"
    and "fe_release E (fe_checkpoint E f) = fe_release E f"
  using assms unfolding checkpointed_server_def pending_on_def by blast+

text \<open>Applying a chart removes no release of this name, since no chart the program applies renders it.\<close>

definition keeps_release :: "'f fakeenv \<Rightarrow> string \<Rightarrow> bool" where
  "keeps_release E n \<longleftrightarrow>
     (\<forall>c v f f'. fe_apply E c v f = (Inr (), f') \<longrightarrow> on_server E f (fe_boot_ns E, n) \<longrightarrow> on_server E f' (fe_boot_ns E, n))"

text \<open>What goes on on the server between two exports.\<close>

lemma register_crds_keeps:
  assumes "checkpointed_server E"
  shows "register_crds E ds f = (Inr u, f') \<Longrightarrow>
     (pending_on E f k \<longrightarrow> pending_on E f' k) \<and> fe_release E f' = fe_release E f"
proof (induction ds arbitrary: f)
  case Nil
  then show ?case by (simp add: ret_run)
next
  case (Cons d ds)
  from Cons.prems obtain crd where crd: "fe_crd E d = Inr crd"
    by (cases "fe_crd E d") (simp_all add: bindM_run liftM_run)
  with Cons.prems obtain v vs where v: "crd_versions crd = v # vs"
    by (cases "crd_versions crd") (simp_all add: bindM_run liftM_run raise_run)
  from Cons.prems crd v consider "register_crds E ds f = (Inr u, f')"
    | f1 where "fe_register E [crd] f = (Inr (), f1)" "register_crds E ds f1 = (Inr u, f')"
    by (auto simp: bindM_Inr_iff bindM_run liftM_run getsM_run raise_run split: option.splits gerr.splits prod.splits sum.splits)
  then show ?case
  proof cases
    case 2
    with Cons.IH [OF 2(2)] checkpointed_serverD(5,6) [OF assms 2(1)] show ?thesis by simp
  qed (rule Cons.IH)
qed

lemma applyCRDs_keeps:
  assumes "checkpointed_server E" and "applyCRDs E c f = (Inr u, f')"
  shows "(pending_on E f k \<longrightarrow> pending_on E f' k) \<and> fe_release E f' = fe_release E f"
proof -
  from assms(2) have "f' = f \<or> (\<exists>ch :: chart. register_crds E (chart_crds ch) f = (Inr u, f'))"
    by (auto simp: applyCRDs_def bindM_Inr_iff ret_run split: if_splits)
  with register_crds_keeps [OF assms(1), of _ f "()" f' k] show ?thesis by auto
qed

lemma install_core_puts:
  assumes "checkpointed_server E" and "install_core E names pr pb ov f = (Inr u, f')"
  shows "on_server E f' (fe_boot_ns E, ChartOpscenterFeatures)" and "pending_on E f' (fe_boot_ns E, ChartOpscenterFeatures)"
    and "pending_on E f k \<Longrightarrow> pending_on E f' k"
proof -
  let ?k = "(fe_boot_ns E, ChartOpscenterFeatures)"
  from assms(2) obtain ft v dep where
    "CreateHelmRelease E ChartOpscenterFeatures ''opscenter-core'' (fe_boot_ns E) pr pb ft v dep f = (Inr u, f')"
    unfolding install_core_def bindM_Inr_iff by auto
  then obtain h where h: "fe_put_release E h f = (Inr (), f')" and key: "obj_key h = ?k"
    using checkpointed_serverD(1) [OF assms(1), of f ?k]
    by (auto simp: CreateHelmRelease_def Let_def bindM_Inr_iff getsM_run raise_run new_release_def obj_key_def
        split: sum.splits if_splits)
  from checkpointed_serverD(2) [OF assms(1) h] key
  show "on_server E f' ?k" "pending_on E f' ?k" by simp_all
  show "pending_on E f' k" if "pending_on E f k" using checkpointed_serverD(3) [OF assms(1) h that] .
qed

text \<open>The work carries the release, and the work agent is asked to report on it.\<close>

definition ships :: "manifestwork \<Rightarrow> string \<Rightarrow> string \<Rightarrow> bool" where
  "ships mw ns n \<longleftrightarrow>
     (\<exists>m \<in> set (mw_manifests mw). manifest_id m = Inr (''HelmRelease'', n, ns)) \<and> rules_installed mw ns n"

lemma updateManifestWork_Inr:
  assumes "updateManifestWork E mw pr (w, f) = (Inr (), (w', f'))"
  obtains ms x where "exported (om_name mw) (fe_export E f) = Inr ms" "find_obj (obj_key mw) (w_mws w') = Some x"
    "mw_manifests x = map fst ms" "mw_configs x = map snd ms"
    "om_labels x ClusterProfileLabel = Some (om_name pr)" "om_labels x LabelAceFeatureSet = Some ''true''"
    "f' = fe_checkpoint E f"
proof -
  from assms obtain ms where ms: "exported (om_name mw) (fe_export E f) = Inr ms"
    by (cases "exported (om_name mw) (fe_export E f)") (simp_all add: updateManifestWork_def bindM_run asks_run)
  let ?mw = "mw\<lparr>mw_manifests := map fst ms, mw_configs := map snd ms\<rparr>"
  have key: "obj_key (store_work pr ?mw cur) = obj_key cur" for cur by (simp add: store_work_def with_spec_def)
  have new: "mw_manifests (store_work pr ?mw cur) = map fst ms" "mw_configs (store_work pr ?mw cur) = map snd ms"
    "om_labels (store_work pr ?mw cur) ClusterProfileLabel = Some (om_name pr)"
    "om_labels (store_work pr ?mw cur) LabelAceFeatureSet = Some ''true''" for cur
    by (simp_all add: store_work_def with_spec_def feature_set_labels_def ClusterProfileLabel_def LabelAceFeatureSet_def)
  show thesis
  proof (cases rule: mwk.create_or_patch_cases [of ?mw "store_work pr ?mw" w])
    case (patched cur fs)
    with find_obj_key have "obj_key cur = obj_key mw" by fastforce
    moreover from patched ms assms have "w' = snd works (put_obj (store_work pr ?mw cur)) (w\<lparr>w_faults := fs\<rparr>)"
      "f' = fe_checkpoint E f"
      by (simp_all add: updateManifestWork_def bindM_run asks_run onhub_run onfake_run)
    ultimately show thesis using ms new [of cur] key
      by (intro that [of ms "store_work pr ?mw cur"]) (simp_all add: works_def kube.look_put)
  next
    case (created y fs)
    then have "obj_key y = obj_key mw" by (simp add: key)
    moreover from created ms assms have "w' = snd works (put_obj y) (w\<lparr>w_faults := fs\<rparr>)" "f' = fe_checkpoint E f"
      by (simp_all add: updateManifestWork_def bindM_run asks_run onhub_run onfake_run)
    ultimately show thesis using ms new [of ?mw] created(2)
      by (intro that [of ms y]) (simp_all add: works_def kube.look_put)
  next
    case (failed e fs)
    with ms assms show thesis by (simp add: updateManifestWork_def bindM_run asks_run onhub_run)
  qed
qed

lemma applyFeatureSet_Inr:
  assumes "applyFeatureSet E mw s names pr mc pb (w, f) = (Inr u, (w', f'))"
  obtains c v f1 f2 where "applyCRDs E c f = (Inr (), f1)" "fe_apply E c v f1 = (Inr (), f2)"
    "\<forall>n \<in> set names. on_server E f2 (fe_boot_ns E, n)" "updateManifestWork E mw pr (w, f2) = (Inr (), (w', f'))"
proof -
  from assms obtain c v f1 f2 f3 where "applyCRDs E c f = (Inr (), f1)" "applyResource E c v f1 = (Inr (), f2)"
    "waitForReleaseToBeCreated E names f2 = (Inr (), f3)" "updateManifestWork E mw pr (w, f3) = (Inr (), (w', f'))"
    unfolding applyFeatureSet_def by (elim bindM_InrE onfake_InrE asks_InrE) auto
  then show thesis
    by (intro that [of c f1 v f2])
      (cases "fe_apply E c v f1"; auto simp: applyResource_def tryM_run raise_run ret_run waitForReleaseToBeCreated_iff
        on_server_def split: sum.splits prod.splits)+
qed

text \<open>What a work exported from the server carries.\<close>

lemma exported_ships:
  assumes "exported (om_name mw) (fe_export E f) = Inr ms" and "mw_manifests x = map fst ms" and "mw_configs x = map snd ms"
    and "exports E f (ns, n)"
  shows "ships x ns n"
proof -
  from assms(4) obtain item where item: "item \<in> set (fe_export E f)" "GetKindNameNamespace item = Inr (''HelmRelease'', n, ns)"
    by (auto simp: exports_def list_ex_iff)
  from exported_complete [OF assms(1) item] obtain m where m: "strip_version item = Inr m"
    "(Text (JObj m), release_config ns n) \<in> set ms" by (auto simp: skip_item_def)
  have "manifest_id (Text (JObj m)) = Inr (''HelmRelease'', n, ns)"
    using strip_version_keeps(1) [OF m(1)] item(2) by (simp add: manifest_id_def manifest_object_def)
  moreover have "Text (JObj m) \<in> set (mw_manifests x)" using m(2) assms(2) by force
  moreover have "rules_installed x ns n"
    using exported_rules [OF assms(1) m(2), of x] assms(3) by (simp add: rules_installed_def)
  ultimately show ?thesis unfolding ships_def by blast
qed

lemma applyFeatureSet_ships:
  assumes "applyFeatureSet E mw s names pr mc pb (w, f) = (Inr (), (w', f'))" and "checkpointed_server E"
  obtains x where "find_obj (obj_key mw) (w_mws w') = Some x"
    "\<And>n. pending_on E f (fe_boot_ns E, n) \<Longrightarrow> on_server E f' (fe_boot_ns E, n) \<Longrightarrow> ships x (fe_boot_ns E) n"
    "\<And>n. n \<in> set names \<Longrightarrow> on_server E f' (fe_boot_ns E, n)"
    "\<And>n. keeps_release E n \<Longrightarrow> on_server E f (fe_boot_ns E, n) \<Longrightarrow> on_server E f' (fe_boot_ns E, n)"
    "om_labels x ClusterProfileLabel = Some (om_name pr)" "om_labels x LabelAceFeatureSet = Some ''true''"
proof -
  from assms(1) obtain c v f1 f2 where crds: "applyCRDs E c f = (Inr (), f1)" and a: "fe_apply E c v f1 = (Inr (), f2)"
    and wt: "\<forall>n \<in> set names. on_server E f2 (fe_boot_ns E, n)" and u: "updateManifestWork E mw pr (w, f2) = (Inr (), (w', f'))"
    by (rule applyFeatureSet_Inr)
  note crd = applyCRDs_keeps [OF assms(2) crds]
  from u obtain ms x where ms: "exported (om_name mw) (fe_export E f2) = Inr ms" and x: "find_obj (obj_key mw) (w_mws w') = Some x"
    "mw_manifests x = map fst ms" "mw_configs x = map snd ms"
    "om_labels x ClusterProfileLabel = Some (om_name pr)" "om_labels x LabelAceFeatureSet = Some ''true''"
    and f': "f' = fe_checkpoint E f2"
    by (rule updateManifestWork_Inr)
  have reads: "on_server E f' k = on_server E f2 k" "on_server E f1 k = on_server E f k" for k
    using checkpointed_serverD(7) [OF assms(2), of f2] crd by (simp_all add: on_server_def f')
  show thesis
  proof (rule that [OF x(1) _ _ _ x(4,5)])
    fix n
    show "ships x (fe_boot_ns E) n" if "pending_on E f (fe_boot_ns E, n)" "on_server E f' (fe_boot_ns E, n)"
    proof -
      from that(1) crd have "pending_on E f1 (fe_boot_ns E, n)" by blast
      from checkpointed_serverD(4) [OF assms(2) a this] that(2) have "exports E f2 (fe_boot_ns E, n)"
        by (simp add: pending_on_def reads)
      from exported_ships [OF ms x(2,3) this] show ?thesis .
    qed
    show "on_server E f' (fe_boot_ns E, n)" if "n \<in> set names" using wt that by (simp add: reads)
    show "on_server E f' (fe_boot_ns E, n)" if "keeps_release E n" "on_server E f (fe_boot_ns E, n)"
      using that a reads [of "(fe_boot_ns E, n)"] unfolding keeps_release_def by blast
  qed
qed

lemma get_or_new_Inr:
  assumes "get_or_new mw w = (Inr x, w')"
  shows "obj_key x = obj_key mw"
proof (cases rule: mwk.get_cases [of "obj_key mw" w])
  case (found cur fs)
  with assms have "x = cur" by (simp add: get_or_new_def tryM_run ret_run)
  with found find_obj_key show ?thesis by blast
next
  case (failed e fs)
  with assms show ?thesis by (auto simp: get_or_new_def tryM_run ret_run raise_run split: if_splits)
qed

lemma enableFeatureSet_core:
  assumes "enableFeatureSet E s names pr pb ov st = (Inr u, st')" and "s = ''opscenter-core''"
  shows "ChartOpscenterFeatures \<in> set names \<and> ''kube-ui-server'' \<in> set names"
  using assms by (cases "ChartOpscenterFeatures \<in> set names \<and> ''kube-ui-server'' \<in> set names")
    (simp_all add: enableFeatureSet_def raise_run)

text \<open>The features a set is applied with.\<close>

abbreviation set_names :: "string \<Rightarrow> string list \<Rightarrow> string list" where
  "set_names s names \<equiv> if s = ''opscenter-core'' then core_features names else names"

lemma enableFeatureSet_Inr:
  assumes "enableFeatureSet E s names pr pb ov (w, f) = (Inr u, st')"
  obtains mw mc w1 f1 where "obj_key mw = (om_ns pb, s)"
    "applyFeatureSet E mw s (set_names s names) pr mc pb (w1, f1) = (Inr (), st')"
    "s \<noteq> ''opscenter-core'' \<Longrightarrow> f1 = f" "s = ''opscenter-core'' \<Longrightarrow> install_core E names pr pb ov f = (Inr (), f1)"
proof -
  have key: "obj_key (new_work s pr pb) = (om_ns pb, s)" by (simp add: new_work_def obj_key_def)
  have "\<not> (s = ''opscenter-core'' \<and> (ChartOpscenterFeatures \<notin> set names \<or> ''kube-ui-server'' \<notin> set names))"
    using enableFeatureSet_core [OF assms] by blast
  with assms obtain mc s1 mw s2 where mc: "onhub (api_get clusters ('''', om_ns pb)) (w, f) = (Inr mc, s1)"
    and mw: "onhub (get_or_new (new_work s pr pb)) s1 = (Inr mw, s2)"
    and rest: "(if s = ''opscenter-core'' then
            bindM (onfake (install_core E names pr pb ov)) (\<lambda>_. applyFeatureSet E mw s (core_features names) pr mc pb)
          else applyFeatureSet E mw s names pr mc pb) s2 = (Inr u, st')"
    unfolding enableFeatureSet_def by (simp only: if_not_P simp_thms) (elim bindM_InrE, blast)
  from mc obtain w1 where s1: "s1 = (w1, f)" by (auto elim: onhub_InrE)
  with mw obtain w2 where s2: "s2 = (w2, f)" by (auto elim: onhub_InrE)
  from mw have k: "obj_key mw = (om_ns pb, s)" unfolding key [symmetric] by (elim onhub_InrE) (rule get_or_new_Inr)
  show thesis
  proof (cases "s = ''opscenter-core''")
    case True
    with rest have "bindM (onfake (install_core E names pr pb ov)) (\<lambda>_. applyFeatureSet E mw s (core_features names) pr mc pb)
      (w2, f) = (Inr u, st')" by (simp add: s2)
    then obtain f1 where "install_core E names pr pb ov f = (Inr (), f1)"
      "applyFeatureSet E mw s (core_features names) pr mc pb (w2, f1) = (Inr (), st')"
      by (elim bindM_InrE onfake_InrE) auto
    with True k show thesis by (intro that [of mw mc w2 f1]) simp_all
  next
    case False
    with rest s2 k show thesis by (intro that [of mw mc w2 f]) simp_all
  qed
qed

lemma enableFeatureSet_shipped:
  assumes "enableFeatureSet E s names pr pb ov (w, f) = (Inr (), (w', f'))" and "checkpointed_server E"
  obtains x where "find_obj (om_ns pb, s) (w_mws w') = Some x"
    "\<And>n. n \<in> set (set_names s names) \<Longrightarrow> on_server E f' (fe_boot_ns E, n)"
    "\<And>n. pending_on E f (fe_boot_ns E, n) \<Longrightarrow> on_server E f' (fe_boot_ns E, n) \<Longrightarrow> ships x (fe_boot_ns E) n"
    "s = ''opscenter-core'' \<Longrightarrow> on_server E f' (fe_boot_ns E, ChartOpscenterFeatures) \<Longrightarrow>
       ships x (fe_boot_ns E) ChartOpscenterFeatures"
    "s = ''opscenter-core'' \<Longrightarrow> keeps_release E ChartOpscenterFeatures \<Longrightarrow>
       on_server E f' (fe_boot_ns E, ChartOpscenterFeatures)"
    "om_labels x ClusterProfileLabel = Some (om_name pr)" "om_labels x LabelAceFeatureSet = Some ''true''"
proof -
  from assms(1) obtain mw mc w1 f1 where key: "obj_key mw = (om_ns pb, s)"
    and a: "applyFeatureSet E mw s (set_names s names) pr mc pb (w1, f1) = (Inr (), (w', f'))"
    and f1: "s \<noteq> ''opscenter-core'' \<Longrightarrow> f1 = f" "s = ''opscenter-core'' \<Longrightarrow> install_core E names pr pb ov f = (Inr (), f1)"
    by (rule enableFeatureSet_Inr) blast
  note put = install_core_puts [OF assms(2) f1(2)]
  have pending: "pending_on E f1 k" if "pending_on E f k" for k
    using that f1(1) put(3) by (cases "s = ''opscenter-core''") auto
  from a assms(2) obtain x where x: "find_obj (obj_key mw) (w_mws w') = Some x"
    "\<And>n. pending_on E f1 (fe_boot_ns E, n) \<Longrightarrow> on_server E f' (fe_boot_ns E, n) \<Longrightarrow> ships x (fe_boot_ns E) n"
    "\<And>n. n \<in> set (set_names s names) \<Longrightarrow> on_server E f' (fe_boot_ns E, n)"
    "\<And>n. keeps_release E n \<Longrightarrow> on_server E f1 (fe_boot_ns E, n) \<Longrightarrow> on_server E f' (fe_boot_ns E, n)"
    "om_labels x ClusterProfileLabel = Some (om_name pr)" "om_labels x LabelAceFeatureSet = Some ''true''"
    by (rule applyFeatureSet_ships) blast
  show thesis
    by (rule that [of x]) (use x key pending put in auto)
qed

text \<open>
  C27: a feature set that is enabled is shipped. When \<open>enableFeatureSet\<close> succeeds, every feature
  it was asked for has its HelmRelease on the fake server, and the hub holds the ManifestWork
  of the set, labelled with the profile, which carries each of these releases that was not on
  the server at the start, or was written since the last checkpoint, with the feedback rules
  from which an upgrade reads its readiness. Of the core set, flux2 and the license proxy are
  not asked for; opscenter-features, whose release is put there by hand, is carried whatever
  the server had of it, unless applying the chart removes it. The core set is refused unless
  opscenter-features and kube-ui-server are in it.
\<close>

theorem enableFeatureSet_ships:
  assumes "enableFeatureSet E s names pr pb ov (w, f) = (Inr (), (w', f'))" and "checkpointed_server E"
  shows "\<exists>x. find_obj (om_ns pb, s) (w_mws w') = Some x \<and>
    (\<forall>n \<in> set (if s = ''opscenter-core'' then core_features names else names).
       on_server E f' (fe_boot_ns E, n) \<and>
       (\<not> on_server E f (fe_boot_ns E, n) \<or> exports E f (fe_boot_ns E, n) \<longrightarrow> ships x (fe_boot_ns E) n)) \<and>
    (s = ''opscenter-core'' \<and> on_server E f' (fe_boot_ns E, ChartOpscenterFeatures) \<longrightarrow>
       ships x (fe_boot_ns E) ChartOpscenterFeatures) \<and>
    om_labels x ClusterProfileLabel = Some (om_name pr) \<and> om_labels x LabelAceFeatureSet = Some ''true'' \<and>
    (s = ''opscenter-core'' \<longrightarrow> ChartOpscenterFeatures \<in> set names \<and> ''kube-ui-server'' \<in> set names)"
proof -
  from assms obtain x where x: "find_obj (om_ns pb, s) (w_mws w') = Some x"
    "\<And>n. n \<in> set (set_names s names) \<Longrightarrow> on_server E f' (fe_boot_ns E, n)"
    "\<And>n. pending_on E f (fe_boot_ns E, n) \<Longrightarrow> on_server E f' (fe_boot_ns E, n) \<Longrightarrow> ships x (fe_boot_ns E) n"
    "s = ''opscenter-core'' \<Longrightarrow> on_server E f' (fe_boot_ns E, ChartOpscenterFeatures) \<Longrightarrow>
       ships x (fe_boot_ns E) ChartOpscenterFeatures"
    "om_labels x ClusterProfileLabel = Some (om_name pr)" "om_labels x LabelAceFeatureSet = Some ''true''"
    by (rule enableFeatureSet_shipped) blast
  have "on_server E f' (fe_boot_ns E, n) \<and>
       (\<not> on_server E f (fe_boot_ns E, n) \<or> exports E f (fe_boot_ns E, n) \<longrightarrow> ships x (fe_boot_ns E) n)"
    if "n \<in> set (set_names s names)" for n
    using x(2) [OF that] x(3) [of n] by (auto simp: pending_on_def)
  with x enableFeatureSet_core [OF assms(1)] show ?thesis by (intro exI [of _ x]) blast
qed

section \<open>Values\<close>

abbreviation values_path :: "string \<Rightarrow> string list" where
  "values_path n \<equiv> feature_path n [''spec'', ''values'']"

lemma map_replace_inj:
  "u \<notin> set m \<Longrightarrow> u \<notin> set n \<Longrightarrow> map (\<lambda>c. if c = d then u else c) m = map (\<lambda>c. if c = d then u else c) n \<Longrightarrow> m = n"
proof (induction m arbitrary: n)
  case Nil
  then show ?case by simp
next
  case (Cons a m)
  then obtain b n' where n: "n = b # n'" by (cases n) simp_all
  with Cons show ?case by (auto split: if_splits)
qed

lemma getFeaturePathInValues_inj:
  assumes "CHR ''_'' \<notin> set m" and "CHR ''_'' \<notin> set n" and "getFeaturePathInValues m = getFeaturePathInValues n"
  shows "m = n"
  by (rule map_replace_inj [OF assms(1,2), of "CHR ''-''"]) (use assms(3) in \<open>simp add: getFeaturePathInValues_def\<close>)

lemma values_path_parallel:
  "CHR ''_'' \<notin> set m \<Longrightarrow> CHR ''_'' \<notin> set n \<Longrightarrow> m \<noteq> n \<Longrightarrow> values_path m \<parallel> values_path n"
  using getFeaturePathInValues_inj [of m n] by (auto simp: parallel_def)

text \<open>
  What the model must hold for a feature: the binding's values as they are, or else the values
  rendered so far with the profile's merged over them.
\<close>

definition wanted_values :: "profile \<Rightarrow> binding \<Rightarrow> jmap \<Rightarrow> string \<Rightarrow> gerr + json" where
  "wanted_values pr pb model n =
     (case fs_values (fspec_at (bs_features (pb_spec pb)) n) of
        Some r \<Rightarrow> bindE (unmarshal_map r None) (\<lambda>m. Inr (case m of None \<Rightarrow> JNull | Some m' \<Rightarrow> JObj m'))
      | None \<Rightarrow>
          bindE (NestedMap model (values_path n)) (\<lambda>cur.
          bindE (case fs_values (fspec_at (pr_features pr) n) of None \<Rightarrow> Inr None | Some r \<Rightarrow> unmarshal_map r None) (\<lambda>m.
            Inr (JObj (MergeMaps (of_nil cur) (of_nil m))))))"

lemma user_feature_values_Inr:
  assumes "user_feature_values pr pb model n = Inr model'"
  shows "\<exists>v. wanted_values pr pb model n = Inr v \<and> SetNestedField model v (values_path n) = Inr model'"
proof (cases "fs_values (fspec_at (bs_features (pb_spec pb)) n)")
  case (Some r)
  with assms show ?thesis
    by (auto simp: user_feature_values_def wanted_values_def set_map_def bindE_Inr_iff simp del: SetNestedField.simps)
next
  case None
  let ?u = "case fs_values (fspec_at (pr_features pr) n) of None \<Rightarrow> Inr None | Some r \<Rightarrow> unmarshal_map r None"
  from None assms obtain cur m where "NestedMap model (values_path n) = Inr cur" "?u = Inr m"
    "SetNestedField model (JObj (MergeMaps (of_nil cur) (of_nil m))) (values_path n) = Inr model'"
    by (simp add: user_feature_values_def Let_def bindE_Inr_iff del: SetNestedField.simps) blast
  with None show ?thesis by (simp add: wanted_values_def del: SetNestedField.simps)
qed

lemma wanted_values_cong:
  assumes "NestedFieldNoCopy m1 (values_path n) = NestedFieldNoCopy m2 (values_path n)"
  shows "wanted_values pr pb m1 n = wanted_values pr pb m2 n"
  unfolding wanted_values_def NestedMap_def assms ..

lemma user_values_for_other:
  "user_values_for pr pb names model = Inr model' \<Longrightarrow> \<forall>n \<in> set names. values_path n \<parallel> q \<Longrightarrow>
     NestedFieldNoCopy model' q = NestedFieldNoCopy model q"
proof (induction names arbitrary: model)
  case Nil
  then show ?case by simp
next
  case (Cons n names)
  from Cons.prems(1) obtain m1 where m1: "user_feature_values pr pb model n = Inr m1" "user_values_for pr pb names m1 = Inr model'"
    by (auto simp: bindE_Inr_iff)
  from user_feature_values_Inr [OF m1(1)] obtain v where "SetNestedField model v (values_path n) = Inr m1" by blast
  then have "NestedFieldNoCopy m1 q = NestedFieldNoCopy model q" using Cons.prems(2) by (intro tree.get_put_other) auto
  with Cons.IH [OF m1(2)] Cons.prems(2) show ?case by simp
qed

lemma user_values_for_result:
  "user_values_for pr pb names model = Inr model' \<Longrightarrow> distinct names \<Longrightarrow> \<forall>n \<in> set names. CHR ''_'' \<notin> set n \<Longrightarrow>
     \<forall>n \<in> set names. \<exists>v. wanted_values pr pb model n = Inr v \<and> NestedFieldNoCopy model' (values_path n) = Inr (Some v)"
proof (induction names arbitrary: model)
  case Nil
  then show ?case by simp
next
  case (Cons n names)
  from Cons.prems(1) obtain m1 where m1: "user_feature_values pr pb model n = Inr m1" "user_values_for pr pb names m1 = Inr model'"
    by (auto simp: bindE_Inr_iff)
  from user_feature_values_Inr [OF m1(1)] obtain v where v: "wanted_values pr pb model n = Inr v"
    "SetNestedField model v (values_path n) = Inr m1" by blast
  have par: "values_path m \<parallel> values_path n" "values_path n \<parallel> values_path m" if "m \<in> set names" for m
    using that Cons.prems(2,3) values_path_parallel [of m n] values_path_parallel [of n m] by auto
  have "NestedFieldNoCopy model' (values_path n) = Inr (Some v)"
    using user_values_for_other [OF m1(2), of "values_path n"] par(1) tree.get_put [OF v(2)] by auto
  moreover have "wanted_values pr pb m1 m = wanted_values pr pb model m" if "m \<in> set names" for m
    using tree.get_put_other [OF v(2) par(2) [OF that]] by (rule wanted_values_cong)
  ultimately show ?case using v(1) Cons.IH [OF m1(2)] Cons.prems(2,3) by auto
qed

text \<open>
  C29: the values a feature set is rendered with are the user's. For features whose names have
  no underscore (as Kubernetes names have none), setting the user values leaves in the model,
  for every feature, the binding's values untouched where the binding has some, and otherwise
  the rendered values with the profile's merged over them; paths of no listed feature keep
  their value.
\<close>

theorem user_values_win:
  assumes "user_values_for pr pb names model = Inr model'" and "distinct names" and "\<forall>n \<in> set names. CHR ''_'' \<notin> set n"
  shows "(\<forall>n \<in> set names. \<exists>v. wanted_values pr pb model n = Inr v \<and> NestedFieldNoCopy model' (values_path n) = Inr (Some v)) \<and>
    (\<forall>q. (\<forall>n \<in> set names. values_path n \<parallel> q) \<longrightarrow> NestedFieldNoCopy model' q = NestedFieldNoCopy model q)"
  using user_values_for_result [OF assms] user_values_for_other [OF assms(1)] by blast

section \<open>Where it fails\<close>

text \<open>
  C35: enabling features never succeeds for a profile whose opscenter-features chart names no
  source: the controller passes no chart reference of its own, and the nil reference is
  dereferenced before anything is installed.
\<close>

theorem EnableFeatures_needs_source:
  assumes "sr_name (ch_source (fs_chart (fspec_at (pr_features pr) ChartOpscenterFeatures))) = ''''"
  shows "fst (EnableFeatures E fuel pb info pr st) \<noteq> Inr r"
proof
  assume "fst (EnableFeatures E fuel pb info pr st) = Inr r"
  then obtain st' where "EnableFeatures E fuel pb info pr st = (Inr r, st')" by (cases "EnableFeatures E fuel pb info pr st") simp
  then obtain x st1 where "prepare_features E pb pr st = (Inr x, st1)"
    unfolding EnableFeatures_def by (elim bindM_InrE)
  then obtain f f' y where "InstallOpscenterFeaturesOnFakeServer E pr pb (Some (bs_cluster (pb_spec pb))) None f = (Inr y, f')"
    unfolding prepare_features_def by (elim bindM_InrE onfake_InrE) blast
  then obtain ov f1 u f2 where "InstallOpscenterFeatures E ov (installer_chart E pr None) f1 = (Inr u, f2)"
    unfolding InstallOpscenterFeaturesOnFakeServer_def by (elim bindM_InrE) (auto split: prod.splits elim: bindM_InrE)
  with assms show False by (simp add: installer_chart_def InstallOpscenterFeatures_def raise_run)
qed

section \<open>Shipped to the end\<close>

text \<open>A run that succeeds carries a property of the hub over.\<close>

definition carries :: "(world \<Rightarrow> bool) \<Rightarrow> ('f, 'a) run \<Rightarrow> bool" where
  "carries J m \<longleftrightarrow> (\<forall>st x st'. m st = (Inr x, st') \<longrightarrow> J (fst st) \<longrightarrow> J (fst st'))"

lemma carriesD: "carries J m \<Longrightarrow> m st = (Inr x, st') \<Longrightarrow> J (fst st) \<Longrightarrow> J (fst st')"
  unfolding carries_def by blast

lemma carries_bind:
  assumes "carries J m" and "\<And>x. carries J (g x)"
  shows "carries J (bindM m g)"
  unfolding carries_def
proof (intro allI impI)
  fix st y st''
  assume "bindM m g st = (Inr y, st'')" and J: "J (fst st)"
  then obtain x st' where "m st = (Inr x, st')" "g x st' = (Inr y, st'')" by (elim bindM_InrE)
  with J assms show "J (fst st'')" by (blast dest: carriesD)
qed

lemma carries_onhub: "(\<And>w x w'. m w = (Inr x, w') \<Longrightarrow> J w \<Longrightarrow> J w') \<Longrightarrow> carries J (onhub m)"
  unfolding carries_def by (intro allI impI, elim onhub_InrE) simp

lemma carries_simps: "carries J (onfake p)" "carries J (asks q)" "carries J (ret x)" "carries J (raise e)"
  unfolding carries_def by (auto elim: onfake_InrE asks_InrE simp: ret_run raise_run)

lemma carries_foldM:
  assumes "\<And>x s. x \<in> set xs \<Longrightarrow> carries J (g s x)"
  shows "carries J (foldM g s xs)"
  using assms
proof (induction xs arbitrary: s)
  case Nil
  then show ?case by (simp add: carries_simps)
next
  case (Cons x xs)
  then show ?case by (auto intro!: carries_bind)
qed

text \<open>A property of one ManifestWork, whatever the faults.\<close>

abbreviation work_at :: "objkey \<Rightarrow> (manifestwork option \<Rightarrow> bool) \<Rightarrow> world \<Rightarrow> bool" where
  "work_at k Q w \<equiv> Q (find_obj k (w_mws w))"

lemma write_elsewhere:
  assumes "CreateOrPatch works mw tr w = (Inr x, w')" and "obj_key mw \<noteq> k"
    and "\<And>c. obj_key (tr c) = obj_key c" and "work_at k Q w"
  shows "work_at k Q w'"
proof (cases rule: mwk.create_or_patch_cases [of mw tr w])
  case (patched cur fs)
  then have "obj_key (tr cur) = obj_key mw" using find_obj_key assms(3) by fastforce
  moreover from patched assms(1) have w': "w' = snd works (put_obj (tr cur)) (w\<lparr>w_faults := fs\<rparr>)" by simp
  ultimately show ?thesis using assms(2,4) unfolding w' by (simp add: works_def kube.look_put)
next
  case (created y fs)
  then have "obj_key y = obj_key mw" by (simp add: assms(3))
  moreover from created assms(1) have w': "w' = snd works (put_obj y) (w\<lparr>w_faults := fs\<rparr>)" by simp
  ultimately show ?thesis using assms(2,4) unfolding w' by (simp add: works_def kube.look_put)
next
  case (failed e fs)
  with assms(1) show ?thesis by simp
qed

lemma read_carries:
  assumes "\<exists>fs. w' = w\<lparr>w_faults := fs\<rparr>" and "work_at k Q w"
  shows "work_at k Q w'"
  using assms by auto

lemma updateManifestWork_elsewhere:
  assumes "obj_key mw \<noteq> k"
  shows "carries (work_at k Q) (updateManifestWork E mw pr)"
  unfolding updateManifestWork_def
  by (intro carries_bind carries_simps carries_onhub)
    (erule write_elsewhere, use assms in \<open>simp_all add: store_work_def with_spec_def\<close>)

lemma applyFeatureSet_elsewhere:
  "obj_key mw \<noteq> k \<Longrightarrow> carries (work_at k Q) (applyFeatureSet E mw s names pr mc pb)"
  unfolding applyFeatureSet_def by (intro carries_bind carries_simps updateManifestWork_elsewhere)

lemma get_reads: "api_get clusters k w = (Inr x, w') \<Longrightarrow> \<exists>fs. w' = w\<lparr>w_faults := fs\<rparr>"
  by (cases rule: clk.get_cases [of k w]) auto

lemma get_or_new_reads: "get_or_new mw w = (Inr x, w') \<Longrightarrow> \<exists>fs. w' = w\<lparr>w_faults := fs\<rparr>"
  by (cases rule: mwk.get_cases [of "obj_key mw" w])
    (auto simp: get_or_new_def tryM_run ret_run raise_run split: if_splits)

lemma enableFeatureSet_elsewhere:
  assumes "(om_ns pb, s) \<noteq> k"
  shows "carries (work_at k Q) (enableFeatureSet E s names pr pb ov)"
  unfolding carries_def
proof (intro allI impI)
  fix st x st'
  assume e: "enableFeatureSet E s names pr pb ov st = (Inr x, st')" and J: "work_at k Q (fst st)"
  let ?n = "if s = ''opscenter-core'' then core_features names else names"
  have key: "obj_key (new_work s pr pb) = (om_ns pb, s)" by (simp add: new_work_def obj_key_def)
  have "\<not> (s = ''opscenter-core'' \<and> (ChartOpscenterFeatures \<notin> set names \<or> ''kube-ui-server'' \<notin> set names))"
    using enableFeatureSet_core [OF e] by blast
  with e obtain mc s1 mw s2 where c: "onhub (api_get clusters ('''', om_ns pb)) st = (Inr mc, s1)"
    and mw: "onhub (get_or_new (new_work s pr pb)) s1 = (Inr mw, s2)"
    and rest: "(if s = ''opscenter-core'' then
            bindM (onfake (install_core E names pr pb ov)) (\<lambda>_. applyFeatureSet E mw s (core_features names) pr mc pb)
          else applyFeatureSet E mw s names pr mc pb) s2 = (Inr x, st')"
    unfolding enableFeatureSet_def by (simp only: if_not_P simp_thms) (elim bindM_InrE, blast)
  have "carries (work_at k Q) (onhub (api_get clusters ('''', om_ns pb)))"
    by (intro carries_onhub) (erule read_carries [OF get_reads])
  from carriesD [OF this c J] have J1: "work_at k Q (fst s1)" .
  have "carries (work_at k Q) (onhub (get_or_new (new_work s pr pb)))"
    by (intro carries_onhub) (erule read_carries [OF get_or_new_reads])
  from carriesD [OF this mw J1] have J2: "work_at k Q (fst s2)" .
  from mw have "obj_key mw = (om_ns pb, s)" unfolding key [symmetric] by (elim onhub_InrE) (rule get_or_new_Inr)
  with assms have "carries (work_at k Q) (applyFeatureSet E mw s n pr mc pb)" for n by (simp add: applyFeatureSet_elsewhere)
  then have "carries (work_at k Q) (if s = ''opscenter-core'' then
            bindM (onfake (install_core E names pr pb ov)) (\<lambda>_. applyFeatureSet E mw s (core_features names) pr mc pb)
          else applyFeatureSet E mw s names pr mc pb)"
    by (auto intro: carries_bind carries_simps)
  from carriesD [OF this rest J2] show "work_at k Q (fst st')" .
qed

text \<open>Pruning keeps a listed release where it is shipped.\<close>

abbreviation shipped :: "string \<Rightarrow> string \<Rightarrow> manifestwork option \<Rightarrow> bool" where
  "shipped ns n mw \<equiv> (\<exists>x. mw = Some x \<and> ships x ns n)"

lemma GetKindNameNamespace_found:
  assumes "GetKindNameNamespace obj = Inr (k, n, ns)" and "k \<noteq> ''''"
  shows "NestedString obj [''kind''] = Inr (Some k)" and "NestedString obj [''metadata'', ''name''] = Inr (Some n)"
proof -
  from assms obtain k' where k: "NestedString obj [''kind''] = Inr (Some k')"
    by (auto simp: GetKindNameNamespace_def bindE_Inr_iff split: option.splits)
  with assms obtain n' where n: "NestedString obj [''metadata'', ''name''] = Inr (Some n')"
    by (auto simp: GetKindNameNamespace_def bindE_Inr_iff split: option.splits)
  from assms k n have "k' = k \<and> n' = n"
    by (cases "NestedString obj [''metadata'', ''namespace'']") (auto simp: GetKindNameNamespace_def split: option.splits)
  with k n show "NestedString obj [''kind''] = Inr (Some k)" and "NestedString obj [''metadata'', ''name''] = Inr (Some n)"
    by simp_all
qed

lemma kept_manifests_listed:
  "kept_manifests names ms = Inr (Some ms') \<Longrightarrow> m \<in> set ms \<Longrightarrow> manifest_id m = Inr (''HelmRelease'', n, ns) \<Longrightarrow>
     n \<in> set names \<Longrightarrow> m \<in> set ms'"
proof (induction ms arbitrary: ms')
  case Nil
  then show ?case by simp
next
  case (Cons a ms)
  from Cons.prems(1) obtain b ms1 where b: "keep_manifest names a = Inr (Some b)" "kept_manifests names ms = Inr (Some ms1)"
    "ms' = (if b then a # ms1 else ms1)"
    by (auto simp: bindE_Inr_iff split: option.splits)
  show ?case
  proof (cases "m = a")
    case True
    from Cons.prems(3) True obtain obj where obj: "manifest_object a = Inr obj" "GetKindNameNamespace obj = Inr (''HelmRelease'', n, ns)"
      by (auto simp: manifest_id_def bindE_Inr_iff)
    from GetKindNameNamespace_found [OF obj(2)] have "NestedString obj [''kind''] = Inr (Some ''HelmRelease'')"
      "NestedString obj [''metadata'', ''name''] = Inr (Some n)" by simp_all
    with obj(1) b(1) Cons.prems(4) have b by (simp add: keep_manifest_def)
    with b(3) True show ?thesis by simp
  next
    case False
    with Cons.IH [OF b(2)] Cons.prems b(3) show ?thesis by auto
  qed
qed

lemma removeHR_ships:
  assumes r: "removeHRFomManifestWork mw names w = (Inr x, w')" and at: "find_obj (obj_key mw) (w_mws w) = Some mw"
    and s: "ships mw ns n" and n: "n \<in> set names"
  shows "shipped ns n (find_obj (obj_key mw) (w_mws w'))"
proof -
  from r obtain kept where k: "kept_manifests names (mw_manifests mw) = Inr kept"
    by (cases "kept_manifests names (mw_manifests mw)") (simp_all add: removeHRFomManifestWork_def bindM_run liftM_run)
  from s obtain m where m: "m \<in> set (mw_manifests mw)" "manifest_id m = Inr (''HelmRelease'', n, ns)" and ri: "rules_installed mw ns n"
    unfolding ships_def by blast
  show ?thesis
  proof (cases "kept = None \<or> kept = Some (mw_manifests mw)")
    case True
    with r k have "w' = w" by (auto simp: removeHRFomManifestWork_def bindM_run liftM_run ret_run)
    with at s show ?thesis by simp
  next
    case False
    then obtain ms where ms: "kept = Some ms" "mw_manifests mw \<noteq> ms" by auto
    from kept_manifests_listed [OF k [unfolded ms(1)] m n] have mem: "m \<in> set ms" .
    let ?mw = "mw\<lparr>mw_manifests := ms\<rparr>"
    from mem have "ms \<noteq> []" by auto
    with r k ms obtain y w1 where c: "CreateOrPatch works ?mw (with_spec ?mw) w = (Inr y, w1)" and w1: "w' = w1"
      by (auto simp: removeHRFomManifestWork_def bindM_Inr_iff liftM_run ret_run)
    from c have y: "obj_key y = obj_key mw" "mw_manifests y = ms" "mw_configs y = mw_configs mw"
      using find_obj_key by (cases rule: mwk.create_or_patch_cases [of ?mw "with_spec ?mw" w]; fastforce simp: with_spec_def)+
    then have "ships y ns n" using mem m(2) ri unfolding ships_def by (auto simp: rules_installed_def)
    moreover from mwk.stored [OF c] y(1) w1 have "find_obj (obj_key mw) (w_mws w') = Some y" by (simp add: works_def)
    ultimately show ?thesis by simp
  qed
qed

lemma removeHR_elsewhere:
  assumes "removeHRFomManifestWork mw names w = (Inr x, w')" and "obj_key mw \<noteq> k" and "work_at k Q w"
  shows "work_at k Q w'"
proof -
  from assms(1) obtain kept where k: "kept_manifests names (mw_manifests mw) = Inr kept"
    by (cases "kept_manifests names (mw_manifests mw)") (simp_all add: removeHRFomManifestWork_def bindM_run liftM_run)
  show ?thesis
  proof (cases "kept = None \<or> kept = Some (mw_manifests mw)")
    case True
    with assms k have "w' = w" by (auto simp: removeHRFomManifestWork_def bindM_run liftM_run ret_run)
    with assms show ?thesis by simp
  next
    case False
    then obtain ms where ms: "kept = Some ms" "mw_manifests mw \<noteq> ms" by auto
    let ?mw = "mw\<lparr>mw_manifests := ms\<rparr>"
    from assms(1) k ms obtain w1 y where d: "(if ms = [] then api_delete works (obj_key mw) else ret ()) w = (Inr (), w1)"
      and c: "CreateOrPatch works ?mw (with_spec ?mw) w1 = (Inr y, w')"
      by (auto simp: removeHRFomManifestWork_def bindM_Inr_iff liftM_run ret_run)
    from d assms(2,3) have "work_at k Q w1"
      by (cases rule: mwk.delete_cases [of "obj_key mw" w]) (auto simp: works_def kube.look_del ret_run split: if_splits)
    with write_elsewhere [OF c, of k Q] assms(2) show ?thesis by (simp add: with_spec_def)
  qed
qed

lemma info_at_mem: "distinct (map fst info) \<Longrightarrow> (k, ns) \<in> set info \<Longrightarrow> info_at info k = ns"
  by (simp add: info_at_def)

lemma prune_one_shipped:
  assumes "prune_one cl (s, names) w = (Inr x, w')" and "shipped ns n (find_obj k (w_mws w))"
    and "k = (cl, s) \<Longrightarrow> n \<in> set names"
  shows "shipped ns n (find_obj k (w_mws w'))"
proof (cases rule: mwk.get_cases [of "(cl, s)" w])
  case (found mw fs)
  then have mw: "find_obj (cl, s) (w_mws w) = Some mw" by (simp add: works_def)
  then have key: "obj_key mw = (cl, s)" by (simp add: find_obj_key)
  from found assms(1) have r: "removeHRFomManifestWork mw names (w\<lparr>w_faults := fs\<rparr>) = (Inr x, w')"
    by (simp add: prune_one_def bindM_run tryM_run ret_run)
  show ?thesis
  proof (cases "k = (cl, s)")
    case True
    with assms(2) mw have "ships mw ns n" by simp
    from removeHR_ships [OF r _ this assms(3) [OF True]] mw key True show ?thesis by simp
  next
    case False
    with key have "obj_key mw \<noteq> k" by simp
    from removeHR_elsewhere [OF r this, of "shipped ns n"] assms(2) show ?thesis by simp
  qed
next
  case (failed e fs)
  with assms(1) have "w' = w\<lparr>w_faults := fs\<rparr>"
    by (auto simp: prune_one_def bindM_run tryM_run ret_run raise_run liftM_run removeHRFomManifestWork_def zero_work_def split: if_splits)
  with assms(2) show ?thesis by simp
qed

lemma prune_all_shipped:
  assumes "prune_all cl info w = (Inr x, w')" and "shipped ns n (find_obj (cl, s) (w_mws w))"
    and "\<forall>names. (s, names) \<in> set info \<longrightarrow> n \<in> set names"
  shows "shipped ns n (find_obj (cl, s) (w_mws w'))"
  using assms
proof (induction info arbitrary: w)
  case Nil
  then show ?case by (simp add: prune_all_def ret_run)
next
  case (Cons fl info)
  obtain s' names where fl: "fl = (s', names)" by (cases fl)
  from Cons.prems(1) obtain y w1 where p: "prune_one cl (s', names) w = (Inr y, w1)" and l: "prune_all cl info w1 = (Inr x, w')"
    by (auto simp: prune_all_def bindM_Inr_iff fl)
  have "shipped ns n (find_obj (cl, s) (w_mws w1))"
    using prune_one_shipped [OF p Cons.prems(2)] Cons.prems(3) fl by auto
  from Cons.IH [OF l this] Cons.prems(3) show ?case by auto
qed

lemma sanitize_reads: "sanitizeFeatures E cl ns w = (Inr out, w') \<Longrightarrow> \<exists>fs. w' = w\<lparr>w_faults := fs\<rparr>"
  using sanitizeFeatures_Inr by blast

lemma enable_other_elsewhere:
  assumes "(om_ns pb, ''opscenter-core'') = k"
  shows "carries (work_at k Q) (enable_other E pr pb ov fl)"
proof (cases "fst fl = ''opscenter-core''")
  case True
  then show ?thesis by (simp add: enable_other_def carries_simps)
next
  case False
  with assms have "(om_ns pb, fst fl) \<noteq> k" by auto
  then show ?thesis unfolding enable_other_def if_not_P [OF False]
    by (intro carries_bind carries_onhub enableFeatureSet_elsewhere) (erule read_carries [OF sanitize_reads])
qed

lemma EnableFeatures_steps:
  assumes "EnableFeatures E fuel pb info pr st = (Inr (Some u), st')"
    and "prepare_features E pb pr st = (Inr ov, (w1, f1))"
  obtains w2 info' s2 u1 u2 w3 f3 w4 u3 where
    "addRequiredFeatures E f1 fuel (om_ns pb) info w1 = (Inr (Some info'), w2)"
    "enableFeatureSet E ''opscenter-core'' (info_at info' ''opscenter-core'') pr pb ov (w2, f1) = (Inr u1, s2)"
    "foldM (\<lambda>_. enable_other E pr pb ov) () (range_order E 3 info') s2 = (Inr u2, (w3, f3))"
    "prune_all (om_ns pb) (range_order E 4 info') w3 = (Inr u3, w4)" "fst st' = w4"
proof -
  from assms(1) obtain ov' s' f' s'' r s1 where st: "prepare_features E pb pr st = (Inr ov', s')" "asks Inr s' = (Inr f', s'')"
    and a: "onhub (addRequiredFeatures E f' fuel (om_ns pb) info) s'' = (Inr r, s1)"
    and b: "(case r of None \<Rightarrow> ret None | Some info' \<Rightarrow>
         bindM (enableFeatureSet E ''opscenter-core'' (info_at info' ''opscenter-core'') pr pb ov') (\<lambda>_.
         bindM (foldM (\<lambda>_. enable_other E pr pb ov') () (range_order E 3 info')) (\<lambda>_.
         bindM (onhub (prune_all (om_ns pb) (range_order E 4 info'))) (\<lambda>_. ret (Some ()))))) s1 = (Inr (Some u), st')"
    unfolding EnableFeatures_def by (elim bindM_InrE)
  from st assms(2) have eq: "ov' = ov" "f' = f1" "s'' = (w1, f1)" by (auto simp: asks_run)
  note add = a [unfolded eq] and rest = b [unfolded eq]
  from rest obtain info' where r: "r = Some info'" by (cases r) (simp_all add: ret_run)
  from add [unfolded r] obtain h g w2 where hg: "(w1, f1) = (h, g)" "s1 = (w2, g)"
    "addRequiredFeatures E f1 fuel (om_ns pb) info h = (Inr (Some info'), w2)"
    by (elim onhub_InrE)
  then have a: "addRequiredFeatures E f1 fuel (om_ns pb) info w1 = (Inr (Some info'), w2)" and s1: "s1 = (w2, f1)"
    by blast+
  from rest [unfolded r option.case s1] obtain u1 s2 u2 s3 u3 s4 where
    c: "enableFeatureSet E ''opscenter-core'' (info_at info' ''opscenter-core'') pr pb ov (w2, f1) = (Inr u1, s2)" and
    oth: "foldM (\<lambda>_. enable_other E pr pb ov) () (range_order E 3 info') s2 = (Inr u2, s3)" and
    p: "onhub (prune_all (om_ns pb) (range_order E 4 info')) s3 = (Inr u3, s4)" and e: "ret (Some ()) s4 = (Inr (Some u), st')"
    by (elim bindM_InrE)
  from p obtain w3 f3 w4 where "s3 = (w3, f3)" "s4 = (w4, f3)" "prune_all (om_ns pb) (range_order E 4 info') w3 = (Inr u3, w4)"
    by (elim onhub_InrE)
  with a c oth e show thesis by (intro that) (simp_all add: ret_run, auto)
qed

text \<open>
  What the core set is asked for and the server can hand out: a feature other than flux2 and the
  license proxy, whose release is not on the server when the sets begin, or is exported still;
  opscenter-features is put there by the code and must only not be taken away.
\<close>

definition to_be_shipped :: "'f fakeenv \<Rightarrow> 'f \<Rightarrow> string \<Rightarrow> bool" where
  "to_be_shipped E f n \<longleftrightarrow>
     n \<noteq> ChartFluxCD \<and> n \<noteq> ChartLicenseProxyServer \<and>
     (if n = ChartOpscenterFeatures then keeps_release E n
      else \<not> on_server E f (fe_boot_ns E, n) \<or> exports E f (fe_boot_ns E, n))"

lemma enableFeatureSet_core_ships:
  assumes "enableFeatureSet E ''opscenter-core'' names pr pb ov (w, f) = (Inr u, st')" and "checkpointed_server E"
    and "n \<in> set names" and "to_be_shipped E f n"
  shows "shipped (fe_boot_ns E) n (find_obj (om_ns pb, ''opscenter-core'') (w_mws (fst st')))"
proof -
  obtain w' f' where st': "st' = (w', f')" by (cases st')
  from assms(1,2) obtain x where x: "find_obj (om_ns pb, ''opscenter-core'') (w_mws w') = Some x"
    "\<And>n. n \<in> set (set_names ''opscenter-core'' names) \<Longrightarrow> on_server E f' (fe_boot_ns E, n)"
    "\<And>n. pending_on E f (fe_boot_ns E, n) \<Longrightarrow> on_server E f' (fe_boot_ns E, n) \<Longrightarrow> ships x (fe_boot_ns E) n"
    "on_server E f' (fe_boot_ns E, ChartOpscenterFeatures) \<Longrightarrow> ships x (fe_boot_ns E) ChartOpscenterFeatures"
    "keeps_release E ChartOpscenterFeatures \<Longrightarrow> on_server E f' (fe_boot_ns E, ChartOpscenterFeatures)"
    unfolding st' by (auto elim!: enableFeatureSet_shipped)
  have "ships x (fe_boot_ns E) n"
  proof (cases "n = ChartOpscenterFeatures")
    case True
    with assms(4) x(4,5) show ?thesis by (simp add: to_be_shipped_def)
  next
    case False
    with assms(3,4) have "n \<in> set (set_names ''opscenter-core'' names)" "pending_on E f (fe_boot_ns E, n)"
      by (auto simp: to_be_shipped_def core_features_def pending_on_def)
    with x(2,3) show ?thesis by blast
  qed
  with x(1) st' show ?thesis by simp
qed

lemma EnableFeatures_core:
  assumes "EnableFeatures E fuel pb info pr st = (Inr (Some ()), st')"
    and "prepare_features E pb pr st = (Inr ov, (w1, f1))"
    and "checkpointed_server E" and "distinct (map fst info)"
    and "n \<in> set (info_at info ''opscenter-core'')" and "to_be_shipped E f1 n"
  shows "\<exists>x. find_obj (om_ns pb, ''opscenter-core'') (w_mws (fst st')) = Some x \<and> ships x (fe_boot_ns E) n"
proof -
  from assms(1,2) obtain w2 info' s2 u1 u2 w3 f3 w4 u3 where
    a: "addRequiredFeatures E f1 fuel (om_ns pb) info w1 = (Inr (Some info'), w2)" and
    c: "enableFeatureSet E ''opscenter-core'' (info_at info' ''opscenter-core'') pr pb ov (w2, f1) = (Inr u1, s2)" and
    oth: "foldM (\<lambda>_. enable_other E pr pb ov) () (range_order E 3 info') s2 = (Inr u2, (w3, f3))" and
    p: "prune_all (om_ns pb) (range_order E 4 info') w3 = (Inr u3, w4)" and st': "fst st' = w4"
    by (rule EnableFeatures_steps)
  from addRequiredFeatures_keys [OF a assms(4)] have keys: "distinct (map fst info')" .
  from addRequiredFeatures_at [OF a, of "''opscenter-core''"] obtain app
    where "info_at info' ''opscenter-core'' = info_at info ''opscenter-core'' @ app" by blast
  with assms(5) have n: "n \<in> set (info_at info' ''opscenter-core'')" by simp
  let ?at = "shipped (fe_boot_ns E) n"
  have "?at (find_obj (om_ns pb, ''opscenter-core'') (w_mws (fst s2)))"
    by (rule enableFeatureSet_core_ships [OF c assms(3) n assms(6)])
  moreover have "carries (work_at (om_ns pb, ''opscenter-core'') ?at)
      (foldM (\<lambda>_. enable_other E pr pb ov) () (range_order E 3 info'))"
    by (intro carries_foldM enable_other_elsewhere refl)
  ultimately have "?at (find_obj (om_ns pb, ''opscenter-core'') (w_mws w3))" using oth by (auto dest: carriesD)
  moreover have "\<forall>names. (''opscenter-core'', names) \<in> set (range_order E 4 info') \<longrightarrow> n \<in> set names"
    using n info_at_mem [OF keys] by auto
  ultimately show ?thesis using prune_all_shipped [OF p] unfolding st' by blast
qed

text \<open>
  C9: what the profile asks for is on the cluster's way. When enabling the features succeeds,
  whatever failed and was tolerated in between, the opscenter-core ManifestWork on the hub
  ships a HelmRelease of every core feature of the profile but flux2 and the license proxy: no
  later step, neither another feature set nor the pruning, takes it out again. The fake server
  exports what was written since its last checkpoint, so the release must not be there already
  when the sets begin; that of opscenter-features is written in any case and must only not be
  removed by the chart.
\<close>

theorem EnableFeatures_ships_core:
  assumes "EnableFeatures E fuel pb info pr st = (Inr (Some ()), st')"
    and "prepare_features E pb pr st = (Inr ov, (w1, f1))"
    and "checkpointed_server E" and "distinct (map fst info)"
    and "n \<in> set (info_at info ''opscenter-core'')" and "to_be_shipped E f1 n"
  shows "\<exists>x. find_obj (om_ns pb, ''opscenter-core'') (w_mws (fst st')) = Some x \<and> ships x (fe_boot_ns E) n"
  using assms by (rule EnableFeatures_core)

section \<open>A profile enabled\<close>

text \<open>
  A server that keeps the releases with a mark for those written since the last checkpoint, as
  the vendored one does with resource versions; its only chart renders kube-ui-server.
\<close>

type_synonym relserver = "(helmrelease \<times> bool) list"

definition write_release :: "helmrelease \<Rightarrow> relserver \<Rightarrow> relserver" where
  "write_release h f = (h, True) # filter (\<lambda>p. obj_key (fst p) \<noteq> obj_key h) f"

definition release_meta :: "helmrelease \<Rightarrow> jmap" where
  "release_meta h = fmupd ''name'' (JStr (om_name h)) (fmupd ''namespace'' (JStr (om_ns h)) fmempty)"

definition release_object :: "jmap \<Rightarrow> jmap" where
  "release_object md = fmupd ''kind'' (JStr ''HelmRelease'') (fmupd ''metadata'' (JObj md) fmempty)"

definition release_item :: "helmrelease \<Rightarrow> jmap" where
  "release_item h = release_object (fmupd ''resourceVersion'' (JStr ''7'') (release_meta h))"

definition release_text :: "helmrelease \<Rightarrow> raw" where
  "release_text h = Text (JObj (release_object (release_meta h)))"

lemma release_item_id [simp]: "GetKindNameNamespace (release_item h) = Inr (''HelmRelease'', om_name h, om_ns h)"
  by (simp add: release_item_def release_object_def release_meta_def GetKindNameNamespace_def NestedString_def NestedFieldNoCopy_def)

lemma release_text_id [simp]: "manifest_id (release_text h) = Inr (''HelmRelease'', om_name h, om_ns h)"
  by (simp add: release_text_def release_object_def release_meta_def manifest_id_def manifest_object_def
      GetKindNameNamespace_def NestedString_def NestedFieldNoCopy_def)

lemma release_text_kept: "keep_manifest names (release_text h) = Inr (Some (om_name h \<in> set names))"
  by (simp add: keep_manifest_def release_text_def release_object_def release_meta_def manifest_object_def
      NestedString_def NestedFieldNoCopy_def)

lemma release_item_stripped: "strip_version (release_item h) = Inr (release_object (release_meta h))"
proof -
  have "fmdrop ''resourceVersion'' (fmupd ''resourceVersion'' (JStr ''7'') (release_meta h)) = release_meta h"
    by (rule fmap_ext) (simp add: release_meta_def)
  then show ?thesis by (simp add: strip_version_def release_item_def release_object_def fmupd_reorder_neq)
qed

lemma releases_exported:
  "exported work (map release_item hs) = Inr (map (\<lambda>h. (release_text h, release_config (om_ns h) (om_name h))) hs)"
  by (induction hs) (simp_all add: release_item_stripped skip_item_def release_text_def)

definition kube_release :: helmrelease where
  "kube_release =
     \<lparr> om_name = ''kube-ui-server'', om_ns = ''kubeops'', om_labels = Map.empty, om_annots = Map.empty, om_owners = [],
       om_created = 0,
       hr_spec = \<lparr> hs_chart = None, hs_values_from = [], hs_values = None, hs_target_ns = '''', hs_storage_ns = '''',
         hs_install = None, hs_depends = [], hs_rest = JNull \<rparr> \<rparr>"

definition core_feature :: "string \<Rightarrow> feature" where
  "core_feature n = (cat_feature n '''' [])\<lparr>ft_set := ''opscenter-core''\<rparr>"

definition core_set :: featureset where
  "core_set =
     \<lparr> om_name = ''opscenter-core'', om_ns = '''', om_labels = Map.empty, om_annots = Map.empty, om_owners = [],
       om_created = 0, fset_chart = \<lparr> cr_name = ''opscenter-core'', cr_version = ''v1'', cr_source = no_source \<rparr> \<rparr>"

definition inst_env :: "relserver fakeenv" where
  "inst_env =
     \<lparr> fe_codec = \<lparr> hc_dec = (\<lambda>m. Inl (ErrText ''no release'')), hc_enc = (\<lambda>h. Inl (ErrText ''no release'')),
         hc_spec = (\<lambda>s. Inr fmempty) \<rparr>,
       fe_boot_name = ''bootstrap'', fe_boot_ns = ''kubeops'', fe_start = (\<lambda>b gs. Inr []),
       fe_http = (\<lambda>f. Inr ()), fe_mapper = (\<lambda>f. Inr ()), fe_client = (\<lambda>f. Inr ()), fe_crd_client = (\<lambda>f. Inr ()),
       fe_create = (\<lambda>u. ret ()), fe_repo = (\<lambda>f. no_source), fe_register = (\<lambda>cs. ret ()),
       fe_chart = (\<lambda>f c. Inr \<lparr> chart_values = fmempty, chart_crds = [] \<rparr>),
       fe_crd = (\<lambda>d. Inl (ErrText ''no crd'')), fe_mapping = (\<lambda>f g k v. None), fe_raw_config = (\<lambda>f. Inr ()),
       fe_helm_init = (\<lambda>f n d. None), fe_deploy = (\<lambda>opts. ret ()),
       fe_feature = (\<lambda>f n. Inr (core_feature n)), fe_featureset = (\<lambda>f n. Inr core_set),
       fe_features_in = (\<lambda>f s. Inr []), fe_releases = (\<lambda>f n s. Inr 1), fe_resources = (\<lambda>f g. Inr 0),
       fe_release = (\<lambda>f k. case filter (\<lambda>p. obj_key (fst p) = k) f of [] \<Rightarrow> Inl ErrNotFound | p # ps \<Rightarrow> Inr (fst p)),
       fe_put_release = (\<lambda>h f. (Inr (), write_release h f)), fe_set_chart_info = (\<lambda>f ft k v. (None, v)),
       fe_apply = (\<lambda>c v f. (Inr (), write_release kube_release f)),
       fe_export = (\<lambda>f. map (release_item \<circ> fst) (filter snd f)),
       fe_checkpoint = map (\<lambda>p. (fst p, False)), fe_claim = (\<lambda>s. Inr cat_claim),
       fe_gob_enc = (\<lambda>m. Inr ''''), fe_gob_dec = (\<lambda>b. Inr fmempty), fe_order = (\<lambda>i n. []) \<rparr>"

definition inst_chart :: chartinfo where
  "inst_chart = no_chart\<lparr>ch_name := ''opscenter-features'', ch_version := ''v1'', ch_source := no_source\<lparr>sr_name := ''bootstrap''\<rparr>\<rparr>"

definition inst_profile :: profile where
  "inst_profile =
     \<lparr> om_name = ''p1'', om_ns = '''', om_labels = Map.empty, om_annots = Map.empty, om_owners = [], om_created = 0,
       pr_features = [(''opscenter-features'', zero_fspec\<lparr>fs_set := ''opscenter-core'', fs_chart := inst_chart\<rparr>),
                      (''kube-ui-server'', zero_fspec\<lparr>fs_set := ''opscenter-core''\<rparr>)] \<rparr>"

definition inst_binding :: binding where
  "inst_binding =
     \<lparr> om_name = ''c1'', om_ns = ''c1'', om_labels = [ClusterProfileLabel \<mapsto> ''p1''], om_annots = Map.empty,
       om_owners = [NewControllerRef ''ManagedClusterSetProfile'' inst_profile], om_created = 0,
       pb_spec = \<lparr> bs_profile = ''p1'', bs_cluster = zero_clusterinfo, bs_version = '''', bs_features = [] \<rparr>,
       pb_status = zero_status \<rparr>"

definition inst_replicaset :: "string \<Rightarrow> mwreplicaset" where
  "inst_replicaset n =
     \<lparr> om_name = n, om_ns = ''open-cluster-management-addon'', om_labels = Map.empty, om_annots = Map.empty,
       om_owners = [], om_created = 0, rs_manifests = [] \<rparr>"

definition inst_set :: managedclusterset where
  "inst_set =
     \<lparr> om_name = ''p1'', om_ns = '''', om_labels = Map.empty, om_annots = Map.empty, om_owners = [], om_created = 0,
       cs_type = ''LabelSelector'', cs_selector = None \<rparr>"

definition inst_world :: world where
  "inst_world = cat_world
     \<lparr> w_mwrs := [inst_replicaset ''ace-namespace'', inst_replicaset ''ace-bootstrap''],
       w_profiles := [inst_profile], w_bindings := [inst_binding], w_sets := [inst_set] \<rparr>"

definition core_names :: "string list" where
  "core_names = [''opscenter-features'', ''kube-ui-server'']"

lemma inst_env_simps [simp]:
  "fe_feature inst_env f n = Inr (core_feature n)" "fe_featureset inst_env f s = Inr core_set"
  "fe_features_in inst_env f s = Inr []" "fe_releases inst_env f n s = Inr 1"
  "fe_boot_ns inst_env = ''kubeops''" "fe_boot_name inst_env = ''bootstrap''" "fe_start inst_env b gs = Inr []"
  "fe_http inst_env f = Inr ()" "fe_mapper inst_env f = Inr ()" "fe_client inst_env f = Inr ()"
  "fe_chart inst_env f c = Inr \<lparr> chart_values = fmempty, chart_crds = [] \<rparr>"
  "fe_set_chart_info inst_env f ft p v = (None, v)" "fe_deploy inst_env d = ret ()"
  "fe_raw_config inst_env f = Inr ()" "fe_helm_init inst_env f n sd = None"
  "fe_register inst_env cs = ret ()" "fe_repo inst_env f = no_source" "range_order inst_env i m = m"
  "DeepCopyMap (fe_gob_enc inst_env) (fe_gob_dec inst_env) m' = Inr fmempty"
  by (simp_all add: inst_env_def range_order_def DeepCopyMap_def)

lemma inst_server:
  "fe_release inst_env f k = (case filter (\<lambda>p. obj_key (fst p) = k) f of [] \<Rightarrow> Inl ErrNotFound | p # ps \<Rightarrow> Inr (fst p))"
  "fe_put_release inst_env h f = (Inr (), write_release h f)"
  "fe_apply inst_env c v f = (Inr (), write_release kube_release f)"
  "fe_export inst_env f = map release_item (map fst (filter snd f))"
  "fe_checkpoint inst_env f = map (\<lambda>p. (fst p, False)) f"
  by (simp_all add: inst_env_def)

text \<open>It keeps the laws of a server with checkpoints, and its chart removes nothing.\<close>

lemma inst_on_server: "on_server inst_env f k \<longleftrightarrow> (\<exists>p \<in> set f. obj_key (fst p) = k)"
proof (cases "filter (\<lambda>p. obj_key (fst p) = k) f")
  case Nil
  then show ?thesis by (simp add: on_server_def inst_server filter_empty_conv)
next
  case (Cons p ps)
  then have "p \<in> set (filter (\<lambda>p. obj_key (fst p) = k) f)" by simp
  then have "p \<in> set f \<and> obj_key (fst p) = k" by simp
  then show ?thesis unfolding on_server_def inst_server Cons by auto
qed

lemma inst_exports: "exports inst_env f k \<longleftrightarrow> (\<exists>p \<in> set f. snd p \<and> obj_key (fst p) = k)"
  by (cases k) (force simp: exports_def inst_server list_ex_iff obj_key_def)

lemma write_release_set: "set (write_release h f) = insert (h, True) {p \<in> set f. obj_key (fst p) \<noteq> obj_key h}"
  by (simp add: write_release_def)

lemma inst_written:
  "on_server inst_env (write_release h f) k \<longleftrightarrow> k = obj_key h \<or> on_server inst_env f k"
  "exports inst_env (write_release h f) k \<longleftrightarrow> k = obj_key h \<or> exports inst_env f k"
  unfolding inst_on_server inst_exports write_release_set by (auto simp del: split_paired_Ex)

lemma inst_pending: "pending_on inst_env f k \<Longrightarrow> pending_on inst_env (write_release h f) k"
  by (auto simp: pending_on_def inst_written)

lemma inst_checkpoint_reads: "fe_release inst_env (fe_checkpoint inst_env f) k = fe_release inst_env f k"
  by (cases "filter (\<lambda>p. obj_key (fst p) = k) f") (simp_all add: inst_server filter_map comp_def)

lemma inst_checkpointed: "checkpointed_server inst_env"
  unfolding checkpointed_server_def
proof (intro conjI allI impI)
  show "obj_key hr = k" if "fe_release inst_env f k = Inr hr" for f k hr
  proof (cases "filter (\<lambda>p. obj_key (fst p) = k) f")
    case (Cons p ps)
    then have "p \<in> set (filter (\<lambda>p. obj_key (fst p) = k) f)" by simp
    then have "obj_key (fst p) = k" by simp
    with Cons that show ?thesis by (simp add: inst_server)
  qed (use that in \<open>simp add: inst_server\<close>)
  show "fe_release inst_env (fe_checkpoint inst_env f) = fe_release inst_env f" for f
    by (rule ext) (rule inst_checkpoint_reads)
qed (auto simp: inst_server inst_pending inst_written ret_run filter_map comp_def)

lemma inst_keeps: "keeps_release inst_env n"
  by (auto simp: keeps_release_def inst_server inst_written)

lemma core_feature_simps [simp]:
  "om_name (core_feature n) = n" "ft_set (core_feature n) = ''opscenter-core''" "ft_requires (core_feature n) = []"
  "ft_enabled (core_feature n) = None" "ft_chart (core_feature n) = no_chart"
  by (simp_all add: core_feature_def cat_feature_def)

lemma inst_profile_spec:
  "fspec_at (pr_features inst_profile) ''opscenter-features'' = zero_fspec\<lparr>fs_set := ''opscenter-core'', fs_chart := inst_chart\<rparr>"
  "fspec_at (pr_features inst_profile) ''kube-ui-server'' = zero_fspec\<lparr>fs_set := ''opscenter-core''\<rparr>"
  "fspec_at (bs_features (pb_spec inst_binding)) n = zero_fspec"
  by (simp_all add: inst_profile_def inst_binding_def fspec_at_def)

definition inst_release :: "jmap option \<Rightarrow> helmrelease" where
  "inst_release ov = new_release inst_env ChartOpscenterFeatures ''opscenter-core'' ''kubeops'' inst_profile inst_binding
     (core_feature ChartOpscenterFeatures) (Some (MergeMaps fmempty (of_nil ov))) []"

lemma inst_release_simps [simp]:
  "om_name (inst_release ov) = ChartOpscenterFeatures" "om_ns (inst_release ov) = ''kubeops''"
  by (simp_all add: inst_release_def new_release_def Let_def)

lemma inst_install: "install_core inst_env core_names inst_profile inst_binding ov [] = (Inr (), [(inst_release ov, True)])"
  by (simp add: install_core_def prog_simps opscenter_values_def GetDefaultValues_def inst_profile_spec zero_fspec_def
      CreateHelmRelease_def Let_def inst_server write_release_def inst_release_def core_names_def)

lemma inst_model:
  "\<exists>m. feature_set_model inst_env f core_set [''kube-ui-server''] inst_profile cat_cluster inst_binding = Inr m"
  by (simp add: feature_set_model_def GetFeatureSetValues_def getFeatureSetChartRef_def setReleaseNameAndNamespace_def
      UpdateFeatureSetValues_def GetFeatures_def install_chart_def inst_profile_spec zero_fspec_def no_chart_def calculateFeatureStatus_def
      checkHelmReleaseExistence_def deref_def generateHelmReleaseForFeature_def NestedMap_def NestedFieldNoCopy_def
      setLabelsToHelmReleases_def chart_info_def updateHelmReleaseDependency_def feature_claim_def Let_def
      user_feature_values_def)

lemma inst_world_simps [simp]:
  "no_faults inst_world" "find_obj ('''', ''c1'') (fst clusters inst_world) = Some cat_cluster"
  "find_obj k (fst works inst_world) = None"
  "find_obj (''open-cluster-management-addon'', ''ace-namespace'') (fst replicasets inst_world)
     = Some (inst_replicaset ''ace-namespace'')"
  "find_obj (''open-cluster-management-addon'', ''ace-bootstrap'') (fst replicasets inst_world)
     = Some (inst_replicaset ''ace-bootstrap'')"
  by (simp_all add: inst_world_def no_faults_def cat_world_def kinds inst_replicaset_def obj_key_def cat_cluster_def)

text \<open>The work with what the server exports.\<close>

definition inst_work :: "world \<Rightarrow> manifestwork \<Rightarrow> helmrelease list \<Rightarrow> manifestwork" where
  "inst_work w mw hs =
     (let mw' = mw\<lparr>mw_manifests := map release_text hs,
                   mw_configs := map (\<lambda>h. release_config (om_ns h) (om_name h)) hs\<rparr>
      in (store_work inst_profile mw' mw')\<lparr>om_created := to_second (w_now w)\<rparr>)"

lemma store_work_key: "obj_key (store_work pr mw cur) = obj_key cur"
  by (simp add: store_work_def with_spec_def)

lemma inst_work_simps [simp]:
  "obj_key (inst_work w mw hs) = obj_key mw" "mw_manifests (inst_work w mw hs) = map release_text hs"
  by (simp_all add: inst_work_def Let_def store_work_def with_spec_def obj_key_def)

lemma inst_update:
  assumes "no_faults w" and "find_obj (obj_key mw) (w_mws w) = None"
  shows "updateManifestWork inst_env mw inst_profile (w, f) =
    (Inr (), (w_mws_update (put_obj (inst_work w mw (map fst (filter snd f)))) w, fe_checkpoint inst_env f))"
proof -
  let ?hs = "map fst (filter snd f)"
  let ?mw = "mw\<lparr>mw_manifests := map release_text ?hs, mw_configs := map (\<lambda>h. release_config (om_ns h) (om_name h)) ?hs\<rparr>"
  have "exported (om_name mw) (fe_export inst_env f) = Inr (map (\<lambda>h. (release_text h, release_config (om_ns h) (om_name h))) ?hs)"
    unfolding inst_server(4) by (rule releases_exported)
  moreover have "CreateOrPatch works ?mw (store_work inst_profile ?mw) w =
      (Inr (inst_work w mw ?hs), w_mws_update (put_obj (inst_work w mw ?hs)) w)"
    using assms by (simp add: prog_simps works_def inst_work_def Let_def store_work_key)
  ultimately show ?thesis by (simp add: updateManifestWork_def prog_simps comp_def)
qed

lemma inst_apply:
  assumes "no_faults w" and "find_obj (obj_key mw) (w_mws w) = None"
  shows "applyFeatureSet inst_env mw ''opscenter-core'' [''kube-ui-server''] inst_profile cat_cluster inst_binding (w, f) =
    updateManifestWork inst_env mw inst_profile (w, write_release kube_release f)"
proof -
  obtain m where "feature_set_model inst_env f core_set [''kube-ui-server''] inst_profile cat_cluster inst_binding = Inr m"
    using inst_model by blast
  moreover have "waitForReleaseToBeCreated inst_env [''kube-ui-server''] (write_release kube_release f)
      = (Inr (), write_release kube_release f)"
    by (simp add: waitForReleaseToBeCreated_iff inst_server(1) write_release_def kube_release_def obj_key_def)
  ultimately show ?thesis
    by (simp add: applyFeatureSet_def prog_simps applyCRDs_def applyResource_def GetClientGetter_def inst_server(3))
qed

lemma inst_enable:
  obtains x f' where "enableFeatureSet inst_env ''opscenter-core'' core_names inst_profile inst_binding ov (inst_world, []) =
     (Inr (), (w_mws_update (put_obj x) inst_world, f'))" "obj_key x = (''c1'', ''opscenter-core'')"
     "mw_manifests x = map release_text [kube_release, inst_release ov]"
proof -
  let ?mw = "new_work ''opscenter-core'' inst_profile inst_binding"
  let ?x = "inst_work inst_world ?mw [kube_release, inst_release ov]"
  have key: "obj_key ?mw = (''c1'', ''opscenter-core'')" by (simp add: new_work_def obj_key_def inst_binding_def)
  have none: "find_obj (obj_key ?mw) (w_mws inst_world) = None" using inst_world_simps(3) by (simp add: works_def)
  have g: "get_or_new ?mw inst_world = (Inr ?mw, inst_world)" by (simp add: get_or_new_def prog_simps)
  have names: "ChartOpscenterFeatures \<in> set core_names" "''kube-ui-server'' \<in> set core_names"
    "core_features core_names = [''kube-ui-server'']"
    by (simp_all add: core_names_def core_features_def)
  have ns: "om_ns inst_binding = ''c1''" by (simp add: inst_binding_def)
  have srv: "map fst (filter snd (write_release kube_release [(inst_release ov, True)])) = [kube_release, inst_release ov]"
    by (simp add: write_release_def obj_key_def kube_release_def)
  have "enableFeatureSet inst_env ''opscenter-core'' core_names inst_profile inst_binding ov (inst_world, []) =
     (Inr (), (w_mws_update (put_obj ?x) inst_world, fe_checkpoint inst_env (write_release kube_release [(inst_release ov, True)])))"
    unfolding enableFeatureSet_def ns
    by (simp add: names prog_simps g inst_install inst_apply [OF inst_world_simps(1) none]
        inst_update [OF inst_world_simps(1) none] srv)
  then show thesis by (rule that) (simp_all add: key)
qed

definition core_info :: featureinfo where
  "core_info = [(''opscenter-core'', core_names)]"

lemma inst_prepare:
  obtains ov where "prepare_features inst_env inst_binding inst_profile (inst_world, f) = (Inr ov, (inst_world, []))"
proof -
  have "\<exists>ov. InstallOpscenterFeaturesOnFakeServer inst_env inst_profile inst_binding (Some zero_clusterinfo) None [] = (Inr ov, [])"
    by (simp add: InstallOpscenterFeaturesOnFakeServer_def prog_simps profile_overrides_def inst_profile_spec
      zero_fspec_def GetOverrideValues_def zero_clusterinfo_def set_capi_def set_managers_def binding_overrides_def
      installer_chart_def inst_chart_def InstallOpscenterFeatures_def InstallChart_def DeployRelease_def GetClientGetter_def applyCRDs_def)
  then obtain ov where "InstallOpscenterFeaturesOnFakeServer inst_env inst_profile inst_binding (Some zero_clusterinfo) None [] = (Inr ov, [])"
    by blast
  moreover have "bs_cluster (pb_spec inst_binding) = zero_clusterinfo" by (simp add: inst_binding_def)
  ultimately show thesis
    by (intro that [of ov]) (simp add: prepare_features_def StartFakeApiServerAndApplyBaseManifestWorkReplicaSets_def
      initializeFakeServer_def GetNewRuntimeClient_def prog_simps applyManifestWorkReplicaSet_def inst_replicaset_def
      zero_clusterinfo_def RegisterRequiredCRDs_def inst_server(5))
qed

lemma inst_required:
  "addRequiredFeatures inst_env f 2 cl core_info w = (Inr (Some core_info), w)"
  by (simp add: addRequiredFeatures_def add_start_def Let_def core_info_def core_names_def info_names_def add_loop.simps
      eval_nat_numeral visit_feature_def prog_simps)

lemma inst_run:
  obtains x f' hs where
    "EnableFeatures inst_env 2 inst_binding core_info inst_profile (inst_world, f) =
       (Inr (Some ()), (w_mws_update (put_obj x) inst_world, f'))"
    "obj_key x = (''c1'', ''opscenter-core'')" "mw_manifests x = map release_text hs"
proof -
  obtain ov where ov: "prepare_features inst_env inst_binding inst_profile (inst_world, f) = (Inr ov, (inst_world, []))"
    by (rule inst_prepare)
  obtain x f' where e: "enableFeatureSet inst_env ''opscenter-core'' core_names inst_profile inst_binding ov (inst_world, []) =
     (Inr (), (w_mws_update (put_obj x) inst_world, f'))" and key: "obj_key x = (''c1'', ''opscenter-core'')"
    and m: "mw_manifests x = map release_text [kube_release, inst_release ov]"
    by (rule inst_enable)
  let ?w = "w_mws_update (put_obj x) inst_world"
  have at: "info_at core_info ''opscenter-core'' = core_names" by (simp add: core_info_def info_at_def)
  have ns: "om_ns inst_binding = ''c1''" by (simp add: inst_binding_def)
  have k: "kept_manifests core_names (mw_manifests x) = Inr (Some (mw_manifests x))"
    by (simp add: m release_text_kept core_names_def kube_release_def)
  have "find_obj (''c1'', ''opscenter-core'') (fst works ?w) = Some x" using key by (simp add: works_def kube.look_put)
  moreover have "no_faults ?w" using inst_world_simps(1) by (simp only: no_faults_updates)
  ultimately have "prune_all ''c1'' core_info ?w = (Inr (), ?w)"
    using k by (simp add: prune_all_def core_info_def prune_one_def prog_simps removeHRFomManifestWork_def)
  then have "EnableFeatures inst_env 2 inst_binding core_info inst_profile (inst_world, f) = (Inr (Some ()), (?w, f'))"
    unfolding EnableFeatures_def ns using ov inst_required [of "[]" "''c1''" inst_world] e
    by (simp add: prog_simps at) (simp add: core_info_def enable_other_def prog_simps)
  then show thesis by (rule that [OF _ key m])
qed

lemma inst_to_ship: "n \<noteq> ChartFluxCD \<Longrightarrow> n \<noteq> ChartLicenseProxyServer \<Longrightarrow> to_be_shipped inst_env [] n"
  by (simp add: to_be_shipped_def inst_keeps inst_on_server)

section \<open>Witnesses of the enabling theorems\<close>

lemma EnableFeatures_ships_core_witness:
  "\<exists>st' x y. EnableFeatures inst_env 2 inst_binding core_info inst_profile (inst_world, []) = (Inr (Some ()), st') \<and>
     find_obj (''c1'', ''opscenter-core'') (w_mws (fst st')) = Some x \<and> ships x ''kubeops'' ''kube-ui-server'' \<and>
     find_obj (''c1'', ''opscenter-core'') (w_mws (fst st')) = Some y \<and> ships y ''kubeops'' ChartOpscenterFeatures"
proof -
  obtain st' where r: "EnableFeatures inst_env 2 inst_binding core_info inst_profile (inst_world, []) = (Inr (Some ()), st')"
    by (rule inst_run)
  obtain ov where ov: "prepare_features inst_env inst_binding inst_profile (inst_world, []) = (Inr ov, (inst_world, []))"
    by (rule inst_prepare)
  have d: "distinct (map fst core_info)" by (simp add: core_info_def)
  have n: "''kube-ui-server'' \<in> set (info_at core_info ''opscenter-core'')"
    "ChartOpscenterFeatures \<in> set (info_at core_info ''opscenter-core'')"
    by (simp_all add: core_info_def info_at_def core_names_def)
  have "to_be_shipped inst_env [] ''kube-ui-server''" "to_be_shipped inst_env [] ChartOpscenterFeatures"
    by (simp_all add: inst_to_ship)
  with EnableFeatures_ships_core [OF r ov inst_checkpointed d n(1)] EnableFeatures_ships_core [OF r ov inst_checkpointed d n(2)]
  have "\<exists>x. find_obj (om_ns inst_binding, ''opscenter-core'') (w_mws (fst st')) = Some x \<and> ships x (fe_boot_ns inst_env) ''kube-ui-server''"
    "\<exists>x. find_obj (om_ns inst_binding, ''opscenter-core'') (w_mws (fst st')) = Some x \<and> ships x (fe_boot_ns inst_env) ChartOpscenterFeatures"
    by simp_all
  moreover have "om_ns inst_binding = ''c1''" "fe_boot_ns inst_env = ''kubeops''" by (simp_all add: inst_binding_def)
  ultimately show ?thesis using r by auto
qed

lemma enableFeatureSet_ships_witness:
  "\<exists>w' f' x. enableFeatureSet inst_env ''opscenter-core'' core_names inst_profile inst_binding None (inst_world, []) = (Inr (), (w', f')) \<and>
     find_obj (''c1'', ''opscenter-core'') (w_mws w') = Some x \<and> om_labels x ClusterProfileLabel = Some ''p1'' \<and>
     ships x ''kubeops'' ''kube-ui-server''"
proof -
  obtain w' f' where r: "enableFeatureSet inst_env ''opscenter-core'' core_names inst_profile inst_binding None (inst_world, []) = (Inr (), (w', f'))"
    by (rule inst_enable)
  have c: "core_features core_names = [''kube-ui-server'']" by (simp add: core_names_def core_features_def)
  have n: "om_ns inst_binding = ''c1''" "om_name inst_profile = ''p1''" by (simp_all add: inst_binding_def inst_profile_def)
  from enableFeatureSet_ships [OF r inst_checkpointed] r show ?thesis by (auto simp: c n inst_on_server)
qed

text \<open>A work of one set with a release the profile dropped, and one of another set.\<close>

definition named_manifest :: "string \<Rightarrow> string \<Rightarrow> raw" where
  "named_manifest k n =
     Text (JObj (fmupd ''kind'' (JStr k) (fmupd ''metadata'' (JObj (fmupd ''name'' (JStr n) fmempty)) fmempty)))"

definition prune_work :: "string \<Rightarrow> manifestwork" where
  "prune_work n = zero_work
     \<lparr> om_name := n, om_ns := ''c1'',
       mw_manifests := [named_manifest ''HelmRelease'' ''grafana'', named_manifest ''Namespace'' ''monitoring'',
                        named_manifest ''HelmRelease'' ''thanos''] \<rparr>"

definition prune_world :: world where
  "prune_world = cat_world\<lparr>w_mws := [prune_work ''monitoring'', prune_work ''other'']\<rparr>"

lemma named_manifest_reads: "kind_of (named_manifest k n) = Some k" "name_of (named_manifest k n) = Some n"
  by (simp_all add: kind_of_def name_of_def named_manifest_def)

lemma prune_world_ok: "no_faults prune_world" "distinct (map fst cat_info)" "all_judged prune_world"
proof -
  show "no_faults prune_world" by (simp add: prune_world_def no_faults_def cat_world_def)
  show "distinct (map fst cat_info)" by (simp add: cat_info_def)
  have j: "judged (named_manifest k n)" for k n by (simp add: judged_def named_manifest_reads)
  show "all_judged prune_world"
    unfolding all_judged_def
  proof (intro allI impI)
    fix k mw
    assume "find_obj k (w_mws prune_world) = Some mw"
    then have "mw = prune_work ''monitoring'' \<or> mw = prune_work ''other''"
      by (auto simp: prune_world_def split: if_splits)
    then show "\<forall>m \<in> set (mw_manifests mw). judged m" using j by (auto simp: prune_work_def)
  qed
qed

lemma prune_all_exact_witness:
  "\<exists>w'. prune_all ''c1'' cat_info prune_world = (Inr (), w') \<and>
     map_option mw_manifests (find_obj (''c1'', ''monitoring'') (w_mws w')) =
       Some [named_manifest ''HelmRelease'' ''grafana'', named_manifest ''Namespace'' ''monitoring''] \<and>
     find_obj (''c1'', ''other'') (w_mws w') = Some (prune_work ''other'')"
proof -
  from prune_all_exact [OF prune_world_ok, of "''c1''"] obtain w' where
    r: "prune_all ''c1'' cat_info prune_world = (Inr (), w')" and
    m: "map_option mw_manifests (find_obj (''c1'', ''monitoring'') (w_mws w')) =
      map_option (pruned cat_info ''monitoring'') (find_obj (''c1'', ''monitoring'') (w_mws prune_world))" and
    o: "find_obj (''c1'', ''other'') (w_mws w') = find_obj (''c1'', ''other'') (w_mws prune_world)"
    by (auto simp: cat_info_def)
  have f: "find_obj (''c1'', ''monitoring'') (w_mws prune_world) = Some (prune_work ''monitoring'')"
    "find_obj (''c1'', ''other'') (w_mws prune_world) = Some (prune_work ''other'')"
    by (simp_all add: prune_world_def prune_work_def obj_key_def)
  have "pruned cat_info ''monitoring'' (prune_work ''monitoring'') =
      [named_manifest ''HelmRelease'' ''grafana'', named_manifest ''Namespace'' ''monitoring'']"
    by (simp add: pruned_def cat_info_def info_at_def prune_work_def stays_def named_manifest_reads)
  with r m o f show ?thesis by auto
qed

definition user_profile :: profile where
  "user_profile = inst_profile\<lparr>pr_features := [(''grafana'', zero_fspec\<lparr>fs_values := Some (Text (JObj (fmupd ''replicas'' (JInt 2) fmempty)))\<rparr>)]\<rparr>"

lemma user_values_win_witness:
  "\<exists>m'. user_values_for user_profile inst_binding [''grafana''] fmempty = Inr m' \<and>
     NestedFieldNoCopy m' (values_path ''grafana'') =
       Inr (Some (JObj (MergeMaps fmempty (fmupd ''replicas'' (JInt 2) fmempty)))) \<and>
     NestedFieldNoCopy m' [''image''] = Inr None"
proof -
  have f: "fspec_at (bs_features (pb_spec inst_binding)) ''grafana'' = zero_fspec"
    "fs_values (fspec_at (pr_features user_profile) ''grafana'') = Some (Text (JObj (fmupd ''replicas'' (JInt 2) fmempty)))"
    by (simp_all add: inst_binding_def user_profile_def fspec_at_def)
  have w: "wanted_values user_profile inst_binding fmempty ''grafana'' =
      Inr (JObj (MergeMaps fmempty (fmupd ''replicas'' (JInt 2) fmempty)))"
    by (simp add: wanted_values_def f(1) zero_fspec_def f(2) NestedMap_def NestedFieldNoCopy_def)
  obtain m' where r: "user_values_for user_profile inst_binding [''grafana''] fmempty = Inr m'"
    by (simp add: user_feature_values_def f(1) zero_fspec_def f(2) NestedMap_def NestedFieldNoCopy_def)
  have us: "\<forall>n \<in> set [''grafana'']. CHR ''_'' \<notin> set n" by simp
  have par: "values_path ''grafana'' \<parallel> [''image'']" by (simp add: parallel_def)
  from user_values_win [OF r _ us] w have
    "NestedFieldNoCopy m' (values_path ''grafana'') = Inr (Some (JObj (MergeMaps fmempty (fmupd ''replicas'' (JInt 2) fmempty))))"
    by auto
  moreover have "NestedFieldNoCopy m' [''image''] = NestedFieldNoCopy fmempty [''image'']"
    using user_values_win [OF r _ us] par by auto
  then have "NestedFieldNoCopy m' [''image''] = Inr None" by (simp add: NestedFieldNoCopy_def)
  ultimately show ?thesis using r by blast
qed

lemma EnableFeatures_needs_source_witness:
  "fst (EnableFeatures inst_env 2 inst_binding core_info user_profile (inst_world, [])) \<noteq> Inr (Some ())"
  by (rule EnableFeatures_needs_source) (simp add: user_profile_def fspec_at_def zero_fspec_def no_chart_def no_source_def)


end
