(* ===== verification/BindingFacts.thy ===== *)
theory BindingFacts
  imports Frames InstallFacts
begin

text \<open>
  What a reconcile of a binding achieves: which features it collects, what it may write, when
  it records the observed version, and when the next reconcile finds nothing left to upgrade.
\<close>

section \<open>Collecting features\<close>

text \<open>The specification: the first spec of a name, the binding before the profile.\<close>

definition spec_of :: "binding \<Rightarrow> profile \<Rightarrow> string \<Rightarrow> fspec option" where
  "spec_of pb pr n = map_of (bs_features (pb_spec pb) @ pr_features pr) n"

lemma addFeatures_append: "addFeatures (fs @ gs) st = addFeatures gs (addFeatures fs st)"
  by (induction fs st rule: addFeatures.induct) simp_all

lemma addFeatures_pushed:
  "addFeatures fs (info, pushed) = (info', pushed') \<Longrightarrow> set pushed' = set pushed \<union> fst ` set fs"
  by (induction fs "(info, pushed)" arbitrary: info pushed rule: addFeatures.induct)
    (auto split: if_splits)

lemma addFeatures_at:
  "addFeatures fs (info, pushed) = (info', pushed') \<Longrightarrow>
     n \<in> set (info_at info' s) \<longleftrightarrow>
       n \<in> set (info_at info s) \<or>
       n \<notin> set pushed \<and> (\<exists>sp. map_of fs n = Some sp \<and> fs_set sp = s)"
proof (induction fs "(info, pushed)" arbitrary: info pushed rule: addFeatures.induct)
  case 1
  then show ?case by simp
next
  case (2 name spec fs info pushed)
  show ?case
  proof (cases "name \<in> set pushed")
    case True
    with 2 show ?thesis by auto
  next
    case False
    have "addFeatures fs (info_append (fs_set spec) name info, pushed @ [name]) = (info', pushed')"
      using 2(2) False by simp
    with 2(1) False show ?thesis by auto
  qed
qed

lemma addFeatures_count:
  "addFeatures fs (info, pushed) = (info', pushed') \<Longrightarrow>
     (\<And>s. distinct (info_at info s)) \<Longrightarrow> (\<And>s. set (info_at info s) \<subseteq> set pushed) \<Longrightarrow>
     distinct (info_at info' s)"
proof (induction fs "(info, pushed)" arbitrary: info pushed rule: addFeatures.induct)
  case 1
  then show ?case by simp
next
  case (2 name spec fs info pushed)
  show ?case
  proof (cases "name \<in> set pushed")
    case True
    with 2 show ?thesis by simp
  next
    case False
    have "addFeatures fs (info_append (fs_set spec) name info, pushed @ [name]) = (info', pushed')"
      using 2(2) False by simp
    moreover have "distinct (info_at (info_append (fs_set spec) name info) s)" for s
      using 2(3) 2(4) [of s] False by auto
    moreover have "set (info_at (info_append (fs_set spec) name info) s) \<subseteq> set (pushed @ [name])" for s
      using 2(4) [of s] 2(4) [of "fs_set spec"] by auto
    ultimately show ?thesis using 2(1) False by simp
  qed
qed

lemma collect_features_all:
  "collect_features E pb pr = fst (addFeatures (range_order E 0 (bs_features (pb_spec pb)) @ range_order E 1 (pr_features pr)) ([], []))"
  by (simp add: collect_features_def addFeatures_append)

lemma collect_features_at:
  "n \<in> set (info_at (collect_features E pb pr) s) \<longleftrightarrow>
     (case spec_of pb pr n of None \<Rightarrow> False | Some sp \<Rightarrow> fs_set sp = s)"
  using addFeatures_at [OF prod.collapse [symmetric], where fs = "range_order E 0 (bs_features (pb_spec pb)) @ range_order E 1 (pr_features pr)"
      and info = "[]" and pushed = "[]" and n = n and s = s]
  by (auto simp: collect_features_all spec_of_def info_at_def map_add_def split: option.splits)

lemma collect_features_distinct: "distinct (info_at (collect_features E pb pr) s)"
  using addFeatures_count [OF prod.collapse [symmetric], where fs = "range_order E 0 (bs_features (pb_spec pb)) @ range_order E 1 (pr_features pr)"
      and info = "[]" and pushed = "[]" and s = s]
  by (simp add: collect_features_all info_at_def)

text \<open>
  C32: A reconcile hands every feature of the binding or its profile to exactly one feature
  set, the one its spec names (the binding's spec if it has the feature, else the profile's),
  and lists it there once; no other name is listed.
\<close>

theorem collect_features_partition:
  "distinct (info_at (collect_features E pb pr) s) \<and>
   (n \<in> set (info_at (collect_features E pb pr) s) \<longleftrightarrow>
      (case map_of (bs_features (pb_spec pb)) n of
         Some sp \<Rightarrow> fs_set sp = s
       | None \<Rightarrow> (case map_of (pr_features pr) n of Some sp \<Rightarrow> fs_set sp = s | None \<Rightarrow> False)))"
  using collect_features_distinct [of E pb pr s]
  by (simp add: collect_features_at spec_of_def map_add_def split: option.split)

section \<open>What the status step writes\<close>

text \<open>The bindings are as before, or the one at the key has a new status.\<close>

definition status_changed :: "binding list \<Rightarrow> objkey \<Rightarrow> world \<Rightarrow> bool" where
  "status_changed B k w \<longleftrightarrow>
     (\<exists>cur st. find_obj k B = Some cur \<and> w_bindings w = put_obj (cur\<lparr>pb_status := st\<rparr>) B)"

abbreviation with_bindings :: "binding list \<Rightarrow> world \<Rightarrow> bool" where
  "with_bindings B \<equiv> \<lambda>w. w_bindings w = B"

lemma blind_with_bindings: "blind (with_bindings B)"
  using blind_cluster [of "\<lambda>b p c f s r t. b = B"] .

lemma steady_with_bindings: "steady (with_bindings B)"
  by (simp add: steady_def)

lemma triple_if: "triple P m Q E \<Longrightarrow> triple P m' Q E \<Longrightarrow> triple P (if b then m else m') Q E"
  by simp

lemma status_update_writes:
  "triple (with_bindings B) (status_update pb) (\<lambda>_. status_changed B (obj_key pb)) (\<lambda>_. with_bindings B)"
  unfolding status_update_def
proof (intro triple_if triple_api_call steady_with_bindings)
  show "triple (with_bindings B)
     (\<lambda>w. case find_obj (obj_key pb) (w_bindings w) of
            None \<Rightarrow> (Inl ErrNotFound, w)
          | Some cur \<Rightarrow>
              (Inr (), w_bindings_update (put_obj (cur\<lparr>pb_status := (pb_status pb)
                 \<lparr>st_upgraded := to_second (st_upgraded (pb_status pb))\<rparr>\<rparr>)) w))
     (\<lambda>_. status_changed B (obj_key pb)) (\<lambda>_. with_bindings B)"
    by (auto simp: triple_def status_changed_def split: option.split)
qed (auto intro: triple_raise)

lemma refetch_key:
  "triple (with_bindings B) (refetch pb) (\<lambda>x w. w_bindings w = B \<and> (obj_key x = obj_key pb \<or> om_name x = ''''))
     (\<lambda>_. with_bindings B)"
  unfolding refetch_def
proof (rule triple_tryM [where R = "\<lambda>r w. w_bindings w = B \<and> (case r of Inr x \<Rightarrow> obj_key x = obj_key pb | Inl _ \<Rightarrow> True)"])
  show "triple (with_bindings B) (api_get bindings (obj_key pb))
     (\<lambda>x w. w_bindings w = B \<and> (case Inr x of Inr x \<Rightarrow> obj_key x = obj_key pb | Inl _ \<Rightarrow> True))
     (\<lambda>e w. w_bindings w = B \<and> (case Inl e of Inr x \<Rightarrow> obj_key x = obj_key pb | Inl _ \<Rightarrow> True))"
    using triple_api_get [OF steady_with_bindings, of B bindings "obj_key pb"] by simp
next
  fix r :: "gerr + binding"
  show "triple (\<lambda>w. w_bindings w = B \<and> (case r of Inr x \<Rightarrow> obj_key x = obj_key pb | Inl _ \<Rightarrow> True))
     (case r of Inl e \<Rightarrow> if is_not_found e then ret zero_binding
                         else raise (ErrWrap ''failed to get latest account object'' e)
              | Inr pb \<Rightarrow> ret pb)
     (\<lambda>x w. w_bindings w = B \<and> (obj_key x = obj_key pb \<or> om_name x = '''')) (\<lambda>_. with_bindings B)"
    by (cases r) (auto intro!: triple_ret triple_raise simp: zero_binding_def)
qed

lemma frame_observedVersion [frame]: "blind_works J \<Longrightarrow> keeps J (observedVersion C ns)"
  unfolding observedVersion_def by (intro frame)

lemma store_status_writes:
  assumes "obj_key pb = k \<or> om_name pb = ''''"
  shows "triple (with_bindings B)
     (tryM (status_update (pb\<lparr>pb_status := st\<rparr>)) (\<lambda>r. case r of
        Inl e \<Rightarrow> raise (ErrWrap ''failed to update status to Failed'' e) | Inr _ \<Rightarrow> ret ()))
     (\<lambda>_. status_changed B k) (\<lambda>_. with_bindings B)"
proof (rule triple_tryM [where R = "\<lambda>r. case r of Inl _ \<Rightarrow> with_bindings B | Inr _ \<Rightarrow> status_changed B k"])
  show "triple (with_bindings B) (status_update (pb\<lparr>pb_status := st\<rparr>))
     (\<lambda>x. case Inr x of Inl _ \<Rightarrow> with_bindings B | Inr _ \<Rightarrow> status_changed B k)
     (\<lambda>e. case Inl e of Inl _ \<Rightarrow> with_bindings B | Inr _ \<Rightarrow> status_changed B k)"
  proof (cases "om_name pb = ''''")
    case True
    then show ?thesis by (simp add: status_update_def triple_raise)
  next
    case False
    with assms status_update_writes [of B "pb\<lparr>pb_status := st\<rparr>"] show ?thesis by simp
  qed
next
  fix r :: "gerr + unit"
  show "triple (case r of Inl _ \<Rightarrow> with_bindings B | Inr _ \<Rightarrow> status_changed B k)
     (case r of Inl e \<Rightarrow> raise (ErrWrap ''failed to update status to Failed'' e) | Inr _ \<Rightarrow> ret ())
     (\<lambda>_. status_changed B k) (\<lambda>_. with_bindings B)"
    by (cases r) (auto intro!: triple_ret triple_raise)
qed

lemma setOpscenterFeaturesVersion_writes:
  "triple (with_bindings B) (setOpscenterFeaturesVersion C pb u err)
     (\<lambda>_. status_changed B (obj_key pb)) (\<lambda>_. with_bindings B)"
proof (cases err)
  case None
  have "triple (\<lambda>w. w_bindings w = B \<and> (obj_key x = obj_key pb \<or> om_name x = ''''))
     (bindM (observedVersion C (om_ns x)) (\<lambda>v.
      bindM (liftM (upgraded_at pb u ((pb_status x)\<lparr>st_version := v\<rparr>))) (\<lambda>st.
        tryM (status_update (x\<lparr>pb_status := st\<rparr>)) (\<lambda>r. case r of
          Inl e \<Rightarrow> raise (ErrWrap ''failed to update status to Failed'' e)
        | Inr _ \<Rightarrow> ret ()))))
     (\<lambda>_. status_changed B (obj_key pb)) (\<lambda>_. with_bindings B)" for x
  proof (cases "obj_key x = obj_key pb \<or> om_name x = ''''")
    case True
    then have "triple (with_bindings B)
     (bindM (observedVersion C (om_ns x)) (\<lambda>v.
      bindM (liftM (upgraded_at pb u ((pb_status x)\<lparr>st_version := v\<rparr>))) (\<lambda>st.
        tryM (status_update (x\<lparr>pb_status := st\<rparr>)) (\<lambda>r. case r of
          Inl e \<Rightarrow> raise (ErrWrap ''failed to update status to Failed'' e)
        | Inr _ \<Rightarrow> ret ()))))
     (\<lambda>_. status_changed B (obj_key pb)) (\<lambda>_. with_bindings B)"
      by (intro triple_bindM [OF frame_observedVersion [OF blind_worksI [OF blind_with_bindings]]]
          triple_bindM [OF keeps_liftM] store_status_writes)
    then show ?thesis by (rule triple_conseq) simp_all
  next
    case False
    then show ?thesis by (simp add: triple_def)
  qed
  then show ?thesis unfolding setOpscenterFeaturesVersion_def None option.case
    by (rule triple_bindM [OF refetch_key])
qed (simp add: setOpscenterFeaturesVersion_def triple_raise)

text \<open>A change of the status shows only in a reconcile that reports success.\<close>

definition settled_only :: "binding list \<Rightarrow> objkey \<Rightarrow> ctrl_result option \<Rightarrow> world \<times> 'f \<Rightarrow> bool" where
  "settled_only B k r st \<longleftrightarrow>
     w_bindings (fst st) = B \<or> r = Some Result_zero \<and> status_changed B k (fst st)"

lemma triple_onhub:
  "triple P m Q E \<Longrightarrow> triple (onfst P) (onhub m) (\<lambda>x. onfst (Q x)) (\<lambda>e. onfst (E e))"
  by (fastforce simp: triple_def onhub_def split: prod.splits sum.splits)

lemma settle_writes:
  "triple (onfst (with_bindings B)) (settle C pb u err) (settled_only B (obj_key pb)) (\<lambda>_. onfst (with_bindings B))"
  unfolding settle_def
  by (rule triple_bindM [OF triple_onhub [OF setOpscenterFeaturesVersion_writes]])
    (auto intro!: triple_ret simp: settled_only_def)

lemma act_writes:
  "triple (onfst (with_bindings B)) (act E n pb pr) (settled_only B (obj_key pb)) (\<lambda>_. onfst (with_bindings B))"
proof -
  have m: "triple (onfst (with_bindings B)) (tryM m h) (settled_only B (obj_key pb)) (\<lambda>_. onfst (with_bindings B))"
    if "keeps (onfst (with_bindings B)) m"
      and "\<And>r. triple (onfst (with_bindings B)) (h r) (settled_only B (obj_key pb)) (\<lambda>_. onfst (with_bindings B))"
    for m :: "('f, 'x) run" and h
    by (rule triple_tryM [where R = "\<lambda>_. onfst (with_bindings B)"]) (use that in simp_all)
  have r: "triple (onfst (with_bindings B)) (ret x) (settled_only B (obj_key pb)) (\<lambda>_. onfst (with_bindings B))" for x
    by (rule triple_ret) (simp add: settled_only_def)
  show ?thesis
    unfolding act_def Let_def
    by (auto intro!: m r settle_writes frame_UpgradeCluster frame_EnableFeatures blind_worksI blind_with_bindings
        split: sum.split option.split)
qed

lemma found_or_done_writes:
  assumes "triple (with_bindings B) m (\<lambda>x w. w_bindings w = B \<and> P x) (\<lambda>_. with_bindings B)"
    and "\<And>x. P x \<Longrightarrow> triple (onfst (with_bindings B)) (k x) (settled_only B req) (\<lambda>_. onfst (with_bindings B))"
  shows "triple (onfst (with_bindings B)) (found_or_done m k) (settled_only B req) (\<lambda>_. onfst (with_bindings B))"
  unfolding found_or_done_def
proof (rule triple_tryM [where R = "\<lambda>r. onfst (\<lambda>w. w_bindings w = B \<and> (case r of Inl _ \<Rightarrow> True | Inr x \<Rightarrow> P x))"])
  show "triple (onfst (with_bindings B)) (onhub m)
     (\<lambda>x. onfst (\<lambda>w. w_bindings w = B \<and> (case Inr x of Inl _ \<Rightarrow> True | Inr x \<Rightarrow> P x)))
     (\<lambda>e. onfst (\<lambda>w. w_bindings w = B \<and> (case Inl e of Inl _ \<Rightarrow> True | Inr x \<Rightarrow> P x)))"
    using triple_onhub [OF assms(1)] by simp
next
  fix r
  show "triple (onfst (\<lambda>w. w_bindings w = B \<and> (case r of Inl _ \<Rightarrow> True | Inr x \<Rightarrow> P x)))
     (case r of Inl e \<Rightarrow> (case IgnoreNotFound e of None \<Rightarrow> ret (Some Result_zero) | Some e' \<Rightarrow> raise e') | Inr x \<Rightarrow> k x)
     (settled_only B req) (\<lambda>_. onfst (with_bindings B))"
  proof (cases r)
    case (Inl e)
    then show ?thesis by (auto intro!: triple_ret triple_raise simp: settled_only_def split: option.split)
  next
    case (Inr x)
    then show ?thesis using assms(2) [of x] by (cases "P x") (auto simp: triple_def)
  qed
qed

lemma Reconcile_writes:
  "triple (onfst (with_bindings B)) (Reconcile E n req) (settled_only B req) (\<lambda>_. onfst (with_bindings B))"
  unfolding Reconcile_def
proof (rule found_or_done_writes [where P = "\<lambda>pb. obj_key pb = req"])
  show "triple (with_bindings B) (api_get bindings req) (\<lambda>x w. w_bindings w = B \<and> obj_key x = req) (\<lambda>_. with_bindings B)"
    by (rule triple_api_get) (rule steady_with_bindings)
next
  fix pb :: binding
  assume k: "obj_key pb = req"
  show "triple (onfst (with_bindings B)) (found_or_done (api_get profiles ('''', bs_profile (pb_spec pb)))
          (\<lambda>profile. bindM (liftM (validateFeatureList profile)) (\<lambda>_. act E n pb profile)))
          (settled_only B req) (\<lambda>_. onfst (with_bindings B))"
  proof (rule found_or_done_writes [where P = "\<lambda>_. True"])
    show "triple (with_bindings B) (api_get profiles ('''', bs_profile (pb_spec pb))) (\<lambda>x w. w_bindings w = B \<and> True) (\<lambda>_. with_bindings B)"
      using frame_get [OF blind_worksI [OF blind_with_bindings]] by simp
    show "triple (onfst (with_bindings B)) (bindM (liftM (validateFeatureList profile)) (\<lambda>_. act E n pb profile))
          (settled_only B req) (\<lambda>_. onfst (with_bindings B))" for profile
      using act_writes [of B E n pb profile] k by (intro triple_bindM [OF keeps_liftM]) simp
  qed
qed

lemma Reconcile_bindings:
  "w_bindings (fst (snd (Reconcile E n req (w, f)))) = w_bindings w \<or>
   status_changed (w_bindings w) req (fst (snd (Reconcile E n req (w, f))))"
proof -
  obtain r st where R: "Reconcile E n req (w, f) = (r, st)" by (cases "Reconcile E n req (w, f)")
  then show ?thesis
    using tripleD_Inl [OF Reconcile_writes [of "w_bindings w" E n req], where w = "(w, f)"]
      tripleD_Inr [OF Reconcile_writes [of "w_bindings w" E n req], where w = "(w, f)"]
    by (cases r) (auto simp: settled_only_def)
qed

text \<open>
  C1: Whatever calls fail, a reconcile of a binding leaves every other binding alone, and of
  its own binding it changes nothing but the status, and that only when it reports success
  with no requeue: an upgrade that failed or is still converging never advances the observed
  version.
\<close>

theorem Reconcile_touches_only_status:
  "(let r = fst (Reconcile E n req (w, f)); w' = fst (snd (Reconcile E n req (w, f))) in
    find_obj k (w_bindings w') = find_obj k (w_bindings w) \<or>
    (k = req \<and> r = Inr (Some Result_zero) \<and>
     (\<exists>cur st. find_obj k (w_bindings w) = Some cur \<and> find_obj k (w_bindings w') = Some (cur\<lparr>pb_status := st\<rparr>))))"
proof -
  obtain r st where Pair: "Reconcile E n req (w, f) = (r, st)" by (cases "Reconcile E n req (w, f)")
  show ?thesis
  proof (cases r)
    case (Inl e)
    from tripleD_Inl [OF Reconcile_writes [of "w_bindings w" E n req], where w = "(w, f)"] Pair Inl
    have "w_bindings (fst st) = w_bindings w" by simp
    with Pair show ?thesis by simp
  next
    case (Inr x)
    from tripleD_Inr [OF Reconcile_writes [of "w_bindings w" E n req], where w = "(w, f)"] Pair Inr
    have "settled_only (w_bindings w) req x st" by simp
    then consider "w_bindings (fst st) = w_bindings w"
      | cur s where "x = Some Result_zero" "find_obj req (w_bindings w) = Some cur"
          "w_bindings (fst st) = put_obj (cur\<lparr>pb_status := s\<rparr>) (w_bindings w)"
      unfolding settled_only_def status_changed_def by blast
    then show ?thesis
    proof cases
      case 2
      then have "obj_key cur = req" using find_obj_key by blast
      with 2 Pair Inr show ?thesis by (auto simp: kube.look_put)
    qed (simp add: Pair)
  qed
qed

section \<open>What a successful reconcile records\<close>

text \<open>The version the opscenter-core ManifestWork of a cluster carries.\<close>

definition shipped_version :: "hr_codec \<Rightarrow> string \<Rightarrow> world \<Rightarrow> gerr + string" where
  "shipped_version C ns w =
     (case find_obj (ns, ''opscenter-core'') (w_mws w) of
        None \<Rightarrow> Inr '''' | Some mw \<Rightarrow> version_in C (mw_manifests mw))"

lemma observedVersion_run: "no_faults w \<Longrightarrow> observedVersion C ns w = (shipped_version C ns w, w)"
  by (simp add: observedVersion_def shipped_version_def prog_simps works_def split: option.split)

text \<open>The status as the API server keeps it.\<close>

definition kept_status :: "bindstatus \<Rightarrow> bindstatus" where
  "kept_status st = st\<lparr>st_upgraded := to_second (st_upgraded st)\<rparr>"

lemma settle_run:
  assumes "no_faults w" and "find_obj (obj_key pb) (w_bindings w) = Some pb" and "om_name pb \<noteq> ''''"
  shows "settle C pb u None (w, f) =
    (case shipped_version C (om_ns pb) w of
       Inl e \<Rightarrow> (Inl e, (w, f))
     | Inr v \<Rightarrow>
         (case upgraded_at pb u ((pb_status pb)\<lparr>st_version := v\<rparr>) of
            Inl e \<Rightarrow> (Inl e, (w, f))
          | Inr st \<Rightarrow> (Inr (Some Result_zero), (w_bindings_update (put_obj (pb\<lparr>pb_status := kept_status st\<rparr>)) w, f))))"
proof -
  have "status_update (pb\<lparr>pb_status := st\<rparr>) w = (Inr (), w_bindings_update (put_obj (pb\<lparr>pb_status := kept_status st\<rparr>)) w)" for st
    using assms by (simp add: status_update_def api_call_run kept_status_def)
  moreover have "refetch pb w = (Inr pb, w)"
    using assms by (simp add: refetch_def prog_simps bindings_def)
  ultimately show ?thesis
    using observedVersion_run [OF assms(1)]
    by (simp add: settle_def setOpscenterFeaturesVersion_def prog_simps onhub_run split: sum.split)
qed

lemma upgraded_at_Inr:
  assumes "upgraded_at pb (zstr (om_annots pb UpgradeAnnotation)) st0 = Inr st"
  shows "st_version st = st_version st0 \<and>
     (case parse_rfc3339 (zstr (om_annots pb UpgradeAnnotation)) of
        None \<Rightarrow> zstr (om_annots pb UpgradeAnnotation) = '''' \<and> st = st0
      | Some t \<Rightarrow> st_upgraded st = t)"
proof (cases "zstr (om_annots pb UpgradeAnnotation) = ''''")
  case True
  moreover have "parse_rfc3339 '''' = None" by code_simp
  ultimately show ?thesis using assms by (simp add: upgraded_at_def)
next
  case False
  then show ?thesis using assms by (auto simp: upgraded_at_def split: option.splits)
qed

text \<open>What the next reconcile decides, once the status of this one is recorded.\<close>

lemma needsUpgrade_settled:
  assumes "upgraded_at pb (zstr (om_annots pb UpgradeAnnotation)) st0 = Inr st"
  shows "needsUpgrade (pb\<lparr>pb_status := kept_status st\<rparr>) \<longleftrightarrow>
     bs_version (pb_spec pb) \<notin> {'''', st_version st0} \<or>
     (case parse_rfc3339 (zstr (om_annots pb UpgradeAnnotation)) of
        None \<Rightarrow> False | Some t \<Rightarrow> t mod second \<noteq> 0)"
proof -
  have e: "parse_rfc3339 '''' = None" by code_simp
  have d: "to_second t = t \<longleftrightarrow> t mod second = 0" for t
    using to_second_eq_iff [of t] by (simp only: dvd_eq_mod_eq_0)
  have v: "st_version st = st_version st0" using upgraded_at_Inr [OF assms] by simp
  show ?thesis
  proof (cases "om_annots pb UpgradeAnnotation")
    case None
    then show ?thesis by (simp add: needsUpgrade_def kept_status_def e v)
  next
    case (Some a)
    with upgraded_at_Inr [OF assms] have u: "parse_rfc3339 a = Some t \<Longrightarrow> st_upgraded st = t" for t by simp
    show ?thesis
    proof (cases "parse_rfc3339 a")
      case None
      with Some show ?thesis by (simp add: needsUpgrade_def kept_status_def v)
    next
      case (Some t)
      then have "a \<noteq> ''''" using e by force
      with Some \<open>om_annots pb UpgradeAnnotation = Some a\<close> u [OF Some] d [of t] show ?thesis
        by (simp add: needsUpgrade_def kept_status_def v)
    qed
  qed
qed

lemma validate_Inr:
  "validateFeatureList pr = Inr u \<longleftrightarrow>
     map_of (pr_features pr) ''opscenter-features'' \<noteq> None \<and> map_of (pr_features pr) ''kube-ui-server'' \<noteq> None"
  by (auto simp: validateFeatureList_def)

lemma Reconcile_run:
  assumes "no_faults w" and "find_obj req (w_bindings w) = Some pb"
    and "find_obj ('''', bs_profile (pb_spec pb)) (w_profiles w) = Some pr" and "validateFeatureList pr = Inr ()"
  shows "Reconcile E n req (w, f) = act E n pb pr (w, f)"
  using assms
  by (simp add: Reconcile_def found_or_done_def prog_simps onhub_run bindings_def profiles_def)

text \<open>Success without a requeue always comes out of the status step.\<close>

lemma act_settles:
  assumes "act E n pb pr (w, f) = (Inr (Some Result_zero), st)" and "no_faults w"
  obtains w1 f1 where "no_faults w1" "w_bindings w1 = w_bindings w"
    "settle (fe_codec E) pb (zstr (om_annots pb UpgradeAnnotation)) None (w1, f1) = (Inr (Some Result_zero), st)"
proof -
  have b: "blind (\<lambda>w'. no_faults w' \<and> w_bindings w' = w_bindings w)"
    using blind_no_faults [of "\<lambda>b p c f. b = w_bindings w"] .
  have fail: "settle C pb u (Some e) s \<noteq> (Inr (Some Result_zero), st)" for C u e s
    by (cases s) (simp add: settle_def setOpscenterFeaturesVersion_def prog_simps onhub_run)
  let ?I = "onfst (\<lambda>w'. no_faults w' \<and> w_bindings w' = w_bindings w)"
  consider
    (plain) "\<not> needsUpgrade pb" "\<not> shouldEnableFeatures pb pr"
  | (up) "needsUpgrade pb"
  | (enable) "\<not> needsUpgrade pb" "shouldEnableFeatures pb pr" by blast
  then show thesis
  proof cases
    case plain
    with assms show thesis by (intro that [of w f]) (simp_all add: act_def Let_def)
  next
    case up
    obtain r s1 where u: "UpgradeCluster E pb pr (w, f) = (r, s1)" by (cases "UpgradeCluster E pb pr (w, f)")
    have i: "?I s1" using keepsD [OF frame_UpgradeCluster [OF b], of "(w, f)" E pb pr] u assms(2) by simp
    from assms(1) up u fail obtain res where "r = Inr res"
      "settle (fe_codec E) pb (zstr (om_annots pb UpgradeAnnotation)) None s1 = (Inr (Some Result_zero), st)"
      by (cases r) (auto simp: act_def Let_def tryM_run ret_run split: if_splits)
    with i show thesis by (cases s1) (auto intro: that)
  next
    case enable
    obtain r s1 where u: "EnableFeatures E n pb (collect_features E pb pr) pr (w, f) = (r, s1)"
      by (cases "EnableFeatures E n pb (collect_features E pb pr) pr (w, f)")
    have i: "?I s1"
      using keepsD [OF frame_EnableFeatures [OF blind_worksI [OF b]], of "(w, f)" E n pb "collect_features E pb pr" pr] u assms(2) by simp
    from assms(1) enable u fail have
      "settle (fe_codec E) pb (zstr (om_annots pb UpgradeAnnotation)) None s1 = (Inr (Some Result_zero), st)"
      by (cases r) (auto simp: act_def Let_def tryM_run ret_run split: option.splits)
    with i show thesis by (cases s1) (auto intro: that)
  qed
qed

section \<open>Theorems\<close>

text \<open>
  C18: When a reconcile of a binding reports success without a requeue, the binding's status
  is written, its version is the one the opscenter-core ManifestWork carries, and the next
  reconcile upgrades again exactly when the wanted version is not the observed one, or the
  upgradeAt annotation names a time with a fraction of a second, which the status cannot
  hold.
\<close>

theorem reconciled_status:
  assumes "no_faults w" and "find_obj req (w_bindings w) = Some pb" and "om_name pb \<noteq> ''''"
    and "find_obj ('''', bs_profile (pb_spec pb)) (w_profiles w) = Some pr" and "validateFeatureList pr = Inr ()"
    and "Reconcile E n req (w, f) = (Inr (Some Result_zero), (w', f'))"
  shows "\<exists>st. find_obj req (w_bindings w') = Some (pb\<lparr>pb_status := st\<rparr>) \<and>
     shipped_version (fe_codec E) (om_ns pb) w' = Inr (st_version st) \<and>
     (needsUpgrade (pb\<lparr>pb_status := st\<rparr>) \<longleftrightarrow>
        bs_version (pb_spec pb) \<notin> {'''', st_version st} \<or>
        (case parse_rfc3339 (zstr (om_annots pb UpgradeAnnotation)) of
           None \<Rightarrow> False | Some t \<Rightarrow> t mod second \<noteq> 0))"
proof -
  let ?u = "zstr (om_annots pb UpgradeAnnotation)"
  have k: "obj_key pb = req" using find_obj_key [OF assms(2)] by simp
  from assms(6) have "act E n pb pr (w, f) = (Inr (Some Result_zero), (w', f'))"
    by (simp add: Reconcile_run [OF assms(1,2,4,5)])
  then obtain w1 f1 where w1: "no_faults w1" "w_bindings w1 = w_bindings w"
    and s: "settle (fe_codec E) pb ?u None (w1, f1) = (Inr (Some Result_zero), (w', f'))"
    using assms(1) by (rule act_settles)
  have "find_obj (obj_key pb) (w_bindings w1) = Some pb" by (simp add: w1 k assms(2))
  from settle_run [OF w1(1) this assms(3), of "fe_codec E" ?u f1] s obtain v st0 where
    v: "shipped_version (fe_codec E) (om_ns pb) w1 = Inr v"
    and u: "upgraded_at pb ?u ((pb_status pb)\<lparr>st_version := v\<rparr>) = Inr st0"
    and w': "w' = w_bindings_update (put_obj (pb\<lparr>pb_status := kept_status st0\<rparr>)) w1"
    by (auto split: sum.splits)
  have sv: "st_version (kept_status st0) = v" using upgraded_at_Inr [OF u] by (simp add: kept_status_def)
  have "find_obj req (w_bindings w') = Some (pb\<lparr>pb_status := kept_status st0\<rparr>)"
    by (simp add: w' kube.look_put k)
  moreover have "shipped_version (fe_codec E) (om_ns pb) w' = Inr (st_version (kept_status st0))"
    using v by (simp add: sv shipped_version_def w')
  moreover have "needsUpgrade (pb\<lparr>pb_status := kept_status st0\<rparr>) \<longleftrightarrow>
        bs_version (pb_spec pb) \<notin> {'''', st_version (kept_status st0)} \<or>
        (case parse_rfc3339 ?u of None \<Rightarrow> False | Some t \<Rightarrow> t mod second \<noteq> 0)"
    using needsUpgrade_settled [OF u] by (simp add: sv)
  ultimately show ?thesis by blast
qed

lemma Reconcile_observes:
  assumes "no_faults w" and "find_obj req (w_bindings w) = Some pb" and "om_name pb \<noteq> ''''"
    and "find_obj ('''', bs_profile (pb_spec pb)) (w_profiles w) = Some pr" and "validateFeatureList pr = Inr ()"
    and "needsUpgrade pb" and "findPendingUpgrade pb w = (Inr (Some (c, ts)), w)"
    and "cm_at w (obj_key c) = Some c" and "still_pending w ts = []"
    and "shipped_version (fe_codec E) (om_ns pb) w = Inr (bs_version (pb_spec pb))"
    and "zstr (om_annots pb UpgradeAnnotation) = '''' \<or>
         (\<exists>t. parse_rfc3339 (zstr (om_annots pb UpgradeAnnotation)) = Some t \<and> t mod second = 0)"
  obtains w' pb' where "Reconcile E n req (w, f) = (Inr (Some Result_zero), (w', f))"
    "find_obj req (w_bindings w') = Some pb'" "pb' = pb\<lparr>pb_status := pb_status pb'\<rparr>" "\<not> needsUpgrade pb'"
    "st_version (pb_status pb') = bs_version (pb_spec pb)" "w_mws w' = w_mws w"
proof -
  let ?u = "zstr (om_annots pb UpgradeAnnotation)"
  have k: "obj_key pb = req" using find_obj_key [OF assms(2)] by simp
  obtain w1 where o: "observeUpgrade c ts w = (Inr Result_zero, w1)"
    using assms(1,8,9) by (rule observeUpgrade_ready)
  have "blind (\<lambda>w'. no_faults w' \<and> w_bindings w' = w_bindings w)"
    using blind_no_faults [of "\<lambda>b p c f. b = w_bindings w"] .
  from keepsD [OF frame_observe [OF this], of w c ts] o assms(1)
  have w1: "no_faults w1" "w_bindings w1 = w_bindings w" by simp_all
  have "w_mws w1 = w_mws w" using keepsD [OF keeps_works_observe, of w "w_mws w" c ts] o by simp
  note mws = this
  from mws have sv: "shipped_version (fe_codec E) (om_ns pb) w1 = Inr (bs_version (pb_spec pb))"
    using assms(10) by (simp add: shipped_version_def)
  have e: "parse_rfc3339 '''' = None" by code_simp
  obtain st0 where up: "upgraded_at pb ?u ((pb_status pb)\<lparr>st_version := bs_version (pb_spec pb)\<rparr>) = Inr st0"
    using assms(11) by (cases "?u = ''''") (auto simp: upgraded_at_def)
  let ?pb = "pb\<lparr>pb_status := kept_status st0\<rparr>"
  have "find_obj (obj_key pb) (w_bindings w1) = Some pb" by (simp add: w1 k assms(2))
  from settle_run [OF w1(1) this assms(3), of "fe_codec E" ?u f]
  have s: "settle (fe_codec E) pb ?u None (w1, f) = (Inr (Some Result_zero), (w_bindings_update (put_obj ?pb) w1, f))"
    by (simp add: sv up)
  have "act E n pb pr (w, f) = settle (fe_codec E) pb ?u None (w1, f)"
    using assms(6,7) o by (simp add: act_def Let_def UpgradeCluster_def tryM_run bindM_run onhub_run)
  then have r: "Reconcile E n req (w, f) = (Inr (Some Result_zero), (w_bindings_update (put_obj ?pb) w1, f))"
    by (simp add: Reconcile_run [OF assms(1,2,4,5)] s)
  have b: "find_obj req (w_bindings (w_bindings_update (put_obj ?pb) w1)) = Some ?pb"
    by (simp add: kube.look_put k)
  have u: "\<not> needsUpgrade ?pb"
    using assms(11) e by (auto simp: needsUpgrade_settled [OF up])
  have "st_version (pb_status ?pb) = bs_version (pb_spec pb)"
    using upgraded_at_Inr [OF up] by (simp add: kept_status_def)
  moreover have "?pb = pb\<lparr>pb_status := pb_status ?pb\<rparr>" by simp
  ultimately show thesis using r b u mws by (intro that [of "w_bindings_update (put_obj ?pb) w1" ?pb]) simp_all
qed

text \<open>
  C33: A binding whose upgradeAt annotation cannot be read as a time never gets its status
  written, whatever its reconcile does and whatever calls fail.
\<close>

theorem invalid_time_blocks_status:
  assumes "find_obj req (w_bindings w) = Some pb"
    and "zstr (om_annots pb UpgradeAnnotation) \<noteq> ''''"
    and "parse_rfc3339 (zstr (om_annots pb UpgradeAnnotation)) = None"
  shows "w_bindings (fst (snd (Reconcile E n req (w, f)))) = w_bindings w"
proof -
  let ?I = "with_bindings (w_bindings w)"
  have up: "upgraded_at pb (zstr (om_annots pb UpgradeAnnotation)) st = Inl (ErrText ''invalid force-upgrade timestamp, skipping update.'')" for st
    using assms(2,3) by (simp add: upgraded_at_def)
  have fail: "keeps I (bindM (liftM (Inl e)) h)" for I e and h :: "'b \<Rightarrow> (world, 'c) prog"
    by (simp add: triple_def bindM_run liftM_run)
  have rf: "keeps ?I (refetch pb)" unfolding refetch_def by (intro frame blind_worksI blind_with_bindings)
  have "keeps ?I (setOpscenterFeaturesVersion C pb (zstr (om_annots pb UpgradeAnnotation)) err)" for C err
    unfolding setOpscenterFeaturesVersion_def up
    by (intro frame rf fail blind_worksI blind_with_bindings)
  then have "keeps (onfst ?I) (settle C pb (zstr (om_annots pb UpgradeAnnotation)) err)" for C err
    unfolding settle_def by (intro frame)
  then have "keeps (onfst ?I) (act E n pb pr)" for pr
    unfolding act_def Let_def by (intro frame blind_worksI blind_with_bindings)
  then have k: "keeps (onfst ?I) (found_or_done (api_get profiles ('''', bs_profile (pb_spec pb)))
      (\<lambda>pr. bindM (liftM (validateFeatureList pr)) (\<lambda>_. act E n pb pr)))"
    unfolding found_or_done_def by (intro frame blind_worksI blind_with_bindings)
  show ?thesis
  proof (cases rule: bdk.get_cases [of req w])
    case (found x fs)
    with assms(1) have x: "x = pb" by (simp add: bindings_def)
    have "onfst ?I (snd (found_or_done (api_get profiles ('''', bs_profile (pb_spec pb)))
      (\<lambda>pr. bindM (liftM (validateFeatureList pr)) (\<lambda>_. act E n pb pr)) (w\<lparr>w_faults := fs\<rparr>, f)))"
      by (rule keepsD [OF k]) simp
    with found x show ?thesis by (subst Reconcile_def, subst found_or_done_def) (simp add: tryM_run onhub_run)
  next
    case (failed e fs)
    then show ?thesis
      by (simp add: Reconcile_def found_or_done_def tryM_run onhub_run ret_run raise_run split: option.split)
  qed
qed

text \<open>
  C34: Without faults, a reconcile of a binding that is gone, or whose profile is gone, ends
  well and touches nothing; of a profile that lacks opscenter-features or kube-ui-server it
  fails with the name of the first one missing, and touches nothing.
\<close>

theorem Reconcile_front:
  assumes "no_faults w"
  shows "case find_obj req (w_bindings w) of
      None \<Rightarrow> Reconcile E n req (w, f) = (Inr (Some Result_zero), (w, f))
    | Some pb \<Rightarrow>
       (case find_obj ('''', bs_profile (pb_spec pb)) (w_profiles w) of
          None \<Rightarrow> Reconcile E n req (w, f) = (Inr (Some Result_zero), (w, f))
        | Some pr \<Rightarrow>
           (case map_of (pr_features pr) ''opscenter-features'' of
              None \<Rightarrow> Reconcile E n req (w, f) = (Inl (ErrText ''opscenter-features not found in feature list''), (w, f))
            | Some _ \<Rightarrow> (case map_of (pr_features pr) ''kube-ui-server'' of
                None \<Rightarrow> Reconcile E n req (w, f) = (Inl (ErrText ''kube-ui-server not found in feature list''), (w, f))
              | Some _ \<Rightarrow> Reconcile E n req (w, f) = act E n pb pr (w, f))))"
  using assms
  by (auto simp: Reconcile_def found_or_done_def prog_simps onhub_run bindings_def profiles_def validateFeatureList_def
      IgnoreNotFound_def split: option.split)

section \<open>A binding to look at\<close>

definition rec_manifest :: raw where
  "rec_manifest =
     Text (JObj (fmap_of_list
       [(''kind'', JStr HelmReleaseKind),
        (''metadata'', JObj (fmap_of_list [(''name'', JStr ''opscenter-features''), (''namespace'', JStr ''kubeops'')])),
        (''spec'', JObj (fmap_of_list [(''version'', JStr ''v2'')]))]))"

definition rec_world :: world where
  "rec_world = (ex_world 2 0)\<lparr>w_mws := [(ex_work 2)\<lparr>mw_manifests := [rec_manifest]\<rparr>],
     w_bindings := [ex_binding ''v2''], w_profiles := [ex_profile]\<rparr>"

lemma rec_world_ok:
  "no_faults rec_world" "find_obj (''c1'', ''c1'') (w_bindings rec_world) = Some (ex_binding ''v2'')"
  "om_name (ex_binding ''v2'') \<noteq> ''''"
  "find_obj ('''', bs_profile (pb_spec (ex_binding ''v2''))) (w_profiles rec_world) = Some ex_profile"
  "validateFeatureList ex_profile = Inr ()" "needsUpgrade (ex_binding ''v2'')"
  by (simp_all add: rec_world_def no_faults_def ex_world_def ex_binding_def ex_profile_def obj_key_def validate_Inr
      needsUpgrade_def zero_status_def)

lemma rec_world_run:
  "findPendingUpgrade (ex_binding ''v2'') rec_world = (Inr (Some (ex_run, [ex_target])), rec_world)"
  "cm_at rec_world (obj_key ex_run) = Some ex_run" "still_pending rec_world [ex_target] = []"
proof -
  have "om_annots ex_run UpgradeTargetsAnnotation = Some (marshal_targets [ex_target])"
    by (simp add: ex_run_def record_annots_simps)
  moreover have "run_matches (ex_binding ''v2'') ex_run"
    by (simp add: run_matches_def ex_defs)
  ultimately have "first_run (ex_binding ''v2'') [ex_run] = Inr (Some (ex_run, [ex_target]))"
    by (intro first_run_single) (simp_all add: resumable_def)
  moreover have "filter (is_upgrader ''c1'') [ex_run] = [ex_run]" by (simp add: is_upgrader_def ex_defs)
  ultimately show "findPendingUpgrade (ex_binding ''v2'') rec_world = (Inr (Some (ex_run, [ex_target])), rec_world)"
    using rec_world_ok(1)
    by (simp add: findPendingUpgrade_def bindM_run api_list_run liftM_run rec_world_def ex_world_def cmaps_def ex_binding_def)
  show "cm_at rec_world (obj_key ex_run) = Some ex_run" by (simp add: rec_world_def ex_world_def)
  show "still_pending rec_world [ex_target] = []"
    by (simp add: still_pending_def target_ready_def rec_world_def work_key_def obj_key_def ex_target_def ex_work_def
      helmReleaseReady_def helmReleaseFeedback_def constants ex_world_def)
qed

lemma rec_world_version: "shipped_version (fe_codec ex_env) (om_ns (ex_binding ''v2'')) rec_world = Inr ''v2''"
  by (simp add: shipped_version_def rec_world_def ex_world_def ex_work_def obj_key_def ex_binding_def rec_manifest_def
      manifest_id_def manifest_object_def GetKindNameNamespace_def NestedString_def NestedFieldNoCopy_def
      fmlookup_of_list ver_codec_def ex_release_def)

lemma ex_binding_simps: "bs_version (pb_spec (ex_binding v)) = v" "om_annots (ex_binding v) = Map.empty"
  by (simp_all add: ex_binding_def)

theorem reconciled_status_witness:
  "\<exists>w'. Reconcile ex_env 0 (''c1'', ''c1'') (rec_world, ()) = (Inr (Some Result_zero), (w', ())) \<and>
     shipped_version ver_codec ''c1'' w' = Inr ''v2''"
proof -
  obtain w' pb' where r: "Reconcile ex_env 0 (''c1'', ''c1'') (rec_world, ()) = (Inr (Some Result_zero), (w', ()))"
    and f: "find_obj (''c1'', ''c1'') (w_bindings w') = Some pb'" "\<not> needsUpgrade pb'"
    by (rule Reconcile_observes [OF rec_world_ok rec_world_run, where n = 0 and f = "()" and E = ex_env])
      (simp_all add: rec_world_version ex_binding_simps del: ex_env_simps)
  from reconciled_status [OF rec_world_ok(1-5) r] f
  have "shipped_version (fe_codec ex_env) ''c1'' w' = Inr ''v2''"
    by (auto simp: ex_binding_simps) (simp add: ex_binding_def)
  with r show ?thesis by simp
qed

definition bad_time_world :: world where
  "bad_time_world = rec_world\<lparr>w_bindings := [(ex_binding ''v2'')\<lparr>om_annots := [UpgradeAnnotation \<mapsto> ''soon'']\<rparr>]\<rparr>"

theorem invalid_time_blocks_status_witness:
  "w_bindings (fst (snd (Reconcile ex_env 0 (''c1'', ''c1'') (bad_time_world, ())))) = w_bindings bad_time_world"
proof (rule invalid_time_blocks_status)
  show "find_obj (''c1'', ''c1'') (w_bindings bad_time_world) = Some ((ex_binding ''v2'')\<lparr>om_annots := [UpgradeAnnotation \<mapsto> ''soon'']\<rparr>)"
    by (simp add: bad_time_world_def ex_binding_def obj_key_def)
  have "parse_rfc3339 ''soon'' = None" by code_simp
  then show "parse_rfc3339 (zstr (om_annots ((ex_binding ''v2'')\<lparr>om_annots := [UpgradeAnnotation \<mapsto> ''soon'']\<rparr>) UpgradeAnnotation)) = None"
    by simp
qed simp

theorem Reconcile_front_witness:
  "Reconcile ex_env 0 (''c1'', ''gone'') (rec_world, ()) = (Inr (Some Result_zero), (rec_world, ()))"
  using Reconcile_front [OF rec_world_ok(1), where req = "(''c1'', ''gone'')" and E = ex_env and n = 0 and f = "()"]
  by (simp add: rec_world_def ex_binding_def obj_key_def)

end
