(* ===== verification/Isolation.thy ===== *)
theory Isolation
  imports Views BindingFacts
begin

text \<open>
  Clusters are isolated from one another: every operation of a reconcile of a binding, and so
  the reconcile, stays inside the namespace of the binding. It writes nothing else, whatever
  calls failed, and on a hub whose recorded runs name ManifestWorks of their own cluster it reads nothing else
  but what is cluster-wide.
\<close>

section \<open>An upgrade\<close>

text \<open>The ConfigMap of a run, and the targets collected for it, stay fit for the namespace.\<close>

abbreviation run_ok :: "bool \<Rightarrow> string \<Rightarrow> configmap \<Rightarrow> bool" where
  "run_ok \<equiv> nck.fit"

abbreviation step_ok :: "bool \<Rightarrow> string \<Rightarrow> configmap \<times> upgrade_target list \<Rightarrow> bool" where
  "step_ok b ns ct \<equiv> run_ok b ns (fst ct) \<and> targets_in ns (snd ct)"

lemma own_targets_data [simp]: "own_targets (c\<lparr>cm_data := d\<rparr>) = own_targets c"
  by (simp add: own_targets_def split: option.split sum.split)

lemma own_targets_none: "om_annots c UpgradeTargetsAnnotation = None \<Longrightarrow> own_targets c"
  by (simp add: own_targets_def)

lemma own_targetsD:
  "own_targets c \<Longrightarrow> om_annots c UpgradeTargetsAnnotation = Some raw \<Longrightarrow> unmarshal_targets raw = Inr ts \<Longrightarrow>
     targets_in (om_ns c) ts"
  by (simp add: own_targets_def)

lemma run_okD:
  "run_ok b ns c \<Longrightarrow> om_ns c = ns"
  "run_ok b ns c \<Longrightarrow> b \<Longrightarrow> om_annots c UpgradeTargetsAnnotation = Some raw \<Longrightarrow> unmarshal_targets raw = Inr ts \<Longrightarrow> targets_in ns ts"
  by (auto simp: nck.fit_def dest: own_targetsD)

lemma run_ok_data [simp]: "run_ok b ns (c\<lparr>cm_data := d\<rparr>) = run_ok b ns c"
  by (simp add: nck.fit_def)

lemma mark_ready_fit: "run_ok b ns (mark_ready t c) = run_ok b ns c"
  by (simp add: mark_ready_def)

lemma with_data_fit: "run_ok b ns (with_data c cur) = run_ok b ns cur"
  by (simp add: with_data_def)

lemma finished_fit: "run_ok b ns c \<Longrightarrow> run_ok b ns (finished c)"
  by (simp add: nck.fit_def finished_def own_targets_none)

lemma patched_fit:
  assumes "run_ok b ns c" and "run_ok b ns cur"
  shows "run_ok b ns (patch_config_map c cur)"
proof (cases "om_annots c UpgradeTargetsAnnotation")
  case None
  with assms show ?thesis by (simp add: nck.fit_def patch_config_map_def own_targets_none)
next
  case (Some raw)
  then have "om_annots (patch_config_map c cur) UpgradeTargetsAnnotation = Some raw" by (simp add: patch_config_map_def)
  with assms Some show ?thesis by (simp add: nck.fit_def own_targets_def) (simp add: patch_config_map_def split: sum.splits)
qed

lemma recorded_fit: "run_ok b ns c \<Longrightarrow> targets_in ns ts \<Longrightarrow> run_ok b ns (record_annots ts u c)"
  by (simp add: nck.fit_def record_annots_def own_targets_def unmarshal_marshal Let_def UpgradeTargetsAnnotation_def
      UpgradeAnnotation_def)

lemma new_run_fit: "run_ok b ns (new_config_map sfx ver ns d)"
  by (simp add: nck.fit_def new_config_map_def own_targets_none)

lemma patch_data_in: "run_ok b ns c \<Longrightarrow> hub_in b ns (run_ok b ns) (patchConfigMapData c)"
  unfolding patchConfigMapData_def by (rule nck.create_or_patch_in) (simp_all add: patched_fit)

lemma patch_data_inside [isolated]: "run_ok b ns c \<Longrightarrow> hub_in b ns (\<lambda>_. True) (patchConfigMapData c)"
  by (rule within_inside) (rule patch_data_in)

abbreviation watch_ok :: "bool \<Rightarrow> string \<Rightarrow> watch \<Rightarrow> bool" where
  "watch_ok b ns st \<equiv> run_ok b ns (fst (snd st))"

lemma evaluate_in:
  "(b \<longrightarrow> ut_mw_ns t = ns) \<Longrightarrow> watch_ok b ns st \<Longrightarrow> hub_in b ns (watch_ok b ns) (evaluate_target st t)"
  unfolding evaluate_target_def
  by (cases st) (auto intro!: within_tryM [OF nwk.get_any] within_ret simp: mark_ready_fit work_key_def)

lemma evaluate_targets_in:
  assumes "run_ok b ns c" and "b \<longrightarrow> targets_in ns ts"
  shows "hub_in b ns (\<lambda>r. run_ok b ns (snd r)) (evaluateTargets ts c)"
  unfolding evaluateTargets_def
proof (rule within_bindM)
  show "hub_in b ns (watch_ok b ns) (foldM evaluate_target ([], c, False) ts)"
    by (rule within_foldM, simp add: assms(1), rule evaluate_in) (use assms(2) in \<open>auto simp: list_all_iff\<close>)
  show "hub_in b ns (\<lambda>r. run_ok b ns (snd r))
     (case st of (pending, configMap, becameReady) \<Rightarrow>
        if becameReady then tryM (patchConfigMapData configMap)
             (\<lambda>r. case r of Inl e \<Rightarrow> raise (ErrWrap ''failed to mark HelmRelease(s) ready in upgrader ConfigMap'' e)
                          | Inr configMap \<Rightarrow> ret (pending, configMap))
        else ret (pending, configMap))" if "watch_ok b ns st" for st
    using that by (cases st) (auto intro!: within_tryM [OF patch_data_in] within_ret within_raise)
qed

lemma finish_inside [isolated]: "run_ok b ns c \<Longrightarrow> hub_in b ns (\<lambda>_. True) (finishUpgrade c e)"
  unfolding finishUpgrade_def by (intro isolated finished_fit)

lemma observe_inside:
  assumes "run_ok b ns c" and "b \<longrightarrow> targets_in ns ts"
  shows "hub_in b ns (\<lambda>_. True) (observeUpgrade c ts)"
  unfolding observeUpgrade_def
proof (rule within_bindM [OF evaluate_targets_in [OF assms]])
  fix r :: "upgrade_target list \<times> configmap"
  assume "run_ok b ns (snd r)"
  then show "hub_in b ns (\<lambda>_. True) (case r of (pending, configMap) \<Rightarrow>
       if pending = [] then bindM (finishUpgrade configMap None) (\<lambda>_. ret Result_zero)
       else bindM now (\<lambda>t.
           if om_created configMap + helmReleaseReadyTimeout < t then
             bindM (finishUpgrade configMap (Some (timeout_error pending))) (\<lambda>_. ret Result_zero)
           else ret (Result_after helmReleaseReadyPollInterval)))"
    by (cases r) (auto intro!: isolated)
qed

lemma first_run_found:
  "first_run pb cs = Inr (Some (c, ts)) \<Longrightarrow>
     c \<in> set cs \<and> (\<exists>raw. om_annots c UpgradeTargetsAnnotation = Some raw \<and> unmarshal_targets raw = Inr ts)"
  by (induction cs) (auto split: if_splits option.splits sum.splits)

lemma find_in:
  "hub_in b (om_ns pb) (\<lambda>r. \<forall>c ts. r = Some (c, ts) \<longrightarrow> run_ok b (om_ns pb) c \<and> (b \<longrightarrow> targets_in (om_ns pb) ts))
     (findPendingUpgrade pb)"
  unfolding findPendingUpgrade_def
  by (rule within_bindM [OF nck.list_in])
    (auto intro!: within_liftM dest!: first_run_found dest: run_okD(2) simp: is_upgrader_def)

lemma record_inside [isolated]:
  "run_ok b ns c \<Longrightarrow> targets_in ns ts \<Longrightarrow> hub_in b ns (\<lambda>_. True) (recordPendingUpgrade c ts u)"
  unfolding recordPendingUpgrade_def by (intro patch_data_inside recorded_fit)

lemma delete_all_inside: "\<forall>c \<in> set cs. om_ns c = ns \<Longrightarrow> hub_in b ns (\<lambda>_. True) (delete_all cs)"
  by (induction cs) (auto intro!: isolated)

lemma new_run_in: "hub_in b ns (run_ok b ns) (createConfigMapInSpokeClusterNamespace C v ns)"
proof -
  have "hub_in b ns (\<lambda>_. True) (deleteStaleUpgraderConfigMaps ns)"
    unfolding deleteStaleUpgraderConfigMaps_def
    by (rule within_bindM [OF nck.list_in]) (auto simp: is_upgrader_def intro: delete_all_inside)
  moreover have "hub_in b ns (\<lambda>_. True) (api_list works (\<lambda>mw. om_ns mw = ns))"
    by (rule within_inside, rule nwk.list_in)
  ultimately show ?thesis
    unfolding createConfigMapInSpokeClusterNamespace_def
    by (intro isolated nck.create_in new_run_fit)
qed

lemma with_spec_ns [simp]: "om_ns (with_spec mw cur) = om_ns cur"
  by (simp add: with_spec_def)

lemma store_step_in:
  "om_ns mw = ns \<Longrightarrow> run_ok b ns c \<Longrightarrow> hub_in b ns (run_ok b ns) (store_step mw c)"
  unfolding store_step_def
  by (rule then_within, rule within_inside, rule nwk.create_or_patch_in)
    (auto simp: nwk.fit_def with_data_fit intro: nck.create_or_patch_in)

text \<open>Rewriting a ManifestWork of the namespace adds targets of the namespace.\<close>

lemma passed: "pass_ok mw p mw' p' \<Longrightarrow> targets_in (om_ns mw) (snd p) \<Longrightarrow> om_ns mw' = om_ns mw \<and> targets_in (om_ns mw) (snd p')"
  by (auto simp: pass_ok_def obj_key_def list_all_iff)

lemma rewrite_core_ok:
  "rewrite_core C pr pb v mw im d = Inr (mw', p) \<Longrightarrow> om_ns mw' = om_ns mw \<and> targets_in (om_ns mw) (snd p)"
  by (auto simp: rewrite_core_def bindE_Inr_iff dest!: replace_release_ok passed)

lemma rewrite_work_ok:
  "rewrite_work E f pr pb mw p = Inr (mw', p') \<Longrightarrow> targets_in (om_ns mw) (snd p) \<Longrightarrow>
     om_ns mw' = om_ns mw \<and> targets_in (om_ns mw) (snd p')"
  by (auto simp: rewrite_work_def bindE_Inr_iff dest!: upgrade_manifests_ok passed)

lemma stored_in:
  assumes "\<And>mw' d ts. r = Inr (mw', d, ts) \<Longrightarrow> om_ns mw' = ns \<and> targets_in ns ts" and "run_ok b ns c"
  shows "hub_in b ns (step_ok b ns) (bindM (liftM r) (\<lambda>(mw', d, ts).
      bindM (store_step mw' (c\<lparr>cm_data := d\<rparr>)) (\<lambda>c. ret (c, ts))))"
  by (rule within_bindM [where P = "\<lambda>x. om_ns (fst x) = ns \<and> targets_in ns (snd (snd x))"])
    (use assms in \<open>auto intro!: within_liftM within_bindM [OF store_step_in] within_ret\<close>)

lemma upgrade_core_in:
  assumes "om_ns mw = ns" and "run_ok b ns c"
  shows "hub_in b ns (step_ok b ns) (upgrade_core C pr pb v mw c)"
  unfolding upgrade_core_def
proof (rule then_within [OF inside_liftM])
  fix found
  have "hub_in b ns (step_ok b ns) (bindM (liftM (rewrite_core C pr pb v mw im (cm_data c))) (\<lambda>(mw', d, ts).
      bindM (store_step mw' (c\<lparr>cm_data := d\<rparr>)) (\<lambda>c. ret (c, ts))))" for im
    by (rule stored_in) (use assms in \<open>auto dest: rewrite_core_ok\<close>)
  then show "hub_in b ns (step_ok b ns) (case found of None \<Rightarrow> ret (c, [])
     | Some im \<Rightarrow> bindM (liftM (rewrite_core C pr pb v mw im (cm_data c))) (\<lambda>(mw', d, ts).
         bindM (store_step mw' (c\<lparr>cm_data := d\<rparr>)) (\<lambda>c. ret (c, ts))))"
    using assms(2) by (simp add: within_ret split: option.split)
qed

lemma upgrade_work_in:
  assumes "om_ns mw = ns" and "step_ok b ns ct"
  shows "hub_in b ns (step_ok b ns) (upgrade_work E f pr pb ct mw)"
proof (cases "is_managed mw")
  case True
  have "hub_in b ns (step_ok b ns) (bindM (liftM (rewrite_work E f pr pb mw (cm_data (fst ct), snd ct))) (\<lambda>(mw', d, ts).
      bindM (store_step mw' ((fst ct)\<lparr>cm_data := d\<rparr>)) (\<lambda>c. ret (c, ts))))"
    by (rule stored_in) (use assms in \<open>auto dest: rewrite_work_ok\<close>)
  with True show ?thesis by (simp add: upgrade_work_def)
qed (use assms in \<open>simp add: upgrade_work_def within_ret\<close>)

lemma finish_apply_inside [isolated]: "step_ok b ns ct \<Longrightarrow> hub_in b ns (\<lambda>_. True) (finish_apply pb ct)"
  unfolding finish_apply_def by (intro isolated) simp_all

lemma write_upgrade_inside [isolated]: "hub_in b (om_ns pb) (\<lambda>_. True) (write_upgrade E f pr pb v)"
  unfolding write_upgrade_def
proof (rule within_bindM [OF nwk.get_in], simp,
    rule within_bindM [OF new_run_in], rule within_bindM [OF upgrade_core_in])
  fix mw c and ct :: "configmap \<times> upgrade_target list"
  assume "obj_key mw = (om_ns pb, ''opscenter-core'') \<and> nwk.fit b (om_ns pb) mw" "run_ok b (om_ns pb) c"
  then show "om_ns mw = om_ns pb" "run_ok b (om_ns pb) c" by (simp_all add: nwk.fit_def)
  assume ct: "step_ok b (om_ns pb) ct"
  show "hub_in b (om_ns pb) (\<lambda>_. True) (bindM (api_list works (\<lambda>mw. om_ns mw = om_ns pb)) (\<lambda>mws.
     bindM (foldM (upgrade_work E f pr pb) ct mws) (finish_apply pb)))"
  proof (rule within_bindM [OF nwk.list_in], simp, rule within_bindM)
    fix mws
    assume "\<forall>mw \<in> set mws. om_ns mw = om_ns pb \<and> nwk.fit b (om_ns pb) mw"
    then show "hub_in b (om_ns pb) (step_ok b (om_ns pb)) (foldM (upgrade_work E f pr pb) ct mws)"
      by (intro within_foldM ct upgrade_work_in) simp_all
  qed (rule finish_apply_inside)
qed

text \<open>The whole of an upgrade.\<close>

lemma UpgradeCluster_inside [isolated]: "run_in b (om_ns pb) (\<lambda>_. True) (UpgradeCluster E pb pr)"
  unfolding UpgradeCluster_def
proof (rule within_bindM [OF within_onhub [OF find_in]])
  fix found :: "(configmap \<times> upgrade_target list) option"
  assume found: "\<forall>c ts. found = Some (c, ts) \<longrightarrow> run_ok b (om_ns pb) c \<and> (b \<longrightarrow> targets_in (om_ns pb) ts)"
  have "run_in b (om_ns pb) (\<lambda>_. True) (applyUpgrade E pb pr)"
    unfolding applyUpgrade_def prepare_upgrade_def StartFakeApiServerAndApplyBaseManifestWorkReplicaSets_def
    by (intro isolated)
  with found show "run_in b (om_ns pb) (\<lambda>_. True) (case found of None \<Rightarrow> applyUpgrade E pb pr
      | Some (configMap, targets) \<Rightarrow> onhub (observeUpgrade configMap targets))"
    by (auto intro!: within_onhub observe_inside split: option.split)
qed

section \<open>An installation\<close>

lemma load_claim_inside [isolated]: "hub_in b ns (\<lambda>_. True) (load_claim E cl st)"
  unfolding load_claim_def by (intro isolated)
lemma visit_inside [isolated]: "hub_in b ns (\<lambda>_. True) (visit_feature E f cl n st)"
  unfolding visit_feature_def by (intro isolated)

lemma add_loop_inside [isolated]: "hub_in b ns (\<lambda>_. True) (add_loop E f cl n st)"
proof (induction n arbitrary: st)
  case 0
  then show ?case by (subst add_loop.simps) (simp add: inside_ret split: list.split)
next
  case (Suc n)
  then show ?case by (subst add_loop.simps) (auto intro!: isolated split: list.split)
qed

lemma addRequired_inside [isolated]: "hub_in b ns (\<lambda>_. True) (addRequiredFeatures E f n cl info)"
  unfolding addRequiredFeatures_def by (intro isolated)
lemma sanitize_inside [isolated]: "cl = ns \<Longrightarrow> hub_in b ns (\<lambda>_. True) (sanitizeFeatures E cl fl)"
  unfolding sanitizeFeatures_def sanitize_one_def existInManifestWork_def by (intro isolated) simp_all

lemma store_work_ns [simp]: "om_ns (store_work pr mw cur) = om_ns cur"
  by (simp add: store_work_def)

lemma work_ok [simp]: "nwk.fit b ns mw \<longleftrightarrow> om_ns mw = ns"
  by (simp add: nwk.fit_def)

lemma get_or_new_in: "om_ns mw = ns \<Longrightarrow> hub_in b ns (\<lambda>x. om_ns x = ns) (get_or_new mw)"
  unfolding get_or_new_def
  by (rule within_tryM [OF nwk.get_in]) (auto intro!: within_ret within_raise)

lemma work_patch_inside: "om_ns mw = ns \<Longrightarrow> (\<And>c. om_ns (tr c) = om_ns c) \<Longrightarrow> hub_in b ns (\<lambda>_. True) (CreateOrPatch works mw tr)"
  by (rule within_inside, rule nwk.create_or_patch_in) simp_all

lemma updateWork_inside [isolated]: "om_ns mw = ns \<Longrightarrow> run_in b ns (\<lambda>_. True) (updateManifestWork E mw pr)"
  unfolding updateManifestWork_def by (intro isolated work_patch_inside) simp_all

lemma applySet_inside [isolated]: "om_ns mw = ns \<Longrightarrow> run_in b ns (\<lambda>_. True) (applyFeatureSet E mw s fl pr mc pb)"
  unfolding applyFeatureSet_def by (intro isolated)

lemma enableSet_inside [isolated]: "run_in b (om_ns pb) (\<lambda>_. True) (enableFeatureSet E s fl pr pb ov)"
proof -
  have "run_in b (om_ns pb) (\<lambda>_. True) (bindM (onhub (get_or_new (new_work s pr pb))) (\<lambda>mw.
      if s = ''opscenter-core'' then bindM (onfake (install_core E fl pr pb ov)) (\<lambda>_.
        applyFeatureSet E mw s (core_features fl) pr mc pb)
      else applyFeatureSet E mw s fl pr mc pb))" for mc
    by (rule within_bindM [OF within_onhub [OF get_or_new_in]]) (auto simp: new_work_def intro!: isolated)
  then show ?thesis
    unfolding enableFeatureSet_def
    by (intro within_if within_raise then_within [of _ _ _ "onhub (api_get clusters k)" for k] within_onhub ccl.get_inside)
qed

lemma remove_inside:
  assumes "om_ns mw = ns \<or> mw = zero_work"
  shows "hub_in b ns (\<lambda>_. True) (removeHRFomManifestWork mw fl)"
proof (cases "mw = zero_work")
  case True
  then have "removeHRFomManifestWork mw fl = ret ()"
    by (simp add: removeHRFomManifestWork_def zero_work_def fun_eq_iff prog_simps)
  then show ?thesis by (simp add: inside_ret)
next
  case False
  with assms show ?thesis
    unfolding removeHRFomManifestWork_def by (intro isolated work_patch_inside) simp_all
qed

lemma prune_inside [isolated]: "hub_in b ns (\<lambda>_. True) (prune_all ns info)"
proof -
  have "hub_in b ns (\<lambda>_. True) (prune_one ns fl)" for fl
    unfolding prune_one_def
    by (rule within_bindM [where P = "\<lambda>mw. om_ns mw = ns \<or> mw = zero_work"], rule within_tryM [OF nwk.get_in])
      (auto intro!: within_ret within_raise remove_inside)
  then show ?thesis unfolding prune_all_def by (intro isolated)
qed

lemma enable_other_inside [isolated]: "run_in b (om_ns pb) (\<lambda>_. True) (enable_other E pr pb ov fl)"
  unfolding enable_other_def by (intro isolated) simp_all

lemma EnableFeatures_inside [isolated]: "run_in b (om_ns pb) (\<lambda>_. True) (EnableFeatures E n pb info pr)"
  unfolding EnableFeatures_def prepare_features_def StartFakeApiServerAndApplyBaseManifestWorkReplicaSets_def
  by (intro isolated)

section \<open>A reconcile\<close>

text \<open>The status write goes to the binding itself.\<close>

lemma status_update_inside: "om_ns pb = ns \<or> om_name pb = '''' \<Longrightarrow> hub_in b ns (\<lambda>_. True) (status_update pb)"
proof (cases "om_name pb = ''''")
  case True
  then show ?thesis by (simp add: status_update_def within_raise)
next
  case False
  assume "om_ns pb = ns \<or> om_name pb = ''''"
  with False have ns: "om_ns pb = ns" by simp
  have f: "find_obj (obj_key pb) (w_bindings (seen b ns w)) = find_obj (obj_key pb) (w_bindings w)" for w
    using nbk.find_seen [of b "obj_key pb" ns w] ns by (simp add: bindings_def)
  have c: "find_obj (obj_key pb) (w_bindings w) = Some cur \<Longrightarrow> om_ns (cur\<lparr>pb_status := st\<rparr>) = ns" for w cur st
    using find_obj_key ns by (fastforce dest: obj_key_ns)
  note put = nbk.put_seen nbk.put_leaves nbk.put_sound
  show ?thesis
    unfolding status_update_def
    by (simp add: False, rule within_api_call, rule withinI)
      (use put [unfolded bindings_def snd_conv nbk.fit_def] in \<open>auto simp: f c split: option.splits\<close>)
qed

lemma refetch_in: "hub_in b (om_ns pb) (\<lambda>x. om_ns x = om_ns pb \<or> om_name x = '''' \<and> om_ns x = '''') (refetch pb)"
  unfolding refetch_def
  by (rule within_tryM [OF nbk.get_in]) (auto intro!: within_ret within_raise simp: zero_binding_def nbk.fit_def)

lemma observed_inside: "n = ns \<or> n = '''' \<Longrightarrow> hub_in b ns (\<lambda>_. True) (observedVersion C n)"
proof -
  assume n: "n = ns \<or> n = ''''"
  have none: "find_obj (n, k) (w_mws w) = None" if "list_all (\<lambda>mw. om_ns mw \<noteq> '''') (w_mws w)" "n = ''''" for k w
    using that by (auto simp: find_obj_None list_all_iff obj_key_def)
  have f: "find_obj (n, k) (w_mws (seen b ns w)) = find_obj (n, k) (w_mws w)" if "sound b ns w" for k w
    using that n none [of w k] by (auto simp: seen_def sound_def well_kept_def hub_view_def find_only)
  have g: "hub_in b ns (\<lambda>_. True) (api_get works (n, k))" for k
    unfolding api_get_def works_def
    by (rule within_api_call, rule withinI) (auto simp: f split: option.splits)
  show ?thesis
    unfolding observedVersion_def by (rule inside_tryM [OF g]) (auto intro!: isolated split: sum.split)
qed

lemma settle_inside [isolated]: "run_in b (om_ns pb) (\<lambda>_. True) (settle C pb u err)"
proof -
  have "hub_in b (om_ns pb) (\<lambda>_. True) (tryM (status_update (x\<lparr>pb_status := st\<rparr>)) (\<lambda>r. case r of
      Inl e \<Rightarrow> raise (ErrWrap ''failed to update status to Failed'' e) | Inr _ \<Rightarrow> ret ()))"
    if "om_ns x = om_ns pb \<or> om_name x = '''' \<and> om_ns x = ''''" for x st
    by (intro isolated status_update_inside) (use that in auto)
  then have "hub_in b (om_ns pb) (\<lambda>_. True) (setOpscenterFeaturesVersion C pb u err)"
    unfolding setOpscenterFeaturesVersion_def
    by (intro within_case_option within_raise within_bindM [OF refetch_in]
        then_within [of _ _ _ "observedVersion C n" for n] then_within [of _ _ _ "liftM r" for r]
        observed_inside inside_liftM) auto
  then show ?thesis unfolding settle_def by (intro isolated)
qed

lemma act_inside: "run_in b (om_ns pb) (\<lambda>_. True) (act E n pb pr)"
  unfolding act_def Let_def by (intro isolated)

lemma found_or_done_inside:
  assumes "hub_in b ns P m" and "\<And>x. P x \<Longrightarrow> run_in b ns (\<lambda>_. True) (k x)"
  shows "run_in b ns (\<lambda>_. True) (found_or_done m k)"
  unfolding found_or_done_def
  by (rule within_tryM [OF within_onhub [OF assms(1)]]) (auto simp: assms(2) intro!: isolated)

lemma Reconcile_inside: "run_in b (fst req) (\<lambda>_. True) (Reconcile E fuel req)"
  unfolding Reconcile_def
  by (rule found_or_done_inside [OF nbk.get_in [OF refl]], rule found_or_done_inside [OF cpr.get_in])
    (use act_inside in \<open>auto intro!: isolated simp: nbk.fit_def\<close>)

section \<open>What is left alone\<close>

lemma seen_off [simp]: "seen False ns = id" "sound False ns = (\<lambda>_. True)"
  by (auto simp: seen_def sound_def)

lemma seen_on [simp]: "seen True ns = hub_view ns" "sound True ns = well_kept ns"
  by (auto simp: seen_def sound_def)

lemma Reconcile_rest: "hub_rest (fst req) (fst (snd (Reconcile E fuel req (w, f)))) = hub_rest (fst req) w"
  using withinD [OF Reconcile_inside [of False req E fuel], of "(w, f)"]
  by (cases "Reconcile E fuel req (w, f)") simp

text \<open>What lies outside a binding: other namespaces, other bindings, and everything cluster-wide.\<close>

definition same_outside :: "objkey \<Rightarrow> world \<Rightarrow> world \<Rightarrow> bool" where
  "same_outside req w w' \<longleftrightarrow>
     (\<forall>k. fst k \<noteq> fst req \<longrightarrow> find_obj k (w_mws w') = find_obj k (w_mws w) \<and> find_obj k (w_cms w') = find_obj k (w_cms w)) \<and>
     (\<forall>k. k \<noteq> req \<longrightarrow> find_obj k (w_bindings w') = find_obj k (w_bindings w)) \<and>
     w_profiles w' = w_profiles w \<and> w_clusters w' = w_clusters w \<and> w_features w' = w_features w \<and>
     w_mwrs w' = w_mwrs w \<and> w_sets w' = w_sets w \<and> w_now w' = w_now w"

lemma hub_rest_eq:
  "hub_rest ns w' = hub_rest ns w \<longleftrightarrow>
     others ns (w_mws w') = others ns (w_mws w) \<and> others ns (w_cms w') = others ns (w_cms w) \<and>
     others ns (w_bindings w') = others ns (w_bindings w) \<and>
     w_profiles w' = w_profiles w \<and> w_clusters w' = w_clusters w \<and> w_features w' = w_features w \<and>
     w_mwrs w' = w_mwrs w \<and> w_sets w' = w_sets w \<and> w_now w' = w_now w"
  by (cases w; cases w') (auto simp: hub_rest_def)

lemma rest_find:
  assumes "hub_rest ns w' = hub_rest ns w" and "fst k \<noteq> ns"
  shows "find_obj k (w_mws w') = find_obj k (w_mws w)" "find_obj k (w_cms w') = find_obj k (w_cms w)"
proof -
  from assms(1) have "others ns (w_mws w') = others ns (w_mws w)" "others ns (w_cms w') = others ns (w_cms w)"
    by (simp_all add: hub_rest_eq)
  with assms(2) find_others [of k ns] show "find_obj k (w_mws w') = find_obj k (w_mws w)"
    "find_obj k (w_cms w') = find_obj k (w_cms w)" by metis+
qed

lemma Reconcile_outside: "same_outside req w (fst (snd (Reconcile E fuel req (w, f))))"
proof -
  let ?w = "fst (snd (Reconcile E fuel req (w, f)))"
  note r = Reconcile_rest [of req E fuel w f]
  have b: "find_obj k (w_bindings ?w) = find_obj k (w_bindings w)" if "k \<noteq> req" for k
    using Reconcile_bindings [of E fuel req w f] that
    by (auto simp: status_changed_def kube.look_put dest!: find_obj_key)
  have "w_profiles ?w = w_profiles w \<and> w_clusters ?w = w_clusters w \<and> w_features ?w = w_features w \<and>
     w_mwrs ?w = w_mwrs w \<and> w_sets ?w = w_sets w \<and> w_now ?w = w_now w"
    using r by (simp add: hub_rest_eq)
  with b rest_find [OF r] show ?thesis unfolding same_outside_def by blast
qed

text \<open>
  C2: A reconcile of a binding writes to its own cluster only. Whatever the faults of the
  API server, however it ends, the ManifestWorks and ConfigMaps of every other namespace, every
  other binding, and all profiles, clusters, features, replica sets and cluster sets are after
  the reconcile what they were before. Reconciles of different bindings of different clusters
  therefore cannot overwrite each other's objects.
\<close>
theorem reconcile_isolated: "same_outside req w (fst (snd (Reconcile E fuel req (w, f))))"
  by (rule Reconcile_outside)

end
