(* ===== verification/Interleaving.thy ===== *)
theory Interleaving
  imports Isolation
begin

text \<open>
  The controller runs three reconciles at a time. Reconciles of different clusters neither
  observe nor disturb each other, so it does not matter in which order they take effect: either
  order gives the same results and the same hub, namespace by namespace.
\<close>

section \<open>Reconciles of different clusters commute\<close>

text \<open>
  A worker serves a request with a fake server, a supply of random names and faults of its own.
\<close>

definition clean :: "world \<Rightarrow> world" where
  "clean w = w\<lparr>w_rand := [], w_faults := []\<rparr>"

definition serve ::
  "'f fakeenv \<Rightarrow> nat \<Rightarrow> objkey \<Rightarrow> 'f \<Rightarrow> string list \<times> gerr option list \<Rightarrow> world \<Rightarrow>
     (gerr + ctrl_result option) \<times> world" where
  "serve E fuel req f given w =
     (case Reconcile E fuel req (w\<lparr>w_rand := fst given, w_faults := snd given\<rparr>, f) of (r, (w', f')) \<Rightarrow> (r, clean w'))"

lemma hub_view_eq:
  "hub_view ns w' = hub_view ns w \<longleftrightarrow>
     only ns (w_mws w') = only ns (w_mws w) \<and> only ns (w_cms w') = only ns (w_cms w) \<and>
     only ns (w_bindings w') = only ns (w_bindings w) \<and>
     w_profiles w' = w_profiles w \<and> w_clusters w' = w_clusters w \<and> w_features w' = w_features w \<and>
     w_mwrs w' = w_mwrs w \<and> w_sets w' = w_sets w \<and> w_now w' = w_now w \<and>
     w_rand w' = w_rand w \<and> w_faults w' = w_faults w"
  by (cases w; cases w') (auto simp: hub_view_def)

lemma clean_simps [simp]:
  "hub_rest ns (clean w) = hub_rest ns w" "hub_view ns (clean w) = clean (hub_view ns w)"
  "well_kept ns (clean w) = well_kept ns w" "clean (clean w) = clean w"
  by (simp_all add: clean_def hub_rest_def hub_view_def well_kept_def)

lemma serve_clean [simp]: "serve E fuel req f given (clean w) = serve E fuel req f given w"
  by (simp add: serve_def clean_def)

lemma clean_serve [simp]: "clean (snd (serve E fuel req f given w)) = snd (serve E fuel req f given w)"
  by (simp add: serve_def split: prod.split)

text \<open>What a request does to its own namespace, and to the others.\<close>

lemma serve_own:
  assumes "well_kept (fst req) w"
  shows "serve E fuel req f given (hub_view (fst req) w) =
      map_prod id (hub_view (fst req)) (serve E fuel req f given w)"
    and "well_kept (fst req) (snd (serve E fuel req f given w))"
proof -
  let ?w = "w\<lparr>w_rand := fst given, w_faults := snd given\<rparr>"
  have k: "well_kept (fst req) ?w" using assms by (simp add: well_kept_def)
  have v: "(hub_view (fst req) w)\<lparr>w_rand := fst given, w_faults := snd given\<rparr> = hub_view (fst req) ?w"
    by (simp add: hub_view_def)
  obtain r w' f' where r: "Reconcile E fuel req (?w, f) = (r, (w', f'))" by (cases "Reconcile E fuel req (?w, f)") auto
  from withinD [OF Reconcile_inside [of True req E fuel] _ r] k
  have i: "Reconcile E fuel req (hub_view (fst req) ?w, f) = (r, (hub_view (fst req) w', f'))" "well_kept (fst req) w'"
    by simp_all
  show "serve E fuel req f given (hub_view (fst req) w) = map_prod id (hub_view (fst req)) (serve E fuel req f given w)"
    using i(1) by (simp add: serve_def v r)
  show "well_kept (fst req) (snd (serve E fuel req f given w))" using i(2) by (simp add: serve_def r)
qed

lemma serve_rest: "hub_rest (fst req) (snd (serve E fuel req f given w)) = hub_rest (fst req) w"
  using Reconcile_rest [of req E fuel "w\<lparr>w_rand := fst given, w_faults := snd given\<rparr>" f]
  by (simp add: serve_def split: prod.split) (auto simp: hub_rest_def)

lemma rest_view: "hub_rest ns w' = hub_rest ns w \<Longrightarrow> n \<noteq> ns \<Longrightarrow> hub_view n (clean w') = hub_view n (clean w)"
  unfolding hub_rest_eq hub_view_eq by (simp add: clean_def) (metis only_others)

lemma serve_other:
  "n \<noteq> fst req \<Longrightarrow> hub_view n (snd (serve E fuel req f given w)) = hub_view n (clean w)"
  using rest_view [OF serve_rest] by (metis clean_serve)

lemma serve_kept:
  assumes "well_kept (fst req) w" and "well_kept n w" and "n \<noteq> fst req"
  shows "well_kept n (snd (serve E fuel req f given w))"
proof -
  have "only n (w_cms (snd (serve E fuel req f given w))) = only n (w_cms w)"
    using serve_other [OF assms(3), of E fuel f given w] by (simp only: hub_view_eq) (simp add: clean_def)
  then show ?thesis using serve_own(2) [OF assms(1), of E fuel f given] assms(2) by (simp add: well_kept_def)
qed

lemma same_view_served:
  assumes "well_kept (fst req) w" and "well_kept (fst req) w'"
    and "hub_view (fst req) (clean w') = hub_view (fst req) (clean w)"
  shows "fst (serve E fuel req f given w') = fst (serve E fuel req f given w)"
    and "hub_view (fst req) (snd (serve E fuel req f given w')) = hub_view (fst req) (snd (serve E fuel req f given w))"
proof -
  have "map_prod id (hub_view (fst req)) (serve E fuel req f given w') =
      map_prod id (hub_view (fst req)) (serve E fuel req f given w)"
    using serve_own(1) [OF assms(1), of E fuel f given] serve_own(1) [OF assms(2), of E fuel f given] assms(3)
    by (metis clean_simps(2) serve_clean)
  then show "fst (serve E fuel req f given w') = fst (serve E fuel req f given w)"
    "hub_view (fst req) (snd (serve E fuel req f given w')) = hub_view (fst req) (snd (serve E fuel req f given w))"
    by (simp_all add: prod_eq_iff)
qed

definition same_content :: "world \<Rightarrow> world \<Rightarrow> bool" where
  "same_content w w' \<longleftrightarrow> (\<forall>ns. hub_view ns w = hub_view ns w')"

lemma served_in_any_order:
  fixes E :: "'f fakeenv"
  assumes "fst a \<noteq> fst b" and "well_kept (fst a) w" and "well_kept (fst b) w"
  shows "fst (serve E n b g t (snd (serve E n a f s w))) = fst (serve E n b g t w) \<and>
     fst (serve E n a f s (snd (serve E n b g t w))) = fst (serve E n a f s w) \<and>
     same_content (snd (serve E n b g t (snd (serve E n a f s w)))) (snd (serve E n a f s (snd (serve E n b g t w))))"
proof -
  let ?a = "serve E n a f s" and ?b = "serve E n b g t"
  have kb: "well_kept (fst b) (snd (?a w))" and ka: "well_kept (fst a) (snd (?b w))"
    using serve_kept [OF assms(2,3)] serve_kept [OF assms(3,2)] assms(1) by simp_all
  have vb: "hub_view (fst b) (clean (snd (?a w))) = hub_view (fst b) (clean w)"
    and va: "hub_view (fst a) (clean (snd (?b w))) = hub_view (fst a) (clean w)"
    using serve_other [of "fst b" a E n f s w] serve_other [of "fst a" b E n g t w] assms(1) by simp_all
  note sb = same_view_served [OF assms(3) kb vb, of E n g t]
  note sa = same_view_served [OF assms(2) ka va, of E n f s]
  have "hub_view ns (snd (?b (snd (?a w)))) = hub_view ns (snd (?a (snd (?b w))))" for ns
  proof (cases "ns = fst b \<or> ns = fst a")
    case True
    then show ?thesis
      using sa(2) sb(2) assms(1) serve_other [of "fst b" a E n f s "snd (?b w)"] serve_other [of "fst a" b E n g t "snd (?a w)"]
      by (metis clean_serve)
  next
    case False
    then show ?thesis
      using serve_other [of ns a E n f s w] serve_other [of ns b E n g t w]
        serve_other [of ns a E n f s "snd (?b w)"] serve_other [of ns b E n g t "snd (?a w)"] by simp
  qed
  with sa(1) sb(1) show ?thesis by (simp add: same_content_def)
qed

end
