(* ===== verification/SetController.thy ===== *)
theory SetController
  imports HubApi UpgradeRun
begin

text \<open>
  The reconciler of a ManagedClusterSetProfile
  (\<open>pkg/controller/managedclustersetprofile_controller.go\<close>, with \<open>GetClusterMetadata\<close> of
  \<open>helpers.go\<close> and \<open>BuildClusterSelector\<close> of the vendored cluster SDK): every cluster of the
  ManagedClusterSet named like the profile gets a binding in its namespace. What the YAML
  library and \<open>LabelSelectorAsSelector\<close> make of their input is a parameter.
\<close>

section \<open>Cluster metadata\<close>

record clusterenv =
  ce_info :: "string \<Rightarrow> gerr + clusterinfo"
  ce_selector :: "label_selector option \<Rightarrow> gerr + (strmap \<Rightarrow> bool)"

fun metadata_in :: "clusterenv \<Rightarrow> claim list \<Rightarrow> gerr + clusterinfo" where
  "metadata_in C [] = Inl (ErrText ''cluster info not found'')"
| "metadata_in C (c # cs) =
     (if cl_name c = ClusterClaimClusterInfo then ce_info C (cl_value c) else metadata_in C cs)"

definition GetClusterMetadata :: "clusterenv \<Rightarrow> managedcluster \<Rightarrow> gerr + clusterinfo" where
  "GetClusterMetadata C cluster = metadata_in C (mc_claims cluster)"

section \<open>The clusters of a set\<close>

abbreviation ClusterSetLabel :: string where
  "ClusterSetLabel \<equiv> ''cluster.open-cluster-management.io/clusterset''"

definition BuildClusterSelector :: "clusterenv \<Rightarrow> managedclusterset \<Rightarrow> gerr + (strmap \<Rightarrow> bool)" where
  "BuildClusterSelector C clusterSet =
     (if cs_type clusterSet = '''' \<or> cs_type clusterSet = ''ExclusiveClusterSetLabel'' then
        Inr (\<lambda>ls. ls ClusterSetLabel = Some (om_name clusterSet))
      else if cs_type clusterSet = ''LabelSelector'' then ce_selector C (cs_selector clusterSet)
      else Inl (ErrText (''selectorType is not right: '' @ cs_type clusterSet)))"

text \<open>What is left of the variable when the set is gone.\<close>

definition zero_set :: managedclusterset where
  "zero_set =
     \<lparr> om_name = '''', om_ns = '''', om_labels = Map.empty, om_annots = Map.empty, om_owners = [],
       om_created = zero_time, cs_type = '''', cs_selector = None \<rparr>"

text \<open>The set of the profile; a profile without one is deleted, and the reconcile goes on.\<close>

definition get_set :: "profile \<Rightarrow> managedclusterset kc" where
  "get_set profile =
     tryM (api_get clustersets ('''', om_name profile)) (\<lambda>r. case r of
       Inr s \<Rightarrow> ret s
     | Inl e \<Rightarrow>
         if is_not_found e then bindM (api_delete profiles (obj_key profile)) (\<lambda>_. ret zero_set)
         else raise e)"

section \<open>The binding of a cluster\<close>

definition set_binding :: "profile \<Rightarrow> managedcluster \<Rightarrow> clusterinfo \<Rightarrow> binding" where
  "set_binding profile cluster clusterMetadata =
     \<lparr> om_name = om_name cluster, om_ns = om_name cluster, om_labels = [ClusterProfileLabel \<mapsto> om_name profile],
       om_annots = Map.empty, om_owners = [NewControllerRef ''ManagedClusterSetProfile'' profile],
       om_created = zero_time,
       pb_spec = \<lparr> bs_profile = om_name profile, bs_cluster = clusterMetadata, bs_version = '''', bs_features = [] \<rparr>,
       pb_status = zero_status \<rparr>"

text \<open>Name, version and features of the first binding of the namespace are taken over.\<close>

definition take_over :: "binding list \<Rightarrow> binding \<Rightarrow> binding" where
  "take_over items profileBinding =
     (case items of
        [] \<Rightarrow> profileBinding
      | old # _ \<Rightarrow>
          profileBinding\<lparr>om_name := om_name old,
            pb_spec := (pb_spec profileBinding)
              \<lparr>bs_version := bs_version (pb_spec old), bs_features := bs_features (pb_spec old)\<rparr>\<rparr>)"

text \<open>Writing a key of a Go map: the value is replaced, or the key comes last.\<close>

definition put_fspec :: "string \<Rightarrow> fspec \<Rightarrow> fspecs \<Rightarrow> fspecs" where
  "put_fspec n s fs =
     (if map_of fs n = None then fs @ [(n, s)]
      else map (\<lambda>(n', s'). if n' = n then (n', s) else (n', s')) fs)"

definition add_shifter :: "clusterinfo \<Rightarrow> binding \<Rightarrow> binding" where
  "add_shifter clusterMetadata profileBinding =
     (if ClusterManagerOpenShift \<in> set (managers clusterMetadata) then
        profileBinding\<lparr>pb_spec := (pb_spec profileBinding)
          \<lparr>bs_features := put_fspec ''aceshifter'' (zero_fspec\<lparr>fs_set := ''opscenter-core''\<rparr>)
             (bs_features (pb_spec profileBinding))\<rparr>\<rparr>
      else profileBinding)"

definition store_binding :: "binding \<Rightarrow> binding \<Rightarrow> binding" where
  "store_binding profileBinding cur =
     cur\<lparr>om_labels := om_labels profileBinding, om_owners := om_owners profileBinding,
         pb_spec := pb_spec profileBinding\<rparr>"

definition bind_cluster :: "clusterenv \<Rightarrow> profile \<Rightarrow> managedcluster \<Rightarrow> unit kc" where
  "bind_cluster C profile cluster =
     bindM (liftM (GetClusterMetadata C cluster)) (\<lambda>clusterMetadata.
     bindM (api_list bindings (\<lambda>pb. om_ns pb = om_name cluster)) (\<lambda>items.
       let profileBinding = add_shifter clusterMetadata (take_over items (set_binding profile cluster clusterMetadata))
       in bindM (CreateOrPatch bindings profileBinding (store_binding profileBinding)) (\<lambda>_. ret ())))"

section \<open>The reconciler\<close>

definition bind_clusters :: "clusterenv \<Rightarrow> profile \<Rightarrow> unit kc" where
  "bind_clusters C profile =
     bindM (get_set profile) (\<lambda>managedClusterSet.
     bindM (liftM (BuildClusterSelector C managedClusterSet)) (\<lambda>sel.
     bindM (api_list clusters (\<lambda>c. sel (om_labels c))) (\<lambda>items.
       foldM (\<lambda>_. bind_cluster C profile) () items)))"

definition ReconcileSet :: "clusterenv \<Rightarrow> objkey \<Rightarrow> ctrl_result kc" where
  "ReconcileSet C req =
     tryM (api_get profiles req) (\<lambda>r. case r of
       Inl e \<Rightarrow> (case IgnoreNotFound e of None \<Rightarrow> ret Result_zero | Some e' \<Rightarrow> raise e')
     | Inr profile \<Rightarrow> bindM (bind_clusters C profile) (\<lambda>_. ret Result_zero))"

text \<open>The watch on cluster sets: a changed set enqueues the profile of its name.\<close>

definition mapManagedClusterSetToProfile :: "managedclusterset option \<Rightarrow> objkey list kc" where
  "mapManagedClusterSetToProfile obj =
     (case obj of
        None \<Rightarrow> ret []
      | Some managedClusterSet \<Rightarrow>
          tryM (api_list profiles (\<lambda>_. True)) (\<lambda>r. case r of
            Inl _ \<Rightarrow> ret []
          | Inr items \<Rightarrow>
              ret (map (\<lambda>p. ('''', om_name p)) (filter (\<lambda>p. om_name p = om_name managedClusterSet) items))))"

end
