(* ===== verification/SetFacts.thy ===== *)
theory SetFacts
  imports SetController
begin

text \<open>
  What a reconcile of a set profile makes of the bindings: namespace by namespace, it rebinds
  the clusters of the set and leaves the rest alone; a second reconcile changes nothing; and
  under any faults no user choice recorded in a binding is lost.
\<close>

section \<open>One cluster\<close>

definition in_ns :: "string \<Rightarrow> binding list \<Rightarrow> binding list" where
  "in_ns ns bs = filter (\<lambda>pb. om_ns pb = ns) bs"

definition wanted :: "profile \<Rightarrow> managedcluster \<Rightarrow> clusterinfo \<Rightarrow> binding list \<Rightarrow> binding" where
  "wanted pr c ci items = add_shifter ci (take_over items (set_binding pr c ci))"

text \<open>What becomes of the bindings in the namespace of a cluster.\<close>

definition rebound :: "profile \<Rightarrow> gotime \<Rightarrow> managedcluster \<Rightarrow> clusterinfo \<Rightarrow> binding list \<Rightarrow> binding list" where
  "rebound pr t c ci items =
     (case items of
        [] \<Rightarrow> [(wanted pr c ci [])\<lparr>om_created := to_second t\<rparr>]
      | old # rest \<Rightarrow> store_binding (wanted pr c ci items) old # rest)"

lemma wanted_simps [simp]:
  "om_ns (wanted pr c ci items) = om_name c"
  "om_name (wanted pr c ci (old # rest)) = om_name old"
  "om_name (wanted pr c ci []) = om_name c"
  "om_labels (wanted pr c ci items) = [ClusterProfileLabel \<mapsto> om_name pr]"
  "om_owners (wanted pr c ci items) = [NewControllerRef ''ManagedClusterSetProfile'' pr]"
  "bs_profile (pb_spec (wanted pr c ci items)) = om_name pr"
  "bs_cluster (pb_spec (wanted pr c ci items)) = ci"
  by (simp_all add: wanted_def add_shifter_def take_over_def set_binding_def split: list.split)

lemma store_binding_simps [simp]:
  "obj_key (store_binding pb cur) = obj_key cur" "om_ns (store_binding pb cur) = om_ns cur"
  "om_name (store_binding pb cur) = om_name cur" "pb_spec (store_binding pb cur) = pb_spec pb"
  "pb_status (store_binding pb cur) = pb_status cur" "om_annots (store_binding pb cur) = om_annots cur"
  "om_created (store_binding pb cur) = om_created cur"
  by (simp_all add: store_binding_def obj_key_def)

lemma in_ns_mem: "pb \<in> set (in_ns ns bs) \<longleftrightarrow> pb \<in> set bs \<and> om_ns pb = ns"
  by (auto simp: in_ns_def)

lemma in_ns_distinct: "keys_distinct bs \<Longrightarrow> keys_distinct (in_ns ns bs)"
  unfolding keys_distinct_def in_ns_def by (rule distinct_map_filter)

lemma find_in_ns: "find_obj (ns, n) (in_ns ns bs) = find_obj (ns, n) bs"
  unfolding in_ns_def by (induction bs) (auto simp: obj_key_def)

lemma in_ns_put: "in_ns ns (put_obj x bs) = (if om_ns x = ns then put_obj x (in_ns ns bs) else in_ns ns bs)"
proof -
  have m: "filter (\<lambda>pb. om_ns pb = ns) (map (\<lambda>y. if obj_key y = obj_key x then x else y) bs) =
     (if om_ns x = ns then map (\<lambda>y. if obj_key y = obj_key x then x else y) (filter (\<lambda>pb. om_ns pb = ns) bs)
      else filter (\<lambda>pb. om_ns pb = ns) bs)"
    by (induction bs) (auto simp: obj_key_def)
  show ?thesis
  proof (cases "om_ns x = ns")
    case True
    then have "find_obj (obj_key x) (in_ns ns bs) = find_obj (obj_key x) bs"
      using find_in_ns [of ns "om_name x" bs] by (simp add: obj_key_def)
    with True m show ?thesis by (simp add: put_obj_def in_ns_def)
  next
    case False
    with m show ?thesis by (simp add: put_obj_def in_ns_def)
  qed
qed

lemma put_obj_head:
  assumes "keys_distinct (old # rest)" and "obj_key x = obj_key old"
  shows "put_obj x (old # rest) = x # rest"
proof -
  have "map (\<lambda>y. if obj_key y = obj_key old then x else y) rest = rest"
    using assms(1) by (intro map_idI) (auto simp: keys_distinct_def image_iff)
  with assms(2) show ?thesis by (simp add: put_obj_def)
qed

definition rebind :: "profile \<Rightarrow> gotime \<Rightarrow> managedcluster \<Rightarrow> clusterinfo \<Rightarrow> binding list \<Rightarrow> binding list" where
  "rebind pr t c ci bs = put_obj (hd (rebound pr t c ci (in_ns (om_name c) bs))) bs"

lemma rebound_hd_ns:
  "om_ns (hd (rebound pr t c ci (in_ns (om_name c) bs))) = om_name c"
proof (cases "in_ns (om_name c) bs")
  case (Cons old rest)
  then have "om_ns old = om_name c" using in_ns_mem [of old "om_name c" bs] by simp
  with Cons show ?thesis by (simp add: rebound_def)
qed (simp add: rebound_def)

lemma rebind_ns:
  assumes "keys_distinct bs"
  shows "in_ns ns (rebind pr t c ci bs) =
     (if om_name c = ns then rebound pr t c ci (in_ns ns bs) else in_ns ns bs)"
proof (cases "in_ns (om_name c) bs")
  case Nil
  show ?thesis
    using rebound_hd_ns [of pr t c ci bs] Nil
    unfolding rebind_def in_ns_put by (auto simp: rebound_def put_obj_def)
next
  case (Cons old rest)
  with in_ns_distinct [OF assms, of "om_name c"] have "keys_distinct (old # rest)" by simp
  with Cons show ?thesis
    using rebound_hd_ns [of pr t c ci bs]
    by (auto simp: rebind_def in_ns_put) (simp add: rebound_def put_obj_head)
qed

lemma rebind_distinct: "keys_distinct bs \<Longrightarrow> keys_distinct (rebind pr t c ci bs)"
  unfolding rebind_def by (rule kube.inv_put)

lemma bind_cluster_run:
  assumes "no_faults w" and "keys_distinct (w_bindings w)" and "GetClusterMetadata C c = Inr ci"
  shows "bind_cluster C pr c w = (Inr (), w\<lparr>w_bindings := rebind pr (w_now w) c ci (w_bindings w)\<rparr>)"
proof -
  let ?items = "in_ns (om_name c) (w_bindings w)"
  let ?pb = "wanted pr c ci ?items"
  have "CreateOrPatch bindings ?pb (store_binding ?pb) w =
     (Inr (hd (rebound pr (w_now w) c ci ?items)), w\<lparr>w_bindings := rebind pr (w_now w) c ci (w_bindings w)\<rparr>)"
  proof (cases ?items)
    case Nil
    have "find_obj (om_name c, om_name c) ?items = None" by (simp add: Nil)
    then have "find_obj (om_name c, om_name c) (w_bindings w) = None" by (simp only: find_in_ns)
    then have "find_obj (obj_key ?pb) (w_bindings w) = None" by (simp add: obj_key_def Nil)
    moreover have "store_binding ?pb ?pb = ?pb" by (simp add: store_binding_def)
    ultimately show ?thesis
      using assms(1) Nil
      by (simp add: CreateOrPatch_run api_create_run bindings_def rebound_def rebind_def obj_key_def)
  next
    case (Cons old rest)
    then have o: "old \<in> set (w_bindings w)" "om_ns old = om_name c"
      using in_ns_mem [of old "om_name c" "w_bindings w"] by simp_all
    then have "obj_key ?pb = obj_key old" by (simp add: Cons obj_key_def)
    moreover have "find_obj (obj_key old) (w_bindings w) = Some old"
      using o(1) find_obj_distinct [OF assms(2)] by blast
    ultimately show ?thesis
      using assms(1) Cons
      by (simp add: CreateOrPatch_run api_patch_run bindings_def rebound_def rebind_def)
  qed
  then show ?thesis
    using assms(1,3)
    by (simp add: bind_cluster_def bindM_run liftM_run api_list_run bindings_def wanted_def in_ns_def Let_def ret_run)
qed

section \<open>All clusters\<close>

fun rebind_all :: "profile \<Rightarrow> gotime \<Rightarrow> (managedcluster \<times> clusterinfo) list \<Rightarrow> binding list \<Rightarrow> binding list" where
  "rebind_all pr t [] bs = bs"
| "rebind_all pr t (c # cs) bs = rebind_all pr t cs (rebind pr t (fst c) (snd c) bs)"

lemma rebind_all_distinct: "keys_distinct bs \<Longrightarrow> keys_distinct (rebind_all pr t cs bs)"
  by (induction cs arbitrary: bs) (simp_all add: rebind_distinct)

lemma rebind_all_ns:
  "keys_distinct bs \<Longrightarrow> distinct (map (om_name \<circ> fst) cs) \<Longrightarrow>
   in_ns ns (rebind_all pr t cs bs) =
     (case List.find (\<lambda>c. om_name (fst c) = ns) cs of
        None \<Rightarrow> in_ns ns bs | Some c \<Rightarrow> rebound pr t (fst c) (snd c) (in_ns ns bs))"
proof (induction cs arbitrary: bs)
  case Nil
  then show ?case by simp
next
  case (Cons c cs)
  have k: "keys_distinct (rebind pr t (fst c) (snd c) bs)" using Cons.prems(1) by (rule rebind_distinct)
  show ?case
  proof (cases "om_name (fst c) = ns")
    case True
    have "om_name (fst c') \<noteq> ns" if "c' \<in> set cs" for c'
      using Cons.prems(2) True that by (auto simp: image_iff)
    then have "List.find (\<lambda>c. om_name (fst c) = ns) cs = None" by (simp add: find_None_iff_all)
    with Cons.IH [OF k] Cons.prems True show ?thesis by (simp add: rebind_ns)
  next
    case False
    with rebind_ns [OF Cons.prems(1)] have "in_ns ns (rebind pr t (fst c) (snd c) bs) = in_ns ns bs" by simp
    with Cons.IH [OF k] Cons.prems(2) False show ?thesis by (simp cong: option.case_cong)
  qed
qed

lemma bind_all_run:
  assumes "no_faults w" and "keys_distinct (w_bindings w)"
    and "\<And>c ci. (c, ci) \<in> set cs \<Longrightarrow> GetClusterMetadata C c = Inr ci"
  shows "foldM (\<lambda>_. bind_cluster C pr) () (map fst cs) w =
     (Inr (), w\<lparr>w_bindings := rebind_all pr (w_now w) cs (w_bindings w)\<rparr>)"
  using assms
proof (induction cs arbitrary: w)
  case Nil
  then show ?case by (simp add: ret_run)
next
  case (Cons c cs)
  let ?w = "w\<lparr>w_bindings := rebind pr (w_now w) (fst c) (snd c) (w_bindings w)\<rparr>"
  have b: "bind_cluster C pr (fst c) w = (Inr (), ?w)"
    using Cons.prems(3) [of "fst c" "snd c"] by (intro bind_cluster_run Cons.prems) simp
  have "no_faults ?w" "keys_distinct (w_bindings ?w)"
    using Cons.prems by (simp_all add: rebind_distinct no_faults_def)
  from Cons.IH [OF this] Cons.prems(3)
  have "foldM (\<lambda>_. bind_cluster C pr) () (map fst cs) ?w =
     (Inr (), ?w\<lparr>w_bindings := rebind_all pr (w_now w) cs (w_bindings ?w)\<rparr>)" by simp
  with b show ?case by (simp add: bindM_run)
qed

text \<open>The clusters a selector matches, with their metadata.\<close>

definition members :: "clusterenv \<Rightarrow> (strmap \<Rightarrow> bool) \<Rightarrow> world \<Rightarrow> (managedcluster \<times> clusterinfo) list" where
  "members C sel w =
     map (\<lambda>c. (c, case GetClusterMetadata C c of Inr ci \<Rightarrow> ci | Inl _ \<Rightarrow> zero_clusterinfo))
       (filter (\<lambda>c. sel (om_labels c)) (w_clusters w))"

definition described :: "clusterenv \<Rightarrow> (strmap \<Rightarrow> bool) \<Rightarrow> world \<Rightarrow> bool" where
  "described C sel w \<longleftrightarrow>
     (\<forall>c \<in> set (w_clusters w). sel (om_labels c) \<longrightarrow> (\<exists>ci. GetClusterMetadata C c = Inr ci))"

lemma members_fst: "map fst (members C sel w) = filter (\<lambda>c. sel (om_labels c)) (w_clusters w)"
  by (simp add: members_def comp_def)

lemma members_metadata:
  "described C sel w \<Longrightarrow> (c, ci) \<in> set (members C sel w) \<Longrightarrow> GetClusterMetadata C c = Inr ci"
  by (auto simp: members_def described_def)

lemma ReconcileSet_run:
  assumes "no_faults w" and "keys_distinct (w_bindings w)"
    and "find_obj req (w_profiles w) = Some pr" and "find_obj ('''', om_name pr) (w_sets w) = Some s"
    and "BuildClusterSelector C s = Inr sel" and "described C sel w"
  shows "ReconcileSet C req w =
     (Inr Result_zero, w\<lparr>w_bindings := rebind_all pr (w_now w) (members C sel w) (w_bindings w)\<rparr>)"
proof -
  have "foldM (\<lambda>_. bind_cluster C pr) () (map fst (members C sel w)) w =
     (Inr (), w\<lparr>w_bindings := rebind_all pr (w_now w) (members C sel w) (w_bindings w)\<rparr>)"
    by (rule bind_all_run [OF assms(1,2) members_metadata [OF assms(6)]])
  with assms show ?thesis
    by (simp add: ReconcileSet_def bind_clusters_def get_set_def bindM_run tryM_run api_get_run api_list_run liftM_run
        ret_run profiles_def clustersets_def clusters_def members_fst)
qed

text \<open>What a binding of the set should be, field by field: one that was there, and a new one.\<close>

definition set_features_spec :: "clusterinfo \<Rightarrow> fspecs \<Rightarrow> fspecs" where
  "set_features_spec ci fs =
     (if ClusterManagerOpenShift \<in> set (managers ci)
      then put_fspec ''aceshifter'' (zero_fspec\<lparr>fs_set := ''opscenter-core''\<rparr>) fs else fs)"

definition refreshed :: "profile \<Rightarrow> clusterinfo \<Rightarrow> binding \<Rightarrow> binding" where
  "refreshed pr ci old =
     \<lparr> om_name = om_name old, om_ns = om_ns old, om_labels = [ClusterProfileLabel \<mapsto> om_name pr],
       om_annots = om_annots old, om_owners = [NewControllerRef ''ManagedClusterSetProfile'' pr],
       om_created = om_created old,
       pb_spec = \<lparr> bs_profile = om_name pr, bs_cluster = ci, bs_version = bs_version (pb_spec old),
                   bs_features = set_features_spec ci (bs_features (pb_spec old)) \<rparr>,
       pb_status = pb_status old \<rparr>"

definition brand_new :: "profile \<Rightarrow> gotime \<Rightarrow> managedcluster \<Rightarrow> clusterinfo \<Rightarrow> binding" where
  "brand_new pr t c ci =
     \<lparr> om_name = om_name c, om_ns = om_name c, om_labels = [ClusterProfileLabel \<mapsto> om_name pr],
       om_annots = Map.empty, om_owners = [NewControllerRef ''ManagedClusterSetProfile'' pr], om_created = to_second t,
       pb_spec = \<lparr> bs_profile = om_name pr, bs_cluster = ci, bs_version = '''', bs_features = set_features_spec ci [] \<rparr>,
       pb_status = zero_status \<rparr>"

lemma rebound_spec:
  "rebound pr t c ci items =
     (case items of [] \<Rightarrow> [brand_new pr t c ci] | old # rest \<Rightarrow> refreshed pr ci old # rest)"
  by (cases items)
    (simp_all add: rebound_def wanted_def add_shifter_def take_over_def set_binding_def store_binding_def
      set_features_spec_def refreshed_def brand_new_def)

text \<open>
  C11: Without faults, a reconcile of a set profile changes the bindings only, and namespace by
  namespace: in that of a cluster the set selects, the first binding is refreshed (profile,
  metadata, owner and label) and keeps its name, version, features and status, or one named
  like the cluster is created if there is none; every other binding stays as it was.
\<close>

theorem set_profile_rebinds:
  assumes "no_faults w" and "keys_distinct (w_bindings w)"
    and "find_obj req (w_profiles w) = Some pr" and "find_obj ('''', om_name pr) (w_sets w) = Some s"
    and "BuildClusterSelector C s = Inr sel" and "described C sel w"
    and "distinct (map (om_name \<circ> fst) (members C sel w))"
  shows "fst (ReconcileSet C req w) = Inr Result_zero \<and>
     snd (ReconcileSet C req w) = w\<lparr>w_bindings := w_bindings (snd (ReconcileSet C req w))\<rparr> \<and>
     in_ns ns (w_bindings (snd (ReconcileSet C req w))) =
       (case List.find (\<lambda>c. om_name (fst c) = ns) (members C sel w) of
          None \<Rightarrow> in_ns ns (w_bindings w)
        | Some c \<Rightarrow>
            (case in_ns ns (w_bindings w) of
               [] \<Rightarrow> [brand_new pr (w_now w) (fst c) (snd c)]
             | old # rest \<Rightarrow> refreshed pr (snd c) old # rest))"
  unfolding ReconcileSet_run [OF assms(1-6)] using rebind_all_ns [OF assms(2,7)] by (simp add: rebound_spec cong: option.case_cong)

section \<open>A second reconcile\<close>

lemma put_fspec_idem: "put_fspec n s (put_fspec n s fs) = put_fspec n s fs"
proof (cases "map_of fs n")
  case None
  then have "map_of (fs @ [(n, s)]) n = Some s" by (simp add: map_add_def)
  moreover have "map (\<lambda>(n', s'). if n' = n then (n', s) else (n', s')) fs = fs"
    using None by (intro map_idI) (auto simp: map_of_eq_None_iff image_iff)
  ultimately show ?thesis using None by (simp add: put_fspec_def)
next
  case (Some s0)
  have "map_of (map (\<lambda>(n', s'). if n' = n then (n', s) else (n', s')) fs) n = Some s" if "map_of fs n = Some s0"
    using that by (induction fs) (auto split: if_splits)
  with Some show ?thesis by (auto simp: put_fspec_def)
qed

lemma wanted_again:
  assumes "bs_version (pb_spec old') = bs_version (pb_spec (wanted pr c ci items))"
    and "bs_features (pb_spec old') = bs_features (pb_spec (wanted pr c ci items))"
  shows "pb_spec (wanted pr c ci (old' # rest)) = pb_spec (wanted pr c ci items)"
  using assms
  by (auto simp: wanted_def add_shifter_def take_over_def set_binding_def put_fspec_idem split: list.split)

lemma store_again:
  "om_labels cur = om_labels pb \<Longrightarrow> om_owners cur = om_owners pb \<Longrightarrow> pb_spec cur = pb_spec pb \<Longrightarrow>
     store_binding pb cur = cur"
  by (simp add: store_binding_def)

lemma rebound_again: "rebound pr t' c ci (rebound pr t c ci items) = rebound pr t c ci items"
proof (cases items)
  case Nil
  then show ?thesis by (simp add: rebound_def store_again wanted_again)
next
  case (Cons old rest)
  have "store_binding (wanted pr c ci (store_binding (wanted pr c ci items) old # rest)) (store_binding (wanted pr c ci items) old)
     = store_binding (wanted pr c ci items) old"
    using wanted_again [of "store_binding (wanted pr c ci items) old" pr c ci items rest]
    by (intro store_again) (simp_all add: store_binding_def)
  with Cons show ?thesis by (simp add: rebound_def)
qed

lemma rebound_not_Nil: "rebound pr t c ci items \<noteq> []"
  by (simp add: rebound_def split: list.split)

lemma rebind_same:
  assumes "keys_distinct bs" and "in_ns (om_name c) bs = rebound pr t c ci items"
  shows "rebind pr t' c ci bs = bs"
proof -
  let ?x = "hd (in_ns (om_name c) bs)"
  have "?x \<in> set bs"
    using assms(2) rebound_not_Nil in_ns_mem [of ?x "om_name c" bs] by (metis list.set_sel(1))
  then have f: "find_obj (obj_key ?x) bs = Some ?x" using find_obj_distinct [OF assms(1)] by blast
  have "map (\<lambda>y. if obj_key y = obj_key ?x then ?x else y) bs = bs"
    using f find_obj_distinct [OF assms(1)] by (intro map_idI) auto
  then have "put_obj ?x bs = bs" using f by (simp add: put_obj_def)
  then show ?thesis unfolding rebind_def using assms(2) by (simp add: rebound_again)
qed

lemma rebind_all_same:
  "keys_distinct bs \<Longrightarrow> (\<And>c. c \<in> set cs \<Longrightarrow> \<exists>items. in_ns (om_name (fst c)) bs = rebound pr t (fst c) (snd c) items)
     \<Longrightarrow> rebind_all pr t' cs bs = bs"
proof (induction cs)
  case Nil
  then show ?case by simp
next
  case (Cons c cs)
  from Cons.prems(2) [of c] obtain items where "in_ns (om_name (fst c)) bs = rebound pr t (fst c) (snd c) items" by auto
  with rebind_same [OF Cons.prems(1)] Cons show ?case by simp
qed

lemma find_key_distinct:
  "distinct (map g cs) \<Longrightarrow> c \<in> set cs \<Longrightarrow> List.find (\<lambda>c'. g c' = g c) cs = Some c"
  by (induction cs) (auto simp: image_iff)

text \<open>
  C19: A reconcile of a set profile settles in one step: reconciling again, at any later time,
  finds nothing to change.
\<close>

theorem set_profile_settles:
  assumes "no_faults w" and "keys_distinct (w_bindings w)"
    and "find_obj req (w_profiles w) = Some pr" and "find_obj ('''', om_name pr) (w_sets w) = Some s"
    and "BuildClusterSelector C s = Inr sel" and "described C sel w"
    and "distinct (map (om_name \<circ> fst) (members C sel w))"
    and "w1 = (snd (ReconcileSet C req w))\<lparr>w_now := t\<rparr>"
  shows "ReconcileSet C req w1 = (Inr Result_zero, w1)"
proof -
  let ?bs = "rebind_all pr (w_now w) (members C sel w) (w_bindings w)"
  have w1: "w1 = w\<lparr>w_bindings := ?bs, w_now := t\<rparr>"
    unfolding assms(8) ReconcileSet_run [OF assms(1-6)] by simp
  have k: "keys_distinct ?bs" using assms(2) by (rule rebind_all_distinct)
  have m: "members C sel w1 = members C sel w" by (simp add: w1 members_def)
  have "\<exists>items. in_ns (om_name (fst c)) ?bs = rebound pr (w_now w) (fst c) (snd c) items"
    if "c \<in> set (members C sel w)" for c
  proof -
    have "List.find (\<lambda>c'. om_name (fst c') = om_name (fst c)) (members C sel w) = Some c"
      using find_key_distinct [OF assms(7) that] by simp
    then show ?thesis using rebind_all_ns [OF assms(2,7), of "om_name (fst c)" pr "w_now w"] by auto
  qed
  then have "rebind_all pr t (members C sel w) ?bs = ?bs" by (rule rebind_all_same [OF k])
  moreover have "ReconcileSet C req w1 =
     (Inr Result_zero, w1\<lparr>w_bindings := rebind_all pr (w_now w1) (members C sel w1) (w_bindings w1)\<rparr>)"
    by (rule ReconcileSet_run [where s = s]) (use assms(1-7) k in \<open>simp_all add: w1 no_faults_def described_def\<close>)
  ultimately show ?thesis by (simp add: m) (simp add: w1)
qed

section \<open>Under any faults\<close>

text \<open>
  What a user may have put into a binding is still there: the version, the status, the
  annotations and the specs of all features but aceshifter, which the operator owns.
\<close>

definition user_kept :: "binding \<Rightarrow> binding \<Rightarrow> bool" where
  "user_kept old pb \<longleftrightarrow>
     bs_version (pb_spec pb) = bs_version (pb_spec old) \<and> pb_status pb = pb_status old \<and>
     om_annots pb = om_annots old \<and>
     (\<forall>n. n \<noteq> ''aceshifter'' \<longrightarrow> map_of (bs_features (pb_spec pb)) n = map_of (bs_features (pb_spec old)) n)"

text \<open>What no user has touched: no version, no annotation, no feature but aceshifter.\<close>

definition untouched :: "binding \<Rightarrow> bool" where
  "untouched pb \<longleftrightarrow>
     bs_version (pb_spec pb) = '''' \<and> om_annots pb = Map.empty \<and>
     (\<forall>n. n \<noteq> ''aceshifter'' \<longrightarrow> map_of (bs_features (pb_spec pb)) n = None)"

definition all_kept :: "binding list \<Rightarrow> binding list \<Rightarrow> bool" where
  "all_kept bs bs' \<longleftrightarrow>
     (\<forall>k old. find_obj k bs = Some old \<longrightarrow> (\<exists>pb. find_obj k bs' = Some pb \<and> user_kept old pb)) \<and>
     (\<forall>k pb. find_obj k bs = None \<longrightarrow> find_obj k bs' = Some pb \<longrightarrow> untouched pb)"

lemma user_kept_trans: "user_kept a b \<Longrightarrow> user_kept b c \<Longrightarrow> user_kept a c"
  by (simp add: user_kept_def)

lemma untouched_kept: "user_kept old pb \<Longrightarrow> untouched old \<Longrightarrow> untouched pb"
  by (simp add: user_kept_def untouched_def)

lemma all_keptI:
  "(\<And>k old. find_obj k bs = Some old \<Longrightarrow> \<exists>pb. find_obj k bs' = Some pb \<and> user_kept old pb) \<Longrightarrow>
   (\<And>k pb. find_obj k bs = None \<Longrightarrow> find_obj k bs' = Some pb \<Longrightarrow> untouched pb) \<Longrightarrow> all_kept bs bs'"
  by (simp add: all_kept_def)

lemma all_kept_old: "all_kept bs bs' \<Longrightarrow> find_obj k bs = Some old \<Longrightarrow> \<exists>pb. find_obj k bs' = Some pb \<and> user_kept old pb"
  and all_kept_new: "all_kept bs bs' \<Longrightarrow> find_obj k bs = None \<Longrightarrow> find_obj k bs' = Some pb \<Longrightarrow> untouched pb"
  unfolding all_kept_def by blast+

lemma all_kept_refl: "all_kept bs bs"
  by (auto simp: all_kept_def user_kept_def)

lemma all_kept_trans: "all_kept bs bs1 \<Longrightarrow> all_kept bs1 bs2 \<Longrightarrow> all_kept bs bs2"
proof (rule all_keptI)
  assume a: "all_kept bs bs1" "all_kept bs1 bs2"
  show "\<exists>pb. find_obj k bs2 = Some pb \<and> user_kept old pb" if "find_obj k bs = Some old" for k old
    using all_kept_old [OF a(1) that] all_kept_old [OF a(2)] user_kept_trans by meson
  show "untouched pb" if n: "find_obj k bs = None" and f: "find_obj k bs2 = Some pb" for k pb
  proof (cases "find_obj k bs1")
    case None
    then show ?thesis using f by (rule all_kept_new [OF a(2)])
  next
    case (Some pb1)
    from all_kept_old [OF a(2) this] f have "user_kept pb1 pb" by simp
    then show ?thesis using all_kept_new [OF a(1) n Some] by (rule untouched_kept)
  qed
qed

lemma map_of_put_fspec: "map_of (put_fspec n s fs) n' = (if n' = n then Some s else map_of fs n')"
proof (cases "map_of fs n")
  case None
  then show ?thesis by (simp add: put_fspec_def map_add_def split: option.split)
next
  case (Some s0)
  have "map_of (map (\<lambda>(m, s'). if m = n then (m, s) else (m, s')) fs) n' =
      (if n' = n \<and> map_of fs n \<noteq> None then Some s else map_of fs n')"
    by (induction fs) auto
  with Some show ?thesis by (simp add: put_fspec_def)
qed

lemma wanted_kept: "user_kept old (store_binding (wanted pr c ci (old # rest)) old)"
  by (simp add: user_kept_def wanted_def add_shifter_def take_over_def set_binding_def map_of_put_fspec)

lemma bind_cluster_keeps:
  assumes "keys_distinct (w_bindings w)" and "bind_cluster C pr c w = (r, w')"
  shows "keys_distinct (w_bindings w') \<and> all_kept (w_bindings w) (w_bindings w')"
proof (cases "GetClusterMetadata C c")
  case (Inl e)
  with assms show ?thesis by (auto simp: bind_cluster_def bindM_run liftM_run all_kept_refl)
next
  case (Inr ci)
  note d = bind_cluster_def Inr bindM_run liftM_run Let_def ret_run
  show ?thesis
  proof (cases rule: bdk.list_cases [of "\<lambda>pb. om_ns pb = om_name c" w])
    case (failed e fs)
    with assms show ?thesis by (auto simp: d all_kept_refl)
  next
    case (listed fs)
    let ?items = "filter (\<lambda>pb. om_ns pb = om_name c) (w_bindings w)"
    let ?pb = "wanted pr c ci ?items"
    let ?w = "w\<lparr>w_faults := fs\<rparr>"
    have l: "api_list bindings (\<lambda>pb. om_ns pb = om_name c) w = (Inr ?items, ?w)"
      using listed by (simp add: bindings_def)
    show ?thesis
    proof (cases rule: bdk.create_or_patch_cases [of ?pb "store_binding ?pb" ?w])
      case (patched cur fs')
      from patched(2) have cur: "find_obj (obj_key ?pb) (w_bindings w) = Some cur" by (simp add: bindings_def)
      have w': "w_bindings w' = put_obj (store_binding ?pb cur) (w_bindings w)"
        using assms(2) l patched(1) by (auto simp: d wanted_def [symmetric]) (simp add: bindings_def)
      have ck: "obj_key cur = obj_key ?pb" "cur \<in> set (w_bindings w)" using find_obj_key [OF cur] by simp_all
      then have "om_ns cur = om_name c" by (simp add: obj_key_def)
      with ck(2) have "cur \<in> set ?items" by simp
      then obtain old rest where it: "?items = old # rest" by (cases ?items) auto
      then have "old \<in> set ?items" by simp
      then have old: "old \<in> set (w_bindings w)" "om_ns old = om_name c" by simp_all
      then have "obj_key ?pb = obj_key old" by (simp only: it) (simp add: obj_key_def)
      then have "cur = old" using cur old(1) find_obj_distinct [OF assms(1)] by simp
      then have k: "user_kept cur (store_binding ?pb cur)" by (simp only: it wanted_kept)
      have "all_kept (w_bindings w) (put_obj (store_binding ?pb cur) (w_bindings w))"
      proof (rule all_keptI)
        fix k0 o0
        assume f: "find_obj k0 (w_bindings w) = Some o0"
        show "\<exists>pb. find_obj k0 (put_obj (store_binding ?pb cur) (w_bindings w)) = Some pb \<and> user_kept o0 pb"
        proof (cases "k0 = obj_key cur")
          case True
          with f cur ck(1) have "o0 = cur" by simp
          with True k show ?thesis by (simp add: kube.look_put)
        next
          case False
          with f show ?thesis by (simp add: kube.look_put user_kept_def)
        qed
      next
        fix k0 pb0
        assume "find_obj k0 (w_bindings w) = None" "find_obj k0 (put_obj (store_binding ?pb cur) (w_bindings w)) = Some pb0"
        with cur ck(1) show "untouched pb0" by (auto simp: kube.look_put split: if_splits)
      qed
      with w' assms(1) show ?thesis by (simp add: kube.inv_put)
    next
      case (created y fs')
      have w': "w_bindings w' = put_obj y (w_bindings w)"
        using assms(2) l created(1) by (auto simp: d wanted_def [symmetric]) (simp add: bindings_def)
      have "find_obj (obj_key y) (w_bindings w) = None"
        using created(2,3) by (simp add: bindings_def)
      moreover have "untouched y"
      proof (cases ?items)
        case Nil
        then show ?thesis
          unfolding created(2) untouched_def
          by (simp add: Nil wanted_def add_shifter_def take_over_def set_binding_def map_of_put_fspec)
      next
        case (Cons old rest)
        then have "old \<in> set ?items" by simp
        then have "old \<in> set (w_bindings w)" and ns: "om_ns old = om_name c" by simp_all
        then have "find_obj (obj_key old) (w_bindings w) \<noteq> None" using find_obj_distinct [OF assms(1)] by simp
        moreover have "obj_key y = obj_key old"
          unfolding created(2) by (simp add: Cons ns obj_key_def)
        ultimately show ?thesis using \<open>find_obj (obj_key y) (w_bindings w) = None\<close> by simp
      qed
      ultimately have "all_kept (w_bindings w) (put_obj y (w_bindings w))"
        by (auto simp: all_kept_def kube.look_put user_kept_def)
      with w' assms(1) show ?thesis by (simp add: kube.inv_put)
    next
      case (failed e fs')
      then have "w_bindings w' = w_bindings w"
        using assms(2) l by (auto simp: d wanted_def [symmetric])
      with assms(1) show ?thesis by (simp add: all_kept_refl)
    qed
  qed
qed

definition kept_since :: "binding list \<Rightarrow> world \<Rightarrow> bool" where
  "kept_since bs w \<longleftrightarrow> keys_distinct (w_bindings w) \<and> all_kept bs (w_bindings w)"

lemma keeps_bind_cluster: "keeps (kept_since bs) (bind_cluster C pr c)"
  unfolding triple_def kept_since_def
proof (intro allI impI)
  fix w :: world
  assume a: "keys_distinct (w_bindings w) \<and> all_kept bs (w_bindings w)"
  obtain r w' where b: "bind_cluster C pr c w = (r, w')" by (cases "bind_cluster C pr c w")
  from a bind_cluster_keeps [OF _ b] all_kept_trans
  have "keys_distinct (w_bindings w') \<and> all_kept bs (w_bindings w')" by blast
  then show "case bind_cluster C pr c w of
      (Inl e, w') \<Rightarrow> keys_distinct (w_bindings w') \<and> all_kept bs (w_bindings w')
    | (Inr x, w') \<Rightarrow> keys_distinct (w_bindings w') \<and> all_kept bs (w_bindings w')"
    by (simp add: b split: sum.split)
qed

lemma steady_kept: "steady (kept_since bs)"
  by (simp add: steady_def kept_since_def)

lemma keeps_get_set: "keeps (kept_since bs) (get_set pr)"
  unfolding get_set_def
  by (rule triple_tryM [where R = "\<lambda>_. kept_since bs"])
    (auto intro!: keeps_api_get keeps_api_delete triple_bindM triple_ret triple_raise steady_kept
      simp: profiles_def kept_since_def split: sum.split)

lemma keeps_bind_clusters: "keeps (kept_since bs) (bind_clusters C pr)"
proof -
  have "keeps (kept_since bs) (foldM (\<lambda>_. bind_cluster C pr) () items)" for items
    by (rule triple_foldM) (rule keeps_bind_cluster)
  then have "keeps (kept_since bs) (bindM (api_list clusters P) (foldM (\<lambda>_. bind_cluster C pr) ()))" for P
    by (rule triple_bindM [OF keeps_api_list [OF steady_kept]])
  then have "keeps (kept_since bs) (bindM (liftM r) (\<lambda>sel. bindM (api_list clusters (\<lambda>c. sel (om_labels c)))
      (foldM (\<lambda>_. bind_cluster C pr) ())))" for r
    by (cases r) (simp_all add: triple_def bindM_run [of "liftM r" for r] liftM_run)
  then show ?thesis unfolding bind_clusters_def by (rule triple_bindM [OF keeps_get_set])
qed

lemma keeps_ReconcileSet: "keeps (kept_since bs) (ReconcileSet C req)"
  unfolding ReconcileSet_def
proof (rule triple_tryM [where R = "\<lambda>_. kept_since bs"])
  show "keeps (kept_since bs) (api_get profiles req)" by (rule keeps_api_get) (rule steady_kept)
  fix r :: "gerr + profile"
  have "keeps (kept_since bs) (bindM (bind_clusters C pr) (\<lambda>_. ret Result_zero))" for pr
    by (rule triple_bindM [OF keeps_bind_clusters]) (rule triple_ret)
  then show "keeps (kept_since bs) (case r of
       Inl e \<Rightarrow> (case IgnoreNotFound e of None \<Rightarrow> ret Result_zero | Some e' \<Rightarrow> raise e')
     | Inr profile \<Rightarrow> bindM (bind_clusters C profile) (\<lambda>_. ret Result_zero))"
    by (simp add: triple_ret triple_raise split: sum.split option.split)
qed

text \<open>
  C20: Whatever calls fail and wherever the reconcile stops, every binding that was there is
  still there with its version, status and annotations, and with the specs of all its
  features but aceshifter.
\<close>

theorem set_profile_keeps_users:
  assumes "keys_distinct (w_bindings w)" and "find_obj k (w_bindings w) = Some old"
  shows "\<exists>pb. find_obj k (w_bindings (snd (ReconcileSet C req w))) = Some pb \<and> user_kept old pb"
proof -
  have "kept_since (w_bindings w) w" using assms(1) by (simp add: kept_since_def all_kept_refl)
  then have "kept_since (w_bindings w) (snd (ReconcileSet C req w))" by (rule keepsD [OF keeps_ReconcileSet])
  then show ?thesis using assms(2) unfolding kept_since_def by (blast dest: all_kept_old)
qed

section \<open>A profile whose set is gone\<close>

text \<open>
  C21: Without faults, the profile of a cluster set that is gone is deleted; the bindings of the
  clusters it had stay as they are, unless a cluster carries the cluster set label with an
  empty value.
\<close>

theorem set_gone_deletes_profile:
  assumes "no_faults w" and "find_obj req (w_profiles w) = Some pr" and "find_obj ('''', om_name pr) (w_sets w) = None"
    and "filter (\<lambda>c. om_labels c ClusterSetLabel = Some '''') (w_clusters w) = []"
  shows "ReconcileSet C req w = (Inr Result_zero, w\<lparr>w_profiles := del_obj req (w_profiles w)\<rparr>)"
proof -
  have k: "obj_key pr = req" using find_obj_key [OF assms(2)] by simp
  have "no_faults (w\<lparr>w_profiles := x\<rparr>)" for x using assms(1) by (simp add: no_faults_def)
  with assms k show ?thesis
    by (simp add: ReconcileSet_def bind_clusters_def get_set_def bindM_run tryM_run api_get_run api_list_run api_delete_run
        liftM_run ret_run profiles_def clustersets_def clusters_def BuildClusterSelector_def zero_set_def)
qed

section \<open>A set to look at\<close>

definition set_env :: clusterenv where
  "set_env =
     \<lparr> ce_info = (\<lambda>s. Inr (zero_clusterinfo\<lparr>ci_uid := s, ci_managers := Some [ClusterManagerOpenShift]\<rparr>)),
       ce_selector = (\<lambda>l. Inr (\<lambda>_. False)) \<rparr>"

definition set_cluster :: "string \<Rightarrow> managedcluster" where
  "set_cluster n =
     \<lparr> om_name = n, om_ns = '''', om_labels = [ClusterSetLabel \<mapsto> ''p''], om_annots = Map.empty, om_owners = [],
       om_created = 0, mc_claims = [\<lparr> cl_name = ClusterClaimClusterInfo, cl_value = ''uid'' \<rparr>] \<rparr>"

definition set_profile :: profile where
  "set_profile =
     \<lparr> om_name = ''p'', om_ns = '''', om_labels = Map.empty, om_annots = Map.empty, om_owners = [],
       om_created = 0, pr_features = [] \<rparr>"

definition set_world :: world where
  "set_world =
     (ex_world 2 0)\<lparr>w_profiles := [set_profile], w_sets := [zero_set\<lparr>om_name := ''p''\<rparr>],
        w_clusters := [set_cluster ''c1'', set_cluster ''c2''], w_bindings := [ex_binding ''v2'']\<rparr>"

definition set_sel :: "strmap \<Rightarrow> bool" where
  "set_sel = (\<lambda>ls. ls ClusterSetLabel = Some ''p'')"

lemma set_world_ok:
  "no_faults set_world" "keys_distinct (w_bindings set_world)"
  "find_obj ('''', ''p'') (w_profiles set_world) = Some set_profile"
  "find_obj ('''', om_name set_profile) (w_sets set_world) = Some (zero_set\<lparr>om_name := ''p''\<rparr>)"
  "BuildClusterSelector set_env (zero_set\<lparr>om_name := ''p''\<rparr>) = Inr set_sel" "described set_env set_sel set_world"
  "distinct (map (om_name \<circ> fst) (members set_env set_sel set_world))"
  by (simp_all add: set_world_def ex_world_def no_faults_def keys_distinct_def set_profile_def obj_key_def zero_set_def
      BuildClusterSelector_def set_sel_def fun_eq_iff described_def GetClusterMetadata_def set_cluster_def set_env_def
      members_def)

theorem set_profile_rebinds_witness:
  "in_ns ''c2'' (w_bindings (snd (ReconcileSet set_env ('''', ''p'') set_world))) =
     [brand_new set_profile 0 (set_cluster ''c2'')
       (zero_clusterinfo\<lparr>ci_uid := ''uid'', ci_managers := Some [ClusterManagerOpenShift]\<rparr>)]"
  using set_profile_rebinds [OF set_world_ok, where ns = "''c2''"]
  by (simp add: members_def set_world_def ex_world_def GetClusterMetadata_def set_cluster_def set_env_def set_sel_def
      in_ns_def ex_binding_def)

theorem set_profile_settles_witness:
  "ReconcileSet set_env ('''', ''p'') ((snd (ReconcileSet set_env ('''', ''p'') set_world))\<lparr>w_now := 9\<rparr>) =
     (Inr Result_zero, (snd (ReconcileSet set_env ('''', ''p'') set_world))\<lparr>w_now := 9\<rparr>)"
  by (rule set_profile_settles [OF set_world_ok refl])

theorem set_profile_keeps_users_witness:
  "\<exists>pb. find_obj (''c1'', ''c1'') (w_bindings (snd (ReconcileSet set_env ('''', ''p'')
      (set_world\<lparr>w_faults := [None, None, Some (ErrText ''down'')]\<rparr>)))) = Some pb \<and> user_kept (ex_binding ''v2'') pb"
  by (rule set_profile_keeps_users) (simp_all add: set_world_def keys_distinct_def ex_binding_def obj_key_def)

theorem set_gone_deletes_profile_witness:
  "ReconcileSet set_env ('''', ''p'') (set_world\<lparr>w_sets := []\<rparr>) =
     (Inr Result_zero, (set_world\<lparr>w_sets := []\<rparr>)\<lparr>w_profiles := []\<rparr>)"
  using set_gone_deletes_profile [where w = "set_world\<lparr>w_sets := []\<rparr>" and req = "('''', ''p'')" and pr = set_profile and C = set_env]
  by (simp add: set_world_def ex_world_def no_faults_def set_profile_def obj_key_def set_cluster_def del_obj_def)

end
