(* ===== verification/System.thy ===== *)
theory System
  imports Interleaving SetFacts
begin

text \<open>
  The controllers together. A history is what happens to a hub, event by event: either
  controller reconciles, on whatever faults the API server hands out, users write and delete
  bindings, and everything else moves on its own. Along every history the bindings keep what the users asked for, and the
  ManifestWorks of a cluster change only when a binding of that cluster is reconciled. One
  pass of the two controllers brings a profile to a cluster that joins its set.
\<close>

section \<open>Histories of a hub\<close>

text \<open>
  The binding controller reconciles; the set profile controller does; a user creates or updates a
  binding, or deletes one; agents report, the clock runs and other objects change.
\<close>

datatype event = Reconciled objkey | SetReconciled objkey | Asked binding | Withdrawn objkey | Elsewhere

text \<open>What of a ManifestWork the agents of the cluster read: everything but the status they report.\<close>

definition published :: "world \<Rightarrow> objkey \<Rightarrow> (raw list \<times> manifest_config list) option" where
  "published w k = map_option (\<lambda>mw. (mw_manifests mw, mw_configs mw)) (find_obj k (w_mws w))"

inductive history ::
  "'f fakeenv \<Rightarrow> clusterenv \<Rightarrow> world \<times> 'f \<Rightarrow> event list \<Rightarrow> world \<times> 'f \<Rightarrow> bool"
  for E C s0 where
  begins: "history E C s0 [] s0"
| reconciles: "history E C s0 es s \<Longrightarrow> history E C s0 (es @ [Reconciled req]) (snd (Reconcile E fuel req s))"
| set_reconciles: "history E C s0 es (w, f) \<Longrightarrow>
    history E C s0 (es @ [SetReconciled req]) (snd (ReconcileSet C req w), f)"
| asks: "history E C s0 es (w, f) \<Longrightarrow>
    history E C s0 (es @ [Asked x]) (w\<lparr>w_bindings := put_obj x (w_bindings w)\<rparr>, f)"
| withdraws: "history E C s0 es (w, f) \<Longrightarrow>
    history E C s0 (es @ [Withdrawn k]) (w\<lparr>w_bindings := del_obj k (w_bindings w)\<rparr>, f)"
| elsewhere: "history E C s0 es (w, f) \<Longrightarrow> w_bindings w' = w_bindings w \<Longrightarrow> w_cms w' = w_cms w \<Longrightarrow>
    published w' = published w \<Longrightarrow> history E C s0 (es @ [Elsewhere]) (w', f')"

section \<open>What users asked for\<close>

text \<open>The last wish of the users for every binding.\<close>

fun wish :: "event \<Rightarrow> (objkey \<rightharpoonup> binding) \<Rightarrow> objkey \<rightharpoonup> binding" where
  "wish (Asked x) m = m(obj_key x \<mapsto> x)"
| "wish (Withdrawn k) m = m(k := None)"
| "wish (Reconciled k) m = m"
| "wish (SetReconciled k) m = m"
| "wish Elsewhere m = m"

definition wishes :: "event list \<Rightarrow> objkey \<rightharpoonup> binding" where
  "wishes es = fold wish es Map.empty"

text \<open>A binding answers a wish with its version, its annotations and its feature specs but aceshifter's.\<close>

definition answers :: "binding \<Rightarrow> binding \<Rightarrow> bool" where
  "answers x pb \<longleftrightarrow>
     bs_version (pb_spec pb) = bs_version (pb_spec x) \<and> om_annots pb = om_annots x \<and>
     (\<forall>n. n \<noteq> ''aceshifter'' \<longrightarrow> map_of (bs_features (pb_spec pb)) n = map_of (bs_features (pb_spec x)) n)"

definition granted :: "binding option \<Rightarrow> binding option \<Rightarrow> bool" where
  "granted m b \<longleftrightarrow>
     (case m of Some x \<Rightarrow> (\<exists>pb. b = Some pb \<and> answers x pb) | None \<Rightarrow> (\<forall>pb. b = Some pb \<longrightarrow> untouched pb))"

definition honoured :: "(objkey \<rightharpoonup> binding) \<Rightarrow> binding list \<Rightarrow> bool" where
  "honoured m bs \<longleftrightarrow> keys_distinct bs \<and> (\<forall>k. granted (m k) (find_obj k bs))"

lemma honouredD: "honoured m bs \<Longrightarrow> granted (m k) (find_obj k bs)"
  unfolding honoured_def by blast

lemma honouredI: "keys_distinct bs \<Longrightarrow> (\<And>k. granted (m k) (find_obj k bs)) \<Longrightarrow> honoured m bs"
  unfolding honoured_def by blast

lemma answers_refl: "answers x x"
  by (simp add: answers_def)

lemma granted_kept: "granted m (Some old) \<Longrightarrow> user_kept old pb \<Longrightarrow> granted m (Some pb)"
  by (auto simp: granted_def answers_def user_kept_def untouched_def split: option.splits)

lemma granted_status: "granted m (Some cur) \<Longrightarrow> granted m (Some (cur\<lparr>pb_status := st\<rparr>))"
  by (auto simp: granted_def answers_def untouched_def split: option.splits)

lemma honoured_put: "honoured m bs \<Longrightarrow> honoured (m(obj_key x \<mapsto> x)) (put_obj x bs)"
  by (rule honouredI)
    (auto simp: honoured_def kube.inv_put kube.look_put granted_def answers_refl simp del: split_paired_All)

lemma honoured_del: "honoured m bs \<Longrightarrow> honoured (m(k := None)) (del_obj k bs)"
  by (rule honouredI)
    (auto simp: honoured_def kube.inv_del kube.look_del granted_def simp del: split_paired_All)

lemma honoured_kept:
  assumes "honoured m bs" and "keys_distinct bs'" and "all_kept bs bs'"
  shows "honoured m bs'"
proof (rule honouredI [OF assms(2)])
  fix k
  note g = honouredD [OF assms(1), of k]
  show "granted (m k) (find_obj k bs')"
  proof (cases "find_obj k bs")
    case None
    then show ?thesis using g all_kept_new [OF assms(3) None] by (auto simp: granted_def split: option.splits)
  next
    case (Some old)
    with g granted_kept all_kept_old [OF assms(3) Some] show ?thesis by fastforce
  qed
qed

lemma honoured_status:
  assumes "honoured m bs" and "find_obj k bs = Some cur"
  shows "honoured m (put_obj (cur\<lparr>pb_status := st\<rparr>) bs)"
proof (rule honouredI)
  show "keys_distinct (put_obj (cur\<lparr>pb_status := st\<rparr>) bs)"
    using assms(1) by (simp add: honoured_def kube.inv_put)
  show "granted (m k') (find_obj k' (put_obj (cur\<lparr>pb_status := st\<rparr>) bs))" for k'
    using honouredD [OF assms(1), of k'] find_obj_key [OF assms(2)] assms(2) granted_status
    by (auto simp: kube.look_put obj_key_def)
qed

text \<open>Either controller honours every wish.\<close>

lemma Reconcile_honours:
  "honoured m (w_bindings w) \<Longrightarrow> honoured m (w_bindings (fst (snd (Reconcile E n req (w, f)))))"
  using Reconcile_bindings [of E n req w f] honoured_status unfolding status_changed_def by fastforce

lemma ReconcileSet_honours:
  assumes "honoured m (w_bindings w)"
  shows "honoured m (w_bindings (snd (ReconcileSet C req w)))"
proof -
  have "kept_since (w_bindings w) w" using assms by (simp add: kept_since_def honoured_def all_kept_refl)
  then have "kept_since (w_bindings w) (snd (ReconcileSet C req w))" by (rule keepsD [OF keeps_ReconcileSet])
  then show ?thesis using honoured_kept [OF assms] by (simp add: kept_since_def)
qed

lemma history_honours:
  "history E C s0 es s \<Longrightarrow> honoured Map.empty (w_bindings (fst s0)) \<Longrightarrow> honoured (wishes es) (w_bindings (fst s))"
proof (induction rule: history.induct)
  case (reconciles es s req fuel)
  then show ?case using Reconcile_honours [of "wishes es" "fst s" E fuel req "snd s"] by (simp add: wishes_def)
qed (simp_all add: wishes_def ReconcileSet_honours honoured_put honoured_del)

text \<open>
  C7: Whatever happens on a hub that starts without bindings, however often and in whatever order the two controllers
  reconcile and whatever calls fail, every binding a user asked for and did not withdraw
  is there with the version, the annotations and the feature specs (aceshifter aside) of the
  last request; and a binding no user asked for has no version, no annotation and no feature
  but aceshifter: no upgrade starts that no user wanted.
\<close>

theorem wishes_survive:
  assumes "history E C (w0, f0) es (w, f)" and "w_bindings w0 = []"
  shows "case wishes es k of
      Some x \<Rightarrow> \<exists>pb. find_obj k (w_bindings w) = Some pb \<and> answers x pb
    | None \<Rightarrow> \<forall>pb. find_obj k (w_bindings w) = Some pb \<longrightarrow> untouched pb"
proof -
  have "honoured Map.empty (w_bindings w0)"
    using assms(2) by (simp add: honoured_def granted_def keys_distinct_def)
  with history_honours [OF assms(1)] have "honoured (wishes es) (w_bindings w)" by simp
  from honouredD [OF this, of k] show ?thesis by (simp only: granted_def)
qed

section \<open>Quiet clusters\<close>

lemmas keeping =
  keeps_ret keeps_raise keeps_liftM keeps_bindM keeps_tryM keeps_foldM keeps_if keeps_case_sum keeps_case_option
  keeps_case_prod keeps_case_gerr keeps_onhub keeps_api_get keeps_api_list

text \<open>The set profile controller writes bindings and deletes profiles, nothing else.\<close>

abbreviation same_works :: "world \<Rightarrow> world \<Rightarrow> bool" where
  "same_works w0 w \<equiv> w_mws w = w_mws w0 \<and> w_cms w = w_cms w0"

lemma steady_works: "steady (same_works w0)"
  by (simp add: steady_def)

lemma ReconcileSet_works: "keeps (same_works w0) (ReconcileSet C req)"
proof -
  have b: "keeps (same_works w0) (CreateOrPatch bindings x tr)" for x tr
    by (rule keeps_CreateOrPatch) (simp_all add: steady_works bindings_def)
  have d: "keeps (same_works w0) (api_delete profiles k)" for k
    by (rule keeps_api_delete) (simp_all add: steady_works profiles_def)
  show ?thesis
    unfolding ReconcileSet_def bind_clusters_def get_set_def bind_cluster_def Let_def
    by (intro keeping b d steady_works)
qed

text \<open>What the agents of a namespace get, and the runs recorded there.\<close>

definition same_in :: "string \<Rightarrow> world \<Rightarrow> world \<Rightarrow> bool" where
  "same_in ns w0 w \<longleftrightarrow>
     (\<forall>k. fst k = ns \<longrightarrow> published w k = published w0 k \<and> find_obj k (w_cms w) = find_obj k (w_cms w0))"

lemma same_in_trans: "same_in ns w0 w \<Longrightarrow> same_in ns w w' \<Longrightarrow> same_in ns w0 w'"
  by (simp add: same_in_def)

lemma same_in_works: "same_works w w' \<Longrightarrow> same_in ns w w'"
  by (simp add: same_in_def published_def)

lemma Reconcile_elsewhere:
  assumes "fst req \<noteq> ns"
  shows "same_in ns w (fst (snd (Reconcile E fuel req (w, f))))"
  using Reconcile_outside [of req w E fuel f] assms by (auto simp: same_outside_def same_in_def published_def)

fun reconciled_in :: "string \<Rightarrow> event \<Rightarrow> bool" where
  "reconciled_in ns (Reconciled req) = (fst req = ns)"
| "reconciled_in ns _ = False"

text \<open>So a quiet cluster keeps its objects, and the list of its ConfigMaps, in their order.\<close>

lemma quiet_history:
  assumes "history E C s0 es s" and "list_all (\<lambda>e. \<not> reconciled_in ns e) es"
  shows "same_in ns (fst s0) (fst s) \<and> only ns (w_cms (fst s)) = only ns (w_cms (fst s0))"
  using assms
proof (induction rule: history.induct)
  case begins
  show ?case by (simp add: same_in_def)
next
  case (reconciles es s req fuel)
  let ?w = "fst (snd (Reconcile E fuel req s))"
  from reconciles have "fst req \<noteq> ns" by simp
  moreover from this have "only ns (w_cms ?w) = only ns (w_cms (fst s))"
    using Reconcile_rest [of req E fuel "fst s" "snd s"] only_others [of ns "fst req"] by (metis hub_rest_eq prod.collapse)
  ultimately show ?case
    using reconciles same_in_trans [OF _ Reconcile_elsewhere [of req ns "fst s" E fuel "snd s"]] by simp
next
  case (set_reconciles es w f req)
  have "same_works w (snd (ReconcileSet C req w))" by (rule keepsD [OF ReconcileSet_works]) simp
  with set_reconciles show ?case using same_in_works same_in_trans by fastforce
qed (simp_all add: same_in_def published_def)

text \<open>
  C12: The manifests and feedback rules of every ManifestWork of a cluster, and the recorded
  upgrades of that cluster, stay what they are as long as no binding of the cluster's own
  namespace is reconciled, whatever happens to all other bindings, to the profiles and to the
  cluster sets.
\<close>

theorem quiet_cluster_unchanged:
  assumes "history E C (w0, f0) es (w, f)" and "list_all (\<lambda>e. \<not> reconciled_in ns e) es" and "fst k = ns"
  shows "published w k = published w0 k \<and> find_obj k (w_cms w) = find_obj k (w_cms w0)"
  using quiet_history [OF assms(1,2)] assms(3) by (simp add: same_in_def del: split_paired_All)

section \<open>Workers side by side\<close>

text \<open>Along a history every recorded run names ManifestWorks of its own cluster.\<close>

lemma Reconcile_keeps:
  assumes "fst req \<noteq> ''''" and "ns \<noteq> ''''" and "\<And>n. n \<noteq> '''' \<Longrightarrow> well_kept n w"
  shows "well_kept ns (fst (snd (Reconcile E fuel req (w, f))))"
proof -
  let ?w = "fst (snd (Reconcile E fuel req (w, f)))"
  have own: "well_kept (fst req) ?w"
    using withinD [OF Reconcile_inside [of True req E fuel], of "(w, f)"] assms(1,3)
    by (cases "Reconcile E fuel req (w, f)") simp
  show ?thesis
  proof (cases "ns = fst req")
    case False
    have "others (fst req) (w_cms ?w) = others (fst req) (w_cms w)"
      using Reconcile_rest [of req E fuel w f] by (simp add: hub_rest_eq)
    then have "only ns (w_cms ?w) = only ns (w_cms w)" using False only_others by metis
    with own assms(2,3) show ?thesis by (simp add: well_kept_def)
  qed (simp add: own)
qed

lemma published_named:
  assumes "published w' = published w" and "list_all (\<lambda>mw. om_ns mw \<noteq> '''') (w_mws w)"
  shows "list_all (\<lambda>mw. om_ns mw \<noteq> '''') (w_mws w')"
  unfolding list_all_iff
proof
  fix mw
  assume "mw \<in> set (w_mws w')"
  then have "find_obj (obj_key mw) (w_mws w') \<noteq> None" by (simp add: find_obj_None)
  then have "published w (obj_key mw) \<noteq> None" by (simp add: assms(1) [symmetric] published_def)
  then have "find_obj (obj_key mw) (w_mws w) \<noteq> None" by (simp add: published_def)
  then obtain x where "x \<in> set (w_mws w)" "obj_key x = obj_key mw" by (auto simp: find_obj_None)
  then show "om_ns mw \<noteq> ''''" using assms(2) by (auto simp: list_all_iff obj_key_def)
qed

lemma history_keeps:
  assumes "history E C s0 es s" and "list_all (\<lambda>e. \<not> reconciled_in '''' e) es"
    and "\<And>n. n \<noteq> '''' \<Longrightarrow> well_kept n (fst s0)"
  shows "ns \<noteq> '''' \<Longrightarrow> well_kept ns (fst s)"
  using assms
proof (induction arbitrary: ns rule: history.induct)
  case (reconciles es s req fuel)
  then show ?case using Reconcile_keeps [of req ns "fst s" E fuel "snd s"] by simp
next
  case (set_reconciles es w f req)
  have "same_works w (snd (ReconcileSet C req w))" by (rule keepsD [OF ReconcileSet_works]) simp
  with set_reconciles show ?case by (simp add: well_kept_def)
next
  case (elsewhere es w f w' f')
  then show ?case using published_named [OF elsewhere.hyps(4)] by (simp add: well_kept_def)
qed (simp_all add: well_kept_def)

text \<open>
  C3: The order of reconciles of different clusters does not matter. On every hub that grew from an
  empty one through reconciles of either controller, requests of users and changes elsewhere, two reconciles of bindings of different
  clusters report the same in either order, each what it would report alone, and leave the same
  objects in every namespace; each runs with a fake server, random names and failing calls of its own.
\<close>

theorem clusters_commute:
  assumes "history E C (w0, f0) es (w, f)" and "w_mws w0 = []" and "w_cms w0 = []"
    and "list_all (\<lambda>e. \<not> reconciled_in '''' e) es"
    and "fst a \<noteq> fst b" and "fst a \<noteq> ''''" and "fst b \<noteq> ''''"
  shows "let (ra, wa) = serve E n a fa ga w; (rb, wab) = serve E n b fb gb wa;
             (rb', wb) = serve E n b fb gb w; (ra', wba) = serve E n a fa ga wb
         in ra = ra' \<and> rb = rb' \<and> same_content wab wba"
proof -
  have start: "well_kept m (fst (w0, f0))" if "m \<noteq> ''''" for m
    using that assms(2,3) by (simp add: well_kept_def only_def)
  have "well_kept (fst a) w" "well_kept (fst b) w"
    using history_keeps [OF assms(1,4) start] assms(6,7) by simp_all
  from served_in_any_order [OF assms(5) this, where E = E and n = n and f = fa and s = ga and g = fb and t = gb] show ?thesis
    by (simp add: Let_def case_prod_beta)
qed

section \<open>A cluster joins a set\<close>

text \<open>Enabling writes neither bindings nor profiles, and settling a binding writes bindings only.\<close>

lemma settle_keeps_works:
  assumes "settle D pb u err (w, f) = (Inr x, (w', f'))"
  shows "w_mws w' = w_mws w"
proof -
  have u: "keeps (\<lambda>v. w_mws v = w_mws w) (status_update y)" for y
    unfolding status_update_def
    by (intro keeping keeps_api_call) (auto simp: steady_def triple_def split: option.split)
  have "keeps (onfst (\<lambda>v. w_mws v = w_mws w)) (settle D pb u err)"
    unfolding settle_def setOpscenterFeaturesVersion_def refetch_def observedVersion_def
    by (intro keeping u) (simp_all add: steady_def)
  from keepsD [OF this, of "(w, f)"] assms show ?thesis by simp
qed

lemma act_enables:
  assumes "act E fuel pb pr (w, f) = (Inr (Some Result_zero), (w', f'))"
    and "\<not> needsUpgrade pb" and "shouldEnableFeatures pb pr"
  obtains s1 where "EnableFeatures E fuel pb (collect_features E pb pr) pr (w, f) = (Inr (Some ()), s1)"
    "w_mws w' = w_mws (fst s1)"
proof -
  obtain r s1 where e: "EnableFeatures E fuel pb (collect_features E pb pr) pr (w, f) = (r, s1)"
    by (cases "EnableFeatures E fuel pb (collect_features E pb pr) pr (w, f)")
  have fail: "settle D p u (Some x) s \<noteq> (Inr y, t)" for D p u x s y t
    by (cases s) (simp add: settle_def setOpscenterFeaturesVersion_def prog_simps onhub_run)
  from assms e have "r = Inr (Some ())"
    and "settle (fe_codec E) pb (zstr (om_annots pb UpgradeAnnotation)) None s1 = (Inr (Some Result_zero), (w', f'))"
    by (auto simp: act_def Let_def tryM_run ret_run fail split: sum.splits option.splits)
  with e settle_keeps_works show thesis by (cases s1) (fastforce intro: that)
qed

lemma brand_new_simps [simp]:
  "om_name (brand_new pr t c ci) = om_name c" "om_ns (brand_new pr t c ci) = om_name c"
  "bs_profile (pb_spec (brand_new pr t c ci)) = om_name pr" "bs_version (pb_spec (brand_new pr t c ci)) = ''''"
  "bs_features (pb_spec (brand_new pr t c ci)) = set_features_spec ci []"
  by (simp_all add: brand_new_def)

lemma brand_new_enables:
  "\<not> needsUpgrade (brand_new pr t c ci)" "shouldEnableFeatures (brand_new pr t c ci) pr"
  by (simp_all add: needsUpgrade_def shouldEnableFeatures_def) (simp add: brand_new_def)

lemma brand_new_features:
  assumes "map_of (pr_features pr) n = Some sp" and "fs_set sp = ''opscenter-core''"
  shows "n \<in> set (info_at (collect_features E (brand_new pr t c ci) pr) ''opscenter-core'')"
  using assms by (simp add: collect_features_at spec_of_def map_add_def set_features_spec_def map_of_put_fspec)

lemma add_features_keys:
  "distinct (map fst (fst st)) \<Longrightarrow> distinct (map fst (fst (addFeatures fs st)))"
  by (induction fs st rule: addFeatures.induct) (auto simp: info_append_keys)

lemma collect_features_keys: "distinct (map fst (collect_features E pb pr))"
  by (simp add: collect_features_def add_features_keys)

lemma find_in_ns_head:
  assumes "in_ns n bs = [x]" and "om_name x = n" and "om_ns x = n"
  shows "find_obj (n, n) bs = Some x"
proof -
  have "find_obj (n, n) (in_ns n bs) = Some x" by (simp add: assms obj_key_def)
  then show ?thesis by (simp only: find_in_ns)
qed

text \<open>
  C6: A cluster that joins the set of a profile gets the profile. If it has no binding yet,
  then after one fault-free reconcile of the set profile and one successful reconcile of the
  binding this created, the opscenter-core ManifestWork in the cluster's namespace ships a
  HelmRelease of every core feature of the profile but flux2 and the license proxy, if the
  fake server the reconcile started can hand it out (its release is not there before the sets
  are applied; nor does applying a chart remove that of opscenter-features); and nothing was
  written for the other clusters.
\<close>

theorem joining_cluster_gets_profile:
  assumes "no_faults w" and "keys_distinct (w_bindings w)"
    and "find_obj ('''', p) (w_profiles w) = Some pr" and "find_obj ('''', p) (w_sets w) = Some s"
    and "BuildClusterSelector C s = Inr sel" and "described C sel w"
    and "distinct (map (om_name \<circ> fst) (members C sel w))"
    and "(c, ci) \<in> set (members C sel w)" and "in_ns (om_name c) (w_bindings w) = []"
    and "validateFeatureList pr = Inr ()" and "checkpointed_server E"
    and "Reconcile E fuel (om_name c, om_name c) (snd (ReconcileSet C ('''', p) w), f) = (Inr (Some Result_zero), (w', f'))"
    and "map_of (pr_features pr) n = Some sp" and "fs_set sp = ''opscenter-core''"
    and "prepare_features E (brand_new pr (w_now w) c ci) pr (snd (ReconcileSet C ('''', p) w), f) = (Inr ov, (w1, f1))"
    and "to_be_shipped E f1 n"
  shows "(\<exists>x. find_obj (om_name c, ''opscenter-core'') (w_mws w') = Some x \<and> ships x (fe_boot_ns E) n) \<and>
    (\<forall>k. fst k \<noteq> om_name c \<longrightarrow> find_obj k (w_mws w') = find_obj k (w_mws w))"
proof -
  have p: "om_name pr = p" using find_obj_key [OF assms(3)] by (simp add: obj_key_def)
  let ?w = "w\<lparr>w_bindings := rebind_all pr (w_now w) (members C sel w) (w_bindings w)\<rparr>"
  let ?b = "brand_new pr (w_now w) c ci" and ?k = "(om_name c, om_name c)"
  have set_run: "ReconcileSet C ('''', p) w = (Inr Result_zero, ?w)"
    using assms(4) by (intro ReconcileSet_run [OF assms(1-3) _ assms(5,6)]) (simp add: p)
  have "List.find (\<lambda>x. om_name (fst x) = om_name c) (members C sel w) = Some (c, ci)"
    using find_key_distinct [OF assms(7,8)] by simp
  then have "in_ns (om_name c) (w_bindings ?w) = [?b]"
    using rebind_all_ns [OF assms(2,7), of "om_name c" pr "w_now w"] assms(9) by (simp add: rebound_spec)
  then have b: "find_obj ?k (w_bindings ?w) = Some ?b" by (rule find_in_ns_head) simp_all
  have nf: "no_faults ?w" using assms(1) by (simp add: no_faults_def)
  have "Reconcile E fuel ?k (?w, f) = act E fuel ?b pr (?w, f)"
    by (rule Reconcile_run [OF nf b _ assms(10)]) (simp add: p assms(3))
  with assms(12) have a: "act E fuel ?b pr (?w, f) = (Inr (Some Result_zero), (w', f'))" by (simp add: set_run)
  obtain s1 where e: "EnableFeatures E fuel ?b (collect_features E ?b pr) pr (?w, f) = (Inr (Some ()), s1)"
    and w': "w_mws w' = w_mws (fst s1)"
    using act_enables [OF a brand_new_enables] .
  have n: "n \<in> set (info_at (collect_features E ?b pr) ''opscenter-core'')"
    by (rule brand_new_features [OF assms(13,14)])
  have "prepare_features E ?b pr (?w, f) = (Inr ov, (w1, f1))" using assms(15) by (simp add: set_run)
  from EnableFeatures_core [OF e this assms(11) collect_features_keys n assms(16)] w'
  have "\<exists>x. find_obj (om_name c, ''opscenter-core'') (w_mws w') = Some x \<and> ships x (fe_boot_ns E) n" by simp
  moreover have "same_outside ?k ?w w'" using Reconcile_outside [of ?k ?w E fuel f] assms(12) by (simp add: set_run)
  then have "\<forall>k. fst k \<noteq> om_name c \<longrightarrow> find_obj k (w_mws w') = find_obj k (w_mws w)"
    by (simp add: same_outside_def del: split_paired_All)
  ultimately show ?thesis by blast
qed

section \<open>Witnesses\<close>

definition calm_world :: world where
  "calm_world = set_world\<lparr>w_bindings := [], w_mws := [], w_cms := []\<rparr>"

theorem wishes_survive_witness:
  "\<exists>s. history ex_env set_env (calm_world, ()) [SetReconciled ('''', ''p''), Asked (ex_binding ''v2''),
       SetReconciled ('''', ''p''), Reconciled (''c1'', ''c1'')] s \<and>
     (\<exists>pb. find_obj (''c1'', ''c1'') (w_bindings (fst s)) = Some pb \<and> answers (ex_binding ''v2'') pb)"
proof -
  let ?w1 = "snd (ReconcileSet set_env ('''', ''p'') calm_world)"
  let ?w2 = "?w1\<lparr>w_bindings := put_obj (ex_binding ''v2'') (w_bindings ?w1)\<rparr>"
  let ?w3 = "snd (ReconcileSet set_env ('''', ''p'') ?w2)"
  obtain w f where s: "snd (Reconcile ex_env 0 (''c1'', ''c1'') (?w3, ())) = (w, f)"
    by (cases "snd (Reconcile ex_env 0 (''c1'', ''c1'') (?w3, ()))")
  have "history ex_env set_env (calm_world, ()) (((([] @ [SetReconciled ('''', ''p'')]) @ [Asked (ex_binding ''v2'')]) @
      [SetReconciled ('''', ''p'')]) @ [Reconciled (''c1'', ''c1'')]) (snd (Reconcile ex_env 0 (''c1'', ''c1'') (?w3, ())))"
    by (intro history.reconciles history.set_reconciles history.asks history.begins)
  then have h: "history ex_env set_env (calm_world, ()) [SetReconciled ('''', ''p''), Asked (ex_binding ''v2''),
       SetReconciled ('''', ''p''), Reconciled (''c1'', ''c1'')] (w, f)" by (simp add: s)
  have "obj_key (ex_binding ''v2'') = (''c1'', ''c1'')" by (simp add: obj_key_def ex_binding_def)
  with wishes_survive [OF h, of "(''c1'', ''c1'')"] have
    "\<exists>pb. find_obj (''c1'', ''c1'') (w_bindings w) = Some pb \<and> answers (ex_binding ''v2'') pb"
    by (simp add: wishes_def calm_world_def)
  with h show ?thesis by auto
qed

theorem clusters_commute_witness:
  "\<exists>w. history ex_env set_env (calm_world, ()) [SetReconciled ('''', ''p'')] (w, ()) \<and>
     fst (serve ex_env 0 (''c2'', ''c2'') () ([''y''], []) (snd (serve ex_env 0 (''c1'', ''c1'') () ([''x''], [None, Some ErrNotFound]) w))) =
     fst (serve ex_env 0 (''c2'', ''c2'') () ([''y''], []) w)"
proof -
  let ?w = "snd (ReconcileSet set_env ('''', ''p'') calm_world)"
  have "history ex_env set_env (calm_world, ()) ([] @ [SetReconciled ('''', ''p'')]) (?w, ())"
    by (intro history.set_reconciles history.begins)
  then have h: "history ex_env set_env (calm_world, ()) [SetReconciled ('''', ''p'')] (?w, ())" by simp
  have e: "w_mws calm_world = []" "w_cms calm_world = []"
    by (simp_all add: calm_world_def set_world_def ex_world_def)
  from clusters_commute [OF h e, where a = "(''c1'', ''c1'')" and b = "(''c2'', ''c2'')" and n = 0 and fa = "()" and fb = "()"
      and ga = "([''x''], [None, Some ErrNotFound])" and gb = "([''y''], [])"] h
  show ?thesis by (auto simp: Let_def case_prod_beta)
qed

theorem quiet_cluster_unchanged_witness:
  "\<exists>s. history ex_env set_env (rec_world, ()) [Reconciled (''c2'', ''c2''), SetReconciled ('''', ''p'')] s \<and>
     published (fst s) (''c1'', ''opscenter-core'') = published rec_world (''c1'', ''opscenter-core'')"
proof -
  obtain w1 f1 where s: "snd (Reconcile ex_env 0 (''c2'', ''c2'') (rec_world, ())) = (w1, f1)"
    by (cases "snd (Reconcile ex_env 0 (''c2'', ''c2'') (rec_world, ()))")
  have "history ex_env set_env (rec_world, ()) ([] @ [Reconciled (''c2'', ''c2'')]) (snd (Reconcile ex_env 0 (''c2'', ''c2'') (rec_world, ())))"
    by (intro history.reconciles history.begins)
  then have "history ex_env set_env (rec_world, ()) [Reconciled (''c2'', ''c2'')] (w1, f1)" by (simp add: s)
  then have "history ex_env set_env (rec_world, ()) ([Reconciled (''c2'', ''c2'')] @ [SetReconciled ('''', ''p'')])
      (snd (ReconcileSet set_env ('''', ''p'') w1), f1)"
    by (rule history.set_reconciles)
  then have h: "history ex_env set_env (rec_world, ()) [Reconciled (''c2'', ''c2''), SetReconciled ('''', ''p'')]
      (snd (ReconcileSet set_env ('''', ''p'') w1), f1)" by simp
  from quiet_cluster_unchanged [OF h, of "''c1''" "(''c1'', ''opscenter-core'')"] h show ?thesis by auto
qed

text \<open>The set, the cluster and the profile of a first installation, before the binding exists.\<close>

definition join_env :: clusterenv where
  "join_env = \<lparr> ce_info = (\<lambda>s. Inr zero_clusterinfo), ce_selector = (\<lambda>l. Inr (\<lambda>_. True)) \<rparr>"

definition join_world :: world where
  "join_world = inst_world\<lparr>w_bindings := []\<rparr>"

lemma join_members: "members join_env (\<lambda>_. True) join_world = [(cat_cluster, zero_clusterinfo)]"
  by (simp add: members_def join_world_def inst_world_def cat_world_def GetClusterMetadata_def cat_cluster_def
      ClusterClaimClusterInfo_def join_env_def)

lemma join_world_ok:
  "no_faults join_world" "keys_distinct (w_bindings join_world)" "find_obj ('''', ''p1'') (w_profiles join_world) = Some inst_profile"
  "find_obj ('''', ''p1'') (w_sets join_world) = Some inst_set" "BuildClusterSelector join_env inst_set = Inr (\<lambda>_. True)"
  "described join_env (\<lambda>_. True) join_world" "distinct (map (om_name \<circ> fst) (members join_env (\<lambda>_. True) join_world))"
  "(cat_cluster, zero_clusterinfo) \<in> set (members join_env (\<lambda>_. True) join_world)"
  "in_ns (om_name cat_cluster) (w_bindings join_world) = []" "validateFeatureList inst_profile = Inr ()"
  unfolding join_members
  by (simp_all add: join_world_def inst_world_def cat_world_def no_faults_def keys_distinct_def inst_profile_def inst_set_def
      obj_key_def BuildClusterSelector_def join_env_def described_def GetClusterMetadata_def cat_cluster_def in_ns_def
      ClusterClaimClusterInfo_def validate_Inr)

lemma join_created: "brand_new inst_profile 0 cat_cluster zero_clusterinfo = inst_binding"
  by (simp add: brand_new_def inst_binding_def cat_cluster_def inst_profile_def set_features_spec_def
      zero_clusterinfo_def to_second_def)

lemma join_set_run: "ReconcileSet join_env ('''', ''p1'') join_world = (Inr Result_zero, inst_world)"
proof -
  have n: "om_name inst_profile = ''p1''" "w_now join_world = 0"
    by (simp_all add: inst_profile_def join_world_def inst_world_def cat_world_def)
  have "rebind_all inst_profile 0 [(cat_cluster, zero_clusterinfo)] (w_bindings join_world) = [inst_binding]"
    by (simp add: rebind_def rebound_spec join_created join_world_def in_ns_def put_obj_def)
  moreover have "join_world\<lparr>w_bindings := [inst_binding]\<rparr> = inst_world" by (simp add: join_world_def inst_world_def)
  ultimately show ?thesis
    using ReconcileSet_run [OF join_world_ok(1-3) _ join_world_ok(5,6)] join_world_ok(4)
    by (simp add: n join_members)
qed

lemma release_texts_version: "version_in (fe_codec inst_env) (map release_text hs) = Inr ''''"
  by (induction hs) (simp_all add: inst_env_def)

lemma join_run:
  obtains w' f' where "Reconcile inst_env 2 (''c1'', ''c1'') (inst_world, []) = (Inr (Some Result_zero), (w', f'))"
proof -
  obtain x f' hs where e: "EnableFeatures inst_env 2 inst_binding core_info inst_profile (inst_world, []) =
       (Inr (Some ()), (w_mws_update (put_obj x) inst_world, f'))"
    and k: "obj_key x = (''c1'', ''opscenter-core'')" and m: "mw_manifests x = map release_text hs"
    by (rule inst_run)
  let ?w = "w_mws_update (put_obj x) inst_world"
  have b: "find_obj (''c1'', ''c1'') (w_bindings inst_world) = Some inst_binding"
    by (simp add: inst_world_def inst_binding_def obj_key_def)
  have p: "find_obj ('''', bs_profile (pb_spec inst_binding)) (w_profiles inst_world) = Some inst_profile"
    by (simp add: inst_world_def inst_binding_def inst_profile_def obj_key_def)
  have i: "collect_features inst_env inst_binding inst_profile = core_info"
    by (simp add: collect_features_def inst_binding_def inst_profile_def core_info_def core_names_def zero_fspec_def)
  have n: "\<not> needsUpgrade inst_binding" "shouldEnableFeatures inst_binding inst_profile"
    "om_annots inst_binding = Map.empty" "om_name inst_binding \<noteq> ''''" "om_ns inst_binding = ''c1''"
    "obj_key inst_binding = (''c1'', ''c1'')"
    by (simp_all add: needsUpgrade_def shouldEnableFeatures_def inst_binding_def obj_key_def)
  have v: "shipped_version (fe_codec inst_env) ''c1'' ?w = Inr ''''"
    using k m by (simp add: shipped_version_def kube.look_put release_texts_version)
  have nf: "no_faults ?w" using inst_world_simps(1) by (simp only: no_faults_updates)
  have "find_obj (obj_key inst_binding) (w_bindings ?w) = Some inst_binding" using b n(6) by simp
  from settle_run [OF nf this n(4), of "fe_codec inst_env" "''''" "f'"] obtain w' where
    "settle (fe_codec inst_env) inst_binding '''' None (?w, f') = (Inr (Some Result_zero), (w', f'))"
    by (simp add: v n(5) upgraded_at_def)
  then have "act inst_env 2 inst_binding inst_profile (inst_world, []) = (Inr (Some Result_zero), (w', f'))"
    using e by (simp add: act_def Let_def i n tryM_run)
  then show thesis
    by (intro that) (simp add: Reconcile_run [OF inst_world_simps(1) b p join_world_ok(10)])
qed

theorem joining_cluster_gets_profile_witness:
  "\<exists>w' f'. Reconcile inst_env 2 (''c1'', ''c1'') (snd (ReconcileSet join_env ('''', ''p1'') join_world), []) =
       (Inr (Some Result_zero), (w', f')) \<and>
     (\<exists>x. find_obj (''c1'', ''opscenter-core'') (w_mws w') = Some x \<and> ships x ''kubeops'' ''kube-ui-server'')"
proof -
  have c: "om_name cat_cluster = ''c1''" by (simp add: cat_cluster_def)
  obtain w' f' where r: "Reconcile inst_env 2 (om_name cat_cluster, om_name cat_cluster)
      (snd (ReconcileSet join_env ('''', ''p1'') join_world), []) = (Inr (Some Result_zero), (w', f'))"
    using join_run by (auto simp: join_set_run c)
  have f: "map_of (pr_features inst_profile) ''kube-ui-server'' = Some (zero_fspec\<lparr>fs_set := ''opscenter-core''\<rparr>)"
    by (simp add: inst_profile_def)
  have s: "fs_set (zero_fspec\<lparr>fs_set := ''opscenter-core''\<rparr>) = ''opscenter-core''" by simp
  obtain ov where "prepare_features inst_env inst_binding inst_profile (inst_world, []) = (Inr ov, (inst_world, []))"
    by (rule inst_prepare)
  moreover have "w_now join_world = 0" by (simp add: join_world_def inst_world_def cat_world_def)
  ultimately have p: "prepare_features inst_env (brand_new inst_profile (w_now join_world) cat_cluster zero_clusterinfo)
      inst_profile (snd (ReconcileSet join_env ('''', ''p1'') join_world), []) = (Inr ov, (inst_world, []))"
    by (simp add: join_set_run join_created)
  have "to_be_shipped inst_env [] ''kube-ui-server''" by (simp add: inst_to_ship)
  from joining_cluster_gets_profile [OF join_world_ok inst_checkpointed r f s p this] r show ?thesis
    by (simp add: c)
qed

end
