(* ===== verification/Rollout.thy ===== *)
theory Rollout
  imports System
begin

text \<open>
  An upgrade from the reconcile that applies it to the one that closes it. The first writes the
  wanted version into the opscenter-core ManifestWork, whatever else it rewrites, and records
  what to wait for; once the agents report those releases ready, the next reconcile observes
  the wanted version, records it in the status, and leaves a binding that needs no upgrade.
\<close>

section \<open>The version a list of manifests carries\<close>

text \<open>Encoding a decoded HelmRelease with another spec keeps its name.\<close>

definition stable_id :: "hr_codec \<Rightarrow> bool" where
  "stable_id C \<longleftrightarrow>
     (\<forall>m hr s m' name ns. manifest_id m = Inr (HelmReleaseKind, name, ns) \<longrightarrow>
        hc_dec C m = Inr hr \<longrightarrow> hc_enc C (hr\<lparr>hr_spec := s\<rparr>) = Inr m' \<longrightarrow>
        (\<exists>kind' ns'. manifest_id m' = Inr (kind', name, ns')))"

lemma stable_idD:
  "stable_id C \<Longrightarrow> manifest_id m = Inr (HelmReleaseKind, name, ns) \<Longrightarrow>
     hc_dec C m = Inr hr \<Longrightarrow> hc_enc C (hr\<lparr>hr_spec := s\<rparr>) = Inr m' \<Longrightarrow> \<exists>kind' ns'. manifest_id m' = Inr (kind', name, ns')"
  unfolding stable_id_def by blast

definition is_core :: "raw \<Rightarrow> bool" where
  "is_core m \<longleftrightarrow> (case manifest_id m of Inl e \<Rightarrow> False | Inr (kind, name, ns) \<Rightarrow> name = ChartOpscenterFeatures)"

definition readable :: "raw \<Rightarrow> bool" where
  "readable m \<longleftrightarrow> (case manifest_id m of Inl e \<Rightarrow> False | Inr x \<Rightarrow> True)"

text \<open>What opscenter-core holds under the name opscenter-features is a HelmRelease.\<close>

definition core_release :: "raw \<Rightarrow> bool" where
  "core_release m \<longleftrightarrow>
     (case manifest_id m of Inl e \<Rightarrow> True | Inr (kind, name, ns) \<Rightarrow> name = ChartOpscenterFeatures \<longrightarrow> kind = HelmReleaseKind)"

definition core_released :: "string \<Rightarrow> world \<Rightarrow> bool" where
  "core_released ns w \<longleftrightarrow>
     (case find_obj (ns, ''opscenter-core'') (w_mws w) of
        None \<Rightarrow> True | Some mw \<Rightarrow> list_all core_release (mw_manifests mw))"

lemma version_in_Cons:
  "version_in C (m # ms) =
     (if \<not> readable m then Inr ''''
      else if is_core m then
        (case hc_dec C m of
           Inl e \<Rightarrow> Inr ''''
         | Inr hr \<Rightarrow> (case hs_chart (hr_spec hr) of
             None \<Rightarrow> Inl (GoPanic ''nil dereference'') | Some c \<Rightarrow> Inr (hc_version c)))
      else version_in C ms)"
  by (auto simp: readable_def is_core_def split: sum.split prod.split)

lemma core_manifest_Cons:
  "readable m \<Longrightarrow> core_manifest (m # ms) i = (if is_core m then Inr (Some (i, m)) else core_manifest ms (Suc i))"
  by (auto simp: readable_def is_core_def split: sum.splits prod.splits)

text \<open>A list that carries a version has a core manifest, and it is the one that is rewritten.\<close>

lemma version_found:
  "version_in C ms = Inr v \<Longrightarrow> v \<noteq> '''' \<Longrightarrow>
     \<exists>pre m post. ms = pre @ m # post \<and> core_manifest ms i = Inr (Some (i + length pre, m)) \<and> is_core m \<and> readable m \<and>
       list_all (\<lambda>p. readable p \<and> \<not> is_core p) pre"
proof (induction ms arbitrary: i)
  case (Cons m ms)
  then have r: "readable m" by (auto simp: version_in_Cons simp del: version_in.simps split: if_splits)
  show ?case
  proof (cases "is_core m")
    case True
    with r show ?thesis by (intro exI [of _ "[]"] exI [of _ m] exI [of _ ms]) (simp add: core_manifest_Cons del: core_manifest.simps)
  next
    case False
    with Cons.prems r have "version_in C ms = Inr v" by (simp add: version_in_Cons del: version_in.simps)
    from Cons.IH [OF this Cons.prems(2), of "Suc i"] obtain pre m' post where
      "ms = pre @ m' # post" "core_manifest ms (Suc i) = Inr (Some (Suc i + length pre, m'))" "is_core m'" "readable m'"
      "list_all (\<lambda>p. readable p \<and> \<not> is_core p) pre" by blast
    with False r show ?thesis
      by (intro exI [of _ "m # pre"] exI [of _ m'] exI [of _ post]) (simp add: core_manifest_Cons del: core_manifest.simps)
  qed
qed simp

lemma version_at:
  "list_all (\<lambda>p. readable p \<and> \<not> is_core p) pre \<Longrightarrow> is_core m \<Longrightarrow> readable m \<Longrightarrow> hc_dec C m = Inr hr \<Longrightarrow>
     hs_chart (hr_spec hr) = Some c \<Longrightarrow> version_in C (pre @ m # post) = Inr (hc_version c)"
  by (induction pre) (simp_all add: version_in_Cons del: version_in.simps)

text \<open>Rewriting the releases of a ManifestWork keeps what it says of the version.\<close>

definition same_id :: "raw \<Rightarrow> raw \<Rightarrow> bool" where
  "same_id m m' \<longleftrightarrow> m' = m \<or> readable m \<and> readable m' \<and> \<not> is_core m \<and> \<not> is_core m'"

lemma version_same_id: "list_all2 same_id ms ms' \<Longrightarrow> version_in C ms' = version_in C ms"
  by (induction rule: list_all2_induct)
    (auto simp: version_in_Cons same_id_def simp del: version_in.simps)

lemma upgrade_manifest_id:
  assumes "stable_id (fe_codec E)" and "upgrade_manifest E f pr pb cv m mw p = Inr (m', mw', p')"
  shows "same_id m m'"
proof (cases "m' = m")
  case False
  with assms(2) obtain name ns hr s where id: "manifest_id m = Inr (HelmReleaseKind, name, ns)" "name \<noteq> ChartOpscenterFeatures"
    and d: "hc_dec (fe_codec E) m = Inr hr" "hc_enc (fe_codec E) (hr\<lparr>hr_spec := s\<rparr>) = Inr m'"
    by (auto simp: upgrade_manifest_def bindE_Inr_iff replace_release_Inr split: if_splits prod.splits)
  from stable_idD [OF assms(1) id(1) d] id show ?thesis by (auto simp: same_id_def readable_def is_core_def)
qed (simp add: same_id_def)

lemma upgrade_manifests_id:
  "stable_id (fe_codec E) \<Longrightarrow> upgrade_manifests E f pr pb cv ms mw p = Inr (ms', mw', p') \<Longrightarrow> list_all2 same_id ms ms'"
proof (induction ms arbitrary: mw p ms')
  case (Cons m ms)
  from Cons.prems(2) obtain m1 mw1 p1 ms1 where
    m: "upgrade_manifest E f pr pb cv m mw p = Inr (m1, mw1, p1)"
    and ms: "upgrade_manifests E f pr pb cv ms mw1 p1 = Inr (ms1, mw', p')" and "ms' = m1 # ms1"
    by (auto simp: bindE_Inr_iff)
  with Cons.IH [OF Cons.prems(1) ms] upgrade_manifest_id [OF Cons.prems(1) m] show ?case by simp
qed simp

lemma rewrite_work_version:
  assumes "stable_id (fe_codec E)" and "rewrite_work E f pr pb mw p = Inr (mw', p')"
  shows "obj_key mw' = obj_key mw \<and> version_in (fe_codec E) (mw_manifests mw') = version_in (fe_codec E) (mw_manifests mw)"
proof -
  from assms(2) obtain cv ms mw1 where
    u: "upgrade_manifests E f pr pb cv (mw_manifests mw) mw p = Inr (ms, mw1, p')" and mw': "mw' = mw1\<lparr>mw_manifests := ms\<rparr>"
    by (auto simp: rewrite_work_def bindE_Inr_iff)
  with upgrade_manifests_ok [OF u] version_same_id [OF upgrade_manifests_id [OF assms(1) u]] show ?thesis
    by (simp add: pass_ok_def obj_key_def)
qed

text \<open>The core pass puts the wanted version where the old one was.\<close>

lemma rewrite_core_version:
  assumes "stable_id C" and "codec_ok C" and "version_in C (mw_manifests mw) = Inr v" and "v \<noteq> ''''"
    and "core_manifest (mw_manifests mw) 0 = Inr (Some im)" and "rewrite_core C pr pb mv mw im d = Inr (mw', p)"
    and "list_all core_release (mw_manifests mw)"
  shows "obj_key mw' = obj_key mw \<and> version_in C (mw_manifests mw') = Inr (bs_version (pb_spec pb))"
proof -
  from version_found [OF assms(3,4), of 0] assms(5) obtain pre m post where
    ms: "mw_manifests mw = pre @ m # post" and im: "im = (length pre, m)" and c: "is_core m" "readable m"
    and pre: "list_all (\<lambda>p. readable p \<and> \<not> is_core p) pre" by auto
  from assms(6) im obtain hr s m' mw1 where
    hr: "hc_dec C m = Inr hr" and s: "upgrade_core_spec pr pb mv (hr_spec hr) = Inr s"
    and r: "replace_release C m (hr\<lparr>hr_spec := s\<rparr>) mw (d, []) = Inr (m', mw1, p)"
    and mw': "mw' = mw1\<lparr>mw_manifests := (mw_manifests mw1)[length pre := m']\<rparr>"
    by (auto simp: rewrite_core_def bindE_Inr_iff)
  from r have e: "hc_enc C (hr\<lparr>hr_spec := s\<rparr>) = Inr m'"
    and mw1: "mw1 = ensureHelmReleaseFeedbackRules mw (om_ns hr) (om_name hr)" by (auto simp: replace_release_Inr)
  from c assms(7) obtain ns where "manifest_id m = Inr (HelmReleaseKind, ChartOpscenterFeatures, ns)"
    by (auto simp: is_core_def readable_def ms core_release_def split: sum.splits)
  from stable_idD [OF assms(1) this hr e] have c': "is_core m'" "readable m'" by (auto simp: is_core_def readable_def)
  from s obtain ch where "hs_chart s = Some ch" "hc_version ch = bs_version (pb_spec pb)"
    by (auto simp: upgrade_core_spec_def bindE_Inr_iff set_version_Inr)
  with version_at [OF pre c' codec_okD [OF assms(2) e]] ms show ?thesis
    by (simp add: mw' mw1 obj_key_def)
qed

section \<open>The ManifestWork on the hub\<close>

text \<open>The stored ManifestWork at a key carries a version.\<close>

definition carried :: "hr_codec \<Rightarrow> objkey \<Rightarrow> string \<Rightarrow> world \<Rightarrow> bool" where
  "carried C k v w \<longleftrightarrow> (\<exists>x. find_obj k (w_mws w) = Some x \<and> version_in C (mw_manifests x) = Inr v)"

lemma carried_shipped: "carried C (ns, ''opscenter-core'') v w \<Longrightarrow> shipped_version C ns w = Inr v"
  by (auto simp: carried_def shipped_version_def)

lemma carried_put:
  "carried C k v w \<Longrightarrow> w_mws w' = put_obj x (w_mws w) \<Longrightarrow>
     (obj_key x = k \<Longrightarrow> version_in C (mw_manifests x) = Inr v) \<Longrightarrow> carried C k v w'"
  by (auto simp: carried_def kube.look_put)

lemma upgrade_work_carried:
  assumes "stable_id (fe_codec E)" and "upgrade_work E f pr pb ct mw w = (Inr ct', w')" and "carried (fe_codec E) k v w"
    and "obj_key mw = k \<longrightarrow> version_in (fe_codec E) (mw_manifests mw) = Inr v"
  shows "carried (fe_codec E) k v w'"
proof (cases "is_managed mw")
  case True
  with assms(2) obtain mw' d ts c where
    r: "rewrite_work E f pr pb mw (cm_data (fst ct), snd ct) = Inr (mw', d, ts)"
    and s: "store_step mw' ((fst ct)\<lparr>cm_data := d\<rparr>) w = (Inr c, w')"
    by (auto simp: upgrade_work_def bindM_Inr_iff liftM_run ret_run)
  from s obtain x where "obj_key x = obj_key mw'" "mw_manifests x = mw_manifests mw'" "w_mws w' = put_obj x (w_mws w)"
    by (rule store_step_works)
  with rewrite_work_version [OF assms(1) r] assms(4) show ?thesis by (intro carried_put [OF assms(3)]) auto
qed (use assms in \<open>simp add: upgrade_work_def ret_run\<close>)

lemma upgrade_works_carried:
  assumes "stable_id (fe_codec E)"
    and "\<And>mw. mw \<in> set mws \<Longrightarrow> obj_key mw = k \<longrightarrow> version_in (fe_codec E) (mw_manifests mw) = Inr v"
  shows "foldM (upgrade_work E f pr pb) ct mws w = (Inr ct', w') \<Longrightarrow> carried (fe_codec E) k v w \<Longrightarrow> carried (fe_codec E) k v w'"
  using assms(2)
proof (induction mws arbitrary: ct w)
  case (Cons mw mws)
  from Cons.prems(1) obtain ct1 w1 where
    u: "upgrade_work E f pr pb ct mw w = (Inr ct1, w1)" and r: "foldM (upgrade_work E f pr pb) ct1 mws w1 = (Inr ct', w')"
    by (auto simp: bindM_Inr_iff)
  have "carried (fe_codec E) k v w1" by (rule upgrade_work_carried [OF assms(1) u Cons.prems(2)]) (simp add: Cons.prems(3))
  with Cons.IH [OF r] Cons.prems(3) show ?case by simp
qed (simp add: ret_run)

lemma new_run_keeps_works: "keeps (\<lambda>w. w_mws w = M) (createConfigMapInSpokeClusterNamespace C v ns)"
proof -
  have s: "steady (\<lambda>w. w_mws w = M)" by (simp add: steady_def)
  have d: "keeps (\<lambda>w. w_mws w = M) (api_delete cmaps k)" for k
    by (rule keeps_api_delete [OF s]) (simp add: cmaps_def)
  have "keeps (\<lambda>w. w_mws w = M) (delete_all cs)" for cs
    by (induction cs) (auto intro!: keeping d)
  moreover have "keeps (\<lambda>w. w_mws w = M) (api_create cmaps c)" for c
    by (rule keeps_api_create [OF s]) (simp add: cmaps_def)
  moreover have "keeps (\<lambda>w. w_mws w = M) rand_string"
    by (auto simp: triple_def rand_string_def split: list.split)
  ultimately show ?thesis
    unfolding createConfigMapInSpokeClusterNamespace_def deleteStaleUpgraderConfigMaps_def
    by (intro keeping s)
qed

lemma finish_apply_keeps_works: "keeps (\<lambda>w. w_mws w = M) (finish_apply pb ct)"
  unfolding finish_apply_def recordPendingUpgrade_def
  by (intro keeping keeps_cms_finish keeps_cms_patch cms_closed_intros)

lemma write_upgrade_ships:
  assumes "keys_distinct (w_mws w)" and "stable_id (fe_codec E)" and "codec_ok (fe_codec E)"
    and "shipped_version (fe_codec E) (om_ns pb) w = Inr v" and "v \<noteq> ''''"
    and "write_upgrade E f pr pb mv w = (Inr res, w')" and "core_released (om_ns pb) w"
  shows "carried (fe_codec E) (om_ns pb, ''opscenter-core'') (bs_version (pb_spec pb)) w'"
proof -
  let ?C = "fe_codec E" and ?k = "(om_ns pb, ''opscenter-core'')" and ?v = "bs_version (pb_spec pb)"
  from assms(6) obtain mw w0 c w1 ct w2 mws w3 ct' w4 where
    g: "api_get works ?k w = (Inr mw, w0)"
    and c: "createConfigMapInSpokeClusterNamespace ?C ?v (om_ns pb) w0 = (Inr c, w1)"
    and u: "upgrade_core ?C pr pb mv mw c w1 = (Inr ct, w2)"
    and l: "api_list works (\<lambda>mw. om_ns mw = om_ns pb) w2 = (Inr mws, w3)"
    and m: "foldM (upgrade_work E f pr pb) ct mws w3 = (Inr ct', w4)" and fin: "finish_apply pb ct' w4 = (Inr res, w')"
    by (auto simp: write_upgrade_def bindM_Inr_iff)
  have mw: "find_obj ?k (w_mws w) = Some mw" "w_mws w0 = w_mws w"
    by (cases rule: mwk.get_cases [of ?k w]; use g in \<open>auto simp: works_def\<close>)+
  have w1: "w_mws w1 = w_mws w" using keepsD [OF new_run_keeps_works, of w0 "w_mws w" ?C ?v "om_ns pb"] mw(2) c by simp
  have v: "version_in ?C (mw_manifests mw) = Inr v" using assms(4) mw(1) by (simp add: shipped_version_def)
  from version_found [OF v assms(5), of 0] obtain im where im: "core_manifest (mw_manifests mw) 0 = Inr (Some im)" by auto
  with u obtain mw' d ts c' where r: "rewrite_core ?C pr pb mv mw im (cm_data c) = Inr (mw', d, ts)"
    and st: "store_step mw' (c\<lparr>cm_data := d\<rparr>) w1 = (Inr c', w2)"
    by (auto simp: upgrade_core_def bindM_Inr_iff liftM_run ret_run)
  note rw = rewrite_core_version [OF assms(2,3) v assms(5) im r]
  have "list_all core_release (mw_manifests mw)" using assms(7) mw(1) by (simp add: core_released_def)
  note rw = rw [OF this]
  from st obtain x where x: "obj_key x = obj_key mw'" "mw_manifests x = mw_manifests mw'" "w_mws w2 = put_obj x (w_mws w1)"
    by (rule store_step_works)
  have kd: "keys_distinct (w_mws w2)" using x(3) w1 assms(1) by (simp add: kube.inv_put)
  have "obj_key mw = ?k" using find_obj_key [OF mw(1)] by simp
  then have "carried ?C ?k ?v w2" using x rw by (auto simp: carried_def kube.look_put)
  moreover from l have mws: "mws = filter (\<lambda>mw. om_ns mw = om_ns pb) (w_mws w2)" "w_mws w3 = w_mws w2"
    by (cases rule: mwk.list_cases [of "\<lambda>mw. om_ns mw = om_ns pb" w2]; auto simp: works_def)+
  ultimately have c3: "carried ?C ?k ?v w3" by (simp add: carried_def)
  have "obj_key y = ?k \<longrightarrow> version_in ?C (mw_manifests y) = Inr ?v" if "y \<in> set mws" for y
    using that mws(1) find_obj_distinct [OF kd, of y] \<open>carried ?C ?k ?v w2\<close> by (auto simp: carried_def)
  from upgrade_works_carried [OF assms(2) this m c3] have "carried ?C ?k ?v w4" .
  moreover have "w_mws w' = w_mws w4" using keepsD [OF finish_apply_keeps_works, of w4 "w_mws w4" pb ct'] fin by simp
  ultimately show ?thesis by (simp add: carried_def)
qed

section \<open>From the first reconcile to the last\<close>

text \<open>What the ConfigMaps of a hub record for a binding.\<close>

definition recorded_targets :: "binding \<Rightarrow> world \<Rightarrow> upgrade_target list" where
  "recorded_targets pb w =
     (case first_run pb (filter (is_upgrader (om_ns pb)) (w_cms w)) of Inr (Some (c, ts)) \<Rightarrow> ts | _ \<Rightarrow> [])"

lemma find_run:
  "no_faults w \<Longrightarrow> findPendingUpgrade pb w = (first_run pb (filter (is_upgrader (om_ns pb)) (w_cms w)), w)"
  by (simp add: findPendingUpgrade_def prog_simps cmaps_def split: sum.split)

lemma applied_run:
  assumes "no_faults w" and "keys_distinct (w_cms w)" and "codec_ok (fe_codec E)" and "hub_free (fe_codec E) (om_ns pb) w"
    and "applyUpgrade E pb pr (w, f) = (Inr res, (w', f'))" and "\<not> IsZero res"
  obtains c ts where "first_run pb (filter (is_upgrader (om_ns pb)) (w_cms w')) = Inr (Some (c, ts))"
    "keys_distinct (w_cms w')" "ts \<noteq> []"
proof -
  from assms(5) obtain mv w1 f1 where
    p: "prepare_upgrade E pb (w, f) = (Inr mv, (w1, f1))"
    and wr: "write_upgrade E f1 pr pb mv w1 = (Inr res, w')"
    by (auto simp: applyUpgrade_def bindM_Inr_iff asks_run onhub_run) (metis prod.collapse)
  from p assms(1) have "w1 = w" by (blast elim: prepare_hub)
  with write_upgrade_run [OF assms(1-4)] wr obtain c ts w2 where
    run: "running pb c w2" and fin: "finish_apply pb (c, ts) w2 = (Inr res, w')" by metis
  have "keeps (\<lambda>v. keys_distinct (w_cms v)) (finish_apply pb (c, ts))"
    unfolding finish_apply_def recordPendingUpgrade_def
    by (intro keeping keeps_cms_finish keeps_cms_patch cms_closed_intros)
  from keepsD [OF this, of w2] run fin have kd: "keys_distinct (w_cms w')" by (simp add: running_def)
  have b: "blind no_faults" by (simp add: blind_def blind_works_def no_faults_def)
  have "keeps no_faults (finish_apply pb (c, ts))"
    unfolding finish_apply_def by (intro frame blind_worksI b)
  from keepsD [OF this, of w2] run fin have nf: "no_faults w'" by (simp add: running_def)
  from finish_apply_find [OF run fin] assms(6) obtain c' where
    "ts \<noteq> []" "findPendingUpgrade pb w' = (Inr (Some (c', ts)), w')" by (auto split: if_splits)
  with find_run [OF nf] kd show thesis by (intro that [of c' ts]) auto
qed

text \<open>A reconcile of a binding to upgrade that asks to come back has just applied the upgrade.\<close>

lemma Reconcile_applies:
  assumes "no_faults w" and "find_obj req (w_bindings w) = Some pb"
    and "find_obj ('''', bs_profile (pb_spec pb)) (w_profiles w) = Some pr" and "validateFeatureList pr = Inr ()"
    and "needsUpgrade pb" and "findPendingUpgrade pb w = (Inr None, w)"
    and "Reconcile E n req (w, f) = (Inr (Some res), (w', f'))" and "\<not> IsZero res"
  shows "applyUpgrade E pb pr (w, f) = (Inr res, (w', f'))"
proof -
  have z: "settle C pb u e s = (r, s') \<Longrightarrow> r = Inr (Some res) \<Longrightarrow> IsZero res" for C u e s s' and r :: "gerr + ctrl_result option"
    by (auto simp: settle_def bindM_Inr_iff ret_run)
  have u: "UpgradeCluster E pb pr (w, f) = applyUpgrade E pb pr (w, f)"
    by (simp add: UpgradeCluster_def bindM_run onhub_run assms(6))
  from assms(7) have "act E n pb pr (w, f) = (Inr (Some res), (w', f'))"
    by (simp add: Reconcile_run [OF assms(1-4)])
  moreover obtain r s where a: "applyUpgrade E pb pr (w, f) = (r, s)" by (cases "applyUpgrade E pb pr (w, f)")
  ultimately show ?thesis using assms(5,8) u
    by (auto simp: act_def Let_def tryM_run ret_run split: sum.splits if_splits dest: z)
qed

lemma applied_ships:
  assumes "no_faults w" and "keys_distinct (w_mws w)" and "stable_id (fe_codec E)" and "codec_ok (fe_codec E)"
    and "shipped_version (fe_codec E) (om_ns pb) w = Inr v" and "v \<noteq> ''''"
    and "applyUpgrade E pb pr (w, f) = (Inr res, (w', f'))" and "core_released (om_ns pb) w"
  shows "shipped_version (fe_codec E) (om_ns pb) w' = Inr (bs_version (pb_spec pb))"
proof -
  from assms(7) obtain mv w1 f1 where
    p: "prepare_upgrade E pb (w, f) = (Inr mv, (w1, f1))"
    and wr: "write_upgrade E f1 pr pb mv w1 = (Inr res, w')"
    by (auto simp: applyUpgrade_def bindM_Inr_iff asks_run onhub_run) (metis prod.collapse)
  from p assms(1) have "w1 = w" by (blast elim: prepare_hub)
  with carried_shipped [OF write_upgrade_ships [OF assms(2-6) _ assms(8)]] wr show ?thesis by blast
qed

section \<open>A hub to look at\<close>

text \<open>One release, of opscenter-features, in two versions; and a codec of it.\<close>

definition roll_values :: jmap where
  "roll_values = (case GetOverrideValues (Some fmempty) (Some zero_clusterinfo) of
     Inr (Some m) \<Rightarrow> MergeMaps fmempty m | _ \<Rightarrow> fmempty)"

definition roll_release :: "string \<Rightarrow> helmrelease" where
  "roll_release v =
     \<lparr> om_name = ''opscenter-features'', om_ns = ''kubeops'', om_labels = Map.empty, om_annots = Map.empty,
       om_owners = [], om_created = 0,
       hr_spec =
         \<lparr> hs_chart = Some \<lparr> hc_chart = ''opscenter-features'', hc_version = v, hc_source = no_source, hc_rest = JNull \<rparr>,
           hs_values_from = FeatureValuesFrom ChartOpscenterFeatures ex_profile (Some ex_upbinding),
           hs_values = Some (Text (JObj roll_values)), hs_target_ns = ''kubeops'',
           hs_storage_ns = ''kubeops'', hs_install = None, hs_depends = [], hs_rest = JNull \<rparr> \<rparr>"

definition roll_manifest :: "string \<Rightarrow> raw" where
  "roll_manifest v =
     Text (JObj (fmap_of_list
       [(''kind'', JStr HelmReleaseKind),
        (''metadata'', JObj (fmap_of_list [(''name'', JStr ''opscenter-features''), (''namespace'', JStr ''kubeops'')])),
        (''spec'', JObj (fmap_of_list [(''version'', JStr v)]))]))"

definition roll_codec :: hr_codec where
  "roll_codec =
     ver_codec\<lparr> hc_dec :=
         (\<lambda>m. bindE (manifest_object m) (\<lambda>obj.
            bindE (NestedString obj [''spec'', ''version'']) (\<lambda>v. case v of
              Some s \<Rightarrow> if m = roll_manifest s then Inr (roll_release s) else Inl (ErrText ''another manifest'')
            | None \<Rightarrow> Inl (ErrText ''no version'')))),
       hc_enc := (\<lambda>hr. if hr = roll_release (ex_version hr) then Inr (roll_manifest (ex_version hr))
                      else Inl (ErrText ''not encodable'')) \<rparr>"

lemma roll_codec_simps:
  "hc_dec roll_codec (roll_manifest v) = Inr (roll_release v)"
  "hc_enc roll_codec (roll_release v) = Inr (roll_manifest v)"
  "manifest_id (roll_manifest v) = Inr (HelmReleaseKind, ''opscenter-features'', ''kubeops'')"
  by (simp_all add: roll_codec_def roll_manifest_def manifest_object_def NestedString_def NestedFieldNoCopy_def
      fmlookup_of_list ex_version_def roll_release_def manifest_id_def GetKindNameNamespace_def)

lemma roll_dec: "hc_dec roll_codec m = Inr hr \<Longrightarrow> \<exists>v. m = roll_manifest v \<and> hr = roll_release v"
  by (auto simp: roll_codec_def bindE_Inr_iff split: option.splits if_splits)

lemma roll_enc: "hc_enc roll_codec hr = Inr m \<Longrightarrow> \<exists>v. m = roll_manifest v \<and> hr = roll_release v"
  by (auto simp: roll_codec_def split: if_splits)

lemma roll_codec_ok: "stable_id roll_codec" "codec_ok roll_codec"
  by (auto simp: stable_id_def codec_ok_def roll_codec_simps roll_release_def dest!: roll_dec roll_enc)

definition roll_env :: "unit fakeenv" where
  "roll_env = ex_env\<lparr>fe_codec := roll_codec\<rparr>"

definition roll_work :: manifestwork where
  "roll_work = (ex_work 4)\<lparr>om_labels := Map.empty, mw_manifests := [roll_manifest ''v1'']\<rparr>"

definition roll_hub :: world where
  "roll_hub = ex_hub\<lparr>w_mws := [roll_work]\<rparr>"

lemma roll_env_simps [simp]:
  "fe_codec roll_env = roll_codec" "fe_start roll_env b gs = Inr ()" "fe_http roll_env f = Inr ()" "fe_mapper roll_env f = Inr ()" "fe_client roll_env f = Inr ()" "fe_register roll_env cs = ret ()"
  "fe_chart roll_env f c = Inr \<lparr> chart_values = fmempty, chart_crds = [] \<rparr>" "fe_deploy roll_env opts = ret ()"
  "fe_raw_config roll_env f = Inr ()" "fe_helm_init roll_env f n sd = None"
  by (simp_all add: roll_env_def)

lemma roll_hub_ok:
  "no_faults roll_hub" "find_obj (''c1'', ''c1'') (w_bindings roll_hub) = Some ex_upbinding" "om_name ex_upbinding \<noteq> ''''"
  "find_obj ('''', bs_profile (pb_spec ex_upbinding)) (w_profiles roll_hub) = Some ex_profile"
  "validateFeatureList ex_profile = Inr ()" "needsUpgrade ex_upbinding"
  "findPendingUpgrade ex_upbinding roll_hub = (Inr None, roll_hub)"
  "keys_distinct (w_mws roll_hub)" "keys_distinct (w_cms roll_hub)" "hub_free roll_codec ns roll_hub"
proof -
  have "status_free roll_codec (roll_manifest ''v1'')"
    by (rule status_freeI [OF roll_codec_simps(1)]) (simp add: roll_release_def UpgradeStatusKey_def)
  then show "hub_free roll_codec ns roll_hub" by (simp add: hub_free_def roll_hub_def roll_work_def)
  show nf: "no_faults roll_hub" by (simp add: roll_hub_def ex_hub_def no_faults_def)
  show "findPendingUpgrade ex_upbinding roll_hub = (Inr None, roll_hub)"
    by (simp add: find_run [OF nf]) (simp add: roll_hub_def ex_hub_def)
qed (simp_all add: roll_hub_def ex_hub_def ex_upbinding_def ex_binding_def ex_profile_def obj_key_def validate_Inr
      needsUpgrade_def zero_status_def keys_distinct_def)

lemma roll_hub_version:
  "shipped_version (fe_codec roll_env) (om_ns ex_upbinding) roll_hub = Inr ''v1''"
proof -
  have "version_in roll_codec [roll_manifest ''v1''] = Inr ''v1''"
    by (simp add: roll_codec_simps) (simp add: roll_release_def)
  then show ?thesis
    by (simp add: shipped_version_def roll_hub_def roll_work_def ex_work_def obj_key_def ex_upbinding_def ex_binding_def
        del: version_in.simps)
qed

lemma roll_core: "core_released ns roll_hub"
proof -
  have "core_release (roll_manifest ''v1'')" by (simp add: core_release_def roll_codec_simps)
  then show ?thesis by (simp add: core_released_def roll_hub_def roll_work_def)
qed

lemma roll_prepare: "prepare_upgrade roll_env ex_upbinding (roll_hub, ()) = (Inr roll_values, (roll_hub, ()))"
proof -
  have g: "find_obj (addonNamespace, mwrsNameNamespace) (fst replicasets roll_hub) = Some (ex_replicaset mwrsNameNamespace)"
      "find_obj (addonNamespace, mwrsNameBootstrap) (fst replicasets roll_hub) = Some (ex_replicaset mwrsNameBootstrap)"
    by (simp_all add: roll_hub_def ex_hub_def replicasets_def ex_replicaset_def obj_key_def)
  have "binding_values ex_upbinding = Inr (Some fmempty)"
    by (simp add: binding_values_def ex_upbinding_def fspec_at_def)
  moreover obtain m where "GetOverrideValues (Some fmempty) (Some zero_clusterinfo) = Inr (Some m)"
    by (simp add: GetOverrideValues_def zero_clusterinfo_def set_capi_def set_managers_def)
  moreover have "bs_cluster (pb_spec ex_upbinding) = zero_clusterinfo" by (simp add: ex_upbinding_def)
  ultimately show ?thesis
    by (simp add: prepare_upgrade_def StartFakeApiServerAndApplyBaseManifestWorkReplicaSets_def
        initializeFakeServer_def GetNewRuntimeClient_def bindM_run onhub_run onfake_run asks_run liftM_run getsM_run ret_run api_get_run
        roll_hub_ok(1) g roll_values_def
        applyManifestWorkReplicaSet_def ex_replicaset_def install_for_upgrade_def InstallOpscenterFeatures_def
        InstallChart_def DeployRelease_def GetClientGetter_def applyCRDs_def RegisterRequiredCRDs_def GetDefaultValues_def)
qed

lemma roll_create:
  obtains c w1 where "createConfigMapInSpokeClusterNamespace roll_codec ''v2'' ''c1'' roll_hub = (Inr c, w1)"
    "w_mws w1 = [roll_work]"
proof -
  have "mark_works roll_codec (initial_data ''v2'') [roll_work] = Inr (initial_data ''v2'')"
    by (simp add: roll_work_def is_managed_def)
  moreover have "find_obj (obj_key (new_config_map ''xyz'' ''v2'' ''c1'' (initial_data ''v2''))) [] = None" by simp
  moreover have "filter (\<lambda>mw. om_ns mw = ''c1'') (w_mws roll_hub) = [roll_work]"
    by (simp add: roll_hub_def roll_work_def ex_work_def)
  moreover have "w_cms roll_hub = []" "w_rand roll_hub = [''xyz'']" by (simp_all add: roll_hub_def ex_hub_def)
  ultimately obtain c w1 where
    c: "createConfigMapInSpokeClusterNamespace roll_codec ''v2'' ''c1'' roll_hub = (Inr c, w1)"
    using roll_hub_ok(1) deleteStale_no_faults [OF roll_hub_ok(1,9), of "''c1''"]
    by (simp add: createConfigMapInSpokeClusterNamespace_def bindM_run api_list_run
        works_def liftM_run rand_string_def api_create_run cmaps_def del: mark_works.simps)
  from keepsD [OF new_run_keeps_works, of roll_hub "w_mws roll_hub" roll_codec "''v2''" "''c1''"] c
  have "w_mws w1 = w_mws roll_hub" by simp
  with c that show thesis by (simp add: roll_hub_def)
qed

lemma roll_rewrite:
  "\<exists>mw t. rewrite_core roll_codec ex_profile ex_upbinding roll_values roll_work (0, roll_manifest ''v1'') d =
     Inr (mw, d(''opscenter-features'' \<mapsto> ConditionFalse), [t]) \<and> obj_key mw = obj_key roll_work \<and>
     t = newUpgradeTarget roll_work (roll_release ''v2'') (pruneNulls (JObj (fmap_of_list [(''version'', JStr ''v1'')]))
       \<noteq> pruneNulls (JObj (fmap_of_list [(''version'', JStr ''v2'')])))"
proof -
  have s: "upgrade_core_spec ex_profile ex_upbinding roll_values (hr_spec (roll_release ''v1''))
      = Inr (hr_spec (roll_release ''v2''))"
    by (simp add: upgrade_core_spec_def set_version_def roll_release_def) (simp add: ex_upbinding_def)
  have v2: "(roll_release ''v1'')\<lparr>hr_spec := hr_spec (roll_release ''v2'')\<rparr> = roll_release ''v2''"
    by (simp add: roll_release_def)
  have sp: "hc_spec roll_codec (hr_spec (roll_release v)) = Inr (fmap_of_list [(''version'', JStr v)])" for v
    by (simp add: roll_codec_def ver_codec_def roll_release_def)
  have n: "om_name (roll_release v) = ''opscenter-features''" for v by (simp add: roll_release_def)
  show ?thesis
    by (simp add: rewrite_core_def roll_codec_simps s v2 replace_release_def specChanged_def sp n obj_key_def del: pruneNulls.simps)
qed

text \<open>Recording a run whose ConfigMap is stored goes well.\<close>

lemma finish_apply_waits:
  assumes "running pb c w" and "ts \<noteq> []"
  obtains w' where "finish_apply pb (c, ts) w = (Inr (Result_after helmReleaseReadyPollInterval), w')" "no_faults w'"
    "recorded_targets pb w' = ts"
proof -
  have at: "cm_at w (obj_key c) = Some c" "no_faults w" using assms(1) unfolding running_def by blast+
  let ?r = "record_annots ts (zstr (om_annots pb UpgradeAnnotation)) c"
  let ?w = "w_cms_update (put_obj (patch_config_map ?r c)) w"
  have "recordPendingUpgrade c ts (zstr (om_annots pb UpgradeAnnotation)) w = (Inr (patch_config_map ?r c), ?w)"
    using at unfolding recordPendingUpgrade_def patchConfigMapData_def
    by (subst CreateOrPatch_present [where cur = c]) (simp_all add: record_annots_simps cmaps_def)
  then have f: "finish_apply pb (c, ts) w = (Inr (Result_after helmReleaseReadyPollInterval), ?w)"
    using assms(2) by (simp add: finish_apply_def bindM_run ret_run)
  have nf: "no_faults ?w" using at(2) by (simp add: no_faults_def)
  from finish_apply_find [OF assms(1) f] assms(2) obtain c' where "findPendingUpgrade pb ?w = (Inr (Some (c', ts)), ?w)" by auto
  then have "recorded_targets pb ?w = ts" by (simp add: find_run [OF nf] recorded_targets_def)
  with f nf show thesis by (rule that)
qed

lemma store_step_present:
  assumes "running pb c w" and "d UpgradeStatusKey = Some UpgradeStatusPending" and "find_obj (obj_key mw) (w_mws w) = Some cur"
  obtains w' where "store_step mw (c\<lparr>cm_data := d\<rparr>) w = (Inr (c\<lparr>cm_data := d\<rparr>), w')"
    "running pb (c\<lparr>cm_data := d\<rparr>) w'" "w_mws w' = put_obj (with_spec mw cur) (w_mws w)"
proof -
  let ?c = "c\<lparr>cm_data := d\<rparr>" and ?w = "w_mws_update (put_obj (with_spec mw cur)) w"
  from assms(1,2) obtain w' where s: "store_step mw ?c w = (Inr ?c, w')" "running pb ?c w'" by (rule store_step_running)
  have "no_faults w" using assms(1) by (simp add: running_def)
  then have "CreateOrPatch works mw (with_spec mw) w = (Inr (with_spec mw cur), ?w)"
    using assms(3) find_obj_key [OF assms(3)]
    by (subst CreateOrPatch_present [where cur = cur]) (simp_all add: works_def with_spec_def obj_key_def)
  with s(1) have "CreateOrPatch cmaps ?c (with_data ?c) ?w = (Inr ?c, w')" by (simp add: store_step_def bindM_run)
  moreover have "keeps (\<lambda>v. w_mws v = w_mws ?w) (CreateOrPatch cmaps ?c (with_data ?c))"
    by (rule keeps_CreateOrPatch) (simp_all add: steady_def cmaps_def)
  ultimately have "w_mws w' = put_obj (with_spec mw cur) (w_mws w)"
    using keepsD [of "\<lambda>v. w_mws v = w_mws ?w" _ ?w] by fastforce
  with s show thesis by (rule that)
qed

lemma roll_write:
  obtains w1 t b where
    "write_upgrade roll_env () ex_profile ex_upbinding roll_values roll_hub = (Inr (Result_after helmReleaseReadyPollInterval), w1)"
    "recorded_targets ex_upbinding w1 = [t]" "t = newUpgradeTarget roll_work (roll_release ''v2'') b" "no_faults w1"
proof -
  have b: "bs_version (pb_spec ex_upbinding) = ''v2''" "om_ns ex_upbinding = ''c1''"
    by (simp_all add: ex_upbinding_def ex_binding_def)
  have k: "obj_key roll_work = (''c1'', ''opscenter-core'')" by (simp add: roll_work_def ex_work_def obj_key_def)
  obtain c w1 where c: "createConfigMapInSpokeClusterNamespace roll_codec ''v2'' ''c1'' roll_hub = (Inr c, w1)"
    and mws: "w_mws w1 = [roll_work]" by (rule roll_create)
  have r: "running ex_upbinding c w1"
    by (rule createConfigMap_running [OF roll_hub_ok(1,9,10)]) (simp add: b c)
  let ?d = "(cm_data c)(''opscenter-features'' \<mapsto> ConditionFalse)"
  let ?c = "c\<lparr>cm_data := ?d\<rparr>"
  obtain mw t d where rw: "rewrite_core roll_codec ex_profile ex_upbinding roll_values roll_work
      (0, roll_manifest ''v1'') (cm_data c) = Inr (mw, ?d, [t])" and mw: "obj_key mw = obj_key roll_work"
    and t: "t = newUpgradeTarget roll_work (roll_release ''v2'') d"
    using roll_rewrite [of "cm_data c"] by blast
  have d: "?d UpgradeStatusKey = Some UpgradeStatusPending" using r by (simp add: running_def UpgradeStatusKey_def)
  have "find_obj (obj_key mw) (w_mws w1) = Some roll_work" by (simp add: mws mw)
  from r d this obtain w2 where s: "store_step mw ?c w1 = (Inr ?c, w2)"
    and r2: "running ex_upbinding ?c w2" and x: "w_mws w2 = put_obj (with_spec mw roll_work) (w_mws w1)"
    by (rule store_step_present)
  have x: "w_mws w2 = [with_spec mw roll_work]" by (simp add: x mws put_obj_def with_spec_def obj_key_def)
  have "[t] \<noteq> []" by simp
  with r2 obtain w' where fin: "finish_apply ex_upbinding (?c, [t]) w2 = (Inr (Result_after helmReleaseReadyPollInterval), w')"
    "no_faults w'" "recorded_targets ex_upbinding w' = [t]" by (rule finish_apply_waits)
  have nm: "\<not> is_managed (with_spec mw roll_work)" by (simp add: with_spec_def is_managed_def roll_work_def)
  have ls: "filter (\<lambda>mw. om_ns mw = ''c1'') (w_mws w2) = [with_spec mw roll_work]"
    using k by (simp add: x with_spec_def obj_key_def)
  have nf2: "no_faults w2" using r2 by (simp add: running_def)
  have get: "find_obj (''c1'', ''opscenter-core'') (w_mws roll_hub) = Some roll_work"
    using k by (simp add: roll_hub_def)
  have core: "core_manifest (mw_manifests roll_work) 0 = Inr (Some (0, roll_manifest ''v1''))"
    by (simp add: roll_work_def roll_codec_simps)
  have "write_upgrade roll_env () ex_profile ex_upbinding roll_values roll_hub = finish_apply ex_upbinding (?c, [t]) w2"
    using c s rw nm
    by (simp add: write_upgrade_def bindM_run api_get_run roll_hub_ok(1) b get upgrade_core_def core liftM_run
        ret_run api_list_run nf2 works_def ls upgrade_work_def)
  with fin t show thesis by (intro that) simp_all
qed

text \<open>The agents report every release ready at the generation the upgrade asked for.\<close>

definition reported :: "world \<Rightarrow> world" where
  "reported w = w_mws_update (map (\<lambda>mw. mw\<lparr>mw_status := mw_status (ex_work 5)\<rparr>)) w"

lemma find_reported:
  "find_obj k (w_mws (reported w)) = map_option (\<lambda>mw. mw\<lparr>mw_status := mw_status (ex_work 5)\<rparr>) (find_obj k (w_mws w))"
proof -
  have "find_obj k (map (\<lambda>mw. mw\<lparr>mw_status := s\<rparr>) ms) = map_option (\<lambda>mw. mw\<lparr>mw_status := s\<rparr>) (find_obj k ms)" for s ms
    by (induction ms) (simp_all add: find_obj_def obj_key_def)
  then show ?thesis by (simp add: reported_def)
qed

lemma reported_simps:
  "w_bindings (reported w) = w_bindings w" "w_profiles (reported w) = w_profiles w" "w_cms (reported w) = w_cms w"
  "no_faults (reported w) = no_faults w" "published (reported w) = published w"
  by (simp_all add: fun_eq_iff published_def find_reported option.map_comp comp_def)
    (simp_all add: reported_def no_faults_def)

lemma roll_reconcile:
  obtains w1 where "Reconcile roll_env 0 (''c1'', ''c1'') (roll_hub, ()) =
      (Inr (Some (Result_after helmReleaseReadyPollInterval)), (w1, ()))"
    "no_faults (reported w1)" "still_pending (reported w1) (recorded_targets ex_upbinding (reported w1)) = []"
    "find_obj (''c1'', ''c1'') (w_bindings (reported w1)) = Some ex_upbinding"
    "find_obj ('''', bs_profile (pb_spec ex_upbinding)) (w_profiles (reported w1)) = Some ex_profile"
proof -
  obtain w1 t b where wr: "write_upgrade roll_env () ex_profile ex_upbinding roll_values roll_hub =
      (Inr (Result_after helmReleaseReadyPollInterval), w1)"
    and ts: "recorded_targets ex_upbinding w1 = [t]" and t: "t = newUpgradeTarget roll_work (roll_release ''v2'') b"
    and nf: "no_faults w1" by (rule roll_write)
  have "UpgradeCluster roll_env ex_upbinding ex_profile (roll_hub, ()) = (Inr (Result_after helmReleaseReadyPollInterval), (w1, ()))"
    using roll_prepare wr
    by (simp add: UpgradeCluster_def applyUpgrade_def bindM_run asks_run onhub_run roll_hub_ok(7))
  then have r: "Reconcile roll_env 0 (''c1'', ''c1'') (roll_hub, ()) =
      (Inr (Some (Result_after helmReleaseReadyPollInterval)), (w1, ()))"
    using roll_hub_ok(6) by (simp add: Reconcile_run [OF roll_hub_ok(1,2,4,5)] act_def Let_def tryM_run ret_run)
  have c: "carried roll_codec (''c1'', ''opscenter-core'') ''v2'' w1"
    using write_upgrade_ships [OF roll_hub_ok(8) _ _ roll_hub_version _ wr roll_core] roll_codec_ok
    by (simp add: ex_upbinding_def ex_binding_def)
  have k: "work_key t = (''c1'', ''opscenter-core'')" "ut_hr_ns t = ''kubeops''" "ut_hr_name t = ''opscenter-features''"
    "ut_min_gen t \<in> {4, 5}"
    by (simp_all add: t work_key_def)
      (simp_all add: roll_work_def ex_work_def roll_release_def helmReleaseGeneration_def helmReleaseFeedback_def constants)
  then have "target_ready (reported w1) t" using c
    by (auto simp: target_ready_def find_reported carried_def helmReleaseReady_def helmReleaseFeedback_def ex_work_def constants)
  moreover have "recorded_targets ex_upbinding (reported w1) = [t]"
    using ts by (simp add: recorded_targets_def reported_simps)
  ultimately have "still_pending (reported w1) (recorded_targets ex_upbinding (reported w1)) = []"
    unfolding still_pending_def by simp
  moreover have "w_bindings w1 = w_bindings roll_hub"
    using tripleD_Inr [OF Reconcile_writes [of "w_bindings roll_hub" roll_env 0 "(''c1'', ''c1'')"] _ r]
    by (simp add: settled_only_def Result_after_def Result_zero_def helmReleaseReadyPollInterval_def)
  moreover have "w_profiles w1 = w_profiles roll_hub"
    using Reconcile_outside [of "(''c1'', ''c1'')" roll_hub roll_env 0 "()"] r by (simp add: same_outside_def)
  ultimately show thesis using r nf roll_hub_ok(2,4) by (intro that [of w1]) (simp_all add: reported_simps)
qed

section \<open>Theorem\<close>

text \<open>What the rest of the world leaves of an upgrade that is under way.\<close>

lemma quiet_upgrade:
  assumes "history E C (w1, f1) es (w2, f2)" and "list_all (\<lambda>e. \<not> reconciled_in ns e) es" and "om_ns pb = ns"
  shows "filter (is_upgrader ns) (w_cms w2) = filter (is_upgrader ns) (w_cms w1)"
    "fst k = ns \<Longrightarrow> cm_at w2 k = cm_at w1 k" "shipped_version D ns w2 = shipped_version D ns w1"
    "recorded_targets pb w2 = recorded_targets pb w1"
proof -
  note q = quiet_history [OF assms(1,2)]
  have u: "filter (is_upgrader ns) xs = filter (is_upgrader ns) (only ns xs)" for xs
    by (simp add: only_def) (rule filter_cong, auto simp: is_upgrader_def)
  show l: "filter (is_upgrader ns) (w_cms w2) = filter (is_upgrader ns) (w_cms w1)"
    using q u by (metis fst_conv)
  show "fst k = ns \<Longrightarrow> cm_at w2 k = cm_at w1 k" using q by (simp add: same_in_def del: split_paired_All)
  have "published w2 (ns, ''opscenter-core'') = published w1 (ns, ''opscenter-core'')"
    using q by (simp add: same_in_def)
  then show "shipped_version D ns w2 = shipped_version D ns w1"
    by (auto simp: shipped_version_def published_def split: option.splits)
  show "recorded_targets pb w2 = recorded_targets pb w1" by (simp add: recorded_targets_def assms(3) l)
qed

text \<open>
  C4: An upgrade goes through. A reconcile of a binding that is to be upgraded, with no run
  under way, that asks to come back has shipped the wanted version: opscenter-core carries it
  on the hub. Let anything happen then to the other clusters, to profiles and cluster sets,
  and to what the agents report: once they report the releases it recorded ready, the next
  reconcile of the binding, if users want of it what they wanted before, succeeds with no
  requeue and leaves a binding that differs in its status only, records the wanted version
  and needs no upgrade, with opscenter-core as it was shipped. (opscenter-core carries some
  version at the start, and what it holds of that name is a HelmRelease; no call of these two
  reconciles fails; a release that is encoded decodes to itself and keeps its name; and no
  HelmRelease that the hub holds for the cluster is named after the ConfigMap's status key.)
\<close>

theorem upgrade_goes_through:
  assumes "no_faults w" and "find_obj req (w_bindings w) = Some pb" and "om_name pb \<noteq> ''''"
    and "find_obj ('''', bs_profile (pb_spec pb)) (w_profiles w) = Some pr" and "validateFeatureList pr = Inr ()"
    and "needsUpgrade pb" and "findPendingUpgrade pb w = (Inr None, w)"
    and "keys_distinct (w_mws w)" and "keys_distinct (w_cms w)"
    and "stable_id (fe_codec E)" and "codec_ok (fe_codec E)" and "hub_free (fe_codec E) (om_ns pb) w"
    and "shipped_version (fe_codec E) (om_ns pb) w = Inr v" and "v \<noteq> ''''" and "core_released (om_ns pb) w"
    and "zstr (om_annots pb UpgradeAnnotation) = '''' \<or>
         (\<exists>t. parse_rfc3339 (zstr (om_annots pb UpgradeAnnotation)) = Some t \<and> t mod second = 0)"
    and "Reconcile E n req (w, f) = (Inr (Some (Result_after helmReleaseReadyPollInterval)), (w1, f1))"
    and "history E C (w1, f1) es (w2, f2)" and "list_all (\<lambda>e. \<not> reconciled_in (om_ns pb) e) es"
    and "no_faults w2" and "find_obj req (w_bindings w2) = Some pb"
    and "find_obj ('''', bs_profile (pb_spec pb)) (w_profiles w2) = Some pr'" and "validateFeatureList pr' = Inr ()"
    and "still_pending w2 (recorded_targets pb w2) = []"
  shows "shipped_version (fe_codec E) (om_ns pb) w1 = Inr (bs_version (pb_spec pb)) \<and>
     (\<exists>w3 pb'. Reconcile E n' req (w2, f2) = (Inr (Some Result_zero), (w3, f2)) \<and>
        find_obj req (w_bindings w3) = Some pb' \<and> pb' = pb\<lparr>pb_status := pb_status pb'\<rparr> \<and> \<not> needsUpgrade pb' \<and>
        st_version (pb_status pb') = bs_version (pb_spec pb) \<and>
        shipped_version (fe_codec E) (om_ns pb) w3 = Inr (bs_version (pb_spec pb)))"
proof -
  let ?r = "Result_after helmReleaseReadyPollInterval"
  have nz: "\<not> IsZero ?r" by simp
  from Reconcile_applies [OF assms(1,2,4-7,17) nz] have a: "applyUpgrade E pb pr (w, f) = (Inr ?r, (w1, f1))" .
  obtain c ts where r: "first_run pb (filter (is_upgrader (om_ns pb)) (w_cms w1)) = Inr (Some (c, ts))"
    and kd: "keys_distinct (w_cms w1)" using assms(1,9,11,12) a nz by (rule applied_run)
  note q = quiet_upgrade [OF assms(18,19) refl]
  have find: "findPendingUpgrade pb w2 = (Inr (Some (c, ts)), w2)" by (simp add: find_run [OF assms(20)] q(1) r)
  have "c \<in> set (w_cms w1)" "fst (obj_key c) = om_ns pb"
    using first_run_found [OF r] by (simp_all add: is_upgrader_def obj_key_def)
  then have at: "cm_at w2 (obj_key c) = Some c" using q(2) find_obj_distinct [OF kd, of c] by simp
  have sp: "still_pending w2 ts = []" using assms(24) r unfolding q(4) by (simp add: recorded_targets_def)
  have sv1: "shipped_version (fe_codec E) (om_ns pb) w1 = Inr (bs_version (pb_spec pb))"
    by (rule applied_ships [OF assms(1,8,10,11,13,14) a assms(15)])
  then have sv: "shipped_version (fe_codec E) (om_ns pb) w2 = Inr (bs_version (pb_spec pb))" by (simp add: q(3))
  obtain w3 pb' where "Reconcile E n' req (w2, f2) = (Inr (Some Result_zero), (w3, f2))"
    "find_obj req (w_bindings w3) = Some pb'" "pb' = pb\<lparr>pb_status := pb_status pb'\<rparr>" "\<not> needsUpgrade pb'"
    "st_version (pb_status pb') = bs_version (pb_spec pb)" "w_mws w3 = w_mws w2"
    by (rule Reconcile_observes [OF assms(20,21,3,22,23,6) find at sp sv assms(16), where n = n' and f = f2])
  moreover from this(6) sv have "shipped_version (fe_codec E) (om_ns pb) w3 = Inr (bs_version (pb_spec pb))"
    by (simp add: shipped_version_def)
  ultimately show ?thesis using sv1 by blast
qed

theorem upgrade_goes_through_witness:
  "\<exists>w1 w3 pb'. Reconcile roll_env 0 (''c1'', ''c1'') (roll_hub, ()) =
       (Inr (Some (Result_after helmReleaseReadyPollInterval)), (w1, ())) \<and>
     Reconcile roll_env 0 (''c1'', ''c1'') (reported w1, ()) = (Inr (Some Result_zero), (w3, ())) \<and>
     find_obj (''c1'', ''c1'') (w_bindings w3) = Some pb' \<and> \<not> needsUpgrade pb' \<and>
     st_version (pb_status pb') = ''v2'' \<and> shipped_version roll_codec ''c1'' w1 = Inr ''v2''"
proof -
  obtain w1 where r: "Reconcile roll_env 0 (''c1'', ''c1'') (roll_hub, ()) =
      (Inr (Some (Result_after helmReleaseReadyPollInterval)), (w1, ()))"
    and w1: "no_faults (reported w1)" "still_pending (reported w1) (recorded_targets ex_upbinding (reported w1)) = []"
    and b: "find_obj (''c1'', ''c1'') (w_bindings (reported w1)) = Some ex_upbinding"
      "find_obj ('''', bs_profile (pb_spec ex_upbinding)) (w_profiles (reported w1)) = Some ex_profile"
    by (rule roll_reconcile)
  have h: "history roll_env C (w1, ()) [Elsewhere] (reported w1, ())" for C
    using elsewhere [OF begins, where w' = "reported w1" and f' = "()"] by (simp add: reported_simps)
  have u: "zstr (om_annots ex_upbinding UpgradeAnnotation) = ''''" by (simp add: ex_upbinding_def ex_binding_def)
  have c: "stable_id (fe_codec roll_env)" "codec_ok (fe_codec roll_env)"
      "hub_free (fe_codec roll_env) (om_ns ex_upbinding) roll_hub"
    by (simp_all add: roll_codec_ok roll_hub_ok)
  have v: "bs_version (pb_spec ex_upbinding) = ''v2''" "om_ns ex_upbinding = ''c1''"
    by (simp_all add: ex_upbinding_def ex_binding_def)
  have e: "list_all (\<lambda>e. \<not> reconciled_in (om_ns ex_upbinding) e) [Elsewhere]" by simp
  have "''v1'' \<noteq> ''''" by simp
  from upgrade_goes_through [OF roll_hub_ok(1-9) c roll_hub_version this roll_core disjI1 [OF u] r h e w1(1) b roll_hub_ok(5) w1(2), where n' = 0] r
  show ?thesis by (auto simp: v)
qed

end
