(* ===== verification/SingleRun.thy ===== *)
theory SingleRun
  imports System
begin

text \<open>
  At most one upgrade of a cluster is recorded at any time. A reconcile deletes the upgrader
  ConfigMaps of the namespace before it creates one, and from then on patches that one only,
  so it keeps this invariant whichever calls fail and wherever it stops. What it needs of the
  API server is that \<open>not found\<close> is never the answer for an object that is there: the code
  takes it for the end of a deletion.
\<close>

section \<open>The invariant\<close>

text \<open>The upgrader ConfigMaps of a namespace are at most the one at a key, and it is there.\<close>

definition sole :: "string \<Rightarrow> objkey \<Rightarrow> world \<Rightarrow> bool" where
  "sole ns k w \<longleftrightarrow>
     keys_distinct (w_cms w) \<and> find_obj k (w_cms w) \<noteq> None \<and>
     (\<forall>x \<in> set (w_cms w). is_upgrader ns x \<longrightarrow> obj_key x = k)"

definition single_run :: "string \<Rightarrow> world \<Rightarrow> bool" where
  "single_run ns w \<longleftrightarrow> keys_distinct (w_cms w) \<and> length (filter (is_upgrader ns) (w_cms w)) \<le> 1"

definition honest :: "world \<Rightarrow> bool" where
  "honest w \<longleftrightarrow> list_all (\<lambda>f. case f of None \<Rightarrow> True | Some e \<Rightarrow> \<not> is_not_found e) (w_faults w)"

lemma filter_sole: "keys_distinct xs \<Longrightarrow> \<forall>x \<in> set xs. P x \<longrightarrow> obj_key x = k \<Longrightarrow> length (filter P xs) \<le> 1"
proof (induction xs)
  case (Cons x xs)
  show ?case
  proof (cases "P x")
    case True
    with Cons.prems have "filter P xs = []"
      by (auto simp: keys_distinct_def filter_empty_conv) (metis image_eqI)
    with True show ?thesis by simp
  qed (use Cons in \<open>simp add: keys_distinct_def\<close>)
qed simp

lemma sole_single: "sole ns k w \<Longrightarrow> single_run ns w"
  unfolding sole_def single_run_def using filter_sole [of "w_cms w" "is_upgrader ns" k] by blast

lemma single_sole:
  assumes "single_run ns w" and "c \<in> set (w_cms w)" and "is_upgrader ns c"
  shows "sole ns (obj_key c) w"
proof -
  from assms have c: "c \<in> set (filter (is_upgrader ns) (w_cms w))" by simp
  with assms(1) have "filter (is_upgrader ns) (w_cms w) = [c]"
    by (cases "filter (is_upgrader ns) (w_cms w)") (auto simp: single_run_def)
  then have "set (filter (is_upgrader ns) (w_cms w)) = {c}" by simp
  then have "x = c" if "x \<in> set (w_cms w)" "is_upgrader ns x" for x using that by auto
  moreover have "find_obj (obj_key c) (w_cms w) \<noteq> None" using assms(2) by (simp add: find_obj_None)
  ultimately show ?thesis using assms(1) by (auto simp: sole_def single_run_def)
qed

lemma sole_steady: "steady (sole ns k)" "steady (\<lambda>w. sole ns k w \<and> R)"
  by (simp_all add: steady_def sole_def)

lemma sole_put: "sole ns k w \<Longrightarrow> obj_key x = k \<Longrightarrow> sole ns k (w_cms_update (put_obj x) w)"
  by (auto simp: sole_def kube.inv_put kube.look_put kube.items_put)

section \<open>Patching the recorded run\<close>

text \<open>A patch of the ConfigMap of the run stays at its key: it is there, so none is created.\<close>

lemma sole_patch:
  assumes "obj_key c = k" and "\<And>cur. obj_key (tr cur) = obj_key cur"
  shows "triple (sole ns k) (CreateOrPatch cmaps c tr) (\<lambda>x w. sole ns k w \<and> obj_key x = k) (\<lambda>_. sole ns k)"
  unfolding CreateOrPatch_def
proof (rule triple_tryM [where R = "\<lambda>r w. sole ns k w \<and> (case r of Inl e \<Rightarrow> True | Inr x \<Rightarrow> obj_key x = k)"])
  show "triple (sole ns k) (api_get cmaps (obj_key c)) (\<lambda>x w. sole ns k w \<and> (case Inr x of Inl e \<Rightarrow> True | Inr x \<Rightarrow> obj_key x = k))
     (\<lambda>e w. sole ns k w \<and> (case Inl e of Inl e \<Rightarrow> True | Inr x \<Rightarrow> obj_key x = k))"
    using triple_api_get [OF sole_steady(1), of ns k cmaps "obj_key c"] by (simp add: assms(1))
  have p: "triple (sole ns k) (api_patch cmaps x) (\<lambda>y w. sole ns k w \<and> obj_key y = k) (\<lambda>_. sole ns k)" if "obj_key x = k" for x
    unfolding api_patch_def
    by (rule triple_api_call) (simp_all add: sole_steady triple_def cmaps_def sole_put that)
  have n: "triple (sole ns k) (api_create cmaps x) (\<lambda>y w. sole ns k w \<and> obj_key y = k) (\<lambda>_. sole ns k)" if "obj_key x = k" for x
    unfolding api_create_def
    by (rule triple_api_call) (auto simp: sole_steady triple_def cmaps_def that sole_def)
  show "triple (\<lambda>w. sole ns k w \<and> (case r of Inl e \<Rightarrow> True | Inr x \<Rightarrow> obj_key x = k))
     (case r of Inl e \<Rightarrow> if is_not_found e then api_create cmaps (tr c) else raise e | Inr cur \<Rightarrow> api_patch cmaps (tr cur))
     (\<lambda>x w. sole ns k w \<and> obj_key x = k) (\<lambda>_. sole ns k)" for r
    by (cases r; cases "case r of Inl e \<Rightarrow> is_not_found e | Inr x \<Rightarrow> obj_key x = k")
      (auto intro!: triple_raise triple_conseq [OF p] triple_conseq [OF n] simp: assms simp: triple_def [of "\<lambda>_. False"])
qed

text \<open>What the steps of an upgrade promise of the ConfigMap they return.\<close>

abbreviation patches :: "string \<Rightarrow> objkey \<Rightarrow> 'a kc \<Rightarrow> ('a \<Rightarrow> configmap) \<Rightarrow> bool" where
  "patches ns k m cm \<equiv> triple (sole ns k) m (\<lambda>x w. sole ns k w \<and> obj_key (cm x) = k) (\<lambda>_. sole ns k)"

lemma patches_keeps: "patches ns k m cm \<Longrightarrow> keeps (sole ns k) m"
  by (erule triple_conseq) auto

lemma patches_ret: "obj_key (cm x) = k \<Longrightarrow> patches ns k (ret x) cm"
  by (simp add: triple_ret)

lemma patches_bindM:
  assumes "patches ns k m cm" and "\<And>x. obj_key (cm x) = k \<Longrightarrow> triple (sole ns k) (h x) Q (\<lambda>_. sole ns k)"
  shows "triple (sole ns k) (bindM m h) Q (\<lambda>_. sole ns k)"
proof (rule triple_bindM [OF assms(1)])
  show "triple (\<lambda>w. sole ns k w \<and> obj_key (cm x) = k) (h x) Q (\<lambda>_. sole ns k)" for x
    using assms(2) [of x] by (cases "obj_key (cm x) = k") (simp_all add: triple_def)
qed

lemma patch_data_sole: "obj_key c = k \<Longrightarrow> patches ns k (patchConfigMapData c) (\<lambda>x. x)"
  unfolding patchConfigMapData_def by (rule sole_patch) simp_all

lemma keeps_patch_data: "obj_key c = k \<Longrightarrow> keeps (sole ns k) (patchConfigMapData c)"
  by (rule patches_keeps) (rule patch_data_sole)

lemma evaluate_sole:
  assumes "obj_key c = k"
  shows "patches ns k (evaluateTargets ts c) snd"
  unfolding evaluateTargets_def
proof (rule patches_bindM [where cm = "\<lambda>st. fst (snd st)"])
  have e: "triple (\<lambda>w. sole ns k w \<and> obj_key (fst (snd st)) = k) (evaluate_target st t)
      (\<lambda>st w. sole ns k w \<and> obj_key (fst (snd st)) = k) (\<lambda>_. sole ns k)" for st t
  proof (cases "obj_key (fst (snd st)) = k")
    case True
    have "triple (sole ns k) (evaluate_target st t) (\<lambda>st w. sole ns k w \<and> obj_key (fst (snd st)) = k) (\<lambda>_. sole ns k)"
      unfolding evaluate_target_def using True
      by (cases st) (auto intro!: triple_tryM [OF keeps_api_get] triple_ret sole_steady simp: mark_ready_def split: sum.split)
    with True show ?thesis by simp
  qed (simp add: triple_def)
  show "patches ns k (foldM evaluate_target ([], c, False) ts) (\<lambda>st. fst (snd st))"
    using triple_foldM [where I = "\<lambda>st w. sole ns k w \<and> obj_key (fst (snd st)) = k" and s = "([], c, False)", OF e]
    by (simp add: assms)
  fix st :: watch
  assume k: "obj_key (fst (snd st)) = k"
  show "patches ns k (case st of (pending, configMap, becameReady) \<Rightarrow>
       if becameReady then tryM (patchConfigMapData configMap)
            (\<lambda>r. case r of Inl e \<Rightarrow> raise (ErrWrap ''failed to mark HelmRelease(s) ready in upgrader ConfigMap'' e)
                         | Inr configMap \<Rightarrow> ret (pending, configMap))
       else ret (pending, configMap)) snd"
  proof (cases st)
    case (fields pending configMap becameReady)
    have "patches ns k (tryM (patchConfigMapData configMap)
            (\<lambda>r. case r of Inl e \<Rightarrow> raise (ErrWrap ''failed to mark HelmRelease(s) ready in upgrader ConfigMap'' e)
                         | Inr configMap \<Rightarrow> ret (pending, configMap))) snd"
      by (rule triple_tryM [where R = "\<lambda>r w. sole ns k w \<and> (case r of Inl e \<Rightarrow> True | Inr x \<Rightarrow> obj_key x = k)"])
        (use patch_data_sole [of configMap k ns] k fields in \<open>auto intro!: triple_ret triple_raise split: sum.split\<close>)
    with k fields show ?thesis by (simp add: triple_ret)
  qed
qed

lemma finish_sole: "obj_key c = k \<Longrightarrow> keeps (sole ns k) (finishUpgrade c e)"
  unfolding finishUpgrade_def by (intro keeping keeps_raise_opt keeps_patch_data) simp

lemma observe_sole:
  assumes "obj_key c = k"
  shows "keeps (sole ns k) (observeUpgrade c ts)"
  unfolding observeUpgrade_def
  by (rule patches_bindM [OF evaluate_sole [OF assms]])
    (auto intro!: keeping keeps_now finish_sole split: prod.split)

section \<open>Applying an upgrade\<close>

lemma store_step_sole:
  assumes "obj_key c = k"
  shows "patches ns k (store_step mw c) (\<lambda>x. x)"
  unfolding store_step_def
proof (rule triple_bindM)
  show "keeps (sole ns k) (CreateOrPatch works mw (with_spec mw))"
    by (rule keeps_CreateOrPatch) (simp_all add: sole_steady works_def sole_def)
  show "patches ns k (CreateOrPatch cmaps c (with_data c)) (\<lambda>x. x)"
    by (rule sole_patch [OF assms]) (simp add: with_data_def obj_key_def)
qed

lemma stored_sole:
  fixes r :: "gerr + manifestwork \<times> progress"
  assumes "obj_key c = k"
  shows "patches ns k (bindM (liftM r) (\<lambda>(mw, d, ts). bindM (store_step mw (c\<lparr>cm_data := d\<rparr>)) (\<lambda>c. ret (c, ts)))) fst"
proof (rule triple_bindM [OF keeps_liftM])
  fix x :: "manifestwork \<times> progress"
  have "patches ns k (bindM (store_step mw (c\<lparr>cm_data := d\<rparr>)) (\<lambda>c. ret (c, ts))) fst" for mw d and ts :: "upgrade_target list"
    by (rule patches_bindM [OF store_step_sole]) (simp_all add: assms patches_ret obj_key_def [of "c\<lparr>cm_data := d\<rparr>"] obj_key_def [of c])
  then show "patches ns k (case x of (mw, d, ts) \<Rightarrow> bindM (store_step mw (c\<lparr>cm_data := d\<rparr>)) (\<lambda>c. ret (c, ts))) fst"
    by (simp split: prod.split)
qed

lemma upgrade_core_sole: "obj_key c = k \<Longrightarrow> patches ns k (upgrade_core C pr pb v mw c) fst"
  unfolding upgrade_core_def
  by (rule triple_bindM [OF keeps_liftM]) (auto intro!: patches_ret stored_sole split: option.split)

lemma upgrade_works_sole:
  assumes "obj_key (fst ct) = k"
  shows "patches ns k (foldM (upgrade_work E f pr pb) ct mws) fst"
proof -
  have "triple (\<lambda>w. sole ns k w \<and> obj_key (fst ct) = k) (upgrade_work E f pr pb ct mw)
      (\<lambda>ct w. sole ns k w \<and> obj_key (fst ct) = k) (\<lambda>_. sole ns k)" for ct mw
  proof (cases "obj_key (fst ct) = k")
    case True
    then have "patches ns k (upgrade_work E f pr pb ct mw) fst"
      unfolding upgrade_work_def by (simp add: patches_ret stored_sole)
    with True show ?thesis by simp
  qed (simp add: triple_def)
  from triple_foldM [where I = "\<lambda>ct w. sole ns k w \<and> obj_key (fst ct) = k", OF this, of ct] show ?thesis by (simp add: assms)
qed

lemma finish_apply_sole: "obj_key (fst ct) = k \<Longrightarrow> keeps (sole ns k) (finish_apply pb ct)"
  unfolding finish_apply_def recordPendingUpgrade_def
  by (intro keeping finish_sole keeps_patch_data) (simp_all add: record_annots_def obj_key_def Let_def)

text \<open>The calls before a run is created: no answer but an honest one.\<close>

abbreviation ready_to_run :: "string \<Rightarrow> world \<Rightarrow> bool" where
  "ready_to_run ns w \<equiv> honest w \<and> single_run ns w"

lemma honest_tl: "honest w \<Longrightarrow> honest (w\<lparr>w_faults := tl (w_faults w)\<rparr>)"
  by (cases "w_faults w") (simp_all add: honest_def)

lemma blind_single: "blind_works (single_run ns)"
  by (simp add: blind_works_def single_run_def)

lemma blind_ready: "blind_works (ready_to_run ns)"
  using blind_single [of ns] honest_tl by (simp add: blind_works_def) (simp add: honest_def)

lemma honest_call:
  assumes "blind_works J" and "\<And>w. J w \<Longrightarrow> honest w" and "triple J m Q E"
    and "\<And>e w. J w \<Longrightarrow> \<not> is_not_found e \<Longrightarrow> E e w"
  shows "triple J (api_call m) Q E"
  unfolding triple_def
proof (intro allI impI)
  fix w
  assume J: "J w"
  then have tl: "J (w\<lparr>w_faults := tl (w_faults w)\<rparr>)" by (rule blindD(1) [OF assms(1)])
  note m = assms(3) [unfolded triple_def, rule_format]
  show "case api_call m w of (Inr x, w') \<Rightarrow> Q x w' | (Inl e, w') \<Rightarrow> E e w'"
  proof (cases "w_faults w")
    case Nil
    with m [OF J] show ?thesis by (simp add: api_call_def)
  next
    case (Cons x fs)
    show ?thesis
    proof (cases x)
      case None
      with Cons m [OF tl] show ?thesis by (simp add: api_call_def)
    next
      case (Some e)
      with assms(2) [OF J] Cons have "\<not> is_not_found e" by (simp add: honest_def)
      with Some Cons assms(4) [OF tl] show ?thesis by (simp add: api_call_def)
    qed
  qed
qed

text \<open>While the old runs are deleted: those left are among the ones still to delete.\<close>

definition stale :: "string \<Rightarrow> configmap list \<Rightarrow> world \<Rightarrow> bool" where
  "stale ns cs w \<longleftrightarrow> ready_to_run ns w \<and> (\<forall>x \<in> set (w_cms w). is_upgrader ns x \<longrightarrow> x \<in> set cs)"

lemma blind_stale: "blind_works (stale ns cs)"
  using blind_ready [of ns] by (simp add: stale_def blind_works_def)

lemma single_del: "single_run ns w \<Longrightarrow> single_run ns (w_cms_update (del_obj k) w)"
proof -
  have "length (filter P (del_obj k xs)) \<le> length (filter P xs)" for P :: "configmap \<Rightarrow> bool" and xs
    by (induction xs) (auto simp: del_obj_def)
  then show "single_run ns w \<Longrightarrow> ?thesis" by (simp add: single_run_def kube.inv_del) (meson order_trans)
qed

lemma stale_del: "stale ns (c # cs) w \<Longrightarrow> stale ns cs (w_cms_update (del_obj (obj_key c)) w)"
  by (auto simp: stale_def single_del honest_def del_obj_def)

lemma delete_sole:
  "triple (stale ns (c # cs)) (api_delete cmaps (obj_key c)) (\<lambda>_. stale ns cs)
     (\<lambda>e w. if is_not_found e then stale ns cs w else single_run ns w)"
  unfolding api_delete_def
proof (rule honest_call [OF blind_stale])
  have "stale ns cs w" if "stale ns (c # cs) w" "find_obj (obj_key c) (w_cms w) = None" for w
    using that by (auto simp: stale_def find_obj_None)
  then show "triple (stale ns (c # cs))
     (\<lambda>w. if find_obj (obj_key c) (fst cmaps w) = None then (Inl ErrNotFound, w)
          else (Inr (), snd cmaps (del_obj (obj_key c)) w))
     (\<lambda>_. stale ns cs) (\<lambda>e w. if is_not_found e then stale ns cs w else single_run ns w)"
    by (auto simp: triple_def cmaps_def stale_del)
qed (simp_all add: stale_def)

lemma delete_all_clears: "triple (stale ns cs) (delete_all cs) (\<lambda>_. stale ns []) (\<lambda>_. single_run ns)"
proof (induction cs)
  case (Cons c cs)
  show ?case
    unfolding delete_all.simps
  proof (rule triple_tryM [where R = "\<lambda>r w. case r of Inr u \<Rightarrow> stale ns cs w
      | Inl e \<Rightarrow> if is_not_found e then stale ns cs w else single_run ns w"])
    show "triple (stale ns (c # cs)) (api_delete cmaps (obj_key c))
       (\<lambda>x w. case Inr x of Inr u \<Rightarrow> stale ns cs w | Inl e \<Rightarrow> if is_not_found e then stale ns cs w else single_run ns w)
       (\<lambda>e w. case Inl e of Inr u \<Rightarrow> stale ns cs w | Inl e \<Rightarrow> if is_not_found e then stale ns cs w else single_run ns w)"
      using delete_sole by simp
    show "triple (\<lambda>w. case r of Inr u \<Rightarrow> stale ns cs w | Inl e \<Rightarrow> if is_not_found e then stale ns cs w else single_run ns w)
       (case r of Inl e \<Rightarrow> if is_not_found e then delete_all cs else raise e | Inr _ \<Rightarrow> delete_all cs)
       (\<lambda>_. stale ns []) (\<lambda>_. single_run ns)" for r
      using Cons.IH by (cases r) (auto intro: triple_raise)
  qed
qed (simp add: triple_ret)

text \<open>So the run that is created is the only one.\<close>

lemma create_sole:
  "triple (ready_to_run ns) (createConfigMapInSpokeClusterNamespace C v ns)
     (\<lambda>c. sole ns (obj_key c)) (\<lambda>_. single_run ns)"
proof -
  have l: "triple (ready_to_run ns) (api_list cmaps (is_upgrader ns)) (stale ns) (\<lambda>_. single_run ns)"
    unfolding api_list_def
    by (rule honest_call [OF blind_ready]) (auto simp: triple_def cmaps_def stale_def)
  let ?clear = "\<lambda>w. keys_distinct (w_cms w) \<and> (\<forall>x \<in> set (w_cms w). \<not> is_upgrader ns x)"
  have s: "single_run ns w" if "?clear w" for w
    using that by (simp add: single_run_def filter_False)
  have st: "steady ?clear" "steady (single_run ns)" "steady (\<lambda>w. sole ns k w)" for k
    by (simp_all add: steady_def sole_def single_run_def)
  have "triple (ready_to_run ns) (deleteStaleUpgraderConfigMaps ns) (\<lambda>_. ?clear) (\<lambda>_. single_run ns)"
    unfolding deleteStaleUpgraderConfigMaps_def
    by (rule triple_bindM [OF l], rule triple_conseq [OF delete_all_clears]) (auto simp: stale_def single_run_def)
  moreover have "triple ?clear (api_create cmaps c) (\<lambda>c. sole ns (obj_key c)) (\<lambda>_. single_run ns)" for c
    unfolding api_create_def
    by (rule triple_conseq [OF triple_api_call [where P = ?clear and Q = "\<lambda>c. sole ns (obj_key c)" and E = "\<lambda>_. single_run ns"]])
      (auto simp: st s triple_def cmaps_def Let_def sole_def kube.inv_put kube.look_put kube.items_put)
  moreover have "triple ?clear rand_string (\<lambda>_. ?clear) (\<lambda>_. single_run ns)"
    by (auto simp: triple_def rand_string_def split: list.split)
  ultimately show ?thesis
    unfolding createConfigMapInSpokeClusterNamespace_def
    by (intro triple_bindM [where R = "\<lambda>_. ?clear"] triple_conseq [OF keeps_api_list [OF st(1)]] triple_liftM)
      (auto simp: s)
qed

lemma write_upgrade_single:
  "triple (ready_to_run (om_ns pb)) (write_upgrade E f pr pb v) (\<lambda>_. single_run (om_ns pb)) (\<lambda>_. single_run (om_ns pb))"
proof -
  let ?ns = "om_ns pb"
  have "triple (sole ?ns (obj_key c)) (bindM (upgrade_core C pr pb v mw c) (\<lambda>ct.
     bindM (api_list works (\<lambda>mw. om_ns mw = om_ns pb)) (\<lambda>mws.
     bindM (foldM (upgrade_work E f pr pb) ct mws) (finish_apply pb)))) (\<lambda>_. single_run ?ns) (\<lambda>_. single_run ?ns)" for C mw c
  proof (rule triple_conseq)
    show "keeps (sole ?ns (obj_key c)) (bindM (upgrade_core C pr pb v mw c) (\<lambda>ct.
       bindM (api_list works (\<lambda>mw. om_ns mw = om_ns pb)) (\<lambda>mws.
       bindM (foldM (upgrade_work E f pr pb) ct mws) (finish_apply pb))))"
      by (rule patches_bindM [OF upgrade_core_sole [OF refl]], rule triple_bindM [OF keeps_api_list [OF sole_steady(1)]],
          rule patches_bindM [OF upgrade_works_sole]) (simp_all add: finish_apply_sole)
  qed (simp_all add: sole_single)
  moreover have "triple (ready_to_run ?ns) (api_get works k) (\<lambda>_. ready_to_run ?ns) (\<lambda>_. single_run ?ns)" for k
    by (rule triple_conseq [OF frame_get [OF blind_ready]]) auto
  ultimately show ?thesis
    unfolding write_upgrade_def by (intro triple_bindM [OF _ triple_bindM [OF create_sole]])
qed

lemma find_single:
  "triple (ready_to_run (om_ns pb)) (findPendingUpgrade pb)
     (\<lambda>r w. ready_to_run (om_ns pb) w \<and> (\<forall>c ts. r = Some (c, ts) \<longrightarrow> sole (om_ns pb) (obj_key c) w))
     (\<lambda>_. single_run (om_ns pb))"
proof -
  have "triple (ready_to_run (om_ns pb)) (api_list cmaps (is_upgrader (om_ns pb)))
     (\<lambda>cs w. ready_to_run (om_ns pb) w \<and> cs = filter (is_upgrader (om_ns pb)) (w_cms w)) (\<lambda>_. single_run (om_ns pb))"
    unfolding api_list_def by (rule honest_call [OF blind_ready]) (auto simp: triple_def cmaps_def)
  then show ?thesis
    unfolding findPendingUpgrade_def
    by (rule triple_bindM) (auto intro!: triple_liftM dest!: first_run_found intro: single_sole)
qed

lemma UpgradeCluster_single:
  "triple (onfst (ready_to_run (om_ns pb))) (UpgradeCluster E pb pr)
     (\<lambda>_. onfst (single_run (om_ns pb))) (\<lambda>_. onfst (single_run (om_ns pb)))"
proof -
  let ?ns = "om_ns pb"
  have p: "triple (onfst (ready_to_run ?ns)) (prepare_upgrade E pb) (\<lambda>_. onfst (ready_to_run ?ns)) (\<lambda>_. onfst (single_run ?ns))"
  proof (rule triple_conseq)
    show "keeps (onfst (ready_to_run ?ns)) (prepare_upgrade E pb)"
      unfolding prepare_upgrade_def by (intro frame blind_ready)
  qed auto
  have a: "triple (onfst (ready_to_run ?ns)) (applyUpgrade E pb pr) (\<lambda>_. onfst (single_run ?ns)) (\<lambda>_. onfst (single_run ?ns))"
    unfolding applyUpgrade_def
  proof (rule triple_bindM [OF p], rule triple_bindM)
    show "triple (onfst (ready_to_run ?ns)) (asks Inr) (\<lambda>_. onfst (ready_to_run ?ns)) (\<lambda>_. onfst (single_run ?ns))"
      by (rule triple_conseq [OF keeps_asks [where J = "ready_to_run ?ns"]]) auto
    show "triple (onfst (ready_to_run ?ns)) (onhub (write_upgrade E f pr pb v)) (\<lambda>_. onfst (single_run ?ns))
       (\<lambda>_. onfst (single_run ?ns))" for f v
      by (rule triple_onhub) (rule write_upgrade_single)
  qed
  have o: "triple (sole ?ns (obj_key c)) (observeUpgrade c ts) (\<lambda>_. single_run ?ns) (\<lambda>_. single_run ?ns)" for c ts
    by (rule triple_conseq [OF observe_sole [OF refl]]) (auto intro: sole_single)
  show ?thesis
    unfolding UpgradeCluster_def
  proof (rule triple_bindM [OF triple_onhub [OF find_single]])
    fix r :: "(configmap \<times> upgrade_target list) option"
    show "triple (onfst (\<lambda>w. ready_to_run ?ns w \<and> (\<forall>c ts. r = Some (c, ts) \<longrightarrow> sole ?ns (obj_key c) w)))
       (case r of None \<Rightarrow> applyUpgrade E pb pr | Some (configMap, targets) \<Rightarrow> onhub (observeUpgrade configMap targets))
       (\<lambda>_. onfst (single_run ?ns)) (\<lambda>_. onfst (single_run ?ns))"
    proof (cases r)
      case None
      with a show ?thesis by simp
    next
      case (Some ct)
      obtain c ts where "ct = (c, ts)" by fastforce
      with Some show ?thesis
        by (auto intro!: triple_conseq [OF triple_onhub [OF o [of c ts]]])
    qed
  qed
qed

section \<open>A reconcile\<close>

lemma settle_single: "keeps (onfst (single_run ns)) (settle C pb u err)"
proof -
  have "keeps (single_run ns) (status_update x)" for x
    unfolding status_update_def
    by (intro keeps_if keeps_raise keeps_call blind_single) (simp add: triple_def single_run_def split: option.split)
  then show ?thesis
    unfolding settle_def setOpscenterFeaturesVersion_def refetch_def by (intro frame blind_single)
qed

lemma act_single:
  "triple (onfst (ready_to_run (om_ns pb))) (act E n pb pr)
     (\<lambda>_. onfst (single_run (om_ns pb))) (\<lambda>_. onfst (single_run (om_ns pb)))"
proof -
  let ?S = "onfst (single_run (om_ns pb))"
  have e: "triple (onfst (ready_to_run (om_ns pb))) (EnableFeatures E n pb info pr) (\<lambda>_. ?S) (\<lambda>_. ?S)" for info
    by (rule triple_conseq [OF frame_EnableFeatures [OF blind_single [of "om_ns pb"]]]) auto
  have s: "triple (onfst (ready_to_run (om_ns pb))) (settle (fe_codec E) pb u err) (\<lambda>_. ?S) (\<lambda>_. ?S)" for u err
    by (rule triple_conseq [OF settle_single]) auto
  show ?thesis
    unfolding act_def Let_def
    by (auto intro!: triple_tryM [where R = "\<lambda>_. ?S"] UpgradeCluster_single e s settle_single triple_ret
        split: sum.split option.split)
qed

lemma found_single:
  fixes m :: "'o kc"
  assumes "triple (ready_to_run ns) m (\<lambda>x w. ready_to_run ns w \<and> P x) (\<lambda>_. ready_to_run ns)"
    and "\<And>x. P x \<Longrightarrow> triple (onfst (ready_to_run ns)) (k x) (\<lambda>_. onfst (single_run ns)) (\<lambda>_. onfst (single_run ns))"
  shows "triple (onfst (ready_to_run ns)) (found_or_done m k) (\<lambda>_. onfst (single_run ns)) (\<lambda>_. onfst (single_run ns))"
  unfolding found_or_done_def
proof (rule triple_tryM [where R = "\<lambda>r. onfst (\<lambda>w. ready_to_run ns w \<and> (case r of Inl e \<Rightarrow> True | Inr x \<Rightarrow> P x))"])
  show "triple (onfst (ready_to_run ns)) (onhub m)
     (\<lambda>x. onfst (\<lambda>w. ready_to_run ns w \<and> (case Inr x of Inl e \<Rightarrow> True | Inr x \<Rightarrow> P x)))
     (\<lambda>e. onfst (\<lambda>w. ready_to_run ns w \<and> (case Inl e of Inl e \<Rightarrow> True | Inr x \<Rightarrow> P x)))"
    using triple_onhub [OF assms(1)] by simp
next
  fix r :: "gerr + 'o"
  show "triple (onfst (\<lambda>w. ready_to_run ns w \<and> (case r of Inl e \<Rightarrow> True | Inr x \<Rightarrow> P x)))
     (case r of Inr x \<Rightarrow> k x | Inl e \<Rightarrow> (case IgnoreNotFound e of None \<Rightarrow> ret (Some Result_zero) | Some e' \<Rightarrow> raise e'))
     (\<lambda>_. onfst (single_run ns)) (\<lambda>_. onfst (single_run ns))"
  proof (cases r)
    case (Inl e)
    then show ?thesis by (auto intro!: triple_ret triple_raise split: option.split)
  next
    case (Inr x)
    then show ?thesis using assms(2) [of x] by (cases "P x") (auto simp: triple_def)
  qed
qed

lemma Reconcile_single:
  "triple (onfst (ready_to_run (fst req))) (Reconcile E n req)
     (\<lambda>_. onfst (single_run (fst req))) (\<lambda>_. onfst (single_run (fst req)))"
  unfolding Reconcile_def
proof (rule found_single [where P = "\<lambda>pb. obj_key pb = req"])
  show "triple (ready_to_run (fst req)) (api_get bindings req) (\<lambda>x w. ready_to_run (fst req) w \<and> obj_key x = req)
     (\<lambda>_. ready_to_run (fst req))"
    unfolding api_get_def
    by (rule honest_call [OF blind_ready]) (auto simp: triple_def dest: find_obj_key split: option.split)
  fix pb :: binding
  assume k: "obj_key pb = req"
  then have ns: "fst req = om_ns pb" by auto
  show "triple (onfst (ready_to_run (fst req))) (found_or_done (api_get profiles ('''', bs_profile (pb_spec pb)))
          (\<lambda>profile. bindM (liftM (validateFeatureList profile)) (\<lambda>_. act E n pb profile)))
     (\<lambda>_. onfst (single_run (fst req))) (\<lambda>_. onfst (single_run (fst req)))"
    unfolding ns
  proof (rule found_single [where P = "\<lambda>_. True"])
    show "triple (ready_to_run (om_ns pb)) (api_get profiles ('''', bs_profile (pb_spec pb)))
       (\<lambda>x w. ready_to_run (om_ns pb) w \<and> True) (\<lambda>_. ready_to_run (om_ns pb))"
      using frame_get [OF blind_ready] by simp
    show "triple (onfst (ready_to_run (om_ns pb))) (bindM (liftM (validateFeatureList profile)) (\<lambda>_. act E n pb profile))
       (\<lambda>_. onfst (single_run (om_ns pb))) (\<lambda>_. onfst (single_run (om_ns pb)))" for profile
      by (rule triple_bindM [OF triple_liftM [where Q = "\<lambda>_. onfst (ready_to_run (om_ns pb))"]])
        (auto intro: act_single)
  qed
qed

text \<open>The other namespaces are left alone.\<close>

lemma Reconcile_keeps_single:
  assumes "honest w" and "\<And>m. single_run m w"
  shows "single_run ns (fst (snd (Reconcile E n req (w, f))))"
proof -
  let ?w = "fst (snd (Reconcile E n req (w, f)))"
  obtain r s where R: "Reconcile E n req (w, f) = (r, s)" by (cases "Reconcile E n req (w, f)")
  have own: "single_run (fst req) ?w"
    using tripleD_Inr [OF Reconcile_single [of req E n], of "(w, f)"] tripleD_Inl [OF Reconcile_single [of req E n], of "(w, f)"]
      R assms by (cases r) auto
  show ?thesis
  proof (cases "ns = fst req")
    case False
    have "others (fst req) (w_cms ?w) = others (fst req) (w_cms w)"
      using Reconcile_rest [of req E n w f] by (simp add: hub_rest_eq)
    then have "only ns (w_cms ?w) = only ns (w_cms w)" using False only_others by metis
    moreover have "filter (is_upgrader ns) xs = filter (is_upgrader ns) (only ns xs)" for xs
      by (simp add: only_def) (rule filter_cong, auto simp: is_upgrader_def)
    ultimately have "filter (is_upgrader ns) (w_cms ?w) = filter (is_upgrader ns) (w_cms w)" by metis
    with own assms(2) [of ns] show ?thesis by (simp add: single_run_def)
  qed (simp add: own)
qed

section \<open>Theorem\<close>

text \<open>
  What happens to a hub on which only the program writes upgrader ConfigMaps: workers serve
  bindings, each with faults of its own, the set profile controller reconciles, and everything
  but ConfigMaps changes as it likes.
\<close>

inductive operated :: "'f fakeenv \<Rightarrow> clusterenv \<Rightarrow> world \<Rightarrow> world \<Rightarrow> bool" for E C w0 where
  starts: "operated E C w0 w0"
| works_on: "operated E C w0 w \<Longrightarrow> honest (w\<lparr>w_faults := snd given\<rparr>) \<Longrightarrow>
    operated E C w0 (snd (serve E fuel req f given w))"
| rebinds: "operated E C w0 w \<Longrightarrow> operated E C w0 (snd (ReconcileSet C req w))"
| moves_on: "operated E C w0 w \<Longrightarrow> w_cms w' = w_cms w \<Longrightarrow> operated E C w0 w'"

text \<open>
  C8: On a hub that starts without ConfigMaps there is never more than one upgrader ConfigMap in
  the namespace of a cluster: a cluster has at most one upgrade on record, however often its
  bindings are reconciled, whichever calls fail and wherever a reconcile stops. (No call
  answers \<open>not found\<close> for an object that is there.)
\<close>

theorem one_run_at_a_time:
  assumes "operated E C w0 w" and "w_cms w0 = []"
  shows "single_run ns w"
  using assms(1)
proof (induction arbitrary: ns)
  case starts
  with assms(2) show ?case by (simp add: single_run_def keys_distinct_def)
next
  case (works_on w given fuel req f)
  let ?w = "w\<lparr>w_rand := fst given, w_faults := snd given\<rparr>"
  have "honest ?w" "single_run m ?w" for m
    using works_on by (simp_all add: honest_def single_run_def)
  from Reconcile_keeps_single [OF this, of ns E fuel req f] show ?case
    by (auto simp: serve_def clean_def single_run_def split: prod.split)
next
  case (rebinds w req)
  have "same_works w (snd (ReconcileSet C req w))" by (rule keepsD [OF ReconcileSet_works]) simp
  with rebinds.IH show ?case by (simp add: single_run_def)
qed (simp add: single_run_def)

theorem one_run_at_a_time_witness:
  "single_run ''c1'' (snd (serve ex_env 0 (''c1'', ''c1'') () ([''xyz''], [None, None, None, Some (ErrText ''conflict'')]) ex_hub))"
proof (rule one_run_at_a_time)
  fix C
  show "operated ex_env C ex_hub
     (snd (serve ex_env 0 (''c1'', ''c1'') () ([''xyz''], [None, None, None, Some (ErrText ''conflict'')]) ex_hub))"
    by (rule works_on [OF starts]) (simp add: honest_def)
  show "w_cms ex_hub = []" by (simp add: ex_hub_def)
qed

end
