(* ===== verification/SourceTests.thy ===== *)
theory SourceTests
  imports UpgradeApply
begin

text \<open>
  The cases of \<open>upgrader_helper_test.go\<close> and \<open>upgrader_test.go\<close> on the model. Each case of the
  tables is evaluated on the definitions that stand for the functions under test; the stub
  client of the tests is the hub with the objects and the faults the stub serves.
\<close>

section \<open>Fixtures\<close>

definition stringValue :: "string \<Rightarrow> string \<Rightarrow> feedback" where
  "stringValue n v = \<lparr> fv_name = n, fv_integer = None, fv_string = Some v \<rparr>"

definition intValue :: "string \<Rightarrow> int64 \<Rightarrow> feedback" where
  "intValue n v = \<lparr> fv_name = n, fv_integer = Some v, fv_string = None \<rparr>"

definition tested_work :: "string \<Rightarrow> string \<Rightarrow> bool \<Rightarrow> feedback list \<Rightarrow> manifestwork" where
  "tested_work n hrName applied vs =
     \<lparr> om_name = n, om_ns = ''spoke'', om_labels = Map.empty, om_annots = Map.empty, om_owners = [],
       om_created = 0, mw_manifests = [], mw_configs = [],
       mw_status =
         [\<lparr> mc_kind = HelmReleaseKind, mc_name = hrName, mc_ns = ''kubeops'', mc_values = vs,
            mc_conditions = [\<lparr> cd_type = ManifestApplied,
              cd_status = (if applied then ConditionTrue else ConditionFalse) \<rparr>] \<rparr>] \<rparr>"

definition readyFeedback :: "feedback list" where
  "readyFeedback =
     [stringValue HelmReleaseReadyFeedback ConditionTrue, intValue HelmReleaseGenerationFeedback 2,
      intValue HelmReleaseObservedGenerationFeedback 2]"

definition staleObserved :: "feedback list" where
  "staleObserved =
     [stringValue HelmReleaseReadyFeedback ConditionTrue, intValue HelmReleaseGenerationFeedback 2,
      intValue HelmReleaseObservedGenerationFeedback 1]"

definition tested_target :: "string \<Rightarrow> string \<Rightarrow> int64 \<Rightarrow> upgrade_target" where
  "tested_target mwName hrName g =
     \<lparr> ut_mw_ns = ''spoke'', ut_mw_name = mwName, ut_hr_ns = ''kubeops'', ut_hr_name = hrName, ut_min_gen = g \<rparr>"

definition upgraderConfigMap :: "strmap \<Rightarrow> configmap" where
  "upgraderConfigMap d =
     \<lparr> om_name = ''features-upgrader-x'', om_ns = ''spoke'', om_labels = Map.empty, om_annots = Map.empty,
       om_owners = [], om_created = 0, cm_data = d \<rparr>"

definition stub :: "manifestwork list \<Rightarrow> configmap list \<Rightarrow> gerr option list \<Rightarrow> world" where
  "stub mws cms fs =
     \<lparr> w_mws = mws, w_cms = cms, w_profiles = [], w_bindings = [], w_clusters = [], w_features = [],
       w_mwrs = [], w_sets = [], w_now = 0, w_rand = [], w_faults = fs \<rparr>"

section \<open>TestEvaluateTargets\<close>

text \<open>The names still pending, the data in memory, and the data the hub holds.\<close>

definition evaluated ::
  "upgrade_target list \<Rightarrow> manifestwork list \<Rightarrow> strmap \<Rightarrow> gerr option list \<Rightarrow> (string list \<times> strmap \<times> strmap list) option" where
  "evaluated ts mws d fs =
     (case evaluateTargets ts (upgraderConfigMap d) (stub mws [upgraderConfigMap d] fs) of
        (Inl e, w) \<Rightarrow> None
      | (Inr (pending, c), w) \<Rightarrow> Some (map ut_hr_name pending, cm_data c, map cm_data (w_cms w)))"

lemmas tested = evaluated_def evaluateTargets_def evaluate_target_def stub_def upgraderConfigMap_def
  tested_target_def tested_work_def readyFeedback_def staleObserved_def stringValue_def intValue_def
  helmReleaseReady_def helmReleaseFeedback_def constants api_get_def api_call_def works_def cmaps_def
  tryM_run bindM_run ret_run raise_run work_key_def obj_key_def mark_ready_def patchConfigMapData_def CreateOrPatch_def
  api_patch_def put_obj_def patch_config_map_def

lemma ready_target_is_marked:
  "evaluated [tested_target ''observability'' ''prom-label-proxy'' 2]
     [tested_work ''observability'' ''prom-label-proxy'' True readyFeedback] [''prom-label-proxy'' \<mapsto> ConditionFalse] [] =
   Some ([], [''prom-label-proxy'' \<mapsto> ConditionTrue], [[''prom-label-proxy'' \<mapsto> ConditionTrue]])"
  by (simp add: tested)

lemma new_spec_is_not_observed:
  "evaluated [tested_target ''observability'' ''tenant-operator'' 2]
     [tested_work ''observability'' ''tenant-operator'' True staleObserved] [''tenant-operator'' \<mapsto> ConditionFalse] [] =
   Some ([''tenant-operator''], [''tenant-operator'' \<mapsto> ConditionFalse], [[''tenant-operator'' \<mapsto> ConditionFalse]])"
  by (simp add: tested)

lemma not_applied_on_the_spoke:
  "evaluated [tested_target ''observability'' ''tenant-operator'' 2]
     [tested_work ''observability'' ''tenant-operator'' False readyFeedback] [''tenant-operator'' \<mapsto> ConditionFalse] [] =
   Some ([''tenant-operator''], [''tenant-operator'' \<mapsto> ConditionFalse], [[''tenant-operator'' \<mapsto> ConditionFalse]])"
  by (simp add: tested)

text \<open>With the second call failing, a patch would be an error: there is none.\<close>

lemma already_marked_is_not_patched:
  "evaluated [tested_target ''observability'' ''prom-label-proxy'' 2]
     [tested_work ''observability'' ''prom-label-proxy'' True readyFeedback] [''prom-label-proxy'' \<mapsto> ConditionTrue]
     [None, Some (ErrText ''unexpected call'')] =
   Some ([], [''prom-label-proxy'' \<mapsto> ConditionTrue], [[''prom-label-proxy'' \<mapsto> ConditionTrue]])"
  by (simp add: tested)

lemma unreadable_work_keeps_its_target:
  "evaluated [tested_target ''observability'' ''tenant-operator'' 2] [] [''tenant-operator'' \<mapsto> ConditionFalse]
     [Some (ErrText ''boom'')] =
   Some ([''tenant-operator''], [''tenant-operator'' \<mapsto> ConditionFalse], [[''tenant-operator'' \<mapsto> ConditionFalse]])"
  by (simp add: tested)

lemma one_ready_one_pending:
  "evaluated [tested_target ''observability'' ''prom-label-proxy'' 2, tested_target ''core'' ''kube-ui-server'' 3]
     [tested_work ''observability'' ''prom-label-proxy'' True readyFeedback,
      tested_work ''core'' ''kube-ui-server'' True readyFeedback]
     [''prom-label-proxy'' \<mapsto> ConditionFalse, ''kube-ui-server'' \<mapsto> ConditionFalse] [] =
   (let d = [''prom-label-proxy'' \<mapsto> ConditionTrue, ''kube-ui-server'' \<mapsto> ConditionFalse]
    in Some ([''kube-ui-server''], d, [d]))"
  by (simp add: tested Let_def fun_eq_iff)

lemma patch_failure_is_reported:
  "evaluated [tested_target ''observability'' ''prom-label-proxy'' 2]
     [tested_work ''observability'' ''prom-label-proxy'' True readyFeedback] [''prom-label-proxy'' \<mapsto> ConditionFalse]
     [None, None, Some (ErrText ''conflict'')] = None"
  by (simp add: tested)

section \<open>TestFindPendingUpgrade\<close>

definition pendingConfigMap :: "string \<Rightarrow> string \<Rightarrow> string \<Rightarrow> string \<Rightarrow> string \<Rightarrow> configmap" where
  "pendingConfigMap n v upgradeAt targets status =
     (let a = (if targets \<noteq> '''' then [UpgradeTargetsAnnotation \<mapsto> targets] else Map.empty);
          a = (if upgradeAt \<noteq> '''' then a(UpgradeAnnotation \<mapsto> upgradeAt) else a)
      in \<lparr> om_name = n, om_ns = ''spoke'', om_labels = [ACEUpgrader \<mapsto> ''true'', ACEUpgraderVersion \<mapsto> v],
           om_annots = a, om_owners = [], om_created = 0, cm_data = [UpgradeStatusKey \<mapsto> status] \<rparr>)"

definition tested_binding :: "string \<Rightarrow> string \<Rightarrow> binding" where
  "tested_binding v upgradeAt =
     \<lparr> om_name = ''spoke'', om_ns = ''spoke'', om_labels = Map.empty,
       om_annots = (if upgradeAt \<noteq> '''' then [UpgradeAnnotation \<mapsto> upgradeAt] else Map.empty),
       om_owners = [], om_created = 0,
       pb_spec = \<lparr> bs_profile = '''', bs_cluster = zero_clusterinfo, bs_version = v, bs_features = [] \<rparr>,
       pb_status = zero_status \<rparr>"

definition oneTarget :: string where
  "oneTarget = ''[{\"manifestWorkNamespace\":\"spoke\",\"manifestWorkName\":\"observability\",\"helmReleaseNamespace\":\"kubeops\",\"helmReleaseName\":\"prom-label-proxy\",\"minGeneration\":2}]''"

definition found ::
  "configmap list \<Rightarrow> binding \<Rightarrow> gerr option list \<Rightarrow> (string \<times> upgrade_target list) option option" where
  "found cms pb fs =
     (case fst (findPendingUpgrade pb (stub [] cms fs)) of
        Inl e \<Rightarrow> None | Inr r \<Rightarrow> Some (map_option (\<lambda>(c, ts). (om_name c, ts)) r))"

lemma oneTarget_read:
  "unmarshal_targets oneTarget = Inr [tested_target ''observability'' ''prom-label-proxy'' 2]"
  by code_simp

lemma oneTarget_given: "oneTarget \<noteq> ''''" by (simp add: oneTarget_def)

lemmas tested_find = found_def findPendingUpgrade_def api_list_def api_call_def stub_def cmaps_def bindM_run liftM_run
  is_upgrader_def run_matches_def pendingConfigMap_def tested_binding_def constants oneTarget_read oneTarget_given

lemma resumes_a_pending_run:
  "found [pendingConfigMap ''cm-a'' ''v1'' '''' oneTarget UpgradeStatusPending] (tested_binding ''v1'' '''') [] =
   Some (Some (''cm-a'', [tested_target ''observability'' ''prom-label-proxy'' 2]))"
  by (simp add: tested_find)

lemma ignores_another_version:
  "found [pendingConfigMap ''cm-a'' ''v1'' '''' oneTarget UpgradeStatusPending] (tested_binding ''v2'' '''') [] = Some None"
  by (simp add: tested_find)

lemma ignores_a_finished_run:
  "found [pendingConfigMap ''cm-a'' ''v1'' '''' oneTarget UpgradeStatusCompleted] (tested_binding ''v1'' '''') [] = Some None"
  by (simp add: tested_find)

lemma repeated_force_upgrade_is_new:
  "found [pendingConfigMap ''cm-a'' ''v1'' ''2026-08-27T06:00:00Z'' oneTarget UpgradeStatusPending]
     (tested_binding ''v1'' ''2026-08-27T07:00:00Z'') [] = Some None"
  by (simp add: tested_find)

lemma same_force_upgrade_is_resumed:
  "found [pendingConfigMap ''cm-a'' ''v1'' ''2026-08-27T06:00:00Z'' oneTarget UpgradeStatusPending]
     (tested_binding ''v1'' ''2026-08-27T06:00:00Z'') [] =
   Some (Some (''cm-a'', [tested_target ''observability'' ''prom-label-proxy'' 2]))"
  by (simp add: tested_find)

lemma run_without_targets:
  "found [pendingConfigMap ''cm-a'' ''v1'' '''' '''' UpgradeStatusPending] (tested_binding ''v1'' '''') [] = Some None"
  by (simp add: tested_find)

lemma picks_the_resumable_run:
  "found [pendingConfigMap ''cm-old'' ''v0'' '''' oneTarget UpgradeStatusCompleted,
          pendingConfigMap ''cm-b'' ''v1'' '''' oneTarget UpgradeStatusPending] (tested_binding ''v1'' '''') [] =
   Some (Some (''cm-b'', [tested_target ''observability'' ''prom-label-proxy'' 2]))"
  by (simp add: tested_find)

lemma no_config_maps: "found [] (tested_binding ''v1'' '''') [] = Some None"
  by (simp add: tested_find)

text \<open>The list is scoped to the namespace of the binding and to upgrader ConfigMaps.\<close>

lemma list_is_scoped:
  "found [(pendingConfigMap ''cm-a'' ''v1'' '''' oneTarget UpgradeStatusPending)\<lparr>om_ns := ''other''\<rparr>] (tested_binding ''v1'' '''') [] =
   Some None"
  "found [(pendingConfigMap ''cm-a'' ''v1'' '''' oneTarget UpgradeStatusPending)\<lparr>om_labels := [ACEUpgraderVersion \<mapsto> ''v1'']\<rparr>]
     (tested_binding ''v1'' '''') [] = Some None"
  by (simp_all add: tested_find)

lemma list_error_surfaces: "found [] (tested_binding ''v1'' '''') [Some (ErrText ''boom'')] = None"
  by (simp add: tested_find)

lemma malformed_targets_surface:
  "found [pendingConfigMap ''cm-a'' ''v1'' '''' ''{not json'' UpgradeStatusPending] (tested_binding ''v1'' '''') [] = None"
proof -
  have "\<exists>e. unmarshal_targets ''{not json'' = Inl e"
    by (rule exI [of _ "ErrText ''invalid JSON''"]) code_simp
  then show ?thesis by (auto simp: tested_find)
qed

section \<open>TestSpecChanged\<close>

text \<open>
  A codec that keeps the spec as it is; the typed one of the tests drops the fields the type
  does not have, which are null in every case.
\<close>

definition json_codec :: hr_codec where
  "json_codec =
     ver_codec\<lparr> hc_dec :=
         (\<lambda>m. bindE (manifest_object m) (\<lambda>obj. case fmlookup obj ''spec'' of
            Some (JObj s) \<Rightarrow> Inr ((ex_release ''v1'')\<lparr>hr_spec := (hr_spec (ex_release ''v1''))\<lparr>hs_rest := JObj s\<rparr>\<rparr>)
          | _ \<Rightarrow> Inl (ErrText ''no spec''))),
       hc_spec := (\<lambda>s. case hs_rest s of JObj m \<Rightarrow> Inr m | _ \<Rightarrow> Inl (ErrText ''no spec'')) \<rparr>"

abbreviation ob :: "(string \<times> json) list \<Rightarrow> json" where "ob kvs \<equiv> JObj (fmap_of_list kvs)"

definition spec_changed :: "(string \<times> json) list \<Rightarrow> json \<Rightarrow> json \<Rightarrow> gerr + bool" where
  "spec_changed rest old new =
     specChanged json_codec (Text (ob ((''kind'', JStr HelmReleaseKind) # (''spec'', old) # rest)))
       ((hr_spec (ex_release ''v1''))\<lparr>hs_rest := new\<rparr>)"

definition chart_of :: "string \<Rightarrow> json" where
  "chart_of v = ob [(''spec'', ob [(''chart'', JStr ''prom-label-proxy''), (''version'', JStr v)])]"

definition jks_values :: "(string \<times> json) list \<Rightarrow> json" where
  "jks_values kvs = ob [(''infra'', ob [(''tls'', ob [(''jks'', ob kvs)])])]"

definition proxy_spec :: "string \<Rightarrow> (string \<times> json) list \<Rightarrow> (string \<times> json) list \<Rightarrow> json" where
  "proxy_spec v kvs extra = ob ([(''interval'', JStr ''5m0s''), (''chart'', chart_of v), (''values'', jks_values kvs)] @ extra)"

definition tenants :: "(string \<times> json) list \<Rightarrow> json" where
  "tenants q = ob [(''interval'', JStr ''5m0s''),
     (''values'', ob [(''tenants'', JArr [ob ((''name'', JStr ''a'') # q), ob ((''name'', JStr ''b'') # q)])])]"

lemma pruneNulls_ob:
  "distinct (map fst kvs) \<Longrightarrow>
     pruneNulls (ob kvs) = ob (map (\<lambda>(k, v). (k, pruneNulls v)) (filter (\<lambda>(k, v). v \<noteq> JNull) kvs))"
proof -
  assume d: "distinct (map fst kvs)"
  have "map_of (map (\<lambda>(k, v). (k, pruneNulls v)) (filter (\<lambda>(k, v). v \<noteq> JNull) kvs)) k =
      (if map_of kvs k = Some JNull then None else map_option pruneNulls (map_of kvs k))" for k
    using d
  proof (induction kvs)
    case (Cons x kvs)
    then show ?case by (cases x) (auto simp: map_of_eq_None_iff [symmetric] split: if_splits)
  qed simp
  then show ?thesis by (auto intro!: fmap_ext simp: fmlookup_of_list fmlookup_filter)
qed

lemma ob_eq:
  "fmap_of_list xs = fmap_of_list ys \<longleftrightarrow> list_all (\<lambda>k. map_of xs k = map_of ys k) (map fst xs @ map fst ys)"
proof
  assume "list_all (\<lambda>k. map_of xs k = map_of ys k) (map fst xs @ map fst ys)"
  then have "map_of xs k = map_of ys k" for k
    by (cases "k \<in> set (map fst xs @ map fst ys)") (auto simp: list_all_iff map_of_eq_None_iff [THEN iffD2])
  then show "fmap_of_list xs = fmap_of_list ys" by (intro fmap_ext) (simp add: fmlookup_of_list)
next
  assume "fmap_of_list xs = fmap_of_list ys"
  then have "fmlookup (fmap_of_list xs) = fmlookup (fmap_of_list ys)" by simp
  then have "map_of xs = map_of ys" by (simp add: fmlookup_of_list fun_eq_iff)
  then show "list_all (\<lambda>k. map_of xs k = map_of ys k) (map fst xs @ map fst ys)" by (simp add: list_all_iff)
qed

lemmas tested_spec = spec_changed_def specChanged_def json_codec_def manifest_object_def proxy_spec_def tenants_def
  chart_of_def jks_values_def fmlookup_of_list pruneNulls_ob ob_eq

declare pruneNulls.simps(7) [simp del] fmap_of_list_simps [simp del]

abbreviation secret :: "(string \<times> json) list" where "secret \<equiv> [(''password'', JStr ''s3cr3t'')]"

lemma identical_spec:
  "spec_changed [] (proxy_spec ''v2026.6.2'' secret []) (proxy_spec ''v2026.6.2'' secret []) = Inr False"
  by (simp add: tested_spec)

lemma rendered_nulls:
  "spec_changed [] (proxy_spec ''v2026.6.2'' secret [])
     (proxy_spec ''v2026.6.2'' ((''keystore'', JNull) # secret @ [(''truststore'', JNull)]) [(''platform'', JNull)]) = Inr False"
  by (simp add: tested_spec)

lemma nulls_inside_a_list: "spec_changed [] (tenants []) (tenants [(''quota'', JNull)]) = Inr False"
  by (simp add: tested_spec)

lemma stored_null:
  "spec_changed [] (proxy_spec ''v2026.6.2'' ((''keystore'', JNull) # secret) []) (proxy_spec ''v2026.6.2'' secret []) = Inr False"
  by (simp add: tested_spec)

lemma chart_version_moves:
  "spec_changed [] (proxy_spec ''v2026.6.2'' secret []) (proxy_spec ''v2026.7.10'' secret []) = Inr True"
  by (simp add: tested_spec)

lemma value_changes:
  "spec_changed [] (proxy_spec ''v2026.6.2'' secret []) (proxy_spec ''v2026.6.2'' [(''password'', JStr ''rotated'')] []) = Inr True"
  by (simp add: tested_spec)

lemma value_is_dropped:
  "spec_changed [] (proxy_spec ''v2026.6.2'' secret []) (proxy_spec ''v2026.6.2'' [] []) = Inr True"
  by (simp add: tested_spec)

text \<open>Only the spec is compared.\<close>

lemma noise_is_ignored:
  "spec_changed [(''status'', ob []), (''creationTimestamp'', JNull)]
     (ob [(''interval'', JStr ''5m0s''), (''values'', ob [(''replicas'', JInt 1)])])
     (ob [(''interval'', JStr ''5m0s''), (''values'', ob [(''replicas'', JInt 1)])]) = Inr False"
  by (simp add: tested_spec)

lemma malformed_manifest_is_rejected: "\<exists>e. specChanged json_codec Malformed s = Inl e"
  by (simp add: specChanged_def json_codec_def manifest_object_def)

section \<open>TestNewUpgradeTargetBumpsOnlyOnAChange\<close>

lemma target_bumps_only_on_a_change:
  "ut_min_gen (newUpgradeTarget (tested_work ''observability'' ''prom-label-proxy'' True readyFeedback)
     ((ex_release ''v1'')\<lparr>om_name := ''prom-label-proxy'', om_ns := ''kubeops''\<rparr>) b) = (if b then 3 else 2)"
  by (simp add: newUpgradeTarget_def Let_def helmReleaseGeneration_def helmReleaseFeedback_def tested_work_def
      readyFeedback_def stringValue_def intValue_def constants)

end
