(* ===== verification/ValuesFacts.thy ===== *)
theory ValuesFacts
  imports FakeApi
begin

text \<open>
  The override values every chart is rendered with: what \<open>GetOverrideValues\<close> makes of the
  values it is given and of the cluster's metadata.
\<close>

section \<open>The metadata as a document\<close>

definition put_nonempty :: "string \<Rightarrow> string \<Rightarrow> string \<Rightarrow> jmap \<Rightarrow> jmap" where
  "put_nonempty k guard v m = (if guard = '''' then m else fmupd k (JStr v) m)"

definition capi_doc :: "capiinfo \<Rightarrow> jmap" where
  "capi_doc ca =
     put_nonempty ''clusterName'' (ca_cluster ca) (ca_ns ca)
       (put_nonempty ''namespace'' (ca_ns ca) (ca_ns ca)
         (put_nonempty ''provider'' (ca_provider ca) (ca_provider ca) fmempty))"

definition metadata_doc :: "clusterinfo \<Rightarrow> jmap" where
  "metadata_doc ci =
     (let m = fmap_of_list [(''uid'', JStr (ci_uid ci)), (''name'', JStr (ci_name ci))];
          m = (case ci_capi ci of
                 None \<Rightarrow> m
               | Some ca \<Rightarrow> if capi_doc ca = fmempty then m else fmupd ''capi'' (JObj (capi_doc ca)) m)
      in if managers ci = [] then m else fmupd ''clusterManagers'' (JArr (map JStr (managers ci))) m)"

definition openshift_doc :: "jmap \<Rightarrow> jmap" where
  "openshift_doc d = fmupd ''ubi'' (JStr ''all'') (fmupd ''openshift'' (JBool True) d)"

section \<open>Filling it in\<close>

lemma fmupd_not_empty [simp]: "fmupd k v m \<noteq> fmempty"
  by (metis fmempty_lookup fmupd_lookup option.distinct(1))

lemma capi_doc_empty: "capi_doc ca = fmempty \<longleftrightarrow> ca_provider ca = '''' \<and> ca_ns ca = '''' \<and> ca_cluster ca = ''''"
  by (auto simp: capi_doc_def put_nonempty_def)

text \<open>A field under two levels of which the outer one is an object.\<close>

lemma set_under:
  "fmlookup d ''capi'' = None \<Longrightarrow>
     SetNestedField (fmupd k (JObj d) m) v [k, ''capi'', n] = Inr (fmupd k (JObj (fmupd ''capi'' (JObj (fmupd n v fmempty)) d)) m)"
  "SetNestedField (fmupd k (JObj (fmupd ''capi'' (JObj c) d)) m) v [k, ''capi'', n] =
     Inr (fmupd k (JObj (fmupd ''capi'' (JObj (fmupd n v c)) d)) m)"
  by simp_all

lemma set_capi_doc:
  assumes "fmlookup d ''capi'' = None"
  shows "set_capi (Some ca) (fmupd ''clusterMetadata'' (JObj d) m) =
     Inr (fmupd ''clusterMetadata'' (JObj (if capi_doc ca = fmempty then d else fmupd ''capi'' (JObj (capi_doc ca)) d)) m)"
  unfolding set_capi_def capi_doc_empty using assms
  by (simp add: set_nonempty_def capi_doc_def put_nonempty_def set_under)

lemma set_managers_doc:
  "set_managers ms (fmupd ''clusterMetadata'' (JObj d) m) =
     (let md = JObj (if ms = [] then d else fmupd ''clusterManagers'' (JArr (map JStr ms)) d) in
      if ClusterManagerOpenShift \<in> set ms then
        (case fmlookup m ''distro'' of
           None \<Rightarrow> Inr (fmupd ''distro'' (JObj (openshift_doc fmempty)) (fmupd ''clusterMetadata'' md m))
         | Some (JObj di) \<Rightarrow> Inr (fmupd ''distro'' (JObj (openshift_doc di)) (fmupd ''clusterMetadata'' md m))
         | Some _ \<Rightarrow> Inl (ErrText ''value cannot be set: not a map[string]interface{}''))
      else Inr (fmupd ''clusterMetadata'' md m))"
  by (auto simp: set_managers_def openshift_doc_def Let_def split: option.splits json.splits)

section \<open>The properties\<close>

text \<open>
  C26: The override values, exactly: the values given, with the cluster's metadata written over
  \<open>clusterMetadata\<close> and, on OpenShift, the two distro flags set; the only error is a
  \<open>distro\<close> that is not an object, and a nil map panics. The CAPI cluster name that is
  written is the CAPI namespace.
\<close>

theorem override_values:
  "GetOverrideValues overrides (Some ci) =
     (case overrides of
        None \<Rightarrow> Inl (GoPanic ''assignment to entry in nil map'')
      | Some m \<Rightarrow>
          let m' = fmupd ''clusterMetadata'' (JObj (metadata_doc ci)) m in
          if ClusterManagerOpenShift \<in> set (managers ci) then
            (case fmlookup m ''distro'' of
               None \<Rightarrow> Inr (Some (fmupd ''distro'' (JObj (openshift_doc fmempty)) m'))
             | Some (JObj d) \<Rightarrow> Inr (Some (fmupd ''distro'' (JObj (openshift_doc d)) m'))
             | Some _ \<Rightarrow> Inl (ErrText ''value cannot be set: not a map[string]interface{}''))
          else Inr (Some m'))"
proof (cases overrides)
  case None
  then show ?thesis by (simp add: GetOverrideValues_def)
next
  case (Some m)
  let ?b = "fmap_of_list [(''uid'', JStr (ci_uid ci)), (''name'', JStr (ci_name ci))]"
  have "set_capi (ci_capi ci) (fmupd ''clusterMetadata'' (JObj ?b) m) =
     Inr (fmupd ''clusterMetadata'' (JObj (case ci_capi ci of None \<Rightarrow> ?b
       | Some ca \<Rightarrow> if capi_doc ca = fmempty then ?b else fmupd ''capi'' (JObj (capi_doc ca)) ?b)) m)"
  proof (cases "ci_capi ci")
    case None
    then show ?thesis by (simp add: set_capi_def)
  qed (simp add: set_capi_doc)
  then show ?thesis
    by (simp add: Some GetOverrideValues_def cluster_base_def set_managers_doc metadata_doc_def Let_def
        split: option.split json.split)
qed

text \<open>A CAPI cluster named prod, of the namespace capi, is rendered with the name capi.\<close>

lemma override_values_capi:
  "GetOverrideValues (Some fmempty)
     (Some \<lparr> ci_uid = ''u'', ci_name = ''n'', ci_managers = None,
             ci_capi = Some \<lparr> ca_provider = ''capa'', ca_ns = ''capi'', ca_cluster = ''prod'' \<rparr> \<rparr>) = Inr (Some m) \<Longrightarrow>
   NestedString m [''clusterMetadata'', ''capi'', ''clusterName''] = Inr (Some ''capi'')"
  by (simp add: GetOverrideValues_def set_capi_def set_managers_def set_nonempty_def cluster_base_def NestedString_def
      NestedFieldNoCopy_def) (auto simp: NestedString_def NestedFieldNoCopy_def)

end
