(* ===== verification/DeepCopy.thy ===== *)
theory DeepCopy
  imports ProfileTypes
begin

text \<open>
  The generated deep copies of the API types (\<open>zz_generated.deepcopy.go\<close>), over an explicit
  heap: slices, maps and pointers are addresses, a struct is a record that may hold some.
  The interface \<open>copier\<close> states what a deep copy promises: it only allocates, its result
  means the same, and it shares no cell with anything that was there before; so writing
  through the copy cannot change the original, nor the other way round. Every copy function
  of the file is an interpretation. The fields of \<open>ObjectMeta\<close> and \<open>ListMeta\<close> are those the
  program uses.
\<close>

section \<open>Structs with addresses, and cells\<close>

type_synonym ref = "nat option" \<comment> \<open>None is nil\<close>

record hchart =
  hch_info :: chartinfo
  hch_files :: ref

record hfspec =
  hf_set :: string
  hf_chart :: hchart
  hf_from :: ref
  hf_values :: ref

record hcluster =
  hcl_uid :: string
  hcl_name :: string
  hcl_managers :: ref
  hcl_capi :: ref

record hmeta =
  hm_name :: string
  hm_ns :: string
  hm_created :: gotime
  hm_labels :: ref
  hm_annots :: ref
  hm_owners :: ref

record hlistmeta =
  hl_version :: string
  hl_continue :: string
  hl_remaining :: ref

record hbindspec =
  hb_profile :: string
  hb_version :: string
  hb_cluster :: hcluster
  hb_features :: ref

record hcondition =
  hd_type :: string
  hd_status :: string
  hd_transition :: gotime

record hbindstatus =
  hs_phase :: string
  hs_generation :: int64
  hs_version :: string
  hs_conditions :: ref
  hs_upgraded :: gotime

record hbinding =
  hbd_meta :: hmeta
  hbd_spec :: hbindspec
  hbd_status :: hbindstatus

record hprofspec =
  hp_namespaces :: ref
  hp_features :: ref

record hprofile =
  hpr_meta :: hmeta
  hpr_spec :: hprofspec

record hbindinglist =
  hbl_meta :: hlistmeta
  hbl_items :: ref

record hprofilelist =
  hpl_meta :: hlistmeta
  hpl_items :: ref

datatype cell =
    CStrings "string list"
  | CBytes string
  | CJson ref
  | CRefs "uivaluesref list"
  | CCapi capiinfo
  | CCount int64
  | CMap "(string \<times> string) list"
  | COwners "owner_ref list"
  | CFeatures "(string \<times> hfspec) list"
  | CConditions "hcondition list"
  | CBindings "hbinding list"
  | CProfiles "hprofile list"

type_synonym heap = "cell list"
type_synonym 'v copying = "'v \<Rightarrow> heap \<Rightarrow> 'v \<times> heap"

section \<open>What a deep copy promises\<close>

text \<open>
  \<open>den h v\<close> is what \<open>v\<close> means in the heap, \<open>ok h v\<close> says that its addresses are those of
  cells of the right type, \<open>reach h v\<close> are the cells it reaches.
\<close>

locale copier =
  fixes cp :: "'v copying" and den :: "heap \<Rightarrow> 'v \<Rightarrow> 'd" and ok :: "heap \<Rightarrow> 'v \<Rightarrow> bool"
    and reach :: "heap \<Rightarrow> 'v \<Rightarrow> nat set"
  assumes bound: "ok h v \<Longrightarrow> reach h v \<subseteq> {..<length h}"
    and local_: "ok h v \<Longrightarrow> (\<And>a. a \<in> reach h v \<Longrightarrow> a < length h' \<and> h' ! a = h ! a) \<Longrightarrow>
      ok h' v \<and> den h' v = den h v \<and> reach h' v = reach h v"
    and copies: "ok h v \<Longrightarrow> cp v h = (v', h') \<Longrightarrow>
      (\<exists>cs. h' = h @ cs) \<and> ok h' v' \<and> den h' v' = den h v \<and> reach h' v' \<inter> {..<length h} = {}"
begin

lemma extend: "ok h v \<Longrightarrow> ok (h @ cs) v \<and> den (h @ cs) v = den h v \<and> reach (h @ cs) v = reach h v"
  using bound [of h v] by (intro local_) (auto simp: nth_append)

lemma elsewhere:
  assumes "ok h v" and "a \<notin> reach h v"
  shows "den (h[a := c]) v = den h v"
proof -
  have "b < length (h[a := c]) \<and> h[a := c] ! b = h ! b" if "b \<in> reach h v" for b
  proof -
    from that assms bound [OF assms(1)] have "b < length h" "a \<noteq> b" by auto
    then show ?thesis by simp
  qed
  from local_ [OF assms(1) this] show ?thesis by simp
qed

text \<open>Equal now, and independent ever after.\<close>

lemma independent:
  assumes "ok h v" and "cp v h = (v', h')"
  shows "den h' v' = den h v \<and> den h' v = den h v \<and>
    (a \<in> reach h' v' \<longrightarrow> den (h'[a := c]) v = den h v) \<and>
    (a \<in> reach h v \<longrightarrow> den (h'[a := c]) v' = den h v)"
proof -
  from copies [OF assms] obtain cs where h': "h' = h @ cs" and v': "ok h' v'" "den h' v' = den h v"
    and f: "reach h' v' \<inter> {..<length h} = {}" by blast
  from extend [OF assms(1), of cs] have v: "ok h' v" "den h' v = den h v" "reach h' v = reach h v" by (simp_all add: h')
  from f bound [OF assms(1)] v(3) have "a \<in> reach h' v' \<Longrightarrow> a \<notin> reach h' v" by auto
  moreover from f bound [OF assms(1)] have "a \<in> reach h v \<Longrightarrow> a \<notin> reach h' v'" by auto
  ultimately show ?thesis using v v' elsewhere by metis
qed

end

section \<open>Building copies\<close>

definition copy_plain :: "'v copying" where
  "copy_plain v h = (v, h)"

definition copy_pair :: "'a copying \<Rightarrow> 'b copying \<Rightarrow> ('a \<times> 'b) copying" where
  "copy_pair c1 c2 v h = (case c1 (fst v) h of (x, h1) \<Rightarrow> case c2 (snd v) h1 of (y, h2) \<Rightarrow> ((x, y), h2))"

fun copy_each :: "'a copying \<Rightarrow> 'a list copying" where
  "copy_each c [] h = ([], h)"
| "copy_each c (x # xs) h = (case c x h of (y, h1) \<Rightarrow> case copy_each c xs h1 of (ys, h2) \<Rightarrow> (y # ys, h2))"

text \<open>A nil stays nil; what an address holds is copied into a new cell.\<close>

definition copy_cell :: "(cell \<Rightarrow> 'x option) \<Rightarrow> ('x \<Rightarrow> cell) \<Rightarrow> 'x copying \<Rightarrow> ref copying" where
  "copy_cell get mk c r h =
     (case r of
        None \<Rightarrow> (None, h)
      | Some a \<Rightarrow>
          (case get (h ! a) of
             None \<Rightarrow> (None, h)
           | Some x \<Rightarrow> (case c x h of (y, h1) \<Rightarrow> (Some (length h1), h1 @ [mk y]))))"

definition den_ref :: "(cell \<Rightarrow> 'x option) \<Rightarrow> (heap \<Rightarrow> 'x \<Rightarrow> 'd) \<Rightarrow> heap \<Rightarrow> ref \<Rightarrow> 'd option" where
  "den_ref get d h r = (case r of None \<Rightarrow> None | Some a \<Rightarrow> map_option (d h) (get (h ! a)))"

definition ok_ref :: "(cell \<Rightarrow> 'x option) \<Rightarrow> (heap \<Rightarrow> 'x \<Rightarrow> bool) \<Rightarrow> heap \<Rightarrow> ref \<Rightarrow> bool" where
  "ok_ref get ok h r \<longleftrightarrow>
     (case r of None \<Rightarrow> True
      | Some a \<Rightarrow> a < length h \<and> (case get (h ! a) of None \<Rightarrow> False | Some x \<Rightarrow> ok h x))"

definition reach_ref :: "(cell \<Rightarrow> 'x option) \<Rightarrow> (heap \<Rightarrow> 'x \<Rightarrow> nat set) \<Rightarrow> heap \<Rightarrow> ref \<Rightarrow> nat set" where
  "reach_ref get rc h r =
     (case r of None \<Rightarrow> {} | Some a \<Rightarrow> insert a (case get (h ! a) of None \<Rightarrow> {} | Some x \<Rightarrow> rc h x))"

definition den_plain :: "heap \<Rightarrow> 'v \<Rightarrow> 'v" where "den_plain h v = v"
definition ok_plain :: "heap \<Rightarrow> 'v \<Rightarrow> bool" where "ok_plain h v = True"
definition reach_plain :: "heap \<Rightarrow> 'v \<Rightarrow> nat set" where "reach_plain h v = {}"

definition den_pair :: "(heap \<Rightarrow> 'a \<Rightarrow> 'd) \<Rightarrow> (heap \<Rightarrow> 'b \<Rightarrow> 'e) \<Rightarrow> heap \<Rightarrow> 'a \<times> 'b \<Rightarrow> 'd \<times> 'e" where
  "den_pair d1 d2 h v = (d1 h (fst v), d2 h (snd v))"
definition ok_pair :: "(heap \<Rightarrow> 'a \<Rightarrow> bool) \<Rightarrow> (heap \<Rightarrow> 'b \<Rightarrow> bool) \<Rightarrow> heap \<Rightarrow> 'a \<times> 'b \<Rightarrow> bool" where
  "ok_pair o1 o2 h v \<longleftrightarrow> o1 h (fst v) \<and> o2 h (snd v)"
definition reach_pair :: "(heap \<Rightarrow> 'a \<Rightarrow> nat set) \<Rightarrow> (heap \<Rightarrow> 'b \<Rightarrow> nat set) \<Rightarrow> heap \<Rightarrow> 'a \<times> 'b \<Rightarrow> nat set" where
  "reach_pair r1 r2 h v = r1 h (fst v) \<union> r2 h (snd v)"

definition den_each :: "(heap \<Rightarrow> 'a \<Rightarrow> 'd) \<Rightarrow> heap \<Rightarrow> 'a list \<Rightarrow> 'd list" where
  "den_each d h = map (d h)"
definition ok_each :: "(heap \<Rightarrow> 'a \<Rightarrow> bool) \<Rightarrow> heap \<Rightarrow> 'a list \<Rightarrow> bool" where
  "ok_each o1 h = list_all (o1 h)"
definition reach_each :: "(heap \<Rightarrow> 'a \<Rightarrow> nat set) \<Rightarrow> heap \<Rightarrow> 'a list \<Rightarrow> nat set" where
  "reach_each r h xs = \<Union> (r h ` set xs)"

lemma copier_plain: "copier copy_plain den_plain ok_plain reach_plain"
  by unfold_locales (auto simp: copy_plain_def den_plain_def ok_plain_def reach_plain_def)

lemma copier_pair:
  assumes "copier c1 d1 o1 r1" and "copier c2 d2 o2 r2"
  shows "copier (copy_pair c1 c2) (den_pair d1 d2) (ok_pair o1 o2) (reach_pair r1 r2)"
  unfolding den_pair_def [abs_def] ok_pair_def [abs_def] reach_pair_def [abs_def]
proof
  fix h v
  assume "o1 h (fst v) \<and> o2 h (snd v)"
  then show "r1 h (fst v) \<union> r2 h (snd v) \<subseteq> {..<length h}"
    using copier.bound [OF assms(1)] copier.bound [OF assms(2)] by blast
next
  fix h v h'
  assume o: "o1 h (fst v) \<and> o2 h (snd v)"
    and r: "\<And>a. a \<in> r1 h (fst v) \<union> r2 h (snd v) \<Longrightarrow> a < length h' \<and> h' ! a = h ! a"
  show "(o1 h' (fst v) \<and> o2 h' (snd v)) \<and> (d1 h' (fst v), d2 h' (snd v)) = (d1 h (fst v), d2 h (snd v)) \<and>
      r1 h' (fst v) \<union> r2 h' (snd v) = r1 h (fst v) \<union> r2 h (snd v)"
    using copier.local_ [OF assms(1), of h "fst v" h'] copier.local_ [OF assms(2), of h "snd v" h'] o r by simp
next
  fix h v v' h'
  assume o: "o1 h (fst v) \<and> o2 h (snd v)" and c: "copy_pair c1 c2 v h = (v', h')"
  obtain x h1 y where x: "c1 (fst v) h = (x, h1)" and y: "c2 (snd v) h1 = (y, h')" and v': "v' = (x, y)"
    using c by (auto simp: copy_pair_def split: prod.splits)
  from copier.copies [OF assms(1) _ x] o obtain cs where
    h1: "h1 = h @ cs" "o1 h1 x" "d1 h1 x = d1 h (fst v)" "r1 h1 x \<inter> {..<length h} = {}" by blast
  have s: "o2 h1 (snd v)" "d2 h1 (snd v) = d2 h (snd v)"
    using copier.extend [OF assms(2)] o by (simp_all add: h1(1))
  from copier.copies [OF assms(2) s(1) y] obtain cs' where
    h': "h' = h1 @ cs'" "o2 h' y" "d2 h' y = d2 h1 (snd v)" "r2 h' y \<inter> {..<length h1} = {}" by blast
  have "o1 h' x" "d1 h' x = d1 h1 x" "r1 h' x = r1 h1 x"
    using copier.extend [OF assms(1) h1(2)] by (simp_all add: h'(1))
  with h1 h' s(2) v' show "(\<exists>cs. h' = h @ cs) \<and> (o1 h' (fst v') \<and> o2 h' (snd v')) \<and>
      (d1 h' (fst v'), d2 h' (snd v')) = (d1 h (fst v), d2 h (snd v)) \<and>
      (r1 h' (fst v') \<union> r2 h' (snd v')) \<inter> {..<length h} = {}"
    by auto
qed

lemma copier_each:
  assumes "copier c d o1 r"
  shows "copier (copy_each c) (den_each d) (ok_each o1) (reach_each r)"
  unfolding den_each_def [abs_def] ok_each_def [abs_def] reach_each_def [abs_def]
proof
  fix h v
  assume "list_all (o1 h) v"
  then show "\<Union> (r h ` set v) \<subseteq> {..<length h}" using copier.bound [OF assms] by (auto simp: list_all_iff)
next
  fix h v h'
  assume o: "list_all (o1 h) v" and rr: "\<And>a. a \<in> \<Union> (r h ` set v) \<Longrightarrow> a < length h' \<and> h' ! a = h ! a"
  have "o1 h' x \<and> d h' x = d h x \<and> r h' x = r h x" if "x \<in> set v" for x
    using copier.local_ [OF assms, of h x h'] o rr that by (auto simp: list_all_iff)
  then show "list_all (o1 h') v \<and> map (d h') v = map (d h) v \<and> \<Union> (r h' ` set v) = \<Union> (r h ` set v)"
    by (simp add: list_all_iff)
next
  show "(\<exists>cs. h' = h @ cs) \<and> list_all (o1 h') v' \<and> map (d h') v' = map (d h) v \<and> \<Union> (r h' ` set v') \<inter> {..<length h} = {}"
    if "list_all (o1 h) v" and "copy_each c v h = (v', h')" for h v v' h'
    using that
  proof (induction v arbitrary: h v')
    case Nil
    then show ?case by simp
  next
    case (Cons x xs)
    from Cons.prems(2) obtain y h1 ys where y: "c x h = (y, h1)" and ys: "copy_each c xs h1 = (ys, h')" and v': "v' = y # ys"
      by (auto split: prod.splits)
    from copier.copies [OF assms _ y] Cons.prems(1) obtain cs where
      h1: "h1 = h @ cs" "o1 h1 y" "d h1 y = d h x" "r h1 y \<inter> {..<length h} = {}" by auto
    have s: "list_all (o1 h1) xs" "map (d h1) xs = map (d h) xs"
      using copier.extend [OF assms] Cons.prems(1) by (auto simp: h1(1) list_all_iff)
    from Cons.IH [OF s(1) ys] obtain cs' where
      h': "h' = h1 @ cs'" "list_all (o1 h') ys" "map (d h') ys = map (d h1) xs" "\<Union> (r h' ` set ys) \<inter> {..<length h1} = {}"
      by blast
    have "o1 h' y" "d h' y = d h1 y" "r h' y = r h1 y"
      using copier.extend [OF assms h1(2)] by (simp_all add: h'(1))
    moreover have "\<Union> (r h' ` set ys) \<inter> {..<length h} = {}" using h'(4) h1(1) by auto
    ultimately show ?case using h1 h' s(2) v' by (simp add: Int_Un_distrib2)
  qed
qed

lemma copier_cell:
  assumes "copier c d o1 r" and "\<And>x. get (mk x) = Some x"
  shows "copier (copy_cell get mk c) (den_ref get d) (ok_ref get o1) (reach_ref get r)"
proof
  fix h v
  assume "ok_ref get o1 h v"
  then show "reach_ref get r h v \<subseteq> {..<length h}"
    using copier.bound [OF assms(1)] by (fastforce simp: ok_ref_def reach_ref_def split: option.splits)
next
  fix h v h'
  assume o: "ok_ref get o1 h v" and rr: "\<And>a. a \<in> reach_ref get r h v \<Longrightarrow> a < length h' \<and> h' ! a = h ! a"
  show "ok_ref get o1 h' v \<and> den_ref get d h' v = den_ref get d h v \<and> reach_ref get r h' v = reach_ref get r h v"
  proof (cases v)
    case None
    then show ?thesis by (simp add: ok_ref_def den_ref_def reach_ref_def)
  next
    case (Some a)
    with o obtain x where x: "get (h ! a) = Some x" "o1 h x" by (auto simp: ok_ref_def split: option.splits)
    have a: "a < length h'" "h' ! a = h ! a" using rr [of a] Some by (simp_all add: reach_ref_def)
    have "o1 h' x \<and> d h' x = d h x \<and> r h' x = r h x"
      using copier.local_ [OF assms(1) x(2)] rr Some x(1) by (simp add: reach_ref_def)
    with Some x a show ?thesis by (simp add: ok_ref_def den_ref_def reach_ref_def)
  qed
next
  fix h v v' h'
  assume o: "ok_ref get o1 h v" and c: "copy_cell get mk c v h = (v', h')"
  show "(\<exists>cs. h' = h @ cs) \<and> ok_ref get o1 h' v' \<and> den_ref get d h' v' = den_ref get d h v \<and>
     reach_ref get r h' v' \<inter> {..<length h} = {}"
  proof (cases v)
    case None
    with c show ?thesis by (simp add: copy_cell_def ok_ref_def den_ref_def reach_ref_def)
  next
    case (Some a)
    with o obtain x where x: "get (h ! a) = Some x" "o1 h x" by (auto simp: ok_ref_def split: option.splits)
    with c Some obtain y h1 where y: "c x h = (y, h1)" "v' = Some (length h1)" "h' = h1 @ [mk y]"
      by (auto simp: copy_cell_def split: prod.splits)
    from copier.copies [OF assms(1) x(2) y(1)] obtain cs where
      h1: "h1 = h @ cs" "o1 h1 y" "d h1 y = d h x" "r h1 y \<inter> {..<length h} = {}" by blast
    have "o1 h' y" "d h' y = d h1 y" "r h' y = r h1 y"
      using copier.extend [OF assms(1) h1(2)] by (simp_all add: y(3))
    moreover have "get (h' ! length h1) = Some y" by (simp add: y(3) assms(2))
    ultimately show ?thesis
      using h1 y Some x by (simp add: ok_ref_def den_ref_def reach_ref_def)
  qed
qed

text \<open>A struct is copied as the tuple of its fields.\<close>

lemma copier_struct:
  assumes "copier c d o1 r" and "\<And>x. from (to x) = x" and "\<And>v h. cp v h = (case c (from v) h of (x, h') \<Rightarrow> (to x, h'))"
  shows "copier cp (\<lambda>h v. d h (from v)) (\<lambda>h v. o1 h (from v)) (\<lambda>h v. r h (from v))"
proof
  fix h v
  assume "o1 h (from v)"
  then show "r h (from v) \<subseteq> {..<length h}" by (rule copier.bound [OF assms(1)])
next
  fix h v h'
  assume "o1 h (from v)" and "\<And>a. a \<in> r h (from v) \<Longrightarrow> a < length h' \<and> h' ! a = h ! a"
  then show "o1 h' (from v) \<and> d h' (from v) = d h (from v) \<and> r h' (from v) = r h (from v)"
    by (rule copier.local_ [OF assms(1)])
next
  fix h v v' h'
  assume o: "o1 h (from v)" and c: "cp v h = (v', h')"
  obtain x where x: "c (from v) h = (x, h')" "v' = to x"
    using c assms(3) [of v h] by (auto split: prod.splits)
  from copier.copies [OF assms(1) o x(1)] show
    "(\<exists>cs. h' = h @ cs) \<and> o1 h' (from v') \<and> d h' (from v') = d h (from v) \<and> r h' (from v') \<inter> {..<length h} = {}"
    by (simp add: x(2) assms(2))
qed

text \<open>\<open>DeepCopy\<close> of a pointer: nil gives nil, else a new struct the receiver is copied into.\<close>

definition copy_pointer :: "'v copying \<Rightarrow> 'v option copying" where
  "copy_pointer c v h =
     (case v of None \<Rightarrow> (None, h) | Some x \<Rightarrow> (case c x h of (out, h1) \<Rightarrow> (Some out, h1)))"

section \<open>Cells by type\<close>

definition as_strings :: "cell \<Rightarrow> (string list) option" where
  "as_strings c = (case c of CStrings x \<Rightarrow> Some x | _ \<Rightarrow> None)"

definition as_bytes :: "cell \<Rightarrow> string option" where
  "as_bytes c = (case c of CBytes x \<Rightarrow> Some x | _ \<Rightarrow> None)"

definition as_json :: "cell \<Rightarrow> ref option" where
  "as_json c = (case c of CJson x \<Rightarrow> Some x | _ \<Rightarrow> None)"

definition as_refs :: "cell \<Rightarrow> (uivaluesref list) option" where
  "as_refs c = (case c of CRefs x \<Rightarrow> Some x | _ \<Rightarrow> None)"

definition as_capi :: "cell \<Rightarrow> capiinfo option" where
  "as_capi c = (case c of CCapi x \<Rightarrow> Some x | _ \<Rightarrow> None)"

definition as_count :: "cell \<Rightarrow> int64 option" where
  "as_count c = (case c of CCount x \<Rightarrow> Some x | _ \<Rightarrow> None)"

definition as_map :: "cell \<Rightarrow> ((string \<times> string) list) option" where
  "as_map c = (case c of CMap x \<Rightarrow> Some x | _ \<Rightarrow> None)"

definition as_owners :: "cell \<Rightarrow> (owner_ref list) option" where
  "as_owners c = (case c of COwners x \<Rightarrow> Some x | _ \<Rightarrow> None)"

definition as_features :: "cell \<Rightarrow> ((string \<times> hfspec) list) option" where
  "as_features c = (case c of CFeatures x \<Rightarrow> Some x | _ \<Rightarrow> None)"

definition as_conditions :: "cell \<Rightarrow> (hcondition list) option" where
  "as_conditions c = (case c of CConditions x \<Rightarrow> Some x | _ \<Rightarrow> None)"

definition as_bindings :: "cell \<Rightarrow> (hbinding list) option" where
  "as_bindings c = (case c of CBindings x \<Rightarrow> Some x | _ \<Rightarrow> None)"

definition as_profiles :: "cell \<Rightarrow> (hprofile list) option" where
  "as_profiles c = (case c of CProfiles x \<Rightarrow> Some x | _ \<Rightarrow> None)"

lemma as_simps [simp]:
  "as_strings (CStrings xs) = Some xs"
  "as_bytes (CBytes s) = Some s"
  "as_json (CJson r) = Some r"
  "as_refs (CRefs vs) = Some vs"
  "as_capi (CCapi ci) = Some ci"
  "as_count (CCount n) = Some n"
  "as_map (CMap m) = Some m"
  "as_owners (COwners os) = Some os"
  "as_features (CFeatures fs) = Some fs"
  "as_conditions (CConditions cs) = Some cs"
  "as_bindings (CBindings bs) = Some bs"
  "as_profiles (CProfiles ps) = Some ps"
  by (simp_all add: as_strings_def as_bytes_def as_json_def as_refs_def as_capi_def as_count_def as_map_def as_owners_def as_features_def as_conditions_def as_bindings_def as_profiles_def)

section \<open>The copies\<close>

text \<open>The vendored structs inside.\<close>

definition ChartInfo_DeepCopyInto :: "hchart copying" where
  "ChartInfo_DeepCopyInto v h =
    (case (copy_cell as_strings CStrings copy_plain) (hch_files v) h of (x0, h1) \<Rightarrow>
       (v\<lparr>hch_files := x0\<rparr>, h1))"

definition chart_fields where
  "chart_fields v = (hch_info v, hch_files v)"

definition chart_of where
  "chart_of x = (case x of (p0, x0) \<Rightarrow> \<lparr> hch_info = p0, hch_files = x0 \<rparr>)"

definition den_chart where
  "den_chart h v = (den_pair den_plain (den_ref as_strings den_plain)) h (chart_fields v)"

definition ok_chart where
  "ok_chart h v = (ok_pair ok_plain (ok_ref as_strings ok_plain)) h (chart_fields v)"

definition reach_chart where
  "reach_chart h v = (reach_pair reach_plain (reach_ref as_strings reach_plain)) h (chart_fields v)"

interpretation chart: copier ChartInfo_DeepCopyInto den_chart ok_chart reach_chart
  unfolding den_chart_def [abs_def] ok_chart_def [abs_def] reach_chart_def [abs_def]
  by (rule copier_struct [where to = chart_of, 
      OF copier_pair [OF copier_plain copier_cell [OF copier_plain as_simps(1)]]])
    (auto simp: ChartInfo_DeepCopyInto_def chart_fields_def chart_of_def copy_pair_def copy_plain_def
      intro!: hchart.equality split: prod.split)

definition ClusterInfo_DeepCopyInto :: "hcluster copying" where
  "ClusterInfo_DeepCopyInto v h =
    (case (copy_cell as_strings CStrings copy_plain) (hcl_managers v) h of (x0, h1) \<Rightarrow>
    (case (copy_cell as_capi CCapi copy_plain) (hcl_capi v) h1 of (x1, h2) \<Rightarrow>
       (v\<lparr>hcl_managers := x0, hcl_capi := x1\<rparr>, h2)))"

definition cluster_fields where
  "cluster_fields v = ((hcl_uid v, hcl_name v), (hcl_managers v, hcl_capi v))"

definition cluster_of where
  "cluster_of x = (case x of ((p0, p1), (x0, x1)) \<Rightarrow> \<lparr> hcl_uid = p0, hcl_name = p1, hcl_managers = x0, hcl_capi = x1 \<rparr>)"

definition den_cluster where
  "den_cluster h v = (den_pair den_plain (den_pair (den_ref as_strings den_plain) (den_ref as_capi den_plain))) h (cluster_fields v)"

definition ok_cluster where
  "ok_cluster h v = (ok_pair ok_plain (ok_pair (ok_ref as_strings ok_plain) (ok_ref as_capi ok_plain))) h (cluster_fields v)"

definition reach_cluster where
  "reach_cluster h v = (reach_pair reach_plain (reach_pair (reach_ref as_strings reach_plain) (reach_ref as_capi reach_plain))) h (cluster_fields v)"

interpretation cluster: copier ClusterInfo_DeepCopyInto den_cluster ok_cluster reach_cluster
  unfolding den_cluster_def [abs_def] ok_cluster_def [abs_def] reach_cluster_def [abs_def]
  by (rule copier_struct [where to = cluster_of, 
      OF copier_pair [OF copier_plain copier_pair [OF copier_cell [OF copier_plain as_simps(1)] copier_cell [OF copier_plain as_simps(5)]]]])
    (auto simp: ClusterInfo_DeepCopyInto_def cluster_fields_def cluster_of_def copy_pair_def copy_plain_def
      intro!: hcluster.equality split: prod.split)

definition ObjectMeta_DeepCopyInto :: "hmeta copying" where
  "ObjectMeta_DeepCopyInto v h =
    (case (copy_cell as_map CMap copy_plain) (hm_labels v) h of (x0, h1) \<Rightarrow>
    (case (copy_cell as_map CMap copy_plain) (hm_annots v) h1 of (x1, h2) \<Rightarrow>
    (case (copy_cell as_owners COwners copy_plain) (hm_owners v) h2 of (x2, h3) \<Rightarrow>
       (v\<lparr>hm_labels := x0, hm_annots := x1, hm_owners := x2\<rparr>, h3))))"

definition meta_fields where
  "meta_fields v = ((hm_name v, hm_ns v, hm_created v), (hm_labels v, (hm_annots v, hm_owners v)))"

definition meta_of where
  "meta_of x = (case x of ((p0, p1, p2), (x0, (x1, x2))) \<Rightarrow> \<lparr> hm_name = p0, hm_ns = p1, hm_created = p2, hm_labels = x0, hm_annots = x1, hm_owners = x2 \<rparr>)"

definition den_meta where
  "den_meta h v = (den_pair den_plain (den_pair (den_ref as_map den_plain) (den_pair (den_ref as_map den_plain) (den_ref as_owners den_plain)))) h (meta_fields v)"

definition ok_meta where
  "ok_meta h v = (ok_pair ok_plain (ok_pair (ok_ref as_map ok_plain) (ok_pair (ok_ref as_map ok_plain) (ok_ref as_owners ok_plain)))) h (meta_fields v)"

definition reach_meta where
  "reach_meta h v = (reach_pair reach_plain (reach_pair (reach_ref as_map reach_plain) (reach_pair (reach_ref as_map reach_plain) (reach_ref as_owners reach_plain)))) h (meta_fields v)"

interpretation meta: copier ObjectMeta_DeepCopyInto den_meta ok_meta reach_meta
  unfolding den_meta_def [abs_def] ok_meta_def [abs_def] reach_meta_def [abs_def]
  by (rule copier_struct [where to = meta_of, 
      OF copier_pair [OF copier_plain copier_pair [OF copier_cell [OF copier_plain as_simps(7)] copier_pair [OF copier_cell [OF copier_plain as_simps(7)] copier_cell [OF copier_plain as_simps(8)]]]]])
    (auto simp: ObjectMeta_DeepCopyInto_def meta_fields_def meta_of_def copy_pair_def copy_plain_def
      intro!: hmeta.equality split: prod.split)

definition ListMeta_DeepCopyInto :: "hlistmeta copying" where
  "ListMeta_DeepCopyInto v h =
    (case (copy_cell as_count CCount copy_plain) (hl_remaining v) h of (x0, h1) \<Rightarrow>
       (v\<lparr>hl_remaining := x0\<rparr>, h1))"

definition lmeta_fields where
  "lmeta_fields v = ((hl_version v, hl_continue v), hl_remaining v)"

definition lmeta_of where
  "lmeta_of x = (case x of ((p0, p1), x0) \<Rightarrow> \<lparr> hl_version = p0, hl_continue = p1, hl_remaining = x0 \<rparr>)"

definition den_lmeta where
  "den_lmeta h v = (den_pair den_plain (den_ref as_count den_plain)) h (lmeta_fields v)"

definition ok_lmeta where
  "ok_lmeta h v = (ok_pair ok_plain (ok_ref as_count ok_plain)) h (lmeta_fields v)"

definition reach_lmeta where
  "reach_lmeta h v = (reach_pair reach_plain (reach_ref as_count reach_plain)) h (lmeta_fields v)"

interpretation lmeta: copier ListMeta_DeepCopyInto den_lmeta ok_lmeta reach_lmeta
  unfolding den_lmeta_def [abs_def] ok_lmeta_def [abs_def] reach_lmeta_def [abs_def]
  by (rule copier_struct [where to = lmeta_of, 
      OF copier_pair [OF copier_plain copier_cell [OF copier_plain as_simps(6)]]])
    (auto simp: ListMeta_DeepCopyInto_def lmeta_fields_def lmeta_of_def copy_pair_def copy_plain_def
      intro!: hlistmeta.equality split: prod.split)

text \<open>The structs of the program. A pointer argument is an option: nil is copied to nil.\<close>

definition FeatureSpec_DeepCopyInto :: "hfspec copying" where
  "FeatureSpec_DeepCopyInto v h =
    (case ChartInfo_DeepCopyInto (hf_chart v) h of (x0, h1) \<Rightarrow>
    (case (copy_cell as_refs CRefs copy_plain) (hf_from v) h1 of (x1, h2) \<Rightarrow>
    (case (copy_cell as_json CJson (copy_cell as_bytes CBytes copy_plain)) (hf_values v) h2 of (x2, h3) \<Rightarrow>
       (v\<lparr>hf_chart := x0, hf_from := x1, hf_values := x2\<rparr>, h3))))"

definition fspec_fields where
  "fspec_fields v = (hf_set v, (hf_chart v, (hf_from v, hf_values v)))"

definition fspec_of where
  "fspec_of x = (case x of (p0, (x0, (x1, x2))) \<Rightarrow> \<lparr> hf_set = p0, hf_chart = x0, hf_from = x1, hf_values = x2 \<rparr>)"

definition den_fspec where
  "den_fspec h v = (den_pair den_plain (den_pair den_chart (den_pair (den_ref as_refs den_plain) (den_ref as_json (den_ref as_bytes den_plain))))) h (fspec_fields v)"

definition ok_fspec where
  "ok_fspec h v = (ok_pair ok_plain (ok_pair ok_chart (ok_pair (ok_ref as_refs ok_plain) (ok_ref as_json (ok_ref as_bytes ok_plain))))) h (fspec_fields v)"

definition reach_fspec where
  "reach_fspec h v = (reach_pair reach_plain (reach_pair reach_chart (reach_pair (reach_ref as_refs reach_plain) (reach_ref as_json (reach_ref as_bytes reach_plain))))) h (fspec_fields v)"

interpretation fspec: copier FeatureSpec_DeepCopyInto den_fspec ok_fspec reach_fspec
  unfolding den_fspec_def [abs_def] ok_fspec_def [abs_def] reach_fspec_def [abs_def]
  by (rule copier_struct [where to = fspec_of, 
      OF copier_pair [OF copier_plain copier_pair [OF chart.copier_axioms copier_pair [OF copier_cell [OF copier_plain as_simps(4)] copier_cell [OF copier_cell [OF copier_plain as_simps(2)] as_simps(3)]]]]])
    (auto simp: FeatureSpec_DeepCopyInto_def fspec_fields_def fspec_of_def copy_pair_def copy_plain_def
      intro!: hfspec.equality split: prod.split)

definition FeatureSpec_DeepCopy :: "hfspec option copying" where
  "FeatureSpec_DeepCopy = copy_pointer FeatureSpec_DeepCopyInto"

definition ManagedClusterProfileBindingSpec_DeepCopyInto :: "hbindspec copying" where
  "ManagedClusterProfileBindingSpec_DeepCopyInto v h =
    (case ClusterInfo_DeepCopyInto (hb_cluster v) h of (x0, h1) \<Rightarrow>
    (case (copy_cell as_features CFeatures (copy_each (copy_pair copy_plain FeatureSpec_DeepCopyInto))) (hb_features v) h1 of (x1, h2) \<Rightarrow>
       (v\<lparr>hb_cluster := x0, hb_features := x1\<rparr>, h2)))"

definition bspec_fields where
  "bspec_fields v = ((hb_profile v, hb_version v), (hb_cluster v, hb_features v))"

definition bspec_of where
  "bspec_of x = (case x of ((p0, p1), (x0, x1)) \<Rightarrow> \<lparr> hb_profile = p0, hb_version = p1, hb_cluster = x0, hb_features = x1 \<rparr>)"

definition den_bspec where
  "den_bspec h v = (den_pair den_plain (den_pair den_cluster (den_ref as_features (den_each (den_pair den_plain den_fspec))))) h (bspec_fields v)"

definition ok_bspec where
  "ok_bspec h v = (ok_pair ok_plain (ok_pair ok_cluster (ok_ref as_features (ok_each (ok_pair ok_plain ok_fspec))))) h (bspec_fields v)"

definition reach_bspec where
  "reach_bspec h v = (reach_pair reach_plain (reach_pair reach_cluster (reach_ref as_features (reach_each (reach_pair reach_plain reach_fspec))))) h (bspec_fields v)"

interpretation bspec: copier ManagedClusterProfileBindingSpec_DeepCopyInto den_bspec ok_bspec reach_bspec
  unfolding den_bspec_def [abs_def] ok_bspec_def [abs_def] reach_bspec_def [abs_def]
  by (rule copier_struct [where to = bspec_of, 
      OF copier_pair [OF copier_plain copier_pair [OF cluster.copier_axioms copier_cell [OF copier_each [OF copier_pair [OF copier_plain fspec.copier_axioms]] as_simps(9)]]]])
    (auto simp: ManagedClusterProfileBindingSpec_DeepCopyInto_def bspec_fields_def bspec_of_def copy_pair_def copy_plain_def
      intro!: hbindspec.equality split: prod.split)

definition ManagedClusterProfileBindingSpec_DeepCopy :: "hbindspec option copying" where
  "ManagedClusterProfileBindingSpec_DeepCopy = copy_pointer ManagedClusterProfileBindingSpec_DeepCopyInto"

definition ManagedClusterProfileBindingStatus_DeepCopyInto :: "hbindstatus copying" where
  "ManagedClusterProfileBindingStatus_DeepCopyInto v h =
    (case (copy_cell as_conditions CConditions copy_plain) (hs_conditions v) h of (x0, h1) \<Rightarrow>
       (v\<lparr>hs_conditions := x0\<rparr>, h1))"

definition bstatus_fields where
  "bstatus_fields v = ((hs_phase v, hs_generation v, hs_version v, hs_upgraded v), hs_conditions v)"

definition bstatus_of where
  "bstatus_of x = (case x of ((p0, p1, p2, p3), x0) \<Rightarrow> \<lparr> hs_phase = p0, hs_generation = p1, hs_version = p2, hs_conditions = x0, hs_upgraded = p3 \<rparr>)"

definition den_bstatus where
  "den_bstatus h v = (den_pair den_plain (den_ref as_conditions den_plain)) h (bstatus_fields v)"

definition ok_bstatus where
  "ok_bstatus h v = (ok_pair ok_plain (ok_ref as_conditions ok_plain)) h (bstatus_fields v)"

definition reach_bstatus where
  "reach_bstatus h v = (reach_pair reach_plain (reach_ref as_conditions reach_plain)) h (bstatus_fields v)"

interpretation bstatus: copier ManagedClusterProfileBindingStatus_DeepCopyInto den_bstatus ok_bstatus reach_bstatus
  unfolding den_bstatus_def [abs_def] ok_bstatus_def [abs_def] reach_bstatus_def [abs_def]
  by (rule copier_struct [where to = bstatus_of, 
      OF copier_pair [OF copier_plain copier_cell [OF copier_plain as_simps(10)]]])
    (auto simp: ManagedClusterProfileBindingStatus_DeepCopyInto_def bstatus_fields_def bstatus_of_def copy_pair_def copy_plain_def
      intro!: hbindstatus.equality split: prod.split)

definition ManagedClusterProfileBindingStatus_DeepCopy :: "hbindstatus option copying" where
  "ManagedClusterProfileBindingStatus_DeepCopy = copy_pointer ManagedClusterProfileBindingStatus_DeepCopyInto"

definition ManagedClusterProfileBinding_DeepCopyInto :: "hbinding copying" where
  "ManagedClusterProfileBinding_DeepCopyInto v h =
    (case ObjectMeta_DeepCopyInto (hbd_meta v) h of (x0, h1) \<Rightarrow>
    (case ManagedClusterProfileBindingSpec_DeepCopyInto (hbd_spec v) h1 of (x1, h2) \<Rightarrow>
    (case ManagedClusterProfileBindingStatus_DeepCopyInto (hbd_status v) h2 of (x2, h3) \<Rightarrow>
       (v\<lparr>hbd_meta := x0, hbd_spec := x1, hbd_status := x2\<rparr>, h3))))"

definition bind_fields where
  "bind_fields v = ((), (hbd_meta v, (hbd_spec v, hbd_status v)))"

definition bind_of where
  "bind_of x = (case x of (u, (x0, (x1, x2))) \<Rightarrow> \<lparr> hbd_meta = x0, hbd_spec = x1, hbd_status = x2 \<rparr>)"

definition den_bind where
  "den_bind h v = (den_pair den_plain (den_pair den_meta (den_pair den_bspec den_bstatus))) h (bind_fields v)"

definition ok_bind where
  "ok_bind h v = (ok_pair ok_plain (ok_pair ok_meta (ok_pair ok_bspec ok_bstatus))) h (bind_fields v)"

definition reach_bind where
  "reach_bind h v = (reach_pair reach_plain (reach_pair reach_meta (reach_pair reach_bspec reach_bstatus))) h (bind_fields v)"

interpretation bind: copier ManagedClusterProfileBinding_DeepCopyInto den_bind ok_bind reach_bind
  unfolding den_bind_def [abs_def] ok_bind_def [abs_def] reach_bind_def [abs_def]
  by (rule copier_struct [where to = bind_of, 
      OF copier_pair [OF copier_plain copier_pair [OF meta.copier_axioms copier_pair [OF bspec.copier_axioms bstatus.copier_axioms]]]])
    (auto simp: ManagedClusterProfileBinding_DeepCopyInto_def bind_fields_def bind_of_def copy_pair_def copy_plain_def
      intro!: hbinding.equality split: prod.split)

definition ManagedClusterProfileBinding_DeepCopy :: "hbinding option copying" where
  "ManagedClusterProfileBinding_DeepCopy = copy_pointer ManagedClusterProfileBinding_DeepCopyInto"

definition ManagedClusterProfileBinding_DeepCopyObject :: "hbinding option copying" where
  "ManagedClusterProfileBinding_DeepCopyObject v h =
     (case ManagedClusterProfileBinding_DeepCopy v h of
        (Some c, h1) \<Rightarrow> (Some c, h1)
      | (None, h1) \<Rightarrow> (None, h1))"

definition ManagedClusterProfileBindingList_DeepCopyInto :: "hbindinglist copying" where
  "ManagedClusterProfileBindingList_DeepCopyInto v h =
    (case ListMeta_DeepCopyInto (hbl_meta v) h of (x0, h1) \<Rightarrow>
    (case (copy_cell as_bindings CBindings (copy_each ManagedClusterProfileBinding_DeepCopyInto)) (hbl_items v) h1 of (x1, h2) \<Rightarrow>
       (v\<lparr>hbl_meta := x0, hbl_items := x1\<rparr>, h2)))"

definition blist_fields where
  "blist_fields v = ((), (hbl_meta v, hbl_items v))"

definition blist_of where
  "blist_of x = (case x of (u, (x0, x1)) \<Rightarrow> \<lparr> hbl_meta = x0, hbl_items = x1 \<rparr>)"

definition den_blist where
  "den_blist h v = (den_pair den_plain (den_pair den_lmeta (den_ref as_bindings (den_each den_bind)))) h (blist_fields v)"

definition ok_blist where
  "ok_blist h v = (ok_pair ok_plain (ok_pair ok_lmeta (ok_ref as_bindings (ok_each ok_bind)))) h (blist_fields v)"

definition reach_blist where
  "reach_blist h v = (reach_pair reach_plain (reach_pair reach_lmeta (reach_ref as_bindings (reach_each reach_bind)))) h (blist_fields v)"

interpretation blist: copier ManagedClusterProfileBindingList_DeepCopyInto den_blist ok_blist reach_blist
  unfolding den_blist_def [abs_def] ok_blist_def [abs_def] reach_blist_def [abs_def]
  by (rule copier_struct [where to = blist_of, 
      OF copier_pair [OF copier_plain copier_pair [OF lmeta.copier_axioms copier_cell [OF copier_each [OF bind.copier_axioms] as_simps(11)]]]])
    (auto simp: ManagedClusterProfileBindingList_DeepCopyInto_def blist_fields_def blist_of_def copy_pair_def copy_plain_def
      intro!: hbindinglist.equality split: prod.split)

definition ManagedClusterProfileBindingList_DeepCopy :: "hbindinglist option copying" where
  "ManagedClusterProfileBindingList_DeepCopy = copy_pointer ManagedClusterProfileBindingList_DeepCopyInto"

definition ManagedClusterProfileBindingList_DeepCopyObject :: "hbindinglist option copying" where
  "ManagedClusterProfileBindingList_DeepCopyObject v h =
     (case ManagedClusterProfileBindingList_DeepCopy v h of
        (Some c, h1) \<Rightarrow> (Some c, h1)
      | (None, h1) \<Rightarrow> (None, h1))"

definition ManagedClusterSetProfileSpec_DeepCopyInto :: "hprofspec copying" where
  "ManagedClusterSetProfileSpec_DeepCopyInto v h =
    (case (copy_cell as_strings CStrings copy_plain) (hp_namespaces v) h of (x0, h1) \<Rightarrow>
    (case (copy_cell as_features CFeatures (copy_each (copy_pair copy_plain FeatureSpec_DeepCopyInto))) (hp_features v) h1 of (x1, h2) \<Rightarrow>
       (v\<lparr>hp_namespaces := x0, hp_features := x1\<rparr>, h2)))"

definition pspec_fields where
  "pspec_fields v = ((), (hp_namespaces v, hp_features v))"

definition pspec_of where
  "pspec_of x = (case x of (u, (x0, x1)) \<Rightarrow> \<lparr> hp_namespaces = x0, hp_features = x1 \<rparr>)"

definition den_pspec where
  "den_pspec h v = (den_pair den_plain (den_pair (den_ref as_strings den_plain) (den_ref as_features (den_each (den_pair den_plain den_fspec))))) h (pspec_fields v)"

definition ok_pspec where
  "ok_pspec h v = (ok_pair ok_plain (ok_pair (ok_ref as_strings ok_plain) (ok_ref as_features (ok_each (ok_pair ok_plain ok_fspec))))) h (pspec_fields v)"

definition reach_pspec where
  "reach_pspec h v = (reach_pair reach_plain (reach_pair (reach_ref as_strings reach_plain) (reach_ref as_features (reach_each (reach_pair reach_plain reach_fspec))))) h (pspec_fields v)"

interpretation pspec: copier ManagedClusterSetProfileSpec_DeepCopyInto den_pspec ok_pspec reach_pspec
  unfolding den_pspec_def [abs_def] ok_pspec_def [abs_def] reach_pspec_def [abs_def]
  by (rule copier_struct [where to = pspec_of, 
      OF copier_pair [OF copier_plain copier_pair [OF copier_cell [OF copier_plain as_simps(1)] copier_cell [OF copier_each [OF copier_pair [OF copier_plain fspec.copier_axioms]] as_simps(9)]]]])
    (auto simp: ManagedClusterSetProfileSpec_DeepCopyInto_def pspec_fields_def pspec_of_def copy_pair_def copy_plain_def
      intro!: hprofspec.equality split: prod.split)

definition ManagedClusterSetProfileSpec_DeepCopy :: "hprofspec option copying" where
  "ManagedClusterSetProfileSpec_DeepCopy = copy_pointer ManagedClusterSetProfileSpec_DeepCopyInto"

definition ManagedClusterSetProfile_DeepCopyInto :: "hprofile copying" where
  "ManagedClusterSetProfile_DeepCopyInto v h =
    (case ObjectMeta_DeepCopyInto (hpr_meta v) h of (x0, h1) \<Rightarrow>
    (case ManagedClusterSetProfileSpec_DeepCopyInto (hpr_spec v) h1 of (x1, h2) \<Rightarrow>
       (v\<lparr>hpr_meta := x0, hpr_spec := x1\<rparr>, h2)))"

definition prof_fields where
  "prof_fields v = ((), (hpr_meta v, hpr_spec v))"

definition prof_of where
  "prof_of x = (case x of (u, (x0, x1)) \<Rightarrow> \<lparr> hpr_meta = x0, hpr_spec = x1 \<rparr>)"

definition den_prof where
  "den_prof h v = (den_pair den_plain (den_pair den_meta den_pspec)) h (prof_fields v)"

definition ok_prof where
  "ok_prof h v = (ok_pair ok_plain (ok_pair ok_meta ok_pspec)) h (prof_fields v)"

definition reach_prof where
  "reach_prof h v = (reach_pair reach_plain (reach_pair reach_meta reach_pspec)) h (prof_fields v)"

interpretation prof: copier ManagedClusterSetProfile_DeepCopyInto den_prof ok_prof reach_prof
  unfolding den_prof_def [abs_def] ok_prof_def [abs_def] reach_prof_def [abs_def]
  by (rule copier_struct [where to = prof_of, 
      OF copier_pair [OF copier_plain copier_pair [OF meta.copier_axioms pspec.copier_axioms]]])
    (auto simp: ManagedClusterSetProfile_DeepCopyInto_def prof_fields_def prof_of_def copy_pair_def copy_plain_def
      intro!: hprofile.equality split: prod.split)

definition ManagedClusterSetProfile_DeepCopy :: "hprofile option copying" where
  "ManagedClusterSetProfile_DeepCopy = copy_pointer ManagedClusterSetProfile_DeepCopyInto"

definition ManagedClusterSetProfile_DeepCopyObject :: "hprofile option copying" where
  "ManagedClusterSetProfile_DeepCopyObject v h =
     (case ManagedClusterSetProfile_DeepCopy v h of
        (Some c, h1) \<Rightarrow> (Some c, h1)
      | (None, h1) \<Rightarrow> (None, h1))"

definition ManagedClusterSetProfileList_DeepCopyInto :: "hprofilelist copying" where
  "ManagedClusterSetProfileList_DeepCopyInto v h =
    (case ListMeta_DeepCopyInto (hpl_meta v) h of (x0, h1) \<Rightarrow>
    (case (copy_cell as_profiles CProfiles (copy_each ManagedClusterSetProfile_DeepCopyInto)) (hpl_items v) h1 of (x1, h2) \<Rightarrow>
       (v\<lparr>hpl_meta := x0, hpl_items := x1\<rparr>, h2)))"

definition plist_fields where
  "plist_fields v = ((), (hpl_meta v, hpl_items v))"

definition plist_of where
  "plist_of x = (case x of (u, (x0, x1)) \<Rightarrow> \<lparr> hpl_meta = x0, hpl_items = x1 \<rparr>)"

definition den_plist where
  "den_plist h v = (den_pair den_plain (den_pair den_lmeta (den_ref as_profiles (den_each den_prof)))) h (plist_fields v)"

definition ok_plist where
  "ok_plist h v = (ok_pair ok_plain (ok_pair ok_lmeta (ok_ref as_profiles (ok_each ok_prof)))) h (plist_fields v)"

definition reach_plist where
  "reach_plist h v = (reach_pair reach_plain (reach_pair reach_lmeta (reach_ref as_profiles (reach_each reach_prof)))) h (plist_fields v)"

interpretation plist: copier ManagedClusterSetProfileList_DeepCopyInto den_plist ok_plist reach_plist
  unfolding den_plist_def [abs_def] ok_plist_def [abs_def] reach_plist_def [abs_def]
  by (rule copier_struct [where to = plist_of, 
      OF copier_pair [OF copier_plain copier_pair [OF lmeta.copier_axioms copier_cell [OF copier_each [OF prof.copier_axioms] as_simps(12)]]]])
    (auto simp: ManagedClusterSetProfileList_DeepCopyInto_def plist_fields_def plist_of_def copy_pair_def copy_plain_def
      intro!: hprofilelist.equality split: prod.split)

definition ManagedClusterSetProfileList_DeepCopy :: "hprofilelist option copying" where
  "ManagedClusterSetProfileList_DeepCopy = copy_pointer ManagedClusterSetProfileList_DeepCopyInto"

definition ManagedClusterSetProfileList_DeepCopyObject :: "hprofilelist option copying" where
  "ManagedClusterSetProfileList_DeepCopyObject v h =
     (case ManagedClusterSetProfileList_DeepCopy v h of
        (Some c, h1) \<Rightarrow> (Some c, h1)
      | (None, h1) \<Rightarrow> (None, h1))"

section \<open>The copies of a list are independent of it\<close>

text \<open>
  C30: The deep copy of a list of bindings, a nil one included, means what the list means;
  writing any cell the copy reaches leaves the list as it was, and writing any cell the list
  reaches leaves the copy as it was. The copied interface value is nil only for a nil list.
\<close>

theorem binding_list_copy_is_independent:
  assumes "ManagedClusterProfileBindingList_DeepCopyObject v h = (v', h')"
  shows "case v of
      None \<Rightarrow> v' = None \<and> h' = h
    | Some l \<Rightarrow> ok_blist h l \<longrightarrow>
        (\<exists>l'. v' = Some l' \<and> den_blist h' l' = den_blist h l \<and> den_blist h' l = den_blist h l \<and>
           (a \<in> reach_blist h' l' \<longrightarrow> den_blist (h'[a := c]) l = den_blist h l) \<and>
           (a \<in> reach_blist h l \<longrightarrow> den_blist (h'[a := c]) l' = den_blist h l))"
  using assms blist.independent
  by (auto simp: ManagedClusterProfileBindingList_DeepCopyObject_def ManagedClusterProfileBindingList_DeepCopy_def
      copy_pointer_def split: option.splits prod.splits)

text \<open>The same for a list of set profiles.\<close>

theorem profile_list_copy_is_independent:
  assumes "ManagedClusterSetProfileList_DeepCopyObject v h = (v', h')"
  shows "case v of
      None \<Rightarrow> v' = None \<and> h' = h
    | Some l \<Rightarrow> ok_plist h l \<longrightarrow>
        (\<exists>l'. v' = Some l' \<and> den_plist h' l' = den_plist h l \<and> den_plist h' l = den_plist h l \<and>
           (a \<in> reach_plist h' l' \<longrightarrow> den_plist (h'[a := c]) l = den_plist h l) \<and>
           (a \<in> reach_plist h l \<longrightarrow> den_plist (h'[a := c]) l' = den_plist h l))"
  using assms plist.independent
  by (auto simp: ManagedClusterSetProfileList_DeepCopyObject_def ManagedClusterSetProfileList_DeepCopy_def
      copy_pointer_def split: option.splits prod.splits)

section \<open>A list to copy\<close>

definition dc_heap :: heap where
  "dc_heap =
     [CBytes ''{}'', CJson (Some 0),
      CFeatures [(''kube-ui-server'', \<lparr> hf_set = ''opscenter-core'', hf_chart = \<lparr> hch_info = no_chart, hch_files = None \<rparr>,
        hf_from = None, hf_values = Some 1 \<rparr>)],
      CProfiles [\<lparr> hpr_meta = \<lparr> hm_name = ''p'', hm_ns = '''', hm_created = 0, hm_labels = None, hm_annots = None, hm_owners = None \<rparr>,
        hpr_spec = \<lparr> hp_namespaces = None, hp_features = Some 2 \<rparr> \<rparr>],
      CBindings [\<lparr> hbd_meta = \<lparr> hm_name = ''c1'', hm_ns = ''c1'', hm_created = 0, hm_labels = None, hm_annots = None, hm_owners = None \<rparr>,
        hbd_spec = \<lparr> hb_profile = ''p'', hb_version = '''',
          hb_cluster = \<lparr> hcl_uid = '''', hcl_name = '''', hcl_managers = None, hcl_capi = None \<rparr>, hb_features = Some 2 \<rparr>,
        hbd_status = \<lparr> hs_phase = '''', hs_generation = 0, hs_version = '''', hs_conditions = None, hs_upgraded = 0 \<rparr> \<rparr>]]"

definition dc_profiles :: hprofilelist where
  "dc_profiles = \<lparr> hpl_meta = \<lparr> hl_version = ''1'', hl_continue = '''', hl_remaining = None \<rparr>, hpl_items = Some 3 \<rparr>"

definition dc_bindings :: hbindinglist where
  "dc_bindings = \<lparr> hbl_meta = \<lparr> hl_version = ''1'', hl_continue = '''', hl_remaining = None \<rparr>, hbl_items = Some 4 \<rparr>"

lemma dc_ok: "ok_plist dc_heap dc_profiles" "ok_blist dc_heap dc_bindings"
  by code_simp+

text \<open>Overwriting the bytes of the values in the copy leaves those of the original.\<close>

theorem profile_list_copy_is_independent_witness:
  "ManagedClusterSetProfileList_DeepCopyObject (Some dc_profiles) dc_heap =
     (Some (dc_profiles\<lparr>hpl_items := Some 8\<rparr>),
      snd (ManagedClusterSetProfileList_DeepCopyObject (Some dc_profiles) dc_heap)) \<and>
   den_plist ((snd (ManagedClusterSetProfileList_DeepCopyObject (Some dc_profiles) dc_heap))[5 := CBytes ''x'']) dc_profiles =
     den_plist dc_heap dc_profiles"
proof -
  let ?h = "snd (ManagedClusterSetProfileList_DeepCopyObject (Some dc_profiles) dc_heap)"
  let ?l = "dc_profiles\<lparr>hpl_items := Some 8\<rparr>"
  have c: "ManagedClusterSetProfileList_DeepCopyObject (Some dc_profiles) dc_heap = (Some ?l, ?h)"
    by code_simp
  have "5 \<in> reach_plist ?h ?l" by code_simp
  with profile_list_copy_is_independent [OF c, where a = 5 and c = "CBytes ''x''"] dc_ok(1) c show ?thesis by simp
qed

theorem binding_list_copy_is_independent_witness:
  "den_blist ((snd (ManagedClusterProfileBindingList_DeepCopyObject (Some dc_bindings) dc_heap))[5 := CBytes ''x'']) dc_bindings =
     den_blist dc_heap dc_bindings"
proof -
  let ?h = "snd (ManagedClusterProfileBindingList_DeepCopyObject (Some dc_bindings) dc_heap)"
  let ?l = "dc_bindings\<lparr>hbl_items := Some 8\<rparr>"
  have c: "ManagedClusterProfileBindingList_DeepCopyObject (Some dc_bindings) dc_heap = (Some ?l, ?h)"
    by code_simp
  have "5 \<in> reach_blist ?h ?l" by code_simp
  with binding_list_copy_is_independent [OF c, where a = 5 and c = "CBytes ''x''"] dc_ok(2) show ?thesis by simp
qed

end
