(* ===== verification/OpenApiSchema.thy ===== *)
theory OpenApiSchema
  imports ProfileTypes
begin

text \<open>
  What the generated OpenAPI definitions (\<open>openapi_generated.go\<close>) are made of: a schema with
  the fields of \<open>spec.Schema\<close> the file sets, and combinators for the shapes it uses.
  Descriptions are documentation and are left out; a Go literal leaves the fields it does not
  mention at their zero values, and so do the combinators. The methods of the standard types
  that supply a type, a format or a choice of types are read from the vendored packages.
\<close>

section \<open>Schemas\<close>

datatype schema = Schema
  (s_type: "string list") (s_format: string) (s_default: "json option") (s_ref: "string option")
  (s_props: "(string \<times> schema) list") (s_required: "string list") (s_items: "schema option")
  (s_addl: "schema option") (s_enum: "string list") (s_oneof: "schema list") (s_ext: "(string \<times> json) list")

text \<open>\<open>EmbedOpenAPIDefinitionIntoV2Extension\<close> stores a whole schema under an extension of its own.\<close>

record openapi_def =
  od_schema :: schema
  od_deps :: "string list"
  od_v2 :: "schema option"

definition openapi_definition :: "schema \<Rightarrow> string list \<Rightarrow> openapi_def" where
  "openapi_definition s deps = \<lparr> od_schema = s, od_deps = deps, od_v2 = None \<rparr>"

definition EmbedOpenAPIDefinitionIntoV2Extension :: "openapi_def \<Rightarrow> openapi_def \<Rightarrow> openapi_def" where
  "EmbedOpenAPIDefinitionIntoV2Extension main embedded = main\<lparr>od_v2 := Some (od_schema embedded)\<rparr>"

text \<open>Setting one field of a schema.\<close>

primrec with_format :: "string \<Rightarrow> schema \<Rightarrow> schema" where
  "with_format f (Schema ty fmt dflt r props req itms addl enum oneof ext) =
     Schema ty f dflt r props req itms addl enum oneof ext"

primrec with_default :: "json \<Rightarrow> schema \<Rightarrow> schema" where
  "with_default d (Schema ty fmt dflt r props req itms addl enum oneof ext) =
     Schema ty fmt (Some d) r props req itms addl enum oneof ext"

primrec with_enum :: "string list \<Rightarrow> schema \<Rightarrow> schema" where
  "with_enum e (Schema ty fmt dflt r props req itms addl enum oneof ext) =
     Schema ty fmt dflt r props req itms addl e oneof ext"

primrec with_ext :: "(string \<times> json) list \<Rightarrow> schema \<Rightarrow> schema" where
  "with_ext e (Schema ty fmt dflt r props req itms addl enum oneof ext) =
     Schema ty fmt dflt r props req itms addl enum oneof e"

text \<open>The shapes.\<close>

definition typed :: "string \<Rightarrow> schema" where
  "typed t = Schema [t] '''' None None [] [] None None [] [] []"
definition a_string :: schema where
  "a_string = typed ''string''"
definition a_string_default :: schema where
  "a_string_default = with_default (JStr '''') a_string"
definition refer :: "(string \<Rightarrow> string) \<Rightarrow> string \<Rightarrow> schema" where
  "refer ref n = Schema [] '''' None (Some (ref n)) [] [] None None [] [] []"
definition refer_default :: "(string \<Rightarrow> string) \<Rightarrow> string \<Rightarrow> schema" where
  "refer_default ref n = with_default (JObj fmempty) (refer ref n)"
definition array_of :: "schema \<Rightarrow> schema" where
  "array_of s = Schema [''array''] '''' None None [] [] (Some s) None [] [] []"
definition map_of_schema :: "schema \<Rightarrow> schema" where
  "map_of_schema s = Schema [''object''] '''' None None [] [] None (Some s) [] [] []"
definition object_of :: "string list \<Rightarrow> (string \<times> schema) list \<Rightarrow> schema" where
  "object_of req props = Schema [''object''] '''' None None props req None None [] [] []"
definition one_of :: "string list \<Rightarrow> schema" where
  "one_of ts = Schema [] '''' None None [] [] None None [] (map typed ts) []"

lemmas shapes = typed_def a_string_def a_string_default_def refer_def refer_default_def array_of_def
  map_of_schema_def object_of_def one_of_def

text \<open>The extensions of Kubernetes that say how lists and maps merge.\<close>

definition list_type :: "string \<Rightarrow> string \<times> json" where
  "list_type t = (''x-kubernetes-list-type'', JStr t)"
definition map_type :: "string \<Rightarrow> string \<times> json" where
  "map_type t = (''x-kubernetes-map-type'', JStr t)"
definition list_map_keys :: "string list \<Rightarrow> string \<times> json" where
  "list_map_keys ks = (''x-kubernetes-list-map-keys'', JArr (map JStr ks))"
definition patch_merge_key :: "string \<Rightarrow> string \<times> json" where
  "patch_merge_key k = (''x-kubernetes-patch-merge-key'', JStr k)"
definition patch_strategy :: "string \<Rightarrow> string \<times> json" where
  "patch_strategy s = (''x-kubernetes-patch-strategy'', JStr s)"

section \<open>Names of types\<close>

text \<open>A type is known by its package and its name.\<close>

definition core_v1 :: "string \<Rightarrow> string" where
  "core_v1 n = ''k8s.io/api/core/v1.'' @ n"
definition api_resource :: "string \<Rightarrow> string" where
  "api_resource n = ''k8s.io/apimachinery/pkg/api/resource.'' @ n"
definition meta_v1 :: "string \<Rightarrow> string" where
  "meta_v1 n = ''k8s.io/apimachinery/pkg/apis/meta/v1.'' @ n"
definition api_runtime :: "string \<Rightarrow> string" where
  "api_runtime n = ''k8s.io/apimachinery/pkg/runtime.'' @ n"
definition util_intstr :: "string \<Rightarrow> string" where
  "util_intstr n = ''k8s.io/apimachinery/pkg/util/intstr.'' @ n"
definition api_version :: "string \<Rightarrow> string" where
  "api_version n = ''k8s.io/apimachinery/pkg/version.'' @ n"
definition kmapi_v1 :: "string \<Rightarrow> string" where
  "kmapi_v1 n = ''kmodules.xyz/client-go/api/v1.'' @ n"
definition offshoot_v1 :: "string \<Rightarrow> string" where
  "offshoot_v1 n = ''kmodules.xyz/offshoot-api/api/v1.'' @ n"
definition profile_v1alpha1 :: "string \<Rightarrow> string" where
  "profile_v1alpha1 n = ''github.com/kluster-manager/cluster-profile/apis/profile/v1alpha1.'' @ n"
definition rm_shared :: "string \<Rightarrow> string" where
  "rm_shared n = ''kmodules.xyz/resource-metadata/apis/shared.'' @ n"

text \<open>Packages whose types are referred to but not defined.\<close>

definition ui_v1alpha1 :: "string \<Rightarrow> string" where
  "ui_v1alpha1 n = ''kmodules.xyz/resource-metadata/apis/ui/v1alpha1.'' @ n"
definition apiext_v1 :: "string \<Rightarrow> string" where
  "apiext_v1 n = ''k8s.io/apiextensions-apiserver/pkg/apis/apiextensions/v1.'' @ n"
definition xhelm_shared :: "string \<Rightarrow> string" where
  "xhelm_shared n = ''x-helm.dev/apimachinery/apis/shared.'' @ n"
definition xhelm_releases :: "string \<Rightarrow> string" where
  "xhelm_releases n = ''x-helm.dev/apimachinery/apis/releases/v1alpha1.'' @ n"

lemmas packages = core_v1_def api_resource_def meta_v1_def api_runtime_def util_intstr_def api_version_def
  kmapi_v1_def offshoot_v1_def profile_v1alpha1_def rm_shared_def ui_v1alpha1_def apiext_v1_def xhelm_shared_def
  xhelm_releases_def

section \<open>What a schema refers to\<close>

primrec refs_of :: "schema \<Rightarrow> string list" where
  "refs_of (Schema ty fmt dflt r props req itms addl enum oneof ext) =
     (case r of None \<Rightarrow> [] | Some n \<Rightarrow> [n]) @ concat (map snd (map (map_prod id refs_of) props)) @
     (case map_option refs_of itms of None \<Rightarrow> [] | Some ns \<Rightarrow> ns) @
     (case map_option refs_of addl of None \<Rightarrow> [] | Some ns \<Rightarrow> ns) @ concat (map refs_of oneof)"

section \<open>Well-formed schemas\<close>

definition has_type :: "string \<Rightarrow> json \<Rightarrow> bool" where
  "has_type t j \<longleftrightarrow>
     (case j of
        JNull \<Rightarrow> False
      | JBool _ \<Rightarrow> t = ''boolean''
      | JInt _ \<Rightarrow> t = ''integer'' \<or> t = ''number''
      | JFloat _ \<Rightarrow> t = ''number''
      | JStr _ \<Rightarrow> t = ''string''
      | JArr _ \<Rightarrow> t = ''array''
      | JObj _ \<Rightarrow> t = ''object'')"

text \<open>
  A node has a type of its own or is a reference or a choice; only an array has items, only an
  object has properties; the properties are named once, the required ones are among them; and
  the default has the type of the node, the empty object for a reference.
\<close>

definition frame_ok :: "schema \<Rightarrow> bool" where
  "frame_ok s \<longleftrightarrow>
     (if s_ref s \<noteq> None then s_type s = [] \<and> s_props s = [] \<and> s_items s = None \<and> s_addl s = None \<and> s_oneof s = []
      else
        (if s_type s = [] then s_oneof s \<noteq> [] else s_oneof s = []) \<and>
        (if s_type s = [''array''] then s_items s \<noteq> None else s_items s = None) \<and>
        (s_props s = [] \<and> s_addl s = None \<or> s_type s = [''object'']) \<and>
        (s_enum s = [] \<or> s_type s = [''string''])) \<and>
     distinct (map fst (s_props s)) \<and> list_all (\<lambda>k. k \<in> set (map fst (s_props s))) (s_required s)"

definition default_ok :: "json \<Rightarrow> schema \<Rightarrow> bool" where
  "default_ok d s \<longleftrightarrow>
     (if s_ref s = None then list_ex (\<lambda>t. has_type t d) (s_type s) else has_type ''object'' d)"

definition node_ok :: "schema \<Rightarrow> bool" where
  "node_ok s \<longleftrightarrow> frame_ok s \<and> (case s_default s of None \<Rightarrow> True | Some d \<Rightarrow> default_ok d s)"

primrec shape_ok :: "schema \<Rightarrow> bool" where
  "shape_ok (Schema ty fmt dflt r props req itms addl enum oneof ext) \<longleftrightarrow>
     node_ok (Schema ty fmt dflt r props req itms addl enum oneof ext) \<and>
     list_all snd (map (map_prod id shape_ok) props) \<and>
     (case map_option shape_ok itms of None \<Rightarrow> True | Some b \<Rightarrow> b) \<and>
     (case map_option shape_ok addl of None \<Rightarrow> True | Some b \<Rightarrow> b) \<and> list_all id (map shape_ok oneof)"

definition def_ok :: "openapi_def \<Rightarrow> bool" where
  "def_ok d \<longleftrightarrow>
     list_all (\<lambda>n. n \<in> set (od_deps d)) (refs_of (od_schema d)) \<and>
     list_all (\<lambda>n. n \<in> set (refs_of (od_schema d))) (od_deps d) \<and> distinct (od_deps d) \<and>
     shape_ok (od_schema d) \<and> (case od_v2 d of None \<Rightarrow> True | Some s \<Rightarrow> shape_ok s)"

section \<open>Deciding on names\<close>

text \<open>
  Equations for the evaluation of the definitions: names are compared up to the first
  difference.
\<close>

fun same_name :: "string \<Rightarrow> string \<Rightarrow> bool" where
  "same_name [] t = (t = [])"
| "same_name (c # s) [] = False"
| "same_name (c # s) (d # t) = (if c = d then same_name s t else False)"

fun name_in :: "string \<Rightarrow> string list \<Rightarrow> bool" where
  "name_in n [] = False"
| "name_in n (m # ms) = (if same_name n m then True else name_in n ms)"

fun names_distinct :: "string list \<Rightarrow> bool" where
  "names_distinct [] = True"
| "names_distinct (n # ns) = (if name_in n ns then False else names_distinct ns)"

lemma same_name_iff: "same_name s t \<longleftrightarrow> s = t"
  by (induction s t rule: same_name.induct) auto

lemma name_in_iff: "name_in n ns \<longleftrightarrow> n \<in> set ns"
  by (induction ns) (auto simp: same_name_iff)

lemma names_distinct_iff: "names_distinct ns \<longleftrightarrow> distinct ns"
  by (induction ns) (auto simp: name_in_iff)


section \<open>Checking by shape\<close>

named_theorems schema_simps \<open>checking a schema by its shape\<close>

lemma selectors_of_updates [schema_simps]:
  "s_type (with_ext e s) = s_type s" "s_type (with_format f s) = s_type s"
  "s_type (with_enum n s) = s_type s" "s_type (with_default d s) = s_type s"
  "s_ref (with_ext e s) = s_ref s" "s_ref (with_format f s) = s_ref s"
  "s_ref (with_enum n s) = s_ref s" "s_ref (with_default d s) = s_ref s"
  by (cases s; simp)+

lemma selectors_of_shapes [schema_simps]:
  "s_ref (typed t) = None" "s_ref a_string = None" "s_ref a_string_default = None" "s_ref (array_of s) = None"
  "s_type (typed t) = [t]" "s_type a_string = [''string'']" "s_type a_string_default = [''string'']"
  by (simp_all add: shapes)

lemma refs_of_updates [schema_simps]:
  "refs_of (with_ext e s) = refs_of s" "refs_of (with_format f s) = refs_of s"
  "refs_of (with_enum n s) = refs_of s" "refs_of (with_default d s) = refs_of s"
  by (cases s; simp)+

lemma refs_of_shapes [schema_simps]:
  "refs_of (typed t) = []"  "refs_of a_string = []" "refs_of a_string_default = []" "refs_of (array_of s) = refs_of s"
  "refs_of (map_of_schema s) = refs_of s" "refs_of (refer ref n) = [ref n]" "refs_of (refer_default ref n) = [ref n]"
  "refs_of (object_of req props) = concat (map (\<lambda>p. refs_of (snd p)) props)"
  by (simp_all add: shapes comp_def)

lemma refs_of_one_of [schema_simps]: "refs_of (one_of ts) = []"
  by (induction ts) (simp_all add: shapes)

lemma frame_ok_updates:
  "frame_ok (with_ext e s) = frame_ok s" "frame_ok (with_format f s) = frame_ok s" "frame_ok (with_default d s) = frame_ok s"
  by (cases s; simp add: frame_ok_def)+

lemma frame_ok_enum: "frame_ok s \<Longrightarrow> s_type s = [''string''] \<Longrightarrow> s_ref s = None \<Longrightarrow> frame_ok (with_enum e s)"
  by (cases s) (simp add: frame_ok_def)

lemma default_ok_updates [schema_simps]:
  "default_ok d (with_ext e s) = default_ok d s" "default_ok d (with_format f s) = default_ok d s"
  "default_ok d (with_enum e' s) = default_ok d s" "default_ok d (with_default d' s) = default_ok d s"
  by (simp_all add: default_ok_def selectors_of_updates)

lemma default_ok_shapes [schema_simps]:
  "default_ok (JInt i) (typed ''integer'')" "default_ok (JBool b) (typed ''boolean'')" "default_ok (JStr t) a_string"
  by (simp_all add: default_ok_def has_type_def selectors_of_shapes)

definition parts_ok :: "schema \<Rightarrow> bool" where
  "parts_ok s \<longleftrightarrow>
     list_all (\<lambda>p. shape_ok (snd p)) (s_props s) \<and> pred_option shape_ok (s_items s) \<and>
     pred_option shape_ok (s_addl s) \<and> list_all shape_ok (s_oneof s)"

lemma shape_ok_alt: "shape_ok s \<longleftrightarrow> node_ok s \<and> parts_ok s"
  by (cases s) (auto simp: parts_ok_def list_all_iff split: option.splits)

lemma parts_ok_updates:
  "parts_ok (with_ext e s) = parts_ok s" "parts_ok (with_format f s) = parts_ok s"
  "parts_ok (with_enum e' s) = parts_ok s" "parts_ok (with_default d s) = parts_ok s"
  by (cases s; simp add: parts_ok_def)+

lemma s_default_updates:
  "s_default (with_ext e s) = s_default s" "s_default (with_format f s) = s_default s"
  "s_default (with_enum e' s) = s_default s" "s_default (with_default d s) = Some d"
  by (cases s; simp)+

lemmas updates = selectors_of_updates frame_ok_updates default_ok_updates parts_ok_updates s_default_updates

lemma shape_ok_updates [schema_simps]:
  "shape_ok (with_ext e s) = shape_ok s" "shape_ok (with_format f s) = shape_ok s"
  by (simp_all add: shape_ok_alt node_ok_def updates cong: option.case_cong)

lemma shape_ok_default [schema_simps]: "shape_ok s \<Longrightarrow> default_ok d s \<Longrightarrow> shape_ok (with_default d s)"
  by (simp add: shape_ok_alt node_ok_def updates)

lemma shape_ok_enum [schema_simps]:
  "shape_ok s \<Longrightarrow> s_ref s = None \<Longrightarrow> s_type s = [''string''] \<Longrightarrow> shape_ok (with_enum e s)"
  by (simp add: shape_ok_alt node_ok_def updates frame_ok_enum cong: option.case_cong)

lemma shape_ok_shapes [schema_simps]:
  "shape_ok (typed ''integer'')" "shape_ok (typed ''boolean'')" "shape_ok (typed ''object'')" "shape_ok (typed ''string'')"
  "shape_ok a_string" "shape_ok a_string_default"
  "shape_ok (array_of s) = shape_ok s" "shape_ok (map_of_schema s) = shape_ok s"
  "shape_ok (refer ref n)" "shape_ok (refer_default ref n)"
  by (simp_all add: shapes node_ok_def frame_ok_def default_ok_def has_type_def)

lemma shape_ok_one_of [schema_simps]: "shape_ok (one_of [''string'', ''number''])" "shape_ok (one_of [''integer'', ''string''])"
  by (simp_all add: shapes node_ok_def frame_ok_def)

lemma shape_ok_object [schema_simps]:
  "shape_ok (object_of req props) \<longleftrightarrow>
     list_all (\<lambda>p. shape_ok (snd p)) props \<and> names_distinct (map fst props) \<and>
     list_all (\<lambda>k. name_in k (map fst props)) req"
  by (auto simp: shapes node_ok_def frame_ok_def list_all_iff name_in_iff names_distinct_iff)

lemma def_ok_definition [schema_simps]:
  "def_ok (openapi_definition s deps) \<longleftrightarrow>
     list_all (\<lambda>n. name_in n deps) (refs_of s) \<and> list_all (\<lambda>n. name_in n (refs_of s)) deps \<and>
     names_distinct deps \<and> shape_ok s"
  by (auto simp: def_ok_def openapi_definition_def name_in_iff names_distinct_iff)

lemma def_ok_embed [schema_simps]:
  "def_ok (EmbedOpenAPIDefinitionIntoV2Extension (openapi_definition s deps) (openapi_definition s' deps')) \<longleftrightarrow>
     def_ok (openapi_definition s deps) \<and> shape_ok s'"
  by (auto simp: def_ok_def EmbedOpenAPIDefinitionIntoV2Extension_def openapi_definition_def)

lemma same_name_pkg:
  "same_name (core_v1 a) (core_v1 b) = same_name a b" "same_name (meta_v1 a) (meta_v1 b) = same_name a b"
  "same_name (kmapi_v1 a) (kmapi_v1 b) = same_name a b" "same_name (offshoot_v1 a) (offshoot_v1 b) = same_name a b"
  "same_name (rm_shared a) (rm_shared b) = same_name a b" "same_name (profile_v1alpha1 a) (profile_v1alpha1 b) = same_name a b"
  "\<not> same_name (core_v1 a) (meta_v1 b)" "\<not> same_name (meta_v1 a) (core_v1 b)"
  "\<not> same_name (core_v1 a) (api_resource b)" "\<not> same_name (api_resource a) (core_v1 b)"
  by (simp_all add: same_name_iff packages)

lemmas shape_checks = schema_simps list.map fst_conv snd_conv list.pred_inject concat.simps append.simps id_apply simp_thms
lemmas name_checks = names_distinct.simps name_in.simps same_name.simps same_name_pkg char.inject list.distinct
  simp_thms if_True if_False HOL.refl

section \<open>Values that conform\<close>

lemma size_prop: "p \<in> set props \<Longrightarrow> size (snd p) < size_list (size_prod (\<lambda>_. 0) size) props"
  by (induction props) (auto simp: prod.size)

lemma size_choice: "s \<in> set ss \<Longrightarrow> size s < size_list size ss"
  by (induction ss) auto

text \<open>\<open>R\<close> decides what a reference demands.\<close>

function conforms :: "(string \<Rightarrow> json \<Rightarrow> bool) \<Rightarrow> schema \<Rightarrow> json \<Rightarrow> bool" where
  "conforms R (Schema ty fmt dflt r props req itms addl enum oneof ext) j \<longleftrightarrow>
     (case r of None \<Rightarrow> True | Some n \<Rightarrow> R n j) \<and>
     (ty = [] \<or> list_ex (\<lambda>t. has_type t j) ty) \<and>
     (enum = [] \<or> list_ex (\<lambda>s. j = JStr s) enum) \<and>
     (oneof = [] \<or> length (filter (\<lambda>s. conforms R s j) oneof) = 1) \<and>
     (case j of
        JObj m \<Rightarrow>
          list_all (\<lambda>p. case fmlookup m (fst p) of None \<Rightarrow> True | Some v \<Rightarrow> conforms R (snd p) v) props \<and>
          list_all (\<lambda>k. fmlookup m k \<noteq> None) req \<and>
          (case addl of None \<Rightarrow> True
           | Some s \<Rightarrow> fmpred (\<lambda>k v. k \<in> set (map fst props) \<or> conforms R s v) m)
      | JArr xs \<Rightarrow> (case itms of None \<Rightarrow> True | Some s \<Rightarrow> list_all (conforms R s) xs)
      | _ \<Rightarrow> True)"
  by pat_completeness auto

termination
  by (relation "measure (\<lambda>(R, s, j). size s)") (auto dest: size_prop size_choice)

declare conforms.simps [simp del]

text \<open>Only the references of a schema are looked at.\<close>

lemma conforms_cong:
  "(\<And>n j. n \<in> set (refs_of s) \<Longrightarrow> R n j = R' n j) \<Longrightarrow> conforms R s j = conforms R' s j"
proof (induction R s j rule: conforms.induct)
  case (1 R ty fmt dflt r props req itms addl enum oneof ext j)
  note prem = "1.prems"
  have rp: "R n j = R' n j" if "(k, s) \<in> set props" "n \<in> set (refs_of s)" for k s n j
    using that by (intro prem) force
  have ri: "R n j = R' n j" if "itms = Some s" "n \<in> set (refs_of s)" for s n j
    using that by (intro prem) simp
  have ra: "R n j = R' n j" if "addl = Some s" "n \<in> set (refs_of s)" for s n j
    using that by (intro prem) simp
  have ro: "R n j = R' n j" if "s \<in> set oneof" "n \<in> set (refs_of s)" for s n j
    using that by (intro prem) auto
  have ref: "(case r of None \<Rightarrow> True | Some n \<Rightarrow> R n j) = (case r of None \<Rightarrow> True | Some n \<Rightarrow> R' n j)"
    using prem by (auto split: option.split)
  have one: "filter (\<lambda>s. conforms R s j) oneof = filter (\<lambda>s. conforms R' s j) oneof"
    using "1.IH"(1) ro by (intro filter_cong) auto
  have props: "list_all (\<lambda>p. case fmlookup m (fst p) of None \<Rightarrow> True | Some v \<Rightarrow> conforms R (snd p) v) props =
       list_all (\<lambda>p. case fmlookup m (fst p) of None \<Rightarrow> True | Some v \<Rightarrow> conforms R' (snd p) v) props" if "j = JObj m" for m
    using "1.IH"(3) [OF that] rp by (intro list.pred_cong) (auto split: option.split)
  have arr: "list_all (conforms R s) xs = list_all (conforms R' s) xs" if "j = JArr xs" "itms = Some s" for xs s
    using "1.IH"(2) [OF that] ri [OF that(2)] by (intro list.pred_cong) auto
  have obj: "fmpred (\<lambda>k v. k \<in> fst ` set props \<or> conforms R s v) m =
       fmpred (\<lambda>k v. k \<in> fst ` set props \<or> conforms R' s v) m" if "j = JObj m" "addl = Some s" for m s
    using "1.IH"(4) [OF that] ra [OF that(2)] by (auto 0 3 simp: fmpred_iff)
  show ?case
    unfolding conforms.simps ref one
    by (cases j; cases itms; cases addl) (simp_all add: props arr obj)
qed

lemma conforms_updates [simp]:
  "conforms R (with_format f s) j = conforms R s j" "conforms R (with_default d s) j = conforms R s j"
  "conforms R (with_ext e s) j = conforms R s j"
  by (cases s; simp add: conforms.simps)+

lemma conforms_leaf [simp]:
  "conforms R (refer f n) j \<longleftrightarrow> R (f n) j" "conforms R (refer_default f n) j \<longleftrightarrow> R (f n) j"
  "conforms R a_string j \<longleftrightarrow> (\<exists>s. j = JStr s)" "conforms R a_string_default j \<longleftrightarrow> (\<exists>s. j = JStr s)"
  by (simp_all add: shapes conforms.simps has_type_def split: json.split)

lemma conforms_array [simp]:
  "conforms R (array_of s) j \<longleftrightarrow> (\<exists>xs. j = JArr xs \<and> list_all (conforms R s) xs)"
  by (simp add: shapes conforms.simps has_type_def split: json.split)

lemma conforms_map [simp]:
  "conforms R (map_of_schema s) j \<longleftrightarrow> (\<exists>m. j = JObj m \<and> fmpred (\<lambda>_. conforms R s) m)"
  by (simp add: shapes conforms.simps has_type_def split: json.split)

lemma conforms_struct:
  "conforms R (object_of req props) (JObj m) \<longleftrightarrow>
     list_all (\<lambda>p. case fmlookup m (fst p) of None \<Rightarrow> True | Some v \<Rightarrow> conforms R (snd p) v) props \<and>
     list_all (\<lambda>k. fmlookup m k \<noteq> None) req"
  by (simp add: shapes conforms.simps has_type_def)

lemma conforms_null: "\<not> conforms R (object_of req props) JNull"
  by (simp add: shapes conforms.simps has_type_def)

end
