(* ===== verification/OpenApiCoreA.thy ===== *)
theory OpenApiCoreA
  imports OpenApiSchema
begin

text \<open>
  The generated OpenAPI definitions of the Kubernetes core kinds from A to O (\<open>openapi_generated.go\<close>), one per schema
  function, and the entries of the registry that name them.
\<close>

definition schema_core_v1_AWSElasticBlockStoreVolumeSource :: "(string \<Rightarrow> string) \<Rightarrow> openapi_def" where
  "schema_core_v1_AWSElasticBlockStoreVolumeSource ref = openapi_definition
    (object_of [''volumeID''] [
        (''volumeID'', a_string_default),
        (''fsType'', a_string),
        (''partition'', with_format ''int32'' (typed ''integer'')),
        (''readOnly'', typed ''boolean'')])
    []"

definition schema_core_v1_Affinity :: "(string \<Rightarrow> string) \<Rightarrow> openapi_def" where
  "schema_core_v1_Affinity ref = openapi_definition
    (object_of [] [
        (''nodeAffinity'', refer ref (core_v1 ''NodeAffinity'')),
        (''podAffinity'', refer ref (core_v1 ''PodAffinity'')),
        (''podAntiAffinity'', refer ref (core_v1 ''PodAntiAffinity''))])
    [core_v1 ''NodeAffinity'', core_v1 ''PodAffinity'', core_v1 ''PodAntiAffinity'']"

definition schema_core_v1_AppArmorProfile :: "(string \<Rightarrow> string) \<Rightarrow> openapi_def" where
  "schema_core_v1_AppArmorProfile ref = openapi_definition
    (with_ext [(''x-kubernetes-unions'', JArr [JObj (fmap_of_list [(''discriminator'', JStr ''type''),
        (''fields-to-discriminateBy'', JObj (fmap_of_list [(''localhostProfile'',
        JStr ''LocalhostProfile'')]))])])] (object_of [''type''] [
        (''type'', with_enum [''Localhost'', ''RuntimeDefault'', ''Unconfined''] a_string_default),
        (''localhostProfile'', a_string)]))
    []"

definition schema_core_v1_AttachedVolume :: "(string \<Rightarrow> string) \<Rightarrow> openapi_def" where
  "schema_core_v1_AttachedVolume ref = openapi_definition
    (object_of [''name'', ''devicePath''] [
        (''name'', a_string_default),
        (''devicePath'', a_string_default)])
    []"

definition schema_core_v1_AvoidPods :: "(string \<Rightarrow> string) \<Rightarrow> openapi_def" where
  "schema_core_v1_AvoidPods ref = openapi_definition
    (object_of [] [
        (''preferAvoidPods'',
            with_ext [list_type ''atomic''] (array_of (refer_default ref (core_v1 ''PreferAvoidPodsEntry''))))])
    [core_v1 ''PreferAvoidPodsEntry'']"

definition schema_core_v1_AzureDiskVolumeSource :: "(string \<Rightarrow> string) \<Rightarrow> openapi_def" where
  "schema_core_v1_AzureDiskVolumeSource ref = openapi_definition
    (object_of [''diskName'', ''diskURI''] [
        (''diskName'', a_string_default),
        (''diskURI'', a_string_default),
        (''cachingMode'', with_enum [''None'', ''ReadOnly'', ''ReadWrite''] a_string),
        (''fsType'', a_string),
        (''readOnly'', typed ''boolean''),
        (''kind'', with_enum [''Dedicated'', ''Managed'', ''Shared''] a_string)])
    []"

definition schema_core_v1_AzureFilePersistentVolumeSource :: "(string \<Rightarrow> string) \<Rightarrow> openapi_def" where
  "schema_core_v1_AzureFilePersistentVolumeSource ref = openapi_definition
    (object_of [''secretName'', ''shareName''] [
        (''secretName'', a_string_default),
        (''shareName'', a_string_default),
        (''readOnly'', typed ''boolean''),
        (''secretNamespace'', a_string)])
    []"

definition schema_core_v1_AzureFileVolumeSource :: "(string \<Rightarrow> string) \<Rightarrow> openapi_def" where
  "schema_core_v1_AzureFileVolumeSource ref = openapi_definition
    (object_of [''secretName'', ''shareName''] [
        (''secretName'', a_string_default),
        (''shareName'', a_string_default),
        (''readOnly'', typed ''boolean'')])
    []"

definition schema_core_v1_Binding :: "(string \<Rightarrow> string) \<Rightarrow> openapi_def" where
  "schema_core_v1_Binding ref = openapi_definition
    (object_of [''target''] [
        (''kind'', a_string),
        (''apiVersion'', a_string),
        (''metadata'', refer_default ref (meta_v1 ''ObjectMeta'')),
        (''target'', refer_default ref (core_v1 ''ObjectReference''))])
    [core_v1 ''ObjectReference'', meta_v1 ''ObjectMeta'']"

definition schema_core_v1_CSIPersistentVolumeSource :: "(string \<Rightarrow> string) \<Rightarrow> openapi_def" where
  "schema_core_v1_CSIPersistentVolumeSource ref = openapi_definition
    (object_of [''driver'', ''volumeHandle''] [
        (''driver'', a_string_default),
        (''volumeHandle'', a_string_default),
        (''readOnly'', typed ''boolean''),
        (''fsType'', a_string),
        (''volumeAttributes'', map_of_schema a_string_default),
        (''controllerPublishSecretRef'', refer ref (core_v1 ''SecretReference'')),
        (''nodeStageSecretRef'', refer ref (core_v1 ''SecretReference'')),
        (''nodePublishSecretRef'', refer ref (core_v1 ''SecretReference'')),
        (''controllerExpandSecretRef'', refer ref (core_v1 ''SecretReference'')),
        (''nodeExpandSecretRef'', refer ref (core_v1 ''SecretReference''))])
    [core_v1 ''SecretReference'']"

definition schema_core_v1_CSIVolumeSource :: "(string \<Rightarrow> string) \<Rightarrow> openapi_def" where
  "schema_core_v1_CSIVolumeSource ref = openapi_definition
    (object_of [''driver''] [
        (''driver'', a_string_default),
        (''readOnly'', typed ''boolean''),
        (''fsType'', a_string),
        (''volumeAttributes'', map_of_schema a_string_default),
        (''nodePublishSecretRef'', refer ref (core_v1 ''LocalObjectReference''))])
    [core_v1 ''LocalObjectReference'']"

definition schema_core_v1_Capabilities :: "(string \<Rightarrow> string) \<Rightarrow> openapi_def" where
  "schema_core_v1_Capabilities ref = openapi_definition
    (object_of [] [
        (''add'', with_ext [list_type ''atomic''] (array_of a_string_default)),
        (''drop'', with_ext [list_type ''atomic''] (array_of a_string_default))])
    []"

definition schema_core_v1_CephFSPersistentVolumeSource :: "(string \<Rightarrow> string) \<Rightarrow> openapi_def" where
  "schema_core_v1_CephFSPersistentVolumeSource ref = openapi_definition
    (object_of [''monitors''] [
        (''monitors'', with_ext [list_type ''atomic''] (array_of a_string_default)),
        (''path'', a_string),
        (''user'', a_string),
        (''secretFile'', a_string),
        (''secretRef'', refer ref (core_v1 ''SecretReference'')),
        (''readOnly'', typed ''boolean'')])
    [core_v1 ''SecretReference'']"

definition schema_core_v1_CephFSVolumeSource :: "(string \<Rightarrow> string) \<Rightarrow> openapi_def" where
  "schema_core_v1_CephFSVolumeSource ref = openapi_definition
    (object_of [''monitors''] [
        (''monitors'', with_ext [list_type ''atomic''] (array_of a_string_default)),
        (''path'', a_string),
        (''user'', a_string),
        (''secretFile'', a_string),
        (''secretRef'', refer ref (core_v1 ''LocalObjectReference'')),
        (''readOnly'', typed ''boolean'')])
    [core_v1 ''LocalObjectReference'']"

definition schema_core_v1_CinderPersistentVolumeSource :: "(string \<Rightarrow> string) \<Rightarrow> openapi_def" where
  "schema_core_v1_CinderPersistentVolumeSource ref = openapi_definition
    (object_of [''volumeID''] [
        (''volumeID'', a_string_default),
        (''fsType'', a_string),
        (''readOnly'', typed ''boolean''),
        (''secretRef'', refer ref (core_v1 ''SecretReference''))])
    [core_v1 ''SecretReference'']"

definition schema_core_v1_CinderVolumeSource :: "(string \<Rightarrow> string) \<Rightarrow> openapi_def" where
  "schema_core_v1_CinderVolumeSource ref = openapi_definition
    (object_of [''volumeID''] [
        (''volumeID'', a_string_default),
        (''fsType'', a_string),
        (''readOnly'', typed ''boolean''),
        (''secretRef'', refer ref (core_v1 ''LocalObjectReference''))])
    [core_v1 ''LocalObjectReference'']"

definition schema_core_v1_ClaimSource :: "(string \<Rightarrow> string) \<Rightarrow> openapi_def" where
  "schema_core_v1_ClaimSource ref = openapi_definition
    (object_of [] [
        (''resourceClaimName'', a_string),
        (''resourceClaimTemplateName'', a_string)])
    []"

definition schema_core_v1_ClientIPConfig :: "(string \<Rightarrow> string) \<Rightarrow> openapi_def" where
  "schema_core_v1_ClientIPConfig ref = openapi_definition
    (object_of [] [
        (''timeoutSeconds'', with_format ''int32'' (typed ''integer''))])
    []"

definition schema_core_v1_ClusterTrustBundleProjection :: "(string \<Rightarrow> string) \<Rightarrow> openapi_def" where
  "schema_core_v1_ClusterTrustBundleProjection ref = openapi_definition
    (object_of [''path''] [
        (''name'', a_string),
        (''signerName'', a_string),
        (''labelSelector'', refer ref (meta_v1 ''LabelSelector'')),
        (''optional'', typed ''boolean''),
        (''path'', a_string_default)])
    [meta_v1 ''LabelSelector'']"

definition schema_core_v1_ComponentCondition :: "(string \<Rightarrow> string) \<Rightarrow> openapi_def" where
  "schema_core_v1_ComponentCondition ref = openapi_definition
    (object_of [''type'', ''status''] [
        (''type'', a_string_default),
        (''status'', a_string_default),
        (''message'', a_string),
        (''error'', a_string)])
    []"

definition schema_core_v1_ComponentStatus :: "(string \<Rightarrow> string) \<Rightarrow> openapi_def" where
  "schema_core_v1_ComponentStatus ref = openapi_definition
    (object_of [] [
        (''kind'', a_string),
        (''apiVersion'', a_string),
        (''metadata'', refer_default ref (meta_v1 ''ObjectMeta'')),
        (''conditions'', with_ext [list_map_keys [''type''], list_type ''map'', patch_merge_key ''type'',
            patch_strategy ''merge''] (array_of (refer_default ref (core_v1 ''ComponentCondition''))))])
    [core_v1 ''ComponentCondition'', meta_v1 ''ObjectMeta'']"

definition schema_core_v1_ComponentStatusList :: "(string \<Rightarrow> string) \<Rightarrow> openapi_def" where
  "schema_core_v1_ComponentStatusList ref = openapi_definition
    (object_of [''items''] [
        (''kind'', a_string),
        (''apiVersion'', a_string),
        (''metadata'', refer_default ref (meta_v1 ''ListMeta'')),
        (''items'', array_of (refer_default ref (core_v1 ''ComponentStatus'')))])
    [core_v1 ''ComponentStatus'', meta_v1 ''ListMeta'']"

definition schema_core_v1_ConfigMap :: "(string \<Rightarrow> string) \<Rightarrow> openapi_def" where
  "schema_core_v1_ConfigMap ref = openapi_definition
    (object_of [] [
        (''kind'', a_string),
        (''apiVersion'', a_string),
        (''metadata'', refer_default ref (meta_v1 ''ObjectMeta'')),
        (''immutable'', typed ''boolean''),
        (''data'', map_of_schema a_string_default),
        (''binaryData'', map_of_schema (with_format ''byte'' a_string))])
    [meta_v1 ''ObjectMeta'']"

definition schema_core_v1_ConfigMapEnvSource :: "(string \<Rightarrow> string) \<Rightarrow> openapi_def" where
  "schema_core_v1_ConfigMapEnvSource ref = openapi_definition
    (object_of [] [
        (''name'', a_string_default),
        (''optional'', typed ''boolean'')])
    []"

definition schema_core_v1_ConfigMapKeySelector :: "(string \<Rightarrow> string) \<Rightarrow> openapi_def" where
  "schema_core_v1_ConfigMapKeySelector ref = openapi_definition
    (with_ext [map_type ''atomic''] (object_of [''key''] [
        (''name'', a_string_default),
        (''key'', a_string_default),
        (''optional'', typed ''boolean'')]))
    []"

definition schema_core_v1_ConfigMapList :: "(string \<Rightarrow> string) \<Rightarrow> openapi_def" where
  "schema_core_v1_ConfigMapList ref = openapi_definition
    (object_of [''items''] [
        (''kind'', a_string),
        (''apiVersion'', a_string),
        (''metadata'', refer_default ref (meta_v1 ''ListMeta'')),
        (''items'', array_of (refer_default ref (core_v1 ''ConfigMap'')))])
    [core_v1 ''ConfigMap'', meta_v1 ''ListMeta'']"

definition schema_core_v1_ConfigMapNodeConfigSource :: "(string \<Rightarrow> string) \<Rightarrow> openapi_def" where
  "schema_core_v1_ConfigMapNodeConfigSource ref = openapi_definition
    (object_of [''namespace'', ''name'', ''kubeletConfigKey''] [
        (''namespace'', a_string_default),
        (''name'', a_string_default),
        (''uid'', a_string),
        (''resourceVersion'', a_string),
        (''kubeletConfigKey'', a_string_default)])
    []"

definition schema_core_v1_ConfigMapProjection :: "(string \<Rightarrow> string) \<Rightarrow> openapi_def" where
  "schema_core_v1_ConfigMapProjection ref = openapi_definition
    (object_of [] [
        (''name'', a_string_default),
        (''items'', with_ext [list_type ''atomic''] (array_of (refer_default ref (core_v1 ''KeyToPath'')))),
        (''optional'', typed ''boolean'')])
    [core_v1 ''KeyToPath'']"

definition schema_core_v1_ConfigMapVolumeSource :: "(string \<Rightarrow> string) \<Rightarrow> openapi_def" where
  "schema_core_v1_ConfigMapVolumeSource ref = openapi_definition
    (object_of [] [
        (''name'', a_string_default),
        (''items'', with_ext [list_type ''atomic''] (array_of (refer_default ref (core_v1 ''KeyToPath'')))),
        (''defaultMode'', with_format ''int32'' (typed ''integer'')),
        (''optional'', typed ''boolean'')])
    [core_v1 ''KeyToPath'']"

definition schema_core_v1_Container :: "(string \<Rightarrow> string) \<Rightarrow> openapi_def" where
  "schema_core_v1_Container ref = openapi_definition
    (object_of [''name''] [
        (''name'', a_string_default),
        (''image'', a_string),
        (''command'', with_ext [list_type ''atomic''] (array_of a_string_default)),
        (''args'', with_ext [list_type ''atomic''] (array_of a_string_default)),
        (''workingDir'', a_string),
        (''ports'', with_ext [list_map_keys [''containerPort'', ''protocol''], list_type ''map'',
            patch_merge_key ''containerPort'',
            patch_strategy ''merge''] (array_of (refer_default ref (core_v1 ''ContainerPort'')))),
        (''envFrom'', with_ext [list_type ''atomic''] (array_of (refer_default ref (core_v1 ''EnvFromSource'')))),
        (''env'', with_ext [list_map_keys [''name''], list_type ''map'', patch_merge_key ''name'',
            patch_strategy ''merge''] (array_of (refer_default ref (core_v1 ''EnvVar'')))),
        (''resources'', refer_default ref (core_v1 ''ResourceRequirements'')),
        (''resizePolicy'',
            with_ext [list_type ''atomic''] (array_of (refer_default ref (core_v1 ''ContainerResizePolicy'')))),
        (''restartPolicy'', a_string),
        (''volumeMounts'', with_ext [list_map_keys [''mountPath''], list_type ''map'',
            patch_merge_key ''mountPath'',
            patch_strategy ''merge''] (array_of (refer_default ref (core_v1 ''VolumeMount'')))),
        (''volumeDevices'', with_ext [list_map_keys [''devicePath''], list_type ''map'',
            patch_merge_key ''devicePath'',
            patch_strategy ''merge''] (array_of (refer_default ref (core_v1 ''VolumeDevice'')))),
        (''livenessProbe'', refer ref (core_v1 ''Probe'')),
        (''readinessProbe'', refer ref (core_v1 ''Probe'')),
        (''startupProbe'', refer ref (core_v1 ''Probe'')),
        (''lifecycle'', refer ref (core_v1 ''Lifecycle'')),
        (''terminationMessagePath'', a_string),
        (''terminationMessagePolicy'', with_enum [''FallbackToLogsOnError'', ''File''] a_string),
        (''imagePullPolicy'', with_enum [''Always'', ''IfNotPresent'', ''Never''] a_string),
        (''securityContext'', refer ref (core_v1 ''SecurityContext'')),
        (''stdin'', typed ''boolean''),
        (''stdinOnce'', typed ''boolean''),
        (''tty'', typed ''boolean'')])
    [core_v1 ''ContainerPort'', core_v1 ''ContainerResizePolicy'', core_v1 ''EnvFromSource'', core_v1 ''EnvVar'',
        core_v1 ''Lifecycle'', core_v1 ''Probe'', core_v1 ''ResourceRequirements'', core_v1 ''SecurityContext'',
        core_v1 ''VolumeDevice'', core_v1 ''VolumeMount'']"

definition schema_core_v1_ContainerImage :: "(string \<Rightarrow> string) \<Rightarrow> openapi_def" where
  "schema_core_v1_ContainerImage ref = openapi_definition
    (object_of [] [
        (''names'', with_ext [list_type ''atomic''] (array_of a_string_default)),
        (''sizeBytes'', with_format ''int64'' (typed ''integer''))])
    []"

definition schema_core_v1_ContainerPort :: "(string \<Rightarrow> string) \<Rightarrow> openapi_def" where
  "schema_core_v1_ContainerPort ref = openapi_definition
    (object_of [''containerPort''] [
        (''name'', a_string),
        (''hostPort'', with_format ''int32'' (typed ''integer'')),
        (''containerPort'', with_default (JInt 0) (with_format ''int32'' (typed ''integer''))),
        (''protocol'', with_default (JStr ''TCP'') (with_enum [''SCTP'', ''TCP'', ''UDP''] a_string)),
        (''hostIP'', a_string)])
    []"

definition schema_core_v1_ContainerResizePolicy :: "(string \<Rightarrow> string) \<Rightarrow> openapi_def" where
  "schema_core_v1_ContainerResizePolicy ref = openapi_definition
    (object_of [''resourceName'', ''restartPolicy''] [
        (''resourceName'', a_string_default),
        (''restartPolicy'', a_string_default)])
    []"

definition schema_core_v1_ContainerState :: "(string \<Rightarrow> string) \<Rightarrow> openapi_def" where
  "schema_core_v1_ContainerState ref = openapi_definition
    (object_of [] [
        (''waiting'', refer ref (core_v1 ''ContainerStateWaiting'')),
        (''running'', refer ref (core_v1 ''ContainerStateRunning'')),
        (''terminated'', refer ref (core_v1 ''ContainerStateTerminated''))])
    [core_v1 ''ContainerStateRunning'', core_v1 ''ContainerStateTerminated'', core_v1 ''ContainerStateWaiting'']"

definition schema_core_v1_ContainerStateRunning :: "(string \<Rightarrow> string) \<Rightarrow> openapi_def" where
  "schema_core_v1_ContainerStateRunning ref = openapi_definition
    (object_of [] [
        (''startedAt'', refer ref (meta_v1 ''Time''))])
    [meta_v1 ''Time'']"

definition schema_core_v1_ContainerStateTerminated :: "(string \<Rightarrow> string) \<Rightarrow> openapi_def" where
  "schema_core_v1_ContainerStateTerminated ref = openapi_definition
    (object_of [''exitCode''] [
        (''exitCode'', with_default (JInt 0) (with_format ''int32'' (typed ''integer''))),
        (''signal'', with_format ''int32'' (typed ''integer'')),
        (''reason'', a_string),
        (''message'', a_string),
        (''startedAt'', refer ref (meta_v1 ''Time'')),
        (''finishedAt'', refer ref (meta_v1 ''Time'')),
        (''containerID'', a_string)])
    [meta_v1 ''Time'']"

definition schema_core_v1_ContainerStateWaiting :: "(string \<Rightarrow> string) \<Rightarrow> openapi_def" where
  "schema_core_v1_ContainerStateWaiting ref = openapi_definition
    (object_of [] [
        (''reason'', a_string),
        (''message'', a_string)])
    []"

definition schema_core_v1_ContainerStatus :: "(string \<Rightarrow> string) \<Rightarrow> openapi_def" where
  "schema_core_v1_ContainerStatus ref = openapi_definition
    (object_of [''name'', ''ready'', ''restartCount'', ''image'', ''imageID''] [
        (''name'', a_string_default),
        (''state'', refer_default ref (core_v1 ''ContainerState'')),
        (''lastState'', refer_default ref (core_v1 ''ContainerState'')),
        (''ready'', with_default (JBool False) (typed ''boolean'')),
        (''restartCount'', with_default (JInt 0) (with_format ''int32'' (typed ''integer''))),
        (''image'', a_string_default),
        (''imageID'', a_string_default),
        (''containerID'', a_string),
        (''started'', typed ''boolean''),
        (''allocatedResources'', map_of_schema (refer ref (api_resource ''Quantity''))),
        (''resources'', refer ref (core_v1 ''ResourceRequirements'')),
        (''volumeMounts'', with_ext [list_map_keys [''mountPath''], list_type ''map'',
            patch_merge_key ''mountPath'',
            patch_strategy ''merge''] (array_of (refer_default ref (core_v1 ''VolumeMountStatus''))))])
    [core_v1 ''ContainerState'', core_v1 ''ResourceRequirements'', core_v1 ''VolumeMountStatus'',
        api_resource ''Quantity'']"

definition schema_core_v1_DaemonEndpoint :: "(string \<Rightarrow> string) \<Rightarrow> openapi_def" where
  "schema_core_v1_DaemonEndpoint ref = openapi_definition
    (object_of [''Port''] [
        (''Port'', with_default (JInt 0) (with_format ''int32'' (typed ''integer'')))])
    []"

definition schema_core_v1_DownwardAPIProjection :: "(string \<Rightarrow> string) \<Rightarrow> openapi_def" where
  "schema_core_v1_DownwardAPIProjection ref = openapi_definition
    (object_of [] [
        (''items'',
            with_ext [list_type ''atomic''] (array_of (refer_default ref (core_v1 ''DownwardAPIVolumeFile''))))])
    [core_v1 ''DownwardAPIVolumeFile'']"

definition schema_core_v1_DownwardAPIVolumeFile :: "(string \<Rightarrow> string) \<Rightarrow> openapi_def" where
  "schema_core_v1_DownwardAPIVolumeFile ref = openapi_definition
    (object_of [''path''] [
        (''path'', a_string_default),
        (''fieldRef'', refer ref (core_v1 ''ObjectFieldSelector'')),
        (''resourceFieldRef'', refer ref (core_v1 ''ResourceFieldSelector'')),
        (''mode'', with_format ''int32'' (typed ''integer''))])
    [core_v1 ''ObjectFieldSelector'', core_v1 ''ResourceFieldSelector'']"

definition schema_core_v1_DownwardAPIVolumeSource :: "(string \<Rightarrow> string) \<Rightarrow> openapi_def" where
  "schema_core_v1_DownwardAPIVolumeSource ref = openapi_definition
    (object_of [] [
        (''items'',
            with_ext [list_type ''atomic''] (array_of (refer_default ref (core_v1 ''DownwardAPIVolumeFile'')))),
        (''defaultMode'', with_format ''int32'' (typed ''integer''))])
    [core_v1 ''DownwardAPIVolumeFile'']"

definition schema_core_v1_EmptyDirVolumeSource :: "(string \<Rightarrow> string) \<Rightarrow> openapi_def" where
  "schema_core_v1_EmptyDirVolumeSource ref = openapi_definition
    (object_of [] [
        (''medium'', a_string),
        (''sizeLimit'', refer ref (api_resource ''Quantity''))])
    [api_resource ''Quantity'']"

definition schema_core_v1_EndpointAddress :: "(string \<Rightarrow> string) \<Rightarrow> openapi_def" where
  "schema_core_v1_EndpointAddress ref = openapi_definition
    (with_ext [map_type ''atomic''] (object_of [''ip''] [
        (''ip'', a_string_default),
        (''hostname'', a_string),
        (''nodeName'', a_string),
        (''targetRef'', refer ref (core_v1 ''ObjectReference''))]))
    [core_v1 ''ObjectReference'']"

definition schema_core_v1_EndpointPort :: "(string \<Rightarrow> string) \<Rightarrow> openapi_def" where
  "schema_core_v1_EndpointPort ref = openapi_definition
    (with_ext [map_type ''atomic''] (object_of [''port''] [
        (''name'', a_string),
        (''port'', with_default (JInt 0) (with_format ''int32'' (typed ''integer''))),
        (''protocol'', with_enum [''SCTP'', ''TCP'', ''UDP''] a_string),
        (''appProtocol'', a_string)]))
    []"

definition schema_core_v1_EndpointSubset :: "(string \<Rightarrow> string) \<Rightarrow> openapi_def" where
  "schema_core_v1_EndpointSubset ref = openapi_definition
    (object_of [] [
        (''addresses'',
            with_ext [list_type ''atomic''] (array_of (refer_default ref (core_v1 ''EndpointAddress'')))),
        (''notReadyAddresses'',
            with_ext [list_type ''atomic''] (array_of (refer_default ref (core_v1 ''EndpointAddress'')))),
        (''ports'', with_ext [list_type ''atomic''] (array_of (refer_default ref (core_v1 ''EndpointPort''))))])
    [core_v1 ''EndpointAddress'', core_v1 ''EndpointPort'']"

definition schema_core_v1_Endpoints :: "(string \<Rightarrow> string) \<Rightarrow> openapi_def" where
  "schema_core_v1_Endpoints ref = openapi_definition
    (object_of [] [
        (''kind'', a_string),
        (''apiVersion'', a_string),
        (''metadata'', refer_default ref (meta_v1 ''ObjectMeta'')),
        (''subsets'', with_ext [list_type ''atomic''] (array_of (refer_default ref (core_v1 ''EndpointSubset''))))])
    [core_v1 ''EndpointSubset'', meta_v1 ''ObjectMeta'']"

definition schema_core_v1_EndpointsList :: "(string \<Rightarrow> string) \<Rightarrow> openapi_def" where
  "schema_core_v1_EndpointsList ref = openapi_definition
    (object_of [''items''] [
        (''kind'', a_string),
        (''apiVersion'', a_string),
        (''metadata'', refer_default ref (meta_v1 ''ListMeta'')),
        (''items'', array_of (refer_default ref (core_v1 ''Endpoints'')))])
    [core_v1 ''Endpoints'', meta_v1 ''ListMeta'']"

definition schema_core_v1_EnvFromSource :: "(string \<Rightarrow> string) \<Rightarrow> openapi_def" where
  "schema_core_v1_EnvFromSource ref = openapi_definition
    (object_of [] [
        (''prefix'', a_string),
        (''configMapRef'', refer ref (core_v1 ''ConfigMapEnvSource'')),
        (''secretRef'', refer ref (core_v1 ''SecretEnvSource''))])
    [core_v1 ''ConfigMapEnvSource'', core_v1 ''SecretEnvSource'']"

definition schema_core_v1_EnvVar :: "(string \<Rightarrow> string) \<Rightarrow> openapi_def" where
  "schema_core_v1_EnvVar ref = openapi_definition
    (object_of [''name''] [
        (''name'', a_string_default),
        (''value'', a_string),
        (''valueFrom'', refer ref (core_v1 ''EnvVarSource''))])
    [core_v1 ''EnvVarSource'']"

definition schema_core_v1_EnvVarSource :: "(string \<Rightarrow> string) \<Rightarrow> openapi_def" where
  "schema_core_v1_EnvVarSource ref = openapi_definition
    (object_of [] [
        (''fieldRef'', refer ref (core_v1 ''ObjectFieldSelector'')),
        (''resourceFieldRef'', refer ref (core_v1 ''ResourceFieldSelector'')),
        (''configMapKeyRef'', refer ref (core_v1 ''ConfigMapKeySelector'')),
        (''secretKeyRef'', refer ref (core_v1 ''SecretKeySelector''))])
    [core_v1 ''ConfigMapKeySelector'', core_v1 ''ObjectFieldSelector'', core_v1 ''ResourceFieldSelector'',
        core_v1 ''SecretKeySelector'']"

definition schema_core_v1_EphemeralContainer :: "(string \<Rightarrow> string) \<Rightarrow> openapi_def" where
  "schema_core_v1_EphemeralContainer ref = openapi_definition
    (object_of [''name''] [
        (''name'', a_string_default),
        (''image'', a_string),
        (''command'', with_ext [list_type ''atomic''] (array_of a_string_default)),
        (''args'', with_ext [list_type ''atomic''] (array_of a_string_default)),
        (''workingDir'', a_string),
        (''ports'', with_ext [list_map_keys [''containerPort'', ''protocol''], list_type ''map'',
            patch_merge_key ''containerPort'',
            patch_strategy ''merge''] (array_of (refer_default ref (core_v1 ''ContainerPort'')))),
        (''envFrom'', with_ext [list_type ''atomic''] (array_of (refer_default ref (core_v1 ''EnvFromSource'')))),
        (''env'', with_ext [list_map_keys [''name''], list_type ''map'', patch_merge_key ''name'',
            patch_strategy ''merge''] (array_of (refer_default ref (core_v1 ''EnvVar'')))),
        (''resources'', refer_default ref (core_v1 ''ResourceRequirements'')),
        (''resizePolicy'',
            with_ext [list_type ''atomic''] (array_of (refer_default ref (core_v1 ''ContainerResizePolicy'')))),
        (''restartPolicy'', a_string),
        (''volumeMounts'', with_ext [list_map_keys [''mountPath''], list_type ''map'',
            patch_merge_key ''mountPath'',
            patch_strategy ''merge''] (array_of (refer_default ref (core_v1 ''VolumeMount'')))),
        (''volumeDevices'', with_ext [list_map_keys [''devicePath''], list_type ''map'',
            patch_merge_key ''devicePath'',
            patch_strategy ''merge''] (array_of (refer_default ref (core_v1 ''VolumeDevice'')))),
        (''livenessProbe'', refer ref (core_v1 ''Probe'')),
        (''readinessProbe'', refer ref (core_v1 ''Probe'')),
        (''startupProbe'', refer ref (core_v1 ''Probe'')),
        (''lifecycle'', refer ref (core_v1 ''Lifecycle'')),
        (''terminationMessagePath'', a_string),
        (''terminationMessagePolicy'', with_enum [''FallbackToLogsOnError'', ''File''] a_string),
        (''imagePullPolicy'', with_enum [''Always'', ''IfNotPresent'', ''Never''] a_string),
        (''securityContext'', refer ref (core_v1 ''SecurityContext'')),
        (''stdin'', typed ''boolean''),
        (''stdinOnce'', typed ''boolean''),
        (''tty'', typed ''boolean''),
        (''targetContainerName'', a_string)])
    [core_v1 ''ContainerPort'', core_v1 ''ContainerResizePolicy'', core_v1 ''EnvFromSource'', core_v1 ''EnvVar'',
        core_v1 ''Lifecycle'', core_v1 ''Probe'', core_v1 ''ResourceRequirements'', core_v1 ''SecurityContext'',
        core_v1 ''VolumeDevice'', core_v1 ''VolumeMount'']"

definition schema_core_v1_EphemeralContainerCommon :: "(string \<Rightarrow> string) \<Rightarrow> openapi_def" where
  "schema_core_v1_EphemeralContainerCommon ref = openapi_definition
    (object_of [''name''] [
        (''name'', a_string_default),
        (''image'', a_string),
        (''command'', with_ext [list_type ''atomic''] (array_of a_string_default)),
        (''args'', with_ext [list_type ''atomic''] (array_of a_string_default)),
        (''workingDir'', a_string),
        (''ports'', with_ext [list_map_keys [''containerPort'', ''protocol''], list_type ''map'',
            patch_merge_key ''containerPort'',
            patch_strategy ''merge''] (array_of (refer_default ref (core_v1 ''ContainerPort'')))),
        (''envFrom'', with_ext [list_type ''atomic''] (array_of (refer_default ref (core_v1 ''EnvFromSource'')))),
        (''env'', with_ext [list_map_keys [''name''], list_type ''map'', patch_merge_key ''name'',
            patch_strategy ''merge''] (array_of (refer_default ref (core_v1 ''EnvVar'')))),
        (''resources'', refer_default ref (core_v1 ''ResourceRequirements'')),
        (''resizePolicy'',
            with_ext [list_type ''atomic''] (array_of (refer_default ref (core_v1 ''ContainerResizePolicy'')))),
        (''restartPolicy'', a_string),
        (''volumeMounts'', with_ext [list_map_keys [''mountPath''], list_type ''map'',
            patch_merge_key ''mountPath'',
            patch_strategy ''merge''] (array_of (refer_default ref (core_v1 ''VolumeMount'')))),
        (''volumeDevices'', with_ext [list_map_keys [''devicePath''], list_type ''map'',
            patch_merge_key ''devicePath'',
            patch_strategy ''merge''] (array_of (refer_default ref (core_v1 ''VolumeDevice'')))),
        (''livenessProbe'', refer ref (core_v1 ''Probe'')),
        (''readinessProbe'', refer ref (core_v1 ''Probe'')),
        (''startupProbe'', refer ref (core_v1 ''Probe'')),
        (''lifecycle'', refer ref (core_v1 ''Lifecycle'')),
        (''terminationMessagePath'', a_string),
        (''terminationMessagePolicy'', with_enum [''FallbackToLogsOnError'', ''File''] a_string),
        (''imagePullPolicy'', with_enum [''Always'', ''IfNotPresent'', ''Never''] a_string),
        (''securityContext'', refer ref (core_v1 ''SecurityContext'')),
        (''stdin'', typed ''boolean''),
        (''stdinOnce'', typed ''boolean''),
        (''tty'', typed ''boolean'')])
    [core_v1 ''ContainerPort'', core_v1 ''ContainerResizePolicy'', core_v1 ''EnvFromSource'', core_v1 ''EnvVar'',
        core_v1 ''Lifecycle'', core_v1 ''Probe'', core_v1 ''ResourceRequirements'', core_v1 ''SecurityContext'',
        core_v1 ''VolumeDevice'', core_v1 ''VolumeMount'']"

definition schema_core_v1_EphemeralVolumeSource :: "(string \<Rightarrow> string) \<Rightarrow> openapi_def" where
  "schema_core_v1_EphemeralVolumeSource ref = openapi_definition
    (object_of [] [
        (''volumeClaimTemplate'', refer ref (core_v1 ''PersistentVolumeClaimTemplate''))])
    [core_v1 ''PersistentVolumeClaimTemplate'']"

definition schema_core_v1_Event :: "(string \<Rightarrow> string) \<Rightarrow> openapi_def" where
  "schema_core_v1_Event ref = openapi_definition
    (object_of [''metadata'', ''involvedObject''] [
        (''kind'', a_string),
        (''apiVersion'', a_string),
        (''metadata'', refer_default ref (meta_v1 ''ObjectMeta'')),
        (''involvedObject'', refer_default ref (core_v1 ''ObjectReference'')),
        (''reason'', a_string),
        (''message'', a_string),
        (''source'', refer_default ref (core_v1 ''EventSource'')),
        (''firstTimestamp'', refer ref (meta_v1 ''Time'')),
        (''lastTimestamp'', refer ref (meta_v1 ''Time'')),
        (''count'', with_format ''int32'' (typed ''integer'')),
        (''type'', a_string),
        (''eventTime'', refer ref (meta_v1 ''MicroTime'')),
        (''series'', refer ref (core_v1 ''EventSeries'')),
        (''action'', a_string),
        (''related'', refer ref (core_v1 ''ObjectReference'')),
        (''reportingComponent'', a_string_default),
        (''reportingInstance'', a_string_default)])
    [core_v1 ''EventSeries'', core_v1 ''EventSource'', core_v1 ''ObjectReference'', meta_v1 ''MicroTime'',
        meta_v1 ''ObjectMeta'', meta_v1 ''Time'']"

definition schema_core_v1_EventList :: "(string \<Rightarrow> string) \<Rightarrow> openapi_def" where
  "schema_core_v1_EventList ref = openapi_definition
    (object_of [''items''] [
        (''kind'', a_string),
        (''apiVersion'', a_string),
        (''metadata'', refer_default ref (meta_v1 ''ListMeta'')),
        (''items'', array_of (refer_default ref (core_v1 ''Event'')))])
    [core_v1 ''Event'', meta_v1 ''ListMeta'']"

definition schema_core_v1_EventSeries :: "(string \<Rightarrow> string) \<Rightarrow> openapi_def" where
  "schema_core_v1_EventSeries ref = openapi_definition
    (object_of [] [
        (''count'', with_format ''int32'' (typed ''integer'')),
        (''lastObservedTime'', refer ref (meta_v1 ''MicroTime''))])
    [meta_v1 ''MicroTime'']"

definition schema_core_v1_EventSource :: "(string \<Rightarrow> string) \<Rightarrow> openapi_def" where
  "schema_core_v1_EventSource ref = openapi_definition
    (object_of [] [
        (''component'', a_string),
        (''host'', a_string)])
    []"

definition schema_core_v1_ExecAction :: "(string \<Rightarrow> string) \<Rightarrow> openapi_def" where
  "schema_core_v1_ExecAction ref = openapi_definition
    (object_of [] [
        (''command'', with_ext [list_type ''atomic''] (array_of a_string_default))])
    []"

definition core_a_to_e_definitions :: "(string \<Rightarrow> string) \<Rightarrow> (string \<times> openapi_def) list" where
  "core_a_to_e_definitions ref =
     [(core_v1 ''AWSElasticBlockStoreVolumeSource'', schema_core_v1_AWSElasticBlockStoreVolumeSource ref),
      (core_v1 ''Affinity'', schema_core_v1_Affinity ref),
      (core_v1 ''AppArmorProfile'', schema_core_v1_AppArmorProfile ref),
      (core_v1 ''AttachedVolume'', schema_core_v1_AttachedVolume ref),
      (core_v1 ''AvoidPods'', schema_core_v1_AvoidPods ref),
      (core_v1 ''AzureDiskVolumeSource'', schema_core_v1_AzureDiskVolumeSource ref),
      (core_v1 ''AzureFilePersistentVolumeSource'', schema_core_v1_AzureFilePersistentVolumeSource ref),
      (core_v1 ''AzureFileVolumeSource'', schema_core_v1_AzureFileVolumeSource ref),
      (core_v1 ''Binding'', schema_core_v1_Binding ref),
      (core_v1 ''CSIPersistentVolumeSource'', schema_core_v1_CSIPersistentVolumeSource ref),
      (core_v1 ''CSIVolumeSource'', schema_core_v1_CSIVolumeSource ref),
      (core_v1 ''Capabilities'', schema_core_v1_Capabilities ref),
      (core_v1 ''CephFSPersistentVolumeSource'', schema_core_v1_CephFSPersistentVolumeSource ref),
      (core_v1 ''CephFSVolumeSource'', schema_core_v1_CephFSVolumeSource ref),
      (core_v1 ''CinderPersistentVolumeSource'', schema_core_v1_CinderPersistentVolumeSource ref),
      (core_v1 ''CinderVolumeSource'', schema_core_v1_CinderVolumeSource ref),
      (core_v1 ''ClaimSource'', schema_core_v1_ClaimSource ref),
      (core_v1 ''ClientIPConfig'', schema_core_v1_ClientIPConfig ref),
      (core_v1 ''ClusterTrustBundleProjection'', schema_core_v1_ClusterTrustBundleProjection ref),
      (core_v1 ''ComponentCondition'', schema_core_v1_ComponentCondition ref),
      (core_v1 ''ComponentStatus'', schema_core_v1_ComponentStatus ref),
      (core_v1 ''ComponentStatusList'', schema_core_v1_ComponentStatusList ref),
      (core_v1 ''ConfigMap'', schema_core_v1_ConfigMap ref),
      (core_v1 ''ConfigMapEnvSource'', schema_core_v1_ConfigMapEnvSource ref),
      (core_v1 ''ConfigMapKeySelector'', schema_core_v1_ConfigMapKeySelector ref),
      (core_v1 ''ConfigMapList'', schema_core_v1_ConfigMapList ref),
      (core_v1 ''ConfigMapNodeConfigSource'', schema_core_v1_ConfigMapNodeConfigSource ref),
      (core_v1 ''ConfigMapProjection'', schema_core_v1_ConfigMapProjection ref),
      (core_v1 ''ConfigMapVolumeSource'', schema_core_v1_ConfigMapVolumeSource ref),
      (core_v1 ''Container'', schema_core_v1_Container ref),
      (core_v1 ''ContainerImage'', schema_core_v1_ContainerImage ref),
      (core_v1 ''ContainerPort'', schema_core_v1_ContainerPort ref),
      (core_v1 ''ContainerResizePolicy'', schema_core_v1_ContainerResizePolicy ref),
      (core_v1 ''ContainerState'', schema_core_v1_ContainerState ref),
      (core_v1 ''ContainerStateRunning'', schema_core_v1_ContainerStateRunning ref),
      (core_v1 ''ContainerStateTerminated'', schema_core_v1_ContainerStateTerminated ref),
      (core_v1 ''ContainerStateWaiting'', schema_core_v1_ContainerStateWaiting ref),
      (core_v1 ''ContainerStatus'', schema_core_v1_ContainerStatus ref),
      (core_v1 ''DaemonEndpoint'', schema_core_v1_DaemonEndpoint ref),
      (core_v1 ''DownwardAPIProjection'', schema_core_v1_DownwardAPIProjection ref),
      (core_v1 ''DownwardAPIVolumeFile'', schema_core_v1_DownwardAPIVolumeFile ref),
      (core_v1 ''DownwardAPIVolumeSource'', schema_core_v1_DownwardAPIVolumeSource ref),
      (core_v1 ''EmptyDirVolumeSource'', schema_core_v1_EmptyDirVolumeSource ref),
      (core_v1 ''EndpointAddress'', schema_core_v1_EndpointAddress ref),
      (core_v1 ''EndpointPort'', schema_core_v1_EndpointPort ref),
      (core_v1 ''EndpointSubset'', schema_core_v1_EndpointSubset ref),
      (core_v1 ''Endpoints'', schema_core_v1_Endpoints ref),
      (core_v1 ''EndpointsList'', schema_core_v1_EndpointsList ref),
      (core_v1 ''EnvFromSource'', schema_core_v1_EnvFromSource ref),
      (core_v1 ''EnvVar'', schema_core_v1_EnvVar ref),
      (core_v1 ''EnvVarSource'', schema_core_v1_EnvVarSource ref),
      (core_v1 ''EphemeralContainer'', schema_core_v1_EphemeralContainer ref),
      (core_v1 ''EphemeralContainerCommon'', schema_core_v1_EphemeralContainerCommon ref),
      (core_v1 ''EphemeralVolumeSource'', schema_core_v1_EphemeralVolumeSource ref),
      (core_v1 ''Event'', schema_core_v1_Event ref),
      (core_v1 ''EventList'', schema_core_v1_EventList ref),
      (core_v1 ''EventSeries'', schema_core_v1_EventSeries ref),
      (core_v1 ''EventSource'', schema_core_v1_EventSource ref),
      (core_v1 ''ExecAction'', schema_core_v1_ExecAction ref)]"

definition schema_core_v1_FCVolumeSource :: "(string \<Rightarrow> string) \<Rightarrow> openapi_def" where
  "schema_core_v1_FCVolumeSource ref = openapi_definition
    (object_of [] [
        (''targetWWNs'', with_ext [list_type ''atomic''] (array_of a_string_default)),
        (''lun'', with_format ''int32'' (typed ''integer'')),
        (''fsType'', a_string),
        (''readOnly'', typed ''boolean''),
        (''wwids'', with_ext [list_type ''atomic''] (array_of a_string_default))])
    []"

definition schema_core_v1_FlexPersistentVolumeSource :: "(string \<Rightarrow> string) \<Rightarrow> openapi_def" where
  "schema_core_v1_FlexPersistentVolumeSource ref = openapi_definition
    (object_of [''driver''] [
        (''driver'', a_string_default),
        (''fsType'', a_string),
        (''secretRef'', refer ref (core_v1 ''SecretReference'')),
        (''readOnly'', typed ''boolean''),
        (''options'', map_of_schema a_string_default)])
    [core_v1 ''SecretReference'']"

definition schema_core_v1_FlexVolumeSource :: "(string \<Rightarrow> string) \<Rightarrow> openapi_def" where
  "schema_core_v1_FlexVolumeSource ref = openapi_definition
    (object_of [''driver''] [
        (''driver'', a_string_default),
        (''fsType'', a_string),
        (''secretRef'', refer ref (core_v1 ''LocalObjectReference'')),
        (''readOnly'', typed ''boolean''),
        (''options'', map_of_schema a_string_default)])
    [core_v1 ''LocalObjectReference'']"

definition schema_core_v1_FlockerVolumeSource :: "(string \<Rightarrow> string) \<Rightarrow> openapi_def" where
  "schema_core_v1_FlockerVolumeSource ref = openapi_definition
    (object_of [] [
        (''datasetName'', a_string),
        (''datasetUUID'', a_string)])
    []"

definition schema_core_v1_GCEPersistentDiskVolumeSource :: "(string \<Rightarrow> string) \<Rightarrow> openapi_def" where
  "schema_core_v1_GCEPersistentDiskVolumeSource ref = openapi_definition
    (object_of [''pdName''] [
        (''pdName'', a_string_default),
        (''fsType'', a_string),
        (''partition'', with_format ''int32'' (typed ''integer'')),
        (''readOnly'', typed ''boolean'')])
    []"

definition schema_core_v1_GRPCAction :: "(string \<Rightarrow> string) \<Rightarrow> openapi_def" where
  "schema_core_v1_GRPCAction ref = openapi_definition
    (object_of [''port''] [
        (''port'', with_default (JInt 0) (with_format ''int32'' (typed ''integer''))),
        (''service'', a_string_default)])
    []"

definition schema_core_v1_GitRepoVolumeSource :: "(string \<Rightarrow> string) \<Rightarrow> openapi_def" where
  "schema_core_v1_GitRepoVolumeSource ref = openapi_definition
    (object_of [''repository''] [
        (''repository'', a_string_default),
        (''revision'', a_string),
        (''directory'', a_string)])
    []"

definition schema_core_v1_GlusterfsPersistentVolumeSource :: "(string \<Rightarrow> string) \<Rightarrow> openapi_def" where
  "schema_core_v1_GlusterfsPersistentVolumeSource ref = openapi_definition
    (object_of [''endpoints'', ''path''] [
        (''endpoints'', a_string_default),
        (''path'', a_string_default),
        (''readOnly'', typed ''boolean''),
        (''endpointsNamespace'', a_string)])
    []"

definition schema_core_v1_GlusterfsVolumeSource :: "(string \<Rightarrow> string) \<Rightarrow> openapi_def" where
  "schema_core_v1_GlusterfsVolumeSource ref = openapi_definition
    (object_of [''endpoints'', ''path''] [
        (''endpoints'', a_string_default),
        (''path'', a_string_default),
        (''readOnly'', typed ''boolean'')])
    []"

definition schema_core_v1_HTTPGetAction :: "(string \<Rightarrow> string) \<Rightarrow> openapi_def" where
  "schema_core_v1_HTTPGetAction ref = openapi_definition
    (object_of [''port''] [
        (''path'', a_string),
        (''port'', refer ref (util_intstr ''IntOrString'')),
        (''host'', a_string),
        (''scheme'', with_enum [''HTTP'', ''HTTPS''] a_string),
        (''httpHeaders'', with_ext [list_type ''atomic''] (array_of (refer_default ref (core_v1 ''HTTPHeader''))))])
    [core_v1 ''HTTPHeader'', util_intstr ''IntOrString'']"

definition schema_core_v1_HTTPHeader :: "(string \<Rightarrow> string) \<Rightarrow> openapi_def" where
  "schema_core_v1_HTTPHeader ref = openapi_definition
    (object_of [''name'', ''value''] [
        (''name'', a_string_default),
        (''value'', a_string_default)])
    []"

definition schema_core_v1_HostAlias :: "(string \<Rightarrow> string) \<Rightarrow> openapi_def" where
  "schema_core_v1_HostAlias ref = openapi_definition
    (object_of [''ip''] [
        (''ip'', a_string_default),
        (''hostnames'', with_ext [list_type ''atomic''] (array_of a_string_default))])
    []"

definition schema_core_v1_HostIP :: "(string \<Rightarrow> string) \<Rightarrow> openapi_def" where
  "schema_core_v1_HostIP ref = openapi_definition
    (object_of [] [
        (''ip'', a_string)])
    []"

definition schema_core_v1_HostPathVolumeSource :: "(string \<Rightarrow> string) \<Rightarrow> openapi_def" where
  "schema_core_v1_HostPathVolumeSource ref = openapi_definition
    (object_of [''path''] [
        (''path'', a_string_default),
        (''type'', with_enum ['''', ''BlockDevice'', ''CharDevice'', ''Directory'', ''DirectoryOrCreate'',
            ''File'', ''FileOrCreate'', ''Socket''] a_string)])
    []"

definition schema_core_v1_ISCSIPersistentVolumeSource :: "(string \<Rightarrow> string) \<Rightarrow> openapi_def" where
  "schema_core_v1_ISCSIPersistentVolumeSource ref = openapi_definition
    (object_of [''targetPortal'', ''iqn'', ''lun''] [
        (''targetPortal'', a_string_default),
        (''iqn'', a_string_default),
        (''lun'', with_default (JInt 0) (with_format ''int32'' (typed ''integer''))),
        (''iscsiInterface'', a_string),
        (''fsType'', a_string),
        (''readOnly'', typed ''boolean''),
        (''portals'', with_ext [list_type ''atomic''] (array_of a_string_default)),
        (''chapAuthDiscovery'', typed ''boolean''),
        (''chapAuthSession'', typed ''boolean''),
        (''secretRef'', refer ref (core_v1 ''SecretReference'')),
        (''initiatorName'', a_string)])
    [core_v1 ''SecretReference'']"

definition schema_core_v1_ISCSIVolumeSource :: "(string \<Rightarrow> string) \<Rightarrow> openapi_def" where
  "schema_core_v1_ISCSIVolumeSource ref = openapi_definition
    (object_of [''targetPortal'', ''iqn'', ''lun''] [
        (''targetPortal'', a_string_default),
        (''iqn'', a_string_default),
        (''lun'', with_default (JInt 0) (with_format ''int32'' (typed ''integer''))),
        (''iscsiInterface'', a_string),
        (''fsType'', a_string),
        (''readOnly'', typed ''boolean''),
        (''portals'', with_ext [list_type ''atomic''] (array_of a_string_default)),
        (''chapAuthDiscovery'', typed ''boolean''),
        (''chapAuthSession'', typed ''boolean''),
        (''secretRef'', refer ref (core_v1 ''LocalObjectReference'')),
        (''initiatorName'', a_string)])
    [core_v1 ''LocalObjectReference'']"

definition schema_core_v1_KeyToPath :: "(string \<Rightarrow> string) \<Rightarrow> openapi_def" where
  "schema_core_v1_KeyToPath ref = openapi_definition
    (object_of [''key'', ''path''] [
        (''key'', a_string_default),
        (''path'', a_string_default),
        (''mode'', with_format ''int32'' (typed ''integer''))])
    []"

definition schema_core_v1_Lifecycle :: "(string \<Rightarrow> string) \<Rightarrow> openapi_def" where
  "schema_core_v1_Lifecycle ref = openapi_definition
    (object_of [] [
        (''postStart'', refer ref (core_v1 ''LifecycleHandler'')),
        (''preStop'', refer ref (core_v1 ''LifecycleHandler''))])
    [core_v1 ''LifecycleHandler'']"

definition schema_core_v1_LifecycleHandler :: "(string \<Rightarrow> string) \<Rightarrow> openapi_def" where
  "schema_core_v1_LifecycleHandler ref = openapi_definition
    (object_of [] [
        (''exec'', refer ref (core_v1 ''ExecAction'')),
        (''httpGet'', refer ref (core_v1 ''HTTPGetAction'')),
        (''tcpSocket'', refer ref (core_v1 ''TCPSocketAction'')),
        (''sleep'', refer ref (core_v1 ''SleepAction''))])
    [core_v1 ''ExecAction'', core_v1 ''HTTPGetAction'', core_v1 ''SleepAction'', core_v1 ''TCPSocketAction'']"

definition schema_core_v1_LimitRange :: "(string \<Rightarrow> string) \<Rightarrow> openapi_def" where
  "schema_core_v1_LimitRange ref = openapi_definition
    (object_of [] [
        (''kind'', a_string),
        (''apiVersion'', a_string),
        (''metadata'', refer_default ref (meta_v1 ''ObjectMeta'')),
        (''spec'', refer_default ref (core_v1 ''LimitRangeSpec''))])
    [core_v1 ''LimitRangeSpec'', meta_v1 ''ObjectMeta'']"

definition schema_core_v1_LimitRangeItem :: "(string \<Rightarrow> string) \<Rightarrow> openapi_def" where
  "schema_core_v1_LimitRangeItem ref = openapi_definition
    (object_of [''type''] [
        (''type'', a_string_default),
        (''max'', map_of_schema (refer ref (api_resource ''Quantity''))),
        (''min'', map_of_schema (refer ref (api_resource ''Quantity''))),
        (''default'', map_of_schema (refer ref (api_resource ''Quantity''))),
        (''defaultRequest'', map_of_schema (refer ref (api_resource ''Quantity''))),
        (''maxLimitRequestRatio'', map_of_schema (refer ref (api_resource ''Quantity'')))])
    [api_resource ''Quantity'']"

definition schema_core_v1_LimitRangeList :: "(string \<Rightarrow> string) \<Rightarrow> openapi_def" where
  "schema_core_v1_LimitRangeList ref = openapi_definition
    (object_of [''items''] [
        (''kind'', a_string),
        (''apiVersion'', a_string),
        (''metadata'', refer_default ref (meta_v1 ''ListMeta'')),
        (''items'', array_of (refer_default ref (core_v1 ''LimitRange'')))])
    [core_v1 ''LimitRange'', meta_v1 ''ListMeta'']"

definition schema_core_v1_LimitRangeSpec :: "(string \<Rightarrow> string) \<Rightarrow> openapi_def" where
  "schema_core_v1_LimitRangeSpec ref = openapi_definition
    (object_of [''limits''] [
        (''limits'', with_ext [list_type ''atomic''] (array_of (refer_default ref (core_v1 ''LimitRangeItem''))))])
    [core_v1 ''LimitRangeItem'']"

definition schema_core_v1_List :: "(string \<Rightarrow> string) \<Rightarrow> openapi_def" where
  "schema_core_v1_List ref = openapi_definition
    (object_of [''items''] [
        (''kind'', a_string),
        (''apiVersion'', a_string),
        (''metadata'', refer_default ref (meta_v1 ''ListMeta'')),
        (''items'', array_of (refer ref (api_runtime ''RawExtension'')))])
    [meta_v1 ''ListMeta'', api_runtime ''RawExtension'']"

definition schema_core_v1_LoadBalancerIngress :: "(string \<Rightarrow> string) \<Rightarrow> openapi_def" where
  "schema_core_v1_LoadBalancerIngress ref = openapi_definition
    (object_of [] [
        (''ip'', a_string),
        (''hostname'', a_string),
        (''ipMode'', a_string),
        (''ports'', with_ext [list_type ''atomic''] (array_of (refer_default ref (core_v1 ''PortStatus''))))])
    [core_v1 ''PortStatus'']"

definition schema_core_v1_LoadBalancerStatus :: "(string \<Rightarrow> string) \<Rightarrow> openapi_def" where
  "schema_core_v1_LoadBalancerStatus ref = openapi_definition
    (object_of [] [
        (''ingress'',
            with_ext [list_type ''atomic''] (array_of (refer_default ref (core_v1 ''LoadBalancerIngress''))))])
    [core_v1 ''LoadBalancerIngress'']"

definition schema_core_v1_LocalObjectReference :: "(string \<Rightarrow> string) \<Rightarrow> openapi_def" where
  "schema_core_v1_LocalObjectReference ref = openapi_definition
    (with_ext [map_type ''atomic''] (object_of [] [
        (''name'', a_string_default)]))
    []"

definition schema_core_v1_LocalVolumeSource :: "(string \<Rightarrow> string) \<Rightarrow> openapi_def" where
  "schema_core_v1_LocalVolumeSource ref = openapi_definition
    (object_of [''path''] [
        (''path'', a_string_default),
        (''fsType'', a_string)])
    []"

definition schema_core_v1_ModifyVolumeStatus :: "(string \<Rightarrow> string) \<Rightarrow> openapi_def" where
  "schema_core_v1_ModifyVolumeStatus ref = openapi_definition
    (object_of [''status''] [
        (''targetVolumeAttributesClassName'', a_string),
        (''status'', with_enum [''InProgress'', ''Infeasible'', ''Pending''] a_string_default)])
    []"

definition schema_core_v1_NFSVolumeSource :: "(string \<Rightarrow> string) \<Rightarrow> openapi_def" where
  "schema_core_v1_NFSVolumeSource ref = openapi_definition
    (object_of [''server'', ''path''] [
        (''server'', a_string_default),
        (''path'', a_string_default),
        (''readOnly'', typed ''boolean'')])
    []"

definition schema_core_v1_Namespace :: "(string \<Rightarrow> string) \<Rightarrow> openapi_def" where
  "schema_core_v1_Namespace ref = openapi_definition
    (object_of [] [
        (''kind'', a_string),
        (''apiVersion'', a_string),
        (''metadata'', refer_default ref (meta_v1 ''ObjectMeta'')),
        (''spec'', refer_default ref (core_v1 ''NamespaceSpec'')),
        (''status'', refer_default ref (core_v1 ''NamespaceStatus''))])
    [core_v1 ''NamespaceSpec'', core_v1 ''NamespaceStatus'', meta_v1 ''ObjectMeta'']"

definition schema_core_v1_NamespaceCondition :: "(string \<Rightarrow> string) \<Rightarrow> openapi_def" where
  "schema_core_v1_NamespaceCondition ref = openapi_definition
    (object_of [''type'', ''status''] [
        (''type'', a_string_default),
        (''status'', a_string_default),
        (''lastTransitionTime'', refer ref (meta_v1 ''Time'')),
        (''reason'', a_string),
        (''message'', a_string)])
    [meta_v1 ''Time'']"

definition schema_core_v1_NamespaceList :: "(string \<Rightarrow> string) \<Rightarrow> openapi_def" where
  "schema_core_v1_NamespaceList ref = openapi_definition
    (object_of [''items''] [
        (''kind'', a_string),
        (''apiVersion'', a_string),
        (''metadata'', refer_default ref (meta_v1 ''ListMeta'')),
        (''items'', array_of (refer_default ref (core_v1 ''Namespace'')))])
    [core_v1 ''Namespace'', meta_v1 ''ListMeta'']"

definition schema_core_v1_NamespaceSpec :: "(string \<Rightarrow> string) \<Rightarrow> openapi_def" where
  "schema_core_v1_NamespaceSpec ref = openapi_definition
    (object_of [] [
        (''finalizers'', with_ext [list_type ''atomic''] (array_of a_string_default))])
    []"

definition schema_core_v1_NamespaceStatus :: "(string \<Rightarrow> string) \<Rightarrow> openapi_def" where
  "schema_core_v1_NamespaceStatus ref = openapi_definition
    (object_of [] [
        (''phase'', with_enum [''Active'', ''Terminating''] a_string),
        (''conditions'', with_ext [list_map_keys [''type''], list_type ''map'', patch_merge_key ''type'',
            patch_strategy ''merge''] (array_of (refer_default ref (core_v1 ''NamespaceCondition''))))])
    [core_v1 ''NamespaceCondition'']"

definition schema_core_v1_Node :: "(string \<Rightarrow> string) \<Rightarrow> openapi_def" where
  "schema_core_v1_Node ref = openapi_definition
    (object_of [] [
        (''kind'', a_string),
        (''apiVersion'', a_string),
        (''metadata'', refer_default ref (meta_v1 ''ObjectMeta'')),
        (''spec'', refer_default ref (core_v1 ''NodeSpec'')),
        (''status'', refer_default ref (core_v1 ''NodeStatus''))])
    [core_v1 ''NodeSpec'', core_v1 ''NodeStatus'', meta_v1 ''ObjectMeta'']"

definition schema_core_v1_NodeAddress :: "(string \<Rightarrow> string) \<Rightarrow> openapi_def" where
  "schema_core_v1_NodeAddress ref = openapi_definition
    (object_of [''type'', ''address''] [
        (''type'', a_string_default),
        (''address'', a_string_default)])
    []"

definition schema_core_v1_NodeAffinity :: "(string \<Rightarrow> string) \<Rightarrow> openapi_def" where
  "schema_core_v1_NodeAffinity ref = openapi_definition
    (object_of [] [
        (''requiredDuringSchedulingIgnoredDuringExecution'', refer ref (core_v1 ''NodeSelector'')),
        (''preferredDuringSchedulingIgnoredDuringExecution'',
            with_ext [list_type ''atomic''] (array_of (refer_default ref (core_v1 ''PreferredSchedulingTerm''))))])
    [core_v1 ''NodeSelector'', core_v1 ''PreferredSchedulingTerm'']"

definition schema_core_v1_NodeCondition :: "(string \<Rightarrow> string) \<Rightarrow> openapi_def" where
  "schema_core_v1_NodeCondition ref = openapi_definition
    (object_of [''type'', ''status''] [
        (''type'', a_string_default),
        (''status'', a_string_default),
        (''lastHeartbeatTime'', refer ref (meta_v1 ''Time'')),
        (''lastTransitionTime'', refer ref (meta_v1 ''Time'')),
        (''reason'', a_string),
        (''message'', a_string)])
    [meta_v1 ''Time'']"

definition schema_core_v1_NodeConfigSource :: "(string \<Rightarrow> string) \<Rightarrow> openapi_def" where
  "schema_core_v1_NodeConfigSource ref = openapi_definition
    (object_of [] [
        (''configMap'', refer ref (core_v1 ''ConfigMapNodeConfigSource''))])
    [core_v1 ''ConfigMapNodeConfigSource'']"

definition schema_core_v1_NodeConfigStatus :: "(string \<Rightarrow> string) \<Rightarrow> openapi_def" where
  "schema_core_v1_NodeConfigStatus ref = openapi_definition
    (object_of [] [
        (''assigned'', refer ref (core_v1 ''NodeConfigSource'')),
        (''active'', refer ref (core_v1 ''NodeConfigSource'')),
        (''lastKnownGood'', refer ref (core_v1 ''NodeConfigSource'')),
        (''error'', a_string)])
    [core_v1 ''NodeConfigSource'']"

definition schema_core_v1_NodeDaemonEndpoints :: "(string \<Rightarrow> string) \<Rightarrow> openapi_def" where
  "schema_core_v1_NodeDaemonEndpoints ref = openapi_definition
    (object_of [] [
        (''kubeletEndpoint'', refer_default ref (core_v1 ''DaemonEndpoint''))])
    [core_v1 ''DaemonEndpoint'']"

definition schema_core_v1_NodeList :: "(string \<Rightarrow> string) \<Rightarrow> openapi_def" where
  "schema_core_v1_NodeList ref = openapi_definition
    (object_of [''items''] [
        (''kind'', a_string),
        (''apiVersion'', a_string),
        (''metadata'', refer_default ref (meta_v1 ''ListMeta'')),
        (''items'', array_of (refer_default ref (core_v1 ''Node'')))])
    [core_v1 ''Node'', meta_v1 ''ListMeta'']"

definition schema_core_v1_NodeProxyOptions :: "(string \<Rightarrow> string) \<Rightarrow> openapi_def" where
  "schema_core_v1_NodeProxyOptions ref = openapi_definition
    (object_of [] [
        (''kind'', a_string),
        (''apiVersion'', a_string),
        (''path'', a_string)])
    []"

definition schema_core_v1_NodeRuntimeHandler :: "(string \<Rightarrow> string) \<Rightarrow> openapi_def" where
  "schema_core_v1_NodeRuntimeHandler ref = openapi_definition
    (object_of [] [
        (''name'', a_string_default),
        (''features'', refer ref (core_v1 ''NodeRuntimeHandlerFeatures''))])
    [core_v1 ''NodeRuntimeHandlerFeatures'']"

definition schema_core_v1_NodeRuntimeHandlerFeatures :: "(string \<Rightarrow> string) \<Rightarrow> openapi_def" where
  "schema_core_v1_NodeRuntimeHandlerFeatures ref = openapi_definition
    (object_of [] [
        (''recursiveReadOnlyMounts'', typed ''boolean'')])
    []"

definition schema_core_v1_NodeSelector :: "(string \<Rightarrow> string) \<Rightarrow> openapi_def" where
  "schema_core_v1_NodeSelector ref = openapi_definition
    (with_ext [map_type ''atomic''] (object_of [''nodeSelectorTerms''] [
        (''nodeSelectorTerms'',
            with_ext [list_type ''atomic''] (array_of (refer_default ref (core_v1 ''NodeSelectorTerm''))))]))
    [core_v1 ''NodeSelectorTerm'']"

definition schema_core_v1_NodeSelectorRequirement :: "(string \<Rightarrow> string) \<Rightarrow> openapi_def" where
  "schema_core_v1_NodeSelectorRequirement ref = openapi_definition
    (object_of [''key'', ''operator''] [
        (''key'', a_string_default),
        (''operator'', with_enum [''DoesNotExist'', ''Exists'', ''Gt'', ''In'', ''Lt'',
            ''NotIn''] a_string_default),
        (''values'', with_ext [list_type ''atomic''] (array_of a_string_default))])
    []"

definition schema_core_v1_NodeSelectorTerm :: "(string \<Rightarrow> string) \<Rightarrow> openapi_def" where
  "schema_core_v1_NodeSelectorTerm ref = openapi_definition
    (with_ext [map_type ''atomic''] (object_of [] [
        (''matchExpressions'',
            with_ext [list_type ''atomic''] (array_of (refer_default ref (core_v1 ''NodeSelectorRequirement'')))),
        (''matchFields'',
            with_ext [list_type ''atomic''] (array_of (refer_default ref (core_v1 ''NodeSelectorRequirement''))))]))
    [core_v1 ''NodeSelectorRequirement'']"

definition schema_core_v1_NodeSpec :: "(string \<Rightarrow> string) \<Rightarrow> openapi_def" where
  "schema_core_v1_NodeSpec ref = openapi_definition
    (object_of [] [
        (''podCIDR'', a_string),
        (''podCIDRs'', with_ext [list_type ''set'', patch_strategy ''merge''] (array_of a_string_default)),
        (''providerID'', a_string),
        (''unschedulable'', typed ''boolean''),
        (''taints'', with_ext [list_type ''atomic''] (array_of (refer_default ref (core_v1 ''Taint'')))),
        (''configSource'', refer ref (core_v1 ''NodeConfigSource'')),
        (''externalID'', a_string)])
    [core_v1 ''NodeConfigSource'', core_v1 ''Taint'']"

definition schema_core_v1_NodeStatus :: "(string \<Rightarrow> string) \<Rightarrow> openapi_def" where
  "schema_core_v1_NodeStatus ref = openapi_definition
    (object_of [] [
        (''capacity'', map_of_schema (refer ref (api_resource ''Quantity''))),
        (''allocatable'', map_of_schema (refer ref (api_resource ''Quantity''))),
        (''phase'', with_enum [''Pending'', ''Running'', ''Terminated''] a_string),
        (''conditions'', with_ext [list_map_keys [''type''], list_type ''map'', patch_merge_key ''type'',
            patch_strategy ''merge''] (array_of (refer_default ref (core_v1 ''NodeCondition'')))),
        (''addresses'', with_ext [list_map_keys [''type''], list_type ''map'', patch_merge_key ''type'',
            patch_strategy ''merge''] (array_of (refer_default ref (core_v1 ''NodeAddress'')))),
        (''daemonEndpoints'', refer_default ref (core_v1 ''NodeDaemonEndpoints'')),
        (''nodeInfo'', refer_default ref (core_v1 ''NodeSystemInfo'')),
        (''images'', with_ext [list_type ''atomic''] (array_of (refer_default ref (core_v1 ''ContainerImage'')))),
        (''volumesInUse'', with_ext [list_type ''atomic''] (array_of a_string_default)),
        (''volumesAttached'',
            with_ext [list_type ''atomic''] (array_of (refer_default ref (core_v1 ''AttachedVolume'')))),
        (''config'', refer ref (core_v1 ''NodeConfigStatus'')),
        (''runtimeHandlers'',
            with_ext [list_type ''atomic''] (array_of (refer_default ref (core_v1 ''NodeRuntimeHandler''))))])
    [core_v1 ''AttachedVolume'', core_v1 ''ContainerImage'', core_v1 ''NodeAddress'', core_v1 ''NodeCondition'',
        core_v1 ''NodeConfigStatus'', core_v1 ''NodeDaemonEndpoints'', core_v1 ''NodeRuntimeHandler'',
        core_v1 ''NodeSystemInfo'', api_resource ''Quantity'']"

definition schema_core_v1_NodeSystemInfo :: "(string \<Rightarrow> string) \<Rightarrow> openapi_def" where
  "schema_core_v1_NodeSystemInfo ref = openapi_definition
    (object_of [''machineID'', ''systemUUID'', ''bootID'', ''kernelVersion'', ''osImage'',
        ''containerRuntimeVersion'', ''kubeletVersion'', ''kubeProxyVersion'', ''operatingSystem'',
        ''architecture''] [
        (''machineID'', a_string_default),
        (''systemUUID'', a_string_default),
        (''bootID'', a_string_default),
        (''kernelVersion'', a_string_default),
        (''osImage'', a_string_default),
        (''containerRuntimeVersion'', a_string_default),
        (''kubeletVersion'', a_string_default),
        (''kubeProxyVersion'', a_string_default),
        (''operatingSystem'', a_string_default),
        (''architecture'', a_string_default)])
    []"

definition schema_core_v1_ObjectFieldSelector :: "(string \<Rightarrow> string) \<Rightarrow> openapi_def" where
  "schema_core_v1_ObjectFieldSelector ref = openapi_definition
    (with_ext [map_type ''atomic''] (object_of [''fieldPath''] [
        (''apiVersion'', a_string),
        (''fieldPath'', a_string_default)]))
    []"

definition schema_core_v1_ObjectReference :: "(string \<Rightarrow> string) \<Rightarrow> openapi_def" where
  "schema_core_v1_ObjectReference ref = openapi_definition
    (with_ext [map_type ''atomic''] (object_of [] [
        (''kind'', a_string),
        (''namespace'', a_string),
        (''name'', a_string),
        (''uid'', a_string),
        (''apiVersion'', a_string),
        (''resourceVersion'', a_string),
        (''fieldPath'', a_string)]))
    []"

definition core_f_to_o_definitions :: "(string \<Rightarrow> string) \<Rightarrow> (string \<times> openapi_def) list" where
  "core_f_to_o_definitions ref =
     [(core_v1 ''FCVolumeSource'', schema_core_v1_FCVolumeSource ref),
      (core_v1 ''FlexPersistentVolumeSource'', schema_core_v1_FlexPersistentVolumeSource ref),
      (core_v1 ''FlexVolumeSource'', schema_core_v1_FlexVolumeSource ref),
      (core_v1 ''FlockerVolumeSource'', schema_core_v1_FlockerVolumeSource ref),
      (core_v1 ''GCEPersistentDiskVolumeSource'', schema_core_v1_GCEPersistentDiskVolumeSource ref),
      (core_v1 ''GRPCAction'', schema_core_v1_GRPCAction ref),
      (core_v1 ''GitRepoVolumeSource'', schema_core_v1_GitRepoVolumeSource ref),
      (core_v1 ''GlusterfsPersistentVolumeSource'', schema_core_v1_GlusterfsPersistentVolumeSource ref),
      (core_v1 ''GlusterfsVolumeSource'', schema_core_v1_GlusterfsVolumeSource ref),
      (core_v1 ''HTTPGetAction'', schema_core_v1_HTTPGetAction ref),
      (core_v1 ''HTTPHeader'', schema_core_v1_HTTPHeader ref),
      (core_v1 ''HostAlias'', schema_core_v1_HostAlias ref),
      (core_v1 ''HostIP'', schema_core_v1_HostIP ref),
      (core_v1 ''HostPathVolumeSource'', schema_core_v1_HostPathVolumeSource ref),
      (core_v1 ''ISCSIPersistentVolumeSource'', schema_core_v1_ISCSIPersistentVolumeSource ref),
      (core_v1 ''ISCSIVolumeSource'', schema_core_v1_ISCSIVolumeSource ref),
      (core_v1 ''KeyToPath'', schema_core_v1_KeyToPath ref),
      (core_v1 ''Lifecycle'', schema_core_v1_Lifecycle ref),
      (core_v1 ''LifecycleHandler'', schema_core_v1_LifecycleHandler ref),
      (core_v1 ''LimitRange'', schema_core_v1_LimitRange ref),
      (core_v1 ''LimitRangeItem'', schema_core_v1_LimitRangeItem ref),
      (core_v1 ''LimitRangeList'', schema_core_v1_LimitRangeList ref),
      (core_v1 ''LimitRangeSpec'', schema_core_v1_LimitRangeSpec ref),
      (core_v1 ''List'', schema_core_v1_List ref),
      (core_v1 ''LoadBalancerIngress'', schema_core_v1_LoadBalancerIngress ref),
      (core_v1 ''LoadBalancerStatus'', schema_core_v1_LoadBalancerStatus ref),
      (core_v1 ''LocalObjectReference'', schema_core_v1_LocalObjectReference ref),
      (core_v1 ''LocalVolumeSource'', schema_core_v1_LocalVolumeSource ref),
      (core_v1 ''ModifyVolumeStatus'', schema_core_v1_ModifyVolumeStatus ref),
      (core_v1 ''NFSVolumeSource'', schema_core_v1_NFSVolumeSource ref),
      (core_v1 ''Namespace'', schema_core_v1_Namespace ref),
      (core_v1 ''NamespaceCondition'', schema_core_v1_NamespaceCondition ref),
      (core_v1 ''NamespaceList'', schema_core_v1_NamespaceList ref),
      (core_v1 ''NamespaceSpec'', schema_core_v1_NamespaceSpec ref),
      (core_v1 ''NamespaceStatus'', schema_core_v1_NamespaceStatus ref),
      (core_v1 ''Node'', schema_core_v1_Node ref),
      (core_v1 ''NodeAddress'', schema_core_v1_NodeAddress ref),
      (core_v1 ''NodeAffinity'', schema_core_v1_NodeAffinity ref),
      (core_v1 ''NodeCondition'', schema_core_v1_NodeCondition ref),
      (core_v1 ''NodeConfigSource'', schema_core_v1_NodeConfigSource ref),
      (core_v1 ''NodeConfigStatus'', schema_core_v1_NodeConfigStatus ref),
      (core_v1 ''NodeDaemonEndpoints'', schema_core_v1_NodeDaemonEndpoints ref),
      (core_v1 ''NodeList'', schema_core_v1_NodeList ref),
      (core_v1 ''NodeProxyOptions'', schema_core_v1_NodeProxyOptions ref),
      (core_v1 ''NodeRuntimeHandler'', schema_core_v1_NodeRuntimeHandler ref),
      (core_v1 ''NodeRuntimeHandlerFeatures'', schema_core_v1_NodeRuntimeHandlerFeatures ref),
      (core_v1 ''NodeSelector'', schema_core_v1_NodeSelector ref),
      (core_v1 ''NodeSelectorRequirement'', schema_core_v1_NodeSelectorRequirement ref),
      (core_v1 ''NodeSelectorTerm'', schema_core_v1_NodeSelectorTerm ref),
      (core_v1 ''NodeSpec'', schema_core_v1_NodeSpec ref),
      (core_v1 ''NodeStatus'', schema_core_v1_NodeStatus ref),
      (core_v1 ''NodeSystemInfo'', schema_core_v1_NodeSystemInfo ref),
      (core_v1 ''ObjectFieldSelector'', schema_core_v1_ObjectFieldSelector ref),
      (core_v1 ''ObjectReference'', schema_core_v1_ObjectReference ref)]"

lemmas core_a_to_e_schemas =
  schema_core_v1_AWSElasticBlockStoreVolumeSource_def schema_core_v1_Affinity_def
  schema_core_v1_AppArmorProfile_def schema_core_v1_AttachedVolume_def schema_core_v1_AvoidPods_def
  schema_core_v1_AzureDiskVolumeSource_def schema_core_v1_AzureFilePersistentVolumeSource_def
  schema_core_v1_AzureFileVolumeSource_def schema_core_v1_Binding_def
  schema_core_v1_CSIPersistentVolumeSource_def schema_core_v1_CSIVolumeSource_def
  schema_core_v1_Capabilities_def schema_core_v1_CephFSPersistentVolumeSource_def
  schema_core_v1_CephFSVolumeSource_def schema_core_v1_CinderPersistentVolumeSource_def
  schema_core_v1_CinderVolumeSource_def schema_core_v1_ClaimSource_def schema_core_v1_ClientIPConfig_def
  schema_core_v1_ClusterTrustBundleProjection_def schema_core_v1_ComponentCondition_def
  schema_core_v1_ComponentStatus_def schema_core_v1_ComponentStatusList_def schema_core_v1_ConfigMap_def
  schema_core_v1_ConfigMapEnvSource_def schema_core_v1_ConfigMapKeySelector_def
  schema_core_v1_ConfigMapList_def schema_core_v1_ConfigMapNodeConfigSource_def
  schema_core_v1_ConfigMapProjection_def schema_core_v1_ConfigMapVolumeSource_def schema_core_v1_Container_def
  schema_core_v1_ContainerImage_def schema_core_v1_ContainerPort_def schema_core_v1_ContainerResizePolicy_def
  schema_core_v1_ContainerState_def schema_core_v1_ContainerStateRunning_def
  schema_core_v1_ContainerStateTerminated_def schema_core_v1_ContainerStateWaiting_def
  schema_core_v1_ContainerStatus_def schema_core_v1_DaemonEndpoint_def schema_core_v1_DownwardAPIProjection_def
  schema_core_v1_DownwardAPIVolumeFile_def schema_core_v1_DownwardAPIVolumeSource_def
  schema_core_v1_EmptyDirVolumeSource_def schema_core_v1_EndpointAddress_def schema_core_v1_EndpointPort_def
  schema_core_v1_EndpointSubset_def schema_core_v1_Endpoints_def schema_core_v1_EndpointsList_def
  schema_core_v1_EnvFromSource_def schema_core_v1_EnvVar_def schema_core_v1_EnvVarSource_def
  schema_core_v1_EphemeralContainer_def schema_core_v1_EphemeralContainerCommon_def
  schema_core_v1_EphemeralVolumeSource_def schema_core_v1_Event_def schema_core_v1_EventList_def
  schema_core_v1_EventSeries_def schema_core_v1_EventSource_def schema_core_v1_ExecAction_def

lemma core_a_to_e_ok: "list_all (\<lambda>p. def_ok (snd p)) (core_a_to_e_definitions id)"
  by (simp only: core_a_to_e_definitions_def list.pred_inject snd_conv simp_thms, (intro conjI)?,
      (simp_all only: core_a_to_e_schemas shape_checks)?, (simp_all only: name_checks cong: if_weak_cong)?,
      (simp_all only: name_checks packages append.simps cong: if_weak_cong)?)

lemmas core_f_to_o_schemas =
  schema_core_v1_FCVolumeSource_def schema_core_v1_FlexPersistentVolumeSource_def
  schema_core_v1_FlexVolumeSource_def schema_core_v1_FlockerVolumeSource_def
  schema_core_v1_GCEPersistentDiskVolumeSource_def schema_core_v1_GRPCAction_def
  schema_core_v1_GitRepoVolumeSource_def schema_core_v1_GlusterfsPersistentVolumeSource_def
  schema_core_v1_GlusterfsVolumeSource_def schema_core_v1_HTTPGetAction_def schema_core_v1_HTTPHeader_def
  schema_core_v1_HostAlias_def schema_core_v1_HostIP_def schema_core_v1_HostPathVolumeSource_def
  schema_core_v1_ISCSIPersistentVolumeSource_def schema_core_v1_ISCSIVolumeSource_def
  schema_core_v1_KeyToPath_def schema_core_v1_Lifecycle_def schema_core_v1_LifecycleHandler_def
  schema_core_v1_LimitRange_def schema_core_v1_LimitRangeItem_def schema_core_v1_LimitRangeList_def
  schema_core_v1_LimitRangeSpec_def schema_core_v1_List_def schema_core_v1_LoadBalancerIngress_def
  schema_core_v1_LoadBalancerStatus_def schema_core_v1_LocalObjectReference_def
  schema_core_v1_LocalVolumeSource_def schema_core_v1_ModifyVolumeStatus_def schema_core_v1_NFSVolumeSource_def
  schema_core_v1_Namespace_def schema_core_v1_NamespaceCondition_def schema_core_v1_NamespaceList_def
  schema_core_v1_NamespaceSpec_def schema_core_v1_NamespaceStatus_def schema_core_v1_Node_def
  schema_core_v1_NodeAddress_def schema_core_v1_NodeAffinity_def schema_core_v1_NodeCondition_def
  schema_core_v1_NodeConfigSource_def schema_core_v1_NodeConfigStatus_def
  schema_core_v1_NodeDaemonEndpoints_def schema_core_v1_NodeList_def schema_core_v1_NodeProxyOptions_def
  schema_core_v1_NodeRuntimeHandler_def schema_core_v1_NodeRuntimeHandlerFeatures_def
  schema_core_v1_NodeSelector_def schema_core_v1_NodeSelectorRequirement_def
  schema_core_v1_NodeSelectorTerm_def schema_core_v1_NodeSpec_def schema_core_v1_NodeStatus_def
  schema_core_v1_NodeSystemInfo_def schema_core_v1_ObjectFieldSelector_def schema_core_v1_ObjectReference_def

lemma core_f_to_o_ok: "list_all (\<lambda>p. def_ok (snd p)) (core_f_to_o_definitions id)"
  by (simp only: core_f_to_o_definitions_def list.pred_inject snd_conv simp_thms, (intro conjI)?,
      (simp_all only: core_f_to_o_schemas shape_checks)?, (simp_all only: name_checks cong: if_weak_cong)?,
      (simp_all only: name_checks packages append.simps cong: if_weak_cong)?)

end
