(* ===== verification/OpenApiCoreB.thy ===== *)
theory OpenApiCoreB
  imports OpenApiSchema
begin

text \<open>
  The generated OpenAPI definitions of the Kubernetes core kinds from P to Z (\<open>openapi_generated.go\<close>), one per schema
  function, and the entries of the registry that name them.
\<close>

definition schema_core_v1_PersistentVolume :: "(string \<Rightarrow> string) \<Rightarrow> openapi_def" where
  "schema_core_v1_PersistentVolume ref = openapi_definition
    (object_of [] [
        (''kind'', a_string),
        (''apiVersion'', a_string),
        (''metadata'', refer_default ref (meta_v1 ''ObjectMeta'')),
        (''spec'', refer_default ref (core_v1 ''PersistentVolumeSpec'')),
        (''status'', refer_default ref (core_v1 ''PersistentVolumeStatus''))])
    [core_v1 ''PersistentVolumeSpec'', core_v1 ''PersistentVolumeStatus'', meta_v1 ''ObjectMeta'']"

definition schema_core_v1_PersistentVolumeClaim :: "(string \<Rightarrow> string) \<Rightarrow> openapi_def" where
  "schema_core_v1_PersistentVolumeClaim ref = openapi_definition
    (object_of [] [
        (''kind'', a_string),
        (''apiVersion'', a_string),
        (''metadata'', refer_default ref (meta_v1 ''ObjectMeta'')),
        (''spec'', refer_default ref (core_v1 ''PersistentVolumeClaimSpec'')),
        (''status'', refer_default ref (core_v1 ''PersistentVolumeClaimStatus''))])
    [core_v1 ''PersistentVolumeClaimSpec'', core_v1 ''PersistentVolumeClaimStatus'', meta_v1 ''ObjectMeta'']"

definition schema_core_v1_PersistentVolumeClaimCondition :: "(string \<Rightarrow> string) \<Rightarrow> openapi_def" where
  "schema_core_v1_PersistentVolumeClaimCondition ref = openapi_definition
    (object_of [''type'', ''status''] [
        (''type'', a_string_default),
        (''status'', a_string_default),
        (''lastProbeTime'', refer ref (meta_v1 ''Time'')),
        (''lastTransitionTime'', refer ref (meta_v1 ''Time'')),
        (''reason'', a_string),
        (''message'', a_string)])
    [meta_v1 ''Time'']"

definition schema_core_v1_PersistentVolumeClaimList :: "(string \<Rightarrow> string) \<Rightarrow> openapi_def" where
  "schema_core_v1_PersistentVolumeClaimList ref = openapi_definition
    (object_of [''items''] [
        (''kind'', a_string),
        (''apiVersion'', a_string),
        (''metadata'', refer_default ref (meta_v1 ''ListMeta'')),
        (''items'', array_of (refer_default ref (core_v1 ''PersistentVolumeClaim'')))])
    [core_v1 ''PersistentVolumeClaim'', meta_v1 ''ListMeta'']"

definition schema_core_v1_PersistentVolumeClaimSpec :: "(string \<Rightarrow> string) \<Rightarrow> openapi_def" where
  "schema_core_v1_PersistentVolumeClaimSpec ref = openapi_definition
    (object_of [] [
        (''accessModes'', with_ext [list_type ''atomic''] (array_of a_string_default)),
        (''selector'', refer ref (meta_v1 ''LabelSelector'')),
        (''resources'', refer_default ref (core_v1 ''VolumeResourceRequirements'')),
        (''volumeName'', a_string),
        (''storageClassName'', a_string),
        (''volumeMode'', with_enum [''Block'', ''Filesystem''] a_string),
        (''dataSource'', refer ref (core_v1 ''TypedLocalObjectReference'')),
        (''dataSourceRef'', refer ref (core_v1 ''TypedObjectReference'')),
        (''volumeAttributesClassName'', a_string)])
    [core_v1 ''TypedLocalObjectReference'', core_v1 ''TypedObjectReference'',
        core_v1 ''VolumeResourceRequirements'', meta_v1 ''LabelSelector'']"

definition schema_core_v1_PersistentVolumeClaimStatus :: "(string \<Rightarrow> string) \<Rightarrow> openapi_def" where
  "schema_core_v1_PersistentVolumeClaimStatus ref = openapi_definition
    (object_of [] [
        (''phase'', with_enum [''Bound'', ''Lost'', ''Pending''] a_string),
        (''accessModes'', with_ext [list_type ''atomic''] (array_of a_string_default)),
        (''capacity'', map_of_schema (refer ref (api_resource ''Quantity''))),
        (''conditions'', with_ext [list_map_keys [''type''], list_type ''map'', patch_merge_key ''type'',
            patch_strategy ''merge''] (array_of (refer_default ref (core_v1 ''PersistentVolumeClaimCondition'')))),
        (''allocatedResources'', map_of_schema (refer ref (api_resource ''Quantity''))),
        (''allocatedResourceStatuses'', with_ext [map_type ''granular''] (map_of_schema a_string_default)),
        (''currentVolumeAttributesClassName'', a_string),
        (''modifyVolumeStatus'', refer ref (core_v1 ''ModifyVolumeStatus''))])
    [core_v1 ''ModifyVolumeStatus'', core_v1 ''PersistentVolumeClaimCondition'', api_resource ''Quantity'']"

definition schema_core_v1_PersistentVolumeClaimTemplate :: "(string \<Rightarrow> string) \<Rightarrow> openapi_def" where
  "schema_core_v1_PersistentVolumeClaimTemplate ref = openapi_definition
    (object_of [''spec''] [
        (''metadata'', refer_default ref (meta_v1 ''ObjectMeta'')),
        (''spec'', refer_default ref (core_v1 ''PersistentVolumeClaimSpec''))])
    [core_v1 ''PersistentVolumeClaimSpec'', meta_v1 ''ObjectMeta'']"

definition schema_core_v1_PersistentVolumeClaimVolumeSource :: "(string \<Rightarrow> string) \<Rightarrow> openapi_def" where
  "schema_core_v1_PersistentVolumeClaimVolumeSource ref = openapi_definition
    (object_of [''claimName''] [
        (''claimName'', a_string_default),
        (''readOnly'', typed ''boolean'')])
    []"

definition schema_core_v1_PersistentVolumeList :: "(string \<Rightarrow> string) \<Rightarrow> openapi_def" where
  "schema_core_v1_PersistentVolumeList ref = openapi_definition
    (object_of [''items''] [
        (''kind'', a_string),
        (''apiVersion'', a_string),
        (''metadata'', refer_default ref (meta_v1 ''ListMeta'')),
        (''items'', array_of (refer_default ref (core_v1 ''PersistentVolume'')))])
    [core_v1 ''PersistentVolume'', meta_v1 ''ListMeta'']"

definition schema_core_v1_PersistentVolumeSource :: "(string \<Rightarrow> string) \<Rightarrow> openapi_def" where
  "schema_core_v1_PersistentVolumeSource ref = openapi_definition
    (object_of [] [
        (''gcePersistentDisk'', refer ref (core_v1 ''GCEPersistentDiskVolumeSource'')),
        (''awsElasticBlockStore'', refer ref (core_v1 ''AWSElasticBlockStoreVolumeSource'')),
        (''hostPath'', refer ref (core_v1 ''HostPathVolumeSource'')),
        (''glusterfs'', refer ref (core_v1 ''GlusterfsPersistentVolumeSource'')),
        (''nfs'', refer ref (core_v1 ''NFSVolumeSource'')),
        (''rbd'', refer ref (core_v1 ''RBDPersistentVolumeSource'')),
        (''iscsi'', refer ref (core_v1 ''ISCSIPersistentVolumeSource'')),
        (''cinder'', refer ref (core_v1 ''CinderPersistentVolumeSource'')),
        (''cephfs'', refer ref (core_v1 ''CephFSPersistentVolumeSource'')),
        (''fc'', refer ref (core_v1 ''FCVolumeSource'')),
        (''flocker'', refer ref (core_v1 ''FlockerVolumeSource'')),
        (''flexVolume'', refer ref (core_v1 ''FlexPersistentVolumeSource'')),
        (''azureFile'', refer ref (core_v1 ''AzureFilePersistentVolumeSource'')),
        (''vsphereVolume'', refer ref (core_v1 ''VsphereVirtualDiskVolumeSource'')),
        (''quobyte'', refer ref (core_v1 ''QuobyteVolumeSource'')),
        (''azureDisk'', refer ref (core_v1 ''AzureDiskVolumeSource'')),
        (''photonPersistentDisk'', refer ref (core_v1 ''PhotonPersistentDiskVolumeSource'')),
        (''portworxVolume'', refer ref (core_v1 ''PortworxVolumeSource'')),
        (''scaleIO'', refer ref (core_v1 ''ScaleIOPersistentVolumeSource'')),
        (''local'', refer ref (core_v1 ''LocalVolumeSource'')),
        (''storageos'', refer ref (core_v1 ''StorageOSPersistentVolumeSource'')),
        (''csi'', refer ref (core_v1 ''CSIPersistentVolumeSource''))])
    [core_v1 ''AWSElasticBlockStoreVolumeSource'', core_v1 ''AzureDiskVolumeSource'',
        core_v1 ''AzureFilePersistentVolumeSource'', core_v1 ''CSIPersistentVolumeSource'',
        core_v1 ''CephFSPersistentVolumeSource'', core_v1 ''CinderPersistentVolumeSource'',
        core_v1 ''FCVolumeSource'', core_v1 ''FlexPersistentVolumeSource'', core_v1 ''FlockerVolumeSource'',
        core_v1 ''GCEPersistentDiskVolumeSource'', core_v1 ''GlusterfsPersistentVolumeSource'',
        core_v1 ''HostPathVolumeSource'', core_v1 ''ISCSIPersistentVolumeSource'', core_v1 ''LocalVolumeSource'',
        core_v1 ''NFSVolumeSource'', core_v1 ''PhotonPersistentDiskVolumeSource'',
        core_v1 ''PortworxVolumeSource'', core_v1 ''QuobyteVolumeSource'', core_v1 ''RBDPersistentVolumeSource'',
        core_v1 ''ScaleIOPersistentVolumeSource'', core_v1 ''StorageOSPersistentVolumeSource'',
        core_v1 ''VsphereVirtualDiskVolumeSource'']"

definition schema_core_v1_PersistentVolumeSpec :: "(string \<Rightarrow> string) \<Rightarrow> openapi_def" where
  "schema_core_v1_PersistentVolumeSpec ref = openapi_definition
    (object_of [] [
        (''capacity'', map_of_schema (refer ref (api_resource ''Quantity''))),
        (''gcePersistentDisk'', refer ref (core_v1 ''GCEPersistentDiskVolumeSource'')),
        (''awsElasticBlockStore'', refer ref (core_v1 ''AWSElasticBlockStoreVolumeSource'')),
        (''hostPath'', refer ref (core_v1 ''HostPathVolumeSource'')),
        (''glusterfs'', refer ref (core_v1 ''GlusterfsPersistentVolumeSource'')),
        (''nfs'', refer ref (core_v1 ''NFSVolumeSource'')),
        (''rbd'', refer ref (core_v1 ''RBDPersistentVolumeSource'')),
        (''iscsi'', refer ref (core_v1 ''ISCSIPersistentVolumeSource'')),
        (''cinder'', refer ref (core_v1 ''CinderPersistentVolumeSource'')),
        (''cephfs'', refer ref (core_v1 ''CephFSPersistentVolumeSource'')),
        (''fc'', refer ref (core_v1 ''FCVolumeSource'')),
        (''flocker'', refer ref (core_v1 ''FlockerVolumeSource'')),
        (''flexVolume'', refer ref (core_v1 ''FlexPersistentVolumeSource'')),
        (''azureFile'', refer ref (core_v1 ''AzureFilePersistentVolumeSource'')),
        (''vsphereVolume'', refer ref (core_v1 ''VsphereVirtualDiskVolumeSource'')),
        (''quobyte'', refer ref (core_v1 ''QuobyteVolumeSource'')),
        (''azureDisk'', refer ref (core_v1 ''AzureDiskVolumeSource'')),
        (''photonPersistentDisk'', refer ref (core_v1 ''PhotonPersistentDiskVolumeSource'')),
        (''portworxVolume'', refer ref (core_v1 ''PortworxVolumeSource'')),
        (''scaleIO'', refer ref (core_v1 ''ScaleIOPersistentVolumeSource'')),
        (''local'', refer ref (core_v1 ''LocalVolumeSource'')),
        (''storageos'', refer ref (core_v1 ''StorageOSPersistentVolumeSource'')),
        (''csi'', refer ref (core_v1 ''CSIPersistentVolumeSource'')),
        (''accessModes'', with_ext [list_type ''atomic''] (array_of a_string_default)),
        (''claimRef'', with_ext [map_type ''granular''] (refer ref (core_v1 ''ObjectReference''))),
        (''persistentVolumeReclaimPolicy'', with_enum [''Delete'', ''Recycle'', ''Retain''] a_string),
        (''storageClassName'', a_string),
        (''mountOptions'', with_ext [list_type ''atomic''] (array_of a_string_default)),
        (''volumeMode'', with_enum [''Block'', ''Filesystem''] a_string),
        (''nodeAffinity'', refer ref (core_v1 ''VolumeNodeAffinity'')),
        (''volumeAttributesClassName'', a_string)])
    [core_v1 ''AWSElasticBlockStoreVolumeSource'', core_v1 ''AzureDiskVolumeSource'',
        core_v1 ''AzureFilePersistentVolumeSource'', core_v1 ''CSIPersistentVolumeSource'',
        core_v1 ''CephFSPersistentVolumeSource'', core_v1 ''CinderPersistentVolumeSource'',
        core_v1 ''FCVolumeSource'', core_v1 ''FlexPersistentVolumeSource'', core_v1 ''FlockerVolumeSource'',
        core_v1 ''GCEPersistentDiskVolumeSource'', core_v1 ''GlusterfsPersistentVolumeSource'',
        core_v1 ''HostPathVolumeSource'', core_v1 ''ISCSIPersistentVolumeSource'', core_v1 ''LocalVolumeSource'',
        core_v1 ''NFSVolumeSource'', core_v1 ''ObjectReference'', core_v1 ''PhotonPersistentDiskVolumeSource'',
        core_v1 ''PortworxVolumeSource'', core_v1 ''QuobyteVolumeSource'', core_v1 ''RBDPersistentVolumeSource'',
        core_v1 ''ScaleIOPersistentVolumeSource'', core_v1 ''StorageOSPersistentVolumeSource'',
        core_v1 ''VolumeNodeAffinity'', core_v1 ''VsphereVirtualDiskVolumeSource'', api_resource ''Quantity'']"

definition schema_core_v1_PersistentVolumeStatus :: "(string \<Rightarrow> string) \<Rightarrow> openapi_def" where
  "schema_core_v1_PersistentVolumeStatus ref = openapi_definition
    (object_of [] [
        (''phase'', with_enum [''Available'', ''Bound'', ''Failed'', ''Pending'', ''Released''] a_string),
        (''message'', a_string),
        (''reason'', a_string),
        (''lastPhaseTransitionTime'', refer ref (meta_v1 ''Time''))])
    [meta_v1 ''Time'']"

definition schema_core_v1_PhotonPersistentDiskVolumeSource :: "(string \<Rightarrow> string) \<Rightarrow> openapi_def" where
  "schema_core_v1_PhotonPersistentDiskVolumeSource ref = openapi_definition
    (object_of [''pdID''] [
        (''pdID'', a_string_default),
        (''fsType'', a_string)])
    []"

definition schema_core_v1_Pod :: "(string \<Rightarrow> string) \<Rightarrow> openapi_def" where
  "schema_core_v1_Pod ref = openapi_definition
    (object_of [] [
        (''kind'', a_string),
        (''apiVersion'', a_string),
        (''metadata'', refer_default ref (meta_v1 ''ObjectMeta'')),
        (''spec'', refer_default ref (core_v1 ''PodSpec'')),
        (''status'', refer_default ref (core_v1 ''PodStatus''))])
    [core_v1 ''PodSpec'', core_v1 ''PodStatus'', meta_v1 ''ObjectMeta'']"

definition schema_core_v1_PodAffinity :: "(string \<Rightarrow> string) \<Rightarrow> openapi_def" where
  "schema_core_v1_PodAffinity ref = openapi_definition
    (object_of [] [
        (''requiredDuringSchedulingIgnoredDuringExecution'',
            with_ext [list_type ''atomic''] (array_of (refer_default ref (core_v1 ''PodAffinityTerm'')))),
        (''preferredDuringSchedulingIgnoredDuringExecution'',
            with_ext [list_type ''atomic''] (array_of (refer_default ref (core_v1 ''WeightedPodAffinityTerm''))))])
    [core_v1 ''PodAffinityTerm'', core_v1 ''WeightedPodAffinityTerm'']"

definition schema_core_v1_PodAffinityTerm :: "(string \<Rightarrow> string) \<Rightarrow> openapi_def" where
  "schema_core_v1_PodAffinityTerm ref = openapi_definition
    (object_of [''topologyKey''] [
        (''labelSelector'', refer ref (meta_v1 ''LabelSelector'')),
        (''namespaces'', with_ext [list_type ''atomic''] (array_of a_string_default)),
        (''topologyKey'', a_string_default),
        (''namespaceSelector'', refer ref (meta_v1 ''LabelSelector'')),
        (''matchLabelKeys'', with_ext [list_type ''atomic''] (array_of a_string_default)),
        (''mismatchLabelKeys'', with_ext [list_type ''atomic''] (array_of a_string_default))])
    [meta_v1 ''LabelSelector'']"

definition schema_core_v1_PodAntiAffinity :: "(string \<Rightarrow> string) \<Rightarrow> openapi_def" where
  "schema_core_v1_PodAntiAffinity ref = openapi_definition
    (object_of [] [
        (''requiredDuringSchedulingIgnoredDuringExecution'',
            with_ext [list_type ''atomic''] (array_of (refer_default ref (core_v1 ''PodAffinityTerm'')))),
        (''preferredDuringSchedulingIgnoredDuringExecution'',
            with_ext [list_type ''atomic''] (array_of (refer_default ref (core_v1 ''WeightedPodAffinityTerm''))))])
    [core_v1 ''PodAffinityTerm'', core_v1 ''WeightedPodAffinityTerm'']"

definition schema_core_v1_PodAttachOptions :: "(string \<Rightarrow> string) \<Rightarrow> openapi_def" where
  "schema_core_v1_PodAttachOptions ref = openapi_definition
    (object_of [] [
        (''kind'', a_string),
        (''apiVersion'', a_string),
        (''stdin'', typed ''boolean''),
        (''stdout'', typed ''boolean''),
        (''stderr'', typed ''boolean''),
        (''tty'', typed ''boolean''),
        (''container'', a_string)])
    []"

definition schema_core_v1_PodCondition :: "(string \<Rightarrow> string) \<Rightarrow> openapi_def" where
  "schema_core_v1_PodCondition ref = openapi_definition
    (object_of [''type'', ''status''] [
        (''type'', a_string_default),
        (''status'', a_string_default),
        (''lastProbeTime'', refer ref (meta_v1 ''Time'')),
        (''lastTransitionTime'', refer ref (meta_v1 ''Time'')),
        (''reason'', a_string),
        (''message'', a_string)])
    [meta_v1 ''Time'']"

definition schema_core_v1_PodDNSConfig :: "(string \<Rightarrow> string) \<Rightarrow> openapi_def" where
  "schema_core_v1_PodDNSConfig ref = openapi_definition
    (object_of [] [
        (''nameservers'', with_ext [list_type ''atomic''] (array_of a_string_default)),
        (''searches'', with_ext [list_type ''atomic''] (array_of a_string_default)),
        (''options'',
            with_ext [list_type ''atomic''] (array_of (refer_default ref (core_v1 ''PodDNSConfigOption''))))])
    [core_v1 ''PodDNSConfigOption'']"

definition schema_core_v1_PodDNSConfigOption :: "(string \<Rightarrow> string) \<Rightarrow> openapi_def" where
  "schema_core_v1_PodDNSConfigOption ref = openapi_definition
    (object_of [] [
        (''name'', a_string),
        (''value'', a_string)])
    []"

definition schema_core_v1_PodExecOptions :: "(string \<Rightarrow> string) \<Rightarrow> openapi_def" where
  "schema_core_v1_PodExecOptions ref = openapi_definition
    (object_of [''command''] [
        (''kind'', a_string),
        (''apiVersion'', a_string),
        (''stdin'', typed ''boolean''),
        (''stdout'', typed ''boolean''),
        (''stderr'', typed ''boolean''),
        (''tty'', typed ''boolean''),
        (''container'', a_string),
        (''command'', with_ext [list_type ''atomic''] (array_of a_string_default))])
    []"

definition schema_core_v1_PodIP :: "(string \<Rightarrow> string) \<Rightarrow> openapi_def" where
  "schema_core_v1_PodIP ref = openapi_definition
    (object_of [] [
        (''ip'', a_string)])
    []"

definition schema_core_v1_PodList :: "(string \<Rightarrow> string) \<Rightarrow> openapi_def" where
  "schema_core_v1_PodList ref = openapi_definition
    (object_of [''items''] [
        (''kind'', a_string),
        (''apiVersion'', a_string),
        (''metadata'', refer_default ref (meta_v1 ''ListMeta'')),
        (''items'', array_of (refer_default ref (core_v1 ''Pod'')))])
    [core_v1 ''Pod'', meta_v1 ''ListMeta'']"

definition schema_core_v1_PodLogOptions :: "(string \<Rightarrow> string) \<Rightarrow> openapi_def" where
  "schema_core_v1_PodLogOptions ref = openapi_definition
    (object_of [] [
        (''kind'', a_string),
        (''apiVersion'', a_string),
        (''container'', a_string),
        (''follow'', typed ''boolean''),
        (''previous'', typed ''boolean''),
        (''sinceSeconds'', with_format ''int64'' (typed ''integer'')),
        (''sinceTime'', refer ref (meta_v1 ''Time'')),
        (''timestamps'', typed ''boolean''),
        (''tailLines'', with_format ''int64'' (typed ''integer'')),
        (''limitBytes'', with_format ''int64'' (typed ''integer'')),
        (''insecureSkipTLSVerifyBackend'', typed ''boolean'')])
    [meta_v1 ''Time'']"

definition schema_core_v1_PodOS :: "(string \<Rightarrow> string) \<Rightarrow> openapi_def" where
  "schema_core_v1_PodOS ref = openapi_definition
    (object_of [''name''] [
        (''name'', a_string_default)])
    []"

definition schema_core_v1_PodPortForwardOptions :: "(string \<Rightarrow> string) \<Rightarrow> openapi_def" where
  "schema_core_v1_PodPortForwardOptions ref = openapi_definition
    (object_of [] [
        (''kind'', a_string),
        (''apiVersion'', a_string),
        (''ports'',
            with_ext [list_type ''atomic''] (array_of (with_default (JInt 0) (with_format ''int32'' (typed ''integer'')))))])
    []"

definition schema_core_v1_PodProxyOptions :: "(string \<Rightarrow> string) \<Rightarrow> openapi_def" where
  "schema_core_v1_PodProxyOptions ref = openapi_definition
    (object_of [] [
        (''kind'', a_string),
        (''apiVersion'', a_string),
        (''path'', a_string)])
    []"

definition schema_core_v1_PodReadinessGate :: "(string \<Rightarrow> string) \<Rightarrow> openapi_def" where
  "schema_core_v1_PodReadinessGate ref = openapi_definition
    (object_of [''conditionType''] [
        (''conditionType'', a_string_default)])
    []"

definition schema_core_v1_PodResourceClaim :: "(string \<Rightarrow> string) \<Rightarrow> openapi_def" where
  "schema_core_v1_PodResourceClaim ref = openapi_definition
    (object_of [''name''] [
        (''name'', a_string_default),
        (''source'', refer_default ref (core_v1 ''ClaimSource''))])
    [core_v1 ''ClaimSource'']"

definition schema_core_v1_PodResourceClaimStatus :: "(string \<Rightarrow> string) \<Rightarrow> openapi_def" where
  "schema_core_v1_PodResourceClaimStatus ref = openapi_definition
    (object_of [''name''] [
        (''name'', a_string_default),
        (''resourceClaimName'', a_string)])
    []"

definition schema_core_v1_PodSchedulingGate :: "(string \<Rightarrow> string) \<Rightarrow> openapi_def" where
  "schema_core_v1_PodSchedulingGate ref = openapi_definition
    (object_of [''name''] [
        (''name'', a_string_default)])
    []"

definition schema_core_v1_PodSecurityContext :: "(string \<Rightarrow> string) \<Rightarrow> openapi_def" where
  "schema_core_v1_PodSecurityContext ref = openapi_definition
    (object_of [] [
        (''seLinuxOptions'', refer ref (core_v1 ''SELinuxOptions'')),
        (''windowsOptions'', refer ref (core_v1 ''WindowsSecurityContextOptions'')),
        (''runAsUser'', with_format ''int64'' (typed ''integer'')),
        (''runAsGroup'', with_format ''int64'' (typed ''integer'')),
        (''runAsNonRoot'', typed ''boolean''),
        (''supplementalGroups'',
            with_ext [list_type ''atomic''] (array_of (with_default (JInt 0) (with_format ''int64'' (typed ''integer''))))),
        (''fsGroup'', with_format ''int64'' (typed ''integer'')),
        (''sysctls'', with_ext [list_type ''atomic''] (array_of (refer_default ref (core_v1 ''Sysctl'')))),
        (''fsGroupChangePolicy'', with_enum [''Always'', ''OnRootMismatch''] a_string),
        (''seccompProfile'', refer ref (core_v1 ''SeccompProfile'')),
        (''appArmorProfile'', refer ref (core_v1 ''AppArmorProfile''))])
    [core_v1 ''AppArmorProfile'', core_v1 ''SELinuxOptions'', core_v1 ''SeccompProfile'', core_v1 ''Sysctl'',
        core_v1 ''WindowsSecurityContextOptions'']"

definition schema_core_v1_PodSignature :: "(string \<Rightarrow> string) \<Rightarrow> openapi_def" where
  "schema_core_v1_PodSignature ref = openapi_definition
    (object_of [] [
        (''podController'', refer ref (meta_v1 ''OwnerReference''))])
    [meta_v1 ''OwnerReference'']"

definition schema_core_v1_PodSpec :: "(string \<Rightarrow> string) \<Rightarrow> openapi_def" where
  "schema_core_v1_PodSpec ref = openapi_definition
    (object_of [''containers''] [
        (''volumes'', with_ext [list_map_keys [''name''], list_type ''map'', patch_merge_key ''name'',
            patch_strategy ''merge,retainKeys''] (array_of (refer_default ref (core_v1 ''Volume'')))),
        (''initContainers'', with_ext [list_map_keys [''name''], list_type ''map'', patch_merge_key ''name'',
            patch_strategy ''merge''] (array_of (refer_default ref (core_v1 ''Container'')))),
        (''containers'', with_ext [list_map_keys [''name''], list_type ''map'', patch_merge_key ''name'',
            patch_strategy ''merge''] (array_of (refer_default ref (core_v1 ''Container'')))),
        (''ephemeralContainers'', with_ext [list_map_keys [''name''], list_type ''map'', patch_merge_key ''name'',
            patch_strategy ''merge''] (array_of (refer_default ref (core_v1 ''EphemeralContainer'')))),
        (''restartPolicy'', with_enum [''Always'', ''Never'', ''OnFailure''] a_string),
        (''terminationGracePeriodSeconds'', with_format ''int64'' (typed ''integer'')),
        (''activeDeadlineSeconds'', with_format ''int64'' (typed ''integer'')),
        (''dnsPolicy'', with_enum [''ClusterFirst'', ''ClusterFirstWithHostNet'', ''Default'', ''None''] a_string),
        (''nodeSelector'', with_ext [map_type ''atomic''] (map_of_schema a_string_default)),
        (''serviceAccountName'', a_string),
        (''serviceAccount'', a_string),
        (''automountServiceAccountToken'', typed ''boolean''),
        (''nodeName'', a_string),
        (''hostNetwork'', typed ''boolean''),
        (''hostPID'', typed ''boolean''),
        (''hostIPC'', typed ''boolean''),
        (''shareProcessNamespace'', typed ''boolean''),
        (''securityContext'', refer ref (core_v1 ''PodSecurityContext'')),
        (''imagePullSecrets'', with_ext [list_map_keys [''name''], list_type ''map'', patch_merge_key ''name'',
            patch_strategy ''merge''] (array_of (refer_default ref (core_v1 ''LocalObjectReference'')))),
        (''hostname'', a_string),
        (''subdomain'', a_string),
        (''affinity'', refer ref (core_v1 ''Affinity'')),
        (''schedulerName'', a_string),
        (''tolerations'', with_ext [list_type ''atomic''] (array_of (refer_default ref (core_v1 ''Toleration'')))),
        (''hostAliases'', with_ext [list_map_keys [''ip''], list_type ''map'', patch_merge_key ''ip'',
            patch_strategy ''merge''] (array_of (refer_default ref (core_v1 ''HostAlias'')))),
        (''priorityClassName'', a_string),
        (''priority'', with_format ''int32'' (typed ''integer'')),
        (''dnsConfig'', refer ref (core_v1 ''PodDNSConfig'')),
        (''readinessGates'',
            with_ext [list_type ''atomic''] (array_of (refer_default ref (core_v1 ''PodReadinessGate'')))),
        (''runtimeClassName'', a_string),
        (''enableServiceLinks'', typed ''boolean''),
        (''preemptionPolicy'', with_enum [''Never'', ''PreemptLowerPriority''] a_string),
        (''overhead'', map_of_schema (refer ref (api_resource ''Quantity''))),
        (''topologySpreadConstraints'', with_ext [list_map_keys [''topologyKey'', ''whenUnsatisfiable''],
            list_type ''map'', patch_merge_key ''topologyKey'',
            patch_strategy ''merge''] (array_of (refer_default ref (core_v1 ''TopologySpreadConstraint'')))),
        (''setHostnameAsFQDN'', typed ''boolean''),
        (''os'', refer ref (core_v1 ''PodOS'')),
        (''hostUsers'', typed ''boolean''),
        (''schedulingGates'', with_ext [list_map_keys [''name''], list_type ''map'', patch_merge_key ''name'',
            patch_strategy ''merge''] (array_of (refer_default ref (core_v1 ''PodSchedulingGate'')))),
        (''resourceClaims'', with_ext [list_map_keys [''name''], list_type ''map'', patch_merge_key ''name'',
            patch_strategy ''merge,retainKeys''] (array_of (refer_default ref (core_v1 ''PodResourceClaim''))))])
    [core_v1 ''Affinity'', core_v1 ''Container'', core_v1 ''EphemeralContainer'', core_v1 ''HostAlias'',
        core_v1 ''LocalObjectReference'', core_v1 ''PodDNSConfig'', core_v1 ''PodOS'',
        core_v1 ''PodReadinessGate'', core_v1 ''PodResourceClaim'', core_v1 ''PodSchedulingGate'',
        core_v1 ''PodSecurityContext'', core_v1 ''Toleration'', core_v1 ''TopologySpreadConstraint'',
        core_v1 ''Volume'', api_resource ''Quantity'']"

definition schema_core_v1_PodStatus :: "(string \<Rightarrow> string) \<Rightarrow> openapi_def" where
  "schema_core_v1_PodStatus ref = openapi_definition
    (object_of [] [
        (''phase'', with_enum [''Failed'', ''Pending'', ''Running'', ''Succeeded'', ''Unknown''] a_string),
        (''conditions'', with_ext [list_map_keys [''type''], list_type ''map'', patch_merge_key ''type'',
            patch_strategy ''merge''] (array_of (refer_default ref (core_v1 ''PodCondition'')))),
        (''message'', a_string),
        (''reason'', a_string),
        (''nominatedNodeName'', a_string),
        (''hostIP'', a_string),
        (''hostIPs'', with_ext [list_type ''atomic'', patch_merge_key ''ip'',
            patch_strategy ''merge''] (array_of (refer_default ref (core_v1 ''HostIP'')))),
        (''podIP'', a_string),
        (''podIPs'', with_ext [list_map_keys [''ip''], list_type ''map'', patch_merge_key ''ip'',
            patch_strategy ''merge''] (array_of (refer_default ref (core_v1 ''PodIP'')))),
        (''startTime'', refer ref (meta_v1 ''Time'')),
        (''initContainerStatuses'',
            with_ext [list_type ''atomic''] (array_of (refer_default ref (core_v1 ''ContainerStatus'')))),
        (''containerStatuses'',
            with_ext [list_type ''atomic''] (array_of (refer_default ref (core_v1 ''ContainerStatus'')))),
        (''qosClass'', with_enum [''BestEffort'', ''Burstable'', ''Guaranteed''] a_string),
        (''ephemeralContainerStatuses'',
            with_ext [list_type ''atomic''] (array_of (refer_default ref (core_v1 ''ContainerStatus'')))),
        (''resize'', a_string),
        (''resourceClaimStatuses'', with_ext [list_map_keys [''name''], list_type ''map'',
            patch_merge_key ''name'',
            patch_strategy ''merge,retainKeys''] (array_of (refer_default ref (core_v1 ''PodResourceClaimStatus''))))])
    [core_v1 ''ContainerStatus'', core_v1 ''HostIP'', core_v1 ''PodCondition'', core_v1 ''PodIP'',
        core_v1 ''PodResourceClaimStatus'', meta_v1 ''Time'']"

definition schema_core_v1_PodStatusResult :: "(string \<Rightarrow> string) \<Rightarrow> openapi_def" where
  "schema_core_v1_PodStatusResult ref = openapi_definition
    (object_of [] [
        (''kind'', a_string),
        (''apiVersion'', a_string),
        (''metadata'', refer_default ref (meta_v1 ''ObjectMeta'')),
        (''status'', refer_default ref (core_v1 ''PodStatus''))])
    [core_v1 ''PodStatus'', meta_v1 ''ObjectMeta'']"

definition schema_core_v1_PodTemplate :: "(string \<Rightarrow> string) \<Rightarrow> openapi_def" where
  "schema_core_v1_PodTemplate ref = openapi_definition
    (object_of [] [
        (''kind'', a_string),
        (''apiVersion'', a_string),
        (''metadata'', refer_default ref (meta_v1 ''ObjectMeta'')),
        (''template'', refer_default ref (core_v1 ''PodTemplateSpec''))])
    [core_v1 ''PodTemplateSpec'', meta_v1 ''ObjectMeta'']"

definition schema_core_v1_PodTemplateList :: "(string \<Rightarrow> string) \<Rightarrow> openapi_def" where
  "schema_core_v1_PodTemplateList ref = openapi_definition
    (object_of [''items''] [
        (''kind'', a_string),
        (''apiVersion'', a_string),
        (''metadata'', refer_default ref (meta_v1 ''ListMeta'')),
        (''items'', array_of (refer_default ref (core_v1 ''PodTemplate'')))])
    [core_v1 ''PodTemplate'', meta_v1 ''ListMeta'']"

definition schema_core_v1_PodTemplateSpec :: "(string \<Rightarrow> string) \<Rightarrow> openapi_def" where
  "schema_core_v1_PodTemplateSpec ref = openapi_definition
    (object_of [] [
        (''metadata'', refer_default ref (meta_v1 ''ObjectMeta'')),
        (''spec'', refer_default ref (core_v1 ''PodSpec''))])
    [core_v1 ''PodSpec'', meta_v1 ''ObjectMeta'']"

definition schema_core_v1_PortStatus :: "(string \<Rightarrow> string) \<Rightarrow> openapi_def" where
  "schema_core_v1_PortStatus ref = openapi_definition
    (object_of [''port'', ''protocol''] [
        (''port'', with_default (JInt 0) (with_format ''int32'' (typed ''integer''))),
        (''protocol'', with_enum [''SCTP'', ''TCP'', ''UDP''] a_string_default),
        (''error'', a_string)])
    []"

definition schema_core_v1_PortworxVolumeSource :: "(string \<Rightarrow> string) \<Rightarrow> openapi_def" where
  "schema_core_v1_PortworxVolumeSource ref = openapi_definition
    (object_of [''volumeID''] [
        (''volumeID'', a_string_default),
        (''fsType'', a_string),
        (''readOnly'', typed ''boolean'')])
    []"

definition schema_core_v1_PreferAvoidPodsEntry :: "(string \<Rightarrow> string) \<Rightarrow> openapi_def" where
  "schema_core_v1_PreferAvoidPodsEntry ref = openapi_definition
    (object_of [''podSignature''] [
        (''podSignature'', refer_default ref (core_v1 ''PodSignature'')),
        (''evictionTime'', refer ref (meta_v1 ''Time'')),
        (''reason'', a_string),
        (''message'', a_string)])
    [core_v1 ''PodSignature'', meta_v1 ''Time'']"

definition schema_core_v1_PreferredSchedulingTerm :: "(string \<Rightarrow> string) \<Rightarrow> openapi_def" where
  "schema_core_v1_PreferredSchedulingTerm ref = openapi_definition
    (object_of [''weight'', ''preference''] [
        (''weight'', with_default (JInt 0) (with_format ''int32'' (typed ''integer''))),
        (''preference'', refer_default ref (core_v1 ''NodeSelectorTerm''))])
    [core_v1 ''NodeSelectorTerm'']"

definition schema_core_v1_Probe :: "(string \<Rightarrow> string) \<Rightarrow> openapi_def" where
  "schema_core_v1_Probe ref = openapi_definition
    (object_of [] [
        (''exec'', refer ref (core_v1 ''ExecAction'')),
        (''httpGet'', refer ref (core_v1 ''HTTPGetAction'')),
        (''tcpSocket'', refer ref (core_v1 ''TCPSocketAction'')),
        (''grpc'', refer ref (core_v1 ''GRPCAction'')),
        (''initialDelaySeconds'', with_format ''int32'' (typed ''integer'')),
        (''timeoutSeconds'', with_format ''int32'' (typed ''integer'')),
        (''periodSeconds'', with_format ''int32'' (typed ''integer'')),
        (''successThreshold'', with_format ''int32'' (typed ''integer'')),
        (''failureThreshold'', with_format ''int32'' (typed ''integer'')),
        (''terminationGracePeriodSeconds'', with_format ''int64'' (typed ''integer''))])
    [core_v1 ''ExecAction'', core_v1 ''GRPCAction'', core_v1 ''HTTPGetAction'', core_v1 ''TCPSocketAction'']"

definition schema_core_v1_ProbeHandler :: "(string \<Rightarrow> string) \<Rightarrow> openapi_def" where
  "schema_core_v1_ProbeHandler ref = openapi_definition
    (object_of [] [
        (''exec'', refer ref (core_v1 ''ExecAction'')),
        (''httpGet'', refer ref (core_v1 ''HTTPGetAction'')),
        (''tcpSocket'', refer ref (core_v1 ''TCPSocketAction'')),
        (''grpc'', refer ref (core_v1 ''GRPCAction''))])
    [core_v1 ''ExecAction'', core_v1 ''GRPCAction'', core_v1 ''HTTPGetAction'', core_v1 ''TCPSocketAction'']"

definition schema_core_v1_ProjectedVolumeSource :: "(string \<Rightarrow> string) \<Rightarrow> openapi_def" where
  "schema_core_v1_ProjectedVolumeSource ref = openapi_definition
    (object_of [] [
        (''sources'',
            with_ext [list_type ''atomic''] (array_of (refer_default ref (core_v1 ''VolumeProjection'')))),
        (''defaultMode'', with_format ''int32'' (typed ''integer''))])
    [core_v1 ''VolumeProjection'']"

definition core_p_definitions :: "(string \<Rightarrow> string) \<Rightarrow> (string \<times> openapi_def) list" where
  "core_p_definitions ref =
     [(core_v1 ''PersistentVolume'', schema_core_v1_PersistentVolume ref),
      (core_v1 ''PersistentVolumeClaim'', schema_core_v1_PersistentVolumeClaim ref),
      (core_v1 ''PersistentVolumeClaimCondition'', schema_core_v1_PersistentVolumeClaimCondition ref),
      (core_v1 ''PersistentVolumeClaimList'', schema_core_v1_PersistentVolumeClaimList ref),
      (core_v1 ''PersistentVolumeClaimSpec'', schema_core_v1_PersistentVolumeClaimSpec ref),
      (core_v1 ''PersistentVolumeClaimStatus'', schema_core_v1_PersistentVolumeClaimStatus ref),
      (core_v1 ''PersistentVolumeClaimTemplate'', schema_core_v1_PersistentVolumeClaimTemplate ref),
      (core_v1 ''PersistentVolumeClaimVolumeSource'', schema_core_v1_PersistentVolumeClaimVolumeSource ref),
      (core_v1 ''PersistentVolumeList'', schema_core_v1_PersistentVolumeList ref),
      (core_v1 ''PersistentVolumeSource'', schema_core_v1_PersistentVolumeSource ref),
      (core_v1 ''PersistentVolumeSpec'', schema_core_v1_PersistentVolumeSpec ref),
      (core_v1 ''PersistentVolumeStatus'', schema_core_v1_PersistentVolumeStatus ref),
      (core_v1 ''PhotonPersistentDiskVolumeSource'', schema_core_v1_PhotonPersistentDiskVolumeSource ref),
      (core_v1 ''Pod'', schema_core_v1_Pod ref),
      (core_v1 ''PodAffinity'', schema_core_v1_PodAffinity ref),
      (core_v1 ''PodAffinityTerm'', schema_core_v1_PodAffinityTerm ref),
      (core_v1 ''PodAntiAffinity'', schema_core_v1_PodAntiAffinity ref),
      (core_v1 ''PodAttachOptions'', schema_core_v1_PodAttachOptions ref),
      (core_v1 ''PodCondition'', schema_core_v1_PodCondition ref),
      (core_v1 ''PodDNSConfig'', schema_core_v1_PodDNSConfig ref),
      (core_v1 ''PodDNSConfigOption'', schema_core_v1_PodDNSConfigOption ref),
      (core_v1 ''PodExecOptions'', schema_core_v1_PodExecOptions ref),
      (core_v1 ''PodIP'', schema_core_v1_PodIP ref),
      (core_v1 ''PodList'', schema_core_v1_PodList ref),
      (core_v1 ''PodLogOptions'', schema_core_v1_PodLogOptions ref),
      (core_v1 ''PodOS'', schema_core_v1_PodOS ref),
      (core_v1 ''PodPortForwardOptions'', schema_core_v1_PodPortForwardOptions ref),
      (core_v1 ''PodProxyOptions'', schema_core_v1_PodProxyOptions ref),
      (core_v1 ''PodReadinessGate'', schema_core_v1_PodReadinessGate ref),
      (core_v1 ''PodResourceClaim'', schema_core_v1_PodResourceClaim ref),
      (core_v1 ''PodResourceClaimStatus'', schema_core_v1_PodResourceClaimStatus ref),
      (core_v1 ''PodSchedulingGate'', schema_core_v1_PodSchedulingGate ref),
      (core_v1 ''PodSecurityContext'', schema_core_v1_PodSecurityContext ref),
      (core_v1 ''PodSignature'', schema_core_v1_PodSignature ref),
      (core_v1 ''PodSpec'', schema_core_v1_PodSpec ref),
      (core_v1 ''PodStatus'', schema_core_v1_PodStatus ref),
      (core_v1 ''PodStatusResult'', schema_core_v1_PodStatusResult ref),
      (core_v1 ''PodTemplate'', schema_core_v1_PodTemplate ref),
      (core_v1 ''PodTemplateList'', schema_core_v1_PodTemplateList ref),
      (core_v1 ''PodTemplateSpec'', schema_core_v1_PodTemplateSpec ref),
      (core_v1 ''PortStatus'', schema_core_v1_PortStatus ref),
      (core_v1 ''PortworxVolumeSource'', schema_core_v1_PortworxVolumeSource ref),
      (core_v1 ''PreferAvoidPodsEntry'', schema_core_v1_PreferAvoidPodsEntry ref),
      (core_v1 ''PreferredSchedulingTerm'', schema_core_v1_PreferredSchedulingTerm ref),
      (core_v1 ''Probe'', schema_core_v1_Probe ref),
      (core_v1 ''ProbeHandler'', schema_core_v1_ProbeHandler ref),
      (core_v1 ''ProjectedVolumeSource'', schema_core_v1_ProjectedVolumeSource ref)]"

definition schema_core_v1_QuobyteVolumeSource :: "(string \<Rightarrow> string) \<Rightarrow> openapi_def" where
  "schema_core_v1_QuobyteVolumeSource ref = openapi_definition
    (object_of [''registry'', ''volume''] [
        (''registry'', a_string_default),
        (''volume'', a_string_default),
        (''readOnly'', typed ''boolean''),
        (''user'', a_string),
        (''group'', a_string),
        (''tenant'', a_string)])
    []"

definition schema_core_v1_RBDPersistentVolumeSource :: "(string \<Rightarrow> string) \<Rightarrow> openapi_def" where
  "schema_core_v1_RBDPersistentVolumeSource ref = openapi_definition
    (object_of [''monitors'', ''image''] [
        (''monitors'', with_ext [list_type ''atomic''] (array_of a_string_default)),
        (''image'', a_string_default),
        (''fsType'', a_string),
        (''pool'', a_string),
        (''user'', a_string),
        (''keyring'', a_string),
        (''secretRef'', refer ref (core_v1 ''SecretReference'')),
        (''readOnly'', typed ''boolean'')])
    [core_v1 ''SecretReference'']"

definition schema_core_v1_RBDVolumeSource :: "(string \<Rightarrow> string) \<Rightarrow> openapi_def" where
  "schema_core_v1_RBDVolumeSource ref = openapi_definition
    (object_of [''monitors'', ''image''] [
        (''monitors'', with_ext [list_type ''atomic''] (array_of a_string_default)),
        (''image'', a_string_default),
        (''fsType'', a_string),
        (''pool'', a_string),
        (''user'', a_string),
        (''keyring'', a_string),
        (''secretRef'', refer ref (core_v1 ''LocalObjectReference'')),
        (''readOnly'', typed ''boolean'')])
    [core_v1 ''LocalObjectReference'']"

definition schema_core_v1_RangeAllocation :: "(string \<Rightarrow> string) \<Rightarrow> openapi_def" where
  "schema_core_v1_RangeAllocation ref = openapi_definition
    (object_of [''range'', ''data''] [
        (''kind'', a_string),
        (''apiVersion'', a_string),
        (''metadata'', refer_default ref (meta_v1 ''ObjectMeta'')),
        (''range'', a_string_default),
        (''data'', with_format ''byte'' a_string)])
    [meta_v1 ''ObjectMeta'']"

definition schema_core_v1_ReplicationController :: "(string \<Rightarrow> string) \<Rightarrow> openapi_def" where
  "schema_core_v1_ReplicationController ref = openapi_definition
    (object_of [] [
        (''kind'', a_string),
        (''apiVersion'', a_string),
        (''metadata'', refer_default ref (meta_v1 ''ObjectMeta'')),
        (''spec'', refer_default ref (core_v1 ''ReplicationControllerSpec'')),
        (''status'', refer_default ref (core_v1 ''ReplicationControllerStatus''))])
    [core_v1 ''ReplicationControllerSpec'', core_v1 ''ReplicationControllerStatus'', meta_v1 ''ObjectMeta'']"

definition schema_core_v1_ReplicationControllerCondition :: "(string \<Rightarrow> string) \<Rightarrow> openapi_def" where
  "schema_core_v1_ReplicationControllerCondition ref = openapi_definition
    (object_of [''type'', ''status''] [
        (''type'', a_string_default),
        (''status'', a_string_default),
        (''lastTransitionTime'', refer ref (meta_v1 ''Time'')),
        (''reason'', a_string),
        (''message'', a_string)])
    [meta_v1 ''Time'']"

definition schema_core_v1_ReplicationControllerList :: "(string \<Rightarrow> string) \<Rightarrow> openapi_def" where
  "schema_core_v1_ReplicationControllerList ref = openapi_definition
    (object_of [''items''] [
        (''kind'', a_string),
        (''apiVersion'', a_string),
        (''metadata'', refer_default ref (meta_v1 ''ListMeta'')),
        (''items'', array_of (refer_default ref (core_v1 ''ReplicationController'')))])
    [core_v1 ''ReplicationController'', meta_v1 ''ListMeta'']"

definition schema_core_v1_ReplicationControllerSpec :: "(string \<Rightarrow> string) \<Rightarrow> openapi_def" where
  "schema_core_v1_ReplicationControllerSpec ref = openapi_definition
    (object_of [] [
        (''replicas'', with_format ''int32'' (typed ''integer'')),
        (''minReadySeconds'', with_format ''int32'' (typed ''integer'')),
        (''selector'', with_ext [map_type ''atomic''] (map_of_schema a_string_default)),
        (''template'', refer ref (core_v1 ''PodTemplateSpec''))])
    [core_v1 ''PodTemplateSpec'']"

definition schema_core_v1_ReplicationControllerStatus :: "(string \<Rightarrow> string) \<Rightarrow> openapi_def" where
  "schema_core_v1_ReplicationControllerStatus ref = openapi_definition
    (object_of [''replicas''] [
        (''replicas'', with_default (JInt 0) (with_format ''int32'' (typed ''integer''))),
        (''fullyLabeledReplicas'', with_format ''int32'' (typed ''integer'')),
        (''readyReplicas'', with_format ''int32'' (typed ''integer'')),
        (''availableReplicas'', with_format ''int32'' (typed ''integer'')),
        (''observedGeneration'', with_format ''int64'' (typed ''integer'')),
        (''conditions'', with_ext [list_map_keys [''type''], list_type ''map'', patch_merge_key ''type'',
            patch_strategy ''merge''] (array_of (refer_default ref (core_v1 ''ReplicationControllerCondition''))))])
    [core_v1 ''ReplicationControllerCondition'']"

definition schema_core_v1_ResourceClaim :: "(string \<Rightarrow> string) \<Rightarrow> openapi_def" where
  "schema_core_v1_ResourceClaim ref = openapi_definition
    (object_of [''name''] [
        (''name'', a_string_default)])
    []"

definition schema_core_v1_ResourceFieldSelector :: "(string \<Rightarrow> string) \<Rightarrow> openapi_def" where
  "schema_core_v1_ResourceFieldSelector ref = openapi_definition
    (with_ext [map_type ''atomic''] (object_of [''resource''] [
        (''containerName'', a_string),
        (''resource'', a_string_default),
        (''divisor'', refer ref (api_resource ''Quantity''))]))
    [api_resource ''Quantity'']"

definition schema_core_v1_ResourceQuota :: "(string \<Rightarrow> string) \<Rightarrow> openapi_def" where
  "schema_core_v1_ResourceQuota ref = openapi_definition
    (object_of [] [
        (''kind'', a_string),
        (''apiVersion'', a_string),
        (''metadata'', refer_default ref (meta_v1 ''ObjectMeta'')),
        (''spec'', refer_default ref (core_v1 ''ResourceQuotaSpec'')),
        (''status'', refer_default ref (core_v1 ''ResourceQuotaStatus''))])
    [core_v1 ''ResourceQuotaSpec'', core_v1 ''ResourceQuotaStatus'', meta_v1 ''ObjectMeta'']"

definition schema_core_v1_ResourceQuotaList :: "(string \<Rightarrow> string) \<Rightarrow> openapi_def" where
  "schema_core_v1_ResourceQuotaList ref = openapi_definition
    (object_of [''items''] [
        (''kind'', a_string),
        (''apiVersion'', a_string),
        (''metadata'', refer_default ref (meta_v1 ''ListMeta'')),
        (''items'', array_of (refer_default ref (core_v1 ''ResourceQuota'')))])
    [core_v1 ''ResourceQuota'', meta_v1 ''ListMeta'']"

definition schema_core_v1_ResourceQuotaSpec :: "(string \<Rightarrow> string) \<Rightarrow> openapi_def" where
  "schema_core_v1_ResourceQuotaSpec ref = openapi_definition
    (object_of [] [
        (''hard'', map_of_schema (refer ref (api_resource ''Quantity''))),
        (''scopes'', with_ext [list_type ''atomic''] (array_of a_string_default)),
        (''scopeSelector'', refer ref (core_v1 ''ScopeSelector''))])
    [core_v1 ''ScopeSelector'', api_resource ''Quantity'']"

definition schema_core_v1_ResourceQuotaStatus :: "(string \<Rightarrow> string) \<Rightarrow> openapi_def" where
  "schema_core_v1_ResourceQuotaStatus ref = openapi_definition
    (object_of [] [
        (''hard'', map_of_schema (refer ref (api_resource ''Quantity''))),
        (''used'', map_of_schema (refer ref (api_resource ''Quantity'')))])
    [api_resource ''Quantity'']"

definition schema_core_v1_ResourceRequirements :: "(string \<Rightarrow> string) \<Rightarrow> openapi_def" where
  "schema_core_v1_ResourceRequirements ref = openapi_definition
    (object_of [] [
        (''limits'', map_of_schema (refer ref (api_resource ''Quantity''))),
        (''requests'', map_of_schema (refer ref (api_resource ''Quantity''))),
        (''claims'', with_ext [list_map_keys [''name''],
            list_type ''map''] (array_of (refer_default ref (core_v1 ''ResourceClaim''))))])
    [core_v1 ''ResourceClaim'', api_resource ''Quantity'']"

definition schema_core_v1_SELinuxOptions :: "(string \<Rightarrow> string) \<Rightarrow> openapi_def" where
  "schema_core_v1_SELinuxOptions ref = openapi_definition
    (object_of [] [
        (''user'', a_string),
        (''role'', a_string),
        (''type'', a_string),
        (''level'', a_string)])
    []"

definition schema_core_v1_ScaleIOPersistentVolumeSource :: "(string \<Rightarrow> string) \<Rightarrow> openapi_def" where
  "schema_core_v1_ScaleIOPersistentVolumeSource ref = openapi_definition
    (object_of [''gateway'', ''system'', ''secretRef''] [
        (''gateway'', a_string_default),
        (''system'', a_string_default),
        (''secretRef'', refer ref (core_v1 ''SecretReference'')),
        (''sslEnabled'', typed ''boolean''),
        (''protectionDomain'', a_string),
        (''storagePool'', a_string),
        (''storageMode'', a_string),
        (''volumeName'', a_string),
        (''fsType'', a_string),
        (''readOnly'', typed ''boolean'')])
    [core_v1 ''SecretReference'']"

definition schema_core_v1_ScaleIOVolumeSource :: "(string \<Rightarrow> string) \<Rightarrow> openapi_def" where
  "schema_core_v1_ScaleIOVolumeSource ref = openapi_definition
    (object_of [''gateway'', ''system'', ''secretRef''] [
        (''gateway'', a_string_default),
        (''system'', a_string_default),
        (''secretRef'', refer ref (core_v1 ''LocalObjectReference'')),
        (''sslEnabled'', typed ''boolean''),
        (''protectionDomain'', a_string),
        (''storagePool'', a_string),
        (''storageMode'', a_string),
        (''volumeName'', a_string),
        (''fsType'', a_string),
        (''readOnly'', typed ''boolean'')])
    [core_v1 ''LocalObjectReference'']"

definition schema_core_v1_ScopeSelector :: "(string \<Rightarrow> string) \<Rightarrow> openapi_def" where
  "schema_core_v1_ScopeSelector ref = openapi_definition
    (with_ext [map_type ''atomic''] (object_of [] [
        (''matchExpressions'',
            with_ext [list_type ''atomic''] (array_of (refer_default ref (core_v1 ''ScopedResourceSelectorRequirement''))))]))
    [core_v1 ''ScopedResourceSelectorRequirement'']"

definition schema_core_v1_ScopedResourceSelectorRequirement :: "(string \<Rightarrow> string) \<Rightarrow> openapi_def" where
  "schema_core_v1_ScopedResourceSelectorRequirement ref = openapi_definition
    (object_of [''scopeName'', ''operator''] [
        (''scopeName'', with_enum [''BestEffort'', ''CrossNamespacePodAffinity'', ''NotBestEffort'',
            ''NotTerminating'', ''PriorityClass'', ''Terminating''] a_string_default),
        (''operator'', with_enum [''DoesNotExist'', ''Exists'', ''In'', ''NotIn''] a_string_default),
        (''values'', with_ext [list_type ''atomic''] (array_of a_string_default))])
    []"

definition schema_core_v1_SeccompProfile :: "(string \<Rightarrow> string) \<Rightarrow> openapi_def" where
  "schema_core_v1_SeccompProfile ref = openapi_definition
    (with_ext [(''x-kubernetes-unions'', JArr [JObj (fmap_of_list [(''discriminator'', JStr ''type''),
        (''fields-to-discriminateBy'', JObj (fmap_of_list [(''localhostProfile'',
        JStr ''LocalhostProfile'')]))])])] (object_of [''type''] [
        (''type'', with_enum [''Localhost'', ''RuntimeDefault'', ''Unconfined''] a_string_default),
        (''localhostProfile'', a_string)]))
    []"

definition schema_core_v1_Secret :: "(string \<Rightarrow> string) \<Rightarrow> openapi_def" where
  "schema_core_v1_Secret ref = openapi_definition
    (object_of [] [
        (''kind'', a_string),
        (''apiVersion'', a_string),
        (''metadata'', refer_default ref (meta_v1 ''ObjectMeta'')),
        (''immutable'', typed ''boolean''),
        (''data'', map_of_schema (with_format ''byte'' a_string)),
        (''stringData'', map_of_schema a_string_default),
        (''type'', a_string)])
    [meta_v1 ''ObjectMeta'']"

definition schema_core_v1_SecretEnvSource :: "(string \<Rightarrow> string) \<Rightarrow> openapi_def" where
  "schema_core_v1_SecretEnvSource ref = openapi_definition
    (object_of [] [
        (''name'', a_string_default),
        (''optional'', typed ''boolean'')])
    []"

definition schema_core_v1_SecretKeySelector :: "(string \<Rightarrow> string) \<Rightarrow> openapi_def" where
  "schema_core_v1_SecretKeySelector ref = openapi_definition
    (with_ext [map_type ''atomic''] (object_of [''key''] [
        (''name'', a_string_default),
        (''key'', a_string_default),
        (''optional'', typed ''boolean'')]))
    []"

definition schema_core_v1_SecretList :: "(string \<Rightarrow> string) \<Rightarrow> openapi_def" where
  "schema_core_v1_SecretList ref = openapi_definition
    (object_of [''items''] [
        (''kind'', a_string),
        (''apiVersion'', a_string),
        (''metadata'', refer_default ref (meta_v1 ''ListMeta'')),
        (''items'', array_of (refer_default ref (core_v1 ''Secret'')))])
    [core_v1 ''Secret'', meta_v1 ''ListMeta'']"

definition schema_core_v1_SecretProjection :: "(string \<Rightarrow> string) \<Rightarrow> openapi_def" where
  "schema_core_v1_SecretProjection ref = openapi_definition
    (object_of [] [
        (''name'', a_string_default),
        (''items'', with_ext [list_type ''atomic''] (array_of (refer_default ref (core_v1 ''KeyToPath'')))),
        (''optional'', typed ''boolean'')])
    [core_v1 ''KeyToPath'']"

definition schema_core_v1_SecretReference :: "(string \<Rightarrow> string) \<Rightarrow> openapi_def" where
  "schema_core_v1_SecretReference ref = openapi_definition
    (with_ext [map_type ''atomic''] (object_of [] [
        (''name'', a_string),
        (''namespace'', a_string)]))
    []"

definition schema_core_v1_SecretVolumeSource :: "(string \<Rightarrow> string) \<Rightarrow> openapi_def" where
  "schema_core_v1_SecretVolumeSource ref = openapi_definition
    (object_of [] [
        (''secretName'', a_string),
        (''items'', with_ext [list_type ''atomic''] (array_of (refer_default ref (core_v1 ''KeyToPath'')))),
        (''defaultMode'', with_format ''int32'' (typed ''integer'')),
        (''optional'', typed ''boolean'')])
    [core_v1 ''KeyToPath'']"

definition schema_core_v1_SecurityContext :: "(string \<Rightarrow> string) \<Rightarrow> openapi_def" where
  "schema_core_v1_SecurityContext ref = openapi_definition
    (object_of [] [
        (''capabilities'', refer ref (core_v1 ''Capabilities'')),
        (''privileged'', typed ''boolean''),
        (''seLinuxOptions'', refer ref (core_v1 ''SELinuxOptions'')),
        (''windowsOptions'', refer ref (core_v1 ''WindowsSecurityContextOptions'')),
        (''runAsUser'', with_format ''int64'' (typed ''integer'')),
        (''runAsGroup'', with_format ''int64'' (typed ''integer'')),
        (''runAsNonRoot'', typed ''boolean''),
        (''readOnlyRootFilesystem'', typed ''boolean''),
        (''allowPrivilegeEscalation'', typed ''boolean''),
        (''procMount'', with_enum [''Default'', ''Unmasked''] a_string),
        (''seccompProfile'', refer ref (core_v1 ''SeccompProfile'')),
        (''appArmorProfile'', refer ref (core_v1 ''AppArmorProfile''))])
    [core_v1 ''AppArmorProfile'', core_v1 ''Capabilities'', core_v1 ''SELinuxOptions'', core_v1 ''SeccompProfile'',
        core_v1 ''WindowsSecurityContextOptions'']"

definition schema_core_v1_SerializedReference :: "(string \<Rightarrow> string) \<Rightarrow> openapi_def" where
  "schema_core_v1_SerializedReference ref = openapi_definition
    (object_of [] [
        (''kind'', a_string),
        (''apiVersion'', a_string),
        (''reference'', refer_default ref (core_v1 ''ObjectReference''))])
    [core_v1 ''ObjectReference'']"

definition schema_core_v1_Service :: "(string \<Rightarrow> string) \<Rightarrow> openapi_def" where
  "schema_core_v1_Service ref = openapi_definition
    (object_of [] [
        (''kind'', a_string),
        (''apiVersion'', a_string),
        (''metadata'', refer_default ref (meta_v1 ''ObjectMeta'')),
        (''spec'', refer_default ref (core_v1 ''ServiceSpec'')),
        (''status'', refer_default ref (core_v1 ''ServiceStatus''))])
    [core_v1 ''ServiceSpec'', core_v1 ''ServiceStatus'', meta_v1 ''ObjectMeta'']"

definition schema_core_v1_ServiceAccount :: "(string \<Rightarrow> string) \<Rightarrow> openapi_def" where
  "schema_core_v1_ServiceAccount ref = openapi_definition
    (object_of [] [
        (''kind'', a_string),
        (''apiVersion'', a_string),
        (''metadata'', refer_default ref (meta_v1 ''ObjectMeta'')),
        (''secrets'', with_ext [list_map_keys [''name''], list_type ''map'', patch_merge_key ''name'',
            patch_strategy ''merge''] (array_of (refer_default ref (core_v1 ''ObjectReference'')))),
        (''imagePullSecrets'',
            with_ext [list_type ''atomic''] (array_of (refer_default ref (core_v1 ''LocalObjectReference'')))),
        (''automountServiceAccountToken'', typed ''boolean'')])
    [core_v1 ''LocalObjectReference'', core_v1 ''ObjectReference'', meta_v1 ''ObjectMeta'']"

definition schema_core_v1_ServiceAccountList :: "(string \<Rightarrow> string) \<Rightarrow> openapi_def" where
  "schema_core_v1_ServiceAccountList ref = openapi_definition
    (object_of [''items''] [
        (''kind'', a_string),
        (''apiVersion'', a_string),
        (''metadata'', refer_default ref (meta_v1 ''ListMeta'')),
        (''items'', array_of (refer_default ref (core_v1 ''ServiceAccount'')))])
    [core_v1 ''ServiceAccount'', meta_v1 ''ListMeta'']"

definition schema_core_v1_ServiceAccountTokenProjection :: "(string \<Rightarrow> string) \<Rightarrow> openapi_def" where
  "schema_core_v1_ServiceAccountTokenProjection ref = openapi_definition
    (object_of [''path''] [
        (''audience'', a_string),
        (''expirationSeconds'', with_format ''int64'' (typed ''integer'')),
        (''path'', a_string_default)])
    []"

definition schema_core_v1_ServiceList :: "(string \<Rightarrow> string) \<Rightarrow> openapi_def" where
  "schema_core_v1_ServiceList ref = openapi_definition
    (object_of [''items''] [
        (''kind'', a_string),
        (''apiVersion'', a_string),
        (''metadata'', refer_default ref (meta_v1 ''ListMeta'')),
        (''items'', array_of (refer_default ref (core_v1 ''Service'')))])
    [core_v1 ''Service'', meta_v1 ''ListMeta'']"

definition schema_core_v1_ServicePort :: "(string \<Rightarrow> string) \<Rightarrow> openapi_def" where
  "schema_core_v1_ServicePort ref = openapi_definition
    (object_of [''port''] [
        (''name'', a_string),
        (''protocol'', with_default (JStr ''TCP'') (with_enum [''SCTP'', ''TCP'', ''UDP''] a_string)),
        (''appProtocol'', a_string),
        (''port'', with_default (JInt 0) (with_format ''int32'' (typed ''integer''))),
        (''targetPort'', refer ref (util_intstr ''IntOrString'')),
        (''nodePort'', with_format ''int32'' (typed ''integer''))])
    [util_intstr ''IntOrString'']"

definition schema_core_v1_ServiceProxyOptions :: "(string \<Rightarrow> string) \<Rightarrow> openapi_def" where
  "schema_core_v1_ServiceProxyOptions ref = openapi_definition
    (object_of [] [
        (''kind'', a_string),
        (''apiVersion'', a_string),
        (''path'', a_string)])
    []"

definition schema_core_v1_ServiceSpec :: "(string \<Rightarrow> string) \<Rightarrow> openapi_def" where
  "schema_core_v1_ServiceSpec ref = openapi_definition
    (object_of [] [
        (''ports'', with_ext [list_map_keys [''port'', ''protocol''], list_type ''map'', patch_merge_key ''port'',
            patch_strategy ''merge''] (array_of (refer_default ref (core_v1 ''ServicePort'')))),
        (''selector'', with_ext [map_type ''atomic''] (map_of_schema a_string_default)),
        (''clusterIP'', a_string),
        (''clusterIPs'', with_ext [list_type ''atomic''] (array_of a_string_default)),
        (''type'', with_enum [''ClusterIP'', ''ExternalName'', ''LoadBalancer'', ''NodePort''] a_string),
        (''externalIPs'', with_ext [list_type ''atomic''] (array_of a_string_default)),
        (''sessionAffinity'', with_enum [''ClientIP'', ''None''] a_string),
        (''loadBalancerIP'', a_string),
        (''loadBalancerSourceRanges'', with_ext [list_type ''atomic''] (array_of a_string_default)),
        (''externalName'', a_string),
        (''externalTrafficPolicy'', with_enum [''Cluster'', ''Cluster'', ''Local'', ''Local''] a_string),
        (''healthCheckNodePort'', with_format ''int32'' (typed ''integer'')),
        (''publishNotReadyAddresses'', typed ''boolean''),
        (''sessionAffinityConfig'', refer ref (core_v1 ''SessionAffinityConfig'')),
        (''ipFamilies'', with_ext [list_type ''atomic''] (array_of a_string_default)),
        (''ipFamilyPolicy'', with_enum [''PreferDualStack'', ''RequireDualStack'', ''SingleStack''] a_string),
        (''allocateLoadBalancerNodePorts'', typed ''boolean''),
        (''loadBalancerClass'', a_string),
        (''internalTrafficPolicy'', with_enum [''Cluster'', ''Local''] a_string),
        (''trafficDistribution'', a_string)])
    [core_v1 ''ServicePort'', core_v1 ''SessionAffinityConfig'']"

definition schema_core_v1_ServiceStatus :: "(string \<Rightarrow> string) \<Rightarrow> openapi_def" where
  "schema_core_v1_ServiceStatus ref = openapi_definition
    (object_of [] [
        (''loadBalancer'', refer_default ref (core_v1 ''LoadBalancerStatus'')),
        (''conditions'', with_ext [list_map_keys [''type''], list_type ''map'', patch_merge_key ''type'',
            patch_strategy ''merge''] (array_of (refer_default ref (meta_v1 ''Condition''))))])
    [core_v1 ''LoadBalancerStatus'', meta_v1 ''Condition'']"

definition schema_core_v1_SessionAffinityConfig :: "(string \<Rightarrow> string) \<Rightarrow> openapi_def" where
  "schema_core_v1_SessionAffinityConfig ref = openapi_definition
    (object_of [] [
        (''clientIP'', refer ref (core_v1 ''ClientIPConfig''))])
    [core_v1 ''ClientIPConfig'']"

definition schema_core_v1_SleepAction :: "(string \<Rightarrow> string) \<Rightarrow> openapi_def" where
  "schema_core_v1_SleepAction ref = openapi_definition
    (object_of [''seconds''] [
        (''seconds'', with_default (JInt 0) (with_format ''int64'' (typed ''integer'')))])
    []"

definition schema_core_v1_StorageOSPersistentVolumeSource :: "(string \<Rightarrow> string) \<Rightarrow> openapi_def" where
  "schema_core_v1_StorageOSPersistentVolumeSource ref = openapi_definition
    (object_of [] [
        (''volumeName'', a_string),
        (''volumeNamespace'', a_string),
        (''fsType'', a_string),
        (''readOnly'', typed ''boolean''),
        (''secretRef'', refer ref (core_v1 ''ObjectReference''))])
    [core_v1 ''ObjectReference'']"

definition schema_core_v1_StorageOSVolumeSource :: "(string \<Rightarrow> string) \<Rightarrow> openapi_def" where
  "schema_core_v1_StorageOSVolumeSource ref = openapi_definition
    (object_of [] [
        (''volumeName'', a_string),
        (''volumeNamespace'', a_string),
        (''fsType'', a_string),
        (''readOnly'', typed ''boolean''),
        (''secretRef'', refer ref (core_v1 ''LocalObjectReference''))])
    [core_v1 ''LocalObjectReference'']"

definition schema_core_v1_Sysctl :: "(string \<Rightarrow> string) \<Rightarrow> openapi_def" where
  "schema_core_v1_Sysctl ref = openapi_definition
    (object_of [''name'', ''value''] [
        (''name'', a_string_default),
        (''value'', a_string_default)])
    []"

definition schema_core_v1_TCPSocketAction :: "(string \<Rightarrow> string) \<Rightarrow> openapi_def" where
  "schema_core_v1_TCPSocketAction ref = openapi_definition
    (object_of [''port''] [
        (''port'', refer ref (util_intstr ''IntOrString'')),
        (''host'', a_string)])
    [util_intstr ''IntOrString'']"

definition schema_core_v1_Taint :: "(string \<Rightarrow> string) \<Rightarrow> openapi_def" where
  "schema_core_v1_Taint ref = openapi_definition
    (object_of [''key'', ''effect''] [
        (''key'', a_string_default),
        (''value'', a_string),
        (''effect'', with_enum [''NoExecute'', ''NoSchedule'', ''PreferNoSchedule''] a_string_default),
        (''timeAdded'', refer ref (meta_v1 ''Time''))])
    [meta_v1 ''Time'']"

definition schema_core_v1_Toleration :: "(string \<Rightarrow> string) \<Rightarrow> openapi_def" where
  "schema_core_v1_Toleration ref = openapi_definition
    (object_of [] [
        (''key'', a_string),
        (''operator'', with_enum [''Equal'', ''Exists''] a_string),
        (''value'', a_string),
        (''effect'', with_enum [''NoExecute'', ''NoSchedule'', ''PreferNoSchedule''] a_string),
        (''tolerationSeconds'', with_format ''int64'' (typed ''integer''))])
    []"

definition schema_core_v1_TopologySelectorLabelRequirement :: "(string \<Rightarrow> string) \<Rightarrow> openapi_def" where
  "schema_core_v1_TopologySelectorLabelRequirement ref = openapi_definition
    (object_of [''key'', ''values''] [
        (''key'', a_string_default),
        (''values'', with_ext [list_type ''atomic''] (array_of a_string_default))])
    []"

definition schema_core_v1_TopologySelectorTerm :: "(string \<Rightarrow> string) \<Rightarrow> openapi_def" where
  "schema_core_v1_TopologySelectorTerm ref = openapi_definition
    (with_ext [map_type ''atomic''] (object_of [] [
        (''matchLabelExpressions'',
            with_ext [list_type ''atomic''] (array_of (refer_default ref (core_v1 ''TopologySelectorLabelRequirement''))))]))
    [core_v1 ''TopologySelectorLabelRequirement'']"

definition schema_core_v1_TopologySpreadConstraint :: "(string \<Rightarrow> string) \<Rightarrow> openapi_def" where
  "schema_core_v1_TopologySpreadConstraint ref = openapi_definition
    (object_of [''maxSkew'', ''topologyKey'', ''whenUnsatisfiable''] [
        (''maxSkew'', with_default (JInt 0) (with_format ''int32'' (typed ''integer''))),
        (''topologyKey'', a_string_default),
        (''whenUnsatisfiable'', with_enum [''DoNotSchedule'', ''ScheduleAnyway''] a_string_default),
        (''labelSelector'', refer ref (meta_v1 ''LabelSelector'')),
        (''minDomains'', with_format ''int32'' (typed ''integer'')),
        (''nodeAffinityPolicy'', with_enum [''Honor'', ''Ignore''] a_string),
        (''nodeTaintsPolicy'', with_enum [''Honor'', ''Ignore''] a_string),
        (''matchLabelKeys'', with_ext [list_type ''atomic''] (array_of a_string_default))])
    [meta_v1 ''LabelSelector'']"

definition schema_core_v1_TypedLocalObjectReference :: "(string \<Rightarrow> string) \<Rightarrow> openapi_def" where
  "schema_core_v1_TypedLocalObjectReference ref = openapi_definition
    (with_ext [map_type ''atomic''] (object_of [''kind'', ''name''] [
        (''apiGroup'', a_string),
        (''kind'', a_string_default),
        (''name'', a_string_default)]))
    []"

definition schema_core_v1_TypedObjectReference :: "(string \<Rightarrow> string) \<Rightarrow> openapi_def" where
  "schema_core_v1_TypedObjectReference ref = openapi_definition
    (object_of [''kind'', ''name''] [
        (''apiGroup'', a_string),
        (''kind'', a_string_default),
        (''name'', a_string_default),
        (''namespace'', a_string)])
    []"

definition schema_core_v1_Volume :: "(string \<Rightarrow> string) \<Rightarrow> openapi_def" where
  "schema_core_v1_Volume ref = openapi_definition
    (object_of [''name''] [
        (''name'', a_string_default),
        (''hostPath'', refer ref (core_v1 ''HostPathVolumeSource'')),
        (''emptyDir'', refer ref (core_v1 ''EmptyDirVolumeSource'')),
        (''gcePersistentDisk'', refer ref (core_v1 ''GCEPersistentDiskVolumeSource'')),
        (''awsElasticBlockStore'', refer ref (core_v1 ''AWSElasticBlockStoreVolumeSource'')),
        (''gitRepo'', refer ref (core_v1 ''GitRepoVolumeSource'')),
        (''secret'', refer ref (core_v1 ''SecretVolumeSource'')),
        (''nfs'', refer ref (core_v1 ''NFSVolumeSource'')),
        (''iscsi'', refer ref (core_v1 ''ISCSIVolumeSource'')),
        (''glusterfs'', refer ref (core_v1 ''GlusterfsVolumeSource'')),
        (''persistentVolumeClaim'', refer ref (core_v1 ''PersistentVolumeClaimVolumeSource'')),
        (''rbd'', refer ref (core_v1 ''RBDVolumeSource'')),
        (''flexVolume'', refer ref (core_v1 ''FlexVolumeSource'')),
        (''cinder'', refer ref (core_v1 ''CinderVolumeSource'')),
        (''cephfs'', refer ref (core_v1 ''CephFSVolumeSource'')),
        (''flocker'', refer ref (core_v1 ''FlockerVolumeSource'')),
        (''downwardAPI'', refer ref (core_v1 ''DownwardAPIVolumeSource'')),
        (''fc'', refer ref (core_v1 ''FCVolumeSource'')),
        (''azureFile'', refer ref (core_v1 ''AzureFileVolumeSource'')),
        (''configMap'', refer ref (core_v1 ''ConfigMapVolumeSource'')),
        (''vsphereVolume'', refer ref (core_v1 ''VsphereVirtualDiskVolumeSource'')),
        (''quobyte'', refer ref (core_v1 ''QuobyteVolumeSource'')),
        (''azureDisk'', refer ref (core_v1 ''AzureDiskVolumeSource'')),
        (''photonPersistentDisk'', refer ref (core_v1 ''PhotonPersistentDiskVolumeSource'')),
        (''projected'', refer ref (core_v1 ''ProjectedVolumeSource'')),
        (''portworxVolume'', refer ref (core_v1 ''PortworxVolumeSource'')),
        (''scaleIO'', refer ref (core_v1 ''ScaleIOVolumeSource'')),
        (''storageos'', refer ref (core_v1 ''StorageOSVolumeSource'')),
        (''csi'', refer ref (core_v1 ''CSIVolumeSource'')),
        (''ephemeral'', refer ref (core_v1 ''EphemeralVolumeSource''))])
    [core_v1 ''AWSElasticBlockStoreVolumeSource'', core_v1 ''AzureDiskVolumeSource'',
        core_v1 ''AzureFileVolumeSource'', core_v1 ''CSIVolumeSource'', core_v1 ''CephFSVolumeSource'',
        core_v1 ''CinderVolumeSource'', core_v1 ''ConfigMapVolumeSource'', core_v1 ''DownwardAPIVolumeSource'',
        core_v1 ''EmptyDirVolumeSource'', core_v1 ''EphemeralVolumeSource'', core_v1 ''FCVolumeSource'',
        core_v1 ''FlexVolumeSource'', core_v1 ''FlockerVolumeSource'', core_v1 ''GCEPersistentDiskVolumeSource'',
        core_v1 ''GitRepoVolumeSource'', core_v1 ''GlusterfsVolumeSource'', core_v1 ''HostPathVolumeSource'',
        core_v1 ''ISCSIVolumeSource'', core_v1 ''NFSVolumeSource'', core_v1 ''PersistentVolumeClaimVolumeSource'',
        core_v1 ''PhotonPersistentDiskVolumeSource'', core_v1 ''PortworxVolumeSource'',
        core_v1 ''ProjectedVolumeSource'', core_v1 ''QuobyteVolumeSource'', core_v1 ''RBDVolumeSource'',
        core_v1 ''ScaleIOVolumeSource'', core_v1 ''SecretVolumeSource'', core_v1 ''StorageOSVolumeSource'',
        core_v1 ''VsphereVirtualDiskVolumeSource'']"

definition schema_core_v1_VolumeDevice :: "(string \<Rightarrow> string) \<Rightarrow> openapi_def" where
  "schema_core_v1_VolumeDevice ref = openapi_definition
    (object_of [''name'', ''devicePath''] [
        (''name'', a_string_default),
        (''devicePath'', a_string_default)])
    []"

definition schema_core_v1_VolumeMount :: "(string \<Rightarrow> string) \<Rightarrow> openapi_def" where
  "schema_core_v1_VolumeMount ref = openapi_definition
    (object_of [''name'', ''mountPath''] [
        (''name'', a_string_default),
        (''readOnly'', typed ''boolean''),
        (''recursiveReadOnly'', a_string),
        (''mountPath'', a_string_default),
        (''subPath'', a_string),
        (''mountPropagation'', with_enum [''Bidirectional'', ''HostToContainer'', ''None''] a_string),
        (''subPathExpr'', a_string)])
    []"

definition schema_core_v1_VolumeMountStatus :: "(string \<Rightarrow> string) \<Rightarrow> openapi_def" where
  "schema_core_v1_VolumeMountStatus ref = openapi_definition
    (object_of [''name'', ''mountPath''] [
        (''name'', a_string_default),
        (''mountPath'', a_string_default),
        (''readOnly'', typed ''boolean''),
        (''recursiveReadOnly'', a_string)])
    []"

definition schema_core_v1_VolumeNodeAffinity :: "(string \<Rightarrow> string) \<Rightarrow> openapi_def" where
  "schema_core_v1_VolumeNodeAffinity ref = openapi_definition
    (object_of [] [
        (''required'', refer ref (core_v1 ''NodeSelector''))])
    [core_v1 ''NodeSelector'']"

definition schema_core_v1_VolumeProjection :: "(string \<Rightarrow> string) \<Rightarrow> openapi_def" where
  "schema_core_v1_VolumeProjection ref = openapi_definition
    (object_of [] [
        (''secret'', refer ref (core_v1 ''SecretProjection'')),
        (''downwardAPI'', refer ref (core_v1 ''DownwardAPIProjection'')),
        (''configMap'', refer ref (core_v1 ''ConfigMapProjection'')),
        (''serviceAccountToken'', refer ref (core_v1 ''ServiceAccountTokenProjection'')),
        (''clusterTrustBundle'', refer ref (core_v1 ''ClusterTrustBundleProjection''))])
    [core_v1 ''ClusterTrustBundleProjection'', core_v1 ''ConfigMapProjection'', core_v1 ''DownwardAPIProjection'',
        core_v1 ''SecretProjection'', core_v1 ''ServiceAccountTokenProjection'']"

definition schema_core_v1_VolumeResourceRequirements :: "(string \<Rightarrow> string) \<Rightarrow> openapi_def" where
  "schema_core_v1_VolumeResourceRequirements ref = openapi_definition
    (object_of [] [
        (''limits'', map_of_schema (refer ref (api_resource ''Quantity''))),
        (''requests'', map_of_schema (refer ref (api_resource ''Quantity'')))])
    [api_resource ''Quantity'']"

definition schema_core_v1_VolumeSource :: "(string \<Rightarrow> string) \<Rightarrow> openapi_def" where
  "schema_core_v1_VolumeSource ref = openapi_definition
    (object_of [] [
        (''hostPath'', refer ref (core_v1 ''HostPathVolumeSource'')),
        (''emptyDir'', refer ref (core_v1 ''EmptyDirVolumeSource'')),
        (''gcePersistentDisk'', refer ref (core_v1 ''GCEPersistentDiskVolumeSource'')),
        (''awsElasticBlockStore'', refer ref (core_v1 ''AWSElasticBlockStoreVolumeSource'')),
        (''gitRepo'', refer ref (core_v1 ''GitRepoVolumeSource'')),
        (''secret'', refer ref (core_v1 ''SecretVolumeSource'')),
        (''nfs'', refer ref (core_v1 ''NFSVolumeSource'')),
        (''iscsi'', refer ref (core_v1 ''ISCSIVolumeSource'')),
        (''glusterfs'', refer ref (core_v1 ''GlusterfsVolumeSource'')),
        (''persistentVolumeClaim'', refer ref (core_v1 ''PersistentVolumeClaimVolumeSource'')),
        (''rbd'', refer ref (core_v1 ''RBDVolumeSource'')),
        (''flexVolume'', refer ref (core_v1 ''FlexVolumeSource'')),
        (''cinder'', refer ref (core_v1 ''CinderVolumeSource'')),
        (''cephfs'', refer ref (core_v1 ''CephFSVolumeSource'')),
        (''flocker'', refer ref (core_v1 ''FlockerVolumeSource'')),
        (''downwardAPI'', refer ref (core_v1 ''DownwardAPIVolumeSource'')),
        (''fc'', refer ref (core_v1 ''FCVolumeSource'')),
        (''azureFile'', refer ref (core_v1 ''AzureFileVolumeSource'')),
        (''configMap'', refer ref (core_v1 ''ConfigMapVolumeSource'')),
        (''vsphereVolume'', refer ref (core_v1 ''VsphereVirtualDiskVolumeSource'')),
        (''quobyte'', refer ref (core_v1 ''QuobyteVolumeSource'')),
        (''azureDisk'', refer ref (core_v1 ''AzureDiskVolumeSource'')),
        (''photonPersistentDisk'', refer ref (core_v1 ''PhotonPersistentDiskVolumeSource'')),
        (''projected'', refer ref (core_v1 ''ProjectedVolumeSource'')),
        (''portworxVolume'', refer ref (core_v1 ''PortworxVolumeSource'')),
        (''scaleIO'', refer ref (core_v1 ''ScaleIOVolumeSource'')),
        (''storageos'', refer ref (core_v1 ''StorageOSVolumeSource'')),
        (''csi'', refer ref (core_v1 ''CSIVolumeSource'')),
        (''ephemeral'', refer ref (core_v1 ''EphemeralVolumeSource''))])
    [core_v1 ''AWSElasticBlockStoreVolumeSource'', core_v1 ''AzureDiskVolumeSource'',
        core_v1 ''AzureFileVolumeSource'', core_v1 ''CSIVolumeSource'', core_v1 ''CephFSVolumeSource'',
        core_v1 ''CinderVolumeSource'', core_v1 ''ConfigMapVolumeSource'', core_v1 ''DownwardAPIVolumeSource'',
        core_v1 ''EmptyDirVolumeSource'', core_v1 ''EphemeralVolumeSource'', core_v1 ''FCVolumeSource'',
        core_v1 ''FlexVolumeSource'', core_v1 ''FlockerVolumeSource'', core_v1 ''GCEPersistentDiskVolumeSource'',
        core_v1 ''GitRepoVolumeSource'', core_v1 ''GlusterfsVolumeSource'', core_v1 ''HostPathVolumeSource'',
        core_v1 ''ISCSIVolumeSource'', core_v1 ''NFSVolumeSource'', core_v1 ''PersistentVolumeClaimVolumeSource'',
        core_v1 ''PhotonPersistentDiskVolumeSource'', core_v1 ''PortworxVolumeSource'',
        core_v1 ''ProjectedVolumeSource'', core_v1 ''QuobyteVolumeSource'', core_v1 ''RBDVolumeSource'',
        core_v1 ''ScaleIOVolumeSource'', core_v1 ''SecretVolumeSource'', core_v1 ''StorageOSVolumeSource'',
        core_v1 ''VsphereVirtualDiskVolumeSource'']"

definition schema_core_v1_VsphereVirtualDiskVolumeSource :: "(string \<Rightarrow> string) \<Rightarrow> openapi_def" where
  "schema_core_v1_VsphereVirtualDiskVolumeSource ref = openapi_definition
    (object_of [''volumePath''] [
        (''volumePath'', a_string_default),
        (''fsType'', a_string),
        (''storagePolicyName'', a_string),
        (''storagePolicyID'', a_string)])
    []"

definition schema_core_v1_WeightedPodAffinityTerm :: "(string \<Rightarrow> string) \<Rightarrow> openapi_def" where
  "schema_core_v1_WeightedPodAffinityTerm ref = openapi_definition
    (object_of [''weight'', ''podAffinityTerm''] [
        (''weight'', with_default (JInt 0) (with_format ''int32'' (typed ''integer''))),
        (''podAffinityTerm'', refer_default ref (core_v1 ''PodAffinityTerm''))])
    [core_v1 ''PodAffinityTerm'']"

definition schema_core_v1_WindowsSecurityContextOptions :: "(string \<Rightarrow> string) \<Rightarrow> openapi_def" where
  "schema_core_v1_WindowsSecurityContextOptions ref = openapi_definition
    (object_of [] [
        (''gmsaCredentialSpecName'', a_string),
        (''gmsaCredentialSpec'', a_string),
        (''runAsUserName'', a_string),
        (''hostProcess'', typed ''boolean'')])
    []"

definition core_q_to_z_definitions :: "(string \<Rightarrow> string) \<Rightarrow> (string \<times> openapi_def) list" where
  "core_q_to_z_definitions ref =
     [(core_v1 ''QuobyteVolumeSource'', schema_core_v1_QuobyteVolumeSource ref),
      (core_v1 ''RBDPersistentVolumeSource'', schema_core_v1_RBDPersistentVolumeSource ref),
      (core_v1 ''RBDVolumeSource'', schema_core_v1_RBDVolumeSource ref),
      (core_v1 ''RangeAllocation'', schema_core_v1_RangeAllocation ref),
      (core_v1 ''ReplicationController'', schema_core_v1_ReplicationController ref),
      (core_v1 ''ReplicationControllerCondition'', schema_core_v1_ReplicationControllerCondition ref),
      (core_v1 ''ReplicationControllerList'', schema_core_v1_ReplicationControllerList ref),
      (core_v1 ''ReplicationControllerSpec'', schema_core_v1_ReplicationControllerSpec ref),
      (core_v1 ''ReplicationControllerStatus'', schema_core_v1_ReplicationControllerStatus ref),
      (core_v1 ''ResourceClaim'', schema_core_v1_ResourceClaim ref),
      (core_v1 ''ResourceFieldSelector'', schema_core_v1_ResourceFieldSelector ref),
      (core_v1 ''ResourceQuota'', schema_core_v1_ResourceQuota ref),
      (core_v1 ''ResourceQuotaList'', schema_core_v1_ResourceQuotaList ref),
      (core_v1 ''ResourceQuotaSpec'', schema_core_v1_ResourceQuotaSpec ref),
      (core_v1 ''ResourceQuotaStatus'', schema_core_v1_ResourceQuotaStatus ref),
      (core_v1 ''ResourceRequirements'', schema_core_v1_ResourceRequirements ref),
      (core_v1 ''SELinuxOptions'', schema_core_v1_SELinuxOptions ref),
      (core_v1 ''ScaleIOPersistentVolumeSource'', schema_core_v1_ScaleIOPersistentVolumeSource ref),
      (core_v1 ''ScaleIOVolumeSource'', schema_core_v1_ScaleIOVolumeSource ref),
      (core_v1 ''ScopeSelector'', schema_core_v1_ScopeSelector ref),
      (core_v1 ''ScopedResourceSelectorRequirement'', schema_core_v1_ScopedResourceSelectorRequirement ref),
      (core_v1 ''SeccompProfile'', schema_core_v1_SeccompProfile ref),
      (core_v1 ''Secret'', schema_core_v1_Secret ref),
      (core_v1 ''SecretEnvSource'', schema_core_v1_SecretEnvSource ref),
      (core_v1 ''SecretKeySelector'', schema_core_v1_SecretKeySelector ref),
      (core_v1 ''SecretList'', schema_core_v1_SecretList ref),
      (core_v1 ''SecretProjection'', schema_core_v1_SecretProjection ref),
      (core_v1 ''SecretReference'', schema_core_v1_SecretReference ref),
      (core_v1 ''SecretVolumeSource'', schema_core_v1_SecretVolumeSource ref),
      (core_v1 ''SecurityContext'', schema_core_v1_SecurityContext ref),
      (core_v1 ''SerializedReference'', schema_core_v1_SerializedReference ref),
      (core_v1 ''Service'', schema_core_v1_Service ref),
      (core_v1 ''ServiceAccount'', schema_core_v1_ServiceAccount ref),
      (core_v1 ''ServiceAccountList'', schema_core_v1_ServiceAccountList ref),
      (core_v1 ''ServiceAccountTokenProjection'', schema_core_v1_ServiceAccountTokenProjection ref),
      (core_v1 ''ServiceList'', schema_core_v1_ServiceList ref),
      (core_v1 ''ServicePort'', schema_core_v1_ServicePort ref),
      (core_v1 ''ServiceProxyOptions'', schema_core_v1_ServiceProxyOptions ref),
      (core_v1 ''ServiceSpec'', schema_core_v1_ServiceSpec ref),
      (core_v1 ''ServiceStatus'', schema_core_v1_ServiceStatus ref),
      (core_v1 ''SessionAffinityConfig'', schema_core_v1_SessionAffinityConfig ref),
      (core_v1 ''SleepAction'', schema_core_v1_SleepAction ref),
      (core_v1 ''StorageOSPersistentVolumeSource'', schema_core_v1_StorageOSPersistentVolumeSource ref),
      (core_v1 ''StorageOSVolumeSource'', schema_core_v1_StorageOSVolumeSource ref),
      (core_v1 ''Sysctl'', schema_core_v1_Sysctl ref),
      (core_v1 ''TCPSocketAction'', schema_core_v1_TCPSocketAction ref),
      (core_v1 ''Taint'', schema_core_v1_Taint ref),
      (core_v1 ''Toleration'', schema_core_v1_Toleration ref),
      (core_v1 ''TopologySelectorLabelRequirement'', schema_core_v1_TopologySelectorLabelRequirement ref),
      (core_v1 ''TopologySelectorTerm'', schema_core_v1_TopologySelectorTerm ref),
      (core_v1 ''TopologySpreadConstraint'', schema_core_v1_TopologySpreadConstraint ref),
      (core_v1 ''TypedLocalObjectReference'', schema_core_v1_TypedLocalObjectReference ref),
      (core_v1 ''TypedObjectReference'', schema_core_v1_TypedObjectReference ref),
      (core_v1 ''Volume'', schema_core_v1_Volume ref),
      (core_v1 ''VolumeDevice'', schema_core_v1_VolumeDevice ref),
      (core_v1 ''VolumeMount'', schema_core_v1_VolumeMount ref),
      (core_v1 ''VolumeMountStatus'', schema_core_v1_VolumeMountStatus ref),
      (core_v1 ''VolumeNodeAffinity'', schema_core_v1_VolumeNodeAffinity ref),
      (core_v1 ''VolumeProjection'', schema_core_v1_VolumeProjection ref),
      (core_v1 ''VolumeResourceRequirements'', schema_core_v1_VolumeResourceRequirements ref),
      (core_v1 ''VolumeSource'', schema_core_v1_VolumeSource ref),
      (core_v1 ''VsphereVirtualDiskVolumeSource'', schema_core_v1_VsphereVirtualDiskVolumeSource ref),
      (core_v1 ''WeightedPodAffinityTerm'', schema_core_v1_WeightedPodAffinityTerm ref),
      (core_v1 ''WindowsSecurityContextOptions'', schema_core_v1_WindowsSecurityContextOptions ref)]"

lemmas core_p_schemas =
  schema_core_v1_PersistentVolume_def schema_core_v1_PersistentVolumeClaim_def
  schema_core_v1_PersistentVolumeClaimCondition_def schema_core_v1_PersistentVolumeClaimList_def
  schema_core_v1_PersistentVolumeClaimSpec_def schema_core_v1_PersistentVolumeClaimStatus_def
  schema_core_v1_PersistentVolumeClaimTemplate_def schema_core_v1_PersistentVolumeClaimVolumeSource_def
  schema_core_v1_PersistentVolumeList_def schema_core_v1_PersistentVolumeSource_def
  schema_core_v1_PersistentVolumeSpec_def schema_core_v1_PersistentVolumeStatus_def
  schema_core_v1_PhotonPersistentDiskVolumeSource_def schema_core_v1_Pod_def schema_core_v1_PodAffinity_def
  schema_core_v1_PodAffinityTerm_def schema_core_v1_PodAntiAffinity_def schema_core_v1_PodAttachOptions_def
  schema_core_v1_PodCondition_def schema_core_v1_PodDNSConfig_def schema_core_v1_PodDNSConfigOption_def
  schema_core_v1_PodExecOptions_def schema_core_v1_PodIP_def schema_core_v1_PodList_def
  schema_core_v1_PodLogOptions_def schema_core_v1_PodOS_def schema_core_v1_PodPortForwardOptions_def
  schema_core_v1_PodProxyOptions_def schema_core_v1_PodReadinessGate_def schema_core_v1_PodResourceClaim_def
  schema_core_v1_PodResourceClaimStatus_def schema_core_v1_PodSchedulingGate_def
  schema_core_v1_PodSecurityContext_def schema_core_v1_PodSignature_def schema_core_v1_PodSpec_def
  schema_core_v1_PodStatus_def schema_core_v1_PodStatusResult_def schema_core_v1_PodTemplate_def
  schema_core_v1_PodTemplateList_def schema_core_v1_PodTemplateSpec_def schema_core_v1_PortStatus_def
  schema_core_v1_PortworxVolumeSource_def schema_core_v1_PreferAvoidPodsEntry_def
  schema_core_v1_PreferredSchedulingTerm_def schema_core_v1_Probe_def schema_core_v1_ProbeHandler_def
  schema_core_v1_ProjectedVolumeSource_def

lemma core_p_ok: "list_all (\<lambda>p. def_ok (snd p)) (core_p_definitions id)"
  by (simp only: core_p_definitions_def list.pred_inject snd_conv simp_thms, (intro conjI)?,
      (simp_all only: core_p_schemas shape_checks)?, (simp_all only: name_checks cong: if_weak_cong)?,
      (simp_all only: name_checks packages append.simps cong: if_weak_cong)?)

lemmas core_q_to_z_schemas =
  schema_core_v1_QuobyteVolumeSource_def schema_core_v1_RBDPersistentVolumeSource_def
  schema_core_v1_RBDVolumeSource_def schema_core_v1_RangeAllocation_def
  schema_core_v1_ReplicationController_def schema_core_v1_ReplicationControllerCondition_def
  schema_core_v1_ReplicationControllerList_def schema_core_v1_ReplicationControllerSpec_def
  schema_core_v1_ReplicationControllerStatus_def schema_core_v1_ResourceClaim_def
  schema_core_v1_ResourceFieldSelector_def schema_core_v1_ResourceQuota_def
  schema_core_v1_ResourceQuotaList_def schema_core_v1_ResourceQuotaSpec_def
  schema_core_v1_ResourceQuotaStatus_def schema_core_v1_ResourceRequirements_def
  schema_core_v1_SELinuxOptions_def schema_core_v1_ScaleIOPersistentVolumeSource_def
  schema_core_v1_ScaleIOVolumeSource_def schema_core_v1_ScopeSelector_def
  schema_core_v1_ScopedResourceSelectorRequirement_def schema_core_v1_SeccompProfile_def
  schema_core_v1_Secret_def schema_core_v1_SecretEnvSource_def schema_core_v1_SecretKeySelector_def
  schema_core_v1_SecretList_def schema_core_v1_SecretProjection_def schema_core_v1_SecretReference_def
  schema_core_v1_SecretVolumeSource_def schema_core_v1_SecurityContext_def
  schema_core_v1_SerializedReference_def schema_core_v1_Service_def schema_core_v1_ServiceAccount_def
  schema_core_v1_ServiceAccountList_def schema_core_v1_ServiceAccountTokenProjection_def
  schema_core_v1_ServiceList_def schema_core_v1_ServicePort_def schema_core_v1_ServiceProxyOptions_def
  schema_core_v1_ServiceSpec_def schema_core_v1_ServiceStatus_def schema_core_v1_SessionAffinityConfig_def
  schema_core_v1_SleepAction_def schema_core_v1_StorageOSPersistentVolumeSource_def
  schema_core_v1_StorageOSVolumeSource_def schema_core_v1_Sysctl_def schema_core_v1_TCPSocketAction_def
  schema_core_v1_Taint_def schema_core_v1_Toleration_def schema_core_v1_TopologySelectorLabelRequirement_def
  schema_core_v1_TopologySelectorTerm_def schema_core_v1_TopologySpreadConstraint_def
  schema_core_v1_TypedLocalObjectReference_def schema_core_v1_TypedObjectReference_def
  schema_core_v1_Volume_def schema_core_v1_VolumeDevice_def schema_core_v1_VolumeMount_def
  schema_core_v1_VolumeMountStatus_def schema_core_v1_VolumeNodeAffinity_def
  schema_core_v1_VolumeProjection_def schema_core_v1_VolumeResourceRequirements_def
  schema_core_v1_VolumeSource_def schema_core_v1_VsphereVirtualDiskVolumeSource_def
  schema_core_v1_WeightedPodAffinityTerm_def schema_core_v1_WindowsSecurityContextOptions_def

lemma core_q_to_z_ok: "list_all (\<lambda>p. def_ok (snd p)) (core_q_to_z_definitions id)"
  by (simp only: core_q_to_z_definitions_def list.pred_inject snd_conv simp_thms, (intro conjI)?,
      (simp_all only: core_q_to_z_schemas shape_checks)?, (simp_all only: name_checks cong: if_weak_cong)?,
      (simp_all only: name_checks packages append.simps cong: if_weak_cong)?)

end
