(* ===== verification/OpenApiMeta.thy ===== *)
theory OpenApiMeta
  imports OpenApiSchema
begin

text \<open>
  The generated OpenAPI definitions of the API machinery (\<open>openapi_generated.go\<close>), one per schema
  function, and the entries of the registry that name them.
\<close>

definition schema_api_resource_Quantity :: "(string \<Rightarrow> string) \<Rightarrow> openapi_def" where
  "schema_api_resource_Quantity ref = EmbedOpenAPIDefinitionIntoV2Extension
    (openapi_definition (one_of [''string'', ''number'']) [])
    (openapi_definition a_string [])"

definition schema_api_resource_int64Amount :: "(string \<Rightarrow> string) \<Rightarrow> openapi_def" where
  "schema_api_resource_int64Amount ref = openapi_definition
    (object_of [''value'', ''scale''] [
        (''value'', with_default (JInt 0) (with_format ''int64'' (typed ''integer''))),
        (''scale'', with_default (JInt 0) (with_format ''int32'' (typed ''integer'')))])
    []"

definition resource_definitions :: "(string \<Rightarrow> string) \<Rightarrow> (string \<times> openapi_def) list" where
  "resource_definitions ref =
     [(api_resource ''Quantity'', schema_api_resource_Quantity ref),
      (api_resource ''int64Amount'', schema_api_resource_int64Amount ref)]"

definition schema_meta_v1_APIGroup :: "(string \<Rightarrow> string) \<Rightarrow> openapi_def" where
  "schema_meta_v1_APIGroup ref = openapi_definition
    (object_of [''name'', ''versions''] [
        (''kind'', a_string),
        (''apiVersion'', a_string),
        (''name'', a_string_default),
        (''versions'',
            with_ext [list_type ''atomic''] (array_of (refer_default ref (meta_v1 ''GroupVersionForDiscovery'')))),
        (''preferredVersion'', refer_default ref (meta_v1 ''GroupVersionForDiscovery'')),
        (''serverAddressByClientCIDRs'',
            with_ext [list_type ''atomic''] (array_of (refer_default ref (meta_v1 ''ServerAddressByClientCIDR''))))])
    [meta_v1 ''GroupVersionForDiscovery'', meta_v1 ''ServerAddressByClientCIDR'']"

definition schema_meta_v1_APIGroupList :: "(string \<Rightarrow> string) \<Rightarrow> openapi_def" where
  "schema_meta_v1_APIGroupList ref = openapi_definition
    (object_of [''groups''] [
        (''kind'', a_string),
        (''apiVersion'', a_string),
        (''groups'', with_ext [list_type ''atomic''] (array_of (refer_default ref (meta_v1 ''APIGroup''))))])
    [meta_v1 ''APIGroup'']"

definition schema_meta_v1_APIResource :: "(string \<Rightarrow> string) \<Rightarrow> openapi_def" where
  "schema_meta_v1_APIResource ref = openapi_definition
    (object_of [''name'', ''singularName'', ''namespaced'', ''kind'', ''verbs''] [
        (''name'', a_string_default),
        (''singularName'', a_string_default),
        (''namespaced'', with_default (JBool False) (typed ''boolean'')),
        (''group'', a_string),
        (''version'', a_string),
        (''kind'', a_string_default),
        (''verbs'', array_of a_string_default),
        (''shortNames'', with_ext [list_type ''atomic''] (array_of a_string_default)),
        (''categories'', with_ext [list_type ''atomic''] (array_of a_string_default)),
        (''storageVersionHash'', a_string)])
    []"

definition schema_meta_v1_APIResourceList :: "(string \<Rightarrow> string) \<Rightarrow> openapi_def" where
  "schema_meta_v1_APIResourceList ref = openapi_definition
    (object_of [''groupVersion'', ''resources''] [
        (''kind'', a_string),
        (''apiVersion'', a_string),
        (''groupVersion'', a_string_default),
        (''resources'', with_ext [list_type ''atomic''] (array_of (refer_default ref (meta_v1 ''APIResource''))))])
    [meta_v1 ''APIResource'']"

definition schema_meta_v1_APIVersions :: "(string \<Rightarrow> string) \<Rightarrow> openapi_def" where
  "schema_meta_v1_APIVersions ref = openapi_definition
    (object_of [''versions'', ''serverAddressByClientCIDRs''] [
        (''kind'', a_string),
        (''apiVersion'', a_string),
        (''versions'', with_ext [list_type ''atomic''] (array_of a_string_default)),
        (''serverAddressByClientCIDRs'',
            with_ext [list_type ''atomic''] (array_of (refer_default ref (meta_v1 ''ServerAddressByClientCIDR''))))])
    [meta_v1 ''ServerAddressByClientCIDR'']"

definition schema_meta_v1_ApplyOptions :: "(string \<Rightarrow> string) \<Rightarrow> openapi_def" where
  "schema_meta_v1_ApplyOptions ref = openapi_definition
    (object_of [''force'', ''fieldManager''] [
        (''kind'', a_string),
        (''apiVersion'', a_string),
        (''dryRun'', with_ext [list_type ''atomic''] (array_of a_string_default)),
        (''force'', with_default (JBool False) (typed ''boolean'')),
        (''fieldManager'', a_string_default)])
    []"

definition schema_meta_v1_Condition :: "(string \<Rightarrow> string) \<Rightarrow> openapi_def" where
  "schema_meta_v1_Condition ref = openapi_definition
    (object_of [''type'', ''status'', ''lastTransitionTime'', ''reason'', ''message''] [
        (''type'', a_string_default),
        (''status'', a_string_default),
        (''observedGeneration'', with_format ''int64'' (typed ''integer'')),
        (''lastTransitionTime'', refer ref (meta_v1 ''Time'')),
        (''reason'', a_string_default),
        (''message'', a_string_default)])
    [meta_v1 ''Time'']"

definition schema_meta_v1_CreateOptions :: "(string \<Rightarrow> string) \<Rightarrow> openapi_def" where
  "schema_meta_v1_CreateOptions ref = openapi_definition
    (object_of [] [
        (''kind'', a_string),
        (''apiVersion'', a_string),
        (''dryRun'', with_ext [list_type ''atomic''] (array_of a_string_default)),
        (''fieldManager'', a_string),
        (''fieldValidation'', a_string)])
    []"

definition schema_meta_v1_DeleteOptions :: "(string \<Rightarrow> string) \<Rightarrow> openapi_def" where
  "schema_meta_v1_DeleteOptions ref = openapi_definition
    (object_of [] [
        (''kind'', a_string),
        (''apiVersion'', a_string),
        (''gracePeriodSeconds'', with_format ''int64'' (typed ''integer'')),
        (''preconditions'', refer ref (meta_v1 ''Preconditions'')),
        (''orphanDependents'', typed ''boolean''),
        (''propagationPolicy'', a_string),
        (''dryRun'', with_ext [list_type ''atomic''] (array_of a_string_default))])
    [meta_v1 ''Preconditions'']"

definition schema_meta_v1_Duration :: "(string \<Rightarrow> string) \<Rightarrow> openapi_def" where
  "schema_meta_v1_Duration ref = openapi_definition
    (a_string)
    []"

definition schema_meta_v1_FieldsV1 :: "(string \<Rightarrow> string) \<Rightarrow> openapi_def" where
  "schema_meta_v1_FieldsV1 ref = openapi_definition
    (typed ''object'')
    []"

definition schema_meta_v1_GetOptions :: "(string \<Rightarrow> string) \<Rightarrow> openapi_def" where
  "schema_meta_v1_GetOptions ref = openapi_definition
    (object_of [] [
        (''kind'', a_string),
        (''apiVersion'', a_string),
        (''resourceVersion'', a_string)])
    []"

definition schema_meta_v1_GroupKind :: "(string \<Rightarrow> string) \<Rightarrow> openapi_def" where
  "schema_meta_v1_GroupKind ref = openapi_definition
    (object_of [''group'', ''kind''] [
        (''group'', a_string_default),
        (''kind'', a_string_default)])
    []"

definition schema_meta_v1_GroupResource :: "(string \<Rightarrow> string) \<Rightarrow> openapi_def" where
  "schema_meta_v1_GroupResource ref = openapi_definition
    (object_of [''group'', ''resource''] [
        (''group'', a_string_default),
        (''resource'', a_string_default)])
    []"

definition schema_meta_v1_GroupVersion :: "(string \<Rightarrow> string) \<Rightarrow> openapi_def" where
  "schema_meta_v1_GroupVersion ref = openapi_definition
    (object_of [''group'', ''version''] [
        (''group'', a_string_default),
        (''version'', a_string_default)])
    []"

definition schema_meta_v1_GroupVersionForDiscovery :: "(string \<Rightarrow> string) \<Rightarrow> openapi_def" where
  "schema_meta_v1_GroupVersionForDiscovery ref = openapi_definition
    (object_of [''groupVersion'', ''version''] [
        (''groupVersion'', a_string_default),
        (''version'', a_string_default)])
    []"

definition schema_meta_v1_GroupVersionKind :: "(string \<Rightarrow> string) \<Rightarrow> openapi_def" where
  "schema_meta_v1_GroupVersionKind ref = openapi_definition
    (object_of [''group'', ''version'', ''kind''] [
        (''group'', a_string_default),
        (''version'', a_string_default),
        (''kind'', a_string_default)])
    []"

definition schema_meta_v1_GroupVersionResource :: "(string \<Rightarrow> string) \<Rightarrow> openapi_def" where
  "schema_meta_v1_GroupVersionResource ref = openapi_definition
    (object_of [''group'', ''version'', ''resource''] [
        (''group'', a_string_default),
        (''version'', a_string_default),
        (''resource'', a_string_default)])
    []"

definition schema_meta_v1_InternalEvent :: "(string \<Rightarrow> string) \<Rightarrow> openapi_def" where
  "schema_meta_v1_InternalEvent ref = openapi_definition
    (object_of [''Type'', ''Object''] [
        (''Type'', a_string_default),
        (''Object'', refer ref (api_runtime ''Object''))])
    [api_runtime ''Object'']"

definition schema_meta_v1_LabelSelector :: "(string \<Rightarrow> string) \<Rightarrow> openapi_def" where
  "schema_meta_v1_LabelSelector ref = openapi_definition
    (with_ext [map_type ''atomic''] (object_of [] [
        (''matchLabels'', map_of_schema a_string_default),
        (''matchExpressions'',
            with_ext [list_type ''atomic''] (array_of (refer_default ref (meta_v1 ''LabelSelectorRequirement''))))]))
    [meta_v1 ''LabelSelectorRequirement'']"

definition schema_meta_v1_LabelSelectorRequirement :: "(string \<Rightarrow> string) \<Rightarrow> openapi_def" where
  "schema_meta_v1_LabelSelectorRequirement ref = openapi_definition
    (object_of [''key'', ''operator''] [
        (''key'', a_string_default),
        (''operator'', a_string_default),
        (''values'', with_ext [list_type ''atomic''] (array_of a_string_default))])
    []"

definition schema_meta_v1_List :: "(string \<Rightarrow> string) \<Rightarrow> openapi_def" where
  "schema_meta_v1_List ref = openapi_definition
    (object_of [''items''] [
        (''kind'', a_string),
        (''apiVersion'', a_string),
        (''metadata'', refer_default ref (meta_v1 ''ListMeta'')),
        (''items'', array_of (refer ref (api_runtime ''RawExtension'')))])
    [meta_v1 ''ListMeta'', api_runtime ''RawExtension'']"

definition schema_meta_v1_ListMeta :: "(string \<Rightarrow> string) \<Rightarrow> openapi_def" where
  "schema_meta_v1_ListMeta ref = openapi_definition
    (object_of [] [
        (''selfLink'', a_string),
        (''resourceVersion'', a_string),
        (''continue'', a_string),
        (''remainingItemCount'', with_format ''int64'' (typed ''integer''))])
    []"

definition schema_meta_v1_ListOptions :: "(string \<Rightarrow> string) \<Rightarrow> openapi_def" where
  "schema_meta_v1_ListOptions ref = openapi_definition
    (object_of [] [
        (''kind'', a_string),
        (''apiVersion'', a_string),
        (''labelSelector'', a_string),
        (''fieldSelector'', a_string),
        (''watch'', typed ''boolean''),
        (''allowWatchBookmarks'', typed ''boolean''),
        (''resourceVersion'', a_string),
        (''resourceVersionMatch'', a_string),
        (''timeoutSeconds'', with_format ''int64'' (typed ''integer'')),
        (''limit'', with_format ''int64'' (typed ''integer'')),
        (''continue'', a_string),
        (''sendInitialEvents'', typed ''boolean'')])
    []"

definition schema_meta_v1_ManagedFieldsEntry :: "(string \<Rightarrow> string) \<Rightarrow> openapi_def" where
  "schema_meta_v1_ManagedFieldsEntry ref = openapi_definition
    (object_of [] [
        (''manager'', a_string),
        (''operation'', a_string),
        (''apiVersion'', a_string),
        (''time'', refer ref (meta_v1 ''Time'')),
        (''fieldsType'', a_string),
        (''fieldsV1'', refer ref (meta_v1 ''FieldsV1'')),
        (''subresource'', a_string)])
    [meta_v1 ''FieldsV1'', meta_v1 ''Time'']"

definition schema_meta_v1_MicroTime :: "(string \<Rightarrow> string) \<Rightarrow> openapi_def" where
  "schema_meta_v1_MicroTime ref = openapi_definition
    (with_format ''date-time'' a_string)
    []"

definition schema_meta_v1_ObjectMeta :: "(string \<Rightarrow> string) \<Rightarrow> openapi_def" where
  "schema_meta_v1_ObjectMeta ref = openapi_definition
    (object_of [] [
        (''name'', a_string),
        (''generateName'', a_string),
        (''namespace'', a_string),
        (''selfLink'', a_string),
        (''uid'', a_string),
        (''resourceVersion'', a_string),
        (''generation'', with_format ''int64'' (typed ''integer'')),
        (''creationTimestamp'', refer ref (meta_v1 ''Time'')),
        (''deletionTimestamp'', refer ref (meta_v1 ''Time'')),
        (''deletionGracePeriodSeconds'', with_format ''int64'' (typed ''integer'')),
        (''labels'', map_of_schema a_string_default),
        (''annotations'', map_of_schema a_string_default),
        (''ownerReferences'', with_ext [list_map_keys [''uid''], list_type ''map'', patch_merge_key ''uid'',
            patch_strategy ''merge''] (array_of (refer_default ref (meta_v1 ''OwnerReference'')))),
        (''finalizers'', with_ext [list_type ''set'', patch_strategy ''merge''] (array_of a_string_default)),
        (''managedFields'',
            with_ext [list_type ''atomic''] (array_of (refer_default ref (meta_v1 ''ManagedFieldsEntry''))))])
    [meta_v1 ''ManagedFieldsEntry'', meta_v1 ''OwnerReference'', meta_v1 ''Time'']"

definition schema_meta_v1_OwnerReference :: "(string \<Rightarrow> string) \<Rightarrow> openapi_def" where
  "schema_meta_v1_OwnerReference ref = openapi_definition
    (with_ext [map_type ''atomic''] (object_of [''apiVersion'', ''kind'', ''name'', ''uid''] [
        (''apiVersion'', a_string_default),
        (''kind'', a_string_default),
        (''name'', a_string_default),
        (''uid'', a_string_default),
        (''controller'', typed ''boolean''),
        (''blockOwnerDeletion'', typed ''boolean'')]))
    []"

definition schema_meta_v1_PartialObjectMetadata :: "(string \<Rightarrow> string) \<Rightarrow> openapi_def" where
  "schema_meta_v1_PartialObjectMetadata ref = openapi_definition
    (object_of [] [
        (''kind'', a_string),
        (''apiVersion'', a_string),
        (''metadata'', refer_default ref (meta_v1 ''ObjectMeta''))])
    [meta_v1 ''ObjectMeta'']"

definition schema_meta_v1_PartialObjectMetadataList :: "(string \<Rightarrow> string) \<Rightarrow> openapi_def" where
  "schema_meta_v1_PartialObjectMetadataList ref = openapi_definition
    (object_of [''items''] [
        (''kind'', a_string),
        (''apiVersion'', a_string),
        (''metadata'', refer_default ref (meta_v1 ''ListMeta'')),
        (''items'', array_of (refer_default ref (meta_v1 ''PartialObjectMetadata'')))])
    [meta_v1 ''ListMeta'', meta_v1 ''PartialObjectMetadata'']"

definition schema_meta_v1_Patch :: "(string \<Rightarrow> string) \<Rightarrow> openapi_def" where
  "schema_meta_v1_Patch ref = openapi_definition
    (typed ''object'')
    []"

definition schema_meta_v1_PatchOptions :: "(string \<Rightarrow> string) \<Rightarrow> openapi_def" where
  "schema_meta_v1_PatchOptions ref = openapi_definition
    (object_of [] [
        (''kind'', a_string),
        (''apiVersion'', a_string),
        (''dryRun'', with_ext [list_type ''atomic''] (array_of a_string_default)),
        (''force'', typed ''boolean''),
        (''fieldManager'', a_string),
        (''fieldValidation'', a_string)])
    []"

definition schema_meta_v1_Preconditions :: "(string \<Rightarrow> string) \<Rightarrow> openapi_def" where
  "schema_meta_v1_Preconditions ref = openapi_definition
    (object_of [] [
        (''uid'', a_string),
        (''resourceVersion'', a_string)])
    []"

definition schema_meta_v1_RootPaths :: "(string \<Rightarrow> string) \<Rightarrow> openapi_def" where
  "schema_meta_v1_RootPaths ref = openapi_definition
    (object_of [''paths''] [
        (''paths'', with_ext [list_type ''atomic''] (array_of a_string_default))])
    []"

definition schema_meta_v1_ServerAddressByClientCIDR :: "(string \<Rightarrow> string) \<Rightarrow> openapi_def" where
  "schema_meta_v1_ServerAddressByClientCIDR ref = openapi_definition
    (object_of [''clientCIDR'', ''serverAddress''] [
        (''clientCIDR'', a_string_default),
        (''serverAddress'', a_string_default)])
    []"

definition schema_meta_v1_Status :: "(string \<Rightarrow> string) \<Rightarrow> openapi_def" where
  "schema_meta_v1_Status ref = openapi_definition
    (object_of [] [
        (''kind'', a_string),
        (''apiVersion'', a_string),
        (''metadata'', refer_default ref (meta_v1 ''ListMeta'')),
        (''status'', a_string),
        (''message'', a_string),
        (''reason'', a_string),
        (''details'', with_ext [list_type ''atomic''] (refer ref (meta_v1 ''StatusDetails''))),
        (''code'', with_format ''int32'' (typed ''integer''))])
    [meta_v1 ''ListMeta'', meta_v1 ''StatusDetails'']"

definition schema_meta_v1_StatusCause :: "(string \<Rightarrow> string) \<Rightarrow> openapi_def" where
  "schema_meta_v1_StatusCause ref = openapi_definition
    (object_of [] [
        (''reason'', a_string),
        (''message'', a_string),
        (''field'', a_string)])
    []"

definition schema_meta_v1_StatusDetails :: "(string \<Rightarrow> string) \<Rightarrow> openapi_def" where
  "schema_meta_v1_StatusDetails ref = openapi_definition
    (object_of [] [
        (''name'', a_string),
        (''group'', a_string),
        (''kind'', a_string),
        (''uid'', a_string),
        (''causes'', with_ext [list_type ''atomic''] (array_of (refer_default ref (meta_v1 ''StatusCause'')))),
        (''retryAfterSeconds'', with_format ''int32'' (typed ''integer''))])
    [meta_v1 ''StatusCause'']"

definition schema_meta_v1_Table :: "(string \<Rightarrow> string) \<Rightarrow> openapi_def" where
  "schema_meta_v1_Table ref = openapi_definition
    (object_of [''columnDefinitions'', ''rows''] [
        (''kind'', a_string),
        (''apiVersion'', a_string),
        (''metadata'', refer_default ref (meta_v1 ''ListMeta'')),
        (''columnDefinitions'',
            with_ext [list_type ''atomic''] (array_of (refer_default ref (meta_v1 ''TableColumnDefinition'')))),
        (''rows'', with_ext [list_type ''atomic''] (array_of (refer_default ref (meta_v1 ''TableRow''))))])
    [meta_v1 ''ListMeta'', meta_v1 ''TableColumnDefinition'', meta_v1 ''TableRow'']"

definition schema_meta_v1_TableColumnDefinition :: "(string \<Rightarrow> string) \<Rightarrow> openapi_def" where
  "schema_meta_v1_TableColumnDefinition ref = openapi_definition
    (object_of [''name'', ''type'', ''format'', ''description'', ''priority''] [
        (''name'', a_string_default),
        (''type'', a_string_default),
        (''format'', a_string_default),
        (''description'', a_string_default),
        (''priority'', with_default (JInt 0) (with_format ''int32'' (typed ''integer'')))])
    []"

definition schema_meta_v1_TableOptions :: "(string \<Rightarrow> string) \<Rightarrow> openapi_def" where
  "schema_meta_v1_TableOptions ref = openapi_definition
    (object_of [] [
        (''kind'', a_string),
        (''apiVersion'', a_string),
        (''includeObject'', a_string)])
    []"

definition schema_meta_v1_TableRow :: "(string \<Rightarrow> string) \<Rightarrow> openapi_def" where
  "schema_meta_v1_TableRow ref = openapi_definition
    (object_of [''cells''] [
        (''cells'', with_ext [list_type ''atomic''] (array_of (typed ''object''))),
        (''conditions'',
            with_ext [list_type ''atomic''] (array_of (refer_default ref (meta_v1 ''TableRowCondition'')))),
        (''object'', refer ref (api_runtime ''RawExtension''))])
    [meta_v1 ''TableRowCondition'', api_runtime ''RawExtension'']"

definition schema_meta_v1_TableRowCondition :: "(string \<Rightarrow> string) \<Rightarrow> openapi_def" where
  "schema_meta_v1_TableRowCondition ref = openapi_definition
    (object_of [''type'', ''status''] [
        (''type'', a_string_default),
        (''status'', a_string_default),
        (''reason'', a_string),
        (''message'', a_string)])
    []"

definition schema_meta_v1_Time :: "(string \<Rightarrow> string) \<Rightarrow> openapi_def" where
  "schema_meta_v1_Time ref = openapi_definition
    (with_format ''date-time'' a_string)
    []"

definition schema_meta_v1_Timestamp :: "(string \<Rightarrow> string) \<Rightarrow> openapi_def" where
  "schema_meta_v1_Timestamp ref = openapi_definition
    (object_of [''seconds'', ''nanos''] [
        (''seconds'', with_default (JInt 0) (with_format ''int64'' (typed ''integer''))),
        (''nanos'', with_default (JInt 0) (with_format ''int32'' (typed ''integer'')))])
    []"

definition schema_meta_v1_TypeMeta :: "(string \<Rightarrow> string) \<Rightarrow> openapi_def" where
  "schema_meta_v1_TypeMeta ref = openapi_definition
    (object_of [] [
        (''kind'', a_string),
        (''apiVersion'', a_string)])
    []"

definition schema_meta_v1_UpdateOptions :: "(string \<Rightarrow> string) \<Rightarrow> openapi_def" where
  "schema_meta_v1_UpdateOptions ref = openapi_definition
    (object_of [] [
        (''kind'', a_string),
        (''apiVersion'', a_string),
        (''dryRun'', with_ext [list_type ''atomic''] (array_of a_string_default)),
        (''fieldManager'', a_string),
        (''fieldValidation'', a_string)])
    []"

definition schema_meta_v1_WatchEvent :: "(string \<Rightarrow> string) \<Rightarrow> openapi_def" where
  "schema_meta_v1_WatchEvent ref = openapi_definition
    (object_of [''type'', ''object''] [
        (''type'', a_string_default),
        (''object'', refer ref (api_runtime ''RawExtension''))])
    [api_runtime ''RawExtension'']"

definition meta_definitions :: "(string \<Rightarrow> string) \<Rightarrow> (string \<times> openapi_def) list" where
  "meta_definitions ref =
     [(meta_v1 ''APIGroup'', schema_meta_v1_APIGroup ref),
      (meta_v1 ''APIGroupList'', schema_meta_v1_APIGroupList ref),
      (meta_v1 ''APIResource'', schema_meta_v1_APIResource ref),
      (meta_v1 ''APIResourceList'', schema_meta_v1_APIResourceList ref),
      (meta_v1 ''APIVersions'', schema_meta_v1_APIVersions ref),
      (meta_v1 ''ApplyOptions'', schema_meta_v1_ApplyOptions ref),
      (meta_v1 ''Condition'', schema_meta_v1_Condition ref),
      (meta_v1 ''CreateOptions'', schema_meta_v1_CreateOptions ref),
      (meta_v1 ''DeleteOptions'', schema_meta_v1_DeleteOptions ref),
      (meta_v1 ''Duration'', schema_meta_v1_Duration ref),
      (meta_v1 ''FieldsV1'', schema_meta_v1_FieldsV1 ref),
      (meta_v1 ''GetOptions'', schema_meta_v1_GetOptions ref),
      (meta_v1 ''GroupKind'', schema_meta_v1_GroupKind ref),
      (meta_v1 ''GroupResource'', schema_meta_v1_GroupResource ref),
      (meta_v1 ''GroupVersion'', schema_meta_v1_GroupVersion ref),
      (meta_v1 ''GroupVersionForDiscovery'', schema_meta_v1_GroupVersionForDiscovery ref),
      (meta_v1 ''GroupVersionKind'', schema_meta_v1_GroupVersionKind ref),
      (meta_v1 ''GroupVersionResource'', schema_meta_v1_GroupVersionResource ref),
      (meta_v1 ''InternalEvent'', schema_meta_v1_InternalEvent ref),
      (meta_v1 ''LabelSelector'', schema_meta_v1_LabelSelector ref),
      (meta_v1 ''LabelSelectorRequirement'', schema_meta_v1_LabelSelectorRequirement ref),
      (meta_v1 ''List'', schema_meta_v1_List ref),
      (meta_v1 ''ListMeta'', schema_meta_v1_ListMeta ref),
      (meta_v1 ''ListOptions'', schema_meta_v1_ListOptions ref),
      (meta_v1 ''ManagedFieldsEntry'', schema_meta_v1_ManagedFieldsEntry ref),
      (meta_v1 ''MicroTime'', schema_meta_v1_MicroTime ref),
      (meta_v1 ''ObjectMeta'', schema_meta_v1_ObjectMeta ref),
      (meta_v1 ''OwnerReference'', schema_meta_v1_OwnerReference ref),
      (meta_v1 ''PartialObjectMetadata'', schema_meta_v1_PartialObjectMetadata ref),
      (meta_v1 ''PartialObjectMetadataList'', schema_meta_v1_PartialObjectMetadataList ref),
      (meta_v1 ''Patch'', schema_meta_v1_Patch ref),
      (meta_v1 ''PatchOptions'', schema_meta_v1_PatchOptions ref),
      (meta_v1 ''Preconditions'', schema_meta_v1_Preconditions ref),
      (meta_v1 ''RootPaths'', schema_meta_v1_RootPaths ref),
      (meta_v1 ''ServerAddressByClientCIDR'', schema_meta_v1_ServerAddressByClientCIDR ref),
      (meta_v1 ''Status'', schema_meta_v1_Status ref),
      (meta_v1 ''StatusCause'', schema_meta_v1_StatusCause ref),
      (meta_v1 ''StatusDetails'', schema_meta_v1_StatusDetails ref),
      (meta_v1 ''Table'', schema_meta_v1_Table ref),
      (meta_v1 ''TableColumnDefinition'', schema_meta_v1_TableColumnDefinition ref),
      (meta_v1 ''TableOptions'', schema_meta_v1_TableOptions ref),
      (meta_v1 ''TableRow'', schema_meta_v1_TableRow ref),
      (meta_v1 ''TableRowCondition'', schema_meta_v1_TableRowCondition ref),
      (meta_v1 ''Time'', schema_meta_v1_Time ref),
      (meta_v1 ''Timestamp'', schema_meta_v1_Timestamp ref),
      (meta_v1 ''TypeMeta'', schema_meta_v1_TypeMeta ref),
      (meta_v1 ''UpdateOptions'', schema_meta_v1_UpdateOptions ref),
      (meta_v1 ''WatchEvent'', schema_meta_v1_WatchEvent ref)]"

definition schema_api_runtime_RawExtension :: "(string \<Rightarrow> string) \<Rightarrow> openapi_def" where
  "schema_api_runtime_RawExtension ref = openapi_definition
    (typed ''object'')
    []"

definition schema_api_runtime_TypeMeta :: "(string \<Rightarrow> string) \<Rightarrow> openapi_def" where
  "schema_api_runtime_TypeMeta ref = openapi_definition
    (object_of [] [
        (''apiVersion'', a_string),
        (''kind'', a_string)])
    []"

definition schema_api_runtime_Unknown :: "(string \<Rightarrow> string) \<Rightarrow> openapi_def" where
  "schema_api_runtime_Unknown ref = openapi_definition
    (object_of [''ContentEncoding'', ''ContentType''] [
        (''apiVersion'', a_string),
        (''kind'', a_string),
        (''ContentEncoding'', a_string_default),
        (''ContentType'', a_string_default)])
    []"

definition runtime_definitions :: "(string \<Rightarrow> string) \<Rightarrow> (string \<times> openapi_def) list" where
  "runtime_definitions ref =
     [(api_runtime ''RawExtension'', schema_api_runtime_RawExtension ref),
      (api_runtime ''TypeMeta'', schema_api_runtime_TypeMeta ref),
      (api_runtime ''Unknown'', schema_api_runtime_Unknown ref)]"

definition schema_util_intstr_IntOrString :: "(string \<Rightarrow> string) \<Rightarrow> openapi_def" where
  "schema_util_intstr_IntOrString ref = EmbedOpenAPIDefinitionIntoV2Extension
    (openapi_definition (with_format ''int-or-string'' (one_of [''integer'', ''string''])) [])
    (openapi_definition (with_format ''int-or-string'' a_string) [])"

definition intstr_definitions :: "(string \<Rightarrow> string) \<Rightarrow> (string \<times> openapi_def) list" where
  "intstr_definitions ref =
     [(util_intstr ''IntOrString'', schema_util_intstr_IntOrString ref)]"

definition schema_api_version_Info :: "(string \<Rightarrow> string) \<Rightarrow> openapi_def" where
  "schema_api_version_Info ref = openapi_definition
    (object_of [''major'', ''minor'', ''gitVersion'', ''gitCommit'', ''gitTreeState'', ''buildDate'',
        ''goVersion'', ''compiler'', ''platform''] [
        (''major'', a_string_default),
        (''minor'', a_string_default),
        (''gitVersion'', a_string_default),
        (''gitCommit'', a_string_default),
        (''gitTreeState'', a_string_default),
        (''buildDate'', a_string_default),
        (''goVersion'', a_string_default),
        (''compiler'', a_string_default),
        (''platform'', a_string_default)])
    []"

definition version_definitions :: "(string \<Rightarrow> string) \<Rightarrow> (string \<times> openapi_def) list" where
  "version_definitions ref =
     [(api_version ''Info'', schema_api_version_Info ref)]"

lemmas resource_schemas =
  schema_api_resource_Quantity_def schema_api_resource_int64Amount_def

lemma resource_ok: "list_all (\<lambda>p. def_ok (snd p)) (resource_definitions id)"
  by (simp only: resource_definitions_def list.pred_inject snd_conv simp_thms, (intro conjI)?,
      (simp_all only: resource_schemas shape_checks)?, (simp_all only: name_checks cong: if_weak_cong)?,
      (simp_all only: name_checks packages append.simps cong: if_weak_cong)?)

lemmas meta_schemas =
  schema_meta_v1_APIGroup_def schema_meta_v1_APIGroupList_def schema_meta_v1_APIResource_def
  schema_meta_v1_APIResourceList_def schema_meta_v1_APIVersions_def schema_meta_v1_ApplyOptions_def
  schema_meta_v1_Condition_def schema_meta_v1_CreateOptions_def schema_meta_v1_DeleteOptions_def
  schema_meta_v1_Duration_def schema_meta_v1_FieldsV1_def schema_meta_v1_GetOptions_def
  schema_meta_v1_GroupKind_def schema_meta_v1_GroupResource_def schema_meta_v1_GroupVersion_def
  schema_meta_v1_GroupVersionForDiscovery_def schema_meta_v1_GroupVersionKind_def
  schema_meta_v1_GroupVersionResource_def schema_meta_v1_InternalEvent_def schema_meta_v1_LabelSelector_def
  schema_meta_v1_LabelSelectorRequirement_def schema_meta_v1_List_def schema_meta_v1_ListMeta_def
  schema_meta_v1_ListOptions_def schema_meta_v1_ManagedFieldsEntry_def schema_meta_v1_MicroTime_def
  schema_meta_v1_ObjectMeta_def schema_meta_v1_OwnerReference_def schema_meta_v1_PartialObjectMetadata_def
  schema_meta_v1_PartialObjectMetadataList_def schema_meta_v1_Patch_def schema_meta_v1_PatchOptions_def
  schema_meta_v1_Preconditions_def schema_meta_v1_RootPaths_def schema_meta_v1_ServerAddressByClientCIDR_def
  schema_meta_v1_Status_def schema_meta_v1_StatusCause_def schema_meta_v1_StatusDetails_def
  schema_meta_v1_Table_def schema_meta_v1_TableColumnDefinition_def schema_meta_v1_TableOptions_def
  schema_meta_v1_TableRow_def schema_meta_v1_TableRowCondition_def schema_meta_v1_Time_def
  schema_meta_v1_Timestamp_def schema_meta_v1_TypeMeta_def schema_meta_v1_UpdateOptions_def
  schema_meta_v1_WatchEvent_def

lemma meta_ok: "list_all (\<lambda>p. def_ok (snd p)) (meta_definitions id)"
  by (simp only: meta_definitions_def list.pred_inject snd_conv simp_thms, (intro conjI)?,
      (simp_all only: meta_schemas shape_checks)?, (simp_all only: name_checks cong: if_weak_cong)?,
      (simp_all only: name_checks packages append.simps cong: if_weak_cong)?)

lemmas runtime_schemas =
  schema_api_runtime_RawExtension_def schema_api_runtime_TypeMeta_def schema_api_runtime_Unknown_def

lemma runtime_ok: "list_all (\<lambda>p. def_ok (snd p)) (runtime_definitions id)"
  by (simp only: runtime_definitions_def list.pred_inject snd_conv simp_thms, (intro conjI)?,
      (simp_all only: runtime_schemas shape_checks)?, (simp_all only: name_checks cong: if_weak_cong)?,
      (simp_all only: name_checks packages append.simps cong: if_weak_cong)?)

lemmas intstr_schemas =
  schema_util_intstr_IntOrString_def

lemma intstr_ok: "list_all (\<lambda>p. def_ok (snd p)) (intstr_definitions id)"
  by (simp only: intstr_definitions_def list.pred_inject snd_conv simp_thms, (intro conjI)?,
      (simp_all only: intstr_schemas shape_checks)?, (simp_all only: name_checks cong: if_weak_cong)?,
      (simp_all only: name_checks packages append.simps cong: if_weak_cong)?)

lemmas version_schemas =
  schema_api_version_Info_def

lemma version_ok: "list_all (\<lambda>p. def_ok (snd p)) (version_definitions id)"
  by (simp only: version_definitions_def list.pred_inject snd_conv simp_thms, (intro conjI)?,
      (simp_all only: version_schemas shape_checks)?, (simp_all only: name_checks cong: if_weak_cong)?,
      (simp_all only: name_checks packages append.simps cong: if_weak_cong)?)

end
