(* ===== verification/OpenApiKmodules.thy ===== *)
theory OpenApiKmodules
  imports OpenApiSchema
begin

text \<open>
  The generated OpenAPI definitions of the shared kinds of kmodules.xyz (\<open>openapi_generated.go\<close>), one per schema
  function, and the entries of the registry that name them.
\<close>

definition schema_kmapi_CAPIClusterInfo :: "(string \<Rightarrow> string) \<Rightarrow> openapi_def" where
  "schema_kmapi_CAPIClusterInfo ref = openapi_definition
    (object_of [] [
        (''provider'', a_string),
        (''namespace'', a_string),
        (''clusterName'', a_string)])
    []"

definition schema_kmapi_CertificatePrivateKey :: "(string \<Rightarrow> string) \<Rightarrow> openapi_def" where
  "schema_kmapi_CertificatePrivateKey ref = openapi_definition
    (object_of [] [
        (''encoding'', a_string)])
    []"

definition schema_kmapi_CertificateSpec :: "(string \<Rightarrow> string) \<Rightarrow> openapi_def" where
  "schema_kmapi_CertificateSpec ref = openapi_definition
    (object_of [''alias''] [
        (''alias'', a_string_default),
        (''issuerRef'', refer ref (core_v1 ''TypedLocalObjectReference'')),
        (''secretName'', a_string),
        (''subject'', refer ref (kmapi_v1 ''X509Subject'')),
        (''duration'', refer ref (meta_v1 ''Duration'')),
        (''renewBefore'', refer ref (meta_v1 ''Duration'')),
        (''dnsNames'', array_of a_string_default),
        (''ipAddresses'', array_of a_string_default),
        (''uris'', array_of a_string_default),
        (''emailAddresses'', array_of a_string_default),
        (''privateKey'', refer ref (kmapi_v1 ''CertificatePrivateKey''))])
    [core_v1 ''TypedLocalObjectReference'', meta_v1 ''Duration'', kmapi_v1 ''CertificatePrivateKey'',
        kmapi_v1 ''X509Subject'']"

definition schema_kmapi_ClusterInfo :: "(string \<Rightarrow> string) \<Rightarrow> openapi_def" where
  "schema_kmapi_ClusterInfo ref = openapi_definition
    (object_of [''uid'', ''name'', ''clusterManagers''] [
        (''uid'', a_string_default),
        (''name'', a_string_default),
        (''clusterManagers'', array_of a_string_default),
        (''capi'', refer_default ref (kmapi_v1 ''CAPIClusterInfo''))])
    [kmapi_v1 ''CAPIClusterInfo'']"

definition schema_kmapi_ClusterMetadata :: "(string \<Rightarrow> string) \<Rightarrow> openapi_def" where
  "schema_kmapi_ClusterMetadata ref = openapi_definition
    (object_of [''uid''] [
        (''uid'', a_string_default),
        (''name'', a_string),
        (''displayName'', a_string),
        (''provider'', a_string),
        (''ownerID'', a_string),
        (''ownerType'', a_string),
        (''apiEndpoint'', a_string),
        (''caBundle'', a_string)])
    []"

definition schema_kmapi_Condition :: "(string \<Rightarrow> string) \<Rightarrow> openapi_def" where
  "schema_kmapi_Condition ref = openapi_definition
    (object_of [''type'', ''status'', ''lastTransitionTime''] [
        (''type'', a_string_default),
        (''status'', a_string_default),
        (''observedGeneration'', with_format ''int64'' (typed ''integer'')),
        (''severity'', a_string),
        (''lastTransitionTime'', refer ref (meta_v1 ''Time'')),
        (''reason'', a_string),
        (''message'', a_string)])
    [meta_v1 ''Time'']"

definition schema_kmapi_HealthCheckSpec :: "(string \<Rightarrow> string) \<Rightarrow> openapi_def" where
  "schema_kmapi_HealthCheckSpec ref = openapi_definition
    (object_of [] [
        (''periodSeconds'', with_format ''int32'' (typed ''integer'')),
        (''timeoutSeconds'', with_format ''int32'' (typed ''integer'')),
        (''failureThreshold'', with_format ''int32'' (typed ''integer'')),
        (''disableWriteCheck'', typed ''boolean'')])
    []"

definition schema_kmapi_ImageInfo :: "(string \<Rightarrow> string) \<Rightarrow> openapi_def" where
  "schema_kmapi_ImageInfo ref = openapi_definition
    (object_of [''image''] [
        (''image'', a_string_default),
        (''lineages'', array_of (refer_default ref (kmapi_v1 ''Lineage''))),
        (''pullCredentials'', refer ref (kmapi_v1 ''PullCredentials''))])
    [kmapi_v1 ''Lineage'', kmapi_v1 ''PullCredentials'']"

definition schema_kmapi_Lineage :: "(string \<Rightarrow> string) \<Rightarrow> openapi_def" where
  "schema_kmapi_Lineage ref = openapi_definition
    (object_of [] [
        (''chain'', array_of (refer_default ref (kmapi_v1 ''ObjectInfo''))),
        (''containers'', array_of a_string_default)])
    [kmapi_v1 ''ObjectInfo'']"

definition schema_kmapi_ObjectID :: "(string \<Rightarrow> string) \<Rightarrow> openapi_def" where
  "schema_kmapi_ObjectID ref = openapi_definition
    (object_of [] [
        (''group'', a_string),
        (''kind'', a_string),
        (''namespace'', a_string),
        (''name'', a_string)])
    []"

definition schema_kmapi_ObjectInfo :: "(string \<Rightarrow> string) \<Rightarrow> openapi_def" where
  "schema_kmapi_ObjectInfo ref = openapi_definition
    (object_of [''resource'', ''ref''] [
        (''resource'', refer_default ref (kmapi_v1 ''ResourceID'')),
        (''ref'', refer_default ref (kmapi_v1 ''ObjectReference''))])
    [kmapi_v1 ''ObjectReference'', kmapi_v1 ''ResourceID'']"

definition schema_kmapi_ObjectReference :: "(string \<Rightarrow> string) \<Rightarrow> openapi_def" where
  "schema_kmapi_ObjectReference ref = openapi_definition
    (object_of [''name''] [
        (''namespace'', a_string),
        (''name'', a_string_default)])
    []"

definition schema_kmapi_PullCredentials :: "(string \<Rightarrow> string) \<Rightarrow> openapi_def" where
  "schema_kmapi_PullCredentials ref = openapi_definition
    (object_of [''namespace''] [
        (''namespace'', a_string_default),
        (''serviceAccountName'', a_string),
        (''secretRefs'', array_of (refer_default ref (core_v1 ''LocalObjectReference'')))])
    [core_v1 ''LocalObjectReference'']"

definition schema_kmapi_ReadonlyHealthCheckSpec :: "(string \<Rightarrow> string) \<Rightarrow> openapi_def" where
  "schema_kmapi_ReadonlyHealthCheckSpec ref = openapi_definition
    (object_of [] [
        (''periodSeconds'', with_format ''int32'' (typed ''integer'')),
        (''timeoutSeconds'', with_format ''int32'' (typed ''integer'')),
        (''failureThreshold'', with_format ''int32'' (typed ''integer''))])
    []"

definition schema_kmapi_ResourceID :: "(string \<Rightarrow> string) \<Rightarrow> openapi_def" where
  "schema_kmapi_ResourceID ref = openapi_definition
    (object_of [''group''] [
        (''group'', a_string_default),
        (''version'', a_string),
        (''name'', a_string),
        (''kind'', a_string),
        (''scope'', a_string)])
    []"

definition schema_kmapi_TLSConfig :: "(string \<Rightarrow> string) \<Rightarrow> openapi_def" where
  "schema_kmapi_TLSConfig ref = openapi_definition
    (object_of [] [
        (''issuerRef'', refer ref (core_v1 ''TypedLocalObjectReference'')),
        (''certificates'', array_of (refer_default ref (kmapi_v1 ''CertificateSpec'')))])
    [core_v1 ''TypedLocalObjectReference'', kmapi_v1 ''CertificateSpec'']"

definition schema_kmapi_TimeOfDay :: "(string \<Rightarrow> string) \<Rightarrow> openapi_def" where
  "schema_kmapi_TimeOfDay ref = openapi_definition
    (with_format ''time'' a_string)
    []"

definition schema_kmapi_TypedObjectReference :: "(string \<Rightarrow> string) \<Rightarrow> openapi_def" where
  "schema_kmapi_TypedObjectReference ref = openapi_definition
    (object_of [''name''] [
        (''apiGroup'', a_string),
        (''kind'', a_string),
        (''namespace'', a_string),
        (''name'', a_string_default)])
    []"

definition schema_kmapi_X509Subject :: "(string \<Rightarrow> string) \<Rightarrow> openapi_def" where
  "schema_kmapi_X509Subject ref = openapi_definition
    (object_of [] [
        (''organizations'', array_of a_string_default),
        (''countries'', array_of a_string_default),
        (''organizationalUnits'', array_of a_string_default),
        (''localities'', array_of a_string_default),
        (''provinces'', array_of a_string_default),
        (''streetAddresses'', array_of a_string_default),
        (''postalCodes'', array_of a_string_default),
        (''serialNumber'', a_string)])
    []"

definition schema_kmapi_stringSetMerger :: "(string \<Rightarrow> string) \<Rightarrow> openapi_def" where
  "schema_kmapi_stringSetMerger ref = openapi_definition
    (typed ''object'')
    []"

definition kmapi_definitions :: "(string \<Rightarrow> string) \<Rightarrow> (string \<times> openapi_def) list" where
  "kmapi_definitions ref =
     [(kmapi_v1 ''CAPIClusterInfo'', schema_kmapi_CAPIClusterInfo ref),
      (kmapi_v1 ''CertificatePrivateKey'', schema_kmapi_CertificatePrivateKey ref),
      (kmapi_v1 ''CertificateSpec'', schema_kmapi_CertificateSpec ref),
      (kmapi_v1 ''ClusterInfo'', schema_kmapi_ClusterInfo ref),
      (kmapi_v1 ''ClusterMetadata'', schema_kmapi_ClusterMetadata ref),
      (kmapi_v1 ''Condition'', schema_kmapi_Condition ref),
      (kmapi_v1 ''HealthCheckSpec'', schema_kmapi_HealthCheckSpec ref),
      (kmapi_v1 ''ImageInfo'', schema_kmapi_ImageInfo ref),
      (kmapi_v1 ''Lineage'', schema_kmapi_Lineage ref),
      (kmapi_v1 ''ObjectID'', schema_kmapi_ObjectID ref),
      (kmapi_v1 ''ObjectInfo'', schema_kmapi_ObjectInfo ref),
      (kmapi_v1 ''ObjectReference'', schema_kmapi_ObjectReference ref),
      (kmapi_v1 ''PullCredentials'', schema_kmapi_PullCredentials ref),
      (kmapi_v1 ''ReadonlyHealthCheckSpec'', schema_kmapi_ReadonlyHealthCheckSpec ref),
      (kmapi_v1 ''ResourceID'', schema_kmapi_ResourceID ref),
      (kmapi_v1 ''TLSConfig'', schema_kmapi_TLSConfig ref),
      (kmapi_v1 ''TimeOfDay'', schema_kmapi_TimeOfDay ref),
      (kmapi_v1 ''TypedObjectReference'', schema_kmapi_TypedObjectReference ref),
      (kmapi_v1 ''X509Subject'', schema_kmapi_X509Subject ref),
      (kmapi_v1 ''stringSetMerger'', schema_kmapi_stringSetMerger ref)]"

definition schema_offshoot_ContainerRuntimeSettings :: "(string \<Rightarrow> string) \<Rightarrow> openapi_def" where
  "schema_offshoot_ContainerRuntimeSettings ref = openapi_definition
    (object_of [] [
        (''resources'', refer_default ref (core_v1 ''ResourceRequirements'')),
        (''livenessProbe'', refer ref (core_v1 ''Probe'')),
        (''readinessProbe'', refer ref (core_v1 ''Probe'')),
        (''lifecycle'', refer ref (core_v1 ''Lifecycle'')),
        (''securityContext'', refer ref (core_v1 ''SecurityContext'')),
        (''nice'', refer ref (offshoot_v1 ''NiceSettings'')),
        (''ionice'', refer ref (offshoot_v1 ''IONiceSettings'')),
        (''envFrom'', array_of (refer_default ref (core_v1 ''EnvFromSource''))),
        (''env'', with_ext [patch_merge_key ''name'',
            patch_strategy ''merge''] (array_of (refer_default ref (core_v1 ''EnvVar''))))])
    [core_v1 ''EnvFromSource'', core_v1 ''EnvVar'', core_v1 ''Lifecycle'', core_v1 ''Probe'',
        core_v1 ''ResourceRequirements'', core_v1 ''SecurityContext'', offshoot_v1 ''IONiceSettings'',
        offshoot_v1 ''NiceSettings'']"

definition schema_offshoot_EphemeralVolumeSource :: "(string \<Rightarrow> string) \<Rightarrow> openapi_def" where
  "schema_offshoot_EphemeralVolumeSource ref = openapi_definition
    (object_of [] [
        (''volumeClaimTemplate'', refer ref (offshoot_v1 ''PersistentVolumeClaimTemplate''))])
    [offshoot_v1 ''PersistentVolumeClaimTemplate'']"

definition schema_offshoot_Gateway :: "(string \<Rightarrow> string) \<Rightarrow> openapi_def" where
  "schema_offshoot_Gateway ref = openapi_definition
    (object_of [''name'', ''namespace''] [
        (''name'', a_string_default),
        (''namespace'', a_string_default),
        (''ip'', a_string),
        (''hostname'', a_string),
        (''services'', array_of (refer_default ref (offshoot_v1 ''NamedServiceStatus''))),
        (''ui'', array_of (refer_default ref (offshoot_v1 ''NamedURL'')))])
    [offshoot_v1 ''NamedServiceStatus'', offshoot_v1 ''NamedURL'']"

definition schema_offshoot_GatewayPort :: "(string \<Rightarrow> string) \<Rightarrow> openapi_def" where
  "schema_offshoot_GatewayPort ref = openapi_definition
    (object_of [''port''] [
        (''name'', a_string),
        (''port'', with_default (JInt 0) (with_format ''int32'' (typed ''integer''))),
        (''backendServicePort'', with_format ''int32'' (typed ''integer'')),
        (''nodePort'', with_format ''int32'' (typed ''integer''))])
    []"

definition schema_offshoot_IONiceSettings :: "(string \<Rightarrow> string) \<Rightarrow> openapi_def" where
  "schema_offshoot_IONiceSettings ref = openapi_definition
    (object_of [] [
        (''class'', with_format ''int32'' (typed ''integer'')),
        (''classData'', with_format ''int32'' (typed ''integer''))])
    []"

definition schema_offshoot_NamedServiceStatus :: "(string \<Rightarrow> string) \<Rightarrow> openapi_def" where
  "schema_offshoot_NamedServiceStatus ref = openapi_definition
    (object_of [''alias'', ''ports''] [
        (''alias'', a_string_default),
        (''ports'', array_of (refer_default ref (offshoot_v1 ''GatewayPort'')))])
    [offshoot_v1 ''GatewayPort'']"

definition schema_offshoot_NamedURL :: "(string \<Rightarrow> string) \<Rightarrow> openapi_def" where
  "schema_offshoot_NamedURL ref = openapi_definition
    (object_of [''alias'', ''url'', ''port''] [
        (''alias'', a_string_default),
        (''url'', a_string_default),
        (''port'', refer_default ref (offshoot_v1 ''GatewayPort'')),
        (''helmRelease'', refer ref (core_v1 ''LocalObjectReference''))])
    [core_v1 ''LocalObjectReference'', offshoot_v1 ''GatewayPort'']"

definition schema_offshoot_NiceSettings :: "(string \<Rightarrow> string) \<Rightarrow> openapi_def" where
  "schema_offshoot_NiceSettings ref = openapi_definition
    (object_of [] [
        (''adjustment'', with_format ''int32'' (typed ''integer''))])
    []"

definition schema_offshoot_ObjectMeta :: "(string \<Rightarrow> string) \<Rightarrow> openapi_def" where
  "schema_offshoot_ObjectMeta ref = openapi_definition
    (object_of [] [
        (''labels'', map_of_schema a_string_default),
        (''annotations'', map_of_schema a_string_default)])
    []"

definition schema_offshoot_PartialObjectMeta :: "(string \<Rightarrow> string) \<Rightarrow> openapi_def" where
  "schema_offshoot_PartialObjectMeta ref = openapi_definition
    (object_of [] [
        (''name'', a_string),
        (''generateName'', a_string),
        (''namespace'', a_string),
        (''labels'', map_of_schema a_string_default),
        (''annotations'', map_of_schema a_string_default),
        (''ownerReferences'', with_ext [patch_merge_key ''uid'',
            patch_strategy ''merge''] (array_of (refer_default ref (meta_v1 ''OwnerReference''))))])
    [meta_v1 ''OwnerReference'']"

definition schema_offshoot_PersistentVolumeClaim :: "(string \<Rightarrow> string) \<Rightarrow> openapi_def" where
  "schema_offshoot_PersistentVolumeClaim ref = openapi_definition
    (object_of [] [
        (''kind'', a_string),
        (''apiVersion'', a_string),
        (''metadata'', refer_default ref (offshoot_v1 ''PartialObjectMeta'')),
        (''spec'', refer_default ref (core_v1 ''PersistentVolumeClaimSpec'')),
        (''status'', refer_default ref (core_v1 ''PersistentVolumeClaimStatus''))])
    [core_v1 ''PersistentVolumeClaimSpec'', core_v1 ''PersistentVolumeClaimStatus'',
        offshoot_v1 ''PartialObjectMeta'']"

definition schema_offshoot_PersistentVolumeClaimTemplate :: "(string \<Rightarrow> string) \<Rightarrow> openapi_def" where
  "schema_offshoot_PersistentVolumeClaimTemplate ref = openapi_definition
    (object_of [''spec''] [
        (''metadata'', refer_default ref (offshoot_v1 ''PartialObjectMeta'')),
        (''spec'', refer_default ref (core_v1 ''PersistentVolumeClaimSpec''))])
    [core_v1 ''PersistentVolumeClaimSpec'', offshoot_v1 ''PartialObjectMeta'']"

definition schema_offshoot_PodRuntimeSettings :: "(string \<Rightarrow> string) \<Rightarrow> openapi_def" where
  "schema_offshoot_PodRuntimeSettings ref = openapi_definition
    (object_of [] [
        (''podLabels'', map_of_schema a_string_default),
        (''podAnnotations'', map_of_schema a_string_default),
        (''nodeSelector'', map_of_schema a_string_default),
        (''serviceAccountName'', a_string),
        (''serviceAccountAnnotations'', map_of_schema a_string_default),
        (''automountServiceAccountToken'', typed ''boolean''),
        (''nodeName'', a_string),
        (''securityContext'', refer ref (core_v1 ''PodSecurityContext'')),
        (''imagePullSecrets'', array_of (refer_default ref (core_v1 ''LocalObjectReference''))),
        (''affinity'', refer ref (core_v1 ''Affinity'')),
        (''schedulerName'', a_string),
        (''tolerations'', array_of (refer_default ref (core_v1 ''Toleration''))),
        (''priorityClassName'', a_string),
        (''priority'', with_format ''int32'' (typed ''integer'')),
        (''readinessGates'', array_of (refer_default ref (core_v1 ''PodReadinessGate''))),
        (''runtimeClassName'', a_string),
        (''enableServiceLinks'', typed ''boolean''),
        (''topologySpreadConstraints'', with_ext [list_map_keys [''topologyKey'', ''whenUnsatisfiable''],
            list_type ''map'', patch_merge_key ''topologyKey'',
            patch_strategy ''merge''] (array_of (refer_default ref (core_v1 ''TopologySpreadConstraint''))))])
    [core_v1 ''Affinity'', core_v1 ''LocalObjectReference'', core_v1 ''PodReadinessGate'',
        core_v1 ''PodSecurityContext'', core_v1 ''Toleration'', core_v1 ''TopologySpreadConstraint'']"

definition schema_offshoot_PodSpec :: "(string \<Rightarrow> string) \<Rightarrow> openapi_def" where
  "schema_offshoot_PodSpec ref = openapi_definition
    (object_of [] [
        (''volumes'', with_ext [patch_merge_key ''name'',
            patch_strategy ''merge,retainKeys''] (array_of (refer_default ref (offshoot_v1 ''Volume'')))),
        (''initContainers'', with_ext [patch_merge_key ''name'',
            patch_strategy ''merge''] (array_of (refer_default ref (core_v1 ''Container'')))),
        (''terminationGracePeriodSeconds'', with_format ''int64'' (typed ''integer'')),
        (''dnsPolicy'', with_enum [''ClusterFirst'', ''ClusterFirstWithHostNet'', ''Default'', ''None''] a_string),
        (''nodeSelector'', with_ext [map_type ''atomic''] (map_of_schema a_string_default)),
        (''serviceAccountName'', a_string),
        (''hostNetwork'', typed ''boolean''),
        (''hostPID'', typed ''boolean''),
        (''hostIPC'', typed ''boolean''),
        (''shareProcessNamespace'', typed ''boolean''),
        (''securityContext'', refer ref (core_v1 ''PodSecurityContext'')),
        (''imagePullSecrets'', with_ext [patch_merge_key ''name'',
            patch_strategy ''merge''] (array_of (refer_default ref (core_v1 ''LocalObjectReference'')))),
        (''affinity'', refer ref (core_v1 ''Affinity'')),
        (''schedulerName'', a_string),
        (''tolerations'', array_of (refer_default ref (core_v1 ''Toleration''))),
        (''priorityClassName'', a_string),
        (''priority'', with_format ''int32'' (typed ''integer'')),
        (''dnsConfig'', refer ref (core_v1 ''PodDNSConfig'')),
        (''runtimeClassName'', a_string),
        (''enableServiceLinks'', typed ''boolean''),
        (''topologySpreadConstraints'', with_ext [list_map_keys [''topologyKey'', ''whenUnsatisfiable''],
            list_type ''map'', patch_merge_key ''topologyKey'',
            patch_strategy ''merge''] (array_of (refer_default ref (core_v1 ''TopologySpreadConstraint'')))),
        (''args'', array_of a_string_default),
        (''env'', array_of (refer_default ref (core_v1 ''EnvVar''))),
        (''resources'', refer_default ref (core_v1 ''ResourceRequirements'')),
        (''livenessProbe'', refer ref (core_v1 ''Probe'')),
        (''readinessProbe'', refer ref (core_v1 ''Probe'')),
        (''lifecycle'', refer ref (core_v1 ''Lifecycle'')),
        (''containerSecurityContext'', refer ref (core_v1 ''SecurityContext'')),
        (''volumeMounts'', with_ext [patch_merge_key ''mountPath'',
            patch_strategy ''merge''] (array_of (refer_default ref (core_v1 ''VolumeMount'')))),
        (''podPlacementPolicy'', refer ref (core_v1 ''LocalObjectReference''))])
    [core_v1 ''Affinity'', core_v1 ''Container'', core_v1 ''EnvVar'', core_v1 ''Lifecycle'',
        core_v1 ''LocalObjectReference'', core_v1 ''PodDNSConfig'', core_v1 ''PodSecurityContext'',
        core_v1 ''Probe'', core_v1 ''ResourceRequirements'', core_v1 ''SecurityContext'', core_v1 ''Toleration'',
        core_v1 ''TopologySpreadConstraint'', core_v1 ''VolumeMount'', offshoot_v1 ''Volume'']"

definition schema_offshoot_PodTemplateSpec :: "(string \<Rightarrow> string) \<Rightarrow> openapi_def" where
  "schema_offshoot_PodTemplateSpec ref = openapi_definition
    (object_of [] [
        (''metadata'', refer_default ref (offshoot_v1 ''ObjectMeta'')),
        (''controller'', refer_default ref (offshoot_v1 ''ObjectMeta'')),
        (''spec'', refer_default ref (offshoot_v1 ''PodSpec''))])
    [offshoot_v1 ''ObjectMeta'', offshoot_v1 ''PodSpec'']"

definition schema_offshoot_RuntimeSettings :: "(string \<Rightarrow> string) \<Rightarrow> openapi_def" where
  "schema_offshoot_RuntimeSettings ref = openapi_definition
    (object_of [] [
        (''pod'', refer ref (offshoot_v1 ''PodRuntimeSettings'')),
        (''container'', refer ref (offshoot_v1 ''ContainerRuntimeSettings''))])
    [offshoot_v1 ''ContainerRuntimeSettings'', offshoot_v1 ''PodRuntimeSettings'']"

definition schema_offshoot_ServicePort :: "(string \<Rightarrow> string) \<Rightarrow> openapi_def" where
  "schema_offshoot_ServicePort ref = openapi_definition
    (object_of [''port''] [
        (''name'', a_string),
        (''port'', with_default (JInt 0) (with_format ''int32'' (typed ''integer''))),
        (''nodePort'', with_format ''int32'' (typed ''integer''))])
    []"

definition schema_offshoot_ServiceSpec :: "(string \<Rightarrow> string) \<Rightarrow> openapi_def" where
  "schema_offshoot_ServiceSpec ref = openapi_definition
    (object_of [] [
        (''ports'', with_ext [patch_merge_key ''port'',
            patch_strategy ''merge''] (array_of (refer_default ref (offshoot_v1 ''ServicePort'')))),
        (''clusterIP'', a_string),
        (''type'', with_enum [''ClusterIP'', ''ExternalName'', ''LoadBalancer'', ''NodePort''] a_string),
        (''externalIPs'', array_of a_string_default),
        (''loadBalancerIP'', a_string),
        (''loadBalancerSourceRanges'', array_of a_string_default),
        (''externalTrafficPolicy'', with_enum [''Cluster'', ''Cluster'', ''Local'', ''Local''] a_string),
        (''healthCheckNodePort'', with_format ''int32'' (typed ''integer'')),
        (''sessionAffinityConfig'', refer ref (core_v1 ''SessionAffinityConfig''))])
    [core_v1 ''SessionAffinityConfig'', offshoot_v1 ''ServicePort'']"

definition schema_offshoot_ServiceTemplateSpec :: "(string \<Rightarrow> string) \<Rightarrow> openapi_def" where
  "schema_offshoot_ServiceTemplateSpec ref = openapi_definition
    (object_of [] [
        (''metadata'', refer_default ref (offshoot_v1 ''ObjectMeta'')),
        (''spec'', refer_default ref (offshoot_v1 ''ServiceSpec''))])
    [offshoot_v1 ''ObjectMeta'', offshoot_v1 ''ServiceSpec'']"

definition schema_offshoot_Volume :: "(string \<Rightarrow> string) \<Rightarrow> openapi_def" where
  "schema_offshoot_Volume ref = openapi_definition
    (object_of [''name''] [
        (''name'', a_string_default),
        (''hostPath'', refer ref (core_v1 ''HostPathVolumeSource'')),
        (''emptyDir'', refer ref (core_v1 ''EmptyDirVolumeSource'')),
        (''gcePersistentDisk'', refer ref (core_v1 ''GCEPersistentDiskVolumeSource'')),
        (''awsElasticBlockStore'', refer ref (core_v1 ''AWSElasticBlockStoreVolumeSource'')),
        (''secret'', refer ref (core_v1 ''SecretVolumeSource'')),
        (''nfs'', refer ref (core_v1 ''NFSVolumeSource'')),
        (''iscsi'', refer ref (core_v1 ''ISCSIVolumeSource'')),
        (''glusterfs'', refer ref (core_v1 ''GlusterfsVolumeSource'')),
        (''persistentVolumeClaim'', refer ref (core_v1 ''PersistentVolumeClaimVolumeSource'')),
        (''rbd'', refer ref (core_v1 ''RBDVolumeSource'')),
        (''flexVolume'', refer ref (core_v1 ''FlexVolumeSource'')),
        (''cinder'', refer ref (core_v1 ''CinderVolumeSource'')),
        (''cephfs'', refer ref (core_v1 ''CephFSVolumeSource'')),
        (''flocker'', refer ref (core_v1 ''FlockerVolumeSource'')),
        (''downwardAPI'', refer ref (core_v1 ''DownwardAPIVolumeSource'')),
        (''fc'', refer ref (core_v1 ''FCVolumeSource'')),
        (''azureFile'', refer ref (core_v1 ''AzureFileVolumeSource'')),
        (''configMap'', refer ref (core_v1 ''ConfigMapVolumeSource'')),
        (''vsphereVolume'', refer ref (core_v1 ''VsphereVirtualDiskVolumeSource'')),
        (''quobyte'', refer ref (core_v1 ''QuobyteVolumeSource'')),
        (''azureDisk'', refer ref (core_v1 ''AzureDiskVolumeSource'')),
        (''photonPersistentDisk'', refer ref (core_v1 ''PhotonPersistentDiskVolumeSource'')),
        (''projected'', refer ref (core_v1 ''ProjectedVolumeSource'')),
        (''portworxVolume'', refer ref (core_v1 ''PortworxVolumeSource'')),
        (''scaleIO'', refer ref (core_v1 ''ScaleIOVolumeSource'')),
        (''storageos'', refer ref (core_v1 ''StorageOSVolumeSource'')),
        (''csi'', refer ref (core_v1 ''CSIVolumeSource'')),
        (''ephemeral'', refer ref (offshoot_v1 ''EphemeralVolumeSource''))])
    [core_v1 ''AWSElasticBlockStoreVolumeSource'', core_v1 ''AzureDiskVolumeSource'',
        core_v1 ''AzureFileVolumeSource'', core_v1 ''CSIVolumeSource'', core_v1 ''CephFSVolumeSource'',
        core_v1 ''CinderVolumeSource'', core_v1 ''ConfigMapVolumeSource'', core_v1 ''DownwardAPIVolumeSource'',
        core_v1 ''EmptyDirVolumeSource'', core_v1 ''FCVolumeSource'', core_v1 ''FlexVolumeSource'',
        core_v1 ''FlockerVolumeSource'', core_v1 ''GCEPersistentDiskVolumeSource'',
        core_v1 ''GlusterfsVolumeSource'', core_v1 ''HostPathVolumeSource'', core_v1 ''ISCSIVolumeSource'',
        core_v1 ''NFSVolumeSource'', core_v1 ''PersistentVolumeClaimVolumeSource'',
        core_v1 ''PhotonPersistentDiskVolumeSource'', core_v1 ''PortworxVolumeSource'',
        core_v1 ''ProjectedVolumeSource'', core_v1 ''QuobyteVolumeSource'', core_v1 ''RBDVolumeSource'',
        core_v1 ''ScaleIOVolumeSource'', core_v1 ''SecretVolumeSource'', core_v1 ''StorageOSVolumeSource'',
        core_v1 ''VsphereVirtualDiskVolumeSource'', offshoot_v1 ''EphemeralVolumeSource'']"

definition schema_offshoot_VolumeSource :: "(string \<Rightarrow> string) \<Rightarrow> openapi_def" where
  "schema_offshoot_VolumeSource ref = openapi_definition
    (object_of [] [
        (''hostPath'', refer ref (core_v1 ''HostPathVolumeSource'')),
        (''emptyDir'', refer ref (core_v1 ''EmptyDirVolumeSource'')),
        (''gcePersistentDisk'', refer ref (core_v1 ''GCEPersistentDiskVolumeSource'')),
        (''awsElasticBlockStore'', refer ref (core_v1 ''AWSElasticBlockStoreVolumeSource'')),
        (''secret'', refer ref (core_v1 ''SecretVolumeSource'')),
        (''nfs'', refer ref (core_v1 ''NFSVolumeSource'')),
        (''iscsi'', refer ref (core_v1 ''ISCSIVolumeSource'')),
        (''glusterfs'', refer ref (core_v1 ''GlusterfsVolumeSource'')),
        (''persistentVolumeClaim'', refer ref (core_v1 ''PersistentVolumeClaimVolumeSource'')),
        (''rbd'', refer ref (core_v1 ''RBDVolumeSource'')),
        (''flexVolume'', refer ref (core_v1 ''FlexVolumeSource'')),
        (''cinder'', refer ref (core_v1 ''CinderVolumeSource'')),
        (''cephfs'', refer ref (core_v1 ''CephFSVolumeSource'')),
        (''flocker'', refer ref (core_v1 ''FlockerVolumeSource'')),
        (''downwardAPI'', refer ref (core_v1 ''DownwardAPIVolumeSource'')),
        (''fc'', refer ref (core_v1 ''FCVolumeSource'')),
        (''azureFile'', refer ref (core_v1 ''AzureFileVolumeSource'')),
        (''configMap'', refer ref (core_v1 ''ConfigMapVolumeSource'')),
        (''vsphereVolume'', refer ref (core_v1 ''VsphereVirtualDiskVolumeSource'')),
        (''quobyte'', refer ref (core_v1 ''QuobyteVolumeSource'')),
        (''azureDisk'', refer ref (core_v1 ''AzureDiskVolumeSource'')),
        (''photonPersistentDisk'', refer ref (core_v1 ''PhotonPersistentDiskVolumeSource'')),
        (''projected'', refer ref (core_v1 ''ProjectedVolumeSource'')),
        (''portworxVolume'', refer ref (core_v1 ''PortworxVolumeSource'')),
        (''scaleIO'', refer ref (core_v1 ''ScaleIOVolumeSource'')),
        (''storageos'', refer ref (core_v1 ''StorageOSVolumeSource'')),
        (''csi'', refer ref (core_v1 ''CSIVolumeSource'')),
        (''ephemeral'', refer ref (offshoot_v1 ''EphemeralVolumeSource''))])
    [core_v1 ''AWSElasticBlockStoreVolumeSource'', core_v1 ''AzureDiskVolumeSource'',
        core_v1 ''AzureFileVolumeSource'', core_v1 ''CSIVolumeSource'', core_v1 ''CephFSVolumeSource'',
        core_v1 ''CinderVolumeSource'', core_v1 ''ConfigMapVolumeSource'', core_v1 ''DownwardAPIVolumeSource'',
        core_v1 ''EmptyDirVolumeSource'', core_v1 ''FCVolumeSource'', core_v1 ''FlexVolumeSource'',
        core_v1 ''FlockerVolumeSource'', core_v1 ''GCEPersistentDiskVolumeSource'',
        core_v1 ''GlusterfsVolumeSource'', core_v1 ''HostPathVolumeSource'', core_v1 ''ISCSIVolumeSource'',
        core_v1 ''NFSVolumeSource'', core_v1 ''PersistentVolumeClaimVolumeSource'',
        core_v1 ''PhotonPersistentDiskVolumeSource'', core_v1 ''PortworxVolumeSource'',
        core_v1 ''ProjectedVolumeSource'', core_v1 ''QuobyteVolumeSource'', core_v1 ''RBDVolumeSource'',
        core_v1 ''ScaleIOVolumeSource'', core_v1 ''SecretVolumeSource'', core_v1 ''StorageOSVolumeSource'',
        core_v1 ''VsphereVirtualDiskVolumeSource'', offshoot_v1 ''EphemeralVolumeSource'']"

definition offshoot_definitions :: "(string \<Rightarrow> string) \<Rightarrow> (string \<times> openapi_def) list" where
  "offshoot_definitions ref =
     [(offshoot_v1 ''ContainerRuntimeSettings'', schema_offshoot_ContainerRuntimeSettings ref),
      (offshoot_v1 ''EphemeralVolumeSource'', schema_offshoot_EphemeralVolumeSource ref),
      (offshoot_v1 ''Gateway'', schema_offshoot_Gateway ref),
      (offshoot_v1 ''GatewayPort'', schema_offshoot_GatewayPort ref),
      (offshoot_v1 ''IONiceSettings'', schema_offshoot_IONiceSettings ref),
      (offshoot_v1 ''NamedServiceStatus'', schema_offshoot_NamedServiceStatus ref),
      (offshoot_v1 ''NamedURL'', schema_offshoot_NamedURL ref),
      (offshoot_v1 ''NiceSettings'', schema_offshoot_NiceSettings ref),
      (offshoot_v1 ''ObjectMeta'', schema_offshoot_ObjectMeta ref),
      (offshoot_v1 ''PartialObjectMeta'', schema_offshoot_PartialObjectMeta ref),
      (offshoot_v1 ''PersistentVolumeClaim'', schema_offshoot_PersistentVolumeClaim ref),
      (offshoot_v1 ''PersistentVolumeClaimTemplate'', schema_offshoot_PersistentVolumeClaimTemplate ref),
      (offshoot_v1 ''PodRuntimeSettings'', schema_offshoot_PodRuntimeSettings ref),
      (offshoot_v1 ''PodSpec'', schema_offshoot_PodSpec ref),
      (offshoot_v1 ''PodTemplateSpec'', schema_offshoot_PodTemplateSpec ref),
      (offshoot_v1 ''RuntimeSettings'', schema_offshoot_RuntimeSettings ref),
      (offshoot_v1 ''ServicePort'', schema_offshoot_ServicePort ref),
      (offshoot_v1 ''ServiceSpec'', schema_offshoot_ServiceSpec ref),
      (offshoot_v1 ''ServiceTemplateSpec'', schema_offshoot_ServiceTemplateSpec ref),
      (offshoot_v1 ''Volume'', schema_offshoot_Volume ref),
      (offshoot_v1 ''VolumeSource'', schema_offshoot_VolumeSource ref)]"

definition schema_shared_Action :: "(string \<Rightarrow> string) \<Rightarrow> openapi_def" where
  "schema_shared_Action ref = openapi_definition
    (object_of [''operationId'', ''flow'', ''disabled''] [
        (''name'', a_string),
        (''description'', a_string),
        (''icons'', array_of (refer_default ref (xhelm_shared ''ImageSpec''))),
        (''operationId'', a_string_default),
        (''flow'', a_string_default),
        (''disabled'', with_default (JBool False) (typed ''boolean'')),
        (''editor'', refer ref (xhelm_releases ''ChartSourceRef''))])
    [xhelm_releases ''ChartSourceRef'', xhelm_shared ''ImageSpec'']"

definition schema_shared_ActionGroup :: "(string \<Rightarrow> string) \<Rightarrow> openapi_def" where
  "schema_shared_ActionGroup ref = openapi_definition
    (object_of [''items''] [
        (''name'', a_string),
        (''description'', a_string),
        (''items'', array_of (refer_default ref (rm_shared ''Action'')))])
    [rm_shared ''Action'']"

definition schema_shared_ActionInfo :: "(string \<Rightarrow> string) \<Rightarrow> openapi_def" where
  "schema_shared_ActionInfo ref = openapi_definition
    (object_of [] [
        (''name'', a_string),
        (''description'', a_string)])
    []"

definition schema_shared_ActionTemplate :: "(string \<Rightarrow> string) \<Rightarrow> openapi_def" where
  "schema_shared_ActionTemplate ref = openapi_definition
    (object_of [''operationId'', ''flow'', ''enforceQuota''] [
        (''name'', a_string),
        (''description'', a_string),
        (''icons'', array_of (refer_default ref (xhelm_shared ''ImageSpec''))),
        (''operationId'', a_string_default),
        (''flow'', a_string_default),
        (''disabledTemplate'', a_string),
        (''editor'', refer ref (xhelm_releases ''ChartSourceRef'')),
        (''enforceQuota'', with_default (JBool False) (typed ''boolean''))])
    [xhelm_releases ''ChartSourceRef'', xhelm_shared ''ImageSpec'']"

definition schema_shared_ActionTemplateGroup :: "(string \<Rightarrow> string) \<Rightarrow> openapi_def" where
  "schema_shared_ActionTemplateGroup ref = openapi_definition
    (object_of [''items''] [
        (''name'', a_string),
        (''description'', a_string),
        (''items'', array_of (refer_default ref (rm_shared ''ActionTemplate'')))])
    [rm_shared ''ActionTemplate'']"

definition schema_shared_BootstrapPresets :: "(string \<Rightarrow> string) \<Rightarrow> openapi_def" where
  "schema_shared_BootstrapPresets ref = openapi_definition
    (object_of [''image'', ''registry'', ''helm''] [
        (''offlineInstaller'', with_default (JBool False) (typed ''boolean'')),
        (''image'', refer_default ref (rm_shared ''ImageRegistrySpec'')),
        (''registry'', refer_default ref (rm_shared ''RegistryInfo'')),
        (''helm'', refer_default ref (rm_shared ''HelmInfo''))])
    [rm_shared ''HelmInfo'', rm_shared ''ImageRegistrySpec'', rm_shared ''RegistryInfo'']"

definition schema_shared_Dashboard :: "(string \<Rightarrow> string) \<Rightarrow> openapi_def" where
  "schema_shared_Dashboard ref = openapi_definition
    (object_of [] [
        (''title'', a_string),
        (''vars'', array_of (refer_default ref (rm_shared ''DashboardVar''))),
        (''panels'', array_of a_string_default),
        (''if'', refer ref (rm_shared ''If''))])
    [rm_shared ''DashboardVar'', rm_shared ''If'']"

definition schema_shared_DashboardVar :: "(string \<Rightarrow> string) \<Rightarrow> openapi_def" where
  "schema_shared_DashboardVar ref = openapi_definition
    (object_of [''name'', ''value''] [
        (''name'', a_string_default),
        (''value'', a_string_default),
        (''type'', a_string)])
    []"

definition schema_shared_DeploymentParameters :: "(string \<Rightarrow> string) \<Rightarrow> openapi_def" where
  "schema_shared_DeploymentParameters ref = openapi_definition
    (object_of [] [
        (''productID'', a_string),
        (''planID'', a_string),
        (''chart'', refer ref (xhelm_releases ''ChartSourceRef''))])
    [xhelm_releases ''ChartSourceRef'']"

definition schema_shared_HelmInfo :: "(string \<Rightarrow> string) \<Rightarrow> openapi_def" where
  "schema_shared_HelmInfo ref = openapi_definition
    (object_of [''createNamespace'', ''repositories'', ''releases''] [
        (''createNamespace'', with_default (JBool False) (typed ''boolean'')),
        (''repositories'', map_of_schema (refer ref (rm_shared ''HelmRepository''))),
        (''releases'', map_of_schema (refer ref (rm_shared ''HelmRelease'')))])
    [rm_shared ''HelmRelease'', rm_shared ''HelmRepository'']"

definition schema_shared_HelmRelease :: "(string \<Rightarrow> string) \<Rightarrow> openapi_def" where
  "schema_shared_HelmRelease ref = openapi_definition
    (object_of [''enabled'', ''version''] [
        (''enabled'', with_default (JBool False) (typed ''boolean'')),
        (''version'', a_string_default),
        (''values'', refer ref (api_runtime ''RawExtension''))])
    [api_runtime ''RawExtension'']"

definition schema_shared_HelmRepository :: "(string \<Rightarrow> string) \<Rightarrow> openapi_def" where
  "schema_shared_HelmRepository ref = openapi_definition
    (object_of [''url''] [
        (''url'', a_string_default),
        (''secretName'', a_string),
        (''interval'', refer ref (meta_v1 ''Duration'')),
        (''timeout'', refer ref (meta_v1 ''Duration'')),
        (''type'', a_string),
        (''provider'', a_string)])
    [meta_v1 ''Duration'']"

definition schema_shared_If :: "(string \<Rightarrow> string) \<Rightarrow> openapi_def" where
  "schema_shared_If ref = openapi_definition
    (object_of [] [
        (''condition'', a_string),
        (''connected'', refer ref (rm_shared ''ResourceLocator''))])
    [rm_shared ''ResourceLocator'']"

definition schema_shared_ImageRegistrySpec :: "(string \<Rightarrow> string) \<Rightarrow> openapi_def" where
  "schema_shared_ImageRegistrySpec ref = openapi_definition
    (object_of [] [
        (''proxies'', refer_default ref (rm_shared ''RegistryProxies''))])
    [rm_shared ''RegistryProxies'']"

definition schema_shared_RegistryInfo :: "(string \<Rightarrow> string) \<Rightarrow> openapi_def" where
  "schema_shared_RegistryInfo ref = openapi_definition
    (object_of [] [
        (''credentials'', map_of_schema a_string_default),
        (''certs'', map_of_schema a_string_default),
        (''imagePullSecrets'', array_of a_string_default)])
    []"

definition schema_shared_RegistryProxies :: "(string \<Rightarrow> string) \<Rightarrow> openapi_def" where
  "schema_shared_RegistryProxies ref = openapi_definition
    (object_of [] [
        (''dockerHub'', a_string_default),
        (''dockerLibrary'', a_string_default),
        (''ghcr'', a_string_default),
        (''quay'', a_string_default),
        (''kubernetes'', a_string_default),
        (''microsoft'', a_string_default),
        (''appscode'', a_string_default)])
    []"

definition schema_shared_ResourceLocator :: "(string \<Rightarrow> string) \<Rightarrow> openapi_def" where
  "schema_shared_ResourceLocator ref = openapi_definition
    (object_of [''ref'', ''query''] [
        (''ref'', refer_default ref (meta_v1 ''GroupKind'')),
        (''query'', refer_default ref (rm_shared ''ResourceQuery''))])
    [meta_v1 ''GroupKind'', rm_shared ''ResourceQuery'']"

definition schema_shared_ResourceQuery :: "(string \<Rightarrow> string) \<Rightarrow> openapi_def" where
  "schema_shared_ResourceQuery ref = openapi_definition
    (object_of [''type''] [
        (''type'', a_string_default),
        (''byLabel'', a_string),
        (''raw'', a_string)])
    []"

definition schema_shared_SourceLocator :: "(string \<Rightarrow> string) \<Rightarrow> openapi_def" where
  "schema_shared_SourceLocator ref = openapi_definition
    (object_of [] [
        (''resource'', refer_default ref (kmapi_v1 ''ResourceID'')),
        (''ref'', refer_default ref (kmapi_v1 ''ObjectReference''))])
    [kmapi_v1 ''ObjectReference'', kmapi_v1 ''ResourceID'']"

definition schema_shared_UIParameterTemplate :: "(string \<Rightarrow> string) \<Rightarrow> openapi_def" where
  "schema_shared_UIParameterTemplate ref = openapi_definition
    (object_of [''enforceQuota''] [
        (''options'', refer ref (xhelm_releases ''ChartSourceRef'')),
        (''editor'', refer ref (xhelm_releases ''ChartSourceRef'')),
        (''enforceQuota'', with_default (JBool False) (typed ''boolean'')),
        (''actions'', array_of (refer ref (rm_shared ''ActionTemplateGroup''))),
        (''instanceLabelPaths'', array_of a_string_default)])
    [rm_shared ''ActionTemplateGroup'', xhelm_releases ''ChartSourceRef'']"

definition schema_shared_UIParameters :: "(string \<Rightarrow> string) \<Rightarrow> openapi_def" where
  "schema_shared_UIParameters ref = openapi_definition
    (object_of [] [
        (''options'', refer ref (xhelm_releases ''ChartSourceRef'')),
        (''editor'', refer ref (xhelm_releases ''ChartSourceRef'')),
        (''actions'', array_of (refer ref (rm_shared ''ActionGroup''))),
        (''instanceLabelPaths'', array_of a_string_default)])
    [rm_shared ''ActionGroup'', xhelm_releases ''ChartSourceRef'']"

definition shared_definitions :: "(string \<Rightarrow> string) \<Rightarrow> (string \<times> openapi_def) list" where
  "shared_definitions ref =
     [(rm_shared ''Action'', schema_shared_Action ref),
      (rm_shared ''ActionGroup'', schema_shared_ActionGroup ref),
      (rm_shared ''ActionInfo'', schema_shared_ActionInfo ref),
      (rm_shared ''ActionTemplate'', schema_shared_ActionTemplate ref),
      (rm_shared ''ActionTemplateGroup'', schema_shared_ActionTemplateGroup ref),
      (rm_shared ''BootstrapPresets'', schema_shared_BootstrapPresets ref),
      (rm_shared ''Dashboard'', schema_shared_Dashboard ref),
      (rm_shared ''DashboardVar'', schema_shared_DashboardVar ref),
      (rm_shared ''DeploymentParameters'', schema_shared_DeploymentParameters ref),
      (rm_shared ''HelmInfo'', schema_shared_HelmInfo ref),
      (rm_shared ''HelmRelease'', schema_shared_HelmRelease ref),
      (rm_shared ''HelmRepository'', schema_shared_HelmRepository ref),
      (rm_shared ''If'', schema_shared_If ref),
      (rm_shared ''ImageRegistrySpec'', schema_shared_ImageRegistrySpec ref),
      (rm_shared ''RegistryInfo'', schema_shared_RegistryInfo ref),
      (rm_shared ''RegistryProxies'', schema_shared_RegistryProxies ref),
      (rm_shared ''ResourceLocator'', schema_shared_ResourceLocator ref),
      (rm_shared ''ResourceQuery'', schema_shared_ResourceQuery ref),
      (rm_shared ''SourceLocator'', schema_shared_SourceLocator ref),
      (rm_shared ''UIParameterTemplate'', schema_shared_UIParameterTemplate ref),
      (rm_shared ''UIParameters'', schema_shared_UIParameters ref)]"

lemmas kmapi_schemas =
  schema_kmapi_CAPIClusterInfo_def schema_kmapi_CertificatePrivateKey_def schema_kmapi_CertificateSpec_def
  schema_kmapi_ClusterInfo_def schema_kmapi_ClusterMetadata_def schema_kmapi_Condition_def
  schema_kmapi_HealthCheckSpec_def schema_kmapi_ImageInfo_def schema_kmapi_Lineage_def
  schema_kmapi_ObjectID_def schema_kmapi_ObjectInfo_def schema_kmapi_ObjectReference_def
  schema_kmapi_PullCredentials_def schema_kmapi_ReadonlyHealthCheckSpec_def schema_kmapi_ResourceID_def
  schema_kmapi_TLSConfig_def schema_kmapi_TimeOfDay_def schema_kmapi_TypedObjectReference_def
  schema_kmapi_X509Subject_def schema_kmapi_stringSetMerger_def

lemma kmapi_ok: "list_all (\<lambda>p. def_ok (snd p)) (kmapi_definitions id)"
  by (simp only: kmapi_definitions_def list.pred_inject snd_conv simp_thms, (intro conjI)?,
      (simp_all only: kmapi_schemas shape_checks)?, (simp_all only: name_checks cong: if_weak_cong)?,
      (simp_all only: name_checks packages append.simps cong: if_weak_cong)?)

lemmas offshoot_schemas =
  schema_offshoot_ContainerRuntimeSettings_def schema_offshoot_EphemeralVolumeSource_def
  schema_offshoot_Gateway_def schema_offshoot_GatewayPort_def schema_offshoot_IONiceSettings_def
  schema_offshoot_NamedServiceStatus_def schema_offshoot_NamedURL_def schema_offshoot_NiceSettings_def
  schema_offshoot_ObjectMeta_def schema_offshoot_PartialObjectMeta_def
  schema_offshoot_PersistentVolumeClaim_def schema_offshoot_PersistentVolumeClaimTemplate_def
  schema_offshoot_PodRuntimeSettings_def schema_offshoot_PodSpec_def schema_offshoot_PodTemplateSpec_def
  schema_offshoot_RuntimeSettings_def schema_offshoot_ServicePort_def schema_offshoot_ServiceSpec_def
  schema_offshoot_ServiceTemplateSpec_def schema_offshoot_Volume_def schema_offshoot_VolumeSource_def

lemma offshoot_ok: "list_all (\<lambda>p. def_ok (snd p)) (offshoot_definitions id)"
  by (simp only: offshoot_definitions_def list.pred_inject snd_conv simp_thms, (intro conjI)?,
      (simp_all only: offshoot_schemas shape_checks)?, (simp_all only: name_checks cong: if_weak_cong)?,
      (simp_all only: name_checks packages append.simps cong: if_weak_cong)?)

lemmas shared_schemas =
  schema_shared_Action_def schema_shared_ActionGroup_def schema_shared_ActionInfo_def
  schema_shared_ActionTemplate_def schema_shared_ActionTemplateGroup_def schema_shared_BootstrapPresets_def
  schema_shared_Dashboard_def schema_shared_DashboardVar_def schema_shared_DeploymentParameters_def
  schema_shared_HelmInfo_def schema_shared_HelmRelease_def schema_shared_HelmRepository_def
  schema_shared_If_def schema_shared_ImageRegistrySpec_def schema_shared_RegistryInfo_def
  schema_shared_RegistryProxies_def schema_shared_ResourceLocator_def schema_shared_ResourceQuery_def
  schema_shared_SourceLocator_def schema_shared_UIParameterTemplate_def schema_shared_UIParameters_def

lemma shared_ok: "list_all (\<lambda>p. def_ok (snd p)) (shared_definitions id)"
  by (simp only: shared_definitions_def list.pred_inject snd_conv simp_thms, (intro conjI)?,
      (simp_all only: shared_schemas shape_checks)?, (simp_all only: name_checks cong: if_weak_cong)?,
      (simp_all only: name_checks packages append.simps cong: if_weak_cong)?)

end
