(* ===== verification/OpenApiProfile.thy ===== *)
theory OpenApiProfile
  imports OpenApiSchema
begin

text \<open>
  The generated OpenAPI definitions of the kinds of the program (\<open>openapi_generated.go\<close>), one per schema
  function, and the entries of the registry that name them.
\<close>

definition schema_v1alpha1_ClusterProfile :: "(string \<Rightarrow> string) \<Rightarrow> openapi_def" where
  "schema_v1alpha1_ClusterProfile ref = openapi_definition
    (object_of [] [
        (''kind'', a_string),
        (''apiVersion'', a_string),
        (''metadata'', refer_default ref (meta_v1 ''ObjectMeta'')),
        (''spec'', refer_default ref (profile_v1alpha1 ''ClusterProfileSpec''))])
    [meta_v1 ''ObjectMeta'', profile_v1alpha1 ''ClusterProfileSpec'']"

definition schema_v1alpha1_ClusterProfileList :: "(string \<Rightarrow> string) \<Rightarrow> openapi_def" where
  "schema_v1alpha1_ClusterProfileList ref = openapi_definition
    (object_of [''items''] [
        (''kind'', a_string),
        (''apiVersion'', a_string),
        (''metadata'', refer_default ref (meta_v1 ''ListMeta'')),
        (''items'', array_of (refer_default ref (profile_v1alpha1 ''ClusterProfile'')))])
    [meta_v1 ''ListMeta'', profile_v1alpha1 ''ClusterProfile'']"

definition schema_v1alpha1_ClusterProfileSpec :: "(string \<Rightarrow> string) \<Rightarrow> openapi_def" where
  "schema_v1alpha1_ClusterProfileSpec ref = openapi_definition
    (object_of [''title'', ''description''] [
        (''title'', a_string_default),
        (''description'', a_string_default),
        (''provider'', a_string),
        (''requiredFeatureSets'', map_of_schema (array_of a_string_default))])
    []"

definition schema_v1alpha1_FeatureSpec :: "(string \<Rightarrow> string) \<Rightarrow> openapi_def" where
  "schema_v1alpha1_FeatureSpec ref = openapi_definition
    (object_of [] [
        (''chart'', refer_default ref (ui_v1alpha1 ''ChartInfo'')),
        (''valuesFrom'', array_of (refer_default ref (ui_v1alpha1 ''ValuesReference''))),
        (''values'', refer ref (apiext_v1 ''JSON''))])
    [apiext_v1 ''JSON'', ui_v1alpha1 ''ChartInfo'', ui_v1alpha1 ''ValuesReference'']"

definition schema_v1alpha1_ManagedClusterProfileBinding :: "(string \<Rightarrow> string) \<Rightarrow> openapi_def" where
  "schema_v1alpha1_ManagedClusterProfileBinding ref = openapi_definition
    (object_of [] [
        (''kind'', a_string),
        (''apiVersion'', a_string),
        (''metadata'', refer_default ref (meta_v1 ''ObjectMeta'')),
        (''spec'', refer_default ref (profile_v1alpha1 ''ManagedClusterProfileBindingSpec'')),
        (''status'', refer_default ref (profile_v1alpha1 ''ManagedClusterProfileBindingStatus''))])
    [meta_v1 ''ObjectMeta'', profile_v1alpha1 ''ManagedClusterProfileBindingSpec'',
        profile_v1alpha1 ''ManagedClusterProfileBindingStatus'']"

definition schema_v1alpha1_ManagedClusterProfileBindingList :: "(string \<Rightarrow> string) \<Rightarrow> openapi_def" where
  "schema_v1alpha1_ManagedClusterProfileBindingList ref = openapi_definition
    (object_of [''items''] [
        (''kind'', a_string),
        (''apiVersion'', a_string),
        (''metadata'', refer_default ref (meta_v1 ''ListMeta'')),
        (''items'', array_of (refer_default ref (profile_v1alpha1 ''ManagedClusterProfileBinding'')))])
    [meta_v1 ''ListMeta'', profile_v1alpha1 ''ManagedClusterProfileBinding'']"

definition schema_v1alpha1_ManagedClusterProfileBindingSpec :: "(string \<Rightarrow> string) \<Rightarrow> openapi_def" where
  "schema_v1alpha1_ManagedClusterProfileBindingSpec ref = openapi_definition
    (object_of [''profileRef'', ''clusterMetadata''] [
        (''profileRef'', refer_default ref (core_v1 ''LocalObjectReference'')),
        (''clusterMetadata'', refer_default ref (kmapi_v1 ''ClusterInfo'')),
        (''features'', map_of_schema (refer_default ref (profile_v1alpha1 ''FeatureSpec'')))])
    [core_v1 ''LocalObjectReference'', kmapi_v1 ''ClusterInfo'', profile_v1alpha1 ''FeatureSpec'']"

definition schema_v1alpha1_ManagedClusterProfileBindingStatus :: "(string \<Rightarrow> string) \<Rightarrow> openapi_def" where
  "schema_v1alpha1_ManagedClusterProfileBindingStatus ref = openapi_definition
    (object_of [] [
        (''phase'', a_string),
        (''conditions'', array_of (refer_default ref (kmapi_v1 ''Condition''))),
        (''observedGeneration'', with_format ''int64'' (typed ''integer'')),
        (''manifestWorks'', map_of_schema a_string_default)])
    [kmapi_v1 ''Condition'']"

definition schema_v1alpha1_ManagedClusterSetProfile :: "(string \<Rightarrow> string) \<Rightarrow> openapi_def" where
  "schema_v1alpha1_ManagedClusterSetProfile ref = openapi_definition
    (object_of [] [
        (''kind'', a_string),
        (''apiVersion'', a_string),
        (''metadata'', refer_default ref (meta_v1 ''ObjectMeta'')),
        (''spec'', refer_default ref (profile_v1alpha1 ''ManagedClusterSetProfileSpec''))])
    [meta_v1 ''ObjectMeta'', profile_v1alpha1 ''ManagedClusterSetProfileSpec'']"

definition schema_v1alpha1_ManagedClusterSetProfileList :: "(string \<Rightarrow> string) \<Rightarrow> openapi_def" where
  "schema_v1alpha1_ManagedClusterSetProfileList ref = openapi_definition
    (object_of [''items''] [
        (''kind'', a_string),
        (''apiVersion'', a_string),
        (''metadata'', refer_default ref (meta_v1 ''ListMeta'')),
        (''items'', array_of (refer_default ref (profile_v1alpha1 ''ManagedClusterSetProfile'')))])
    [meta_v1 ''ListMeta'', profile_v1alpha1 ''ManagedClusterSetProfile'']"

definition schema_v1alpha1_ManagedClusterSetProfileSpec :: "(string \<Rightarrow> string) \<Rightarrow> openapi_def" where
  "schema_v1alpha1_ManagedClusterSetProfileSpec ref = openapi_definition
    (object_of [] [
        (''namespaces'', array_of a_string_default),
        (''features'', map_of_schema (refer_default ref (profile_v1alpha1 ''FeatureSpec'')))])
    [profile_v1alpha1 ''FeatureSpec'']"

definition profile_definitions :: "(string \<Rightarrow> string) \<Rightarrow> (string \<times> openapi_def) list" where
  "profile_definitions ref =
     [(profile_v1alpha1 ''ClusterProfile'', schema_v1alpha1_ClusterProfile ref),
      (profile_v1alpha1 ''ClusterProfileList'', schema_v1alpha1_ClusterProfileList ref),
      (profile_v1alpha1 ''ClusterProfileSpec'', schema_v1alpha1_ClusterProfileSpec ref),
      (profile_v1alpha1 ''FeatureSpec'', schema_v1alpha1_FeatureSpec ref),
      (profile_v1alpha1 ''ManagedClusterProfileBinding'', schema_v1alpha1_ManagedClusterProfileBinding ref),
      (profile_v1alpha1 ''ManagedClusterProfileBindingList'', schema_v1alpha1_ManagedClusterProfileBindingList ref),
      (profile_v1alpha1 ''ManagedClusterProfileBindingSpec'', schema_v1alpha1_ManagedClusterProfileBindingSpec ref),
      (profile_v1alpha1 ''ManagedClusterProfileBindingStatus'', schema_v1alpha1_ManagedClusterProfileBindingStatus ref),
      (profile_v1alpha1 ''ManagedClusterSetProfile'', schema_v1alpha1_ManagedClusterSetProfile ref),
      (profile_v1alpha1 ''ManagedClusterSetProfileList'', schema_v1alpha1_ManagedClusterSetProfileList ref),
      (profile_v1alpha1 ''ManagedClusterSetProfileSpec'', schema_v1alpha1_ManagedClusterSetProfileSpec ref)]"

lemmas profile_schemas =
  schema_v1alpha1_ClusterProfile_def schema_v1alpha1_ClusterProfileList_def
  schema_v1alpha1_ClusterProfileSpec_def schema_v1alpha1_FeatureSpec_def
  schema_v1alpha1_ManagedClusterProfileBinding_def schema_v1alpha1_ManagedClusterProfileBindingList_def
  schema_v1alpha1_ManagedClusterProfileBindingSpec_def schema_v1alpha1_ManagedClusterProfileBindingStatus_def
  schema_v1alpha1_ManagedClusterSetProfile_def schema_v1alpha1_ManagedClusterSetProfileList_def
  schema_v1alpha1_ManagedClusterSetProfileSpec_def

lemma profile_ok: "list_all (\<lambda>p. def_ok (snd p)) (profile_definitions id)"
  by (simp only: profile_definitions_def list.pred_inject snd_conv simp_thms, (intro conjI)?,
      (simp_all only: profile_schemas shape_checks)?, (simp_all only: name_checks cong: if_weak_cong)?,
      (simp_all only: name_checks packages append.simps cong: if_weak_cong)?)

end
