(* ===== verification/OpenApiRegistry.thy ===== *)
theory OpenApiRegistry
  imports OpenApiCoreA OpenApiCoreB OpenApiMeta OpenApiKmodules OpenApiProfile
begin

text \<open>
  The registry of the generated OpenAPI definitions, \<open>GetOpenAPIDefinitions\<close>, and what holds of
  it as a whole: which references it cannot resolve, that no chain of references comes back to
  where it started, so that checking a value against a type ends, and that the keys by which
  lists are merged are properties of their items.
\<close>

definition GetOpenAPIDefinitions :: "(string \<Rightarrow> string) \<Rightarrow> (string \<times> openapi_def) list" where
  "GetOpenAPIDefinitions ref =
     core_a_to_e_definitions ref @ core_f_to_o_definitions ref @ core_p_definitions ref @ core_q_to_z_definitions ref @
     resource_definitions ref @ meta_definitions ref @ runtime_definitions ref @ intstr_definitions ref @
     version_definitions ref @ kmapi_definitions ref @ offshoot_definitions ref @ profile_definitions ref @
     shared_definitions ref"

lemmas registry_parts = core_a_to_e_definitions_def core_f_to_o_definitions_def core_p_definitions_def
  core_q_to_z_definitions_def resource_definitions_def meta_definitions_def runtime_definitions_def intstr_definitions_def
  version_definitions_def kmapi_definitions_def offshoot_definitions_def profile_definitions_def shared_definitions_def

lemmas registry_schemas = core_a_to_e_schemas core_f_to_o_schemas core_p_schemas core_q_to_z_schemas resource_schemas
  meta_schemas runtime_schemas intstr_schemas version_schemas kmapi_schemas offshoot_schemas profile_schemas shared_schemas

section \<open>Every definition is well formed\<close>

lemma registry_ok: "list_all (\<lambda>p. def_ok (snd p)) (GetOpenAPIDefinitions id)"
  by (simp add: GetOpenAPIDefinitions_def core_a_to_e_ok core_f_to_o_ok core_p_ok core_q_to_z_ok resource_ok meta_ok
      runtime_ok intstr_ok version_ok kmapi_ok offshoot_ok profile_ok shared_ok)

section \<open>Every name is registered once\<close>

fun bits_before :: "bool list \<Rightarrow> bool list \<Rightarrow> bool" where
  "bits_before as [] = False"
| "bits_before [] (b # bs) = True"
| "bits_before (a # as) (b # bs) = (if a = b then bits_before as bs else b)"

fun char_before :: "char \<Rightarrow> char \<Rightarrow> bool" where
  "char_before (Char a0 a1 a2 a3 a4 a5 a6 a7) (Char b0 b1 b2 b3 b4 b5 b6 b7) =
     bits_before [a7, a6, a5, a4, a3, a2, a1, a0] [b7, b6, b5, b4, b3, b2, b1, b0]"

fun name_before :: "string \<Rightarrow> string \<Rightarrow> bool" where
  "name_before s [] = False"
| "name_before [] (d # t) = True"
| "name_before (c # s) (d # t) = (if c = d then name_before s t else char_before c d)"

fun ascending :: "string list \<Rightarrow> bool" where
  "ascending (m # n # ns) \<longleftrightarrow> name_before m n \<and> ascending (n # ns)"
| "ascending ns = True"

lemma bits_before_trans: "bits_before as bs \<Longrightarrow> bits_before bs cs \<Longrightarrow> bits_before as cs"
proof (induction as bs arbitrary: cs rule: bits_before.induct)
  case (2 b bs)
  then show ?case by (cases cs) simp_all
next
  case (3 a as b bs)
  then show ?case by (cases cs) (auto split: if_splits)
qed simp

lemma bits_before_irrefl: "\<not> bits_before as as"
  by (induction as) simp_all

lemma char_before_trans: "char_before c d \<Longrightarrow> char_before d e \<Longrightarrow> char_before c e"
  by (cases c; cases d; cases e; simp only: char_before.simps) (rule bits_before_trans)

lemma char_before_irrefl: "\<not> char_before c c"
  by (cases c) (simp only: char_before.simps bits_before_irrefl not_False_eq_True)

lemma name_before_irrefl: "\<not> name_before s s"
  by (induction s) simp_all

lemma name_before_trans: "name_before s t \<Longrightarrow> name_before t u \<Longrightarrow> name_before s u"
proof (induction s t arbitrary: u rule: name_before.induct)
  case (2 d t)
  then show ?case by (cases u) simp_all
next
  case (3 c s d t)
  then show ?case
    by (cases u) (auto split: if_splits dest: char_before_trans simp: char_before_irrefl)
qed simp

lemma ascending_distinct: "ascending ns \<Longrightarrow> distinct ns"
proof -
  have "ascending (n # ns) \<Longrightarrow> distinct (n # ns) \<and> (\<forall>m \<in> set ns. name_before n m)" for n ns
  proof (induction ns arbitrary: n)
    case (Cons a ns)
    then have "name_before n a" "distinct (a # ns)" "\<forall>m \<in> set ns. name_before a m"
      by (auto split: if_splits)
    then show ?case using name_before_trans name_before_irrefl by (metis distinct.simps(2) set_ConsD)
  qed simp
  then show "ascending ns \<Longrightarrow> distinct ns" by (cases ns) simp_all
qed

lemma name_before_pkg:
  "name_before (core_v1 a) (core_v1 b) = name_before a b" "name_before (meta_v1 a) (meta_v1 b) = name_before a b"
  "name_before (kmapi_v1 a) (kmapi_v1 b) = name_before a b" "name_before (offshoot_v1 a) (offshoot_v1 b) = name_before a b"
  "name_before (rm_shared a) (rm_shared b) = name_before a b" "name_before (api_resource a) (api_resource b) = name_before a b"
  "name_before (api_runtime a) (api_runtime b) = name_before a b"
  "name_before (profile_v1alpha1 a) (profile_v1alpha1 b) = name_before a b"
  "name_before (profile_v1alpha1 a) (core_v1 b)" "name_before (core_v1 a) (api_resource b)"
  "name_before (api_resource a) (meta_v1 b)" "name_before (meta_v1 a) (api_runtime b)"
  "name_before (api_runtime a) (util_intstr b)" "name_before (util_intstr a) (api_version b)"
  "name_before (api_version a) (kmapi_v1 b)" "name_before (kmapi_v1 a) (offshoot_v1 b)"
  "name_before (offshoot_v1 a) (rm_shared b)"
  by (simp_all add: packages)

lemma ascending_append:
  "ascending ms \<Longrightarrow> ascending ns \<Longrightarrow> ms \<noteq> [] \<Longrightarrow> ns \<noteq> [] \<Longrightarrow> name_before (last ms) (hd ns) \<Longrightarrow> ascending (ms @ ns)"
proof (induction ms)
  case (Cons m ms)
  then show ?case by (cases ms; cases ns) simp_all
qed simp

lemmas order_checks = ascending.simps name_before_pkg name_before.simps char_before.simps bits_before.simps char.inject
  simp_thms if_True if_False HOL.refl

text \<open>The names are sorted but for those of the program itself, which stand between two groups.\<close>

lemma groups_ascending:
  "ascending (map fst (profile_definitions id))"
  "ascending (map fst (core_a_to_e_definitions id))"
  "ascending (map fst (core_f_to_o_definitions id))"
  "ascending (map fst (core_p_definitions id))"
  "ascending (map fst (core_q_to_z_definitions id))"
  "ascending (map fst (resource_definitions id))"
  "ascending (map fst (meta_definitions id))"
  "ascending (map fst (runtime_definitions id))"
  "ascending (map fst (intstr_definitions id))"
  "ascending (map fst (version_definitions id))"
  "ascending (map fst (kmapi_definitions id))"
  "ascending (map fst (offshoot_definitions id))"
  "ascending (map fst (shared_definitions id))"
  by (simp_all only: registry_parts list.map fst_conv, (simp_all only: order_checks)?)

lemma groups_border:
  "name_before (last (map fst (profile_definitions id))) (hd (map fst (core_a_to_e_definitions id)))"
  "name_before (last (map fst (core_a_to_e_definitions id))) (hd (map fst (core_f_to_o_definitions id)))"
  "name_before (last (map fst (core_f_to_o_definitions id))) (hd (map fst (core_p_definitions id)))"
  "name_before (last (map fst (core_p_definitions id))) (hd (map fst (core_q_to_z_definitions id)))"
  "name_before (last (map fst (core_q_to_z_definitions id))) (hd (map fst (resource_definitions id)))"
  "name_before (last (map fst (resource_definitions id))) (hd (map fst (meta_definitions id)))"
  "name_before (last (map fst (meta_definitions id))) (hd (map fst (runtime_definitions id)))"
  "name_before (last (map fst (runtime_definitions id))) (hd (map fst (intstr_definitions id)))"
  "name_before (last (map fst (intstr_definitions id))) (hd (map fst (version_definitions id)))"
  "name_before (last (map fst (version_definitions id))) (hd (map fst (kmapi_definitions id)))"
  "name_before (last (map fst (kmapi_definitions id))) (hd (map fst (offshoot_definitions id)))"
  "name_before (last (map fst (offshoot_definitions id))) (hd (map fst (shared_definitions id)))"
  by (simp_all only: registry_parts list.map fst_conv last_ConsL last_ConsR list.sel list.distinct not_False_eq_True simp_thms,
      (simp_all only: order_checks)?)

lemma groups_nonempty:
  "profile_definitions id \<noteq> []"
  "core_a_to_e_definitions id \<noteq> []"
  "core_f_to_o_definitions id \<noteq> []"
  "core_p_definitions id \<noteq> []"
  "core_q_to_z_definitions id \<noteq> []"
  "resource_definitions id \<noteq> []"
  "meta_definitions id \<noteq> []"
  "runtime_definitions id \<noteq> []"
  "intstr_definitions id \<noteq> []"
  "version_definitions id \<noteq> []"
  "kmapi_definitions id \<noteq> []"
  "offshoot_definitions id \<noteq> []"
  "shared_definitions id \<noteq> []"
  by (simp_all only: registry_parts list.distinct simp_thms not_False_eq_True)

lemma names_ascending:
  "ascending (map fst (profile_definitions id @ core_a_to_e_definitions id @ core_f_to_o_definitions id @
     core_p_definitions id @ core_q_to_z_definitions id @
     resource_definitions id @ meta_definitions id @ runtime_definitions id @ intstr_definitions id @
     version_definitions id @ kmapi_definitions id @ offshoot_definitions id @ shared_definitions id))"
  unfolding map_append
  by (intro ascending_append groups_ascending) (simp_all add: groups_nonempty groups_border hd_append)

lemma distinct_rotate: "distinct (ps @ as @ ss) \<Longrightarrow> distinct (as @ ps @ ss)"
  by auto

lemma registry_distinct: "distinct (map fst (GetOpenAPIDefinitions id))"
proof -
  let ?as = "core_a_to_e_definitions id @ core_f_to_o_definitions id @ core_p_definitions id @ core_q_to_z_definitions id @
     resource_definitions id @ meta_definitions id @ runtime_definitions id @ intstr_definitions id @
     version_definitions id @ kmapi_definitions id @ offshoot_definitions id"
  have "distinct (map fst (profile_definitions id) @ map fst ?as @ map fst (shared_definitions id))"
    using ascending_distinct [OF names_ascending] by (simp only: map_append append_assoc)
  from distinct_rotate [OF this] show ?thesis
    by (simp only: GetOpenAPIDefinitions_def map_append append_assoc)
qed

text \<open>So each name is looked up to its own definition.\<close>

definition registered :: "string \<Rightarrow> bool" where
  "registered n \<longleftrightarrow> map_of (GetOpenAPIDefinitions id) n \<noteq> None"

definition looked_up :: "string \<times> openapi_def \<Rightarrow> bool" where
  "looked_up p \<longleftrightarrow> map_of (GetOpenAPIDefinitions id) (fst p) = Some (snd p)"

lemma registry_lookup: "list_all looked_up (GetOpenAPIDefinitions id)"
  using registry_distinct by (simp add: looked_up_def list_all_iff)

lemma groups_lookup:
  "list_all looked_up (core_a_to_e_definitions id)"
  "list_all looked_up (core_f_to_o_definitions id)"
  "list_all looked_up (core_p_definitions id)"
  "list_all looked_up (core_q_to_z_definitions id)"
  "list_all looked_up (resource_definitions id)"
  "list_all looked_up (meta_definitions id)"
  "list_all looked_up (runtime_definitions id)"
  "list_all looked_up (intstr_definitions id)"
  "list_all looked_up (version_definitions id)"
  "list_all looked_up (kmapi_definitions id)"
  "list_all looked_up (offshoot_definitions id)"
  "list_all looked_up (profile_definitions id)"
  "list_all looked_up (shared_definitions id)"
  using registry_lookup by (simp_all only: GetOpenAPIDefinitions_def list_all_append)

lemmas lookups = groups_lookup [unfolded registry_parts list.pred_inject looked_up_def fst_conv snd_conv simp_thms]

lemma looked_up_registered: "looked_up p \<Longrightarrow> registered (fst p)"
  by (simp add: looked_up_def registered_def)

section \<open>References that end\<close>

text \<open>
  The tier of a type is more than the tiers of the types its definition refers to; the tiers
  are listed in the order of the registry. A type that is not registered has tier 1.
\<close>

definition core_a_to_e_tiers :: "nat list" where
  "core_a_to_e_tiers =
    [1, 6, 1, 1, 4, 1, 1, 1, 4, 2, 2, 1, 2, 2, 2, 2, 1, 1, 3, 1, 4, 5, 4, 1, 1, 5, 1, 2, 2, 5, 1, 1, 1, 3, 2,
        2, 1, 4, 1, 4, 3, 4, 2, 2, 1, 3, 4, 5, 2, 4, 3, 5, 5, 5, 4, 5, 2, 1, 1]"

definition core_f_to_o_tiers :: "nat list" where
  "core_f_to_o_tiers =
    [1, 2, 2, 1, 1, 1, 1, 1, 1, 2, 1, 1, 1, 1, 2, 2, 1, 4, 3, 4, 2, 5, 3, 2, 2, 3, 1, 1, 1, 1, 4, 2, 5, 1, 3,
        5, 1, 4, 2, 2, 3, 2, 6, 1, 2, 1, 3, 1, 2, 3, 4, 1, 1, 1]"

definition core_p_tiers :: "nat list" where
  "core_p_tiers =
    [6, 4, 2, 5, 3, 3, 4, 1, 7, 3, 5, 2, 1, 9, 5, 3, 5, 1, 2, 2, 1, 1, 1, 10, 2, 1, 1, 1, 1, 2, 1, 1, 2, 2,
        8, 5, 6, 10, 11, 9, 1, 1, 3, 3, 3, 3, 6]"

definition core_q_to_z_tiers :: "nat list" where
  "core_q_to_z_tiers =
    [1, 2, 2, 4, 11, 2, 12, 10, 3, 1, 2, 4, 5, 3, 2, 2, 1, 2, 2, 2, 1, 1, 4, 1, 1, 5, 2, 1, 2, 2, 2, 5, 4, 5,
        1, 6, 2, 1, 3, 4, 2, 1, 2, 2, 1, 2, 2, 1, 1, 2, 3, 1, 1, 7, 1, 1, 1, 4, 5, 2, 7, 1, 4, 1]"

definition resource_tiers :: "nat list" where
  "resource_tiers =
    [1, 1]"

definition meta_tiers :: "nat list" where
  "meta_tiers =
    [2, 3, 1, 2, 2, 1, 2, 1, 2, 1, 1, 1, 1, 1, 1, 1, 1, 1, 2, 2, 1, 2, 1, 1, 2, 1, 3, 1, 4, 5, 1, 1, 1, 1, 1,
        3, 1, 2, 3, 1, 1, 2, 1, 1, 1, 1, 1, 2]"

definition runtime_tiers :: "nat list" where
  "runtime_tiers =
    [1, 1, 1]"

definition intstr_tiers :: "nat list" where
  "intstr_tiers =
    [1]"

definition version_tiers :: "nat list" where
  "version_tiers =
    [1]"

definition kmapi_tiers :: "nat list" where
  "kmapi_tiers =
    [1, 1, 2, 2, 1, 2, 1, 4, 3, 1, 2, 1, 2, 1, 1, 3, 1, 1, 1, 1]"

definition offshoot_tiers :: "nat list" where
  "offshoot_tiers =
    [5, 5, 3, 1, 1, 2, 2, 1, 1, 2, 4, 4, 7, 8, 9, 8, 1, 3, 4, 7, 7]"

definition profile_tiers :: "nat list" where
  "profile_tiers =
    [4, 5, 1, 2, 4, 5, 3, 3, 4, 5, 3]"

definition shared_tiers :: "nat list" where
  "shared_tiers =
    [2, 3, 1, 2, 3, 4, 4, 1, 2, 3, 2, 2, 3, 2, 1, 1, 2, 1, 2, 4, 4]"

definition registry_tiers :: "nat list" where
  "registry_tiers = core_a_to_e_tiers @ core_f_to_o_tiers @ core_p_tiers @ core_q_to_z_tiers @ 
     resource_tiers @ meta_tiers @ runtime_tiers @ intstr_tiers @ version_tiers @ 
     kmapi_tiers @ offshoot_tiers @ profile_tiers @ shared_tiers"

lemmas tier_lists = core_a_to_e_tiers_def core_f_to_o_tiers_def core_p_tiers_def core_q_to_z_tiers_def 
  resource_tiers_def meta_tiers_def runtime_tiers_def intstr_tiers_def version_tiers_def 
  kmapi_tiers_def offshoot_tiers_def profile_tiers_def shared_tiers_def

definition tier :: "string \<Rightarrow> nat" where
  "tier n =
     (case map_of (zip (map fst (GetOpenAPIDefinitions id)) registry_tiers) n of None \<Rightarrow> 1 | Some t \<Rightarrow> t)"

lemma tier_lengths:
  "length (core_a_to_e_definitions id) = length core_a_to_e_tiers"
  "length (core_f_to_o_definitions id) = length core_f_to_o_tiers"
  "length (core_p_definitions id) = length core_p_tiers"
  "length (core_q_to_z_definitions id) = length core_q_to_z_tiers"
  "length (resource_definitions id) = length resource_tiers"
  "length (meta_definitions id) = length meta_tiers"
  "length (runtime_definitions id) = length runtime_tiers"
  "length (intstr_definitions id) = length intstr_tiers"
  "length (version_definitions id) = length version_tiers"
  "length (kmapi_definitions id) = length kmapi_tiers"
  "length (offshoot_definitions id) = length offshoot_tiers"
  "length (profile_definitions id) = length profile_tiers"
  "length (shared_definitions id) = length shared_tiers"
  by (simp_all only: registry_parts tier_lists list.size)

lemma tier_nth:
  assumes "p \<in> set (zip (GetOpenAPIDefinitions id) registry_tiers)"
  shows "tier (fst (fst p)) = snd p"
proof -
  let ?R = "GetOpenAPIDefinitions id"
  have len: "length ?R = length registry_tiers"
    by (simp only: GetOpenAPIDefinitions_def registry_tiers_def length_append tier_lengths)
  from assms obtain i where "i < length ?R" "p = (?R ! i, registry_tiers ! i)"
    by (auto simp: set_zip)
  moreover from this have "map_of (zip (map fst ?R) registry_tiers) (map fst ?R ! i) = Some (registry_tiers ! i)"
    using registry_distinct len by (intro map_of_zip_nth) simp_all
  ultimately show ?thesis by (simp add: tier_def)
qed

definition at_tier :: "(string \<times> openapi_def) \<times> nat \<Rightarrow> bool" where
  "at_tier p \<longleftrightarrow> tier (fst (fst p)) = snd p"

lemma groups_tier:
  "list_all at_tier (zip (core_a_to_e_definitions id) core_a_to_e_tiers)"
  "list_all at_tier (zip (core_f_to_o_definitions id) core_f_to_o_tiers)"
  "list_all at_tier (zip (core_p_definitions id) core_p_tiers)"
  "list_all at_tier (zip (core_q_to_z_definitions id) core_q_to_z_tiers)"
  "list_all at_tier (zip (resource_definitions id) resource_tiers)"
  "list_all at_tier (zip (meta_definitions id) meta_tiers)"
  "list_all at_tier (zip (runtime_definitions id) runtime_tiers)"
  "list_all at_tier (zip (intstr_definitions id) intstr_tiers)"
  "list_all at_tier (zip (version_definitions id) version_tiers)"
  "list_all at_tier (zip (kmapi_definitions id) kmapi_tiers)"
  "list_all at_tier (zip (offshoot_definitions id) offshoot_tiers)"
  "list_all at_tier (zip (profile_definitions id) profile_tiers)"
  "list_all at_tier (zip (shared_definitions id) shared_tiers)"
proof -
  have "list_all at_tier (zip (GetOpenAPIDefinitions id) registry_tiers)"
    using tier_nth by (simp add: list_all_iff at_tier_def)
  then show
    "list_all at_tier (zip (core_a_to_e_definitions id) core_a_to_e_tiers)"
    "list_all at_tier (zip (core_f_to_o_definitions id) core_f_to_o_tiers)"
    "list_all at_tier (zip (core_p_definitions id) core_p_tiers)"
    "list_all at_tier (zip (core_q_to_z_definitions id) core_q_to_z_tiers)"
    "list_all at_tier (zip (resource_definitions id) resource_tiers)"
    "list_all at_tier (zip (meta_definitions id) meta_tiers)"
    "list_all at_tier (zip (runtime_definitions id) runtime_tiers)"
    "list_all at_tier (zip (intstr_definitions id) intstr_tiers)"
    "list_all at_tier (zip (version_definitions id) version_tiers)"
    "list_all at_tier (zip (kmapi_definitions id) kmapi_tiers)"
    "list_all at_tier (zip (offshoot_definitions id) offshoot_tiers)"
    "list_all at_tier (zip (profile_definitions id) profile_tiers)"
    "list_all at_tier (zip (shared_definitions id) shared_tiers)"
    by (simp_all only: GetOpenAPIDefinitions_def registry_tiers_def zip_append tier_lengths length_append list_all_append)
qed

lemmas tiers = groups_tier [unfolded registry_parts tier_lists zip_Cons_Cons zip_Nil list.pred_inject at_tier_def fst_conv snd_conv simp_thms]

text \<open>The types that are referred to but defined nowhere in the registry.\<close>

definition dangling :: "string list" where
  "dangling =
     [api_runtime ''Object'', apiext_v1 ''JSON'', ui_v1alpha1 ''ChartInfo'', ui_v1alpha1 ''ValuesReference'',
      xhelm_shared ''ImageSpec'', xhelm_releases ''ChartSourceRef'']"

lemma other_package:
  "core_v1 a \<noteq> apiext_v1 b" "core_v1 a \<noteq> ui_v1alpha1 b" "core_v1 a \<noteq> xhelm_shared b"
  "core_v1 a \<noteq> xhelm_releases b" "api_resource a \<noteq> apiext_v1 b"
  "api_resource a \<noteq> ui_v1alpha1 b" "api_resource a \<noteq> xhelm_shared b"
  "api_resource a \<noteq> xhelm_releases b" "meta_v1 a \<noteq> apiext_v1 b" "meta_v1 a \<noteq> ui_v1alpha1 b"
  "meta_v1 a \<noteq> xhelm_shared b" "meta_v1 a \<noteq> xhelm_releases b" "util_intstr a \<noteq> apiext_v1 b"
  "util_intstr a \<noteq> ui_v1alpha1 b" "util_intstr a \<noteq> xhelm_shared b"
  "util_intstr a \<noteq> xhelm_releases b" "api_version a \<noteq> apiext_v1 b"
  "api_version a \<noteq> ui_v1alpha1 b" "api_version a \<noteq> xhelm_shared b"
  "api_version a \<noteq> xhelm_releases b" "kmapi_v1 a \<noteq> apiext_v1 b" "kmapi_v1 a \<noteq> ui_v1alpha1 b"
  "kmapi_v1 a \<noteq> xhelm_shared b" "kmapi_v1 a \<noteq> xhelm_releases b"
  "offshoot_v1 a \<noteq> apiext_v1 b" "offshoot_v1 a \<noteq> ui_v1alpha1 b"
  "offshoot_v1 a \<noteq> xhelm_shared b" "offshoot_v1 a \<noteq> xhelm_releases b"
  "profile_v1alpha1 a \<noteq> apiext_v1 b" "profile_v1alpha1 a \<noteq> ui_v1alpha1 b"
  "profile_v1alpha1 a \<noteq> xhelm_shared b" "profile_v1alpha1 a \<noteq> xhelm_releases b"
  "rm_shared a \<noteq> apiext_v1 b" "rm_shared a \<noteq> ui_v1alpha1 b" "rm_shared a \<noteq> xhelm_shared b"
  "rm_shared a \<noteq> xhelm_releases b" "api_runtime a \<noteq> apiext_v1 b"
  "api_runtime a \<noteq> ui_v1alpha1 b" "api_runtime a \<noteq> xhelm_shared b"
  "api_runtime a \<noteq> xhelm_releases b" "core_v1 a \<noteq> api_runtime b"
  "api_resource a \<noteq> api_runtime b" "meta_v1 a \<noteq> api_runtime b"
  "util_intstr a \<noteq> api_runtime b" "api_version a \<noteq> api_runtime b"
  "kmapi_v1 a \<noteq> api_runtime b" "offshoot_v1 a \<noteq> api_runtime b"
  "profile_v1alpha1 a \<noteq> api_runtime b" "rm_shared a \<noteq> api_runtime b"
  "api_runtime a \<noteq> api_runtime b \<longleftrightarrow> a \<noteq> b"
  by (simp_all add: packages)

lemma not_registered_iff: "\<not> registered n \<longleftrightarrow> list_all (\<lambda>p. fst p \<noteq> n) (GetOpenAPIDefinitions id)"
  by (auto simp: registered_def map_of_eq_None_iff list_all_iff)

lemma dangling_names:
  "\<not> registered (apiext_v1 n)" "\<not> registered (ui_v1alpha1 n)" "\<not> registered (xhelm_shared n)"
  "\<not> registered (xhelm_releases n)" "\<not> registered (api_runtime ''Object'')"
  unfolding not_registered_iff GetOpenAPIDefinitions_def
  by (simp_all only: list_all_append registry_parts list.pred_inject fst_conv other_package simp_thms
      list.inject char.inject)

lemma unregistered_tier: "\<not> registered n \<Longrightarrow> tier n = 1"
  using set_zip_leftD
  by (fastforce simp: tier_def registered_def map_of_eq_None_iff image_iff dest: map_of_SomeD split: option.split)

lemmas dangling_tiers = dangling_names [THEN unregistered_tier]

section \<open>Every reference leads somewhere, and down\<close>

definition resolved :: "string \<Rightarrow> bool" where
  "resolved n \<longleftrightarrow> registered n \<or> n \<in> set dangling"

lemma dangling_resolved:
  "resolved (api_runtime ''Object'')" "resolved (apiext_v1 ''JSON'')" "resolved (ui_v1alpha1 ''ChartInfo'')"
  "resolved (ui_v1alpha1 ''ValuesReference'')" "resolved (xhelm_shared ''ImageSpec'')"
  "resolved (xhelm_releases ''ChartSourceRef'')"
  by (simp_all add: resolved_def dangling_def)

lemma looked_up_resolved: "list_all looked_up ds \<Longrightarrow> list_all (\<lambda>p. resolved (fst p)) ds"
  by (auto simp: list_all_iff resolved_def dest!: looked_up_registered)

lemmas resolved_names =
  groups_lookup [THEN looked_up_resolved, unfolded registry_parts list.pred_inject fst_conv simp_thms] dangling_resolved

text \<open>Every dependency of a definition is resolved, and of a lower tier.\<close>

definition leads_down :: "string \<times> openapi_def \<Rightarrow> bool" where
  "leads_down p \<longleftrightarrow> list_all (\<lambda>n. resolved n \<and> tier n < tier (fst p)) (od_deps (snd p))"

lemma deps_definition: "od_deps (openapi_definition s deps) = deps"
  "od_deps (EmbedOpenAPIDefinitionIntoV2Extension d e) = od_deps d"
  by (simp_all add: openapi_definition_def EmbedOpenAPIDefinitionIntoV2Extension_def)

lemmas ordering_checks = rel_simps num.inject simp_thms

lemma groups_lead_down:
  "list_all leads_down (core_a_to_e_definitions id)"
  "list_all leads_down (core_f_to_o_definitions id)"
  "list_all leads_down (core_p_definitions id)"
  "list_all leads_down (core_q_to_z_definitions id)"
  "list_all leads_down (resource_definitions id)"
  "list_all leads_down (meta_definitions id)"
  "list_all leads_down (runtime_definitions id)"
  "list_all leads_down (intstr_definitions id)"
  "list_all leads_down (version_definitions id)"
  "list_all leads_down (kmapi_definitions id)"
  "list_all leads_down (offshoot_definitions id)"
  "list_all leads_down (profile_definitions id)"
  "list_all leads_down (shared_definitions id)"
  by (simp_all only: registry_parts list.pred_inject leads_down_def fst_conv snd_conv,
      (simp_all only: registry_schemas deps_definition list.pred_inject resolved_names tiers dangling_tiers ordering_checks)?)

lemma registry_leads_down: "list_all leads_down (GetOpenAPIDefinitions id)"
  unfolding GetOpenAPIDefinitions_def by (simp only: list_all_append groups_lead_down simp_thms)

section \<open>Checking a value ends\<close>

text \<open>References resolve in the registry; \<open>ext\<close> speaks for the types defined elsewhere.\<close>

fun valid :: "(string \<Rightarrow> json \<Rightarrow> bool) \<Rightarrow> nat \<Rightarrow> string \<Rightarrow> json \<Rightarrow> bool" where
  "valid ext 0 n j = False"
| "valid ext (Suc k) n j =
     (case map_of (GetOpenAPIDefinitions id) n of
        None \<Rightarrow> ext n j
      | Some d \<Rightarrow> conforms (valid ext k) (od_schema d) j)"

declare valid.simps [simp del]

lemma tiers_bounded: "list_all (\<lambda>t. 1 \<le> t \<and> t \<le> 12) registry_tiers"
  by code_simp

lemma tier_bounds: "1 \<le> tier n \<and> tier n \<le> 12"
  using tiers_bounded
  by (auto simp: tier_def list_all_iff split: option.split dest!: map_of_SomeD set_zip_rightD)

lemma refs_lower:
  assumes "map_of (GetOpenAPIDefinitions id) n = Some d" and "m \<in> set (refs_of (od_schema d))"
  shows "tier m < tier n \<and> resolved m"
proof -
  from assms(1) have mem: "(n, d) \<in> set (GetOpenAPIDefinitions id)" by (rule map_of_SomeD)
  have "def_ok d" using mem registry_ok by (auto simp: list_all_iff)
  with assms(2) have "m \<in> set (od_deps d)" by (auto simp: def_ok_def list_all_iff)
  moreover have "leads_down (n, d)" using mem registry_leads_down by (simp add: list_all_iff)
  ultimately show ?thesis by (simp add: leads_down_def list_all_iff)
qed

lemma valid_stable: "tier n \<le> t \<Longrightarrow> t \<le> k \<Longrightarrow> valid ext k n j = valid ext t n j"
proof (induction t arbitrary: n k j)
  case 0
  then show ?case using tier_bounds [of n] by simp
next
  case (Suc t)
  then obtain k' where k: "k = Suc k'" "t \<le> k'" by (cases k) auto
  have "conforms (valid ext k') (od_schema d) j = conforms (valid ext t) (od_schema d) j"
    if "map_of (GetOpenAPIDefinitions id) n = Some d" for d
  proof (rule conforms_cong)
    fix m j
    assume "m \<in> set (refs_of (od_schema d))"
    with refs_lower [OF that] Suc.prems(1) have "tier m \<le> t" by fastforce
    then show "valid ext k' m j = valid ext t m j" using k(2) by (rule Suc.IH)
  qed
  then show ?case by (simp add: k valid.simps split: option.split)
qed

definition refers_to :: "(string \<times> string) set" where
  "refers_to = {(n, m). \<exists>d. map_of (GetOpenAPIDefinitions id) n = Some d \<and> m \<in> set (refs_of (od_schema d))}"

lemma refers_to_acyclic: "acyclic refers_to"
proof -
  have "(n, m) \<in> refers_to\<^sup>+ \<Longrightarrow> tier m < tier n" for n m
    by (induction rule: trancl.induct) (auto simp: refers_to_def dest: refs_lower)
  then show ?thesis by (force simp: acyclic_def)
qed

section \<open>Keys of merged lists\<close>

text \<open>The names of the keys an extension gives: those of a list map, and that of a strategic merge.\<close>

definition json_strings :: "json \<Rightarrow> string list" where
  "json_strings j =
     (case j of JStr s \<Rightarrow> [s] | JArr xs \<Rightarrow> concat (map (\<lambda>x. case x of JStr s \<Rightarrow> [s] | _ \<Rightarrow> []) xs) | _ \<Rightarrow> [])"

definition ext_keys :: "(string \<times> json) list \<Rightarrow> string list" where
  "ext_keys e =
     concat (map (\<lambda>p. if fst p = ''x-kubernetes-list-map-keys'' \<or> fst p = ''x-kubernetes-patch-merge-key''
                      then json_strings (snd p) else []) e)"

text \<open>The keys of each list of a schema, with the type of the items.\<close>

definition item_keys :: "schema \<Rightarrow> (string \<times> string) list" where
  "item_keys s =
     (case s_items s of
        None \<Rightarrow> []
      | Some t \<Rightarrow> (case s_ref t of None \<Rightarrow> [] | Some n \<Rightarrow> map (Pair n) (ext_keys (s_ext s))))"

primrec keys_of :: "schema \<Rightarrow> (string \<times> string) list" where
  "keys_of (Schema ty fmt dflt r props req itms addl enum oneof ext) =
     item_keys (Schema ty fmt dflt r props req itms addl enum oneof ext) @
     concat (map snd (map (map_prod id keys_of) props)) @
     (case map_option keys_of itms of None \<Rightarrow> [] | Some ks \<Rightarrow> ks) @
     (case map_option keys_of addl of None \<Rightarrow> [] | Some ks \<Rightarrow> ks) @ concat (map keys_of oneof)"

definition part_keys :: "schema \<Rightarrow> (string \<times> string) list" where
  "part_keys s =
     concat (map (\<lambda>p. keys_of (snd p)) (s_props s)) @
     (case s_items s of None \<Rightarrow> [] | Some t \<Rightarrow> keys_of t) @
     (case s_addl s of None \<Rightarrow> [] | Some t \<Rightarrow> keys_of t) @ concat (map keys_of (s_oneof s))"

lemma keys_of_alt: "keys_of s = item_keys s @ part_keys s"
  by (cases s) (simp add: part_keys_def comp_def option.case_eq_if option.map_sel)

named_theorems key_simps \<open>collecting keys by shape\<close>

lemma parts_of_updates:
  "s_items (with_ext e s) = s_items s" "s_items (with_format f s) = s_items s"
  "s_items (with_enum n s) = s_items s" "s_items (with_default d s) = s_items s"
  "s_props (with_ext e s) = s_props s" "s_props (with_format f s) = s_props s"
  "s_props (with_enum n s) = s_props s" "s_props (with_default d s) = s_props s"
  "s_addl (with_ext e s) = s_addl s" "s_addl (with_format f s) = s_addl s"
  "s_addl (with_enum n s) = s_addl s" "s_addl (with_default d s) = s_addl s"
  "s_oneof (with_ext e s) = s_oneof s" "s_oneof (with_format f s) = s_oneof s"
  "s_oneof (with_enum n s) = s_oneof s" "s_oneof (with_default d s) = s_oneof s"
  "s_ext (with_ext e s) = e" "s_ext (with_format f s) = s_ext s" "s_ext (with_enum n s) = s_ext s" "s_ext (with_default d s) = s_ext s"
  by (cases s; simp only: with_ext.simps with_format.simps with_enum.simps with_default.simps schema.sel)+

lemma key_parts:
  "part_keys (with_ext e s) = part_keys s" "part_keys (with_format f s) = part_keys s"
  "part_keys (with_enum n s) = part_keys s" "part_keys (with_default d s) = part_keys s"
  "item_keys (with_format f s) = item_keys s" "item_keys (with_enum n s) = item_keys s" "item_keys (with_default d s) = item_keys s"
  by (simp_all only: part_keys_def item_keys_def parts_of_updates)

lemma keys_of_updates [key_simps]:
  "keys_of (with_format f s) = keys_of s" "keys_of (with_enum n s) = keys_of s" "keys_of (with_default d s) = keys_of s"
  by (simp_all only: keys_of_alt key_parts)

lemma item_keys_Schema: "item_keys (Schema ty fmt dflt r props req itms addl enum oneof ext) =
     (case itms of None \<Rightarrow> [] | Some t \<Rightarrow> (case s_ref t of None \<Rightarrow> [] | Some n \<Rightarrow> map (Pair n) (ext_keys ext)))"
  by (simp only: item_keys_def schema.sel)

lemma keys_of_shapes [key_simps]:
  "keys_of (typed t) = []" "keys_of a_string = []" "keys_of a_string_default = []" "keys_of (refer ref n) = []"
  "keys_of (refer_default ref n) = []" "keys_of (map_of_schema s) = keys_of s"
  "keys_of (object_of req props) = concat (map (\<lambda>p. keys_of (snd p)) props)"
  by (simp_all add: item_keys_Schema shapes comp_def)

lemma keys_of_one_of [key_simps]: "keys_of (one_of ts) = []"
  by (induction ts) (simp_all add: item_keys_Schema shapes)

lemma s_ref_shapes:
  "s_ref (refer ref n) = Some (ref n)" "s_ref (refer_default ref n) = Some (ref n)" "s_ref a_string = None"
  "s_ref a_string_default = None" "s_ref (typed t) = None" "s_ref (with_default d s) = s_ref s" "s_ref (with_format f s) = s_ref s"
  by (simp_all add: shapes selectors_of_updates)

lemma keys_of_array [key_simps]: "keys_of (array_of s) = keys_of s"
  by (simp add: item_keys_Schema array_of_def ext_keys_def split: option.split)

lemma keys_of_ext_array:
  "keys_of (with_ext e (array_of s)) = (case s_ref s of None \<Rightarrow> [] | Some n \<Rightarrow> map (Pair n) (ext_keys e)) @ keys_of s"
  by (simp add: item_keys_Schema array_of_def)

lemma keys_of_ext [key_simps]:
  "keys_of (with_ext e (array_of (refer ref n))) = map (Pair (ref n)) (ext_keys e)"
  "keys_of (with_ext e (array_of (refer_default ref n))) = map (Pair (ref n)) (ext_keys e)"
  "keys_of (with_ext e (array_of a_string)) = []" "keys_of (with_ext e (array_of a_string_default)) = []"
  "keys_of (with_ext e (array_of (typed t))) = []"
  "keys_of (with_ext e (array_of (with_default d (with_format f (typed t))))) = []"
  "keys_of (with_ext e (map_of_schema s)) = keys_of s" "keys_of (with_ext e (refer ref n)) = []"
  "keys_of (with_ext e (object_of req props)) = concat (map (\<lambda>p. keys_of (snd p)) props)"
  "keys_of (with_ext e (typed t)) = []"
  by (simp_all add: keys_of_ext_array s_ref_shapes keys_of_shapes keys_of_updates)
    (simp_all add: item_keys_Schema shapes comp_def)

lemma ext_keys_shapes [key_simps]:
  "ext_keys [] = []" "ext_keys (list_type t # e) = ext_keys e" "ext_keys (map_type t # e) = ext_keys e"
  "ext_keys (patch_strategy t # e) = ext_keys e" "ext_keys (patch_merge_key k # e) = k # ext_keys e"
  "ext_keys (list_map_keys ks # e) = ks @ ext_keys e"
  by (simp_all add: ext_keys_def list_type_def map_type_def patch_strategy_def patch_merge_key_def list_map_keys_def
      json_strings_def comp_def)

text \<open>A key is declared if it is a property of the type of the items.\<close>

definition declared :: "string \<times> string \<Rightarrow> bool" where
  "declared p \<longleftrightarrow>
     (case map_of (GetOpenAPIDefinitions id) (fst p) of
        None \<Rightarrow> False | Some d \<Rightarrow> snd p \<in> set (map fst (s_props (od_schema d))))"

definition keys_declared :: "openapi_def \<Rightarrow> bool" where
  "keys_declared d \<longleftrightarrow> list_all declared (keys_of (od_schema d))"

lemma keys_declared_definition [key_simps]:
  "keys_declared (openapi_definition s deps) = list_all declared (keys_of s)"
  "keys_declared (EmbedOpenAPIDefinitionIntoV2Extension d e) = keys_declared d"
  by (simp_all add: keys_declared_def openapi_definition_def EmbedOpenAPIDefinitionIntoV2Extension_def)

lemma declared_code:
  "declared (n, k) = (case map_of (GetOpenAPIDefinitions id) n of
     None \<Rightarrow> False | Some d \<Rightarrow> name_in k (map fst (s_props (od_schema d))))"
  by (simp add: declared_def name_in_iff cong: option.case_cong)

lemma props_definition:
  "s_props (od_schema (openapi_definition s deps)) = s_props s" "s_props (with_ext e s) = s_props s"
  "s_props (object_of req props) = props"
  by (cases s; simp add: openapi_definition_def object_of_def)+

lemma groups_keys:
  "list_all (\<lambda>p. keys_declared (snd p)) (core_a_to_e_definitions id)"
  "list_all (\<lambda>p. keys_declared (snd p)) (core_f_to_o_definitions id)"
  "list_all (\<lambda>p. keys_declared (snd p)) (core_p_definitions id)"
  "list_all (\<lambda>p. keys_declared (snd p)) (core_q_to_z_definitions id)"
  "list_all (\<lambda>p. keys_declared (snd p)) (resource_definitions id)"
  "list_all (\<lambda>p. keys_declared (snd p)) (meta_definitions id)"
  "list_all (\<lambda>p. keys_declared (snd p)) (runtime_definitions id)"
  "list_all (\<lambda>p. keys_declared (snd p)) (intstr_definitions id)"
  "list_all (\<lambda>p. keys_declared (snd p)) (version_definitions id)"
  "list_all (\<lambda>p. keys_declared (snd p)) (kmapi_definitions id)"
  "list_all (\<lambda>p. keys_declared (snd p)) (offshoot_definitions id)"
  "list_all (\<lambda>p. keys_declared (snd p)) (profile_definitions id)"
  "list_all (\<lambda>p. keys_declared (snd p)) (shared_definitions id)"
  by (simp_all only: registry_parts list.pred_inject snd_conv,
      (simp_all only: registry_schemas key_simps list.map concat.simps append.simps list.pred_inject snd_conv id_apply simp_thms)?,
      (simp_all only: declared_code lookups option.case)?,
      (simp_all only: registry_schemas props_definition list.map fst_conv)?,
      (simp_all only: name_checks cong: if_weak_cong)?)

lemma registry_keys: "list_all (\<lambda>p. keys_declared (snd p)) (GetOpenAPIDefinitions id)"
  unfolding GetOpenAPIDefinitions_def by (simp only: list_all_append groups_keys simp_thms)

end
