(* ===== verification/OpenApi.thy ===== *)
theory OpenApi
  imports OpenApiRegistry
begin

text \<open>
  The generated OpenAPI definitions (\<open>openapi_generated.go\<close>) against what the controllers write:
  the JSON of the specs of a binding and of a set profile is checked against the schemas of
  the registry, and the registry as a whole is checked for consistency.
\<close>

section \<open>What the controllers write\<close>

text \<open>
  \<open>json.Marshal\<close> of the specs, by the struct tags: \<open>omitempty\<close> drops an empty string, slice
  or map and a nil pointer; a struct is always written; \<open>capi\<close> and \<open>clusterManagers\<close>
  of the cluster metadata have no \<open>omitempty\<close>, and a nil one is written as null. The values of
  a feature are spliced in, and malformed ones fail.
\<close>

definition opt_string :: "string \<Rightarrow> string \<Rightarrow> (string \<times> json) list" where
  "opt_string k s = (if s = '''' then [] else [(k, JStr s)])"

definition sourceref_json :: "sourceref \<Rightarrow> json" where
  "sourceref_json r =
     JObj (fmap_of_list (opt_string ''apiGroup'' (sr_group r) @ opt_string ''kind'' (sr_kind r) @
       opt_string ''namespace'' (sr_ns r) @ [(''name'', JStr (sr_name r))]))"

definition chart_json :: "chartinfo \<Rightarrow> json" where
  "chart_json c =
     JObj (fmap_of_list ([(''name'', JStr (ch_name c))] @ opt_string ''namespace'' (ch_ns c) @
       (if ch_create_ns c then [(''createNamespace'', JBool True)] else []) @
       opt_string ''version'' (ch_version c) @ [(''sourceRef'', sourceref_json (ch_source c))]))"

definition valuesref_json :: "uivaluesref \<Rightarrow> json" where
  "valuesref_json v =
     JObj (fmap_of_list ([(''kind'', JStr (uv_kind v)), (''name'', JStr (uv_name v))] @
       opt_string ''valuesKey'' (uv_key v) @ opt_string ''targetPath'' (uv_target v) @
       (if uv_optional v then [(''optional'', JBool True)] else [])))"

definition values_json :: "raw option \<Rightarrow> gerr + (string \<times> json) list" where
  "values_json v =
     (case v of
        None \<Rightarrow> Inr []
      | Some Malformed \<Rightarrow> Inl (ErrText ''json: error calling MarshalJSON'')
      | Some (Text j) \<Rightarrow> Inr [(''values'', j)])"

definition fspec_json :: "fspec \<Rightarrow> gerr + json" where
  "fspec_json s =
     bindE (values_json (fs_values s)) (\<lambda>vs.
       Inr (JObj (fmap_of_list (opt_string ''featureSet'' (fs_set s) @ [(''chart'', chart_json (fs_chart s))] @
         (if fs_values_from s = [] then [] else [(''valuesFrom'', JArr (map valuesref_json (fs_values_from s)))]) @ vs))))"

fun fspecs_json :: "fspecs \<Rightarrow> gerr + (string \<times> json) list" where
  "fspecs_json [] = Inr []"
| "fspecs_json ((n, s) # fs) =
     bindE (fspec_json s) (\<lambda>j. bindE (fspecs_json fs) (\<lambda>js. Inr ((n, j) # js)))"

definition capi_json :: "capiinfo option \<Rightarrow> json" where
  "capi_json c =
     (case c of
        None \<Rightarrow> JNull
      | Some x \<Rightarrow> JObj (fmap_of_list [(''provider'', JStr (ca_provider x)), (''namespace'', JStr (ca_ns x)),
          (''clusterName'', JStr (ca_cluster x))]))"

definition managers_json :: "string list option \<Rightarrow> json" where
  "managers_json ms = (case ms of None \<Rightarrow> JNull | Some ms' \<Rightarrow> JArr (map JStr ms'))"

definition clusterinfo_json :: "clusterinfo \<Rightarrow> json" where
  "clusterinfo_json ci =
     JObj (fmap_of_list [(''uid'', JStr (ci_uid ci)), (''name'', JStr (ci_name ci)),
       (''clusterManagers'', managers_json (ci_managers ci)), (''capi'', capi_json (ci_capi ci))])"

definition features_field :: "(string \<times> json) list \<Rightarrow> (string \<times> json) list" where
  "features_field fs = (if fs = [] then [] else [(''features'', JObj (fmap_of_list fs))])"

definition bindspec_json :: "bindspec \<Rightarrow> gerr + json" where
  "bindspec_json s =
     bindE (fspecs_json (bs_features s)) (\<lambda>fs.
       Inr (JObj (fmap_of_list
         ([(''profileRef'', JObj (fmap_of_list (opt_string ''name'' (bs_profile s)))),
           (''clusterMetadata'', clusterinfo_json (bs_cluster s))] @
          opt_string ''opscenterFeaturesVersion'' (bs_version s) @ features_field fs))))"

definition profspec_json :: "string list \<Rightarrow> profile \<Rightarrow> gerr + json" where
  "profspec_json namespaces p =
     bindE (fspecs_json (pr_features p)) (\<lambda>fs.
       Inr (JObj (fmap_of_list
         ((if namespaces = [] then [] else [(''namespaces'', JArr (map JStr namespaces))]) @ features_field fs))))"

text \<open>A definition outside the file accepts what the code of its own package writes.\<close>

definition ext_ok :: "(string \<Rightarrow> json \<Rightarrow> bool) \<Rightarrow> bool" where
  "ext_ok ext \<longleftrightarrow>
     (\<forall>c. ext (ui_v1alpha1 ''ChartInfo'') (chart_json c)) \<and>
     (\<forall>v. ext (ui_v1alpha1 ''ValuesReference'') (valuesref_json v)) \<and>
     (\<forall>j. ext (apiext_v1 ''JSON'') j)"

lemma def_at:
  "map_of (GetOpenAPIDefinitions id) (profile_v1alpha1 ''FeatureSpec'') = Some (schema_v1alpha1_FeatureSpec id)"
  "map_of (GetOpenAPIDefinitions id) (profile_v1alpha1 ''ManagedClusterProfileBindingSpec'') =
     Some (schema_v1alpha1_ManagedClusterProfileBindingSpec id)"
  "map_of (GetOpenAPIDefinitions id) (profile_v1alpha1 ''ManagedClusterSetProfileSpec'') =
     Some (schema_v1alpha1_ManagedClusterSetProfileSpec id)"
  "map_of (GetOpenAPIDefinitions id) (core_v1 ''LocalObjectReference'') = Some (schema_core_v1_LocalObjectReference id)"
  "map_of (GetOpenAPIDefinitions id) (kmapi_v1 ''ClusterInfo'') = Some (schema_kmapi_ClusterInfo id)"
  "map_of (GetOpenAPIDefinitions id) (kmapi_v1 ''CAPIClusterInfo'') = Some (schema_kmapi_CAPIClusterInfo id)"
  "map_of (GetOpenAPIDefinitions id) (ui_v1alpha1 ''ChartInfo'') = None"
  "map_of (GetOpenAPIDefinitions id) (ui_v1alpha1 ''ValuesReference'') = None"
  "map_of (GetOpenAPIDefinitions id) (apiext_v1 ''JSON'') = None"
  using dangling_names by (simp_all only: lookups registered_def not_not simp_thms)

lemma od_schema_definition [simp]: "od_schema (openapi_definition s deps) = s"
  by (simp add: openapi_definition_def)

lemma fspec_conforms:
  assumes "ext_ok ext" and "fspec_json s = Inr j"
  shows "valid ext (Suc (Suc k)) (profile_v1alpha1 ''FeatureSpec'') j"
proof -
  from assms(1) have e: "valid ext (Suc k) (ui_v1alpha1 ''ChartInfo'') (chart_json c)"
     "valid ext (Suc k) (ui_v1alpha1 ''ValuesReference'') (valuesref_json v)"
     "valid ext (Suc k) (apiext_v1 ''JSON'') j" for c v j
    by (simp_all add: ext_ok_def valid.simps def_at)
  from assms(2) obtain vs where vs: "values_json (fs_values s) = Inr vs"
    and j: "j = JObj (fmap_of_list (opt_string ''featureSet'' (fs_set s) @ [(''chart'', chart_json (fs_chart s))] @
         (if fs_values_from s = [] then [] else [(''valuesFrom'', JArr (map valuesref_json (fs_values_from s)))]) @ vs))"
    by (auto simp: fspec_json_def bindE_Inr_iff)
  have "vs = [] \<or> (\<exists>v. vs = [(''values'', v)])"
    using vs by (auto simp: values_json_def split: option.splits raw.splits)
  with e show ?thesis
    unfolding valid.simps(2) [of ext "Suc k"] def_at
    by (auto simp: j schema_v1alpha1_FeatureSpec_def conforms_struct fmlookup_of_list opt_string_def list_all_iff)
qed

lemma fspecs_json_set:
  "fspecs_json fs = Inr js \<Longrightarrow> (n, j) \<in> set js \<Longrightarrow> \<exists>s. fspec_json s = Inr j"
proof (induction fs arbitrary: js)
  case (Cons a fs)
  obtain n' s' where a: "a = (n', s')" by (cases a)
  from Cons.prems(1) obtain j' js' where "fspec_json s' = Inr j'" "fspecs_json fs = Inr js'" "js = (n', j') # js'"
    by (auto simp: a bindE_Inr_iff)
  with Cons show ?case by auto
qed simp

lemma features_conform:
  assumes "ext_ok ext" and "fspecs_json fs = Inr js"
  shows "fmpred (\<lambda>_. conforms (valid ext (Suc (Suc k))) (refer_default id (profile_v1alpha1 ''FeatureSpec''))) (fmap_of_list js)"
proof (rule fmpredI)
  fix n j
  assume "fmlookup (fmap_of_list js) n = Some j"
  then have "(n, j) \<in> set js" by (simp add: fmlookup_of_list map_of_SomeD)
  with fspecs_json_set [OF assms(2)] obtain s where "fspec_json s = Inr j" by blast
  then show "conforms (valid ext (Suc (Suc k))) (refer_default id (profile_v1alpha1 ''FeatureSpec'')) j"
    using fspec_conforms [OF assms(1)] by simp
qed

lemma profspec_conforms:
  assumes "ext_ok ext" and "profspec_json nss p = Inr j"
  shows "valid ext (Suc (Suc (Suc k))) (profile_v1alpha1 ''ManagedClusterSetProfileSpec'') j"
proof -
  from assms(2) obtain js where js: "fspecs_json (pr_features p) = Inr js"
    and j: "j = JObj (fmap_of_list ((if nss = [] then [] else [(''namespaces'', JArr (map JStr nss))]) @ features_field js))"
    by (auto simp: profspec_json_def bindE_Inr_iff)
  from features_conform [OF assms(1) js, of k] show ?thesis
    unfolding valid.simps(2) [of ext "Suc (Suc k)"] def_at
    by (auto simp: j schema_v1alpha1_ManagedClusterSetProfileSpec_def conforms_struct fmlookup_of_list features_field_def
        list_all_iff)
qed

lemma clusterinfo_conforms:
  "valid ext (Suc (Suc k)) (kmapi_v1 ''ClusterInfo'') (clusterinfo_json ci) \<longleftrightarrow>
     ci_capi ci \<noteq> None \<and> ci_managers ci \<noteq> None"
proof -
  have c: "valid ext (Suc k) (kmapi_v1 ''CAPIClusterInfo'') (capi_json c) \<longleftrightarrow> c \<noteq> None" for c
  proof (cases c)
    case None
    then show ?thesis
      by (simp add: valid.simps def_at schema_kmapi_CAPIClusterInfo_def capi_json_def conforms_null)
  next
    case (Some x)
    then show ?thesis
      by (simp add: valid.simps def_at schema_kmapi_CAPIClusterInfo_def capi_json_def conforms_struct fmlookup_of_list)
  qed
  show ?thesis
    unfolding valid.simps(2) [of ext "Suc k"] def_at
    by (cases "ci_managers ci")
      (auto simp: schema_kmapi_ClusterInfo_def clusterinfo_json_def conforms_struct fmlookup_of_list c list_all_iff managers_json_def)
qed

lemma bindspec_conforms:
  assumes "ext_ok ext" and "bindspec_json s = Inr j"
  shows "valid ext (Suc (Suc (Suc k))) (profile_v1alpha1 ''ManagedClusterProfileBindingSpec'') j \<longleftrightarrow>
     ci_capi (bs_cluster s) \<noteq> None \<and> ci_managers (bs_cluster s) \<noteq> None"
proof -
  from assms(2) obtain js where js: "fspecs_json (bs_features s) = Inr js"
    and j: "j = JObj (fmap_of_list
         ([(''profileRef'', JObj (fmap_of_list (opt_string ''name'' (bs_profile s)))),
           (''clusterMetadata'', clusterinfo_json (bs_cluster s))] @
          opt_string ''opscenterFeaturesVersion'' (bs_version s) @ features_field js))"
    by (auto simp: bindspec_json_def bindE_Inr_iff)
  have r: "valid ext (Suc (Suc k)) (core_v1 ''LocalObjectReference'') (JObj fmempty)"
     "valid ext (Suc (Suc k)) (core_v1 ''LocalObjectReference'') (JObj (fmupd ''name'' (JStr n) fmempty))" for n
    by (simp_all add: valid.simps def_at schema_core_v1_LocalObjectReference_def conforms_struct)
  from features_conform [OF assms(1) js, of k] show ?thesis
    unfolding valid.simps(2) [of ext "Suc (Suc k)"] def_at
    by (auto simp: j schema_v1alpha1_ManagedClusterProfileBindingSpec_def conforms_struct fmlookup_of_list features_field_def
        opt_string_def list_all_iff r clusterinfo_conforms)
qed

section \<open>Theorems\<close>

text \<open>
  C31: The specs the controllers write against the published schemas: the spec of a set
  profile always conforms; the spec of a binding conforms exactly when the cluster is a CAPI
  one and the list of its managers is there, if only empty, since the metadata of any other
  is written with a null where the schema wants an object or an array.
\<close>

theorem written_specs_conform:
  assumes "ext_ok ext" and "profspec_json nss p = Inr j" and "bindspec_json s = Inr j'"
  shows "valid ext (Suc (Suc (Suc k))) (profile_v1alpha1 ''ManagedClusterSetProfileSpec'') j \<and>
     (valid ext (Suc (Suc (Suc k))) (profile_v1alpha1 ''ManagedClusterProfileBindingSpec'') j' \<longleftrightarrow>
        ci_capi (bs_cluster s) \<noteq> None \<and> ci_managers (bs_cluster s) \<noteq> None)"
  using profspec_conforms [OF assms(1,2)] bindspec_conforms [OF assms(1,3)] by simp

definition capi_spec :: bindspec where
  "capi_spec =
     \<lparr> bs_profile = ''p'',
       bs_cluster = zero_clusterinfo\<lparr>ci_managers := Some [''CAPI''],
         ci_capi := Some \<lparr> ca_provider = ''capa'', ca_ns = ''ns'', ca_cluster = ''c'' \<rparr>\<rparr>,
       bs_version = ''v1'', bs_features = [(''kube-ui-server'', zero_fspec)] \<rparr>"

definition a_profile :: profile where
  "a_profile =
     \<lparr> om_name = ''p'', om_ns = '''', om_labels = Map.empty, om_annots = Map.empty, om_owners = [], om_created = 0,
       pr_features = [(''kube-ui-server'', zero_fspec)] \<rparr>"

theorem written_specs_conform_witness:
  "valid (\<lambda>n j. True) 3 (profile_v1alpha1 ''ManagedClusterProfileBindingSpec'') (projr (bindspec_json capi_spec)) \<and>
   \<not> valid (\<lambda>n j. True) 3 (profile_v1alpha1 ''ManagedClusterProfileBindingSpec'')
      (projr (bindspec_json (capi_spec\<lparr>bs_cluster := (bs_cluster capi_spec)\<lparr>ci_managers := None\<rparr>\<rparr>)))"
proof -
  obtain z where z: "fspec_json zero_fspec = Inr z"
    by (simp add: fspec_json_def values_json_def zero_fspec_def)
  let ?nil = "capi_spec\<lparr>bs_cluster := (bs_cluster capi_spec)\<lparr>ci_managers := None\<rparr>\<rparr>"
  obtain j' where b: "bindspec_json capi_spec = Inr j'" by (simp add: bindspec_json_def capi_spec_def z)
  obtain j'' where n: "bindspec_json ?nil = Inr j''" by (simp add: bindspec_json_def capi_spec_def z)
  obtain j where p: "profspec_json [] a_profile = Inr j" by (simp add: profspec_json_def a_profile_def z)
  have e: "ext_ok (\<lambda>n j. True)" by (simp add: ext_ok_def)
  from written_specs_conform [OF e p b, of 0] written_specs_conform [OF e p n, of 0] b n show ?thesis
    by (simp add: capi_spec_def numeral_3_eq_3)
qed

text \<open>
  C38: All 352 generated definitions are consistent. A definition lists as its dependencies
  exactly the types its schema refers to, each once; every node of the schema has a type of its
  own, a reference or a choice, names its properties once, requires only properties it has, and
  has a default of its own type; and the keys by which a list is merged, on the server or by a
  strategic patch, are properties of the type of its items.
\<close>

theorem definitions_consistent:
  "list_all (\<lambda>p. set (refs_of (od_schema (snd p))) = set (od_deps (snd p)) \<and> distinct (od_deps (snd p)) \<and>
       shape_ok (od_schema (snd p)) \<and> list_all declared (keys_of (od_schema (snd p))))
     (GetOpenAPIDefinitions id)"
  using registry_ok registry_keys by (auto simp: def_ok_def keys_declared_def list_all_iff)

text \<open>
  C39: The registry holds every type once, and is closed but for six names: whatever a
  definition depends on is registered itself, or one of six types of other packages, which
  are not registered; three of the six belong to FeatureSpec of the program itself.
\<close>

theorem registry_closed:
  "distinct (map fst (GetOpenAPIDefinitions id)) \<and>
   list_all (\<lambda>p. list_all (\<lambda>n. registered n \<or> n \<in> set dangling) (od_deps (snd p))) (GetOpenAPIDefinitions id) \<and>
   list_all (\<lambda>n. \<not> registered n) dangling \<and>
   filter (\<lambda>n. \<not> registered n) (od_deps (schema_v1alpha1_FeatureSpec id)) =
     [apiext_v1 ''JSON'', ui_v1alpha1 ''ChartInfo'', ui_v1alpha1 ''ValuesReference'']"
proof (intro conjI)
  show "distinct (map fst (GetOpenAPIDefinitions id))" by (rule registry_distinct)
  show "list_all (\<lambda>p. list_all (\<lambda>n. registered n \<or> n \<in> set dangling) (od_deps (snd p))) (GetOpenAPIDefinitions id)"
    using registry_leads_down by (simp add: leads_down_def resolved_def list_all_iff)
  show "list_all (\<lambda>n. \<not> registered n) dangling" by (simp add: dangling_def dangling_names)
  show "filter (\<lambda>n. \<not> registered n) (od_deps (schema_v1alpha1_FeatureSpec id)) =
     [apiext_v1 ''JSON'', ui_v1alpha1 ''ChartInfo'', ui_v1alpha1 ''ValuesReference'']"
    by (simp only: schema_v1alpha1_FeatureSpec_def deps_definition filter.simps dangling_names not_False_eq_True if_True)
qed

text \<open>
  C40: No chain of references comes back to where it started, and none is longer than twelve:
  checking a value against a type of the registry ends, and twelve unfoldings of references
  give the same answer as any larger number.
\<close>

theorem references_end: "acyclic refers_to \<and> valid ext (12 + k) n j = valid ext 12 n j"
proof
  show "acyclic refers_to" by (rule refers_to_acyclic)
  have t: "tier n \<le> 12" using tier_bounds [of n] by simp
  then have "valid ext (12 + k) n j = valid ext (tier n) n j" by (intro valid_stable) simp_all
  moreover have "valid ext 12 n j = valid ext (tier n) n j" using t by (intro valid_stable) simp_all
  ultimately show "valid ext (12 + k) n j = valid ext 12 n j" by simp
qed

lemma undeclared_props:
  "''opscenterFeaturesVersion'' \<notin> set (map fst (s_props (od_schema (schema_v1alpha1_ManagedClusterProfileBindingSpec ref))))"
  "''featureSet'' \<notin> set (map fst (s_props (od_schema (schema_v1alpha1_FeatureSpec ref))))"
  "set (map fst (s_props (od_schema (schema_v1alpha1_ManagedClusterProfileBindingStatus ref)))) =
     {''phase'', ''conditions'', ''observedGeneration'', ''manifestWorks''}"
  by (simp_all only: schema_v1alpha1_ManagedClusterProfileBindingSpec_def schema_v1alpha1_FeatureSpec_def
      schema_v1alpha1_ManagedClusterProfileBindingStatus_def props_definition list.map fst_conv list.set)
    (simp_all add: insert_commute)

lemma version_written:
  assumes "bs_version s \<noteq> ''''" and "bindspec_json s = Inr (JObj m)"
  shows "fmlookup m ''opscenterFeaturesVersion'' = Some (JStr (bs_version s))"
proof -
  from assms(2) obtain js where "m = fmap_of_list
         ([(''profileRef'', JObj (fmap_of_list (opt_string ''name'' (bs_profile s)))),
           (''clusterMetadata'', clusterinfo_json (bs_cluster s))] @
          opt_string ''opscenterFeaturesVersion'' (bs_version s) @ features_field js)"
    by (auto simp: bindspec_json_def bindE_Inr_iff)
  with assms(1) show ?thesis by (simp add: fmlookup_of_list opt_string_def)
qed

text \<open>
  The schemas lag behind the types: the version of a binding and the feature set of a
  feature, which the controllers write and act on, are properties of no schema, while the
  binding status has a manifestWorks property the type has not.
\<close>

theorem undeclared_fields:
  "''opscenterFeaturesVersion'' \<notin> set (map fst (s_props (od_schema (schema_v1alpha1_ManagedClusterProfileBindingSpec ref)))) \<and>
   ''featureSet'' \<notin> set (map fst (s_props (od_schema (schema_v1alpha1_FeatureSpec ref)))) \<and>
   set (map fst (s_props (od_schema (schema_v1alpha1_ManagedClusterProfileBindingStatus ref)))) =
     {''phase'', ''conditions'', ''observedGeneration'', ''manifestWorks''} \<and>
   (bs_version s \<noteq> '''' \<and> bindspec_json s = Inr (JObj m) \<longrightarrow>
      fmlookup m ''opscenterFeaturesVersion'' = Some (JStr (bs_version s)))"
  using version_written by (intro conjI impI undeclared_props; blast)

theorem undeclared_fields_witness:
  "fmlookup (case projr (bindspec_json (capi_spec\<lparr>bs_features := []\<rparr>)) of JObj m \<Rightarrow> m | _ \<Rightarrow> fmempty)
     ''opscenterFeaturesVersion'' = Some (JStr ''v1'')"
proof -
  obtain m where "bindspec_json (capi_spec\<lparr>bs_features := []\<rparr>) = Inr (JObj m)" by (simp add: bindspec_json_def)
  with undeclared_fields [of id "capi_spec\<lparr>bs_features := []\<rparr>" m] show ?thesis by (simp add: capi_spec_def)
qed

end
