(* ===== verification/Operator.thy ===== *)
theory Operator
  imports UpgradeRun SetController BindingController
begin

text \<open>
  How the program is put together (\<open>cmd/cluster-profile\<close>, \<open>pkg/cmds\<close>, \<open>pkg/utils\<close>, \<open>crds\<close> and
  the registration code of \<open>apis/profile\<close>): the command line, the manager with its two
  controllers, the schemes the clients work with and the embedded CRDs. Cobra, the controller
  runtime and YAML are parameters: a call to them is an event that may fail.
\<close>

section \<open>Schemes\<close>

text \<open>\<open>utilruntime.Must(x.AddToScheme(scheme))\<close>: a package whose types cannot be added is a panic.\<close>

fun must_add :: "(string \<Rightarrow> gerr option) \<Rightarrow> string list \<Rightarrow> string list \<Rightarrow> gerr + string list" where
  "must_add add scheme [] = Inr scheme"
| "must_add add scheme (pkg # pkgs) =
     (case add pkg of
        Some e \<Rightarrow> Inl (GoPanic pkg)
      | None \<Rightarrow> must_add add (scheme @ [pkg]) pkgs)"

definition manager_packages :: "string list" where
  "manager_packages =
     [''client-go/kubernetes/scheme'', ''profile/v1alpha1'', ''cluster/v1'', ''cluster/v1beta2'', ''work/v1'',
      ''work/v1alpha1'', ''ui/v1alpha1'', ''helm-controller/api/v2'', ''source-controller/api/v1'']"

definition fake_packages :: "string list" where
  "fake_packages =
     [''client-go/kubernetes/scheme'', ''core/v1'', ''helm-controller/api/v2'', ''source-controller/api/v1'', ''meta/v1'',
      ''cluster/v1'', ''rbac/v1'', ''ui/v1alpha1'', ''work/v1'', ''work/v1alpha1'', ''drivers/v1alpha1'']"

definition manager_scheme :: "(string \<Rightarrow> gerr option) \<Rightarrow> gerr + string list" where
  "manager_scheme add = must_add add [] manager_packages"

definition fake_scheme :: "(string \<Rightarrow> gerr option) \<Rightarrow> gerr + string list" where
  "fake_scheme add = must_add add [] fake_packages"

text \<open>\<open>Install\<close>: the types, then the version priority; either failing is a panic.\<close>

definition Install :: "(string \<Rightarrow> gerr option) \<Rightarrow> (string \<Rightarrow> gerr option) \<Rightarrow> string list \<Rightarrow> gerr + string list" where
  "Install add prioritize scheme =
     bindE (must_add add scheme [''profile/v1alpha1'']) (\<lambda>scheme.
       case prioritize ''profile.k8s.appscode.com/v1alpha1'' of
         Some e \<Rightarrow> Inl (GoPanic ''SetVersionPriority'') | None \<Rightarrow> Inr scheme)"

section \<open>Controllers\<close>

record controller =
  ct_name :: string
  ct_for :: string
  ct_watches :: "string list"
  ct_workers :: nat

definition setup_binding :: controller where
  "setup_binding =
     \<lparr> ct_name = ''ManagedClusterProfileBinding'', ct_for = ''ManagedClusterProfileBinding'',
       ct_watches = [''ManagedClusterSetProfile''], ct_workers = 3 \<rparr>"

definition setup_set :: controller where
  "setup_set =
     \<lparr> ct_name = ''ManagedClusterSetProfile'', ct_for = ''ManagedClusterSetProfile'',
       ct_watches = [''ManagedClusterSet''], ct_workers = 1 \<rparr>"

section \<open>The manager\<close>

record mgr_flags =
  mf_metrics :: string
  mf_leader :: bool
  mf_probe :: string
  mf_secure :: bool
  mf_http2 :: bool
  mf_registry :: string

definition default_flags :: mgr_flags where
  "default_flags =
     \<lparr> mf_metrics = ''0'', mf_leader = False, mf_probe = '':8081'', mf_secure = True, mf_http2 = False,
       mf_registry = '''' \<rparr>"

text \<open>
  \<open>strconv.ParseBool\<close>, and the flags of the command. The flags the log libraries add are the
  parameter \<open>other\<close>: \<open>None\<close> for a name they do not know, else whether the value is refused.
\<close>

type_synonym log_flags = "string \<Rightarrow> string \<Rightarrow> gerr option option"

definition parse_bool :: "string \<Rightarrow> bool option" where
  "parse_bool s =
     (if s \<in> {''1'', ''t'', ''T'', ''true'', ''TRUE'', ''True''} then Some True
      else if s \<in> {''0'', ''f'', ''F'', ''false'', ''FALSE'', ''False''} then Some False else None)"

definition set_flag :: "log_flags \<Rightarrow> string \<Rightarrow> string \<Rightarrow> mgr_flags \<Rightarrow> gerr + mgr_flags" where
  "set_flag other name v fl =
     (let b = (\<lambda>upd. case parse_bool v of None \<Rightarrow> Inl (ErrText ''invalid argument'') | Some x \<Rightarrow> Inr (upd x)) in
      if name = ''metrics-bind-address'' then Inr (fl\<lparr>mf_metrics := v\<rparr>)
      else if name = ''health-probe-bind-address'' then Inr (fl\<lparr>mf_probe := v\<rparr>)
      else if name = ''leader-elect'' then b (\<lambda>x. fl\<lparr>mf_leader := x\<rparr>)
      else if name = ''metrics-secure'' then b (\<lambda>x. fl\<lparr>mf_secure := x\<rparr>)
      else if name = ''enable-http2'' then b (\<lambda>x. fl\<lparr>mf_http2 := x\<rparr>)
      else if name = ''registryFQDN'' then Inr (fl\<lparr>mf_registry := v\<rparr>)
      else case other name v of
          None \<Rightarrow> Inl (ErrText ''unknown flag'') | Some (Some e) \<Rightarrow> Inl e | Some None \<Rightarrow> Inr fl)"

fun parse_flags :: "log_flags \<Rightarrow> (string \<times> string) list \<Rightarrow> mgr_flags \<Rightarrow> gerr + mgr_flags" where
  "parse_flags other [] fl = Inr fl"
| "parse_flags other ((n, v) # as) fl = bindE (set_flag other n v fl) (parse_flags other as)"

text \<open>A TLS option changes the protocols a server offers.\<close>

definition disableHTTP2 :: "string list \<Rightarrow> string list" where
  "disableHTTP2 protos = [''http/1.1'']"

definition tls_opts :: "mgr_flags \<Rightarrow> (string list \<Rightarrow> string list) list" where
  "tls_opts fl = (if \<not> mf_http2 fl then [disableHTTP2] else [])"

record mgr_options =
  mo_scheme :: "string list"
  mo_metrics :: string
  mo_secure :: bool
  mo_authorized :: bool
  mo_metrics_tls :: "(string list \<Rightarrow> string list) list"
  mo_webhook_tls :: "(string list \<Rightarrow> string list) list"
  mo_probe :: string
  mo_leader :: bool
  mo_leader_id :: string

definition manager_options :: "string list \<Rightarrow> mgr_flags \<Rightarrow> mgr_options" where
  "manager_options scheme fl =
     \<lparr> mo_scheme = scheme, mo_metrics = mf_metrics fl, mo_secure = mf_secure fl, mo_authorized = mf_secure fl,
       mo_metrics_tls = tls_opts fl, mo_webhook_tls = tls_opts fl, mo_probe = mf_probe fl, mo_leader = mf_leader fl,
       mo_leader_id = ''d68cc945.k8s.appscode.com'' \<rparr>"

datatype mgr_call =
    GetConfig
  | NewManager mgr_options
  | SetupWithManager controller
  | AddHealthzCheck string
  | AddReadyzCheck string
  | Start

text \<open>Calls in order, each with the message it is logged with when it fails and the program exits.\<close>

fun run_calls :: "(mgr_call \<Rightarrow> gerr option) \<Rightarrow> (mgr_call \<times> string) list \<Rightarrow> mgr_call list \<times> string option" where
  "run_calls env [] = ([], None)"
| "run_calls env ((c, msg) # cs) =
     (case env c of
        Some e \<Rightarrow> ([c], Some msg)
      | None \<Rightarrow> (case run_calls env cs of (made, r) \<Rightarrow> (c # made, r)))"

definition manager_calls :: "string list \<Rightarrow> mgr_flags \<Rightarrow> (mgr_call \<times> string) list" where
  "manager_calls scheme fl =
     [(GetConfig, ''unable to get kubeconfig''),
      (NewManager (manager_options scheme fl), ''unable to start manager''),
      (SetupWithManager setup_set, ''unable to create controller''),
      (SetupWithManager setup_binding, ''unable to create controller''),
      (AddHealthzCheck ''healthz'', ''unable to set up health check''),
      (AddReadyzCheck ''readyz'', ''unable to set up ready check''),
      (Start, ''problem running manager'')]"

text \<open>The command: parse the flags, then run; \<open>Inr\<close> holds the calls made and the exit message.\<close>

definition NewCmdManager ::
  "log_flags \<Rightarrow> string list \<Rightarrow> (mgr_call \<Rightarrow> gerr option) \<Rightarrow> (string \<times> string) list \<Rightarrow>
     gerr + mgr_call list \<times> string option" where
  "NewCmdManager other scheme env args =
     bindE (parse_flags other args default_flags) (\<lambda>fl. Inr (run_calls env (manager_calls scheme fl)))"

section \<open>The command line\<close>

record command =
  cmd_use :: string
  cmd_short :: string
  cmd_subs :: "string list"

definition NewRootCmd :: command where
  "NewRootCmd =
     \<lparr> cmd_use = ''cluster-profile [command]'', cmd_short = ''OCM Cluster Auth Addon'', cmd_subs = [''version'', ''manager''] \<rparr>"

text \<open>The process: its \<open>GOMAXPROCS\<close> and whether logs are flushed when it ends.\<close>

record process =
  ps_procs :: nat
  ps_flushed :: bool

definition realMain :: "string \<Rightarrow> nat \<Rightarrow> (command \<Rightarrow> gerr option) \<Rightarrow> process \<Rightarrow> gerr option \<times> process" where
  "realMain gomaxprocs cpus execute p =
     (let p = (if length gomaxprocs = 0 then p\<lparr>ps_procs := cpus\<rparr> else p)
      in (execute NewRootCmd, p\<lparr>ps_flushed := True\<rparr>))"

definition main_exit :: "gerr option \<Rightarrow> nat" where
  "main_exit r = (case r of None \<Rightarrow> 0 | Some e \<Rightarrow> 255)"

record versioninfo =
  vi_version :: string
  vi_strategy :: string
  vi_tag :: string
  vi_branch :: string
  vi_hash :: string
  vi_timestamp :: string
  vi_go :: string
  vi_compiler :: string
  vi_platform :: string

definition init_version :: "versioninfo \<Rightarrow> versioninfo \<Rightarrow> versioninfo" where
  "init_version b v =
     v\<lparr>vi_version := vi_version b, vi_strategy := vi_strategy b, vi_tag := vi_tag b, vi_branch := vi_branch b,
       vi_hash := vi_hash b, vi_timestamp := vi_timestamp b, vi_go := vi_go b, vi_compiler := vi_compiler b,
       vi_platform := vi_platform b\<rparr>"

section \<open>Embedded CRDs\<close>

type_synonym gvr = "string \<times> string \<times> string" \<comment> \<open>group, version, resource\<close>

text \<open>\<open>fs\<close> is the embedded file system; decoding yields a CRD, or nil for an empty document.\<close>

definition load_crd :: "(string \<Rightarrow> string option) \<Rightarrow> (string \<Rightarrow> gerr + 'crd option) \<Rightarrow> string \<Rightarrow> gerr + 'crd option" where
  "load_crd fs yaml filename =
     (case fs filename of None \<Rightarrow> Inl (ErrText (''open '' @ filename)) | Some dat \<Rightarrow> yaml dat)"

definition CustomResourceDefinition ::
  "(string \<Rightarrow> string option) \<Rightarrow> (string \<Rightarrow> gerr + 'crd option) \<Rightarrow> gvr \<Rightarrow> gerr + 'crd" where
  "CustomResourceDefinition fs yaml g =
     (case g of (grp, vers, res) \<Rightarrow>
        bindE (load_crd fs yaml (grp @ ''_'' @ res @ ''.yaml'')) (\<lambda>v1. case v1 of
          None \<Rightarrow> Inl (ErrText ''missing crd yamls for gvr'') | Some crd \<Rightarrow> Inr crd))"

definition MustCustomResourceDefinition ::
  "(string \<Rightarrow> string option) \<Rightarrow> (string \<Rightarrow> gerr + 'crd option) \<Rightarrow> gvr \<Rightarrow> gerr + 'crd" where
  "MustCustomResourceDefinition fs yaml g =
     (case CustomResourceDefinition fs yaml g of Inl e \<Rightarrow> Inl (GoPanic ''MustCustomResourceDefinition'') | Inr c \<Rightarrow> Inr c)"

definition SchemeGroupVersion :: "string \<times> string" where
  "SchemeGroupVersion = (''profile.k8s.appscode.com'', ''v1alpha1'')"

definition WithResource :: "string \<Rightarrow> gvr" where
  "WithResource resource = (fst SchemeGroupVersion, snd SchemeGroupVersion, resource)"

definition Resource :: "string \<Rightarrow> string \<times> string" where
  "Resource resource = (case WithResource resource of (g, v, r) \<Rightarrow> (g, r))"

definition ResourceManagedClusterProfileBindings :: string where
  "ResourceManagedClusterProfileBindings = ''managedclusterprofilebindings''"

definition ResourceManagedClusterSetProfiles :: string where
  "ResourceManagedClusterSetProfiles = ''managedclustersetprofiles''"

definition binding_crd :: "(string \<Rightarrow> string option) \<Rightarrow> (string \<Rightarrow> gerr + 'crd option) \<Rightarrow> gerr + 'crd" where
  "binding_crd fs yaml = MustCustomResourceDefinition fs yaml (WithResource ResourceManagedClusterProfileBindings)"

definition profile_crd :: "(string \<Rightarrow> string option) \<Rightarrow> (string \<Rightarrow> gerr + 'crd option) \<Rightarrow> gerr + 'crd" where
  "profile_crd fs yaml = MustCustomResourceDefinition fs yaml (WithResource ResourceManagedClusterSetProfiles)"

text \<open>The files \<open>*.yaml\<close> of the directory at this commit.\<close>

definition embedded_files :: "string list" where
  "embedded_files =
     [''profile.k8s.appscode.com_managedclusterprofilebindings.yaml'',
      ''profile.k8s.appscode.com_managedclustersetprofiles.yaml'']"

section \<open>What the manager guarantees\<close>

lemma run_calls_made:
  "c \<in> set (fst (run_calls env cs)) \<Longrightarrow> c \<in> fst ` set cs"
  by (induction cs) (auto split: option.splits prod.splits)

lemma run_calls_ok: "snd (run_calls env cs) = None \<longleftrightarrow> (\<forall>c \<in> fst ` set cs. env c = None)"
  by (induction cs) (auto split: option.splits prod.splits)

lemma must_add_Inr: "must_add add s ps = Inr s' \<Longrightarrow> s' = s @ ps \<and> (\<forall>p \<in> set ps. add p = None)"
  by (induction ps arbitrary: s) (fastforce split: option.splits)+

text \<open>
  C37: The manager starts exactly when the cluster configuration was found, the manager was
  created, and both controllers and both probes were set up; the program runs on without an
  exit message exactly when every call succeeds; and unless HTTP/2 is asked for, the metrics
  and the webhook server offer HTTP/1.1 alone.
\<close>

theorem manager_starts_last:
  assumes "parse_flags other args default_flags = Inr fl" and "NewCmdManager other scheme env args = Inr (made, exit)"
  shows "(Start \<in> set made \<longleftrightarrow>
       env GetConfig = None \<and> env (NewManager (manager_options scheme fl)) = None \<and> env (SetupWithManager setup_set) = None \<and>
       env (SetupWithManager setup_binding) = None \<and> env (AddHealthzCheck ''healthz'') = None \<and>
       env (AddReadyzCheck ''readyz'') = None) \<and>
     (exit = None \<longleftrightarrow> Start \<in> set made \<and> env Start = None) \<and>
     (mf_http2 fl \<or>
       (\<forall>protos. fold (\<lambda>g. g) (mo_metrics_tls (manager_options scheme fl)) protos = [''http/1.1''] \<and>
                 fold (\<lambda>g. g) (mo_webhook_tls (manager_options scheme fl)) protos = [''http/1.1'']))"
  using assms
  by (auto simp: NewCmdManager_def manager_calls_def manager_options_def tls_opts_def disableHTTP2_def
      split: option.splits)

theorem manager_starts_last_witness:
  "NewCmdManager (\<lambda>n v. None) [] (\<lambda>c. if c = AddReadyzCheck ''readyz'' then Some ErrExists else None) [(''leader-elect'', ''true'')] =
     Inr ([GetConfig, NewManager (manager_options [] (default_flags\<lparr>mf_leader := True\<rparr>)), SetupWithManager setup_set,
           SetupWithManager setup_binding, AddHealthzCheck ''healthz'', AddReadyzCheck ''readyz''],
          Some ''unable to set up ready check'') \<and>
   fold (\<lambda>g. g) (mo_webhook_tls (manager_options [] (default_flags\<lparr>mf_leader := True\<rparr>))) [''h2''] = [''http/1.1'']"
proof -
  let ?env = "\<lambda>c. if c = AddReadyzCheck ''readyz'' then Some ErrExists else None"
  have p: "parse_flags (\<lambda>n v. None) [(''leader-elect'', ''true'')] default_flags = Inr (default_flags\<lparr>mf_leader := True\<rparr>)"
    by (simp add: set_flag_def parse_bool_def Let_def)
  have r: "NewCmdManager (\<lambda>n v. None) [] ?env [(''leader-elect'', ''true'')] =
     Inr ([GetConfig, NewManager (manager_options [] (default_flags\<lparr>mf_leader := True\<rparr>)), SetupWithManager setup_set,
           SetupWithManager setup_binding, AddHealthzCheck ''healthz'', AddReadyzCheck ''readyz''],
          Some ''unable to set up ready check'')"
    unfolding NewCmdManager_def p by (simp add: manager_calls_def)
  from manager_starts_last [OF p r] r show ?thesis by (auto simp: default_flags_def)
qed

text \<open>The kinds each client reads and writes, with the package of their types.\<close>

definition hub_kinds :: "(string \<times> string) list" where
  "hub_kinds =
     [(''ManagedClusterProfileBinding'', ''profile/v1alpha1''), (''ManagedClusterSetProfile'', ''profile/v1alpha1''),
      (''ManagedCluster'', ''cluster/v1''), (''ManagedClusterSet'', ''cluster/v1beta2''), (''ManifestWork'', ''work/v1''),
      (''ManifestWorkReplicaSet'', ''work/v1alpha1''), (''Feature'', ''ui/v1alpha1''),
      (''ConfigMap'', ''client-go/kubernetes/scheme'')]"

definition fake_kinds :: "(string \<times> string) list" where
  "fake_kinds =
     [(''Feature'', ''ui/v1alpha1''), (''FeatureSet'', ''ui/v1alpha1''), (''HelmRelease'', ''helm-controller/api/v2''),
      (''HelmRepository'', ''source-controller/api/v1''), (''AppRelease'', ''drivers/v1alpha1'')]"

text \<open>
  When the schemes come up without a panic, every kind the reconcilers handle on the hub is
  known to the manager's client, every kind they handle on the fake server to its client, and
  the CRDs of both of the program's kinds are among the embedded files.
\<close>

theorem kinds_are_registered:
  assumes "manager_scheme add = Inr ms" and "fake_scheme add = Inr fs"
    and "\<And>f. f \<in> set embedded_files \<Longrightarrow> file f = Some f" and "\<And>s. yaml s = Inr (Some s)"
  shows "snd ` set hub_kinds \<subseteq> set ms \<and> snd ` set fake_kinds \<subseteq> set fs \<and>
     binding_crd file yaml = Inr ''profile.k8s.appscode.com_managedclusterprofilebindings.yaml'' \<and>
     profile_crd file yaml = Inr ''profile.k8s.appscode.com_managedclustersetprofiles.yaml''"
proof -
  have "ms = manager_packages" "fs = fake_packages"
    using must_add_Inr assms(1,2) by (force simp: manager_scheme_def fake_scheme_def)+
  moreover have "file ''profile.k8s.appscode.com_managedclusterprofilebindings.yaml'' =
       Some ''profile.k8s.appscode.com_managedclusterprofilebindings.yaml''"
     "file ''profile.k8s.appscode.com_managedclustersetprofiles.yaml'' =
       Some ''profile.k8s.appscode.com_managedclustersetprofiles.yaml''"
    using assms(3) by (simp_all add: embedded_files_def)
  ultimately show ?thesis
    using assms(4)
    by (simp add: hub_kinds_def fake_kinds_def manager_packages_def fake_packages_def binding_crd_def profile_crd_def
        MustCustomResourceDefinition_def CustomResourceDefinition_def WithResource_def SchemeGroupVersion_def load_crd_def
        ResourceManagedClusterProfileBindings_def ResourceManagedClusterSetProfiles_def)
qed

theorem kinds_are_registered_witness:
  "snd ` set hub_kinds \<subseteq> set manager_packages \<and> snd ` set fake_kinds \<subseteq> set fake_packages"
proof -
  have "manager_scheme (\<lambda>p. None) = Inr manager_packages" "fake_scheme (\<lambda>p. None) = Inr fake_packages"
    by (simp_all add: manager_scheme_def fake_scheme_def manager_packages_def fake_packages_def)
  from kinds_are_registered [OF this, of Some "\<lambda>s. Inr (Some s)"] show ?thesis by simp
qed

end
