(* ===== verification/Spec2Isabelle.thy ===== *)
theory Spec2Isabelle
  imports UpgradeMachine Rollout SingleRun SourceTests ValuesFacts DeepCopy OpenApi Operator
begin

text \<open>
  A verification library for the cluster profile manager (\<open>kluster-manager/cluster-profile\<close>),
  an operator on a hub cluster that decides which features (Helm charts) the clusters of a
  ManagedClusterSet run, and ships them as HelmReleases inside ManifestWorks.

  \<^bold>\<open>The program.\<close> Two controllers run in one manager (\<open>pkg/cmds\<close>). The controller of a
  ManagedClusterSetProfile gives every cluster of its set a ManagedClusterProfileBinding in
  the cluster's namespace (\<open>pkg/controller/managedclustersetprofile_controller.go\<close>). The
  controller of a binding (\<open>managedclusterprofilebinding_controller.go\<close>) either upgrades the
  cluster (\<open>pkg/cluster_upgrade\<close>) or enables its features (\<open>pkg/feature_installer\<close>), and
  records the version it finds shipped. Both work renders charts on a fake API server and
  copies what came out into ManifestWorks. An upgrade is not waited for: its targets are
  recorded in a ConfigMap, and later reconciles observe them until they are ready or thirty
  minutes have passed.

  \<^bold>\<open>The model.\<close> A program over the hub is a function from a state to an error or a value and
  a new state (\<open>prog\<close>, theory \<open>Prelude\<close>). The hub is the record \<open>world\<close> of \<open>HubApi\<close>: one
  list of objects per kind, the clock, a supply of random suffixes and a script of faults,
  one entry per API call, so that a theorem that does not assume \<open>no_faults\<close> holds whichever
  calls fail. Go structs are records (\<open>ProfileTypes\<close>), Go maps are partial maps, or
  association lists where their iteration order reaches the result, nil pointers are \<open>None\<close>,
  64-bit integers are words, errors are the datatype \<open>gerr\<close>, and a Go panic or an exit of the
  process is an error of its own. What the program calls but does not contain (the fake server
  and its Helm engine, the typed codecs of HelmRelease, the chart registry, the client
  constructors, gob) are the fields of \<open>fakeenv\<close> and \<open>hr_codec\<close>, arguments of every definition
  that uses them. So is the order in which each \<open>range\<close> over a map visits its entries, one
  field for the five loops (\<open>range_order\<close>).

  \<^bold>\<open>What is assumed of them.\<close> Theorems that need more than this name it as a hypothesis.
  \<open>codec_ok\<close> (an encoded HelmRelease decodes to itself) and \<open>stable_id\<close> (decoding and encoding a
  HelmRelease keeps its name) speak of the codec; \<open>checkpointed_server\<close> of the fake server: it
  exports what was written since its last checkpoint and forgets nothing else at one;
  \<open>keeps_release\<close>: no chart removes the release in question. \<open>hub_free\<close> and \<open>core_released\<close> are
  conditions on what the hub holds: no HelmRelease is named as the status key of the upgrade's
  ConfigMap, and opscenter-features is the name of a HelmRelease.

  \<^bold>\<open>The theories.\<close>
  \<^item> \<open>Prelude\<close>: programs, their bind laws, triples \<open>triple P m Q E\<close> and \<open>keeps\<close>.
  \<^item> \<open>GoJson\<close>, \<open>JsonText\<close>: JSON values, the nested accessors, \<open>MergeMaps\<close> and \<open>pruneNulls\<close>;
    printing and reading, with the round trip and enough fuel for the reader (the length of
    the text). \<open>TargetText\<close>: the targets annotation, written and read back.
  \<^item> \<open>GoTime\<close>: \<open>time.Parse\<close> of RFC 3339 and the whole seconds the API server keeps.
  \<^item> \<open>ProfileTypes\<close>, \<open>HubApi\<close>: the objects; get, list, create, patch, delete and
    \<open>CreateOrPatch\<close> over a store whose laws are the locale \<open>object_store\<close>, interpreted for
    the lists of the hub, and the locale of one kind, interpreted for every kind.
  \<^item> \<open>Manifests\<close>: reading manifests and the reports of the work agent
    (\<open>helmReleaseReady\<close>, \<open>ensureHelmReleaseFeedbackRules\<close> of \<open>upgrader_helper.go\<close>).
  \<^item> \<open>UpgradeRun\<close>: the run of an upgrade in its ConfigMap (the rest of \<open>upgrader_helper.go\<close>):
    find, record, observe, finish, create; outcome of an observation, safety under faults.
  \<^item> \<open>FakeApi\<close>: what is done with the fake server before it is read
    (\<open>helpers.go\<close>, \<open>opscenter_features.go\<close>). \<open>ValuesFacts\<close>: the override values exactly.
  \<^item> \<open>UpgradeApply\<close>: \<open>upgrader.go\<close>, both rewriting loops, \<open>applyUpgrade\<close> and
    \<open>UpgradeCluster\<close>; values and targets of a rewritten release, the recorded run is resumed.
  \<^item> \<open>UpgradeMachine\<close>: the contract of the upgrade as a machine of three phases, the proof
    that \<open>UpgradeCluster\<close> refines it over any number of reconciles, that a recorded run ends
    whatever the manifests hold, and the integer bound on generations.
  \<^item> \<open>FeatureRules\<close>: requirement closure, exclusion groups, feature status and dependencies
    (\<open>enable_featureset.go\<close>, \<open>helpers.go\<close>); the closure against the reflexive transitive
    closure of requirements, and its termination.
  \<^item> \<open>FeatureInstall\<close>, \<open>InstallFacts\<close>: \<open>EnableFeatures\<close> and all it calls; what it ships, with the
    checkpoints of the fake server followed from one feature set to the next, what it prunes,
    read off the JSON of the manifests, and that the user's values win.
  \<^item> \<open>BindingController\<close>, \<open>Frames\<close>, \<open>BindingFacts\<close>: the reconcile of a binding; what each of
    its steps leaves alone under any faults; what it may write, when it records the version,
    and its error paths.
  \<^item> \<open>SetController\<close>, \<open>SetFacts\<close>: the reconcile of a set profile, namespace by namespace; that
    it settles, keeps what users wrote, and deletes the profile of a set that is gone.
  \<^item> \<open>Views\<close>: programs that work on the view of one namespace, and the locales \<open>namespaced\<close> and
    \<open>cluster_wide\<close> that say what a kind must promise for that, interpreted for the kinds of
    the hub. \<open>Isolation\<close>: every operation of a reconcile stays in the namespace of its binding.
    \<open>Interleaving\<close>: so reconciles of different clusters commute.
  \<^item> \<open>System\<close>: the controllers together, as histories of events on one hub: what users asked for
    survives, a cluster changes only through its own reconciles, and a cluster that joins a
    set gets the profile in one pass of the two controllers.
  \<^item> \<open>Rollout\<close>: an upgrade end to end, along a history: the reconcile that applies it ships the
    wanted version whatever else it rewrites, and once the releases it recorded are reported
    ready the next one leaves a binding that needs none, whatever other clusters do between.
  \<^item> \<open>SingleRun\<close>: a cluster never has more than one upgrade on record, whichever calls fail.
  \<^item> \<open>SourceTests\<close>: every case of the tables in \<open>upgrader_helper_test.go\<close> and
    \<open>upgrader_test.go\<close>, evaluated on the definitions that model the functions under test.
  \<^item> \<open>DeepCopy\<close>: the generated deep copies over a heap of cells, every one an interpretation
    of the locale \<open>copier\<close> (same meaning, nothing shared).
  \<^item> \<open>OpenApiSchema\<close>: schemas, their definitions, and what it means for a value to conform.
    \<open>OpenApiProfile\<close>, \<open>OpenApiCoreA\<close>, \<open>OpenApiCoreB\<close>, \<open>OpenApiMeta\<close>, \<open>OpenApiKmodules\<close>: the 352
    generated definitions of \<open>openapi_generated.go\<close>, by package. \<open>OpenApiRegistry\<close>: the
    registry \<open>GetOpenAPIDefinitions\<close>, its names, its references and their tiers. \<open>OpenApi\<close>: every
    definition is consistent, the references resolve and end, and which of the specs the
    controllers write conform.
  \<^item> \<open>Operator\<close>: command line, manager, schemes, embedded CRDs, clients.

  \<^bold>\<open>Bounds and fuel.\<close> The requirement worklist runs on fuel: \<open>addRequiredFeatures_terminates\<close>
  gives an amount that is enough, the number of listed features and of features the server
  knows. References between schemas are unfolded to a depth of fuel; \<open>references_end\<close> shows by a
  tier for every definition that twelve unfoldings are enough for all of them.
  Polling for HelmReleases is bounded by timeout and interval, as in the code. Everything else
  is structural recursion.

  \<^bold>\<open>Not modelled.\<close> Logging, contexts and cancellation. Resource versions, watches and
  finalizers of the API server: two writers that race show up as a fault of a call only. The
  cache the manager reads through, so a read sees every earlier write, and a list has the order
  of the store; that a JSON merge patch takes a null in the values of a feature for a deletion.
  Along a history one \<open>fakeenv\<close> serves all reconciles, so each loop over a map keeps its order.
  The interleaving of reconciles call by call: the manager runs up to three of different
  bindings at once, and \<open>System\<close> takes each of them as one step; \<open>Interleaving\<close> shows that
  those of different clusters see nothing of one another. Descriptions in the OpenAPI
  schemas. The fuzzer of the API types and import-only files. Vendored libraries, but for the
  functions named in the map.
\<close>

end
